(* ===== verification/Prelude.thy ===== *)
theory Prelude
  imports Main "HOL-Library.List_Lexorder" "HOL-Library.Char_ord" "HOL-Library.Multiset"
begin

text \<open>
  Shared vocabulary of the development: the JavaScript strings, arrays and maps the code
  uses, and the generic facts about them.

  A JavaScript string is a list of UTF-16 code units; the model covers the code units
  0 to 255, one \<^typ>\<open>char\<close> each, so that \<open>length\<close>, slicing and comparison are those
  of the source. An array is a list. A JavaScript \<open>Map\<close> is an association list in
  insertion order (\<open>js_set\<close>, \<open>map_of\<close>). \<open>Array.prototype.sort\<close> is the stable
  insertion sort \<open>js_sort\<close>; the locale \<open>keyed_comparator\<close> is the contract of a
  comparator, and its client lemmas say what sorting with it gives.
\<close>

named_theorems js_simps \<open>defining equations of the JavaScript library functions\<close>

subsection \<open>Strings\<close>

definition starts_with :: "string \<Rightarrow> string \<Rightarrow> bool" where
  "starts_with s p \<longleftrightarrow> take (length p) s = p"

lemma starts_with_iff: "starts_with s p \<longleftrightarrow> (\<exists>r. s = p @ r)"
  by (metis append_eq_conv_conj append_take_drop_id starts_with_def)

lemma starts_with_append [simp]: "starts_with (p @ r) p"
  by (simp add: starts_with_def)

definition char_code :: "char \<Rightarrow> nat" where
  "char_code c = of_char c"

lemma char_code_less [simp]: "char_code c < 256"
  by (simp add: char_code_def)

lemma char_code_inject [simp]: "char_code a = char_code b \<longleftrightarrow> a = b"
  by (simp add: char_code_def)

lemma char_of_code [simp]: "char_of (char_code c) = c"
  by (simp add: char_code_def)

lemma code_of_char: "n < 256 \<Longrightarrow> char_code (char_of n) = n"
  by (simp add: char_code_def)

text \<open>
  The characters \<open>String.prototype.trim\<close> removes, within code units 0 to 255:
  tab, line feed, vertical tab, form feed, carriage return, space, no-break space.
\<close>

definition js_space :: "char \<Rightarrow> bool" where
  "js_space c \<longleftrightarrow> char_code c \<in> {9, 10, 11, 12, 13, 32, 160}"

definition js_trim :: "string \<Rightarrow> string" where
  "js_trim s = rev (dropWhile js_space (rev (dropWhile js_space s)))"

definition nl :: char where
  "nl = CHR 0x0A"

text \<open>\<open>s.split(c)\<close> for a one-character separator.\<close>

fun js_split :: "char \<Rightarrow> string \<Rightarrow> string list" where
  "js_split c [] = [[]]"
| "js_split c (x # xs) =
     (if x = c then [] # js_split c xs
      else case js_split c xs of [] \<Rightarrow> [[x]] | l # ls \<Rightarrow> (x # l) # ls)"

lemma js_split_nonempty [simp]: "js_split c s \<noteq> []"
  by (cases s) (auto split: list.splits)

lemma js_split_none: "c \<notin> set s \<Longrightarrow> js_split c s = [s]"
  by (induction s) auto

lemma js_split_append: "c \<notin> set s \<Longrightarrow> js_split c (s @ c # r) = s # js_split c r"
  by (induction s) auto

lemma js_split_append_first:
  "c \<notin> set s \<Longrightarrow> js_split c (s @ r) = (s @ hd (js_split c r)) # tl (js_split c r)"
  by (induction s) (auto split: list.splits)

lemma js_trim_nonblank:
  assumes "x \<in> set s" "\<not> js_space x"
  shows "js_trim s \<noteq> []"
proof -
  have keep: "x \<in> set (dropWhile js_space t)" if "x \<in> set t" for t
    using that assms(2) by (induction t) auto
  have "x \<in> set (js_trim s)"
    unfolding js_trim_def using keep [OF assms(1)] keep by simp
  then show ?thesis by auto
qed

lemma js_trim_Nil_iff: "js_trim s = [] \<longleftrightarrow> list_all js_space s"
proof
  assume "js_trim s = []"
  then show "list_all js_space s"
    using js_trim_nonblank by (fastforce simp: list_all_iff)
next
  assume "list_all js_space s"
  then have "dropWhile js_space s = []"
    by (induction s) (auto simp: list_all_iff)
  then show "js_trim s = []"
    by (simp only: js_trim_def rev.simps dropWhile.simps)
qed

subsection \<open>Maps in insertion order\<close>

text \<open>
  \<open>Map.prototype.set\<close>: a new key goes to the end, an existing key keeps its place.
  \<open>Map.prototype.get\<close> is the library's \<open>map_of\<close>.
\<close>

fun js_set :: "'k \<Rightarrow> 'v \<Rightarrow> ('k \<times> 'v) list \<Rightarrow> ('k \<times> 'v) list" where
  "js_set k v [] = [(k, v)]"
| "js_set k v ((k', v') # m) = (if k = k' then (k, v) # m else (k', v') # js_set k v m)"

lemma map_of_js_set [simp]: "map_of (js_set k v m) = (map_of m)(k \<mapsto> v)"
  by (induction m) (auto simp: fun_eq_iff)

lemma keys_js_set: "fst ` set (js_set k v m) = insert k (fst ` set m)"
proof (induction m)
  case (Cons p m)
  then show ?case by (cases p) auto
qed simp

lemma distinct_js_set [intro]: "distinct (map fst m) \<Longrightarrow> distinct (map fst (js_set k v m))"
  by (induction m) (auto simp: keys_js_set split: if_splits)

lemma js_set_fresh: "k \<notin> fst ` set m \<Longrightarrow> js_set k v m = m @ [(k, v)]"
  by (induction m) auto

lemma set_js_set:
  "distinct (map fst m) \<Longrightarrow> set (js_set k v m) = insert (k, v) {p \<in> set m. fst p \<noteq> k}"
proof (induction m)
  case (Cons p m)
  then show ?case by (cases p) force
qed simp

text \<open>\<open>new Map(items.map(i => [key(i), i]))\<close> and the loops that fill a map one by one.\<close>

definition js_index :: "('a \<Rightarrow> 'k) \<Rightarrow> ('a \<Rightarrow> 'v) \<Rightarrow> 'a list \<Rightarrow> ('k \<times> 'v) list \<Rightarrow> ('k \<times> 'v) list" where
  "js_index f g xs m = foldl (\<lambda>acc x. js_set (f x) (g x) acc) m xs"

lemma js_index_simps [simp]:
  "js_index f g [] m = m"
  "js_index f g (x # xs) m = js_index f g xs (js_set (f x) (g x) m)"
  by (simp_all add: js_index_def)

lemma keys_js_index: "fst ` set (js_index f g xs m) = f ` set xs \<union> fst ` set m"
  by (induction xs arbitrary: m) (auto simp: keys_js_set)

lemma distinct_js_index: "distinct (map fst m) \<Longrightarrow> distinct (map fst (js_index f g xs m))"
  by (induction xs arbitrary: m) auto

lemma find_append: "find P (ys @ zs) = (case find P ys of Some y \<Rightarrow> Some y | None \<Rightarrow> find P zs)"
  by (induction ys) auto

lemma map_of_js_index:
  "map_of (js_index f g xs m) k =
     (case find (\<lambda>x. f x = k) (rev xs) of Some x \<Rightarrow> Some (g x) | None \<Rightarrow> map_of m k)"
proof (induction xs arbitrary: m)
  case (Cons x xs)
  then show ?case by (auto simp: find_append split: option.splits)
qed simp

subsection \<open>Stable sorting with a comparator\<close>

text \<open>
  \<open>Array.prototype.sort\<close> is stable. On a comparator that satisfies the contract below,
  every stable sort gives the same list on distinct keys, so the insertion sort is the
  library's result.
\<close>

fun js_insert :: "('a \<Rightarrow> 'a \<Rightarrow> int) \<Rightarrow> 'a \<Rightarrow> 'a list \<Rightarrow> 'a list" where
  "js_insert cmp x [] = [x]"
| "js_insert cmp x (y # ys) = (if 0 < cmp y x then x # y # ys else y # js_insert cmp x ys)"

definition js_sort :: "('a \<Rightarrow> 'a \<Rightarrow> int) \<Rightarrow> 'a list \<Rightarrow> 'a list" where
  "js_sort cmp xs = foldl (\<lambda>acc x. js_insert cmp x acc) [] xs"

lemma mset_js_insert [simp]: "mset (js_insert cmp x ys) = add_mset x (mset ys)"
  by (induction ys) auto

lemma mset_foldl_js_insert: "mset (foldl (\<lambda>acc x. js_insert cmp x acc) ys xs) = mset ys + mset xs"
  by (induction xs arbitrary: ys) auto

lemma mset_js_sort [simp]: "mset (js_sort cmp xs) = mset xs"
  by (simp add: js_sort_def mset_foldl_js_insert)

lemma set_js_sort [simp]: "set (js_sort cmp xs) = set xs"
  by (metis mset_js_sort set_mset_mset)

lemma length_js_sort [simp]: "length (js_sort cmp xs) = length xs"
  by (metis mset_js_sort size_mset)

lemma distinct_js_sort: "distinct (map f (js_sort cmp xs)) \<longleftrightarrow> distinct (map f xs)"
  by (metis mset_eq_imp_distinct_iff mset_js_sort mset_map)

text \<open>
  The contract of a comparator: its sign follows a key. Nothing is asked of two elements
  with equal keys, so a comparator that never answers 0 satisfies it too.
\<close>

locale keyed_comparator =
  fixes cmp :: "'a \<Rightarrow> 'a \<Rightarrow> int" and key :: "'a \<Rightarrow> 'k::linorder"
  assumes cmp_less: "key x < key y \<Longrightarrow> cmp x y < 0"
    and cmp_greater: "key y < key x \<Longrightarrow> 0 < cmp x y"
begin

lemma not_pos_le: "\<not> 0 < cmp x y \<Longrightarrow> key x \<le> key y"
  using cmp_greater by (meson not_le)

lemma pos_le: "0 < cmp x y \<Longrightarrow> key y \<le> key x"
  using cmp_less by (meson not_le not_less_iff_gr_or_eq)

lemma sorted_insert: "sorted (map key ys) \<Longrightarrow> sorted (map key (js_insert cmp x ys))"
proof (induction ys)
  case (Cons y ys)
  have s: "set (js_insert cmp x ys) = insert x (set ys)" for ys
    using mset_js_insert [of cmp x ys] by (metis set_mset_add_mset_insert set_mset_mset)
  from Cons show ?case by (auto simp: s dest: not_pos_le pos_le intro: order_trans)
qed simp

lemma sorted_foldl:
  "sorted (map key ys) \<Longrightarrow> sorted (map key (foldl (\<lambda>acc x. js_insert cmp x acc) ys xs))"
  by (induction xs arbitrary: ys) (auto intro: sorted_insert)

lemma sorted_sort: "sorted (map key (js_sort cmp xs))"
  by (simp add: js_sort_def sorted_foldl)

text \<open>With distinct keys the result is determined by the set of elements alone.\<close>

lemma sort_unique:
  assumes "distinct (map key xs)" "set xs = set ys" "distinct (map key ys)"
  shows "js_sort cmp xs = js_sort cmp ys"
proof -
  have m: "map key (js_sort cmp xs) = map key (js_sort cmp ys)"
    by (rule sorted_distinct_set_unique)
      (use assms in \<open>simp_all add: sorted_sort distinct_js_sort\<close>)
  have "inj_on key (set xs)" using assms(1) by (simp add: distinct_map)
  then show ?thesis
    using m assms(2) by (metis map_inj_on set_js_sort Un_absorb)
qed

lemma sort_already: "sorted (map key xs) \<Longrightarrow> distinct (map key xs) \<Longrightarrow> js_sort cmp xs = xs"
proof -
  assume s: "sorted (map key xs)" and d: "distinct (map key xs)"
  have "map key (js_sort cmp xs) = map key xs"
    by (rule sorted_distinct_set_unique) (use s d in \<open>simp_all add: sorted_sort distinct_js_sort\<close>)
  moreover have "inj_on key (set xs)" using d by (simp add: distinct_map)
  ultimately show ?thesis by (metis map_inj_on set_js_sort Un_absorb)
qed

end

text \<open>
  The contract of a comparator with no key of its own, such as one built on a collation: its sign
  is a total preorder.
\<close>

locale preorder_comparator =
  fixes cmp :: "'a \<Rightarrow> 'a \<Rightarrow> int"
  assumes cmp_total: "0 < cmp x y \<Longrightarrow> cmp y x \<le> 0"
    and cmp_trans: "cmp x y \<le> 0 \<Longrightarrow> cmp y z \<le> 0 \<Longrightarrow> cmp x z \<le> 0"
begin

lemma insert_in_order:
  "sorted_wrt (\<lambda>x y. cmp x y \<le> 0) ys \<Longrightarrow> sorted_wrt (\<lambda>x y. cmp x y \<le> 0) (js_insert cmp x ys)"
proof (induction ys)
  case (Cons y ys)
  have s: "set (js_insert cmp x ys) = insert x (set ys)"
    using mset_js_insert [of cmp x ys] by (metis set_mset_add_mset_insert set_mset_mset)
  show ?case
  proof (cases "0 < cmp y x")
    case True
    then have "cmp x y \<le> 0" by (rule cmp_total)
    then show ?thesis using True Cons.prems by (auto intro: cmp_trans)
  next
    case False
    then show ?thesis using Cons by (auto simp: s)
  qed
qed simp

lemma sort_in_order: "sorted_wrt (\<lambda>x y. cmp x y \<le> 0) (js_sort cmp xs)"
proof -
  have "sorted_wrt (\<lambda>x y. cmp x y \<le> 0) ys \<Longrightarrow>
      sorted_wrt (\<lambda>x y. cmp x y \<le> 0) (foldl (\<lambda>acc x. js_insert cmp x acc) ys xs)" for ys
    by (induction xs arbitrary: ys) (auto intro: insert_in_order)
  then show ?thesis by (simp add: js_sort_def)
qed

end

subsection \<open>Codecs\<close>

text \<open>
  The contract of a text format: a valid value is read back from what is written. It makes the
  format unambiguous, and one format may be laid over another.
\<close>

locale codec =
  fixes enc :: "'a \<Rightarrow> 'b" and dec :: "'b \<Rightarrow> 'a option" and valid :: "'a \<Rightarrow> bool"
  assumes dec_enc: "valid x \<Longrightarrow> dec (enc x) = Some x"
begin

lemma enc_eq_iff: "valid x \<Longrightarrow> valid y \<Longrightarrow> enc x = enc y \<longleftrightarrow> x = y"
  using dec_enc by (metis option.inject)

lemma dec_enc_list: "list_all valid xs \<Longrightarrow> map dec (map enc xs) = map Some xs"
  by (induction xs) (auto simp: dec_enc)

end

locale codec_chain =
  inner: codec enc dec valid + outer: codec enc' dec' valid'
  for enc :: "'a \<Rightarrow> 'b" and dec :: "'b \<Rightarrow> 'a option" and valid :: "'a \<Rightarrow> bool"
    and enc' :: "'b \<Rightarrow> 'c" and dec' :: "'c \<Rightarrow> 'b option" and valid' :: "'b \<Rightarrow> bool" +
  assumes enc_valid: "valid x \<Longrightarrow> valid' (enc x)"
begin

lemma dec_enc_chain: "valid x \<Longrightarrow> Option.bind (dec' (enc' (enc x))) dec = Some x"
  by (simp add: inner.dec_enc outer.dec_enc enc_valid)

end

sublocale codec_chain \<subseteq> chain: codec "\<lambda>x. enc' (enc x)" "\<lambda>t. Option.bind (dec' t) dec" valid
  by unfold_locales (rule dec_enc_chain)

text \<open>The distinct elements in the order of their first occurrence: \<open>[...new Set(xs)]\<close>.\<close>

definition uniq :: "'a list \<Rightarrow> 'a list" where
  "uniq xs = rev (remdups (rev xs))"

lemma set_uniq [simp]: "set (uniq xs) = set xs" "distinct (uniq xs)"
  by (simp_all add: uniq_def)

text \<open>Splitting a list by a label loses and doubles nothing.\<close>

lemma mset_split_by:
  "distinct ls \<Longrightarrow> f ` set xs \<subseteq> set ls \<Longrightarrow> mset (concat (map (\<lambda>l. filter (\<lambda>x. f x = l) xs) ls)) = mset xs"
proof (induction ls arbitrary: xs)
  case (Cons l ls)
  have same: "filter (\<lambda>x. f x = k) xs = filter (\<lambda>x. f x = k) (filter (\<lambda>x. f x \<noteq> l) xs)" if "k \<in> set ls" for k
    using Cons.prems(1) that by (induction xs) auto
  have "concat (map (\<lambda>k. filter (\<lambda>x. f x = k) xs) ls) = concat (map (\<lambda>k. filter (\<lambda>x. f x = k) (filter (\<lambda>x. f x \<noteq> l) xs)) ls)"
    using same by (intro arg_cong [of _ _ concat] map_cong) auto
  moreover have "mset (concat (map (\<lambda>k. filter (\<lambda>x. f x = k) (filter (\<lambda>x. f x \<noteq> l) xs)) ls)) = mset (filter (\<lambda>x. f x \<noteq> l) xs)"
    by (rule Cons.IH) (use Cons.prems in auto)
  ultimately show ?case by (simp add: multiset_partition [of "mset xs" "\<lambda>x. f x = l", symmetric])
qed simp

end
