(* ===== verification/Json.thy ===== *)
theory Json
  imports Prelude
begin

text \<open>
  \<open>JSON.stringify\<close> and \<open>JSON.parse\<close>, as far as the code uses them: values, the compact
  printer, a parser for the whole grammar of RFC 8259, and the round trip between them.

  Numbers: an integer literal is \<open>JNum\<close> of its value, any other number token (a fraction
  or an exponent) is \<open>JFrac\<close> of the token itself, so the model never computes with
  floating point. Strings: code units 0 to 255; an escape above \<open>\u00ff\<close> is outside the
  model and refused by the parser. Objects are association lists; a repeated key of the
  text overwrites the earlier value in place, as \<open>JSON.parse\<close> does.
\<close>

datatype json =
    JNull
  | JBool bool
  | JNum int
  | JFrac string
  | JStr string
  | JArr "json list"
  | JObj "(string \<times> json) list"

subsection \<open>Printing\<close>

definition dquote :: char where "dquote = CHR 0x22"
definition bslash :: char where "bslash = CHR 0x5C"

definition digit_char :: "nat \<Rightarrow> char" where
  "digit_char n = char_of (48 + n)"

definition is_digit :: "char \<Rightarrow> bool" where
  "is_digit c \<longleftrightarrow> 48 \<le> char_code c \<and> char_code c \<le> 57"

definition digit_val :: "char \<Rightarrow> nat" where
  "digit_val c = char_code c - 48"

fun nat_str :: "nat \<Rightarrow> string" where
  "nat_str n = (if n < 10 then [digit_char n] else nat_str (n div 10) @ [digit_char (n mod 10)])"

declare nat_str.simps [simp del]

definition int_str :: "int \<Rightarrow> string" where
  "int_str i = (if i < 0 then CHR ''-'' # nat_str (nat (- i)) else nat_str (nat i))"

definition hex_char :: "nat \<Rightarrow> char" where
  "hex_char n = (if n < 10 then char_of (48 + n) else char_of (87 + n))"

definition esc_char :: "char \<Rightarrow> string" where
  "esc_char c =
     (if c = dquote then [bslash, dquote]
      else if c = bslash then [bslash, bslash]
      else if char_code c = 8 then [bslash, CHR ''b'']
      else if char_code c = 9 then [bslash, CHR ''t'']
      else if char_code c = 10 then [bslash, CHR ''n'']
      else if char_code c = 12 then [bslash, CHR ''f'']
      else if char_code c = 13 then [bslash, CHR ''r'']
      else if char_code c < 32 then
        [bslash, CHR ''u'', CHR ''0'', CHR ''0'', hex_char (char_code c div 16), hex_char (char_code c mod 16)]
      else [c])"

definition quote :: "string \<Rightarrow> string" where
  "quote s = dquote # concat (map esc_char s) @ [dquote]"

fun join :: "string \<Rightarrow> string list \<Rightarrow> string" where
  "join sep [] = []"
| "join sep [x] = x"
| "join sep (x # y # zs) = x @ sep @ join sep (y # zs)"

fun stringify :: "json \<Rightarrow> string" where
  "stringify JNull = ''null''"
| "stringify (JBool b) = (if b then ''true'' else ''false'')"
| "stringify (JNum i) = int_str i"
| "stringify (JFrac l) = l"
| "stringify (JStr s) = quote s"
| "stringify (JArr vs) = ''['' @ join '','' (map stringify vs) @ '']''"
| "stringify (JObj ms) =
     ''{'' @ join '','' (map (\<lambda>(k, v). quote k @ '':'' @ stringify v) ms) @ ''}''"

subsection \<open>Parsing\<close>

definition json_ws :: "char \<Rightarrow> bool" where
  "json_ws c \<longleftrightarrow> char_code c \<in> {9, 10, 13, 32}"

definition skip_ws :: "string \<Rightarrow> string" where
  "skip_ws s = dropWhile json_ws s"

definition num_char :: "char \<Rightarrow> bool" where
  "num_char c \<longleftrightarrow> is_digit c \<or> c \<in> {CHR ''-'', CHR ''+'', CHR ''.'', CHR ''e'', CHR ''E''}"

definition int_part :: "string \<Rightarrow> bool" where
  "int_part ds \<longleftrightarrow> ds \<noteq> [] \<and> list_all is_digit ds \<and> (hd ds = CHR ''0'' \<longrightarrow> length ds = 1)"

definition digits_val :: "string \<Rightarrow> nat" where
  "digits_val ds = foldl (\<lambda>a c. 10 * a + digit_val c) 0 ds"

definition strip_minus :: "string \<Rightarrow> bool \<times> string" where
  "strip_minus s = (case s of [] \<Rightarrow> (False, [])
     | c # r \<Rightarrow> if c = CHR ''-'' then (True, r) else (False, s))"

definition int_lexeme :: "string \<Rightarrow> int option" where
  "int_lexeme s =
     (let (neg, ds) = strip_minus s
      in if int_part ds
         then Some (if neg then - int (digits_val ds) else int (digits_val ds)) else None)"

definition exp_part :: "string \<Rightarrow> bool" where
  "exp_part s = (case s of [] \<Rightarrow> True
     | e # r \<Rightarrow> e \<in> {CHR ''e'', CHR ''E''} \<and>
         (let ds = (case r of [] \<Rightarrow> [] | c # q \<Rightarrow> if c \<in> {CHR ''+'', CHR ''-''} then q else r)
          in ds \<noteq> [] \<and> list_all is_digit ds))"

definition frac_lexeme :: "string \<Rightarrow> bool" where
  "frac_lexeme s =
     (let body = snd (strip_minus s); ip = takeWhile is_digit body; r = dropWhile is_digit body
      in int_part ip \<and>
         (case r of [] \<Rightarrow> False
          | c # q \<Rightarrow> if c = CHR ''.'' then takeWhile is_digit q \<noteq> [] \<and> exp_part (dropWhile is_digit q)
                     else exp_part r))"

definition parse_number :: "string \<Rightarrow> (json \<times> string) option" where
  "parse_number s =
     (let tok = takeWhile num_char s; r = dropWhile num_char s
      in case int_lexeme tok of
           Some i \<Rightarrow> Some (JNum i, r)
         | None \<Rightarrow> if frac_lexeme tok then Some (JFrac tok, r) else None)"

definition hex_val :: "char \<Rightarrow> nat option" where
  "hex_val c =
     (let n = char_code c
      in if 48 \<le> n \<and> n \<le> 57 then Some (n - 48)
         else if 97 \<le> n \<and> n \<le> 102 then Some (n - 87)
         else if 65 \<le> n \<and> n \<le> 70 then Some (n - 55) else None)"

definition hex4 :: "char \<Rightarrow> char \<Rightarrow> char \<Rightarrow> char \<Rightarrow> nat option" where
  "hex4 a b c d =
     (case (hex_val a, hex_val b, hex_val c, hex_val d) of
        (Some w, Some x, Some y, Some z) \<Rightarrow> Some (4096 * w + 256 * x + 16 * y + z)
      | _ \<Rightarrow> None)"

definition simple_escape :: "char \<Rightarrow> char option" where
  "simple_escape e =
     (if e = dquote \<or> e = bslash \<or> e = CHR ''/'' then Some e
      else if e = CHR ''b'' then Some (char_of (8::nat))
      else if e = CHR ''t'' then Some (char_of (9::nat))
      else if e = CHR ''n'' then Some (char_of (10::nat))
      else if e = CHR ''f'' then Some (char_of (12::nat))
      else if e = CHR ''r'' then Some (char_of (13::nat))
      else None)"

definition cons_char :: "char \<Rightarrow> (string \<times> string) option \<Rightarrow> (string \<times> string) option" where
  "cons_char c p = map_option (\<lambda>(t, r). (c # t, r)) p"

text \<open>The text of a string after its opening quote, up to and including the closing one.\<close>

fun parse_string :: "string \<Rightarrow> (string \<times> string) option" where
  "parse_string [] = None"
| "parse_string (c # cs) =
     (if c = dquote then Some ([], cs)
      else if c = bslash then
        (case cs of
           [] \<Rightarrow> None
         | e # r \<Rightarrow>
             (case simple_escape e of
                Some d \<Rightarrow> cons_char d (parse_string r)
              | None \<Rightarrow>
                  if e = CHR ''u'' then
                    (case r of
                       h1 # h2 # h3 # h4 # r' \<Rightarrow>
                         (case hex4 h1 h2 h3 h4 of
                            Some n \<Rightarrow> if n < 256 then cons_char (char_of n) (parse_string r') else None
                          | None \<Rightarrow> None)
                     | _ \<Rightarrow> None)
                  else None))
      else if char_code c < 32 then None
      else cons_char c (parse_string cs))"

definition parse_word :: "string \<Rightarrow> (json \<times> string) option" where
  "parse_word s =
     (if starts_with s ''null'' then Some (JNull, drop 4 s)
      else if starts_with s ''true'' then Some (JBool True, drop 4 s)
      else if starts_with s ''false'' then Some (JBool False, drop 5 s)
      else None)"

text \<open>
  The recursive descent, with fuel. \<open>parse_elems\<close> and \<open>parse_members\<close> read what follows an
  opening bracket or a comma; \<open>json_parse\<close> gives the fuel \<open>parse_fuel_enough\<close> below shows
  to be enough for the text.
\<close>

fun parse_value :: "nat \<Rightarrow> string \<Rightarrow> (json \<times> string) option"
  and parse_elems :: "nat \<Rightarrow> json list \<Rightarrow> string \<Rightarrow> (json \<times> string) option"
  and parse_members :: "nat \<Rightarrow> (string \<times> json) list \<Rightarrow> string \<Rightarrow> (json \<times> string) option"
where
  "parse_value 0 s = None"
| "parse_value (Suc n) s =
     (case skip_ws s of
        [] \<Rightarrow> None
      | c # cs \<Rightarrow>
          if c = CHR ''['' then
            (case skip_ws cs of
               [] \<Rightarrow> None
             | d # ds \<Rightarrow> if d = CHR '']'' then Some (JArr [], ds) else parse_elems n [] (d # ds))
          else if c = CHR ''{'' then
            (case skip_ws cs of
               [] \<Rightarrow> None
             | d # ds \<Rightarrow> if d = CHR ''}'' then Some (JObj [], ds) else parse_members n [] (d # ds))
          else if c = dquote then map_option (\<lambda>(t, r). (JStr t, r)) (parse_string cs)
          else if is_digit c \<or> c = CHR ''-'' then parse_number (c # cs)
          else parse_word (c # cs))"
| "parse_elems 0 acc s = None"
| "parse_elems (Suc n) acc s =
     (case parse_value n s of
        None \<Rightarrow> None
      | Some (v, r) \<Rightarrow>
          (case skip_ws r of
             [] \<Rightarrow> None
           | c # r' \<Rightarrow> if c = CHR '','' then parse_elems n (acc @ [v]) r'
                        else if c = CHR '']'' then Some (JArr (acc @ [v]), r') else None))"
| "parse_members 0 acc s = None"
| "parse_members (Suc n) acc s =
     (case skip_ws s of
        [] \<Rightarrow> None
      | q # cs \<Rightarrow>
          if q \<noteq> dquote then None
          else (case parse_string cs of
             None \<Rightarrow> None
           | Some (k, r) \<Rightarrow>
               (case skip_ws r of
                  [] \<Rightarrow> None
                | c # r1 \<Rightarrow>
                    if c \<noteq> CHR '':'' then None
                    else (case parse_value n r1 of
                       None \<Rightarrow> None
                     | Some (v, r2) \<Rightarrow>
                         (case skip_ws r2 of
                            [] \<Rightarrow> None
                          | d # r3 \<Rightarrow>
                              if d = CHR '','' then parse_members n (js_set k v acc) r3
                              else if d = CHR ''}'' then Some (JObj (js_set k v acc), r3)
                              else None)))))"

definition json_parse :: "string \<Rightarrow> json option" where
  "json_parse s =
     (case parse_value (Suc (2 * length s)) s of
        None \<Rightarrow> None
      | Some (v, r) \<Rightarrow> if skip_ws r = [] then Some v else None)"


subsection \<open>Well-formed values\<close>

definition wf_frac :: "string \<Rightarrow> bool" where
  "wf_frac l \<longleftrightarrow> list_all num_char l \<and> int_lexeme l = None \<and> frac_lexeme l"

text \<open>What \<open>json_parse\<close> produces: distinct keys, and number tokens that are numbers.\<close>

fun wf_json :: "json \<Rightarrow> bool" where
  "wf_json (JFrac l) = wf_frac l"
| "wf_json (JArr vs) = list_all wf_json vs"
| "wf_json (JObj ms) = (distinct (map fst ms) \<and> list_all (\<lambda>(k, v). wf_json v) ms)"
| "wf_json v = True"

subsection \<open>Numbers\<close>

lemma char_of_code_eq: "char_code c = n \<Longrightarrow> char_of n = c"
  by auto

lemma digit_char_code: "n < 10 \<Longrightarrow> char_code (digit_char n) = 48 + n"
  by (simp add: digit_char_def code_of_char)

lemma digit_char_simps [simp]:
  "n < 10 \<Longrightarrow> is_digit (digit_char n)" "n < 10 \<Longrightarrow> digit_val (digit_char n) = n"
  by (simp_all add: is_digit_def digit_val_def digit_char_code)

lemma digit_char_inject: "m < 10 \<Longrightarrow> n < 10 \<Longrightarrow> digit_char m = digit_char n \<longleftrightarrow> m = n"
  by (metis digit_char_simps(2))

lemma digits_val_snoc: "digits_val (ds @ [d]) = 10 * digits_val ds + digit_val d"
  by (simp add: digits_val_def)

lemma nat_str_digits: "list_all is_digit (nat_str n) \<and> nat_str n \<noteq> [] \<and> digits_val (nat_str n) = n"
proof (induction n rule: nat_str.induct)
  case (1 n)
  show ?case
  proof (cases "n < 10")
    case True
    then show ?thesis by (simp add: nat_str.simps [of n] digits_val_def)
  next
    case False
    with 1 show ?thesis by (simp add: nat_str.simps [of n] digits_val_snoc)
  qed
qed

lemma nat_str_head: "0 < n \<Longrightarrow> hd (nat_str n) \<noteq> CHR ''0''"
proof (induction n rule: nat_str.induct)
  case (1 n)
  have "char_code (CHR ''0'') = 48" by (simp add: char_code_def)
  then have zero: "CHR ''0'' = digit_char 0" by (simp add: digit_char_def char_of_code_eq)
  show ?case
  proof (cases "n < 10")
    case True
    with 1 show ?thesis by (simp add: nat_str.simps [of n] zero digit_char_inject)
  next
    case False
    with 1 have "hd (nat_str (n div 10)) \<noteq> CHR ''0''" by simp
    with False nat_str_digits [of "n div 10"] show ?thesis by (simp add: nat_str.simps [of n])
  qed
qed

lemma int_part_nat_str: "int_part (nat_str n)"
proof (cases "n = 0")
  case True
  then show ?thesis by (simp add: int_part_def nat_str.simps [of 0])
next
  case False
  with nat_str_digits [of n] nat_str_head [of n] show ?thesis by (simp add: int_part_def)
qed

lemma minus_not_digit [simp]: "\<not> is_digit (CHR ''-'')"
  by (simp add: is_digit_def char_code_def)

lemma strip_minus_nat_str: "strip_minus (nat_str n) = (False, nat_str n)"
  using nat_str_digits [of n] by (cases "nat_str n") (auto simp: strip_minus_def)

lemma int_lexeme_int_str: "int_lexeme (int_str i) = Some i"
proof (cases "i < 0")
  case True
  then show ?thesis
    using nat_str_digits [of "nat (- i)"] int_part_nat_str [of "nat (- i)"]
    by (simp add: int_lexeme_def int_str_def strip_minus_def)
next
  case False
  then show ?thesis
    using nat_str_digits [of "nat i"] int_part_nat_str [of "nat i"]
    by (simp add: int_lexeme_def int_str_def strip_minus_nat_str)
qed

lemma num_char_int_str: "list_all num_char (int_str i)"
  using nat_str_digits [of "nat i"] nat_str_digits [of "nat (- i)"]
  by (auto simp: int_str_def num_char_def list_all_iff)

lemma take_drop_while_append:
  "list_all P xs \<Longrightarrow> ys = [] \<or> \<not> P (hd ys) \<Longrightarrow> takeWhile P (xs @ ys) = xs \<and> dropWhile P (xs @ ys) = ys"
  by (induction xs) (cases ys, auto)+

abbreviation stops :: "string \<Rightarrow> bool" where
  "stops r \<equiv> r = [] \<or> \<not> num_char (hd r)"

lemma parse_number_int: "stops r \<Longrightarrow> parse_number (int_str i @ r) = Some (JNum i, r)"
  using take_drop_while_append [OF num_char_int_str, of r i]
  by (simp add: parse_number_def int_lexeme_int_str)

lemma parse_number_frac: "wf_frac l \<Longrightarrow> stops r \<Longrightarrow> parse_number (l @ r) = Some (JFrac l, r)"
  using take_drop_while_append [of num_char l r]
  by (simp add: parse_number_def wf_frac_def)

lemma int_part_Nil [simp]: "\<not> int_part []"
  by (simp add: int_part_def)

lemma strip_minus_Cons:
  "strip_minus (c # r) = (if c = CHR ''-'' then (True, r) else (False, c # r))"
  by (simp add: strip_minus_def)

lemma frac_lexeme_head:
  assumes "frac_lexeme l"
  shows "l \<noteq> [] \<and> (is_digit (hd l) \<or> hd l = CHR ''-'')"
proof (cases l)
  case Nil
  with assms show ?thesis by (simp add: frac_lexeme_def strip_minus_def)
next
  case (Cons c r)
  with assms show ?thesis
    by (cases "is_digit c") (auto simp: frac_lexeme_def strip_minus_Cons Let_def split: if_splits)
qed

lemma int_str_head: "int_str i \<noteq> [] \<and> (is_digit (hd (int_str i)) \<or> hd (int_str i) = CHR ''-'')"
  using nat_str_digits [of "nat i"] by (cases "nat_str (nat i)") (auto simp: int_str_def)

subsection \<open>Strings\<close>

lemma hex_val_hex_char: "n < 16 \<Longrightarrow> hex_val (hex_char n) = Some n"
  by (auto simp: hex_val_def hex_char_def code_of_char Let_def)

lemma hex4_low: "n < 256 \<Longrightarrow>
  hex4 (CHR ''0'') (CHR ''0'') (hex_char (n div 16)) (hex_char (n mod 16)) = Some n"
proof -
  assume n: "n < 256"
  have "hex_val (CHR ''0'') = Some 0" by (simp add: hex_val_def char_code_def)
  moreover have "hex_val (hex_char (n div 16)) = Some (n div 16)"
    using n by (intro hex_val_hex_char) auto
  moreover have "hex_val (hex_char (n mod 16)) = Some (n mod 16)"
    by (intro hex_val_hex_char) auto
  ultimately show ?thesis by (simp add: hex4_def)
qed

lemma dquote_bs_codes [simp]:
  "char_code dquote = 34" "char_code bslash = 92" "dquote \<noteq> bslash" "bslash \<noteq> dquote"
  by (simp_all add: dquote_def bslash_def char_code_def)

lemma simple_escapes [simp]:
  "simple_escape dquote = Some dquote" "simple_escape bslash = Some bslash"
  "simple_escape (CHR ''b'') = Some (char_of (8::nat))"
  "simple_escape (CHR ''t'') = Some (char_of (9::nat))"
  "simple_escape (CHR ''n'') = Some (char_of (10::nat))"
  "simple_escape (CHR ''f'') = Some (char_of (12::nat))"
  "simple_escape (CHR ''r'') = Some (char_of (13::nat))"
  "simple_escape (CHR ''u'') = None"
  by (simp_all add: simple_escape_def dquote_def bslash_def)

lemma parse_string_esc: "parse_string (esc_char c @ r) = cons_char c (parse_string r)"
  using char_code_less [of c]
  by (auto simp: esc_char_def hex4_low char_of_code_eq)

lemma parse_string_quote: "parse_string (concat (map esc_char s) @ dquote # r) = Some (s, r)"
  by (induction s) (simp_all add: parse_string_esc cons_char_def)


subsection \<open>Round trip\<close>

lemma skip_ws_id: "s = [] \<or> \<not> json_ws (hd s) \<Longrightarrow> skip_ws s = s"
  by (cases s) (auto simp: skip_ws_def)

lemma json_ws_codes [simp]:
  "\<not> json_ws dquote" "\<not> json_ws (CHR ''['')" "\<not> json_ws (CHR '']'')" "\<not> json_ws (CHR ''{'')"
  "\<not> json_ws (CHR ''}'')" "\<not> json_ws (CHR '','')" "\<not> json_ws (CHR '':'')" "\<not> json_ws (CHR ''-'')"
  "\<not> json_ws (CHR ''n'')" "\<not> json_ws (CHR ''t'')" "\<not> json_ws (CHR ''f'')"
  by (simp_all add: json_ws_def, simp_all add: char_code_def)

lemma digit_not_ws: "is_digit c \<Longrightarrow> \<not> json_ws c"
  by (auto simp: json_ws_def is_digit_def)

lemma skip_ws_Cons: "\<not> json_ws c \<Longrightarrow> skip_ws (c # s) = c # s"
  by (simp add: skip_ws_def)

lemma structural_not_digit [simp]:
  "\<not> is_digit (CHR ''['')" "\<not> is_digit (CHR ''{'')" "\<not> is_digit dquote" "\<not> is_digit (CHR ''n'')"
  "\<not> is_digit (CHR ''t'')" "\<not> is_digit (CHR ''f'')" "\<not> is_digit (CHR '','')"
  "\<not> is_digit (CHR '']'')" "\<not> is_digit (CHR ''}'')" "\<not> is_digit (CHR '':'')"
  by (simp_all add: is_digit_def, simp_all add: char_code_def)

lemma dquote_not_structural [simp]:
  "dquote \<noteq> CHR ''[''" "dquote \<noteq> CHR ''{''" "dquote \<noteq> CHR ''}''" "dquote \<noteq> CHR '']''" "CHR '']'' \<noteq> dquote"
  "CHR ''['' \<noteq> dquote" "CHR ''{'' \<noteq> dquote" "CHR ''}'' \<noteq> dquote" "dquote \<noteq> CHR ''-''" "CHR ''-'' \<noteq> dquote"
  "CHR ''n'' \<noteq> dquote" "CHR ''t'' \<noteq> dquote" "CHR ''f'' \<noteq> dquote"
  by (simp_all add: dquote_def)

lemma not_num_char [simp]: "\<not> num_char (CHR '','')" "\<not> num_char (CHR '']'')" "\<not> num_char (CHR ''}'')"
  by (simp_all add: num_char_def)

lemma is_digit_neq [dest]:
  "is_digit c \<Longrightarrow> c \<noteq> CHR ''['' \<and> c \<noteq> CHR ''{'' \<and> c \<noteq> dquote \<and> c \<noteq> CHR '']'' \<and> c \<noteq> CHR ''}''"
  by auto

text \<open>The first character of a printed value.\<close>

definition value_start :: "string \<Rightarrow> bool" where
  "value_start s \<longleftrightarrow> s \<noteq> [] \<and> \<not> json_ws (hd s) \<and> hd s \<noteq> CHR '']''"

lemma value_start_stringify: "wf_json v \<Longrightarrow> value_start (stringify v)"
proof (cases v)
  case (JNum i)
  then show ?thesis using int_str_head [of i] digit_not_ws by (auto simp: value_start_def)
next
  case (JFrac l)
  assume "wf_json v"
  with JFrac frac_lexeme_head [of l] digit_not_ws show ?thesis
    by (auto simp: value_start_def wf_frac_def)
qed (auto simp: value_start_def quote_def)

lemma value_start_append: "value_start s \<Longrightarrow> skip_ws (s @ r) = s @ r"
  by (cases s) (auto simp: value_start_def skip_ws_def)

lemma value_start_Cons:
  "value_start s \<Longrightarrow> \<exists>c cs. s = c # cs \<and> \<not> json_ws c \<and> c \<noteq> CHR '']''"
  by (cases s) (auto simp: value_start_def)

text \<open>Parsing one printed value, as a property of the value, for any fuel above twice the text.\<close>

definition reads :: "json \<Rightarrow> bool" where
  "reads v \<longleftrightarrow> (\<forall>n r. stops r \<longrightarrow> 2 * length (stringify v) < n \<longrightarrow>
     parse_value n (stringify v @ r) = Some (v, r))"

lemma parse_elems_join:
  assumes "vs \<noteq> []" "\<forall>v \<in> set vs. reads v \<and> wf_json v"
    "2 * length (join '','' (map stringify vs)) + 1 < n"
  shows "parse_elems n acc (join '','' (map stringify vs) @ CHR '']'' # r) = Some (JArr (acc @ vs), r)"
  using assms
proof (induction vs arbitrary: acc n)
  case (Cons v vs)
  from Cons.prems(3) obtain m where n: "n = Suc m" by (cases n) auto
  show ?case
  proof (cases vs)
    case Nil
    with Cons.prems n have "parse_value m (stringify v @ CHR '']'' # r) = Some (v, CHR '']'' # r)"
      by (auto simp: reads_def)
    with Nil n show ?thesis by (simp add: skip_ws_Cons)
  next
    case (Cons w ws)
    let ?rest = "join '','' (map stringify vs) @ CHR '']'' # r"
    have "parse_value m (stringify v @ CHR '','' # ?rest) = Some (v, CHR '','' # ?rest)"
      using Cons.prems n Cons by (auto simp: reads_def)
    moreover have "parse_elems m (acc @ [v]) ?rest = Some (JArr ((acc @ [v]) @ vs), r)"
      by (rule Cons.IH) (use Cons.prems n Cons in auto)
    ultimately show ?thesis using n Cons by (simp add: skip_ws_Cons)
  qed
qed simp

lemma parse_members_join:
  assumes "ms \<noteq> []" "\<forall>(k, v) \<in> set ms. reads v \<and> wf_json v"
    "distinct (map fst (acc @ ms))"
    "2 * length (join '','' (map (\<lambda>(k, v). quote k @ '':'' @ stringify v) ms)) + 1 < n"
  shows "parse_members n acc (join '','' (map (\<lambda>(k, v). quote k @ '':'' @ stringify v) ms) @ CHR ''}'' # r)
    = Some (JObj (acc @ ms), r)"
  using assms
proof (induction ms arbitrary: acc n)
  case (Cons p ms)
  obtain k v where p: "p = (k, v)" by (cases p)
  from Cons.prems(4) obtain m where n: "n = Suc m" by (cases n) auto
  have fresh: "js_set k v acc = acc @ [(k, v)]"
    using Cons.prems(3) p by (intro js_set_fresh) auto
  have rv: "reads v" using Cons.prems(2) p by auto
  let ?txt = "\<lambda>ms. join '','' (map (\<lambda>(k, v). quote k @ '':'' @ stringify v) ms)"
  show ?case
  proof (cases ms)
    case Nil
    with Cons.prems n p rv have "parse_value m (stringify v @ CHR ''}'' # r) = Some (v, CHR ''}'' # r)"
      by (auto simp: reads_def)
    with Nil n p fresh show ?thesis
      by (simp add: quote_def skip_ws_Cons parse_string_quote)
  next
    case (Cons q qs)
    let ?rest = "?txt ms @ CHR ''}'' # r"
    have "parse_value m (stringify v @ CHR '','' # ?rest) = Some (v, CHR '','' # ?rest)"
      using Cons.prems n Cons p rv by (auto simp: reads_def)
    moreover have "parse_members m (acc @ [(k, v)]) ?rest = Some (JObj ((acc @ [(k, v)]) @ ms), r)"
      by (rule Cons.IH) (use Cons.prems n Cons p in auto)
    ultimately show ?thesis
      using n Cons p fresh by (simp add: quote_def skip_ws_Cons parse_string_quote)
  qed
qed simp

lemma join_start: "xs \<noteq> [] \<Longrightarrow> value_start (hd xs) \<Longrightarrow> value_start (join sep xs)"
  by (cases xs; cases "tl xs"; cases "hd xs") (auto simp: value_start_def)

lemma readsI:
  assumes "\<And>m r. stops r \<Longrightarrow> 2 * length (stringify v) \<le> m \<Longrightarrow>
    parse_value (Suc m) (stringify v @ r) = Some (v, r)"
  shows "reads v"
  unfolding reads_def
proof (intro allI impI)
  fix n r assume "stops r" "2 * length (stringify v) < n"
  then show "parse_value n (stringify v @ r) = Some (v, r)"
    using assms [of r "n - 1"] by (cases n) auto
qed

lemma parse_value_number:
  assumes "is_digit c \<or> c = CHR ''-''"
  shows "parse_value (Suc m) (c # cs) = parse_number (c # cs)"
proof -
  have "\<not> json_ws c" "c \<noteq> CHR ''[''" "c \<noteq> CHR ''{''" "c \<noteq> dquote"
    using assms by (auto simp: digit_not_ws)
  with assms show ?thesis by (simp add: skip_ws_Cons)
qed

lemma parse_value_null: "parse_value (Suc m) (''null'' @ r) = Some (JNull, r)"
  by (simp add: skip_ws_Cons parse_word_def starts_with_def)

lemma parse_value_true: "parse_value (Suc m) (''true'' @ r) = Some (JBool True, r)"
  by (simp add: skip_ws_Cons parse_word_def starts_with_def)

lemma parse_value_false: "parse_value (Suc m) (''false'' @ r) = Some (JBool False, r)"
  by (simp add: skip_ws_Cons parse_word_def starts_with_def)

lemma reads_all: "wf_json v \<Longrightarrow> reads v"
proof (induction v)
  case (JArr vs)
  show ?case
  proof (rule readsI)
    fix m r assume r: "stops r" and n: "2 * length (stringify (JArr vs)) \<le> m"
    show "parse_value (Suc m) (stringify (JArr vs) @ r) = Some (JArr vs, r)"
    proof (cases "vs = []")
      case False
      have all: "\<forall>v \<in> set vs. reads v \<and> wf_json v"
        using JArr by (auto simp: list_all_iff)
      have "value_start (join '','' (map stringify vs))"
        using False all by (intro join_start) (auto simp: hd_map intro: value_start_stringify)
      then obtain c cs where c: "join '','' (map stringify vs) = c # cs" "\<not> json_ws c" "c \<noteq> CHR '']''"
        using value_start_Cons by blast
      have "parse_elems m [] (join '','' (map stringify vs) @ CHR '']'' # r) = Some (JArr ([] @ vs), r)"
        using False all n by (intro parse_elems_join) auto
      with c show ?thesis by (simp add: skip_ws_Cons)
    qed (simp add: skip_ws_Cons)
  qed
next
  case (JObj ms)
  let ?txt = "join '','' (map (\<lambda>(k, v). quote k @ '':'' @ stringify v) ms)"
  show ?case
  proof (rule readsI)
    fix m r assume r: "stops r" and n: "2 * length (stringify (JObj ms)) \<le> m"
    show "parse_value (Suc m) (stringify (JObj ms) @ r) = Some (JObj ms, r)"
    proof (cases "ms = []")
      case False
      have all: "\<forall>(k, v) \<in> set ms. reads v \<and> wf_json v"
        using JObj by (fastforce simp: list_all_iff)
      obtain k v qs where ms: "ms = (k, v) # qs" using False by (cases ms) auto
      obtain cs where c: "?txt = dquote # cs"
        using ms by (cases qs) (auto simp: quote_def)
      have "parse_members m [] (?txt @ CHR ''}'' # r) = Some (JObj ([] @ ms), r)"
        using False all n JObj.prems by (intro parse_members_join) auto
      with c show ?thesis by (simp add: skip_ws_Cons)
    qed (simp add: skip_ws_Cons)
  qed
next
  case (JNum i)
  obtain c cs where c: "int_str i = c # cs" "is_digit c \<or> c = CHR ''-''"
    using int_str_head [of i] by (cases "int_str i") auto
  show ?case
  proof (rule readsI)
    fix m r assume "stops r"
    from parse_number_int [OF this, of i] c show "parse_value (Suc m) (stringify (JNum i) @ r) = Some (JNum i, r)"
      by (simp only: stringify.simps append_Cons parse_value_number)
  qed
next
  case (JFrac l)
  then have wf: "wf_frac l" by simp
  obtain c cs where c: "l = c # cs" "is_digit c \<or> c = CHR ''-''"
    using frac_lexeme_head [of l] wf by (cases l) (auto simp: wf_frac_def)
  show ?case
  proof (rule readsI)
    fix m r assume "stops r"
    from parse_number_frac [OF wf this] c show "parse_value (Suc m) (stringify (JFrac l) @ r) = Some (JFrac l, r)"
      by (simp only: stringify.simps append_Cons parse_value_number)
  qed
next
  case (JStr s)
  show ?case
    by (rule readsI) (simp add: quote_def skip_ws_Cons parse_string_quote)
next
  case JNull
  show ?case by (rule readsI) (simp only: stringify.simps parse_value_null)
next
  case (JBool b)
  show ?case
    by (rule readsI) (cases b, simp_all only: stringify.simps if_True if_False parse_value_true parse_value_false)
qed

lemma parse_stringify: "wf_json v \<Longrightarrow> json_parse (stringify v) = Some v"
proof -
  assume "wf_json v"
  then have "parse_value (Suc (2 * length (stringify v))) (stringify v @ []) = Some (v, [])"
    using reads_all unfolding reads_def by blast
  then show ?thesis by (simp add: json_parse_def skip_ws_def del: parse_value.simps)
qed

subsection \<open>What the parser returns\<close>

lemma cons_char_Some: "cons_char c p = Some (t, r) \<longleftrightarrow> (\<exists>t'. p = Some (t', r) \<and> t = c # t')"
  by (auto simp: cons_char_def)

lemma length_parse_string: "parse_string s = Some (t, r) \<Longrightarrow> length r < length s"
proof (induction s arbitrary: t r rule: length_induct)
  case (1 s)
  have IH: "length r' < length s'" if "parse_string s' = Some (t', r')" "length s' < length s" for s' t' r'
    using 1 that by blast
  show ?case
  proof (cases s)
    case (Cons c cs)
    with "1.prems" IH show ?thesis
      by (fastforce simp: cons_char_Some split: if_splits list.splits option.splits)
  qed (use "1.prems" in simp)
qed

lemma length_skip_ws: "length (skip_ws s) \<le> length s"
  by (simp add: skip_ws_def length_dropWhile_le)

lemma parse_number_length: "parse_number s = Some (v, r) \<Longrightarrow> length r < length s \<and> wf_json v"
proof -
  assume p: "parse_number s = Some (v, r)"
  have "takeWhile num_char s \<noteq> []"
    using p by (auto simp: parse_number_def int_lexeme_def strip_minus_def frac_lexeme_def Let_def
      split: option.splits if_splits)
  then have "length (dropWhile num_char s) < length s"
    using arg_cong [OF takeWhile_dropWhile_id [of num_char s], of length] by (cases "takeWhile num_char s") auto
  moreover have "list_all num_char (takeWhile num_char s)"
    by (auto simp: list_all_iff dest: set_takeWhileD)
  ultimately show ?thesis
    using p by (auto simp: parse_number_def wf_frac_def Let_def split: option.splits if_splits)
qed

lemma parse_word_length: "parse_word s = Some (v, r) \<Longrightarrow> length r < length s \<and> wf_json v"
  by (auto simp: parse_word_def starts_with_iff split: if_splits)


text \<open>One statement for the three mutually recursive readers: what they consume and produce.\<close>

lemma parse_consumes:
  "(\<forall>s v r. parse_value n s = Some (v, r) \<longrightarrow> length r < length s \<and> wf_json v) \<and>
   (\<forall>acc s v r. parse_elems n acc s = Some (v, r) \<longrightarrow> list_all wf_json acc \<longrightarrow>
      length r < length s \<and> wf_json v) \<and>
   (\<forall>acc s v r. parse_members n acc s = Some (v, r) \<longrightarrow> wf_json (JObj acc) \<longrightarrow>
      length r < length s \<and> wf_json v)"
  (is "?V n \<and> ?E n \<and> ?M n")
proof (induction n)
  case (Suc n)
  then have V: "?V n" and E: "?E n" and M: "?M n" by blast+
  have "?V (Suc n)"
  proof (intro allI impI)
    fix s v r assume p: "parse_value (Suc n) s = Some (v, r)"
    then obtain c cs where c: "skip_ws s = c # cs" by (auto split: list.splits)
    then have l: "length cs < length s" using length_skip_ws [of s] by simp
    have l2: "length (skip_ws cs) \<le> length cs" by (rule length_skip_ws)
    have "length r < length (c # cs) \<and> wf_json v"
      using p c l2 E M
      by (fastforce split: list.splits if_splits simp: less_Suc_eq_le
          dest: parse_number_length parse_word_length length_parse_string)
    with l show "length r < length s \<and> wf_json v" by auto
  qed
  moreover have "?E (Suc n)"
  proof (intro allI impI)
    fix acc s v r assume p: "parse_elems (Suc n) acc s = Some (v, r)" and a: "list_all wf_json acc"
    then obtain w q c q' where w: "parse_value n s = Some (w, q)" "skip_ws q = c # q'"
      by (auto split: option.splits list.splits)
    then have "length q < length s" "wf_json w" using V by blast+
    moreover have "length (c # q') \<le> length q" using length_skip_ws [of q] w by simp
    moreover have "length r \<le> length q' \<and> wf_json v"
      using p w a E \<open>wf_json w\<close> by (fastforce split: if_splits)
    ultimately show "length r < length s \<and> wf_json v" by auto
  qed
  moreover have "?M (Suc n)"
  proof (intro allI impI)
    fix acc s v r assume p: "parse_members (Suc n) acc s = Some (v, r)" and a: "wf_json (JObj acc)"
    then obtain cs k q c q1 w q2 d q3 where
      s: "skip_ws s = dquote # cs" "parse_string cs = Some (k, q)" "skip_ws q = c # q1"
      and w: "parse_value n q1 = Some (w, q2)" "skip_ws q2 = d # q3"
      by (auto split: option.splits list.splits if_splits)
    have lens: "length cs < length s" "length q < length cs" "length q1 < length q"
      "length q2 < length q1" "length q3 < length q2" "wf_json w"
      using s w V length_skip_ws [of s] length_skip_ws [of q] length_skip_ws [of q2]
        length_parse_string [OF s(2)] by auto
    have "wf_json (JObj (js_set k w acc))"
      using a \<open>wf_json w\<close> by (auto simp: list_all_iff set_js_set distinct_js_set)
    then have "length r \<le> length q3 \<and> wf_json v"
      using p s w M by (fastforce split: if_splits)
    with lens show "length r < length s \<and> wf_json v" by linarith
  qed
  ultimately show ?case by blast
qed simp

lemma wf_json_parse: "json_parse s = Some v \<Longrightarrow> wf_json v"
  using parse_consumes [of "Suc (2 * length s)"]
  by (fastforce simp: json_parse_def simp del: parse_value.simps split: option.splits if_splits)

text \<open>More fuel than \<open>json_parse\<close> gives never changes what a reader answers.\<close>

lemma parse_fuel:
  "(\<forall>m s. 2 * length s < n \<longrightarrow> n \<le> m \<longrightarrow> parse_value m s = parse_value n s) \<and>
   (\<forall>m acc s. 2 * length s + 1 < n \<longrightarrow> n \<le> m \<longrightarrow> parse_elems m acc s = parse_elems n acc s) \<and>
   (\<forall>m acc s. 2 * length s + 1 < n \<longrightarrow> n \<le> m \<longrightarrow> parse_members m acc s = parse_members n acc s)"
  (is "?V n \<and> ?E n \<and> ?M n")
proof (induction n)
  case (Suc n)
  then have V: "?V n" and E: "?E n" and M: "?M n" by blast+
  have "?V (Suc n)"
  proof (intro allI impI)
    fix m and s :: string assume n: "2 * length s < Suc n" "Suc n \<le> m"
    then obtain k where k: "m = Suc k" "n \<le> k" by (cases m) auto
    show "parse_value m s = parse_value (Suc n) s"
    proof (cases "skip_ws s")
      case (Cons c cs)
      show ?thesis
      proof (cases "skip_ws cs")
        case Nil
        with Cons k show ?thesis by simp
      next
        case (Cons d ds)
        have "length (d # ds) < length s"
          using \<open>skip_ws s = c # cs\<close> Cons length_skip_ws [of s] length_skip_ws [of cs] by simp
        then have "parse_elems k [] (d # ds) = parse_elems n [] (d # ds)"
          "parse_members k [] (d # ds) = parse_members n [] (d # ds)"
          using n k by (intro E [rule_format] M [rule_format]; simp)+
        with \<open>skip_ws s = c # cs\<close> Cons k show ?thesis by (auto split: if_split)
      qed
    qed (use k in simp)
  qed
  moreover have "?E (Suc n)"
  proof (intro allI impI)
    fix m acc and s :: string assume n: "2 * length s + 1 < Suc n" "Suc n \<le> m"
    then obtain k where k: "m = Suc k" "n \<le> k" by (cases m) auto
    have v: "parse_value k s = parse_value n s"
      by (rule V [rule_format]) (use n k in simp_all)
    have "parse_elems k (acc @ [w]) q' = parse_elems n (acc @ [w]) q'"
      if "parse_value n s = Some (w, q)" "skip_ws q = c # q'" for w q c q'
    proof -
      have "length q < length s" using that parse_consumes by blast
      then have "length q' + 1 < length s" using that length_skip_ws [of q] by simp
      then show ?thesis by (intro E [rule_format]) (use n k in simp_all)
    qed
    then show "parse_elems m acc s = parse_elems (Suc n) acc s"
      using k v by (simp split: option.split list.split)
  qed
  moreover have "?M (Suc n)"
  proof (intro allI impI)
    fix m acc and s :: string assume n: "2 * length s + 1 < Suc n" "Suc n \<le> m"
    then obtain k where k: "m = Suc k" "n \<le> k" by (cases m) auto
    have v: "parse_value k q1 = parse_value n q1 \<and> length q1 + 2 < length s"
      if "skip_ws s = c # cs" "parse_string cs = Some (t, q)" "skip_ws q = d # q1" for c cs t q d q1
    proof -
      have "length q1 + 2 < length s"
        using that length_skip_ws [of s] length_skip_ws [of q] length_parse_string [OF that(2)] by simp
      then show ?thesis by (intro conjI V [rule_format]) (use n k in simp_all)
    qed
    have w: "parse_members k acc' q3 = parse_members n acc' q3"
      if "parse_value n q1 = Some (v, q2)" "skip_ws q2 = d # q3" "length q1 + 2 < length s"
      for acc' q1 v q2 d q3
    proof -
      have "length q2 < length q1" using that parse_consumes by blast
      then have "length q3 + 1 < length s" using that length_skip_ws [of q2] by simp
      then show ?thesis by (intro M [rule_format]) (use n k in simp_all)
    qed
    show "parse_members m acc s = parse_members (Suc n) acc s"
    proof (cases "skip_ws s")
      case (Cons c cs)
      note s = Cons
      show ?thesis
      proof (cases "parse_string cs")
        case (Some p)
        obtain t q where p: "parse_string cs = Some (t, q)" using Some by (cases p) auto
        show ?thesis
        proof (cases "skip_ws q")
          case (Cons d q1)
          note pv = v [OF s p Cons]
          show ?thesis
            using k s p Cons pv w [OF _ _ conjunct2 [OF pv]]
            by (cases "parse_value n q1") (auto split: list.split)
        qed (use k s p in simp)
      qed (use k s in simp)
    qed (use k in simp)
  qed
  ultimately show ?case by blast
qed simp

lemma parse_fuel_enough:
  "2 * length s < n \<Longrightarrow> parse_value n s = parse_value (Suc (2 * length s)) s"
  using parse_fuel [of "Suc (2 * length s)"] by auto

subsection \<open>Printed text has no line break\<close>

lemma nl_code [simp]: "char_code nl = 10"
  by (simp add: nl_def char_code_def)

lemma hex_char_not_nl: "n < 16 \<Longrightarrow> hex_char n \<noteq> nl"
proof
  assume "n < 16" "hex_char n = nl"
  then have "char_code (hex_char n) = 10" by simp
  with \<open>n < 16\<close> show False by (auto simp: hex_char_def code_of_char split: if_splits)
qed

lemma letters_not_nl [simp]:
  "CHR ''b'' \<noteq> nl" "CHR ''t'' \<noteq> nl" "CHR ''n'' \<noteq> nl" "CHR ''f'' \<noteq> nl" "CHR ''r'' \<noteq> nl"
  "CHR ''u'' \<noteq> nl" "CHR ''0'' \<noteq> nl" "CHR '','' \<noteq> nl" "CHR '':'' \<noteq> nl" "CHR ''['' \<noteq> nl"
  "CHR '']'' \<noteq> nl" "CHR ''{'' \<noteq> nl" "CHR ''}'' \<noteq> nl" "dquote \<noteq> nl" "bslash \<noteq> nl"
  by (simp_all add: nl_def dquote_def bslash_def)

lemma esc_char_no_nl: "nl \<notin> set (esc_char c)"
proof (cases "c = nl")
  case True
  then show ?thesis by (simp add: esc_char_def letters_not_nl [symmetric])
next
  case False
  have "char_code c < 32 \<Longrightarrow> hex_char (char_code c div 16) \<noteq> nl \<and> hex_char (char_code c mod 16) \<noteq> nl"
    using hex_char_not_nl [of "char_code c div 16"] hex_char_not_nl [of "char_code c mod 16"] by auto
  with False show ?thesis
    by (auto simp: esc_char_def letters_not_nl [symmetric])
qed

lemma num_char_not_nl: "num_char c \<Longrightarrow> c \<noteq> nl"
  by (auto simp: num_char_def is_digit_def nl_def char_code_def)

lemma join_no_nl: "nl \<notin> set sep \<Longrightarrow> \<forall>x \<in> set xs. nl \<notin> set x \<Longrightarrow> nl \<notin> set (join sep xs)"
  by (induction sep xs rule: join.induct) auto

lemma quote_no_nl: "nl \<notin> set (quote s)"
  using esc_char_no_nl by (auto simp: quote_def letters_not_nl [symmetric])

lemma stringify_no_nl: "wf_json v \<Longrightarrow> nl \<notin> set (stringify v)"
proof (induction v)
  case (JNum i)
  then show ?case using num_char_int_str [of i] num_char_not_nl by (auto simp: list_all_iff)
next
  case (JFrac l)
  then show ?case using num_char_not_nl by (auto simp: wf_frac_def list_all_iff)
next
  case (JStr s)
  then show ?case using quote_no_nl by simp
next
  case (JArr vs)
  have "nl \<notin> set (join '','' (map stringify vs))"
    using JArr by (intro join_no_nl) (auto simp: list_all_iff nl_def)
  then show ?case by (auto simp: nl_def)
next
  case (JObj ms)
  have "nl \<notin> set (join '','' (map (\<lambda>(k, v). quote k @ '':'' @ stringify v) ms))"
    using JObj quote_no_nl by (intro join_no_nl) (fastforce simp: list_all_iff nl_def)+
  then show ?case by (auto simp: nl_def)
qed (auto simp: nl_def)

lemma stringify_not_blank: "wf_json (JObj ms) \<Longrightarrow> js_trim (stringify (JObj ms)) \<noteq> []"
  by (rule js_trim_nonblank [of "CHR ''{''"]) (simp_all add: js_space_def char_code_def)


subsection \<open>A torn text is never misread\<close>

text \<open>
  A reader that stopped before the end of its text reads the same value from any longer
  text. A number is the one value that may go on, so it must have stopped at something.
\<close>

lemma skip_ws_append: "skip_ws s \<noteq> [] \<Longrightarrow> skip_ws (s @ t) = skip_ws s @ t"
  by (induction s) (auto simp: skip_ws_def)

lemma skip_ws_append_Cons: "skip_ws s = c # r \<Longrightarrow> skip_ws (s @ t) = c # r @ t"
  using skip_ws_append [of s t] by simp

lemma parse_string_append: "parse_string s = Some (x, r) \<Longrightarrow> parse_string (s @ t) = Some (x, r @ t)"
proof (induction s arbitrary: x r rule: length_induct)
  case (1 s)
  have IH: "parse_string (s' @ t) = Some (x', r' @ t)"
    if "parse_string s' = Some (x', r')" "length s' < length s" for s' x' r'
    using 1 that by blast
  show ?case
  proof (cases s)
    case (Cons c cs)
    consider (q) "c = dquote" | (e) "c = bslash" | (o) "c \<noteq> dquote" "c \<noteq> bslash" by blast
    then show ?thesis
    proof cases
      case q
      with Cons "1.prems" show ?thesis by simp
    next
      case o
      with Cons "1.prems" show ?thesis by (auto simp: cons_char_Some IH split: if_splits)
    next
      case e
      with Cons "1.prems" obtain f r0 where r0: "cs = f # r0" by (cases cs) auto
      show ?thesis
      proof (cases "simple_escape f")
        case (Some d)
        with e Cons r0 "1.prems" show ?thesis by (auto simp: cons_char_Some IH)
      next
        case None
        with e Cons r0 "1.prems" obtain h1 h2 h3 h4 r' where r': "r0 = h1 # h2 # h3 # h4 # r'"
          by (auto split: if_splits list.splits)
        with None e Cons r0 "1.prems" show ?thesis
          by (auto simp: cons_char_Some IH split: if_splits option.splits)
      qed
    qed
  qed (use "1.prems" in simp)
qed

lemma takeWhile_stopped: "dropWhile P s \<noteq> [] \<Longrightarrow>
  takeWhile P (s @ t) = takeWhile P s \<and> dropWhile P (s @ t) = dropWhile P s @ t"
  by (induction s) auto

lemma parse_number_append:
  "parse_number s = Some (v, r) \<Longrightarrow> r \<noteq> [] \<Longrightarrow> parse_number (s @ t) = Some (v, r @ t)"
  using takeWhile_stopped [of num_char s t]
  by (auto simp: parse_number_def Let_def split: option.splits if_splits)

lemma parse_word_append: "parse_word s = Some (v, r) \<Longrightarrow> parse_word (s @ t) = Some (v, r @ t)"
  by (auto simp: parse_word_def starts_with_iff split: if_splits)

definition self_closing :: "string \<Rightarrow> bool" where
  "self_closing s \<longleftrightarrow> (case skip_ws s of [] \<Rightarrow> False | c # _ \<Rightarrow> \<not> is_digit c \<and> c \<noteq> CHR ''-'')"

lemma parse_append:
  "(\<forall>s v r t. parse_value n s = Some (v, r) \<longrightarrow> r \<noteq> [] \<or> self_closing s \<longrightarrow>
      parse_value n (s @ t) = Some (v, r @ t)) \<and>
   (\<forall>acc s v r t. parse_elems n acc s = Some (v, r) \<longrightarrow> parse_elems n acc (s @ t) = Some (v, r @ t)) \<and>
   (\<forall>acc s v r t. parse_members n acc s = Some (v, r) \<longrightarrow> parse_members n acc (s @ t) = Some (v, r @ t))"
  (is "?V n \<and> ?E n \<and> ?M n")
proof (induction n)
  case (Suc n)
  then have V: "?V n" and E: "?E n" and M: "?M n" by blast+
  have "?V (Suc n)"
  proof (intro allI impI)
    fix s v r t assume p: "parse_value (Suc n) s = Some (v, r)" and e: "r \<noteq> [] \<or> self_closing s"
    from p obtain c cs where c: "skip_ws s = c # cs" by (auto split: list.splits)
    show "parse_value (Suc n) (s @ t) = Some (v, r @ t)"
    proof (cases "c = CHR ''['' \<or> c = CHR ''{''")
      case True
      with p c obtain d ds where d: "skip_ws cs = d # ds" by (auto split: list.splits)
      from True show ?thesis
      proof
        assume "c = CHR ''[''"
        with p c d E [rule_format, of "[]" "d # ds" v r t] show ?thesis
          by (auto simp: skip_ws_append_Cons [OF c] skip_ws_append_Cons [OF d] split: if_splits)
      next
        assume "c = CHR ''{''"
        with p c d M [rule_format, of "[]" "d # ds" v r t] show ?thesis
          by (auto simp: skip_ws_append_Cons [OF c] skip_ws_append_Cons [OF d] split: if_splits)
      qed
    next
      case False
      then have nb: "c \<noteq> CHR ''[''" "c \<noteq> CHR ''{''" by auto
      show ?thesis
      proof (cases "is_digit c \<or> c = CHR ''-''")
        case True
        then have "r \<noteq> []" using e c by (auto simp: self_closing_def)
        moreover have "c \<noteq> dquote" using True by auto
        ultimately show ?thesis
          using p c nb True parse_number_append [of "c # cs" v r t]
          by (simp add: skip_ws_append_Cons [OF c])
      next
        case False
        with p c nb parse_string_append [of cs _ _ t] parse_word_append [of "c # cs" v r t] show ?thesis
          by (auto simp: skip_ws_append_Cons [OF c] split: if_splits)
      qed
    qed
  qed
  moreover have "?E (Suc n)"
  proof (intro allI impI)
    fix acc s v r t assume p: "parse_elems (Suc n) acc s = Some (v, r)"
    then obtain w q c q' where w: "parse_value n s = Some (w, q)" "skip_ws q = c # q'"
      by (auto split: option.splits list.splits)
    have "q \<noteq> []" using w(2) by (auto simp: skip_ws_def)
    then have "parse_value n (s @ t) = Some (w, q @ t)" using V w by blast
    with p w E show "parse_elems (Suc n) acc (s @ t) = Some (v, r @ t)"
      by (auto simp: skip_ws_append_Cons [OF w(2)] split: if_splits)
  qed
  moreover have "?M (Suc n)"
  proof (intro allI impI)
    fix acc s v r t assume p: "parse_members (Suc n) acc s = Some (v, r)"
    then obtain cs k q q1 w q2 d q3 where
      s: "skip_ws s = dquote # cs" "parse_string cs = Some (k, q)" "skip_ws q = CHR '':'' # q1"
      and w: "parse_value n q1 = Some (w, q2)" "skip_ws q2 = d # q3"
      by (auto split: option.splits list.splits if_splits)
    have "q2 \<noteq> []" using w(2) by (auto simp: skip_ws_def)
    then have "parse_value n (q1 @ t) = Some (w, q2 @ t)" using V w by blast
    with p s w M show "parse_members (Suc n) acc (s @ t) = Some (v, r @ t)"
      by (auto simp: skip_ws_append_Cons [OF s(1)] skip_ws_append_Cons [OF s(3)] parse_string_append
          skip_ws_append_Cons [OF w(2)] split: if_splits)
  qed
  ultimately show ?case by blast
qed simp

text \<open>So a proper prefix of a printed object is not a JSON text.\<close>

lemma torn_object_unreadable:
  assumes wf: "wf_json (JObj ms)" and p: "stringify (JObj ms) = p @ q" "q \<noteq> []"
  shows "json_parse p = None"
proof (rule ccontr)
  assume "json_parse p \<noteq> None"
  then obtain v r where v: "parse_value (Suc (2 * length p)) p = Some (v, r)" "skip_ws r = []"
    by (auto simp: json_parse_def simp del: parse_value.simps split: option.splits if_splits)
  have ne: "p \<noteq> []" using v(1) by (auto simp: skip_ws_def)
  then obtain p' where p': "p = CHR ''{'' # p'" using p(1) by (cases p) auto
  let ?n = "Suc (2 * length (p @ q))"
  have "parse_value ?n p = Some (v, r)"
    using v(1) parse_fuel_enough [of p ?n] by simp
  moreover have "self_closing p" by (simp add: self_closing_def p' skip_ws_Cons)
  ultimately have "parse_value ?n (p @ q) = Some (v, r @ q)"
    using parse_append [of ?n] by blast
  moreover have "parse_value ?n (stringify (JObj ms) @ []) = Some (JObj ms, [])"
  proof -
    have "2 * length (stringify (JObj ms)) < ?n" by (simp only: p(1))
    then show ?thesis using reads_all [OF wf] unfolding reads_def by blast
  qed
  ultimately show False using p by (simp del: parse_value.simps)
qed

text \<open>
  A reader leaves the end of its text, and the text of an object ends where its closing brace is.
\<close>

definition rest_of :: "string \<Rightarrow> string \<Rightarrow> bool" where
  "rest_of s r \<longleftrightarrow> (\<exists>u. s = u @ r)"

lemma rest_refl: "rest_of s s"
  by (simp add: rest_of_def)

lemma rest_trans: "rest_of s q \<Longrightarrow> rest_of q r \<Longrightarrow> rest_of s r"
  by (auto simp: rest_of_def)

lemma rest_Cons: "rest_of s (c # r) \<Longrightarrow> rest_of s r"
  by (metis rest_of_def append.assoc append_Cons append_Nil)

lemma rest_skip_ws: "skip_ws s = r \<Longrightarrow> rest_of s r"
  unfolding skip_ws_def rest_of_def by (metis takeWhile_dropWhile_id)

lemma rest_parse_string: "parse_string s = Some (t, r) \<Longrightarrow> rest_of s r"
proof (induction s arbitrary: t r rule: length_induct)
  case (1 s)
  have IH: "rest_of s' r'" if "parse_string s' = Some (t', r')" "length s' < length s" for s' t' r'
    using 1 that by blast
  have more: "rest_of s' r' \<Longrightarrow> rest_of (c # s') r'" for c s' r'
    by (metis rest_of_def append_Cons)
  show ?case
  proof (cases s)
    case (Cons c cs)
    with "1.prems" show ?thesis
      by (auto simp: cons_char_Some rest_refl split: if_splits list.splits option.splits intro!: more rest_refl intro: IH)
  qed (use "1.prems" in simp)
qed

lemma rest_parse_number: "parse_number s = Some (v, r) \<Longrightarrow> rest_of s r"
proof -
  assume "parse_number s = Some (v, r)"
  then have "r = dropWhile num_char s" by (auto simp: parse_number_def Let_def split: option.splits if_splits)
  then show ?thesis unfolding rest_of_def by (metis takeWhile_dropWhile_id)
qed

lemma rest_parse_word: "parse_word s = Some (v, r) \<Longrightarrow> rest_of s r"
  unfolding parse_word_def rest_of_def by (metis append_take_drop_id option.distinct(1) option.inject prod.inject)

lemma parse_rest:
  "(\<forall>s v r. parse_value n s = Some (v, r) \<longrightarrow> rest_of s r \<and>
      (\<forall>cs. skip_ws s = CHR ''{'' # cs \<longrightarrow> rest_of s (CHR ''}'' # r))) \<and>
   (\<forall>acc s v r. parse_elems n acc s = Some (v, r) \<longrightarrow> rest_of s r) \<and>
   (\<forall>acc s v r. parse_members n acc s = Some (v, r) \<longrightarrow> rest_of s (CHR ''}'' # r))"
  (is "?V n \<and> ?E n \<and> ?M n")
proof (induction n)
  case (Suc n)
  then have V: "?V n" and E: "?E n" and M: "?M n" by blast+
  have "?V (Suc n)"
  proof (intro allI impI)
    fix s v r assume p: "parse_value (Suc n) s = Some (v, r)"
    then obtain c cs where c: "skip_ws s = c # cs" by (auto split: list.splits)
    have s: "rest_of s (c # cs)" "rest_of s cs" using rest_skip_ws [OF c] rest_Cons by blast+
    have ws: "rest_of cs (skip_ws cs)" by (rule rest_skip_ws [OF refl])
    consider (obj) "c = CHR ''{''" | (arr) "c = CHR ''[''" | (val) "c \<noteq> CHR ''{''" "c \<noteq> CHR ''[''" by blast
    then show "rest_of s r \<and> (\<forall>cs. skip_ws s = CHR ''{'' # cs \<longrightarrow> rest_of s (CHR ''}'' # r))"
    proof cases
      case obj
      then obtain d ds where d: "skip_ws cs = d # ds" using p c by (auto split: list.splits)
      have "rest_of (d # ds) (CHR ''}'' # r)"
        using p c d obj M by (auto simp: rest_refl split: if_splits)
      then have "rest_of s (CHR ''}'' # r)" using s ws rest_trans unfolding d by blast
      then show ?thesis using rest_Cons by blast
    next
      case arr
      then obtain d ds where d: "skip_ws cs = d # ds" using p c by (auto split: list.splits)
      have "rest_of (d # ds) r"
        using p c d arr E rest_Cons [OF rest_refl, of d ds] by (auto split: if_splits)
      then have "rest_of s r" using s(2) ws rest_trans unfolding d by blast
      then show ?thesis using arr c by simp
    next
      case val
      have "rest_of (c # cs) r"
      proof (cases "c = dquote")
        case True
        then obtain t where "parse_string cs = Some (t, r)" using p c by auto
        then show ?thesis using rest_parse_string rest_trans [OF rest_Cons [OF rest_refl, of c cs]] by blast
      next
        case False
        then have "parse_number (c # cs) = Some (v, r) \<or> parse_word (c # cs) = Some (v, r)"
          using p c val by (simp split: if_splits)
        then show ?thesis using rest_parse_number rest_parse_word by blast
      qed
      then show ?thesis using s rest_trans val c by auto
    qed
  qed
  moreover have "?E (Suc n)"
  proof (intro allI impI)
    fix acc s v r assume p: "parse_elems (Suc n) acc s = Some (v, r)"
    then obtain w q c q' where w: "parse_value n s = Some (w, q)" "skip_ws q = c # q'"
      by (auto split: option.splits list.splits)
    have "rest_of s q'" using V w rest_skip_ws rest_trans rest_Cons by blast
    moreover have "rest_of q' r" using p w E by (auto simp: rest_refl split: if_splits)
    ultimately show "rest_of s r" by (rule rest_trans)
  qed
  moreover have "?M (Suc n)"
  proof (intro allI impI)
    fix acc s v r assume p: "parse_members (Suc n) acc s = Some (v, r)"
    then obtain cs k q q1 w q2 d q3 where
      s: "skip_ws s = dquote # cs" "parse_string cs = Some (k, q)" "skip_ws q = CHR '':'' # q1"
      and w: "parse_value n q1 = Some (w, q2)" "skip_ws q2 = d # q3"
      by (auto split: option.splits list.splits if_splits)
    have "rest_of s q1" using rest_skip_ws [OF s(1)] rest_parse_string [OF s(2)] rest_skip_ws [OF s(3)] rest_trans rest_Cons by blast
    moreover have "rest_of q1 (d # q3)" using V w rest_skip_ws rest_trans by blast
    moreover have "rest_of (d # q3) (CHR ''}'' # r)"
      using p s w M rest_trans [OF rest_Cons [OF rest_refl, of d q3]] by (auto simp: rest_refl split: if_splits)
    ultimately show "rest_of s (CHR ''}'' # r)" using rest_trans by blast
  qed
  ultimately show ?case by blast
qed simp

text \<open>So a text that begins as an object and ends in anything but a brace or white space is no JSON text.\<close>

lemma unclosed_object_unreadable:
  assumes "c \<noteq> CHR ''}''" "\<not> json_ws c"
  shows "json_parse (CHR ''{'' # p @ [c]) = None"
proof (rule ccontr)
  let ?t = "CHR ''{'' # p @ [c]"
  assume "json_parse ?t \<noteq> None"
  then obtain v r where v: "parse_value (Suc (2 * length ?t)) ?t = Some (v, r)" "skip_ws r = []"
    by (auto simp: json_parse_def simp del: parse_value.simps split: option.splits if_splits)
  have "skip_ws ?t = ?t" by (simp add: skip_ws_Cons)
  then obtain u where u: "?t = u @ CHR ''}'' # r" using parse_rest v(1) unfolding rest_of_def by blast
  show False
  proof (cases r rule: rev_cases)
    case Nil
    then show False using u assms(1) by (simp add: append_eq_Cons_conv)
  next
    case (snoc r' x)
    then have "x = c" using u by (metis append.assoc append_Cons last_snoc)
    then have "c \<in> set r" using snoc by simp
    then show False using v(2) assms(2) by (simp add: skip_ws_def)
  qed
qed

subsection \<open>Property access\<close>

text \<open>\<open>v.k\<close> on a value that is an object; any other value has none of the properties used.\<close>

definition jget :: "string \<Rightarrow> json \<Rightarrow> json option" where
  "jget k v = (case v of JObj ms \<Rightarrow> map_of ms k | _ \<Rightarrow> None)"

definition is_obj :: "json \<Rightarrow> bool" where
  "is_obj v = (case v of JObj _ \<Rightarrow> True | _ \<Rightarrow> False)"

definition jget_str :: "string \<Rightarrow> json \<Rightarrow> string option" where
  "jget_str k v = (case jget k v of Some (JStr s) \<Rightarrow> Some s | _ \<Rightarrow> None)"

lemma is_obj_iff: "is_obj v \<longleftrightarrow> (\<exists>ms. v = JObj ms)"
  by (cases v) (auto simp: is_obj_def)

lemma jget_str_obj: "jget_str k v = Some s \<Longrightarrow> is_obj v"
  by (auto simp: jget_str_def jget_def is_obj_def split: json.splits)

end
