(* ===== verification/Utf8.thy ===== *)
theory Utf8
  imports Json
begin

text \<open>
  Text as bytes: UTF-8 for the code units of the model (0 to 255), its strict decoder, and the
  decoder of \<open>readFile(_, 'utf8')\<close>, which never fails. A list of natural numbers below 256 is a
  byte sequence.
\<close>

type_synonym bytes = "nat list"

subsection \<open>Encoding and strict decoding\<close>

definition utf8_char :: "char \<Rightarrow> nat list" where
  "utf8_char c =
     (let n = char_code c in if n < 128 then [n] else [192 + n div 64, 128 + n mod 64])"

definition utf8 :: "string \<Rightarrow> nat list" where
  "utf8 s = concat (map utf8_char s)"

text \<open>\<open>None\<close>: bytes that are no UTF-8 of code points up to 255.\<close>

fun from_utf8 :: "nat list \<Rightarrow> string option" where
  "from_utf8 [] = Some []"
| "from_utf8 (a # r) =
     (if a < 128 then map_option (\<lambda>t. char_of a # t) (from_utf8 r)
      else (case r of
          [] \<Rightarrow> None
        | b # r' \<Rightarrow>
            if (a = 194 \<or> a = 195) \<and> 128 \<le> b \<and> b < 192
            then map_option (\<lambda>t. char_of (64 * (a - 192) + (b - 128)) # t) (from_utf8 r')
            else None))"

lemma from_utf8_char: "from_utf8 (utf8_char c @ r) = map_option (\<lambda>t. c # t) (from_utf8 r)"
proof (cases "char_code c < 128")
  case True
  then show ?thesis by (simp add: utf8_char_def)
next
  case False
  define n where "n = char_code c"
  have n: "128 \<le> n" "n < 256" using False char_code_less [of c] by (simp_all add: n_def)
  have q: "n div 64 = 2 \<or> n div 64 = 3" using n by linarith
  have k: "n div 64 = 2 \<Longrightarrow> 128 + n mod 64 = n" "n div 64 = 3 \<Longrightarrow> 192 + n mod 64 = n"
      using mult_div_mod_eq [of 64 n] by simp_all
  have e: "utf8_char c = [192 + n div 64, 128 + n mod 64]" using False by (simp add: utf8_char_def n_def Let_def)
  have c: "char_of n = c" "n mod 64 < 64" by (simp_all add: n_def)
  show ?thesis unfolding e using q k c by auto
qed

lemma from_utf8_utf8: "from_utf8 (utf8 s) = Some s"
  by (induction s) (simp_all add: utf8_def from_utf8_char)

subsection \<open>Decoding a file\<close>

text \<open>
  A byte that belongs to no encoded code unit is read as U+FFFD. That is no code unit of the model;
  the letter 255 stands for it, which is like it in what the readers of a file look at: neither
  white space nor ASCII.
\<close>

definition replacement :: char where
  "replacement = CHR 0xFF"

fun read_utf8 :: "nat list \<Rightarrow> string" where
  "read_utf8 [] = []"
| "read_utf8 (a # r) =
     (if a < 128 then char_of a # read_utf8 r
      else (case r of
          [] \<Rightarrow> [replacement]
        | b # r' \<Rightarrow>
            if (a = 194 \<or> a = 195) \<and> 128 \<le> b \<and> b < 192
            then char_of (64 * (a - 192) + (b - 128)) # read_utf8 r'
            else replacement # read_utf8 r))"

lemma utf8_Nil [simp]: "utf8 [] = []" and utf8_Cons: "utf8 (c # s) = utf8_char c @ utf8 s"
  and utf8_append: "utf8 (s @ t) = utf8 s @ utf8 t"
  by (simp_all add: utf8_def)

lemma utf8_char_cases:
  obtains (ascii) "char_code c < 128" "utf8_char c = [char_code c]"
  | (two) a b where "128 \<le> char_code c" "utf8_char c = [a, b]" "a = 194 \<or> a = 195" "128 \<le> b" "b < 192"
      "char_of (64 * (a - 192) + (b - 128)) = c"
proof (cases "char_code c < 128")
  case True
  then show ?thesis using ascii by (simp add: utf8_char_def)
next
  case False
  define n where "n = char_code c"
  have n: "128 \<le> n" "n < 256" using False char_code_less [of c] by (simp_all add: n_def)
  have q: "n div 64 = 2 \<or> n div 64 = 3" using n by linarith
  then have k: "64 * (n div 64) + n mod 64 = n" "n mod 64 < 64" by simp_all
  have "char_of (64 * (n div 64) + n mod 64) = c" unfolding k(1) by (simp add: n_def)
  moreover have "utf8_char c = [192 + n div 64, 128 + n mod 64]" using False by (simp add: utf8_char_def n_def Let_def)
  ultimately show ?thesis using n q k(2) two [of "192 + n div 64" "128 + n mod 64"] by (auto simp: n_def)
qed

lemma read_utf8_char: "read_utf8 (utf8_char c @ r) = c # read_utf8 r"
  by (cases c rule: utf8_char_cases) (simp, auto)

lemma read_utf8_append: "read_utf8 (utf8 s @ r) = s @ read_utf8 r"
  by (induction s) (simp_all add: utf8_Cons read_utf8_char)

lemma read_utf8_utf8 [simp]: "read_utf8 (utf8 s) = s"
  using read_utf8_append [of s "[]"] by simp

text \<open>A line break is a byte of its own wherever it stands, so what precedes it is read by itself.\<close>

lemma char_of_nl: "char_of (10 :: nat) = nl"
  by code_simp

lemma read_utf8_line: "read_utf8 (bs @ 10 # r) = read_utf8 bs @ nl # read_utf8 r"
proof (induction bs rule: read_utf8.induct)
  case 1
  show ?case by (simp add: char_of_nl)
next
  case (2 a bs)
  then show ?case by (cases bs) (auto simp: char_of_nl)
qed

text \<open>Cutting the bytes of a text cuts the text, or cuts one of its letters beyond ASCII in two.\<close>

lemma read_utf8_cut:
  "\<exists>k. read_utf8 (take n (utf8 s)) = take k s \<or>
    (k < length s \<and> 128 \<le> char_code (s ! k) \<and> read_utf8 (take n (utf8 s)) = take k s @ [replacement])"
proof (induction s arbitrary: n)
  case (Cons c s)
  have step: ?case if "take n (utf8 (c # s)) = utf8_char c @ take m (utf8 s)" for m
  proof -
    obtain k where "read_utf8 (take m (utf8 s)) = take k s \<or>
        (k < length s \<and> 128 \<le> char_code (s ! k) \<and> read_utf8 (take m (utf8 s)) = take k s @ [replacement])"
      using Cons.IH [of m] by blast
    then show ?thesis by (intro exI [of _ "Suc k"]) (auto simp: that read_utf8_char)
  qed
  show ?case
  proof (cases n)
    case (Suc m)
    show ?thesis
    proof (cases c rule: utf8_char_cases)
      case ascii
      then show ?thesis using Suc by (intro step [of m]) (simp add: utf8_Cons)
    next
      case (two a b)
      show ?thesis
      proof (cases m)
        case 0
        then show ?thesis using two Suc by (intro exI [of _ 0]) (auto simp: utf8_Cons)
      next
        case (Suc j)
        then show ?thesis using two \<open>n = Suc m\<close> by (intro step [of j]) (simp add: utf8_Cons)
      qed
    qed
  qed (auto intro: exI [of _ 0])
qed simp

end
