(* ===== verification/Relay_Store.thy ===== *)
theory Relay_Store
  imports Utf8
begin

text \<open>
  \<open>packages/relay/src/store.ts\<close> and the wire types of \<open>protocol.ts\<close>: the store-and-forward
  log of the relay, one \<open>events.ndjson\<close> file per project and its in-memory index.

  The state is the disk (\<open>files\<close>: the bytes of each project's file, \<open>dirs\<close>: the project
  directories) and the \<open>projects\<close> map of the process. The per-project promise chain makes an
  append atomic with respect to other appends of the project, so an append is one step here, and
  so is a read; that a read may come between the disk write of an append and its update of the
  memory is not modelled. A failing disk write is the \<open>io\<close> argument: it leaves the first \<open>n\<close>
  bytes in the file, wherever that cuts the text, and rejects. A rejected \<open>ready\<close> or \<open>tail\<close>
  promise is a flag of the log.
\<close>

subsection \<open>Events and logs\<close>

text \<open>An \<open>OpaqueEvent\<close>: a JSON value of which only a string \<open>id\<close> is ever read.\<close>

type_synonym event = json

definition event_id :: "event \<Rightarrow> string option" where
  "event_id e = jget_str ''id'' e"

text \<open>\<open>event.id\<close> of an event that \<open>parsePushRequest\<close> has admitted.\<close>

definition the_id :: "event \<Rightarrow> string" where
  "the_id e = (case event_id e of Some i \<Rightarrow> i | None \<Rightarrow> [])"

record project_log =
  events :: "event list"
  seen :: "string set"
  ready_ok :: bool
  tail_ok :: bool

definition empty_log :: project_log where
  "empty_log = \<lparr>events = [], seen = {}, ready_ok = True, tail_ok = True\<rparr>"

record relay_store =
  files :: "string \<Rightarrow> bytes option"
  dirs :: "string list"
  projects :: "(string \<times> project_log) list"

datatype relay_error = NullEvent | DiskError

datatype io = IoOk | IoFail nat

subsection \<open>Hydration\<close>

text \<open>
  One line of the file. \<open>None\<close> is the \<open>TypeError\<close> of reading \<open>event.id\<close> of \<open>null\<close>: it is
  thrown outside the \<open>try\<close>, so it ends the loop and rejects \<open>ready\<close>.
\<close>

definition hydrate_line :: "project_log \<Rightarrow> string \<Rightarrow> project_log option" where
  "hydrate_line lg line =
     (if js_trim line = [] then Some lg
      else case json_parse line of
          None \<Rightarrow> Some lg
        | Some JNull \<Rightarrow> None
        | Some e \<Rightarrow>
            (case event_id e of
               None \<Rightarrow> Some lg
             | Some i \<Rightarrow>
                 if i \<in> seen lg then Some lg
                 else Some (lg\<lparr>events := events lg @ [e], seen := insert i (seen lg)\<rparr>)))"

fun hydrate_lines :: "project_log \<Rightarrow> string list \<Rightarrow> project_log \<times> bool" where
  "hydrate_lines lg [] = (lg, True)"
| "hydrate_lines lg (l # ls) =
     (case hydrate_line lg l of
        None \<Rightarrow> (lg, False)
      | Some lg' \<Rightarrow> hydrate_lines lg' ls)"

definition hydrate :: "bytes option \<Rightarrow> project_log \<times> bool" where
  "hydrate file =
     (case file of
        None \<Rightarrow> (empty_log, True)
      | Some raw \<Rightarrow> hydrate_lines empty_log (js_split nl (read_utf8 raw)))"

definition ensure :: "relay_store \<Rightarrow> string \<Rightarrow> project_log \<times> relay_store" where
  "ensure s pid =
     (case map_of (projects s) pid of
        Some lg \<Rightarrow> (lg, s)
      | None \<Rightarrow>
          (let (lg, ok) = hydrate (files s pid);
               lg' = lg\<lparr>ready_ok := ok, tail_ok := ok\<rparr>
           in (lg', s\<lparr>projects := js_set pid lg' (projects s)\<rparr>)))"

text \<open>\<open>EventStore.open\<close>: \<open>None\<close> when a \<open>ready\<close> promise rejects.\<close>

definition open_store :: "(string \<Rightarrow> bytes option) \<Rightarrow> string list \<Rightarrow> relay_store option" where
  "open_store fs ds =
     (let s = foldl (\<lambda>s d. snd (ensure s d)) \<lparr>files = fs, dirs = ds, projects = []\<rparr> ds
      in if list_all (\<lambda>(_, lg). ready_ok lg) (projects s) then Some s else None)"

subsection \<open>Append, read, stats\<close>

fun fresh_events :: "string set \<Rightarrow> event list \<Rightarrow> event list" where
  "fresh_events known [] = []"
| "fresh_events known (e # es) =
     (if the_id e \<in> known then fresh_events known es
      else e # fresh_events (insert (the_id e) known) es)"

definition event_line :: "event \<Rightarrow> string" where
  "event_line e = stringify e @ [nl]"

definition append_file :: "(string \<Rightarrow> bytes option) \<Rightarrow> string \<Rightarrow> bytes \<Rightarrow> string \<Rightarrow> bytes option" where
  "append_file fs pid data = fs(pid \<mapsto> (case fs pid of None \<Rightarrow> data | Some c \<Rightarrow> c @ data))"

definition append :: "relay_store \<Rightarrow> string \<Rightarrow> event list \<Rightarrow> io \<Rightarrow> (relay_error + string list) \<times> relay_store" where
  "append s pid evs io =
     (let (lg, s1) = ensure s pid
      in if \<not> tail_ok lg
         then (Inl NullEvent, s1\<lparr>projects := js_set pid (lg\<lparr>tail_ok := True\<rparr>) (projects s1)\<rparr>)
         else
           (let fresh = fresh_events (seen lg) evs
            in if fresh = [] then (Inr [], s1)
               else
                 (let data = utf8 (concat (map event_line fresh))
                  in case io of
                       IoFail n \<Rightarrow>
                         (Inl DiskError,
                          if n = 0 then s1
                          else s1\<lparr>files := append_file (files s1) pid (take n data),
                                  dirs := List.insert pid (dirs s1)\<rparr>)
                     | IoOk \<Rightarrow>
                         (Inr (map the_id fresh),
                          s1\<lparr>files := append_file (files s1) pid data,
                             dirs := List.insert pid (dirs s1),
                             projects := js_set pid
                               (lg\<lparr>events := events lg @ fresh,
                                   seen := seen lg \<union> the_id ` set fresh\<rparr>) (projects s1)\<rparr>))))"

fun find_index :: "('a \<Rightarrow> bool) \<Rightarrow> 'a list \<Rightarrow> nat option" where
  "find_index P [] = None"
| "find_index P (x # xs) = (if P x then Some 0 else map_option Suc (find_index P xs))"

text \<open>\<open>if (!sinceId)\<close>: an absent and an empty cursor both ask for everything.\<close>

definition read_since :: "string option \<Rightarrow> event list \<Rightarrow> event list" where
  "read_since since es =
     (case since of
        None \<Rightarrow> es
      | Some i \<Rightarrow>
          if i = [] then es
          else (case find_index (\<lambda>e. event_id e = Some i) es of
                  None \<Rightarrow> es
                | Some k \<Rightarrow> drop (Suc k) es))"

definition read :: "relay_store \<Rightarrow> string \<Rightarrow> string option \<Rightarrow> (relay_error + event list) \<times> relay_store" where
  "read s pid since =
     (let (lg, s1) = ensure s pid
      in if \<not> ready_ok lg then (Inl NullEvent, s1) else (Inr (read_since since (events lg)), s1))"

record store_stat =
  storeId :: string
  stat_events :: nat
  stat_bytes :: nat

record relay_stats =
  stat_stores :: "store_stat list"
  total_stores :: nat
  total_events :: nat
  total_bytes :: nat

definition project_stat :: "relay_store \<Rightarrow> string \<times> project_log \<Rightarrow> store_stat" where
  "project_stat s p =
     \<lparr>storeId = fst p, stat_events = length (events (snd p)),
      stat_bytes = (case files s (fst p) of None \<Rightarrow> 0 | Some c \<Rightarrow> length c)\<rparr>"

definition by_bytes_desc :: "store_stat \<Rightarrow> store_stat \<Rightarrow> int" where
  "by_bytes_desc a b = int (stat_bytes b) - int (stat_bytes a)"

definition stats :: "relay_store \<Rightarrow> relay_error + relay_stats" where
  "stats s =
     (if list_all (\<lambda>(_, lg). ready_ok lg) (projects s)
      then (let rows = map (project_stat s) (projects s)
            in Inr \<lparr>stat_stores = js_sort by_bytes_desc rows, total_stores = length rows,
                    total_events = sum_list (map stat_events rows),
                    total_bytes = sum_list (map stat_bytes rows)\<rparr>)
      else Inl NullEvent)"

subsection \<open>The line format as a codec\<close>

text \<open>
  What the log asks of its line format: a printed value reads back, contains no line
  break, and is not blank.
\<close>

locale line_codec = codec enc dec valid
  for enc :: "'e \<Rightarrow> string" and dec :: "string \<Rightarrow> 'e option" and valid :: "'e \<Rightarrow> bool" +
  assumes enc_one_line: "valid e \<Longrightarrow> nl \<notin> set (enc e)"
    and enc_not_blank: "valid e \<Longrightarrow> js_trim (enc e) \<noteq> []"
begin

lemma split_lines_append:
  "list_all valid es \<Longrightarrow>
   js_split nl (concat (map (\<lambda>e. enc e @ [nl]) es) @ r) = map enc es @ js_split nl r"
  by (induction es) (auto simp: js_split_append enc_one_line)

lemma decode_lines:
  "list_all valid es \<Longrightarrow> map dec (filter (\<lambda>l. js_trim l \<noteq> []) (map enc es)) = map Some es"
proof -
  assume es: "list_all valid es"
  then have "filter (\<lambda>l. js_trim l \<noteq> []) (map enc es) = map enc es"
    by (induction es) (auto simp: enc_not_blank)
  then show ?thesis using dec_enc_list [OF es] by simp
qed

end

text \<open>An event as it is stored: a well-formed object with a string id.\<close>

definition storable :: "event \<Rightarrow> bool" where
  "storable e \<longleftrightarrow> wf_json e \<and> event_id e \<noteq> None"

lemma storable_obj: "storable e \<Longrightarrow> \<exists>ms. e = JObj ms"
  using jget_str_obj by (fastforce simp: storable_def event_id_def is_obj_iff)

interpretation ndjson: line_codec stringify json_parse storable
proof
  fix e assume e: "storable e"
  then obtain ms where ms: "e = JObj ms" using storable_obj by blast
  from e show "json_parse (stringify e) = Some e"
    by (simp add: storable_def parse_stringify)
  from e show "nl \<notin> set (stringify e)"
    using stringify_no_nl by (simp add: storable_def)
  from e ms show "js_trim (stringify e) \<noteq> []"
    using stringify_not_blank by (auto simp: storable_def)
qed

subsection \<open>Hydration of what append writes\<close>

lemma storable_id [simp]: "storable e \<Longrightarrow> event_id e = Some (the_id e)"
  by (auto simp: storable_def the_id_def)

lemma hydrate_line_event:
  "storable e \<Longrightarrow> the_id e \<notin> seen lg \<Longrightarrow>
   hydrate_line lg (stringify e) =
     Some (lg\<lparr>events := events lg @ [e], seen := insert (the_id e) (seen lg)\<rparr>)"
  using storable_obj [of e]
  by (auto simp: hydrate_line_def ndjson.dec_enc ndjson.enc_not_blank simp del: stringify.simps)

lemma hydrate_line_blank [simp]: "hydrate_line lg [] = Some lg"
  by (simp add: hydrate_line_def js_trim_def)

lemma hydrate_lines_append:
  "hydrate_lines lg (xs @ ys) =
     (if snd (hydrate_lines lg xs) then hydrate_lines (fst (hydrate_lines lg xs)) ys
      else hydrate_lines lg xs)"
  by (induction xs arbitrary: lg) (auto split: option.splits)

lemma hydrate_lines_events:
  assumes "list_all storable es" "distinct (map the_id es)" "the_id ` set es \<inter> seen lg = {}"
  shows "hydrate_lines lg (map stringify es) =
    (lg\<lparr>events := events lg @ es, seen := seen lg \<union> the_id ` set es\<rparr>, True)"
  using assms
proof (induction es arbitrary: lg)
  case (Cons e es)
  then show ?case by (simp add: hydrate_line_event del: stringify.simps)
qed simp

text \<open>A text that ends at a line break, or is empty.\<close>

definition whole_lines :: "string \<Rightarrow> bool" where
  "whole_lines c \<longleftrightarrow> c = [] \<or> last c = nl"

lemma js_split_complete:
  "whole_lines c \<Longrightarrow> js_split nl (c @ r) = butlast (js_split nl c) @ js_split nl r \<and> last (js_split nl c) = []"
proof (induction c)
  case (Cons x c)
  show ?case
  proof (cases "c = []")
    case True
    with Cons show ?thesis by (auto simp: whole_lines_def)
  next
    case False
    with Cons have "whole_lines c" by (auto simp: whole_lines_def)
    note IH = Cons.IH [OF this]
    from False \<open>whole_lines c\<close> have "js_split nl c \<noteq> [[]]" and two: "tl (js_split nl c) \<noteq> []"
    proof -
      show "tl (js_split nl c) \<noteq> []"
        using False \<open>whole_lines c\<close>
        by (induction c) (auto simp: whole_lines_def split: list.splits if_splits)
      then show "js_split nl c \<noteq> [[]]" by auto
    qed
    then obtain l l' ls where "js_split nl c = l # l' # ls"
      by (cases "js_split nl c"; cases "tl (js_split nl c)") auto
    with IH show ?thesis by auto
  qed
qed (simp add: whole_lines_def)

lemma hydrate_lines_blank_end: "hydrate_lines lg (xs @ [[]]) = hydrate_lines lg xs"
  by (simp add: hydrate_lines_append prod_eq_iff)

lemma hydrate_lines_complete:
  "whole_lines c \<Longrightarrow> hydrate_lines lg (js_split nl (c @ r)) =
     (if snd (hydrate_lines lg (js_split nl c))
      then hydrate_lines (fst (hydrate_lines lg (js_split nl c))) (js_split nl r)
      else hydrate_lines lg (js_split nl c))"
proof -
  assume c: "whole_lines c"
  have "js_split nl c = butlast (js_split nl c) @ [[]]"
    using js_split_complete [OF c, of "[]"] by (metis append_butlast_last_id js_split_nonempty)
  then have "hydrate_lines lg (js_split nl c) = hydrate_lines lg (butlast (js_split nl c))"
    using hydrate_lines_blank_end by metis
  then show ?thesis
    using js_split_complete [OF c, of r] by (simp add: hydrate_lines_append)
qed

text \<open>The same of a file.\<close>

definition complete :: "bytes \<Rightarrow> bool" where
  "complete bs \<longleftrightarrow> bs = [] \<or> last bs = 10"

lemma complete_read:
  assumes "complete bs"
  shows "whole_lines (read_utf8 bs)" "read_utf8 (bs @ r) = read_utf8 bs @ read_utf8 r"
proof -
  have "whole_lines (read_utf8 bs) \<and> read_utf8 (bs @ r) = read_utf8 bs @ read_utf8 r"
  proof (cases bs rule: rev_cases)
    case (snoc cs b)
    then have "bs = cs @ [10]" using assms by (simp add: complete_def)
    then show ?thesis using read_utf8_line [of cs r] read_utf8_line [of cs "[]"] by (simp add: whole_lines_def)
  qed (simp add: whole_lines_def)
  then show "whole_lines (read_utf8 bs)" "read_utf8 (bs @ r) = read_utf8 bs @ read_utf8 r" by simp_all
qed

lemma complete_written: "es \<noteq> [] \<Longrightarrow> complete (bs @ utf8 (concat (map event_line es)))"
proof -
  have "utf8_char nl = [10]" by code_simp
  then show "es \<noteq> [] \<Longrightarrow> complete (bs @ utf8 (concat (map event_line es)))"
    by (cases es rule: rev_cases) (simp_all add: complete_def event_line_def utf8_append utf8_Cons)
qed

lemma hydrate_after:
  assumes "complete bs" "snd (hydrate (Some bs))"
  shows "hydrate (Some (bs @ r)) = hydrate_lines (fst (hydrate (Some bs))) (js_split nl (read_utf8 r))"
  using assms(2) hydrate_lines_complete [OF complete_read(1) [OF assms(1)], of empty_log "read_utf8 r"]
  by (simp add: hydrate_def complete_read(2) [OF assms(1)])

end
