(* ===== verification/Relay_Log.thy ===== *)
theory Relay_Log
  imports Relay_Store
begin

text \<open>
  What the relay's store promises (\<open>PROTOCOL.md\<close>, invariants of \<open>store.ts\<close>): an append-only,
  order-preserving log per project with idempotent dedup by id, which survives a restart.

  The abstraction of a store is the log its disk holds (\<open>disk_log\<close>); \<open>durable\<close> says that the
  in-memory log is that log. The locale \<open>event_log\<close> is the interface a sync client relies
  on (push, pull since a cursor) with the client's lemmas; it is interpreted on the store.
\<close>

subsection \<open>The log of a file\<close>

definition log_ok :: "project_log \<Rightarrow> bool" where
  "log_ok lg \<longleftrightarrow> list_all storable (events lg) \<and> distinct (map the_id (events lg)) \<and>
     seen lg = the_id ` set (events lg)"

definition disk_log :: "relay_store \<Rightarrow> string \<Rightarrow> project_log" where
  "disk_log s pid = fst (hydrate (files s pid))"

text \<open>Every file can be hydrated, and a hydrated log is its file's.\<close>

definition synced :: "relay_store \<Rightarrow> bool" where
  "synced s \<longleftrightarrow>
     (\<forall>pid. snd (hydrate (files s pid)) \<and>
            (\<forall>lg. map_of (projects s) pid = Some lg \<longrightarrow> lg = disk_log s pid))"

text \<open>And every file ends at a line break, so that the next line starts on its own.\<close>

definition durable :: "relay_store \<Rightarrow> bool" where
  "durable s \<longleftrightarrow> synced s \<and> (\<forall>pid c. files s pid = Some c \<longrightarrow> complete c)"

lemma hydrate_line_cases:
  assumes "hydrate_line lg l = Some lg'"
  shows "lg' = lg \<or> (\<exists>e i. json_parse l = Some e \<and> event_id e = Some i \<and> i \<notin> seen lg \<and>
    lg' = lg\<lparr>events := events lg @ [e], seen := insert i (seen lg)\<rparr>)"
proof (cases "json_parse l")
  case None
  with assms show ?thesis by (simp add: hydrate_line_def split: if_splits)
next
  case (Some e)
  with assms show ?thesis
    by (cases e) (simp_all add: hydrate_line_def split: if_splits option.splits)
qed

lemma hydrate_line_ok: "log_ok lg \<Longrightarrow> hydrate_line lg l = Some lg' \<Longrightarrow> log_ok lg'"
  using hydrate_line_cases [of lg l lg'] wf_json_parse [of l]
  by (auto simp: log_ok_def storable_def the_id_def)

lemma hydrate_line_flags:
  "hydrate_line lg l = Some lg' \<Longrightarrow> ready_ok lg' = ready_ok lg \<and> tail_ok lg' = tail_ok lg"
  using hydrate_line_cases [of lg l lg'] by auto

lemma hydrate_lines_ok: "log_ok lg \<Longrightarrow> log_ok (fst (hydrate_lines lg ls))"
  by (induction ls arbitrary: lg) (auto split: option.splits dest: hydrate_line_ok)

lemma hydrate_lines_flags:
  "ready_ok (fst (hydrate_lines lg ls)) = ready_ok lg \<and> tail_ok (fst (hydrate_lines lg ls)) = tail_ok lg"
  by (induction ls arbitrary: lg) (auto split: option.splits dest: hydrate_line_flags)

lemma log_ok_empty [simp]: "log_ok empty_log"
  by (simp add: log_ok_def empty_log_def)

lemma disk_log_ok: "log_ok (disk_log s pid)"
  by (auto simp: disk_log_def hydrate_def hydrate_lines_ok split: option.splits)

lemma disk_log_flags [simp]: "ready_ok (disk_log s pid)" "tail_ok (disk_log s pid)"
  by (auto simp: disk_log_def hydrate_def hydrate_lines_flags empty_log_def split: option.splits)

lemma syncedD:
  assumes "synced s"
  shows "snd (hydrate (files s pid))"
    "map_of (projects s) pid = Some lg \<Longrightarrow> lg = disk_log s pid"
  using assms by (auto simp: synced_def)

lemma durableD:
  assumes "durable s"
  shows "synced s" "files s pid = Some c \<Longrightarrow> complete c"
  using assms by (auto simp: durable_def)

lemma disk_log_files: "files s' = files s \<Longrightarrow> disk_log s' p = disk_log s p"
  by (simp add: disk_log_def)

lemma ensure_synced:
  assumes "synced s"
  shows "fst (ensure s pid) = disk_log s pid" "synced (snd (ensure s pid))"
    "files (snd (ensure s pid)) = files s" "dirs (snd (ensure s pid)) = dirs s"
proof -
  have d: "disk_log s pid\<lparr>ready_ok := True, tail_ok := True\<rparr> = disk_log s pid"
    using disk_log_flags [of s pid] by (cases "disk_log s pid") simp
  have eq: "ensure s pid = (case map_of (projects s) pid of
      Some lg \<Rightarrow> (disk_log s pid, s)
    | None \<Rightarrow> (disk_log s pid, s\<lparr>projects := js_set pid (disk_log s pid) (projects s)\<rparr>))"
    using syncedD [OF assms, of pid] d
    by (auto simp: ensure_def disk_log_def split: option.splits prod.splits)
  show "fst (ensure s pid) = disk_log s pid" "files (snd (ensure s pid)) = files s"
    "dirs (snd (ensure s pid)) = dirs s"
    by (auto simp: eq split: option.splits)
  show "synced (snd (ensure s pid))"
    using assms by (auto simp: eq synced_def disk_log_def split: option.splits)
qed

lemma ensure_durable: "durable s \<Longrightarrow> durable (snd (ensure s pid))"
  by (simp add: durable_def ensure_synced)

lemma ensureE:
  assumes "synced s"
  obtains s1 where "ensure s pid = (disk_log s pid, s1)" "files s1 = files s" "dirs s1 = dirs s"
  using ensure_synced [OF assms, of pid] by (cases "ensure s pid") simp

lemma disk_log_ensure [simp]: "synced s \<Longrightarrow> disk_log (snd (ensure s pid)) p = disk_log s p"
  by (simp add: disk_log_def ensure_synced)

subsection \<open>The abstract log\<close>

text \<open>What a push adds: the events of the batch whose id is new, each once, in batch order.\<close>

definition spec_push :: "event list \<Rightarrow> event list \<Rightarrow> event list" where
  "spec_push lg batch = lg @ fresh_events (the_id ` set lg) batch"

lemma fresh_events_subset: "set (fresh_events known es) \<subseteq> set es"
proof (induction es arbitrary: known)
  case (Cons e es)
  from Cons.IH [of known] Cons.IH [of "insert (the_id e) known"] show ?case by auto
qed simp

lemma fresh_events_ids: "the_id ` set (fresh_events known es) = the_id ` set es - known"
  by (induction es arbitrary: known) auto

lemma fresh_events_distinct: "distinct (map the_id (fresh_events known es))"
  by (induction es arbitrary: known) (auto simp: fresh_events_ids simp flip: image_set)

lemmas fresh_events_props = fresh_events_distinct fresh_events_ids fresh_events_subset

lemma fresh_events_storable: "list_all storable es \<Longrightarrow> list_all storable (fresh_events known es)"
  using fresh_events_subset by (fastforce simp: list_all_iff)

lemma fresh_events_none: "the_id ` set es \<subseteq> known \<Longrightarrow> fresh_events known es = []"
  by (induction es) auto

lemma fresh_events_all:
  "distinct (map the_id es) \<Longrightarrow> the_id ` set es \<inter> known = {} \<Longrightarrow> fresh_events known es = es"
  by (induction es arbitrary: known) auto

lemma spec_push_ids: "the_id ` set (spec_push lg es) = the_id ` set lg \<union> the_id ` set es"
  by (auto simp: spec_push_def image_Un fresh_events_ids)

lemma hydrate_None_Some: "hydrate None = hydrate (Some [])"
  by (simp add: hydrate_def)

lemma hydrate_append_events:
  assumes c: "complete c" "snd (hydrate (Some c))"
    and es: "list_all storable es" "distinct (map the_id es)"
      "the_id ` set es \<inter> seen (fst (hydrate (Some c))) = {}"
  shows "hydrate (Some (c @ utf8 (concat (map event_line es)))) =
    (let lg = fst (hydrate (Some c))
     in (lg\<lparr>events := events lg @ es, seen := seen lg \<union> the_id ` set es\<rparr>, True))"
proof -
  have "js_split nl (concat (map event_line es)) = map stringify es @ [[]]"
    using ndjson.split_lines_append [OF es(1), of "[]"] by (simp add: event_line_def cong: map_cong)
  then have "hydrate_lines lg (js_split nl (concat (map event_line es))) = hydrate_lines lg (map stringify es)"
    for lg by (simp only: hydrate_lines_blank_end)
  then show ?thesis
    unfolding hydrate_after [OF c] using hydrate_lines_events [OF es] by (simp add: Let_def)
qed

text \<open>One append is one abstract push, and keeps disk and memory in step.\<close>

definition content :: "relay_store \<Rightarrow> string \<Rightarrow> bytes" where
  "content s pid = (case files s pid of None \<Rightarrow> [] | Some c \<Rightarrow> c)"

lemma hydrate_content: "hydrate (Some (content s pid)) = hydrate (files s pid)"
  by (cases "files s pid") (simp_all add: content_def hydrate_None_Some)

lemma complete_content: "durable s \<Longrightarrow> complete (content s pid)"
  using durableD(2) [of s pid] by (auto simp: content_def complete_def split: option.splits)

lemma seen_disk_log: "seen (disk_log s pid) = the_id ` set (events (disk_log s pid))"
  using disk_log_ok [of s pid] by (simp add: log_ok_def)

definition fresh_for :: "relay_store \<Rightarrow> string \<Rightarrow> event list \<Rightarrow> event list" where
  "fresh_for s pid es = fresh_events (the_id ` set (events (disk_log s pid))) es"

lemma append_noop:
  assumes "durable s" "fresh_for s pid es = []"
  shows "append s pid es io = (Inr [], snd (ensure s pid))"
proof -
  obtain s1 where "ensure s pid = (disk_log s pid, s1)"
    by (rule ensureE [OF durableD(1) [OF assms(1)]])
  with assms(2) show ?thesis by (simp add: append_def fresh_for_def seen_disk_log)
qed

lemma append_file_content:
  "files s' = files s \<Longrightarrow> append_file (files s') pid t = (files s)(pid \<mapsto> content s pid @ t)"
  by (simp add: append_file_def content_def split: option.splits)

text \<open>The state after a successful write, with the log the disk then holds.\<close>

definition extended :: "project_log \<Rightarrow> event list \<Rightarrow> project_log" where
  "extended lg fresh = lg\<lparr>events := events lg @ fresh, seen := seen lg \<union> the_id ` set fresh\<rparr>"

lemma append_write:
  assumes "durable s" "fresh_for s pid es \<noteq> []"
  shows "append s pid es IoOk =
    (Inr (map the_id (fresh_for s pid es)),
     (snd (ensure s pid))
       \<lparr>files := (files s)(pid \<mapsto> content s pid @ utf8 (concat (map event_line (fresh_for s pid es)))),
        dirs := List.insert pid (dirs s),
        projects := js_set pid (extended (disk_log s pid) (fresh_for s pid es))
          (projects (snd (ensure s pid)))\<rparr>)"
proof -
  obtain s1 where e: "ensure s pid = (disk_log s pid, s1)" "files s1 = files s" "dirs s1 = dirs s"
    by (rule ensureE [OF durableD(1) [OF assms(1)]])
  moreover have "content s1 pid = content s pid" using e(2) by (simp add: content_def)
  ultimately show ?thesis
    using e assms(2) by (simp add: append_def fresh_for_def seen_disk_log extended_def append_file_content)
qed

lemma hydrate_written:
  assumes "durable s" "list_all storable es"
  shows "hydrate (Some (content s pid @ utf8 (concat (map event_line (fresh_for s pid es))))) =
    (extended (disk_log s pid) (fresh_for s pid es), True)"
proof -
  let ?f = "fresh_for s pid es"
  have "list_all storable ?f" "distinct (map the_id ?f)"
    "the_id ` set ?f \<inter> seen (fst (hydrate (Some (content s pid)))) = {}"
    using assms(2)
    by (auto simp: fresh_for_def fresh_events_storable fresh_events_distinct fresh_events_ids
        hydrate_content seen_disk_log disk_log_def [symmetric])
  then show ?thesis
    using hydrate_append_events [OF complete_content [OF assms(1)], of pid ?f]
      syncedD(1) [OF durableD(1) [OF assms(1)], of pid]
    by (simp add: hydrate_content disk_log_def extended_def Let_def)
qed

text \<open>One append is one abstract push, and keeps disk and memory in step.\<close>

lemma append_accepts:
  "durable s \<Longrightarrow> fst (append s pid es IoOk) = Inr (map the_id (fresh_for s pid es))"
  by (cases "fresh_for s pid es = []") (simp_all add: append_noop append_write)

lemma disk_log_append:
  assumes "durable s" "list_all storable es"
  shows "disk_log (snd (append s pid es IoOk)) p =
    (if p = pid then extended (disk_log s pid) (fresh_for s pid es) else disk_log s p)"
proof (cases "fresh_for s pid es = []")
  case True
  have "extended lg [] = lg" for lg by (simp add: extended_def)
  with True assms durableD(1) [OF assms(1)] show ?thesis by (simp add: append_noop)
next
  case False
  with assms hydrate_written [OF assms, of pid] show ?thesis
    by (simp add: append_write disk_log_def)
qed

lemma append_durable:
  assumes d: "durable s" and es: "list_all storable es"
  shows "durable (snd (append s pid es IoOk))"
proof (cases "fresh_for s pid es = []")
  case True
  with d show ?thesis by (simp add: append_noop ensure_durable)
next
  case False
  let ?s2 = "snd (append s pid es IoOk)"
  have f2: "files ?s2 = (files s)(pid \<mapsto> content s pid @ utf8 (concat (map event_line (fresh_for s pid es))))"
    and p2: "projects ?s2 = js_set pid (extended (disk_log s pid) (fresh_for s pid es))
      (projects (snd (ensure s pid)))"
    by (simp_all add: append_write [OF d False])
  have "synced ?s2"
    unfolding synced_def
  proof (intro allI conjI impI)
    fix q
    show "snd (hydrate (files ?s2 q))"
      using hydrate_written [OF d es, of pid] syncedD(1) [OF durableD(1) [OF d], of q] by (simp add: f2)
    show "lg = disk_log ?s2 q" if "map_of (projects ?s2) q = Some lg" for lg
      using that syncedD(2) [OF ensure_synced(2) [OF durableD(1) [OF d], of pid], of q lg] durableD(1) [OF d]
      by (auto simp: p2 disk_log_append [OF d es] split: if_splits)
  qed
  moreover have "complete c" if "files ?s2 q = Some c" for q c
    using that complete_written [OF False] durableD(2) [OF d, of q] by (auto simp: f2 split: if_splits)
  ultimately show ?thesis by (simp add: durable_def)
qed

lemma events_append:
  "durable s \<Longrightarrow> list_all storable es \<Longrightarrow>
   events (disk_log (snd (append s pid es IoOk)) p) =
     (if p = pid then spec_push (events (disk_log s pid)) es else events (disk_log s p))"
  by (simp add: disk_log_append extended_def spec_push_def fresh_for_def)

lemma read_refines:
  assumes "synced s"
  shows "fst (read s pid since) = Inr (read_since since (events (disk_log s pid)))"
    "snd (read s pid since) = snd (ensure s pid)"
proof -
  obtain s1 where "ensure s pid = (disk_log s pid, s1)" by (rule ensureE [OF assms])
  then show "fst (read s pid since) = Inr (read_since since (events (disk_log s pid)))"
    "snd (read s pid since) = snd (ensure s pid)"
    by (simp_all add: read_def)
qed

subsection \<open>Restart\<close>

lemma ensure_all:
  "synced s \<Longrightarrow> synced (foldl (\<lambda>s d. snd (ensure s d)) s ds) \<and>
     files (foldl (\<lambda>s d. snd (ensure s d)) s ds) = files s \<and>
     dirs (foldl (\<lambda>s d. snd (ensure s d)) s ds) = dirs s"
  by (induction ds arbitrary: s) (simp_all add: ensure_synced)

lemma distinct_ensure:
  "distinct (map fst (projects s)) \<Longrightarrow> distinct (map fst (projects (snd (ensure s d))))"
  by (auto simp: ensure_def distinct_js_set Let_def split: option.splits prod.splits)

lemma distinct_ensure_all:
  "distinct (map fst (projects s)) \<Longrightarrow>
   distinct (map fst (projects (foldl (\<lambda>s d. snd (ensure s d)) s ds)))"
  by (induction ds arbitrary: s) (simp_all add: distinct_ensure)

lemma open_store_synced:
  assumes "\<And>pid. snd (hydrate (fs pid))"
  shows "\<exists>s'. open_store fs ds = Some s' \<and> synced s' \<and> files s' = fs \<and> dirs s' = ds"
proof -
  let ?s0 = "\<lparr>files = fs, dirs = ds, projects = []\<rparr>"
  let ?s' = "foldl (\<lambda>s d. snd (ensure s d)) ?s0 ds"
  have "synced ?s0" using assms by (simp add: synced_def)
  then have d': "synced ?s'" "files ?s' = fs" "dirs ?s' = ds"
    using ensure_all [of ?s0 ds] by simp_all
  have dist: "distinct (map fst (projects ?s'))" by (rule distinct_ensure_all) simp
  have "list_all (\<lambda>(_, lg). ready_ok lg) (projects ?s')"
    unfolding list_all_iff
  proof clarify
    fix q lg assume "(q, lg) \<in> set (projects ?s')"
    with dist have "map_of (projects ?s') q = Some lg" by simp
    from syncedD(2) [OF d'(1) this] show "ready_ok lg" by simp
  qed
  with d' show ?thesis by (simp add: open_store_def Let_def)
qed

lemma durable_empty [simp]: "durable \<lparr>files = Map.empty, dirs = ds, projects = []\<rparr>"
  by (simp add: durable_def synced_def hydrate_def)

subsection \<open>A torn write\<close>

text \<open>
  A write cut short leaves some whole lines and at most one proper prefix of a line, which may end
  in half a letter. The whole lines are read back; the prefix is skipped.
\<close>

lemma cut_lines:
  "n < length (concat (map event_line es)) \<Longrightarrow>
   \<exists>k t r. k < length es \<and> take n (concat (map event_line es)) = concat (map event_line (take k es)) @ t \<and>
     event_line (es ! k) = t @ r \<and> r \<noteq> [] \<and> hd r = concat (map event_line es) ! n"
proof (induction es arbitrary: n)
  case (Cons e es)
  show ?case
  proof (cases "n < length (event_line e)")
    case True
    then show ?thesis
      by (intro exI [of _ 0] exI [of _ "take n (event_line e)"] exI [of _ "drop n (event_line e)"])
        (simp add: hd_drop_conv_nth nth_append)
  next
    case False
    let ?n = "n - length (event_line e)"
    have "?n < length (concat (map event_line es))" using Cons.prems False by simp
    from Cons.IH [OF this] obtain k t r where "k < length es"
      "take ?n (concat (map event_line es)) = concat (map event_line (take k es)) @ t"
      "event_line (es ! k) = t @ r" "r \<noteq> []" "hd r = concat (map event_line es) ! ?n"
      by blast
    then show ?thesis using False
      by (intro exI [of _ "Suc k"] exI [of _ t] exI [of _ r]) (simp add: nth_append)
  qed
qed simp

text \<open>What is left of a line: the line without its break, or something no reader takes for an event.\<close>

lemma hydrate_line_torn:
  assumes "storable e" "event_line e = t @ r" "r \<noteq> []"
    and "x = t \<or> (x = t @ [replacement] \<and> 128 \<le> char_code (hd r))"
  shows "x = stringify e \<or> (nl \<notin> set x \<and> hydrate_line lg x = Some lg)"
proof -
  obtain ms where ms: "e = JObj ms" "wf_json (JObj ms)"
    using storable_obj [OF assms(1)] assms(1) by (auto simp: storable_def)
  have line: "nl \<notin> set (stringify e)" using ndjson.enc_one_line [OF assms(1)] .
  have t: "stringify e = t @ butlast r" using assms(2,3)
    by (metis append_butlast_last_id butlast_append butlast_snoc event_line_def)
  have head: "stringify e \<noteq> []" "hd (stringify e) = CHR ''{''" by (simp_all add: ms(1))
  from assms(4) show ?thesis
  proof
    assume x: "x = t"
    show ?thesis
    proof (cases "butlast r = []")
      case False
      then have "json_parse x = None" using torn_object_unreadable [OF ms(2)] t by (simp add: ms(1) x)
      then show ?thesis using line t by (simp add: hydrate_line_def x)
    qed (use t x in simp)
  next
    assume x: "x = t @ [replacement] \<and> 128 \<le> char_code (hd r)"
    have "t \<noteq> []"
    proof
      assume "t = []"
      then have "r = stringify e @ [nl]" using assms(2) by (simp add: event_line_def)
      then have "hd r = CHR ''{''" using head by simp
      then show False using x by (simp add: char_code_def)
    qed
    then obtain p where p: "t = CHR ''{'' # p" using t head by (cases t) auto
    have "replacement \<noteq> CHR ''}''" "\<not> json_ws replacement" "replacement \<noteq> nl" by code_simp+
    then have "json_parse x = None" "nl \<notin> set x"
      using unclosed_object_unreadable [of replacement p] line t x p by auto
    then show ?thesis by (simp add: hydrate_line_def)
  qed
qed

lemma take_extend: "k < length es \<Longrightarrow> take (Suc k) es = take k es @ [es ! k]"
  by (simp add: take_Suc_conv_app_nth)

text \<open>What a reader makes of the first bytes of a sequence of lines.\<close>

lemma hydrate_cut:
  assumes f: "list_all storable f" "distinct (map the_id f)" "the_id ` set f \<inter> seen lg = {}"
  shows "\<exists>k. hydrate_lines lg (js_split nl (read_utf8 (take n (utf8 (concat (map event_line f)))))) =
    (extended lg (take k f), True)"
proof -
  let ?T = "concat (map event_line f)"
  have part: "list_all storable (take k f)" "distinct (map the_id (take k f))" "the_id ` set (take k f) \<inter> seen lg = {}" for k
    using f set_take_subset [of k f]
    by (auto simp: list_all_iff take_map [symmetric] intro: distinct_take)
  have lines: "hydrate_lines lg (js_split nl (concat (map event_line (take k f)) @ x)) =
      hydrate_lines (extended lg (take k f)) (js_split nl x)" for k x
    using ndjson.split_lines_append [OF part(1), of k x] hydrate_lines_events [OF part, of k]
    by (simp add: event_line_def hydrate_lines_append extended_def cong: map_cong)
  obtain m where m: "read_utf8 (take n (utf8 ?T)) = take m ?T \<or>
      (m < length ?T \<and> 128 \<le> char_code (?T ! m) \<and> read_utf8 (take n (utf8 ?T)) = take m ?T @ [replacement])"
    using read_utf8_cut by blast
  show ?thesis
  proof (cases "m < length ?T")
    case True
    then obtain k t r where k: "k < length f" "take m ?T = concat (map event_line (take k f)) @ t"
      "event_line (f ! k) = t @ r" "r \<noteq> []" "hd r = ?T ! m"
      using cut_lines by blast
    obtain x where x: "read_utf8 (take n (utf8 ?T)) = concat (map event_line (take k f)) @ x"
      "x = t \<or> (x = t @ [replacement] \<and> 128 \<le> char_code (hd r))"
      using m k(2,5) by fastforce
    have st: "storable (f ! k)" using f(1) k(1) by (simp add: list_all_length)
    from hydrate_line_torn [OF st k(3,4) x(2)] show ?thesis
    proof
      assume "x = stringify (f ! k)"
      then have "hydrate_lines lg (js_split nl (read_utf8 (take n (utf8 ?T)))) =
          hydrate_lines (extended lg (take k f)) [stringify (f ! k)]"
        using js_split_none [OF ndjson.enc_one_line [OF st]] by (simp add: x(1) lines)
      also have "\<dots> = hydrate_lines lg (map stringify (take k f) @ [stringify (f ! k)])"
        using hydrate_lines_events [OF part, of k] by (simp add: hydrate_lines_append extended_def)
      also have "\<dots> = hydrate_lines lg (map stringify (take (Suc k) f))"
        by (simp add: take_extend [OF k(1)])
      also have "\<dots> = (extended lg (take (Suc k) f), True)"
        using hydrate_lines_events [OF part, of "Suc k"] by (simp add: extended_def)
      finally show ?thesis by blast
    next
      assume "nl \<notin> set x \<and> hydrate_line (extended lg (take k f)) x = Some (extended lg (take k f))"
      then have "hydrate_lines lg (js_split nl (read_utf8 (take n (utf8 ?T)))) = (extended lg (take k f), True)"
        by (simp add: x(1) lines js_split_none)
      then show ?thesis by blast
    qed
  next
    case False
    then have "read_utf8 (take n (utf8 ?T)) = concat (map event_line (take (length f) f)) @ []" using m by simp
    then have "hydrate_lines lg (js_split nl (read_utf8 (take n (utf8 ?T)))) = hydrate_lines (extended lg f) [[]]"
      using lines [of "length f" "[]"] by simp
    then show ?thesis by (intro exI [of _ "length f"]) simp
  qed
qed

lemma hydrate_torn:
  assumes d: "durable s" and es: "list_all storable es"
  shows "\<exists>k. hydrate (Some (content s pid @ take n (utf8 (concat (map event_line (fresh_for s pid es)))))) =
    (extended (disk_log s pid) (take k (fresh_for s pid es)), True)"
proof -
  let ?f = "fresh_for s pid es"
  have f: "list_all storable ?f" "distinct (map the_id ?f)" "the_id ` set ?f \<inter> seen (disk_log s pid) = {}"
    using es by (auto simp: fresh_for_def fresh_events_storable fresh_events_distinct fresh_events_ids
        seen_disk_log)
  have "snd (hydrate (Some (content s pid)))" "fst (hydrate (Some (content s pid))) = disk_log s pid"
    using syncedD(1) [OF durableD(1) [OF d], of pid] by (simp_all add: hydrate_content disk_log_def)
  then show ?thesis using hydrate_after [OF complete_content [OF d]] hydrate_cut [OF f] by simp
qed

text \<open>The files after a failed append.\<close>

lemma hydrate_failed_append:
  assumes "durable s" "list_all storable es"
  shows "\<exists>k. hydrate (files (snd (append s pid es (IoFail n))) pid) =
      (extended (disk_log s pid) (take k (fresh_for s pid es)), True) \<and>
    (\<forall>q. q \<noteq> pid \<longrightarrow> files (snd (append s pid es (IoFail n))) q = files s q)"
proof -
  let ?f = "fresh_for s pid es"
  obtain s1 where e: "ensure s pid = (disk_log s pid, s1)" "files s1 = files s"
    by (rule ensureE [OF durableD(1) [OF assms(1)]])
  show ?thesis
  proof (cases "?f = [] \<or> n = 0")
    case True
    then have "files (snd (append s pid es (IoFail n))) = files s"
      using e by (auto simp: append_def fresh_for_def seen_disk_log Let_def)
    moreover have "hydrate (files s pid) = (extended (disk_log s pid) (take 0 ?f), True)"
      using syncedD(1) [OF durableD(1) [OF assms(1)], of pid]
      by (simp add: extended_def disk_log_def prod_eq_iff)
    ultimately show ?thesis by (intro exI [of _ 0]) simp
  next
    case False
    then have "files (snd (append s pid es (IoFail n))) =
        (files s)(pid \<mapsto> content s pid @ take n (utf8 (concat (map event_line ?f))))"
      using append_file_content [OF e(2)] e
      by (simp add: append_def fresh_for_def seen_disk_log Let_def)
    with hydrate_torn [OF assms, of pid n] show ?thesis by simp
  qed
qed

subsection \<open>The interface of a sync client\<close>

locale event_log =
  fixes push :: "'s \<Rightarrow> 'e list \<Rightarrow> 'i list \<times> 's"
    and pull :: "'s \<Rightarrow> 'i option \<Rightarrow> 'e list"
    and eid :: "'e \<Rightarrow> 'i"
    and inv :: "'s \<Rightarrow> bool"
    and valid :: "'e \<Rightarrow> bool"
    and cursor :: "'i \<Rightarrow> bool"
  assumes inv_push: "inv s \<Longrightarrow> list_all valid es \<Longrightarrow> inv (snd (push s es))"
    and push_log: "inv s \<Longrightarrow> list_all valid es \<Longrightarrow>
      \<exists>new. pull (snd (push s es)) None = pull s None @ new \<and> fst (push s es) = map eid new \<and>
        eid ` set new = eid ` set es - eid ` set (pull s None)"
    and pull_after: "inv s \<Longrightarrow> pull s None = xs @ e # ys \<Longrightarrow> cursor (eid e) \<Longrightarrow> pull s (Some (eid e)) = ys"
    and pull_unknown: "inv s \<Longrightarrow> i \<notin> eid ` set (pull s None) \<Longrightarrow> pull s (Some i) = pull s None"
begin

definition push_all :: "'s \<Rightarrow> 'e list list \<Rightarrow> 's" where
  "push_all s bs = foldl (\<lambda>s es. snd (push s es)) s bs"

lemma push_again:
  assumes "inv s" "list_all valid es"
  shows "fst (push (snd (push s es)) es) = [] \<and>
    pull (snd (push (snd (push s es)) es)) None = pull (snd (push s es)) None"
proof -
  obtain new where new: "pull (snd (push s es)) None = pull s None @ new"
    "eid ` set new = eid ` set es - eid ` set (pull s None)"
    using push_log [OF assms] by blast
  obtain new2 where new2: "pull (snd (push (snd (push s es)) es)) None = pull (snd (push s es)) None @ new2"
    "fst (push (snd (push s es)) es) = map eid new2"
    "eid ` set new2 = eid ` set es - eid ` set (pull (snd (push s es)) None)"
    using push_log [OF inv_push [OF assms] assms(2)] by blast
  have "eid ` set es \<subseteq> eid ` set (pull (snd (push s es)) None)" using new by auto
  then have "eid ` set new2 = {}" by (simp add: new2(3))
  with new2 show ?thesis by simp
qed

lemma push_all_extends:
  "inv s \<Longrightarrow> list_all (list_all valid) bs \<Longrightarrow>
   inv (push_all s bs) \<and> (\<exists>new. pull (push_all s bs) None = pull s None @ new)"
proof (induction bs arbitrary: s)
  case (Cons es bs)
  then have "inv (snd (push s es))" "list_all (list_all valid) bs" by (simp_all add: inv_push)
  from Cons.IH [OF this] push_log [of s es] Cons.prems show ?case by (fastforce simp: push_all_def)
qed (simp add: push_all_def)

lemma catch_up:
  assumes "inv s" "list_all (list_all valid) bs" "pull s None = xs @ [e]" "cursor (eid e)"
  shows "pull s None @ pull (push_all s bs) (Some (eid e)) = pull (push_all s bs) None"
proof -
  obtain new where "inv (push_all s bs)" "pull (push_all s bs) None = xs @ e # new"
    using push_all_extends [OF assms(1,2)] assms(3) by fastforce
  with assms(3,4) pull_after show ?thesis by fastforce
qed

end

definition push_batch :: "string \<Rightarrow> relay_store \<Rightarrow> event list \<Rightarrow> string list \<times> relay_store" where
  "push_batch pid s es =
     (case append s pid es IoOk of (Inr acc, s') \<Rightarrow> (acc, s') | (Inl _, s') \<Rightarrow> ([], s'))"

definition pull_log :: "string \<Rightarrow> relay_store \<Rightarrow> string option \<Rightarrow> event list" where
  "pull_log pid s since = (case fst (read s pid since) of Inr es \<Rightarrow> es | Inl _ \<Rightarrow> [])"

lemma push_batch_eq:
  "durable s \<Longrightarrow> push_batch pid s es = (map the_id (fresh_for s pid es), snd (append s pid es IoOk))"
  using append_accepts [of s pid es]
  by (cases "append s pid es IoOk") (simp add: push_batch_def)

lemma pull_log_eq: "durable s \<Longrightarrow> pull_log pid s since = read_since since (events (disk_log s pid))"
  by (simp add: pull_log_def read_refines durableD)

lemma read_since_None [simp]: "read_since None es = es"
  by (simp add: read_since_def)

lemma find_index_Some_append:
  "\<forall>x \<in> set xs. \<not> P x \<Longrightarrow> P e \<Longrightarrow> find_index P (xs @ e # ys) = Some (length xs)"
  by (induction xs) auto

lemma find_index_None: "\<forall>x \<in> set xs. \<not> P x \<Longrightarrow> find_index P xs = None"
  by (induction xs) auto

lemma read_since_after:
  assumes "list_all storable (xs @ e # ys)" "distinct (map the_id (xs @ e # ys))" "the_id e \<noteq> []"
  shows "read_since (Some (the_id e)) (xs @ e # ys) = ys"
proof -
  have "\<forall>x \<in> set xs. event_id x \<noteq> Some (the_id e)"
    using assms by (auto simp: list_all_iff image_iff)
  moreover have "event_id e = Some (the_id e)" using assms(1) by simp
  ultimately show ?thesis
    using assms(3) by (simp add: read_since_def find_index_Some_append)
qed

lemma read_since_unknown:
  "list_all storable es \<Longrightarrow> i \<notin> the_id ` set es \<Longrightarrow> read_since (Some i) es = es"
proof -
  assume "list_all storable es" "i \<notin> the_id ` set es"
  then have "\<forall>x \<in> set es. event_id x \<noteq> Some i" by (auto simp: list_all_iff)
  then show ?thesis by (simp add: read_since_def find_index_None)
qed

interpretation relay: event_log "push_batch pid" "pull_log pid" the_id durable storable "\<lambda>i. i \<noteq> []"
  for pid
proof
  fix s :: relay_store and es :: "event list" and xs ys :: "event list" and e :: event and i :: string
  assume d: "durable s"
  note ok = disk_log_ok [of s pid, unfolded log_ok_def]
  show "list_all storable es \<Longrightarrow> durable (snd (push_batch pid s es))"
    by (simp add: push_batch_eq d append_durable)
  show "list_all storable es \<Longrightarrow>
    \<exists>new. pull_log pid (snd (push_batch pid s es)) None = pull_log pid s None @ new \<and>
      fst (push_batch pid s es) = map the_id new \<and>
      the_id ` set new = the_id ` set es - the_id ` set (pull_log pid s None)"
    by (rule exI [of _ "fresh_for s pid es"])
      (simp add: push_batch_eq pull_log_eq d append_durable events_append spec_push_def fresh_for_def
        fresh_events_ids)
  show "pull_log pid s None = xs @ e # ys \<Longrightarrow> the_id e \<noteq> [] \<Longrightarrow> pull_log pid s (Some (the_id e)) = ys"
    using ok read_since_after [of xs e ys] by (simp add: pull_log_eq d)
  show "i \<notin> the_id ` set (pull_log pid s None) \<Longrightarrow> pull_log pid s (Some i) = pull_log pid s None"
    using ok read_since_unknown [of "events (disk_log s pid)" i] by (simp add: pull_log_eq d)
qed

subsection \<open>Properties of the store\<close>

text \<open>
  C9. An append implements the abstract log: on a store whose disk and memory agree, it
  answers exactly the new ids of the batch in order, extends the project's log by exactly
  those events, leaves every other project's log alone, and keeps disk and memory in step.
\<close>

theorem relay_append_refines:
  assumes "durable s" "list_all storable es"
  shows "fst (append s pid es IoOk) =
      Inr (map the_id (fresh_events (the_id ` set (events (disk_log s pid))) es)) \<and>
    durable (snd (append s pid es IoOk)) \<and>
    events (disk_log (snd (append s pid es IoOk)) p) =
      (if p = pid then spec_push (events (disk_log s pid)) es else events (disk_log s p))"
  using assms by (simp_all add: append_accepts fresh_for_def append_durable events_append)

definition sample_store :: relay_store where
  "sample_store = \<lparr>files = Map.empty, dirs = [], projects = []\<rparr>"

definition sample_event :: "string \<Rightarrow> event" where
  "sample_event i = JObj [(''id'', JStr i)]"

lemma sample_storable [simp]: "storable (sample_event i)" "the_id (sample_event i) = i"
  by (simp_all add: storable_def sample_event_def event_id_def the_id_def jget_str_def jget_def)

lemma sample_durable [simp]: "durable sample_store"
  by (simp add: sample_store_def)

lemma sample_log [simp]: "events (disk_log sample_store p) = []"
  by (simp add: disk_log_def hydrate_def sample_store_def empty_log_def)

theorem relay_append_refines_witness:
  "fst (append sample_store ''p'' [sample_event ''a'', sample_event ''b'', sample_event ''a''] IoOk) =
     Inr [''a'', ''b''] \<and>
   events (disk_log (snd (append sample_store ''p'' [sample_event ''a'', sample_event ''b'', sample_event ''a''] IoOk)) ''p'')
     = [sample_event ''a'', sample_event ''b'']"
  using relay_append_refines [of sample_store "[sample_event ''a'', sample_event ''b'', sample_event ''a'']" "''p''" "''p''"]
  by (simp add: spec_push_def)

definition run_appends :: "relay_store \<Rightarrow> (string \<times> event list) list \<Rightarrow> relay_store" where
  "run_appends s ops = foldl (\<lambda>s (pid, es). snd (append s pid es IoOk)) s ops"

lemma run_appends_durable:
  "durable s \<Longrightarrow> list_all (\<lambda>(_, es). list_all storable es) ops \<Longrightarrow> durable (run_appends s ops)"
  by (induction ops arbitrary: s) (auto simp: run_appends_def append_durable)

text \<open>
  C11. Crash and restart lose nothing: after any sequence of successful appends to any
  projects, dropping the process and reopening the directory succeeds, and every project
  then answers every pull exactly as it did before the crash.
\<close>

theorem relay_restart_recovers:
  assumes "durable s" "list_all (\<lambda>(_, es). list_all storable es) ops"
  shows "\<exists>s'. open_store (files (run_appends s ops)) (dirs (run_appends s ops)) = Some s' \<and>
    (\<forall>pid since. fst (read s' pid since) = fst (read (run_appends s ops) pid since))"
proof -
  let ?r = "run_appends s ops"
  have d: "synced ?r" using run_appends_durable [OF assms] by (rule durableD)
  obtain s' where s': "open_store (files ?r) (dirs ?r) = Some s'" "synced s'" "files s' = files ?r"
    using open_store_synced [of "files ?r" "dirs ?r"] syncedD(1) [OF d] by blast
  have "fst (read s' pid since) = fst (read ?r pid since)" for pid since
    by (simp add: read_refines(1) [OF d] read_refines(1) [OF s'(2)] disk_log_files [OF s'(3)])
  with s'(1) show ?thesis by blast
qed

theorem relay_restart_recovers_witness:
  "\<exists>s'. open_store (files (run_appends sample_store [(''p'', [sample_event ''a'']), (''q'', [sample_event ''b''])]))
      (dirs (run_appends sample_store [(''p'', [sample_event ''a'']), (''q'', [sample_event ''b''])])) = Some s' \<and>
    (\<forall>pid since. fst (read s' pid since) =
      fst (read (run_appends sample_store [(''p'', [sample_event ''a'']), (''q'', [sample_event ''b''])]) pid since))"
  by (rule relay_restart_recovers) simp_all

text \<open>
  C12. A write that the disk cut short is never misread: after a failed append that left the first
  bytes of its data in the file, however many and even if the last of them is half of a letter,
  reopening succeeds and the project's log is the old log followed by the first few of the batch's
  new events, whole; the torn line is skipped.
\<close>

theorem relay_torn_write_recovers:
  assumes "durable s" "list_all storable es"
  shows "\<exists>k s'. open_store (files (snd (append s pid es (IoFail n)))) ds = Some s' \<and>
    fst (read s' pid None) =
      Inr (events (disk_log s pid) @ take k (fresh_events (the_id ` set (events (disk_log s pid))) es))"
proof -
  let ?fs = "files (snd (append s pid es (IoFail n)))"
  obtain k where k: "hydrate (?fs pid) =
      (extended (disk_log s pid) (take k (fresh_for s pid es)), True)"
    and other: "\<And>q. q \<noteq> pid \<Longrightarrow> ?fs q = files s q"
    using hydrate_failed_append [OF assms, of pid n] by blast
  have "snd (hydrate (?fs q))" for q
    using k other [of q] syncedD(1) [OF durableD(1) [OF assms(1)], of q] by (cases "q = pid") auto
  then obtain s' where s': "open_store ?fs ds = Some s'" "synced s'" "files s' = ?fs"
    using open_store_synced by blast
  have "events (disk_log s' pid) = events (disk_log s pid) @ take k (fresh_for s pid es)"
    using k s'(3) by (simp add: disk_log_def extended_def)
  with s' show ?thesis
    by (intro exI [of _ k] exI [of _ s']) (simp add: read_refines fresh_for_def)
qed

theorem relay_torn_write_recovers_witness:
  \<open>read_utf8 (take 8 (utf8 (event_line (sample_event [CHR 0xE9])))) = ''{"id":"'' @ [replacement] \<and>
   (\<exists>k s'. open_store (files (snd (append sample_store ''p'' [sample_event [CHR 0xE9]] (IoFail 8)))) [''p''] = Some s' \<and>
      fst (read s' ''p'' None) = Inr (take k [sample_event [CHR 0xE9]]))\<close>
proof
  show \<open>read_utf8 (take 8 (utf8 (event_line (sample_event [CHR 0xE9])))) = ''{"id":"'' @ [replacement]\<close>
    by code_simp
qed (use relay_torn_write_recovers [of sample_store "[sample_event [CHR 0xE9]]" "''p''" 8 "[''p'']"] in simp)

definition after_torn :: relay_store where
  "after_torn = snd (append sample_store ''p'' [sample_event ''a''] (IoFail 5))"

text \<open>
  A torn line swallows the next event: the append after a cut-short write is answered as
  accepted and is readable until the process ends, but its first event was glued to the torn
  line and is gone after a restart. (The code repairs nothing after a failed write.)
\<close>

lemma relay_torn_line_swallows_next:
  "fst (append after_torn ''p'' [sample_event ''b''] IoOk) = Inr [''b''] \<and>
   fst (read (snd (append after_torn ''p'' [sample_event ''b''] IoOk)) ''p'' None) = Inr [sample_event ''b''] \<and>
   map_option (\<lambda>s. fst (read s ''p'' None))
     (open_store (files (snd (append after_torn ''p'' [sample_event ''b''] IoOk))) [''p'']) = Some (Inr [])"
  by code_simp

text \<open>
  C14. A push is idempotent: pushing the same batch again accepts nothing and leaves what any
  pull returns unchanged.
\<close>

theorem relay_repush_accepts_nothing:
  assumes "durable s" "list_all storable es"
  shows "fst (push_batch pid (snd (push_batch pid s es)) es) = [] \<and>
    pull_log pid (snd (push_batch pid (snd (push_batch pid s es)) es)) None =
      pull_log pid (snd (push_batch pid s es)) None"
  using relay.push_again [OF assms, of pid] by simp

theorem relay_repush_accepts_nothing_witness:
  "fst (push_batch ''p'' (snd (push_batch ''p'' sample_store [sample_event ''a''])) [sample_event ''a'']) = []"
  by (rule relay_repush_accepts_nothing [THEN conjunct1]) simp_all

text \<open>
  C13. A client that has pulled everything and keeps the last id as its cursor misses nothing:
  after any further pushes, what it has followed by what the cursor returns is the whole log.
\<close>

theorem relay_pull_catches_up:
  assumes "durable s" "list_all (list_all storable) batches"
    and "pull_log pid s None = xs @ [e]" "the_id e \<noteq> []"
  shows "pull_log pid s None @ pull_log pid (foldl (\<lambda>s es. snd (push_batch pid s es)) s batches) (Some (the_id e))
    = pull_log pid (foldl (\<lambda>s es. snd (push_batch pid s es)) s batches) None"
  using relay.catch_up [OF assms] by (simp add: relay.push_all_def)

definition one_event_store :: relay_store where
  "one_event_store = snd (append sample_store ''p'' [sample_event ''a''] IoOk)"

theorem relay_pull_catches_up_witness:
  "pull_log ''p'' one_event_store None @
     pull_log ''p'' (foldl (\<lambda>s es. snd (push_batch ''p'' s es)) one_event_store [[sample_event ''b''], [sample_event ''c'']])
       (Some (the_id (sample_event ''a'')))
   = pull_log ''p'' (foldl (\<lambda>s es. snd (push_batch ''p'' s es)) one_event_store [[sample_event ''b''], [sample_event ''c'']]) None"
proof (rule relay_pull_catches_up [where xs = "[]"])
  show "durable one_event_store" by (simp add: one_event_store_def append_durable)
  show "pull_log ''p'' one_event_store None = [] @ [sample_event ''a'']"
    by (simp add: one_event_store_def pull_log_eq append_durable events_append spec_push_def)
qed simp_all

text \<open>
  The relay may return too much but never too little: for an absent, empty or unknown
  cursor a pull returns the whole log, and for any cursor what it returns is a suffix of the
  log whose missing part ends with the cursor's event.
\<close>

lemma relay_pull_never_under_returns:
  assumes "durable s"
  shows "\<exists>skipped. events (disk_log s pid) = skipped @ pull_log pid s since \<and>
    (skipped = [] \<or> (since \<noteq> None \<and> since = event_id (last skipped)))"
proof -
  let ?es = "events (disk_log s pid)"
  have idx: "find_index P xs = Some k \<Longrightarrow> k < length xs \<and> P (xs ! k)" for P k and xs :: "event list"
    by (induction xs arbitrary: k) (auto split: if_splits)
  have "\<exists>skipped. ?es = skipped @ read_since since ?es \<and>
    (skipped = [] \<or> (since \<noteq> None \<and> since = event_id (last skipped)))"
  proof (cases "find_index (\<lambda>e. event_id e = since) ?es")
    case (Some k)
    note k = idx [OF Some]
    show ?thesis
    proof (cases "since = None \<or> since = Some []")
      case False
      then obtain i where "since = Some i" "i \<noteq> []" by auto
      then have "read_since since ?es = drop (Suc k) ?es"
        using Some by (simp add: read_since_def)
      moreover have "last (take (Suc k) ?es) = ?es ! k" using k by (simp add: take_Suc_conv_app_nth)
      ultimately show ?thesis
        using k False by (intro exI [of _ "take (Suc k) ?es"]) auto
    qed (auto simp: read_since_def)
  qed (auto simp: read_since_def split: option.splits)
  then show ?thesis by (simp add: pull_log_eq assms)
qed

lemma relay_pull_never_under_returns_witness:
  "\<exists>skipped. events (disk_log one_event_store ''p'') = skipped @ pull_log ''p'' one_event_store (Some ''a'') \<and>
    (skipped = [] \<or> ((Some ''a'' :: string option) \<noteq> None \<and> Some ''a'' = event_id (last skipped)))"
  by (rule relay_pull_never_under_returns) (simp add: one_event_store_def append_durable)

end
