(* ===== verification/Http.thy ===== *)
theory Http
  imports Json
begin

text \<open>
  What the three servers share of \<open>node:http\<close>: a request with its path, query, headers and
  body chunks, a response with its status and JSON body, the route patterns, and percent
  decoding. \<open>new URL(req.url)\<close> is taken as done: a request carries the path name and the
  decoded query parameters.
\<close>

record request =
  meth :: string
  path :: string
  query :: "(string \<times> string) list"
  auth_header :: "string option"
  cookie_header :: "string option"
  host_header :: "string option"
  chunks :: "string list"

text \<open>
  A handler answers, or throws and leaves the answer to the server's \<open>catch\<close>. \<open>Raw\<close> is a
  body passed through from another server, \<open>Page\<close> an HTML page with its bytes and the cookies it
  sets, \<open>Redirect\<close> a 302 with its location and cookies.
\<close>

datatype response =
    Json nat json
  | Empty nat
  | Raw nat string
  | Page nat string "string list"
  | Redirect string "string list"

fun status_of :: "response \<Rightarrow> nat" where
  "status_of (Json n _) = n"
| "status_of (Empty n) = n"
| "status_of (Raw n _) = n"
| "status_of (Page n _ _) = n"
| "status_of (Redirect _ _) = 302"

definition send_error :: "nat \<Rightarrow> string \<Rightarrow> response" where
  "send_error n msg = Json n (JObj [(''error'', JStr msg)])"

lemma status_send_error [simp]: "status_of (send_error n msg) = n"
  by (simp add: send_error_def)

definition query_get :: "string \<Rightarrow> request \<Rightarrow> string option" where
  "query_get k r = map_of (query r) k"

subsection \<open>Bodies\<close>

text \<open>
  Reading a body chunk by chunk with a size cap: \<open>None\<close> is the 413. The cap is checked on
  the running sofar, so a large body is refused before it is complete.
\<close>

fun read_chunks :: "nat \<Rightarrow> nat \<Rightarrow> string list \<Rightarrow> string option" where
  "read_chunks cap sofar [] = Some []"
| "read_chunks cap sofar (c # cs) =
     (if cap < sofar + length c then None
      else map_option (\<lambda>r. c @ r) (read_chunks cap (sofar + length c) cs))"

lemma read_chunks_iff:
  "read_chunks cap sofar cs =
     (if sofar + length (concat cs) \<le> cap \<or> cs = [] then Some (concat cs) else None)"
  by (induction cs arbitrary: sofar) auto

subsection \<open>Routes\<close>

text \<open>
  A route pattern of the code has the form \<open>^/a/([^/]+)/b$\<close>. Matching it is splitting the
  path at slashes: a literal segment must be equal, a capture must not be empty.
\<close>

datatype segment = Lit string | Capture

fun match_segments :: "segment list \<Rightarrow> string list \<Rightarrow> string list option" where
  "match_segments [] [] = Some []"
| "match_segments (Lit l # ps) (s # ss) = (if s = l then match_segments ps ss else None)"
| "match_segments (Capture # ps) (s # ss) =
     (if s = [] then None else map_option (\<lambda>r. s # r) (match_segments ps ss))"
| "match_segments _ _ = None"

definition match_route :: "segment list \<Rightarrow> string \<Rightarrow> string list option" where
  "match_route ps p = match_segments (Lit [] # ps) (js_split (CHR ''/'') p)"

text \<open>The path a pattern stands for, with the captures filled in.\<close>

fun fill_segments :: "segment list \<Rightarrow> string list \<Rightarrow> string" where
  "fill_segments [] cs = []"
| "fill_segments (Lit l # ps) cs = ''/'' @ l @ fill_segments ps cs"
| "fill_segments (Capture # ps) [] = []"
| "fill_segments (Capture # ps) (c # cs) = ''/'' @ c @ fill_segments ps cs"

definition plain_segment :: "string \<Rightarrow> bool" where
  "plain_segment s \<longleftrightarrow> CHR ''/'' \<notin> set s"

definition captures :: "segment list \<Rightarrow> nat" where
  "captures ps = length (filter (\<lambda>p. p = Capture) ps)"

lemma js_split_slash: "plain_segment s \<Longrightarrow>
  js_split (CHR ''/'') (s @ CHR ''/'' # r) = s # js_split (CHR ''/'') r"
  by (simp add: js_split_append plain_segment_def)

lemma js_split_fill_aux:
  "plain_segment s \<Longrightarrow> list_all plain_segment cs \<Longrightarrow> length cs = captures ps \<Longrightarrow>
   \<forall>l. Lit l \<in> set ps \<longrightarrow> plain_segment l \<Longrightarrow>
   js_split (CHR ''/'') (s @ fill_segments ps cs) = s # tl (js_split (CHR ''/'') (fill_segments ps cs))"
proof (induction ps cs arbitrary: s rule: fill_segments.induct)
  case (1 cs)
  then show ?case by (simp add: js_split_none plain_segment_def)
next
  case (2 l ps cs)
  then show ?case using js_split_slash [of s "l @ fill_segments ps cs"] by simp
next
  case (3 ps)
  then show ?case by (simp add: captures_def)
next
  case (4 ps c cs)
  then show ?case using js_split_slash [of s "c @ fill_segments ps cs"] by simp
qed

lemma match_fill:
  "list_all (\<lambda>c. plain_segment c \<and> c \<noteq> []) cs \<Longrightarrow> length cs = captures ps \<Longrightarrow>
   \<forall>l. Lit l \<in> set ps \<longrightarrow> plain_segment l \<Longrightarrow>
   match_segments ps (tl (js_split (CHR ''/'') (fill_segments ps cs))) = Some cs"
proof (induction ps cs rule: fill_segments.induct)
  case (2 l ps cs)
  then have "js_split (CHR ''/'') (l @ fill_segments ps cs) =
      l # tl (js_split (CHR ''/'') (fill_segments ps cs))"
    by (intro js_split_fill_aux) (auto simp: captures_def list_all_iff)
  with 2 show ?case by (simp add: captures_def)
next
  case (4 ps c cs)
  then have "js_split (CHR ''/'') (c @ fill_segments ps cs) =
      c # tl (js_split (CHR ''/'') (fill_segments ps cs))"
    by (intro js_split_fill_aux) (auto simp: captures_def list_all_iff)
  with 4 show ?case by (simp add: captures_def)
qed (simp_all add: captures_def)

lemma match_route_fill:
  assumes "list_all (\<lambda>c. plain_segment c \<and> c \<noteq> []) cs" "length cs = captures ps"
    "\<forall>l. Lit l \<in> set ps \<longrightarrow> plain_segment l"
  shows "match_route ps (fill_segments ps cs) = Some cs"
proof -
  have "js_split (CHR ''/'') (fill_segments ps cs) = [] # tl (js_split (CHR ''/'') (fill_segments ps cs))"
    using js_split_fill_aux [of "[]" cs ps] assms by (auto simp: plain_segment_def list_all_iff)
  then show ?thesis using match_fill [OF assms] by (metis match_route_def match_segments.simps(2))
qed

subsection \<open>Percent decoding\<close>

text \<open>
  \<open>decodeURIComponent\<close>: \<open>None\<close> is the \<open>URIError\<close>. A two-byte UTF-8 sequence up to code point
  255 is decoded; longer sequences are outside the model and refused like malformed ones.
\<close>

definition hex_byte :: "char \<Rightarrow> char \<Rightarrow> nat option" where
  "hex_byte a b =
     (case (hex_val a, hex_val b) of (Some x, Some y) \<Rightarrow> Some (16 * x + y) | _ \<Rightarrow> None)"

fun decode_uri :: "string \<Rightarrow> string option" where
  "decode_uri [] = Some []"
| "decode_uri (c # cs) =
     (if c \<noteq> CHR ''%'' then map_option (\<lambda>r. c # r) (decode_uri cs)
      else (case cs of
          h1 # h2 # r \<Rightarrow>
            (case hex_byte h1 h2 of
               None \<Rightarrow> None
             | Some n \<Rightarrow>
                 if n < 128 then map_option (\<lambda>t. char_of n # t) (decode_uri r)
                 else if n = 194 \<or> n = 195 then
                   (case r of
                      p # h3 # h4 # r' \<Rightarrow>
                        (case hex_byte h3 h4 of
                           None \<Rightarrow> None
                         | Some m \<Rightarrow>
                             if p = CHR ''%'' \<and> 128 \<le> m \<and> m < 192
                             then map_option (\<lambda>t. char_of (64 * (n - 192) + (m - 128)) # t) (decode_uri r')
                             else None)
                    | _ \<Rightarrow> None)
                 else None)
        | _ \<Rightarrow> None))"

lemma decode_uri_plain: "CHR ''%'' \<notin> set s \<Longrightarrow> decode_uri s = Some s"
  by (induction s) auto

text \<open>\<open>encodeURIComponent\<close>, with the same restriction to code units 0 to 255.\<close>

definition upper_hex :: "nat \<Rightarrow> char" where
  "upper_hex n = (if n < 10 then char_of (48 + n) else char_of (55 + n))"

definition percent :: "nat \<Rightarrow> string" where
  "percent n = [CHR ''%'', upper_hex (n div 16), upper_hex (n mod 16)]"

definition uri_unreserved :: "char \<Rightarrow> bool" where
  "uri_unreserved c \<longleftrightarrow>
     (let n = char_code c
      in (65 \<le> n \<and> n \<le> 90) \<or> (97 \<le> n \<and> n \<le> 122) \<or> (48 \<le> n \<and> n \<le> 57) \<or>
         n \<in> {33, 39, 40, 41, 42, 45, 46, 95, 126})"

definition encode_char :: "char \<Rightarrow> string" where
  "encode_char c =
     (let n = char_code c
      in if uri_unreserved c then [c]
         else if n < 128 then percent n
         else percent (192 + n div 64) @ percent (128 + n mod 64))"

definition encode_uri :: "string \<Rightarrow> string" where
  "encode_uri s = concat (map encode_char s)"

lemma hex_val_upper [simp]: "n < 16 \<Longrightarrow> hex_val (upper_hex n) = Some n"
  by (auto simp: hex_val_def upper_hex_def is_digit_def digit_val_def code_of_char)

lemma hex_byte_upper [simp]:
  "a < 16 \<Longrightarrow> b < 16 \<Longrightarrow> hex_byte (upper_hex a) (upper_hex b) = Some (16 * a + b)"
  by (simp add: hex_byte_def)

lemma percent_code: "char_code (CHR ''%'') = 37"
  by (simp add: char_code_def)

lemma decode_encode_char: "decode_uri (encode_char c @ r) = map_option (\<lambda>t. c # t) (decode_uri r)"
proof -
  have neq: "c \<noteq> CHR ''%''" if "uri_unreserved c" using that by (auto simp: uri_unreserved_def percent_code)
  consider "uri_unreserved c" | "\<not> uri_unreserved c" "char_code c < 128" | "\<not> uri_unreserved c" "128 \<le> char_code c"
    by linarith
  then show ?thesis
  proof cases
    case 1
    then show ?thesis using neq by (simp add: encode_char_def)
  next
    case 2
    then show ?thesis by (simp add: encode_char_def percent_def Let_def)
  next
    case 3
    define n where "n = char_code c"
    have n: "128 \<le> n" "n < 256" using 3 char_code_less [of c] by (simp_all add: n_def)
    have q: "n div 64 = 2 \<or> n div 64 = 3" using n by linarith
    have m: "(128 + n mod 64) div 16 < 16" by simp
    have g: "16 * ((128 + n mod 64) div 16) + (128 + n mod 64) mod 16 = 128 + n mod 64"
      by (rule mult_div_mod_eq)
    have h: "hex_byte (upper_hex ((128 + n mod 64) div 16)) (upper_hex ((128 + n mod 64) mod 16)) = Some (128 + n mod 64)"
      by (subst hex_byte_upper) (use m g in simp_all)
    have c: "char_of (64 * (n div 64) + n mod 64) = c" by (simp add: n_def)
    have k: "n div 64 = 2 \<Longrightarrow> 128 + n mod 64 = n" "n div 64 = 3 \<Longrightarrow> 192 + n mod 64 = n"
      using mult_div_mod_eq [of 64 n] by simp_all
    have e: "encode_char c = percent (192 + n div 64) @ percent (128 + n mod 64)"
      using 3 by (simp add: encode_char_def n_def Let_def)
    have r: "(128 + n mod 64) mod 64 < 64" "n mod 64 < 64" by simp_all
    show ?thesis unfolding e percent_def using q h c r k by (auto simp del: mult_div_mod_eq)
  qed
qed

lemma decode_encode_uri: "decode_uri (encode_uri s) = Some s"
  by (induction s) (simp_all add: encode_uri_def decode_encode_char)

subsection \<open>Path ids\<close>

definition id_char :: "char \<Rightarrow> bool" where
  "id_char c \<longleftrightarrow>
     (let n = char_code c
      in (65 \<le> n \<and> n \<le> 90) \<or> (97 \<le> n \<and> n \<le> 122) \<or> (48 \<le> n \<and> n \<le> 57) \<or> n = 95 \<or> n = 45)"

text \<open>\<open>/^[A-Za-z0-9_-]{1,128}$/\<close>, shared by the relay and the gateway.\<close>

definition valid_path_id :: "string \<Rightarrow> bool" where
  "valid_path_id s \<longleftrightarrow> 1 \<le> length s \<and> length s \<le> 128 \<and> list_all id_char s"

lemma id_char_plain: "id_char c \<Longrightarrow> c \<noteq> CHR ''/'' \<and> c \<noteq> CHR ''%'' \<and> c \<noteq> CHR ''.''"
  by (auto simp: id_char_def char_code_def)

lemma valid_path_id_plain:
  "valid_path_id s \<Longrightarrow> plain_segment s \<and> s \<noteq> [] \<and> CHR ''%'' \<notin> set s \<and> CHR ''.'' \<notin> set s"
  using id_char_plain by (fastforce simp: valid_path_id_def plain_segment_def list_all_iff)

lemma id_char_unreserved: "id_char c \<Longrightarrow> uri_unreserved c"
  by (auto simp: id_char_def uri_unreserved_def Let_def)

lemma encode_uri_id: "list_all id_char s \<Longrightarrow> encode_uri s = s"
  by (induction s) (simp_all add: encode_uri_def encode_char_def id_char_unreserved)

lemma valid_path_id_decode: "valid_path_id s \<Longrightarrow> decode_uri s = Some s"
  using valid_path_id_plain decode_uri_plain by blast

end
