(* ===== verification/Relay_Server.thy ===== *)
theory Relay_Server
  imports Relay_Log Http
begin

text \<open>
  \<open>packages/relay/src/server.ts\<close> and \<open>config.ts\<close>: the relay's HTTP surface over the store
  of \<open>Relay_Store\<close>. A request is handled in one step: token check, route, project id,
  body, store operation, response; every \<open>HttpError\<close> is a branch with its status.
\<close>

record relay_options =
  relay_token :: "string option"
  max_body :: nat

definition default_max_body_bytes :: nat where
  "default_max_body_bytes = 10 * 1024 * 1024"

subsection \<open>Configuration\<close>

text \<open>
  \<open>Number(raw)\<close> with \<open>Number.isInteger\<close> on a plain decimal literal; the other spellings
  \<open>Number\<close> accepts (hexadecimal, exponents, surrounding blanks) are outside the model and
  rejected. \<open>None\<close> is the thrown error.
\<close>

definition positive_int :: "string option \<Rightarrow> nat \<Rightarrow> nat option" where
  "positive_int raw fallback =
     (case raw of
        None \<Rightarrow> Some fallback
      | Some r \<Rightarrow>
          if r = [] then Some fallback
          else if list_all is_digit r \<and> 0 < digits_val r then Some (digits_val r) else None)"

record relay_config =
  port :: nat
  store_dir :: string
  config_token :: "string option"
  config_max_body :: nat

definition non_empty :: "string option \<Rightarrow> string option" where
  "non_empty s = (case s of None \<Rightarrow> None | Some t \<Rightarrow> if t = [] then None else Some t)"

definition load_config :: "(string \<Rightarrow> string option) \<Rightarrow> relay_config option" where
  "load_config env =
     (case positive_int (env ''MEMORIZE_RELAY_PORT'') 8787 of
        None \<Rightarrow> None
      | Some p \<Rightarrow>
          (case positive_int (env ''MEMORIZE_RELAY_MAX_BODY'') default_max_body_bytes of
             None \<Rightarrow> None
           | Some m \<Rightarrow>
               Some \<lparr>port = p,
                     store_dir = (case non_empty (env ''MEMORIZE_RELAY_STORE'') of None \<Rightarrow> ''./data'' | Some d \<Rightarrow> d),
                     config_token = non_empty (env ''MEMORIZE_RELAY_TOKEN''), config_max_body = m\<rparr>))"

definition options_of :: "relay_config \<Rightarrow> relay_options" where
  "options_of c = \<lparr>relay_token = config_token c, max_body = config_max_body c\<rparr>"

subsection \<open>Requests\<close>

definition authorized :: "string option \<Rightarrow> string \<Rightarrow> bool" where
  "authorized header token =
     (let expected = ''Bearer '' @ token; actual = (case header of None \<Rightarrow> [] | Some h \<Rightarrow> h)
      in length actual = length expected \<and> actual = expected)"

text \<open>\<open>parsePushRequest\<close>: the events, or the message of the 400.\<close>

definition admissible :: "json \<Rightarrow> bool" where
  "admissible e \<longleftrightarrow> is_obj e \<and> event_id e \<noteq> None"

definition parse_push :: "string \<Rightarrow> string + event list" where
  "parse_push body =
     (case json_parse body of
        None \<Rightarrow> Inl ''malformed JSON body''
      | Some v \<Rightarrow>
          if \<not> is_obj v then Inl ''body must be a JSON object''
          else (case jget ''events'' v of
              None \<Rightarrow> Inr []
            | Some JNull \<Rightarrow> Inr []
            | Some (JArr es) \<Rightarrow>
                if list_all admissible es then Inr es
                else Inl ''every event must be an object with a string `id`''
            | Some _ \<Rightarrow> Inl ''`events` must be an array''))"

definition events_route :: "segment list" where
  "events_route = [Lit ''v1'', Lit ''projects'', Capture, Lit ''events'']"

definition push_response :: "string list \<Rightarrow> json" where
  "push_response accepted =
     JObj ([(''accepted'', JArr (map JStr accepted)), (''rejected'', JArr [])] @
       (if accepted = [] then [] else [(''lastAcceptedEventId'', JStr (last accepted))]))"

definition pull_response :: "event list \<Rightarrow> json" where
  "pull_response es =
     JObj ([(''events'', JArr es)] @
       (if es = [] then [] else [(''lastRemoteEventId'', JStr (the_id (last es)))]))"

definition stats_response :: "relay_stats \<Rightarrow> json" where
  "stats_response st =
     JObj [(''stores'', JArr (map (\<lambda>r. JObj [(''storeId'', JStr (storeId r)),
              (''events'', JNum (int (stat_events r))), (''bytes'', JNum (int (stat_bytes r)))])
              (stat_stores st))),
           (''totals'', JObj [(''stores'', JNum (int (total_stores st))),
              (''events'', JNum (int (total_events st))), (''bytes'', JNum (int (total_bytes st)))])]"

definition internal_error :: response where
  "internal_error = send_error 500 ''internal relay error''"

definition relay_handle :: "relay_options \<Rightarrow> request \<Rightarrow> io \<Rightarrow> relay_store \<Rightarrow> response \<times> relay_store" where
  "relay_handle opts req io s =
     (if (case relay_token opts of None \<Rightarrow> False | Some t \<Rightarrow> \<not> authorized (auth_header req) t)
      then (send_error 401 ''unauthorized'', s)
      else if meth req = ''GET'' \<and> path req = ''/healthz''
      then (Json 200 (JObj [(''ok'', JBool True)]), s)
      else if meth req = ''GET'' \<and> path req = ''/v1/stats''
      then (case stats s of Inl _ \<Rightarrow> (internal_error, s) | Inr st \<Rightarrow> (Json 200 (stats_response st), s))
      else (case match_route events_route (path req) of
          Some [raw] \<Rightarrow>
            (case decode_uri raw of
               None \<Rightarrow> (internal_error, s)
             | Some pid \<Rightarrow>
                 if \<not> valid_path_id pid then (send_error 400 ''invalid project id'', s)
                 else if meth req = ''POST''
                 then (case read_chunks (max_body opts) 0 (chunks req) of
                     None \<Rightarrow> (send_error 413 ''request body too large'', s)
                   | Some body \<Rightarrow>
                       (case parse_push body of
                          Inl msg \<Rightarrow> (send_error 400 msg, s)
                        | Inr es \<Rightarrow>
                            (case append s pid es io of
                               (Inl _, s') \<Rightarrow> (internal_error, s')
                             | (Inr accepted, s') \<Rightarrow> (Json 200 (push_response accepted), s'))))
                 else if meth req = ''GET''
                 then (case read s pid (query_get ''since'' req) of
                     (Inl _, s') \<Rightarrow> (internal_error, s')
                   | (Inr es, s') \<Rightarrow> (Json 200 (pull_response es), s'))
                 else (send_error 404 ''not found'', s))
        | _ \<Rightarrow> (send_error 404 ''not found'', s)))"

subsection \<open>What the parser admits\<close>

lemma map_of_wf: "wf_json (JObj ms) \<Longrightarrow> map_of ms k = Some v \<Longrightarrow> wf_json v"
  by (auto simp: list_all_iff dest!: map_of_SomeD)

lemma jget_wf: "wf_json v \<Longrightarrow> jget k v = Some w \<Longrightarrow> wf_json w"
  by (cases v) (auto simp: jget_def intro: map_of_wf simp del: wf_json.simps)

lemma parse_push_storable: "parse_push body = Inr es \<Longrightarrow> list_all storable es"
proof -
  assume p: "parse_push body = Inr es"
  then obtain v where v: "json_parse body = Some v" "is_obj v"
    by (auto simp: parse_push_def split: option.splits if_splits)
  show ?thesis
  proof (cases "jget ''events'' v")
    case None
    with p v show ?thesis by (simp add: parse_push_def)
  next
    case (Some w)
    have "wf_json w" using wf_json_parse [OF v(1)] Some by (rule jget_wf)
    with p v Some show ?thesis
      by (cases w) (auto simp: parse_push_def list_all_iff storable_def admissible_def split: if_splits)
  qed
qed

lemma events_route_match:
  "plain_segment pid \<Longrightarrow> pid \<noteq> [] \<Longrightarrow>
   match_route events_route (''/v1/projects/'' @ pid @ ''/events'') = Some [pid]"
  using match_route_fill [of "[pid]" events_route]
  by (auto simp: events_route_def captures_def plain_segment_def)


lemma relay_handle_events:
  assumes "case relay_token opts of None \<Rightarrow> True | Some t \<Rightarrow> authorized (auth_header req) t"
    and "path req = ''/v1/projects/'' @ pid @ ''/events''" "valid_path_id pid"
  shows "relay_handle opts req io s =
    (if meth req = ''POST''
     then (case read_chunks (max_body opts) 0 (chunks req) of
         None \<Rightarrow> (send_error 413 ''request body too large'', s)
       | Some body \<Rightarrow>
           (case parse_push body of
              Inl msg \<Rightarrow> (send_error 400 msg, s)
            | Inr es \<Rightarrow>
                (case append s pid es io of
                   (Inl _, s') \<Rightarrow> (internal_error, s')
                 | (Inr accepted, s') \<Rightarrow> (Json 200 (push_response accepted), s'))))
     else if meth req = ''GET''
     then (case read s pid (query_get ''since'' req) of
         (Inl _, s') \<Rightarrow> (internal_error, s')
       | (Inr es, s') \<Rightarrow> (Json 200 (pull_response es), s'))
     else (send_error 404 ''not found'', s))"
proof -
  have m: "match_route events_route (path req) = Some [pid]"
    using assms(2) events_route_match [of pid] valid_path_id_plain [OF assms(3)] by auto
  have "path req \<noteq> ''/healthz''" "path req \<noteq> ''/v1/stats''" using assms(2) by auto
  with assms(1) m show ?thesis
    using valid_path_id_decode [OF assms(3)] assms(3) unfolding relay_handle_def
    by (auto split: option.splits)
qed

subsection \<open>Properties of the server\<close>

text \<open>
  C20. An authorised push stores exactly the new events of its body: the response is 200 with
  their ids in order, the project's log grows by exactly them, and the store stays durable.
\<close>

theorem relay_push_request:
  assumes "durable s"
    and "case relay_token opts of None \<Rightarrow> True | Some t \<Rightarrow> authorized (auth_header req) t"
    and "meth req = ''POST''" "path req = ''/v1/projects/'' @ pid @ ''/events''" "valid_path_id pid"
    and "read_chunks (max_body opts) 0 (chunks req) = Some body" "parse_push body = Inr es"
  shows "\<exists>new. new = fresh_events (the_id ` set (events (disk_log s pid))) es \<and>
    fst (relay_handle opts req IoOk s) = Json 200 (push_response (map the_id new)) \<and>
    durable (snd (relay_handle opts req IoOk s)) \<and>
    events (disk_log (snd (relay_handle opts req IoOk s)) pid) = events (disk_log s pid) @ new"
proof (intro exI conjI)
  have es: "list_all storable es" using assms(7) by (rule parse_push_storable)
  obtain s' where a: "append s pid es IoOk = (Inr (map the_id (fresh_for s pid es)), s')"
    using append_accepts [OF assms(1), of pid es] by (cases "append s pid es IoOk") simp
  have h: "relay_handle opts req IoOk s = (Json 200 (push_response (map the_id (fresh_for s pid es))), s')"
    using assms(3,6,7) by (simp add: relay_handle_events [OF assms(2,4,5)] a)
  from h show "fst (relay_handle opts req IoOk s) =
      Json 200 (push_response (map the_id (fresh_events (the_id ` set (events (disk_log s pid))) es)))"
    by (simp add: fresh_for_def)
  from h a append_durable [OF assms(1) es, of pid] show "durable (snd (relay_handle opts req IoOk s))" by simp
  from h a events_append [OF assms(1) es, of pid pid]
  show "events (disk_log (snd (relay_handle opts req IoOk s)) pid) =
      events (disk_log s pid) @ fresh_events (the_id ` set (events (disk_log s pid))) es"
    by (simp add: spec_push_def)
qed simp

definition sample_push :: request where
  "sample_push = \<lparr>meth = ''POST'', path = ''/v1/projects/wsp_1/events'', query = [],
     auth_header = Some ''Bearer t'', cookie_header = None, host_header = None,
     chunks = [stringify (JObj [(''events'', JArr [sample_event ''a''])])]\<rparr>"

definition sample_options :: relay_options where
  "sample_options = \<lparr>relay_token = Some ''t'', max_body = 100\<rparr>"

theorem relay_push_request_witness:
  "fst (relay_handle sample_options sample_push IoOk sample_store) = Json 200 (push_response [''a''])"
proof -
  have b: "read_chunks 100 0 (chunks sample_push) = Some (stringify (JObj [(''events'', JArr [sample_event ''a''])]))"
    by code_simp
  have p: "parse_push (stringify (JObj [(''events'', JArr [sample_event ''a''])])) = Inr [sample_event ''a'']"
    by code_simp
  have v: "valid_path_id ''wsp_1''" by code_simp
  show ?thesis
    using relay_push_request [where s = sample_store and opts = sample_options and req = sample_push,
        OF _ _ _ _ v _ p] b
    by (simp add: sample_options_def sample_push_def authorized_def del: stringify.simps)
qed

text \<open>
  With a token configured, a request whose Authorization header is not exactly
  "Bearer " and the token gets 401 on every route and changes nothing.
\<close>

lemma relay_requires_token:
  assumes "relay_token opts = Some t" "auth_header req \<noteq> Some (''Bearer '' @ t)"
  shows "relay_handle opts req io s = (send_error 401 ''unauthorized'', s)"
  using assms by (cases "auth_header req") (auto simp: relay_handle_def authorized_def)

lemma relay_requires_token_witness:
  "relay_handle sample_options (sample_push\<lparr>auth_header := Some ''Bearer tt''\<rparr>) IoOk sample_store =
     (send_error 401 ''unauthorized'', sample_store)"
  by (rule relay_requires_token [of _ "''t''"]) (simp_all add: sample_options_def)

lemma read_files: "files (snd (read s pid since)) = files s"
  by (auto simp: read_def ensure_def Let_def split: option.splits prod.splits)

lemma ensure_files: "files (snd (ensure s pid)) = files s"
  by (auto simp: ensure_def Let_def split: option.splits prod.splits)

lemma append_error_files: "append s pid es IoOk = (Inl e, s') \<Longrightarrow> files s' = files s"
  using ensure_files [of s pid]
  by (auto simp: append_def Let_def split: prod.splits if_splits)

text \<open>
  A request that is not answered with 200 has written nothing: every refused, malformed
  or oversized request leaves all files as they were, whatever the state of the store.
\<close>

lemma relay_errors_write_nothing:
  assumes "status_of (fst (relay_handle opts req IoOk s)) \<noteq> 200"
  shows "files (snd (relay_handle opts req IoOk s)) = files s"
proof -
  define Q where "Q r \<longleftrightarrow> status_of (fst r) \<noteq> 200 \<longrightarrow> files (snd r) = files s" for r :: "response \<times> relay_store"
  have same: "Q (r, s)" and ok: "Q (Json 200 j, s')" for r j s' by (simp_all add: Q_def)
  have app: "append s pid es IoOk = (Inl e, s') \<Longrightarrow> Q (r, s')" for pid es e s' r
    using append_error_files by (simp add: Q_def)
  have rd: "read s pid since = (x, s') \<Longrightarrow> Q (r, s')" for pid since x s' r
    using read_files [of s pid since] by (simp add: Q_def)
  have "Q (relay_handle opts req IoOk s)"
    unfolding relay_handle_def
    by (simp add: same ok split: option.split list.split sum.split prod.split) (blast intro: app rd)
  with assms show ?thesis by (simp add: Q_def)
qed

lemma relay_errors_write_nothing_witness:
  "files (snd (relay_handle sample_options (sample_push\<lparr>chunks := [''oops'']\<rparr>) IoOk sample_store)) =
     files sample_store"
  by (rule relay_errors_write_nothing) code_simp

lemma wf_pull_response: "list_all storable es \<Longrightarrow> wf_json (pull_response es)"
  by (auto simp: pull_response_def list_all_iff storable_def)

lemma wire_roundtrip:
  assumes "list_all storable es"
  shows "parse_push (stringify (JObj [(''events'', JArr es)])) = Inr es \<and>
    json_parse (stringify (pull_response es)) = Some (pull_response es)"
proof
  have "wf_json (JObj [(''events'', JArr es)])"
    using assms by (auto simp: list_all_iff storable_def)
  then have "json_parse (stringify (JObj [(''events'', JArr es)])) = Some (JObj [(''events'', JArr es)])"
    by (rule parse_stringify)
  moreover have "list_all admissible es"
    using assms storable_obj by (fastforce simp: list_all_iff admissible_def storable_def is_obj_iff)
  ultimately show "parse_push (stringify (JObj [(''events'', JArr es)])) = Inr es"
    by (simp add: parse_push_def is_obj_def jget_def del: stringify.simps)
  show "json_parse (stringify (pull_response es)) = Some (pull_response es)"
    by (intro parse_stringify wf_pull_response assms)
qed

text \<open>
  The wire format loses nothing: the body a client prints for a list of storable events
  is admitted as exactly those events, and the printed pull response reads back as itself.
\<close>

lemma relay_wire_roundtrip:
  assumes "list_all storable es"
  shows "parse_push (stringify (JObj [(''events'', JArr es)])) = Inr es \<and>
    json_parse (stringify (pull_response es)) = Some (pull_response es)"
  by (rule wire_roundtrip [OF assms])

lemma relay_wire_roundtrip_witness:
  "parse_push (stringify (JObj [(''events'', JArr [sample_event ''a''])])) = Inr [sample_event ''a'']"
  by (rule relay_wire_roundtrip [THEN conjunct1]) simp

end
