(* ===== verification/Clock.thy ===== *)
theory Clock
  imports Json
begin

text \<open>
  Time and randomness as the gateway and the replica use them.

  \<open>Date.now()\<close> is a natural number of milliseconds since 1970. \<open>toISOString\<close> is \<open>iso\<close>: the
  day number is split into year, month and day by counting years and months up from 1970, and
  every field is printed with a fixed width (years below 10000). \<open>Date.parse\<close> reads such a text
  back (\<open>date_parse_iso\<close>); what it answers on any other text is implementation-defined and is
  an argument of the model, as are the random bytes and the hash functions of \<open>node:crypto\<close>
  (record \<open>env\<close>).
\<close>

subsection \<open>Calendar\<close>

definition leap :: "nat \<Rightarrow> bool" where
  "leap y \<longleftrightarrow> 4 dvd y \<and> (\<not> 100 dvd y \<or> 400 dvd y)"

definition year_days :: "nat \<Rightarrow> nat" where
  "year_days y = (if leap y then 366 else 365)"

lemma year_days_pos [simp]: "0 < year_days y"
  by (simp add: year_days_def)

function split_year :: "nat \<Rightarrow> nat \<Rightarrow> nat \<times> nat" where
  "split_year y n = (if n < year_days y then (y, n) else split_year (Suc y) (n - year_days y))"
  by auto
termination
  by (relation "measure snd") (auto simp: not_less year_days_def split: if_splits)

declare split_year.simps [simp del]

definition month_days :: "nat \<Rightarrow> nat list" where
  "month_days y = [31, if leap y then 29 else 28, 31, 30, 31, 30, 31, 31, 30, 31, 30, 31]"

fun split_month :: "nat list \<Rightarrow> nat \<Rightarrow> nat \<Rightarrow> nat \<times> nat" where
  "split_month [] m n = (m, n)"
| "split_month (l # ls) m n = (if n < l then (m, n) else split_month ls (Suc m) (n - l))"

text \<open>The day number of a date, the inverse direction.\<close>

definition year_start :: "nat \<Rightarrow> nat" where
  "year_start y = sum_list (map year_days [1970..<y])"

definition day_number :: "nat \<Rightarrow> nat \<Rightarrow> nat \<Rightarrow> nat" where
  "day_number y m d = year_start y + sum_list (take (m - 1) (month_days y)) + (d - 1)"

lemma split_year_start:
  "split_year y n = (y', r) \<Longrightarrow> 1970 \<le> y \<Longrightarrow> year_start y' + r = year_start y + n \<and> y \<le> y' \<and> r < year_days y'"
proof (induction y n arbitrary: y' r rule: split_year.induct)
  case (1 y n)
  show ?case
  proof (cases "n < year_days y")
    case True
    then show ?thesis using 1 by (simp add: split_year.simps [of y n])
  next
    case False
    then have s: "split_year (Suc y) (n - year_days y) = (y', r)"
      using 1(2) by (simp add: split_year.simps [of y n])
    then have "year_start y' + r = year_start (Suc y) + (n - year_days y)" "Suc y \<le> y'" "r < year_days y'"
      using 1 False by auto
    then show ?thesis using 1(3) False by (simp add: year_start_def)
  qed
qed

lemma split_month_start:
  "split_month ls m n = (m', r) \<Longrightarrow> n < sum_list ls \<Longrightarrow>
   m \<le> m' \<and> m' < m + length ls \<and> sum_list (take (m' - m) ls) + r = n \<and> r < ls ! (m' - m)"
proof (induction ls m n arbitrary: m' r rule: split_month.induct)
  case (2 l ls m n)
  show ?case
  proof (cases "n < l")
    case True
    then show ?thesis using 2 by simp
  next
    case False
    then have "Suc m \<le> m'" "m' < Suc m + length ls" "sum_list (take (m' - Suc m) ls) + r = n - l"
      "r < ls ! (m' - Suc m)"
      using 2 by auto
    moreover have "m' - m = Suc (m' - Suc m)" using calculation(1) by simp
    ultimately show ?thesis using False by simp
  qed
qed simp

lemma month_days_total: "sum_list (month_days y) = year_days y"
  by (simp add: month_days_def year_days_def)

lemma length_month_days: "length (month_days y) = 12"
  by (simp add: month_days_def)

lemma month_days_le: "m < 12 \<Longrightarrow> month_days y ! m \<le> 31"
  by (auto simp: month_days_def less_Suc_eq_0_disj numeral_eq_Suc)

subsection \<open>\<open>toISOString\<close> and \<open>Date.parse\<close>\<close>

fun pad :: "nat \<Rightarrow> nat \<Rightarrow> string" where
  "pad 0 n = []"
| "pad (Suc k) n = pad k (n div 10) @ [digit_char (n mod 10)]"

lemma length_pad [simp]: "length (pad k n) = k"
  by (induction k n rule: pad.induct) auto

lemma digits_val_pad: "n < 10 ^ k \<Longrightarrow> digits_val (pad k n) = n"
proof (induction k n rule: pad.induct)
  case (2 k n)
  then have "n div 10 < 10 ^ k" by (simp add: less_mult_imp_div_less mult.commute)
  with 2 show ?case by (simp add: digits_val_snoc digit_val_def digit_char_code)
qed (simp add: digits_val_def)

definition date_text :: "nat \<Rightarrow> string" where
  "date_text day =
     (let (y, r) = split_year 1970 day; (m, d) = split_month (month_days y) 1 r
      in pad 4 y @ ''-'' @ pad 2 m @ ''-'' @ pad 2 (Suc d))"

definition time_text :: "nat \<Rightarrow> string" where
  "time_text ms =
     pad 2 (ms div 3600000) @ '':'' @ pad 2 (ms div 60000 mod 60) @ '':'' @
     pad 2 (ms div 1000 mod 60) @ ''.'' @ pad 3 (ms mod 1000) @ ''Z''"

definition iso :: "nat \<Rightarrow> string" where
  "iso ms = date_text (ms div 86400000) @ ''T'' @ time_text (ms mod 86400000)"

text \<open>Reading the fields back; a text is accepted when it is the \<open>iso\<close> text of its time.\<close>

definition field :: "nat \<Rightarrow> nat \<Rightarrow> string \<Rightarrow> nat" where
  "field i n s = digits_val (take n (drop i s))"

definition date_parse_iso :: "string \<Rightarrow> nat option" where
  "date_parse_iso s =
     (if length s = 24 \<and> 1970 \<le> field 0 4 s
      then let t = day_number (field 0 4 s) (field 5 2 s) (field 8 2 s) * 86400000 +
                   field 11 2 s * 3600000 + field 14 2 s * 60000 + field 17 2 s * 1000 + field 20 3 s
           in if iso t = s then Some t else None
      else None)"

definition date_parse :: "(string \<Rightarrow> int option) \<Rightarrow> string \<Rightarrow> int option" where
  "date_parse other s = (case date_parse_iso s of Some t \<Rightarrow> Some (int t) | None \<Rightarrow> other s)"

text \<open>The years with four digits.\<close>

definition in_range :: "nat \<Rightarrow> bool" where
  "in_range ms \<longleftrightarrow> fst (split_year 1970 (ms div 86400000)) < 10000"

lemma date_text_fields:
  assumes "split_year 1970 day = (y, r)" "split_month (month_days y) 1 r = (m, d)" "y < 10000"
  shows "date_text day = pad 4 y @ ''-'' @ pad 2 m @ ''-'' @ pad 2 (Suc d)"
    "1970 \<le> y" "1 \<le> m" "m < 100" "Suc d < 100" "day_number y m (Suc d) = day"
proof -
  have y: "year_start y + r = day" "1970 \<le> y" "r < year_days y"
    using split_year_start [OF assms(1)] by (auto simp: year_start_def)
  have m: "1 \<le> m" "m < 13" "sum_list (take (m - 1) (month_days y)) + d = r" "d < month_days y ! (m - 1)"
    using split_month_start [OF assms(2)] y(3) by (simp_all add: month_days_total length_month_days)
  show "date_text day = pad 4 y @ ''-'' @ pad 2 m @ ''-'' @ pad 2 (Suc d)"
    using assms by (simp add: date_text_def)
  show "1970 \<le> y" "1 \<le> m" "m < 100" using y m by auto
  have "m - 1 < 12" using m by linarith
  then have "month_days y ! (m - 1) \<le> 31" by (rule month_days_le)
  then show "Suc d < 100" using m by linarith
  show "day_number y m (Suc d) = day" using y m by (simp add: day_number_def)
qed

lemma date_parse_iso_iso:
  assumes "in_range t"
  shows "date_parse_iso (iso t) = Some t"
proof -
  define day where "day = t div 86400000"
  define ms where "ms = t mod 86400000"
  obtain y r where yr: "split_year 1970 day = (y, r)" by fastforce
  obtain m d where md: "split_month (month_days y) 1 r = (m, d)" by fastforce
  have y: "y < 10000" using assms yr by (simp add: in_range_def day_def)
  note f = date_text_fields [OF yr md y]
  have ms: "ms < 86400000" by (simp add: ms_def)
  have s: "iso t = pad 4 y @ ''-'' @ pad 2 m @ ''-'' @ pad 2 (Suc d) @ ''T'' @ time_text ms"
    using f(1) by (simp add: iso_def day_def ms_def)
  have l: "length (iso t) = 24" by (simp add: s time_text_def)
  have fy: "field 0 4 (iso t) = y" using y by (simp add: field_def s digits_val_pad)
  have fm: "field 5 2 (iso t) = m" using f by (simp add: field_def s digits_val_pad)
  have fd: "field 8 2 (iso t) = Suc d" using f by (simp add: field_def s digits_val_pad)
  have fh: "field 11 2 (iso t) = ms div 3600000" using ms
    by (simp add: field_def s digits_val_pad time_text_def)
  have fi: "field 14 2 (iso t) = ms div 60000 mod 60"
    by (simp add: field_def s digits_val_pad time_text_def less_imp_le_nat trans_less_add1)
  have fs: "field 17 2 (iso t) = ms div 1000 mod 60"
    by (simp add: field_def s digits_val_pad time_text_def)
  have fu: "field 20 3 (iso t) = ms mod 1000"
    by (simp add: field_def s digits_val_pad time_text_def)
  have "day * 86400000 + ms div 3600000 * 3600000 + (ms div 60000 mod 60) * 60000 +
      (ms div 1000 mod 60) * 1000 + ms mod 1000 = t"
  proof -
    have "day * 86400000 + ms = t" by (simp add: day_def ms_def)
    moreover have "ms div 3600000 = ms div 60000 div 60" by (simp add: div_mult2_eq [symmetric])
    moreover have "ms div 60000 = ms div 1000 div 60" by (simp add: div_mult2_eq [symmetric])
    ultimately show ?thesis
      using div_mult_mod_eq [of ms 1000] div_mult_mod_eq [of "ms div 1000" 60]
        div_mult_mod_eq [of "ms div 60000" 60] by linarith
  qed
  then show ?thesis
    using f(2,6) l by (simp add: date_parse_iso_def fy fm fd fh fi fs fu Let_def)
qed

lemma date_parse_iso_text [simp]: "in_range t \<Longrightarrow> date_parse other (iso t) = Some (int t)"
  by (simp add: date_parse_def date_parse_iso_iso)

subsection \<open>The environment of a request\<close>

text \<open>
  \<open>random k n\<close> is the \<open>k\<close>-th call of \<open>randomBytes(n)\<close> while a request is handled.
\<close>

record env =
  now :: nat
  random :: "nat \<Rightarrow> nat \<Rightarrow> nat list"
  sha256 :: "string \<Rightarrow> string"
  hmac :: "string \<Rightarrow> string \<Rightarrow> nat list"
  date_other :: "string \<Rightarrow> int option"

definition now_iso :: "env \<Rightarrow> string" where
  "now_iso e = iso (now e)"

definition byte_list :: "nat list \<Rightarrow> bool" where
  "byte_list bs \<longleftrightarrow> list_all (\<lambda>b. b < 256) bs"

text \<open>What \<open>randomBytes\<close> documents: as many bytes as asked for.\<close>

definition random_ok :: "env \<Rightarrow> bool" where
  "random_ok e \<longleftrightarrow> (\<forall>k n. length (random e k n) = n \<and> byte_list (random e k n))"

end
