(* ===== verification/Gateway_Ids.thy ===== *)
theory Gateway_Ids
  imports Clock Http
begin

text \<open>
  \<open>packages/gateway/src/ids.ts\<close>: typed random ids, the reserved prefixes, API keys and invite
  tokens. \<open>Buffer.toString('base64url')\<close> and its inverse are modelled byte for byte; SHA-256
  and the random bytes come from the environment of the request.
\<close>

subsection \<open>base64url\<close>

definition b64_char :: "nat \<Rightarrow> char" where
  "b64_char n =
     (if n < 26 then char_of (65 + n) else if n < 52 then char_of (71 + n)
      else if n < 62 then char_of (n - 4) else if n = 62 then CHR ''-'' else CHR ''_'')"

definition b64_val :: "char \<Rightarrow> nat option" where
  "b64_val c =
     (let n = char_code c
      in if 65 \<le> n \<and> n \<le> 90 then Some (n - 65)
         else if 97 \<le> n \<and> n \<le> 122 then Some (n - 71)
         else if 48 \<le> n \<and> n \<le> 57 then Some (n + 4)
         else if n = 45 then Some 62 else if n = 95 then Some 63 else None)"

fun base64url :: "nat list \<Rightarrow> string" where
  "base64url [] = []"
| "base64url [a] = [b64_char (a div 4), b64_char (a mod 4 * 16)]"
| "base64url [a, b] =
     [b64_char (a div 4), b64_char (a mod 4 * 16 + b div 16), b64_char (b mod 16 * 4)]"
| "base64url (a # b # c # r) =
     [b64_char (a div 4), b64_char (a mod 4 * 16 + b div 16), b64_char (b mod 16 * 4 + c div 64),
      b64_char (c mod 64)] @ base64url r"

text \<open>
  \<open>Buffer.from(s, 'base64url')\<close> on a text of the alphabet; a lone last character carries no
  byte and is dropped. Node also skips foreign characters, which a decoded text never holds
  here: \<open>None\<close> stands for such a text.
\<close>

fun unsextets :: "nat list \<Rightarrow> nat list" where
  "unsextets (a # b # c # d # r) =
     (a * 4 + b div 16) # (b mod 16 * 16 + c div 4) # (c mod 4 * 64 + d) # unsextets r"
| "unsextets [a, b, c] = [a * 4 + b div 16, b mod 16 * 16 + c div 4]"
| "unsextets [a, b] = [a * 4 + b div 16]"
| "unsextets _ = []"

definition from_base64url :: "string \<Rightarrow> nat list option" where
  "from_base64url s =
     (if list_all (\<lambda>c. b64_val c \<noteq> None) s then Some (unsextets (map (\<lambda>c. the (b64_val c)) s)) else None)"

lemma b64_code: "n < 64 \<Longrightarrow> char_code (b64_char n) =
   (if n < 26 then 65 + n else if n < 52 then 71 + n else if n < 62 then n - 4 else if n = 62 then 45 else 95)"
  unfolding b64_char_def by (simp add: code_of_char) (simp add: char_code_def)

lemma b64_val_char [simp]: "n < 64 \<Longrightarrow> b64_val (b64_char n) = Some n"
  unfolding b64_val_def Let_def by (simp add: b64_code) linarith

lemma b64_char_id: "n < 64 \<Longrightarrow> id_char (b64_char n)"
  unfolding id_char_def Let_def by (simp add: b64_code) linarith

lemma sextets [simp]:
  fixes a b c :: nat
  assumes "a < 256"
  shows "a div 4 < 64" "a mod 4 * 16 < 64" "b < 256 \<Longrightarrow> a mod 4 * 16 + b div 16 < 64"
    "a mod 16 * 4 < 64" "b < 256 \<Longrightarrow> a mod 16 * 4 + b div 64 < 64" "a mod 64 < 64"
proof -
  have "a mod 4 < 4" "a mod 16 < 16" by simp_all
  then show "a mod 4 * 16 < 64" "a mod 16 * 4 < 64" by linarith+
  show "a div 4 < 64" using assms by linarith
  show "b < 256 \<Longrightarrow> a mod 4 * 16 + b div 16 < 64" using \<open>a mod 4 < 4\<close> by linarith
  show "b < 256 \<Longrightarrow> a mod 16 * 4 + b div 64 < 64" using \<open>a mod 16 < 16\<close> by linarith
qed simp

lemma regroup [simp]:
  fixes b :: nat
  assumes "b < 256"
  shows "b div 16 div 16 = 0" "b div 16 mod 16 * 16 + b mod 16 = b"
    "b div 64 div 4 = 0" "b div 64 mod 4 * 64 + b mod 64 = b"
proof -
  have q: "b div 16 < 16" "b div 64 < 4" using assms by linarith+
  then have r: "b div 16 mod 16 = b div 16" "b div 64 mod 4 = b div 64" by simp_all
  show "b div 16 div 16 = 0" "b div 64 div 4 = 0" using q by simp_all
  show "b div 16 mod 16 * 16 + b mod 16 = b" "b div 64 mod 4 * 64 + b mod 64 = b"
    unfolding r by simp_all
qed

lemma base64url_alphabet: "byte_list bs \<Longrightarrow> set (base64url bs) \<subseteq> b64_char ` {..<64}"
  by (induction bs rule: base64url.induct) (simp_all add: byte_list_def)

lemma base64url_id_chars: "byte_list bs \<Longrightarrow> list_all id_char (base64url bs)"
  using base64url_alphabet [of bs] b64_char_id by (auto simp: list_all_iff)

lemma from_base64url_map:
  "byte_list bs \<Longrightarrow> unsextets (map (\<lambda>c. the (b64_val c)) (base64url bs)) = bs"
  by (induction bs rule: base64url.induct) (simp_all add: byte_list_def)

lemma from_base64url_base64url: "byte_list bs \<Longrightarrow> from_base64url (base64url bs) = Some bs"
  using base64url_alphabet [of bs] by (auto simp: from_base64url_def from_base64url_map list_all_iff)

interpretation url_bytes: codec base64url from_base64url byte_list
  by unfold_locales (rule from_base64url_base64url)

lemma length_base64url: "length (base64url bs) = (4 * length bs + 2) div 3"
  by (induction bs rule: base64url.induct) auto

subsection \<open>Ids\<close>

datatype id_kind = Acc | Tok | Wsp | Inv | Psm | Der

fun kind_text :: "id_kind \<Rightarrow> string" where
  "kind_text Acc = ''acc''"
| "kind_text Tok = ''tok''"
| "kind_text Wsp = ''wsp''"
| "kind_text Inv = ''inv''"
| "kind_text Psm = ''psm''"
| "kind_text Der = ''der''"

definition new_id :: "id_kind \<Rightarrow> nat list \<Rightarrow> string" where
  "new_id k bytes = kind_text k @ ''_'' @ base64url bytes"

definition is_valid_store_id :: "string \<Rightarrow> bool" where
  "is_valid_store_id s = valid_path_id s"

definition is_personal_store_id :: "string \<Rightarrow> bool" where
  "is_personal_store_id s = starts_with s ''psm_''"

definition is_workspace_store_id :: "string \<Rightarrow> bool" where
  "is_workspace_store_id s = starts_with s ''wsp_''"

definition is_derived_store_id :: "string \<Rightarrow> bool" where
  "is_derived_store_id s = starts_with s ''der_''"

definition is_reserved_id :: "string \<Rightarrow> bool" where
  "is_reserved_id s \<longleftrightarrow> starts_with s ''psm_'' \<or> starts_with s ''wsp_'' \<or>
     starts_with s ''inv_'' \<or> starts_with s ''der_''"

lemma length_kind_text [simp]: "length (kind_text k) = 3"
  by (cases k) auto

lemma kind_text_inject [simp]: "kind_text k = kind_text k' \<longleftrightarrow> k = k'"
  by (cases k; cases k') auto

lemma new_id_inject:
  "byte_list b \<Longrightarrow> byte_list b' \<Longrightarrow> new_id k b = new_id k' b' \<longleftrightarrow> k = k' \<and> b = b'"
  by (auto simp: new_id_def append_eq_append_conv url_bytes.enc_eq_iff)

lemma new_id_prefix [simp]:
  "is_personal_store_id (new_id k b) \<longleftrightarrow> k = Psm"
  "is_workspace_store_id (new_id k b) \<longleftrightarrow> k = Wsp"
  "is_derived_store_id (new_id k b) \<longleftrightarrow> k = Der"
  by (cases k; simp add: new_id_def is_personal_store_id_def is_workspace_store_id_def
      is_derived_store_id_def starts_with_def)+

lemma new_id_valid:
  assumes "length b = 9" "byte_list b"
  shows "is_valid_store_id (new_id k b)"
proof -
  have "list_all id_char (kind_text k @ ''_'')"
    by (cases k) (simp_all add: id_char_def char_code_def Let_def)
  then show ?thesis
    using assms base64url_id_chars [of b]
    by (simp add: is_valid_store_id_def valid_path_id_def new_id_def length_base64url)
qed

text \<open>A store has one kind.\<close>

lemma store_kinds_disjoint:
  "is_personal_store_id s \<Longrightarrow> \<not> is_workspace_store_id s"
  "is_derived_store_id s \<Longrightarrow> \<not> is_workspace_store_id s"
  "is_derived_store_id s \<Longrightarrow> \<not> is_personal_store_id s"
  by (auto simp: is_personal_store_id_def is_workspace_store_id_def is_derived_store_id_def
      starts_with_def)

subsection \<open>Keys and invite tokens\<close>

definition hash_secret :: "env \<Rightarrow> string \<Rightarrow> string" where
  "hash_secret e plaintext = sha256 e plaintext"

record generated_key =
  key_plaintext :: string
  key_hash :: string
  key_prefix :: string

definition generate_api_key :: "env \<Rightarrow> nat list \<Rightarrow> generated_key" where
  "generate_api_key e bytes =
     (let plaintext = ''mzk_'' @ base64url bytes
      in \<lparr>key_plaintext = plaintext, key_hash = hash_secret e plaintext,
          key_prefix = take (4 + 6) plaintext\<rparr>)"

definition generate_invite_token :: "env \<Rightarrow> nat list \<Rightarrow> string \<times> string" where
  "generate_invite_token e bytes =
     (let plaintext = base64url bytes in (plaintext, hash_secret e plaintext))"

end
