(* ===== verification/Gateway_Db.thy ===== *)
theory Gateway_Db
  imports Gateway_Ids
begin

text \<open>
  \<open>packages/gateway/src/db.ts\<close>: the control-plane schema after all migrations. Every table is
  the list of its rows in insertion order, every row a record with the table's columns (a
  nullable column is an \<open>option\<close>, an \<open>INTEGER\<close> used as a flag a \<open>bool\<close>, a time the ISO text
  the code writes). A writing statement answers \<open>Inl\<close> of the violated constraint, as SQLite
  does with \<open>foreign_keys = ON\<close>, and changes nothing then; a transaction is the composition of
  its statements, so it too is all or nothing.

  The last part is the schema's invariant \<open>db_ok\<close> (primary keys, unique columns, references)
  and its preservation by every statement.
\<close>

subsection \<open>Rows\<close>

record account_row =
  a_id :: string
  a_email :: string
  a_provider_sub :: "string option"
  a_created_at :: string

record token_row =
  t_id :: string
  t_account_id :: string
  t_hash :: string
  t_prefix :: string
  t_label :: "string option"
  t_read_only :: bool
  t_created_at :: string
  t_revoked_at :: "string option"
  t_last_used_at :: "string option"

record scope_row =
  sc_token_id :: string
  sc_store_id :: string

record store_row =
  s_id :: string
  s_invite_reachable :: bool
  s_name :: "string option"
  s_created_by :: string
  s_created_at :: string

datatype role = Owner | Member

record member_row =
  m_store_id :: string
  m_account_id :: string
  m_role :: role
  m_joined_at :: string

record invite_row =
  i_id :: string
  i_store_id :: string
  i_hash :: string
  i_role :: role
  i_max_uses :: "int option"
  i_used_count :: int
  i_expires_at :: "string option"
  i_revoked_at :: "string option"
  i_created_by :: string
  i_created_at :: string

record personal_row =
  p_account_id :: string
  p_store_id :: string
  p_created_at :: string

record usage_row =
  u_day :: string
  u_store_id :: string
  u_requests :: nat
  u_bytes_in :: nat
  u_bytes_out :: nat

datatype device_status = Pending | Approved | Denied

record device_row =
  d_device_code :: string
  d_user_code :: string
  d_account_id :: "string option"
  d_status :: device_status
  d_label :: string
  d_created_at :: string
  d_expires_at :: string
  d_last_polled_at :: "string option"

record source_row =
  ss_store_id :: string
  ss_project_id :: string
  ss_account_id :: string
  ss_label :: "string option"
  ss_registered_at :: string
  ss_updated_at :: string

record derived_row =
  dr_parent :: string
  dr_kind :: string
  dr_store_id :: string
  dr_created_at :: string

record db =
  accounts :: "account_row list"
  api_tokens :: "token_row list"
  token_scopes :: "scope_row list"
  stores :: "store_row list"
  memberships :: "member_row list"
  invites :: "invite_row list"
  personal_stores :: "personal_row list"
  usage_daily :: "usage_row list"
  device_auth :: "device_row list"
  source_stores :: "source_row list"
  derived_stores :: "derived_row list"

definition empty_db :: db where
  "empty_db = \<lparr>accounts = [], api_tokens = [], token_scopes = [], stores = [], memberships = [],
     invites = [], personal_stores = [], usage_daily = [], device_auth = [], source_stores = [],
     derived_stores = []\<rparr>"

subsection \<open>Results\<close>

datatype sql_error = Unique_violation string | Foreign_key_violation string

type_synonym 'a sql = "sql_error + 'a"

fun and_then :: "'e + 'a \<Rightarrow> ('a \<Rightarrow> 'e + 'b) \<Rightarrow> 'e + 'b" where
  "and_then (Inl e) f = Inl e"
| "and_then (Inr a) f = f a"

lemma and_then_Inr: "and_then r f = Inr b \<longleftrightarrow> (\<exists>a. r = Inr a \<and> f a = Inr b)"
  by (cases r) auto

lemma find_SomeD: "find P xs = Some x \<Longrightarrow> x \<in> set xs \<and> P x"
  by (auto simp: find_Some_iff)

definition has_account :: "db \<Rightarrow> string \<Rightarrow> bool" where
  "has_account d a \<longleftrightarrow> a \<in> a_id ` set (accounts d)"

definition has_store :: "db \<Rightarrow> string \<Rightarrow> bool" where
  "has_store d s \<longleftrightarrow> s \<in> s_id ` set (stores d)"

definition has_token :: "db \<Rightarrow> string \<Rightarrow> bool" where
  "has_token d t \<longleftrightarrow> t \<in> t_id ` set (api_tokens d)"

subsection \<open>Inserting statements\<close>

definition insert_account :: "account_row \<Rightarrow> db \<Rightarrow> db sql" where
  "insert_account r d =
     (if a_id r \<in> set (map a_id (accounts d)) \<or> a_email r \<in> set (map a_email (accounts d)) \<or>
         (a_provider_sub r \<noteq> None \<and> a_provider_sub r \<in> set (map a_provider_sub (accounts d)))
      then Inl (Unique_violation ''accounts'') else Inr (d\<lparr>accounts := accounts d @ [r]\<rparr>))"

definition insert_token :: "token_row \<Rightarrow> db \<Rightarrow> db sql" where
  "insert_token r d =
     (if t_id r \<in> set (map t_id (api_tokens d)) \<or> t_hash r \<in> set (map t_hash (api_tokens d))
      then Inl (Unique_violation ''api_tokens'')
      else if \<not> has_account d (t_account_id r) then Inl (Foreign_key_violation ''api_tokens'')
      else Inr (d\<lparr>api_tokens := api_tokens d @ [r]\<rparr>))"

text \<open>\<open>INSERT OR IGNORE\<close>.\<close>

definition insert_scope :: "scope_row \<Rightarrow> db \<Rightarrow> db sql" where
  "insert_scope r d =
     (if r \<in> set (token_scopes d) then Inr d
      else if \<not> has_token d (sc_token_id r) then Inl (Foreign_key_violation ''token_scopes'')
      else Inr (d\<lparr>token_scopes := token_scopes d @ [r]\<rparr>))"

definition insert_store :: "store_row \<Rightarrow> db \<Rightarrow> db sql" where
  "insert_store r d =
     (if s_id r \<in> set (map s_id (stores d)) then Inl (Unique_violation ''stores'')
      else if \<not> has_account d (s_created_by r) then Inl (Foreign_key_violation ''stores'')
      else Inr (d\<lparr>stores := stores d @ [r]\<rparr>))"

definition is_member :: "db \<Rightarrow> string \<Rightarrow> string \<Rightarrow> bool" where
  "is_member d s a \<longleftrightarrow> (s, a) \<in> set (map (\<lambda>m. (m_store_id m, m_account_id m)) (memberships d))"

definition insert_membership :: "member_row \<Rightarrow> db \<Rightarrow> db sql" where
  "insert_membership r d =
     (if is_member d (m_store_id r) (m_account_id r) then Inl (Unique_violation ''memberships'')
      else if \<not> has_store d (m_store_id r) \<or> \<not> has_account d (m_account_id r)
      then Inl (Foreign_key_violation ''memberships'')
      else Inr (d\<lparr>memberships := memberships d @ [r]\<rparr>))"

definition insert_invite :: "invite_row \<Rightarrow> db \<Rightarrow> db sql" where
  "insert_invite r d =
     (if i_id r \<in> set (map i_id (invites d)) \<or> i_hash r \<in> set (map i_hash (invites d))
      then Inl (Unique_violation ''invites'')
      else if \<not> has_store d (i_store_id r) \<or> \<not> has_account d (i_created_by r)
      then Inl (Foreign_key_violation ''invites'')
      else Inr (d\<lparr>invites := invites d @ [r]\<rparr>))"

definition insert_personal :: "personal_row \<Rightarrow> db \<Rightarrow> db sql" where
  "insert_personal r d =
     (if p_account_id r \<in> set (map p_account_id (personal_stores d)) \<or>
         p_store_id r \<in> set (map p_store_id (personal_stores d))
      then Inl (Unique_violation ''personal_stores'')
      else if \<not> has_account d (p_account_id r) then Inl (Foreign_key_violation ''personal_stores'')
      else Inr (d\<lparr>personal_stores := personal_stores d @ [r]\<rparr>))"

definition insert_device :: "device_row \<Rightarrow> db \<Rightarrow> db sql" where
  "insert_device r d =
     (if d_device_code r \<in> set (map d_device_code (device_auth d)) \<or>
         d_user_code r \<in> set (map d_user_code (device_auth d))
      then Inl (Unique_violation ''device_auth'')
      else if (case d_account_id r of None \<Rightarrow> False | Some a \<Rightarrow> \<not> has_account d a)
      then Inl (Foreign_key_violation ''device_auth'')
      else Inr (d\<lparr>device_auth := device_auth d @ [r]\<rparr>))"

definition insert_derived :: "derived_row \<Rightarrow> db \<Rightarrow> db sql" where
  "insert_derived r d =
     (if (dr_parent r, dr_kind r) \<in> set (map (\<lambda>x. (dr_parent x, dr_kind x)) (derived_stores d)) \<or>
         dr_store_id r \<in> set (map dr_store_id (derived_stores d))
      then Inl (Unique_violation ''derived_stores'')
      else Inr (d\<lparr>derived_stores := derived_stores d @ [r]\<rparr>))"

text \<open>A row of \<open>source_stores\<close>; the conflict clause is the caller's.\<close>

definition insert_source :: "source_row \<Rightarrow> db \<Rightarrow> db sql" where
  "insert_source r d =
     (if (ss_store_id r, ss_project_id r) \<in>
           set (map (\<lambda>x. (ss_store_id x, ss_project_id x)) (source_stores d))
      then Inl (Unique_violation ''source_stores'')
      else if \<not> has_store d (ss_store_id r) \<or> \<not> has_account d (ss_account_id r)
      then Inl (Foreign_key_violation ''source_stores'')
      else Inr (d\<lparr>source_stores := source_stores d @ [r]\<rparr>))"

subsection \<open>Updates and deletes\<close>

text \<open>\<open>UPDATE \<dots> WHERE\<close> on columns that are neither keys nor references.\<close>

definition update_where :: "('r \<Rightarrow> bool) \<Rightarrow> ('r \<Rightarrow> 'r) \<Rightarrow> 'r list \<Rightarrow> 'r list" where
  "update_where P f rows = map (\<lambda>r. if P r then f r else r) rows"

definition delete_where :: "('r \<Rightarrow> bool) \<Rightarrow> 'r list \<Rightarrow> 'r list" where
  "delete_where P rows = filter (\<lambda>r. \<not> P r) rows"

text \<open>Deleting a store row is refused while another table still refers to it.\<close>

definition store_referenced :: "db \<Rightarrow> string \<Rightarrow> bool" where
  "store_referenced d s \<longleftrightarrow>
     list_ex (\<lambda>m. m_store_id m = s) (memberships d) \<or>
     list_ex (\<lambda>i. i_store_id i = s) (invites d) \<or>
     list_ex (\<lambda>x. ss_store_id x = s) (source_stores d)"

definition delete_store_row :: "string \<Rightarrow> db \<Rightarrow> db sql" where
  "delete_store_row s d =
     (if has_store d s \<and> store_referenced d s then Inl (Foreign_key_violation ''stores'')
      else Inr (d\<lparr>stores := delete_where (\<lambda>r. s_id r = s) (stores d)\<rparr>))"

text \<open>\<open>UPDATE accounts SET provider_sub = ? WHERE id = ?\<close>, with its unique index.\<close>

definition set_provider_sub :: "string \<Rightarrow> string \<Rightarrow> db \<Rightarrow> db sql" where
  "set_provider_sub sub a d =
     (if list_ex (\<lambda>x. a_id x \<noteq> a \<and> a_provider_sub x = Some sub) (accounts d)
      then Inl (Unique_violation ''accounts'')
      else Inr (d\<lparr>accounts := update_where (\<lambda>r. a_id r = a) (\<lambda>r. r\<lparr>a_provider_sub := Some sub\<rparr>) (accounts d)\<rparr>))"

subsection \<open>Migrations\<close>

text \<open>
  \<open>runMigrations\<close>: the migrations from the stored \<open>user_version\<close> on, inside one immediate
  transaction that re-reads the version.
\<close>

definition run_migrations :: "('s \<Rightarrow> 's) list \<Rightarrow> nat \<times> 's \<Rightarrow> nat \<times> 's" where
  "run_migrations migrations vs =
     (let (current, s) = vs
      in foldl (\<lambda>(v, s) k. (Suc k, (migrations ! k) s)) (current, s) [current..<length migrations])"

lemma run_migrations_version:
  "fst vs \<le> length ms \<Longrightarrow> fst (run_migrations ms vs) = length ms"
proof (cases vs)
  case (Pair v s)
  assume "fst vs \<le> length ms"
  then have v: "v \<le> length ms" by (simp add: Pair)
  have "fst (foldl (\<lambda>(v, s) k. (Suc k, f k s)) (v, s) [v..<n]) = n" if "v \<le> n" for f :: "nat \<Rightarrow> 'a \<Rightarrow> 'a" and n
    using that
  proof (induction n rule: dec_induct)
    case (step n)
    then show ?case by (simp add: case_prod_beta)
  qed simp
  with v show ?thesis by (simp add: run_migrations_def Pair)
qed

text \<open>A second process that opens the migrated file runs nothing.\<close>

lemma run_migrations_again:
  "fst vs \<le> length ms \<Longrightarrow> run_migrations ms (run_migrations ms vs) = run_migrations ms vs"
  using run_migrations_version [of vs ms]
  by (cases "run_migrations ms vs") (simp add: run_migrations_def [of ms "(_, _)"])

subsection \<open>The schema's invariant\<close>

definition keys_ok :: "db \<Rightarrow> bool" where
  "keys_ok d \<longleftrightarrow>
     distinct (map a_id (accounts d)) \<and> distinct (map a_email (accounts d)) \<and>
     distinct (map t_id (api_tokens d)) \<and> distinct (map t_hash (api_tokens d)) \<and>
     distinct (token_scopes d) \<and> distinct (map s_id (stores d)) \<and>
     distinct (map (\<lambda>m. (m_store_id m, m_account_id m)) (memberships d)) \<and>
     distinct (map i_id (invites d)) \<and> distinct (map i_hash (invites d)) \<and>
     distinct (map p_account_id (personal_stores d)) \<and> distinct (map p_store_id (personal_stores d)) \<and>
     distinct (map (\<lambda>u. (u_day u, u_store_id u)) (usage_daily d)) \<and>
     distinct (map d_device_code (device_auth d)) \<and> distinct (map d_user_code (device_auth d)) \<and>
     distinct (map (\<lambda>x. (ss_store_id x, ss_project_id x)) (source_stores d)) \<and>
     distinct (map (\<lambda>x. (dr_parent x, dr_kind x)) (derived_stores d)) \<and>
     distinct (map dr_store_id (derived_stores d))"

definition refs_ok :: "db \<Rightarrow> bool" where
  "refs_ok d \<longleftrightarrow>
     (\<forall>t \<in> set (api_tokens d). has_account d (t_account_id t)) \<and>
     (\<forall>x \<in> set (token_scopes d). has_token d (sc_token_id x)) \<and>
     (\<forall>s \<in> set (stores d). has_account d (s_created_by s)) \<and>
     (\<forall>m \<in> set (memberships d). has_store d (m_store_id m) \<and> has_account d (m_account_id m)) \<and>
     (\<forall>i \<in> set (invites d). has_store d (i_store_id i) \<and> has_account d (i_created_by i)) \<and>
     (\<forall>p \<in> set (personal_stores d). has_account d (p_account_id p)) \<and>
     (\<forall>x \<in> set (device_auth d). \<forall>a. d_account_id x = Some a \<longrightarrow> has_account d a) \<and>
     (\<forall>x \<in> set (source_stores d). has_store d (ss_store_id x) \<and> has_account d (ss_account_id x))"

definition db_ok :: "db \<Rightarrow> bool" where
  "db_ok d \<longleftrightarrow> keys_ok d \<and> refs_ok d"

named_theorems db_intros \<open>preservation of the schema's invariant\<close>

lemma db_ok_empty [db_intros]: "db_ok empty_db"
  by (simp add: db_ok_def keys_ok_def refs_ok_def empty_db_def)

text \<open>References into a table see that table only.\<close>

lemma has_account_other [simp]:
  "has_account (d\<lparr>api_tokens := x1\<rparr>) = has_account d"
  "has_account (d\<lparr>token_scopes := x2\<rparr>) = has_account d"
  "has_account (d\<lparr>stores := x3\<rparr>) = has_account d"
  "has_account (d\<lparr>memberships := x4\<rparr>) = has_account d"
  "has_account (d\<lparr>invites := x5\<rparr>) = has_account d"
  "has_account (d\<lparr>personal_stores := x6\<rparr>) = has_account d"
  "has_account (d\<lparr>usage_daily := x7\<rparr>) = has_account d"
  "has_account (d\<lparr>device_auth := x8\<rparr>) = has_account d"
  "has_account (d\<lparr>source_stores := x9\<rparr>) = has_account d"
  "has_account (d\<lparr>derived_stores := x10\<rparr>) = has_account d"
  by (simp_all add: has_account_def fun_eq_iff)

lemma has_store_other [simp]:
  "has_store (d\<lparr>accounts := x0\<rparr>) = has_store d"
  "has_store (d\<lparr>api_tokens := x1\<rparr>) = has_store d"
  "has_store (d\<lparr>token_scopes := x2\<rparr>) = has_store d"
  "has_store (d\<lparr>memberships := x4\<rparr>) = has_store d"
  "has_store (d\<lparr>invites := x5\<rparr>) = has_store d"
  "has_store (d\<lparr>personal_stores := x6\<rparr>) = has_store d"
  "has_store (d\<lparr>usage_daily := x7\<rparr>) = has_store d"
  "has_store (d\<lparr>device_auth := x8\<rparr>) = has_store d"
  "has_store (d\<lparr>source_stores := x9\<rparr>) = has_store d"
  "has_store (d\<lparr>derived_stores := x10\<rparr>) = has_store d"
  by (simp_all add: has_store_def fun_eq_iff)

lemma has_token_other [simp]:
  "has_token (d\<lparr>accounts := x0\<rparr>) = has_token d"
  "has_token (d\<lparr>token_scopes := x2\<rparr>) = has_token d"
  "has_token (d\<lparr>stores := x3\<rparr>) = has_token d"
  "has_token (d\<lparr>memberships := x4\<rparr>) = has_token d"
  "has_token (d\<lparr>invites := x5\<rparr>) = has_token d"
  "has_token (d\<lparr>personal_stores := x6\<rparr>) = has_token d"
  "has_token (d\<lparr>usage_daily := x7\<rparr>) = has_token d"
  "has_token (d\<lparr>device_auth := x8\<rparr>) = has_token d"
  "has_token (d\<lparr>source_stores := x9\<rparr>) = has_token d"
  "has_token (d\<lparr>derived_stores := x10\<rparr>) = has_token d"
  by (simp_all add: has_token_def fun_eq_iff)

lemma has_append [simp]:
  "has_account (d\<lparr>accounts := accounts d @ [ra]\<rparr>) a \<longleftrightarrow> has_account d a \<or> a = a_id ra"
  "has_store (d\<lparr>stores := stores d @ [rs]\<rparr>) s \<longleftrightarrow> has_store d s \<or> s = s_id rs"
  "has_token (d\<lparr>api_tokens := api_tokens d @ [rt]\<rparr>) t \<longleftrightarrow> has_token d t \<or> t = t_id rt"
  by (auto simp: has_account_def has_store_def has_token_def)

lemmas ok_defs = db_ok_def keys_ok_def refs_ok_def

lemma db_ok_insert_account [db_intros]: "insert_account r d = Inr d' \<Longrightarrow> db_ok d \<Longrightarrow> db_ok d'"
  by (clarsimp simp: insert_account_def split: if_splits) (simp add: ok_defs)

lemma db_ok_insert_token [db_intros]: "insert_token r d = Inr d' \<Longrightarrow> db_ok d \<Longrightarrow> db_ok d'"
  by (clarsimp simp: insert_token_def split: if_splits) (simp add: ok_defs)

lemma db_ok_insert_scope [db_intros]: "insert_scope r d = Inr d' \<Longrightarrow> db_ok d \<Longrightarrow> db_ok d'"
  by (clarsimp simp: insert_scope_def split: if_splits) (simp add: ok_defs)

lemma db_ok_insert_store [db_intros]: "insert_store r d = Inr d' \<Longrightarrow> db_ok d \<Longrightarrow> db_ok d'"
  by (clarsimp simp: insert_store_def split: if_splits) (simp add: ok_defs)

lemma db_ok_insert_membership [db_intros]: "insert_membership r d = Inr d' \<Longrightarrow> db_ok d \<Longrightarrow> db_ok d'"
  by (clarsimp simp: insert_membership_def is_member_def split: if_splits) (simp add: ok_defs)

lemma db_ok_insert_invite [db_intros]: "insert_invite r d = Inr d' \<Longrightarrow> db_ok d \<Longrightarrow> db_ok d'"
  by (clarsimp simp: insert_invite_def split: if_splits) (simp add: ok_defs)

lemma db_ok_insert_personal [db_intros]: "insert_personal r d = Inr d' \<Longrightarrow> db_ok d \<Longrightarrow> db_ok d'"
  by (clarsimp simp: insert_personal_def split: if_splits) (simp add: ok_defs)

lemma db_ok_insert_device [db_intros]: "insert_device r d = Inr d' \<Longrightarrow> db_ok d \<Longrightarrow> db_ok d'"
  by (clarsimp simp: insert_device_def split: if_splits option.splits) (simp_all add: ok_defs)

lemma db_ok_insert_derived [db_intros]: "insert_derived r d = Inr d' \<Longrightarrow> db_ok d \<Longrightarrow> db_ok d'"
  by (clarsimp simp: insert_derived_def split: if_splits) (simp add: ok_defs)

lemma db_ok_insert_source [db_intros]: "insert_source r d = Inr d' \<Longrightarrow> db_ok d \<Longrightarrow> db_ok d'"
  by (clarsimp simp: insert_source_def split: if_splits) (simp add: ok_defs)

lemmas db_defs = db_ok_def keys_ok_def refs_ok_def has_account_def has_store_def has_token_def

text \<open>An update that keeps a column keeps its list of values.\<close>

lemma map_update_where:
  "(\<And>r. k (f r) = k r) \<Longrightarrow> map k (update_where P f rows) = map k rows"
  by (simp add: update_where_def)

lemma set_update_where:
  "x \<in> set (update_where P f rows) \<longleftrightarrow> (\<exists>r \<in> set rows. x = (if P r then f r else r))"
  by (auto simp: update_where_def)

lemma set_delete_where [simp]: "set (delete_where P rows) = {r \<in> set rows. \<not> P r}"
  by (simp add: delete_where_def)

lemma distinct_delete_where [simp]: "distinct (map k rows) \<Longrightarrow> distinct (map k (delete_where P rows))"
  by (simp add: delete_where_def distinct_map_filter)

lemma image_update_where:
  "(\<And>r. k (f r) = k r) \<Longrightarrow> k ` set (update_where P f rows) = k ` set rows"
  by (metis list.set_map map_update_where)

lemma has_store_delete: "has_store (d\<lparr>stores := delete_where (\<lambda>r. s_id r = s) (stores d)\<rparr>) x \<longleftrightarrow> has_store d x \<and> x \<noteq> s"
  by (auto simp: has_store_def)

lemma db_ok_delete_store_row [db_intros]:
  assumes "delete_store_row s d = Inr d'" "db_ok d"
  shows "db_ok d'"
proof -
  have d': "d' = d\<lparr>stores := delete_where (\<lambda>r. s_id r = s) (stores d)\<rparr>"
    and free: "has_store d s \<Longrightarrow> \<not> store_referenced d s"
    using assms(1) by (auto simp: delete_store_row_def split: if_splits)
  have other: "has_account d' = has_account d" "has_token d' = has_token d"
    by (auto simp: d' has_account_def has_token_def)
  have st: "has_store d' x \<longleftrightarrow> has_store d x \<and> x \<noteq> s" for x
    unfolding d' by (rule has_store_delete)
  have "keys_ok d'" using assms(2) by (simp add: db_ok_def keys_ok_def d')
  moreover have "refs_ok d'"
    using assms(2) free unfolding db_ok_def refs_ok_def other st
    by (simp add: d' store_referenced_def list_ex_iff) blast
  ultimately show ?thesis by (simp add: db_ok_def)
qed

end
