(* ===== verification/Gateway_Keys.thy ===== *)
theory Gateway_Keys
  imports Gateway_Db
begin

text \<open>
  \<open>packages/gateway/src/keys.ts\<close>: issuing, identifying, scoping, listing and revoking API keys,
  and what an issued key can and cannot do.
\<close>

text \<open>A JavaScript truth test on a nullable text column: null and the empty text are false.\<close>

definition truthy :: "string option \<Rightarrow> bool" where
  "truthy s \<longleftrightarrow> s \<noteq> None \<and> s \<noteq> Some []"

text \<open>
  \<open>ORDER BY \<dots> ASC\<close> and \<open>DESC\<close>. SQLite leaves the order of equal keys open; here it is the
  insertion order.
\<close>

definition order_asc :: "('r \<Rightarrow> 'k::linorder) \<Rightarrow> 'r list \<Rightarrow> 'r list" where
  "order_asc k rows = sort_key k rows"

definition order_desc :: "('r \<Rightarrow> 'k::linorder) \<Rightarrow> 'r list \<Rightarrow> 'r list" where
  "order_desc k rows = rev (sort_key k (rev rows))"

lemma set_order [simp]: "set (order_asc k rows) = set rows" "set (order_desc k rows) = set rows"
  by (simp_all add: order_asc_def order_desc_def)

lemma length_order [simp]: "length (order_asc k rows) = length rows" "length (order_desc k rows) = length rows"
  by (simp_all add: order_asc_def order_desc_def)

lemma mset_order [simp]: "mset (order_asc k rows) = mset rows" "mset (order_desc k rows) = mset rows"
  by (simp_all add: order_asc_def order_desc_def)

lemma distinct_order [simp]:
  "distinct (map f (order_asc k rows)) \<longleftrightarrow> distinct (map f rows)"
  "distinct (map f (order_desc k rows)) \<longleftrightarrow> distinct (map f rows)"
  by (metis mset_eq_imp_distinct_iff mset_map mset_order(1), metis mset_eq_imp_distinct_iff mset_map mset_order(2))

lemma sorted_order_asc: "sorted (map k (order_asc k rows))"
  by (simp add: order_asc_def)

subsection \<open>Operations\<close>

record token_identity =
  ti_token_id :: string
  ti_account_id :: string
  ti_read_only :: bool

definition identify_token :: "env \<Rightarrow> db \<Rightarrow> string \<Rightarrow> token_identity option" where
  "identify_token e d plaintext =
     (case find (\<lambda>t. t_hash t = hash_secret e plaintext) (api_tokens d) of
        None \<Rightarrow> None
      | Some row \<Rightarrow>
          if truthy (t_revoked_at row) then None
          else Some \<lparr>ti_token_id = t_id row, ti_account_id = t_account_id row,
                     ti_read_only = t_read_only row\<rparr>)"

definition touch_token :: "env \<Rightarrow> db \<Rightarrow> string \<Rightarrow> db" where
  "touch_token e d tid =
     d\<lparr>api_tokens := update_where (\<lambda>t. t_id t = tid) (\<lambda>t. t\<lparr>t_last_used_at := Some (now_iso e)\<rparr>)
        (api_tokens d)\<rparr>"

definition token_is_unscoped :: "db \<Rightarrow> string \<Rightarrow> bool" where
  "token_is_unscoped d tid \<longleftrightarrow> find (\<lambda>x. sc_token_id x = tid) (token_scopes d) = None"

definition token_covers_store :: "db \<Rightarrow> string \<Rightarrow> string \<Rightarrow> bool" where
  "token_covers_store d tid sid \<longleftrightarrow>
     token_is_unscoped d tid \<or>
     find (\<lambda>x. sc_token_id x = tid \<and> sc_store_id x = sid) (token_scopes d) \<noteq> None"

record issued_key =
  ik_plaintext :: string
  ik_token_id :: string
  ik_prefix :: string

fun insert_scopes :: "string \<Rightarrow> string list \<Rightarrow> db \<Rightarrow> db sql" where
  "insert_scopes tid [] d = Inr d"
| "insert_scopes tid (s # ss) d =
     and_then (insert_scope \<lparr>sc_token_id = tid, sc_store_id = s\<rparr> d) (insert_scopes tid ss)"

definition issue_api_key ::
  "env \<Rightarrow> db \<Rightarrow> string \<Rightarrow> string option \<Rightarrow> bool \<Rightarrow> string list \<Rightarrow> (db \<times> issued_key) sql" where
  "issue_api_key e d account label read_only store_ids =
     (let key = generate_api_key e (random e 0 32);
          tid = new_id Tok (random e 1 9);
          row = \<lparr>t_id = tid, t_account_id = account, t_hash = key_hash key, t_prefix = key_prefix key,
                 t_label = label, t_read_only = read_only, t_created_at = now_iso e,
                 t_revoked_at = None, t_last_used_at = None\<rparr>
      in and_then (and_then (insert_token row d) (insert_scopes tid (remdups store_ids)))
           (\<lambda>d'. Inr (d', \<lparr>ik_plaintext = key_plaintext key, ik_token_id = tid, ik_prefix = key_prefix key\<rparr>)))"

definition list_token_scopes :: "db \<Rightarrow> string \<Rightarrow> string list" where
  "list_token_scopes d tid =
     map sc_store_id (order_asc sc_store_id (filter (\<lambda>x. sc_token_id x = tid) (token_scopes d)))"

record token_summary =
  ts_id :: string
  ts_prefix :: string
  ts_label :: "string option"
  ts_read_only :: bool
  ts_revoked_at :: "string option"
  ts_last_used_at :: "string option"
  ts_scopes :: "string list"

definition list_account_tokens :: "db \<Rightarrow> string \<Rightarrow> token_summary list" where
  "list_account_tokens d account =
     map (\<lambda>t. \<lparr>ts_id = t_id t, ts_prefix = t_prefix t, ts_label = t_label t,
              ts_read_only = t_read_only t, ts_revoked_at = t_revoked_at t,
              ts_last_used_at = t_last_used_at t, ts_scopes = list_token_scopes d (t_id t)\<rparr>)
       (order_desc t_created_at (filter (\<lambda>t. t_account_id t = account) (api_tokens d)))"

definition token_belongs_to_account :: "db \<Rightarrow> string \<Rightarrow> string \<Rightarrow> bool" where
  "token_belongs_to_account d tid account \<longleftrightarrow>
     find (\<lambda>t. t_id t = tid \<and> t_account_id t = account) (api_tokens d) \<noteq> None"

definition revoke_token :: "env \<Rightarrow> db \<Rightarrow> string \<Rightarrow> bool \<times> db" where
  "revoke_token e d tid =
     (let live = (\<lambda>t. t_id t = tid \<and> t_revoked_at t = None)
      in (list_ex live (api_tokens d),
          d\<lparr>api_tokens := update_where live (\<lambda>t. t\<lparr>t_revoked_at := Some (now_iso e)\<rparr>) (api_tokens d)\<rparr>))"

subsection \<open>Facts\<close>

lemma now_iso_truthy [simp]: "truthy (Some (now_iso e))"
  by (simp add: truthy_def now_iso_def iso_def)

lemma now_iso_nonempty [simp]: "now_iso e \<noteq> []"
  by (simp add: now_iso_def iso_def)

lemma token_is_unscoped_iff: "token_is_unscoped d tid \<longleftrightarrow> tid \<notin> sc_token_id ` set (token_scopes d)"
  by (auto simp: token_is_unscoped_def find_None_iff)

lemma token_covers_store_iff:
  "token_covers_store d tid sid \<longleftrightarrow>
     tid \<notin> sc_token_id ` set (token_scopes d) \<or> \<lparr>sc_token_id = tid, sc_store_id = sid\<rparr> \<in> set (token_scopes d)"
proof -
  have "x = \<lparr>sc_token_id = tid, sc_store_id = sid\<rparr> \<longleftrightarrow> sc_token_id x = tid \<and> sc_store_id x = sid"
    for x :: scope_row
    by (cases x) simp
  then have "(\<exists>x \<in> set (token_scopes d). sc_token_id x = tid \<and> sc_store_id x = sid) \<longleftrightarrow>
      \<lparr>sc_token_id = tid, sc_store_id = sid\<rparr> \<in> set (token_scopes d)"
    by metis
  moreover have "find P xs \<noteq> None \<longleftrightarrow> (\<exists>x \<in> set xs. P x)" for P and xs :: "scope_row list"
    using find_None_iff [of P xs] by auto
  ultimately show ?thesis
    unfolding token_covers_store_def token_is_unscoped_iff by simp
qed

lemma insert_scopes_effect:
  "insert_scopes tid ss d = Inr d' \<Longrightarrow>
     d' = d\<lparr>token_scopes := token_scopes d'\<rparr> \<and>
     set (token_scopes d') = set (token_scopes d) \<union> (\<lambda>s. \<lparr>sc_token_id = tid, sc_store_id = s\<rparr>) ` set ss"
proof (induction ss arbitrary: d)
  case (Cons s ss)
  then obtain d1 where d1: "insert_scope \<lparr>sc_token_id = tid, sc_store_id = s\<rparr> d = Inr d1"
    and "insert_scopes tid ss d1 = Inr d'"
    by (auto simp: and_then_Inr)
  then have IH: "d' = d1\<lparr>token_scopes := token_scopes d'\<rparr>"
    "set (token_scopes d') = set (token_scopes d1) \<union> (\<lambda>s. \<lparr>sc_token_id = tid, sc_store_id = s\<rparr>) ` set ss"
    using Cons.IH by auto
  from d1 have e: "d1 = d\<lparr>token_scopes := token_scopes d1\<rparr>"
    "set (token_scopes d1) = insert \<lparr>sc_token_id = tid, sc_store_id = s\<rparr> (set (token_scopes d))"
    by (auto simp: insert_scope_def split: if_splits)
  from IH(1) e(1) have "d' = d\<lparr>token_scopes := token_scopes d'\<rparr>"
    by (metis db.update_convs(3) db.surjective)
  with IH(2) e(2) show ?case by simp
qed simp

lemma db_ok_insert_scopes [db_intros]: "insert_scopes tid ss d = Inr d' \<Longrightarrow> db_ok d \<Longrightarrow> db_ok d'"
  by (induction ss arbitrary: d) (auto simp: and_then_Inr intro: db_ok_insert_scope)

lemma db_ok_issue [db_intros]: "issue_api_key e d a l r ss = Inr (d', k) \<Longrightarrow> db_ok d \<Longrightarrow> db_ok d'"
  by (auto simp: issue_api_key_def Let_def and_then_Inr intro: db_ok_insert_scopes db_ok_insert_token)

text \<open>An update of the token table that keeps ids, hashes and owners keeps the invariant.\<close>

lemma db_ok_update_tokens:
  assumes "\<And>t. t_id (f t) = t_id t" "\<And>t. t_hash (f t) = t_hash t" "\<And>t. t_account_id (f t) = t_account_id t"
    and "db_ok d"
  shows "db_ok (d\<lparr>api_tokens := update_where P f (api_tokens d)\<rparr>)"
  using assms
  by (auto simp: db_defs map_update_where set_update_where image_update_where)

lemma db_ok_touch [db_intros]: "db_ok d \<Longrightarrow> db_ok (touch_token e d tid)"
  unfolding touch_token_def by (rule db_ok_update_tokens) auto

lemma db_ok_revoke [db_intros]: "db_ok d \<Longrightarrow> db_ok (snd (revoke_token e d tid))"
  unfolding revoke_token_def Let_def snd_conv by (rule db_ok_update_tokens) auto

lemma find_update_where:
  assumes "\<And>r. Q (f r) = Q r"
  shows "find Q (update_where P f rows) = map_option (\<lambda>r. if P r then f r else r) (find Q rows)"
  by (induction rows) (auto simp: update_where_def assms)

lemma identify_touch [simp]: "identify_token e' (touch_token e d tid) p = identify_token e' d p"
  by (auto simp: identify_token_def touch_token_def find_update_where split: option.splits)

lemma token_of_hash:
  "db_ok d \<Longrightarrow> t \<in> set (api_tokens d) \<Longrightarrow> find (\<lambda>x. t_hash x = t_hash t) (api_tokens d) = Some t"
proof -
  assume "db_ok d" and t: "t \<in> set (api_tokens d)"
  then have inj: "inj_on t_hash (set (api_tokens d))" by (simp add: db_ok_def keys_ok_def distinct_map)
  obtain x where x: "find (\<lambda>x. t_hash x = t_hash t) (api_tokens d) = Some x"
    using t by (cases "find (\<lambda>x. t_hash x = t_hash t) (api_tokens d)") (auto simp: find_None_iff)
  then have "x \<in> set (api_tokens d)" "t_hash x = t_hash t" by (auto simp: find_Some_iff)
  then have "x = t" using inj t by (auto dest: inj_onD)
  with x show ?thesis by simp
qed

lemma identify_SomeD:
  assumes "identify_token e d p = Some i"
  shows "\<exists>t \<in> set (api_tokens d). t_hash t = hash_secret e p \<and> t_id t = ti_token_id i \<and>
    t_account_id t = ti_account_id i \<and> t_read_only t = ti_read_only i \<and> \<not> truthy (t_revoked_at t)"
  using assms by (auto simp: identify_token_def find_Some_iff split: option.splits if_splits)

subsection \<open>Properties\<close>

definition issued_row :: "env \<Rightarrow> string \<Rightarrow> string option \<Rightarrow> bool \<Rightarrow> token_row" where
  "issued_row e account label read_only =
     \<lparr>t_id = new_id Tok (random e 1 9), t_account_id = account,
      t_hash = hash_secret e (''mzk_'' @ base64url (random e 0 32)),
      t_prefix = take 10 (''mzk_'' @ base64url (random e 0 32)),
      t_label = label, t_read_only = read_only, t_created_at = now_iso e,
      t_revoked_at = None, t_last_used_at = None\<rparr>"

lemma issue_effect:
  assumes "issue_api_key e d account label ro sids = Inr (d', k)"
  shows "api_tokens d' = api_tokens d @ [issued_row e account label ro]"
    "t_hash (issued_row e account label ro) \<notin> t_hash ` set (api_tokens d)"
    "t_id (issued_row e account label ro) \<notin> t_id ` set (api_tokens d)"
    "set (token_scopes d') = set (token_scopes d) \<union>
       (\<lambda>s. \<lparr>sc_token_id = ik_token_id k, sc_store_id = s\<rparr>) ` set sids"
    "ik_token_id k = t_id (issued_row e account label ro)"
    "hash_secret e (ik_plaintext k) = t_hash (issued_row e account label ro)"
    "memberships d' = memberships d" "stores d' = stores d" "accounts d' = accounts d"
    "d' = d\<lparr>api_tokens := api_tokens d', token_scopes := token_scopes d'\<rparr>"
proof -
  obtain d1 where d1: "insert_token (issued_row e account label ro) d = Inr d1"
    and d2: "insert_scopes (new_id Tok (random e 1 9)) (remdups sids) d1 = Inr d'"
    and k: "ik_token_id k = new_id Tok (random e 1 9)"
      "ik_plaintext k = ''mzk_'' @ base64url (random e 0 32)"
    using assms by (auto simp: issue_api_key_def Let_def and_then_Inr generate_api_key_def issued_row_def)
  from d1 have t: "d1 = d\<lparr>api_tokens := api_tokens d @ [issued_row e account label ro]\<rparr>"
    and fresh: "t_hash (issued_row e account label ro) \<notin> t_hash ` set (api_tokens d)"
      "t_id (issued_row e account label ro) \<notin> t_id ` set (api_tokens d)"
    by (auto simp: insert_token_def split: if_splits)
  note s = insert_scopes_effect [OF d2]
  have d': "d' = d1\<lparr>token_scopes := token_scopes d'\<rparr>" using s by blast
  show "api_tokens d' = api_tokens d @ [issued_row e account label ro]"
    "memberships d' = memberships d" "stores d' = stores d" "accounts d' = accounts d"
    by (subst d', simp add: t)+
  then show "d' = d\<lparr>api_tokens := api_tokens d', token_scopes := token_scopes d'\<rparr>"
    by (subst d') (simp add: t)
  show "t_hash (issued_row e account label ro) \<notin> t_hash ` set (api_tokens d)"
    "t_id (issued_row e account label ro) \<notin> t_id ` set (api_tokens d)" by (fact fresh)+
  show "set (token_scopes d') = set (token_scopes d) \<union>
      (\<lambda>s. \<lparr>sc_token_id = ik_token_id k, sc_store_id = s\<rparr>) ` set sids"
    using s by (simp add: t k)
  show "ik_token_id k = t_id (issued_row e account label ro)"
    "hash_secret e (ik_plaintext k) = t_hash (issued_row e account label ro)"
    by (simp_all add: k issued_row_def)
qed

text \<open>The keys a revocation leaves alone, and the one it kills.\<close>

lemma identify_revoke:
  "identify_token e' (snd (revoke_token e d tid)) p =
     (case identify_token e' d p of None \<Rightarrow> None
      | Some i \<Rightarrow> if ti_token_id i = tid \<and> t_revoked_at (the (find (\<lambda>t. t_hash t = hash_secret e' p) (api_tokens d))) = None
                  then None else Some i)"
  by (auto simp: identify_token_def revoke_token_def Let_def find_update_where split: option.splits)

text \<open>What an issued key does: its row is the one found, and its scopes are the requested ones.\<close>

lemma issued_key_works:
  assumes "db_ok d" "issue_api_key e d account label ro sids = Inr (d', k)"
  shows "find (\<lambda>t. t_hash t = hash_secret e (ik_plaintext k)) (api_tokens d') = Some (issued_row e account label ro)"
    "identify_token e d' (ik_plaintext k) =
       Some \<lparr>ti_token_id = ik_token_id k, ti_account_id = account, ti_read_only = ro\<rparr>"
    "token_covers_store d' (ik_token_id k) s \<longleftrightarrow> sids = [] \<or> s \<in> set sids"
proof -
  note f = issue_effect [OF assms(2)]
  show row: "find (\<lambda>t. t_hash t = hash_secret e (ik_plaintext k)) (api_tokens d') = Some (issued_row e account label ro)"
  proof -
    have "find (\<lambda>t. t_hash t = t_hash (issued_row e account label ro)) (api_tokens d) = None"
      using f(2) unfolding find_None_iff by (metis imageI)
    then show ?thesis by (simp add: f(1,6) find_append)
  qed
  show "identify_token e d' (ik_plaintext k) =
      Some \<lparr>ti_token_id = ik_token_id k, ti_account_id = account, ti_read_only = ro\<rparr>"
    unfolding identify_token_def row f(5) by (simp add: issued_row_def truthy_def)
  have none: "ik_token_id k \<notin> sc_token_id ` set (token_scopes d)"
    using assms(1) f(3) unfolding f(5) by (auto simp: db_ok_def refs_ok_def has_token_def)
  show "token_covers_store d' (ik_token_id k) s \<longleftrightarrow> sids = [] \<or> s \<in> set sids"
  proof -
    have "ik_token_id k \<notin> sc_token_id ` set (token_scopes d') \<longleftrightarrow> sids = []"
      using none by (simp add: f(4) image_Un image_image image_iff)
    moreover have "\<lparr>sc_token_id = ik_token_id k, sc_store_id = s\<rparr> \<notin> set (token_scopes d)"
      using none by (metis imageI scope_row.select_convs(1))
    then have "\<lparr>sc_token_id = ik_token_id k, sc_store_id = s\<rparr> \<in> set (token_scopes d') \<longleftrightarrow> s \<in> set sids"
      by (simp add: f(4) image_iff)
    ultimately show ?thesis by (simp only: token_covers_store_iff)
  qed
qed

text \<open>
  C31. An issued key identifies its account with the requested read-only flag; it covers
  exactly the listed stores, or every store when none is listed; no other secret
  changes its meaning; and once revoked it identifies nobody.
\<close>

theorem key_lifecycle:
  assumes "db_ok d" "issue_api_key e d account label ro sids = Inr (d', k)"
  shows "identify_token e d' (ik_plaintext k) =
       Some \<lparr>ti_token_id = ik_token_id k, ti_account_id = account, ti_read_only = ro\<rparr> \<and>
     (\<forall>s. token_covers_store d' (ik_token_id k) s \<longleftrightarrow> sids = [] \<or> s \<in> set sids) \<and>
     (\<forall>p. hash_secret e p \<noteq> hash_secret e (ik_plaintext k) \<longrightarrow> identify_token e d' p = identify_token e d p) \<and>
     identify_token e (snd (revoke_token e2 d' (ik_token_id k))) (ik_plaintext k) = None"
proof -
  note f = issue_effect [OF assms(2)] and w = issued_key_works [OF assms]
  have oth: "identify_token e d' p = identify_token e d p"
    if "hash_secret e p \<noteq> hash_secret e (ik_plaintext k)" for p
    using that by (simp add: identify_token_def f(1,6) find_append split: option.splits)
  have "t_revoked_at (issued_row e account label ro) = None" by (simp add: issued_row_def)
  then show ?thesis using w oth by (simp add: identify_revoke)
qed

end
