(* ===== verification/Gateway_Accounts.thy ===== *)
theory Gateway_Accounts
  imports Gateway_Keys
begin

text \<open>
  \<open>packages/gateway/src/accounts.ts\<close> and \<open>personal-store.ts\<close>: accounts keyed by the provider's
  subject id and by email, and the one personal store of an account, which is resolved to that
  account and to nobody else.
\<close>

subsection \<open>Accounts\<close>

definition new_account :: "env \<Rightarrow> string \<Rightarrow> string option \<Rightarrow> account_row" where
  "new_account e email sub =
     \<lparr>a_id = new_id Acc (random e 0 9), a_email = email, a_provider_sub = sub, a_created_at = now_iso e\<rparr>"

definition upsert_account_by_google :: "env \<Rightarrow> db \<Rightarrow> string \<Rightarrow> string \<Rightarrow> (db \<times> string) sql" where
  "upsert_account_by_google e d sub email =
     (case find (\<lambda>a. a_provider_sub a = Some sub) (accounts d) of
        Some row \<Rightarrow> Inr (d, a_id row)
      | None \<Rightarrow>
          (case find (\<lambda>a. a_email a = email) (accounts d) of
             Some row \<Rightarrow>
               if truthy (a_provider_sub row) then Inr (d, a_id row)
               else and_then (set_provider_sub sub (a_id row) d) (\<lambda>d'. Inr (d', a_id row))
           | None \<Rightarrow>
               and_then (insert_account (new_account e email (Some sub)) d)
                 (\<lambda>d'. Inr (d', a_id (new_account e email (Some sub))))))"

definition upsert_account_by_email :: "env \<Rightarrow> db \<Rightarrow> string \<Rightarrow> (db \<times> string) sql" where
  "upsert_account_by_email e d email =
     (case find (\<lambda>a. a_email a = email) (accounts d) of
        Some row \<Rightarrow> Inr (d, a_id row)
      | None \<Rightarrow>
          and_then (insert_account (new_account e email None) d)
            (\<lambda>d'. Inr (d', a_id (new_account e email None))))"

definition get_account :: "db \<Rightarrow> string \<Rightarrow> account_row option" where
  "get_account d a = find (\<lambda>r. a_id r = a) (accounts d)"

lemma get_account_iff: "get_account d a \<noteq> None \<longleftrightarrow> has_account d a"
  by (auto simp: get_account_def has_account_def find_None_iff)

lemma db_ok_set_provider_sub [db_intros]:
  "set_provider_sub sub a d = Inr d' \<Longrightarrow> db_ok d \<Longrightarrow> db_ok d'"
  by (clarsimp simp: set_provider_sub_def split: if_splits)
    (simp add: ok_defs map_update_where has_account_def image_update_where)

lemma db_ok_upsert_google [db_intros]:
  "upsert_account_by_google e d sub email = Inr (d', a) \<Longrightarrow> db_ok d \<Longrightarrow> db_ok d'"
  by (auto simp: upsert_account_by_google_def and_then_Inr split: option.splits if_splits
      intro: db_ok_insert_account db_ok_set_provider_sub)

lemma db_ok_upsert_email [db_intros]:
  "upsert_account_by_email e d email = Inr (d', a) \<Longrightarrow> db_ok d \<Longrightarrow> db_ok d'"
  by (auto simp: upsert_account_by_email_def and_then_Inr split: option.splits intro: db_ok_insert_account)

lemma sub_after_set:
  assumes "set_provider_sub sub a d = Inr d'" "has_account d a"
  shows "find (\<lambda>x. a_provider_sub x = Some sub) (accounts d') \<noteq> None"
    "\<And>x. find (\<lambda>x. a_provider_sub x = Some sub) (accounts d') = Some x \<Longrightarrow> a_id x = a"
proof -
  have d': "accounts d' = update_where (\<lambda>r. a_id r = a) (\<lambda>r. r\<lparr>a_provider_sub := Some sub\<rparr>) (accounts d)"
    and other: "\<And>x. x \<in> set (accounts d) \<Longrightarrow> a_id x \<noteq> a \<Longrightarrow> a_provider_sub x \<noteq> Some sub"
    using assms(1) by (auto simp: set_provider_sub_def list_ex_iff split: if_splits)
  obtain r where "r \<in> set (accounts d)" "a_id r = a" using assms(2) by (auto simp: has_account_def)
  then have "r\<lparr>a_provider_sub := Some sub\<rparr> \<in> set (accounts d')"
    unfolding d' set_update_where by force
  then show "find (\<lambda>x. a_provider_sub x = Some sub) (accounts d') \<noteq> None"
    unfolding find_None_iff by fastforce
  fix x assume "find (\<lambda>x. a_provider_sub x = Some sub) (accounts d') = Some x"
  then have "x \<in> set (accounts d')" "a_provider_sub x = Some sub" by (auto simp: find_Some_iff)
  then show "a_id x = a" unfolding d' set_update_where using other by (auto split: if_splits)
qed

text \<open>
  Signing in with a subject id settles on one account: whatever a later sign-in with the
  same subject says its email is, it reaches the same account and writes nothing, provided the
  first sign-in did not meet an account that already carries another subject.
\<close>

lemma google_login_stable:
  assumes "upsert_account_by_google e d sub email = Inr (d', a)"
    and "\<forall>r \<in> set (accounts d). a_email r = email \<longrightarrow> a_provider_sub r = None \<or> a_provider_sub r = Some sub"
  shows "upsert_account_by_google e2 d' sub email2 = Inr (d', a) \<and> has_account d' a"
proof -
  have ?thesis if f: "find (\<lambda>x. a_provider_sub x = Some sub) (accounts d') = Some r" and "a_id r = a" for r
    using that find_SomeD [OF f] by (auto simp: upsert_account_by_google_def has_account_def)
  note known = this
  show ?thesis
  proof (cases "find (\<lambda>x. a_provider_sub x = Some sub) (accounts d)")
    case (Some r)
    then have "d' = d" "a_id r = a" using assms(1) by (simp_all add: upsert_account_by_google_def)
    then show ?thesis using known [of r] Some by blast
  next
    case nosub: None
    show ?thesis
    proof (cases "find (\<lambda>x. a_email x = email) (accounts d)")
      case (Some r)
      then have r: "r \<in> set (accounts d)" "a_email r = email" by (auto simp: find_Some_iff)
      have "a_provider_sub r \<noteq> Some sub" using nosub r by (auto simp: find_None_iff)
      then have "a_provider_sub r = None" using assms(2) r by blast
      then have "set_provider_sub sub a d = Inr d'" "a = a_id r"
        using assms(1) nosub Some by (auto simp: upsert_account_by_google_def truthy_def and_then_Inr)
      then have set: "set_provider_sub sub a d = Inr d'" by simp
      have "has_account d a" using r \<open>a = a_id r\<close> by (simp add: has_account_def)
      then obtain x where "find (\<lambda>x. a_provider_sub x = Some sub) (accounts d') = Some x" "a_id x = a"
        using sub_after_set [OF set] by blast
      then show ?thesis by (rule known)
    next
      case None
      then have i: "insert_account (new_account e email (Some sub)) d = Inr d'" "a = a_id (new_account e email (Some sub))"
        using assms(1) nosub by (auto simp: upsert_account_by_google_def and_then_Inr)
      then have "find (\<lambda>x. a_provider_sub x = Some sub) (accounts d') = Some (new_account e email (Some sub))"
        using nosub by (auto simp: insert_account_def find_append new_account_def split: if_splits)
      then show ?thesis by (rule known) (simp add: i(2))
    qed
  qed
qed

subsection \<open>Personal stores\<close>

record personal_store =
  ps_store_id :: string
  ps_created_at :: string

definition get_or_create_personal_store :: "env \<Rightarrow> db \<Rightarrow> string \<Rightarrow> (db \<times> personal_store) sql" where
  "get_or_create_personal_store e d account =
     (case find (\<lambda>p. p_account_id p = account) (personal_stores d) of
        Some row \<Rightarrow> Inr (d, \<lparr>ps_store_id = p_store_id row, ps_created_at = p_created_at row\<rparr>)
      | None \<Rightarrow>
          (let sid = new_id Psm (random e 0 9)
           in and_then (insert_personal
                \<lparr>p_account_id = account, p_store_id = sid, p_created_at = now_iso e\<rparr> d)
                (\<lambda>d'. Inr (d', \<lparr>ps_store_id = sid, ps_created_at = now_iso e\<rparr>))))"

definition get_personal_store_owner :: "db \<Rightarrow> string \<Rightarrow> string option" where
  "get_personal_store_owner d sid =
     map_option p_account_id (find (\<lambda>p. p_store_id p = sid) (personal_stores d))"

lemma db_ok_personal [db_intros]:
  "get_or_create_personal_store e d a = Inr (d', p) \<Longrightarrow> db_ok d \<Longrightarrow> db_ok d'"
  by (auto simp: get_or_create_personal_store_def Let_def and_then_Inr split: option.splits
      intro: db_ok_insert_personal)

lemma personal_owner_iff:
  assumes "db_ok d"
  shows "get_personal_store_owner d sid = Some a \<longleftrightarrow>
    (\<exists>p \<in> set (personal_stores d). p_store_id p = sid \<and> p_account_id p = a)"
proof -
  have inj: "inj_on p_store_id (set (personal_stores d))"
    using assms by (simp add: db_ok_def keys_ok_def distinct_map)
  show ?thesis
  proof
    assume "get_personal_store_owner d sid = Some a"
    then show "\<exists>p \<in> set (personal_stores d). p_store_id p = sid \<and> p_account_id p = a"
      by (auto simp: get_personal_store_owner_def find_Some_iff)
  next
    assume "\<exists>p \<in> set (personal_stores d). p_store_id p = sid \<and> p_account_id p = a"
    then obtain p where p: "p \<in> set (personal_stores d)" "p_store_id p = sid" "p_account_id p = a" by blast
    then obtain q where q: "find (\<lambda>p. p_store_id p = sid) (personal_stores d) = Some q"
      by (cases "find (\<lambda>p. p_store_id p = sid) (personal_stores d)") (auto simp: find_None_iff)
    then have "q \<in> set (personal_stores d)" "p_store_id q = sid" by (auto simp: find_Some_iff)
    then have "q = p" using inj p by (auto dest: inj_onD)
    then show "get_personal_store_owner d sid = Some a" using q p by (simp add: get_personal_store_owner_def)
  qed
qed

lemma personal_created:
  assumes "get_or_create_personal_store e d a = Inr (d', ps)"
  shows "\<exists>p \<in> set (personal_stores d'). p_store_id p = ps_store_id ps \<and> p_account_id p = a \<and> p_created_at p = ps_created_at ps"
    "set (personal_stores d) \<subseteq> set (personal_stores d')"
  using assms
  by (auto simp: get_or_create_personal_store_def Let_def and_then_Inr insert_personal_def find_Some_iff
      split: option.splits if_splits)

text \<open>
  The personal store of an account is created once and then found again; it resolves to that
  account, and the store any other account is given afterwards is a different one.
\<close>

lemma personal_store_private:
  assumes "db_ok d" "get_or_create_personal_store e d a = Inr (d', ps)"
  shows "get_personal_store_owner d' (ps_store_id ps) = Some a \<and>
    get_or_create_personal_store e2 d' a = Inr (d', ps) \<and>
    (\<forall>b e3 d3 ps3. b \<noteq> a \<longrightarrow> get_or_create_personal_store e3 d' b = Inr (d3, ps3) \<longrightarrow>
       ps_store_id ps3 \<noteq> ps_store_id ps \<and> get_personal_store_owner d3 (ps_store_id ps) = Some a)"
proof -
  have ok: "db_ok d'" using assms by (blast intro: db_intros)
  obtain p where p: "p \<in> set (personal_stores d')" "p_store_id p = ps_store_id ps" "p_account_id p = a"
    "p_created_at p = ps_created_at ps"
    using personal_created [OF assms(2)] by blast
  have own: "get_personal_store_owner d' (ps_store_id ps) = Some a"
    using personal_owner_iff [OF ok] p by blast
  have inj: "inj_on p_account_id (set (personal_stores d'))"
    using ok by (simp add: db_ok_def keys_ok_def distinct_map)
  obtain q where q: "find (\<lambda>p. p_account_id p = a) (personal_stores d') = Some q"
    using p by (cases "find (\<lambda>p. p_account_id p = a) (personal_stores d')") (auto simp: find_None_iff)
  then have "q \<in> set (personal_stores d')" "p_account_id q = a" by (auto simp: find_Some_iff)
  then have "q = p" using inj p by (auto dest: inj_onD)
  then have again: "get_or_create_personal_store e2 d' a = Inr (d', ps)"
    using q p by (simp add: get_or_create_personal_store_def)
  have "ps_store_id ps3 \<noteq> ps_store_id ps \<and> get_personal_store_owner d3 (ps_store_id ps) = Some a"
    if b: "b \<noteq> a" "get_or_create_personal_store e3 d' b = Inr (d3, ps3)" for b e3 d3 ps3
  proof -
    have ok3: "db_ok d3" using b ok by (blast intro: db_intros)
    have "get_personal_store_owner d3 (ps_store_id ps) = Some a"
      using personal_owner_iff [OF ok3] p personal_created(2) [OF b(2)] by blast
    moreover have "get_personal_store_owner d3 (ps_store_id ps3) = Some b"
      using personal_owner_iff [OF ok3] personal_created(1) [OF b(2)] by blast
    ultimately show ?thesis using b(1) by auto
  qed
  with own again show ?thesis by blast
qed

end
