(* ===== verification/Gateway_Stores.thy ===== *)
theory Gateway_Stores
  imports Gateway_Accounts
begin

text \<open>
  \<open>packages/gateway/src/stores.ts\<close>, \<open>derived-stores.ts\<close> and \<open>source-stores.ts\<close>: workspaces
  and their memberships, sidecar stores, and the source-store registry.

  The abstract view of a workspace's members is a map from accounts to roles
  (\<open>member_role d s\<close>); the specification of role changes and removals over that map, with the
  last-owner rule, is refined by the row operations.
\<close>

subsection \<open>Derived stores\<close>

definition artifact_kinds :: "string list" where
  "artifact_kinds = [''embedding'']"

definition is_artifact_kind :: "string \<Rightarrow> bool" where
  "is_artifact_kind k \<longleftrightarrow> k \<in> set artifact_kinds"

record derived_store =
  ds_store_id :: string
  ds_created_at :: string

definition get_or_create_derived_store ::
  "env \<Rightarrow> db \<Rightarrow> string \<Rightarrow> string \<Rightarrow> (db \<times> derived_store) sql" where
  "get_or_create_derived_store e d parent kind =
     (case find (\<lambda>r. dr_parent r = parent \<and> dr_kind r = kind) (derived_stores d) of
        Some row \<Rightarrow> Inr (d, \<lparr>ds_store_id = dr_store_id row, ds_created_at = dr_created_at row\<rparr>)
      | None \<Rightarrow>
          (let sid = new_id Der (random e 0 9)
           in and_then (insert_derived
                \<lparr>dr_parent = parent, dr_kind = kind, dr_store_id = sid, dr_created_at = now_iso e\<rparr> d)
                (\<lambda>d'. Inr (d', \<lparr>ds_store_id = sid, ds_created_at = now_iso e\<rparr>))))"

definition get_derived_store_parent :: "db \<Rightarrow> string \<Rightarrow> (string \<times> string) option" where
  "get_derived_store_parent d sid =
     map_option (\<lambda>r. (dr_parent r, dr_kind r)) (find (\<lambda>r. dr_store_id r = sid) (derived_stores d))"

definition delete_derived_stores :: "db \<Rightarrow> string \<Rightarrow> db" where
  "delete_derived_stores d parent =
     d\<lparr>derived_stores := delete_where (\<lambda>r. dr_parent r = parent) (derived_stores d)\<rparr>"

subsection \<open>Stores and memberships\<close>

definition create_store :: "env \<Rightarrow> db \<Rightarrow> string \<Rightarrow> string option \<Rightarrow> (db \<times> string) sql" where
  "create_store e d owner name =
     (let sid = new_id Wsp (random e 0 9)
      in and_then
           (and_then (insert_store \<lparr>s_id = sid, s_invite_reachable = False, s_name = name,
                                    s_created_by = owner, s_created_at = now_iso e\<rparr> d)
              (insert_membership \<lparr>m_store_id = sid, m_account_id = owner, m_role = Owner,
                                  m_joined_at = now_iso e\<rparr>))
           (\<lambda>d'. Inr (d', sid)))"

definition get_store :: "db \<Rightarrow> string \<Rightarrow> store_row option" where
  "get_store d sid = find (\<lambda>s. s_id s = sid) (stores d)"

definition member_role :: "db \<Rightarrow> string \<Rightarrow> string \<Rightarrow> role option" where
  "member_role d sid account =
     map_option m_role (find (\<lambda>m. m_store_id m = sid \<and> m_account_id m = account) (memberships d))"

definition member_count :: "db \<Rightarrow> string \<Rightarrow> nat" where
  "member_count d sid = length (filter (\<lambda>m. m_store_id m = sid) (memberships d))"

definition owner_count :: "db \<Rightarrow> string \<Rightarrow> nat" where
  "owner_count d sid = length (filter (\<lambda>m. m_store_id m = sid \<and> m_role m = Owner) (memberships d))"

record account_store =
  as_store_id :: string
  as_role :: role
  as_name :: "string option"
  as_invite_reachable :: bool
  as_member_count :: nat

text \<open>The join of memberships and stores, newest store first.\<close>

definition list_account_stores :: "db \<Rightarrow> string \<Rightarrow> account_store list" where
  "list_account_stores d account =
     map (\<lambda>(m, s). \<lparr>as_store_id = s_id s, as_role = m_role m, as_name = s_name s,
                     as_invite_reachable = s_invite_reachable s, as_member_count = member_count d (s_id s)\<rparr>)
       (order_desc (\<lambda>(m, s). s_created_at s)
          (concat (map (\<lambda>m. map (Pair m) (filter (\<lambda>s. s_id s = m_store_id m) (stores d)))
             (filter (\<lambda>m. m_account_id m = account) (memberships d)))))"

record member =
  mb_account_id :: string
  mb_role :: role
  mb_email :: string
  mb_joined_at :: string

definition roster :: "db \<Rightarrow> string \<Rightarrow> member list" where
  "roster d sid =
     map (\<lambda>(m, a). \<lparr>mb_account_id = m_account_id m, mb_role = m_role m, mb_email = a_email a,
                     mb_joined_at = m_joined_at m\<rparr>)
       (order_asc (\<lambda>(m, a). m_joined_at m)
          (concat (map (\<lambda>m. map (Pair m) (filter (\<lambda>a. a_id a = m_account_id m) (accounts d)))
             (filter (\<lambda>m. m_store_id m = sid) (memberships d)))))"

text \<open>\<open>ON CONFLICT DO NOTHING\<close>: an existing role is kept.\<close>

definition add_member :: "env \<Rightarrow> db \<Rightarrow> string \<Rightarrow> string \<Rightarrow> role \<Rightarrow> db sql" where
  "add_member e d sid account r =
     (if is_member d sid account then Inr d
      else insert_membership \<lparr>m_store_id = sid, m_account_id = account, m_role = r, m_joined_at = now_iso e\<rparr> d)"

datatype change = Changed | Last_owner | Not_a_member

definition remove_member :: "db \<Rightarrow> string \<Rightarrow> string \<Rightarrow> change \<times> db" where
  "remove_member d sid account =
     (case member_role d sid account of
        None \<Rightarrow> (Not_a_member, d)
      | Some r \<Rightarrow>
          if r = Owner \<and> owner_count d sid = 1 \<and> 1 < member_count d sid then (Last_owner, d)
          else (Changed, d\<lparr>memberships :=
                  delete_where (\<lambda>m. m_store_id m = sid \<and> m_account_id m = account) (memberships d)\<rparr>))"

definition set_role :: "db \<Rightarrow> string \<Rightarrow> string \<Rightarrow> role \<Rightarrow> change \<times> db" where
  "set_role d sid account r =
     (case member_role d sid account of
        None \<Rightarrow> (Not_a_member, d)
      | Some current \<Rightarrow>
          if current = Owner \<and> r = Member \<and> owner_count d sid = 1 then (Last_owner, d)
          else (Changed, d\<lparr>memberships :=
                  update_where (\<lambda>m. m_store_id m = sid \<and> m_account_id m = account)
                    (\<lambda>m. m\<lparr>m_role := r\<rparr>) (memberships d)\<rparr>))"

definition mark_invite_reachable :: "db \<Rightarrow> string \<Rightarrow> db" where
  "mark_invite_reachable d sid =
     d\<lparr>stores := update_where (\<lambda>s. s_id s = sid) (\<lambda>s. s\<lparr>s_invite_reachable := True\<rparr>) (stores d)\<rparr>"

definition rename_store :: "db \<Rightarrow> string \<Rightarrow> string option \<Rightarrow> db" where
  "rename_store d sid name =
     d\<lparr>stores := update_where (\<lambda>s. s_id s = sid) (\<lambda>s. s\<lparr>s_name := name\<rparr>) (stores d)\<rparr>"

definition delete_store :: "db \<Rightarrow> string \<Rightarrow> db sql" where
  "delete_store d sid =
     (let d1 = d\<lparr>invites := delete_where (\<lambda>i. i_store_id i = sid) (invites d)\<rparr>;
          d2 = d1\<lparr>memberships := delete_where (\<lambda>m. m_store_id m = sid) (memberships d1)\<rparr>
      in delete_store_row sid (delete_derived_stores d2 sid))"

subsection \<open>Source stores\<close>

definition source_owner :: "db \<Rightarrow> string \<Rightarrow> string \<Rightarrow> string option" where
  "source_owner d sid project =
     map_option ss_account_id
       (find (\<lambda>x. ss_store_id x = sid \<and> ss_project_id x = project) (source_stores d))"

text \<open>The upsert: a known pair gets the new label and time, a new one a row.\<close>

definition register_source_store ::
  "env \<Rightarrow> db \<Rightarrow> string \<Rightarrow> string \<Rightarrow> string \<Rightarrow> string option \<Rightarrow> (bool \<times> db) sql" where
  "register_source_store e d sid project account label =
     (case source_owner d sid project of
        Some owner \<Rightarrow>
          if owner \<noteq> account then Inr (False, d)
          else Inr (True, d\<lparr>source_stores :=
                 update_where (\<lambda>x. ss_store_id x = sid \<and> ss_project_id x = project)
                   (\<lambda>x. x\<lparr>ss_label := label, ss_updated_at := now_iso e\<rparr>) (source_stores d)\<rparr>)
      | None \<Rightarrow>
          and_then (insert_source \<lparr>ss_store_id = sid, ss_project_id = project, ss_account_id = account,
              ss_label = label, ss_registered_at = now_iso e, ss_updated_at = now_iso e\<rparr> d)
            (\<lambda>d'. Inr (True, d')))"

record source_store =
  so_project_id :: string
  so_account_id :: string
  so_email :: string
  so_label :: "string option"
  so_registered_at :: string

definition list_source_stores :: "db \<Rightarrow> string \<Rightarrow> source_store list" where
  "list_source_stores d sid =
     map (\<lambda>(x, a). \<lparr>so_project_id = ss_project_id x, so_account_id = ss_account_id x,
                     so_email = a_email a, so_label = ss_label x, so_registered_at = ss_registered_at x\<rparr>)
       (order_asc (\<lambda>(x, a). ss_registered_at x)
          (concat (map (\<lambda>x. map (Pair x) (filter (\<lambda>a. a_id a = ss_account_id x) (accounts d)))
             (filter (\<lambda>x. ss_store_id x = sid) (source_stores d)))))"

subsection \<open>The schema's invariant is kept\<close>

lemma db_ok_derived [db_intros]:
  "get_or_create_derived_store e d p k = Inr (d', r) \<Longrightarrow> db_ok d \<Longrightarrow> db_ok d'"
  by (auto simp: get_or_create_derived_store_def Let_def and_then_Inr split: option.splits
      intro: db_ok_insert_derived)

lemma db_ok_delete_derived [db_intros]: "db_ok d \<Longrightarrow> db_ok (delete_derived_stores d p)"
  by (simp add: delete_derived_stores_def db_defs)

lemma db_ok_create_store [db_intros]: "create_store e d a n = Inr (d', s) \<Longrightarrow> db_ok d \<Longrightarrow> db_ok d'"
  by (auto simp: create_store_def Let_def and_then_Inr intro: db_ok_insert_membership db_ok_insert_store)

lemma db_ok_add_member [db_intros]: "add_member e d s a r = Inr d' \<Longrightarrow> db_ok d \<Longrightarrow> db_ok d'"
  by (auto simp: add_member_def split: if_splits intro: db_ok_insert_membership)

lemma db_ok_update_members:
  assumes "\<And>m. m_store_id (f m) = m_store_id m" "\<And>m. m_account_id (f m) = m_account_id m" "db_ok d"
  shows "db_ok (d\<lparr>memberships := update_where P f (memberships d)\<rparr>)"
  using assms by (auto simp: db_defs map_update_where set_update_where)

lemma db_ok_delete_members:
  "db_ok d \<Longrightarrow> db_ok (d\<lparr>memberships := delete_where P (memberships d)\<rparr>)"
  by (simp add: db_defs)

lemma db_ok_remove_member [db_intros]: "db_ok d \<Longrightarrow> db_ok (snd (remove_member d s a))"
  by (auto simp: remove_member_def db_ok_delete_members split: option.splits)

lemma db_ok_set_role [db_intros]: "db_ok d \<Longrightarrow> db_ok (snd (set_role d s a r))"
  by (auto simp: set_role_def db_ok_update_members split: option.splits)

lemma db_ok_update_stores:
  assumes "\<And>s. s_id (f s) = s_id s" "\<And>s. s_created_by (f s) = s_created_by s" "db_ok d"
  shows "db_ok (d\<lparr>stores := update_where P f (stores d)\<rparr>)"
  using assms by (auto simp: db_defs map_update_where set_update_where image_update_where)

lemma db_ok_mark [db_intros]: "db_ok d \<Longrightarrow> db_ok (mark_invite_reachable d s)"
  unfolding mark_invite_reachable_def by (rule db_ok_update_stores) auto

lemma db_ok_rename [db_intros]: "db_ok d \<Longrightarrow> db_ok (rename_store d s n)"
  unfolding rename_store_def by (rule db_ok_update_stores) auto

lemma db_ok_delete_invites: "db_ok d \<Longrightarrow> db_ok (d\<lparr>invites := delete_where P (invites d)\<rparr>)"
  by (simp add: db_defs)

lemma db_ok_delete_store [db_intros]: "delete_store d s = Inr d' \<Longrightarrow> db_ok d \<Longrightarrow> db_ok d'"
  unfolding delete_store_def Let_def
  by (erule db_ok_delete_store_row) (intro db_ok_delete_derived db_ok_delete_members db_ok_delete_invites)

lemma db_ok_register [db_intros]:
  "register_source_store e d s p a l = Inr (b, d') \<Longrightarrow> db_ok d \<Longrightarrow> db_ok d'"
  by (auto simp: register_source_store_def and_then_Inr split: option.splits if_splits intro: db_ok_insert_source)
    (auto simp: db_defs map_update_where set_update_where)

subsection \<open>Membership as a map\<close>

lemma member_role_iff:
  assumes "db_ok d"
  shows "member_role d s a = Some r \<longleftrightarrow>
    (\<exists>m \<in> set (memberships d). m_store_id m = s \<and> m_account_id m = a \<and> m_role m = r)"
proof -
  have inj: "inj_on (\<lambda>m. (m_store_id m, m_account_id m)) (set (memberships d))"
    using assms by (simp add: db_ok_def keys_ok_def distinct_map)
  show ?thesis
  proof
    assume "member_role d s a = Some r"
    then show "\<exists>m \<in> set (memberships d). m_store_id m = s \<and> m_account_id m = a \<and> m_role m = r"
      by (auto simp: member_role_def dest: find_SomeD)
  next
    assume "\<exists>m \<in> set (memberships d). m_store_id m = s \<and> m_account_id m = a \<and> m_role m = r"
    then obtain m where m: "m \<in> set (memberships d)" "m_store_id m = s" "m_account_id m = a" "m_role m = r"
      by blast
    then obtain q where q: "find (\<lambda>m. m_store_id m = s \<and> m_account_id m = a) (memberships d) = Some q"
      by (cases "find (\<lambda>m. m_store_id m = s \<and> m_account_id m = a) (memberships d)")
        (auto simp: find_None_iff)
    then have "q \<in> set (memberships d)" "m_store_id q = s" "m_account_id q = a"
      by (auto dest: find_SomeD)
    then have "q = m" using inj m by (auto dest: inj_onD)
    then show "member_role d s a = Some r" using q m by (simp add: member_role_def)
  qed
qed

lemma member_role_None: "member_role d s a = None \<longleftrightarrow> \<not> is_member d s a"
  by (auto simp: member_role_def is_member_def find_None_iff)

text \<open>The specification: the owners' rule over the map of one workspace.\<close>

definition sole_owner :: "(string \<Rightarrow> role option) \<Rightarrow> string \<Rightarrow> bool" where
  "sole_owner m a \<longleftrightarrow> m a = Some Owner \<and> (\<forall>b. m b = Some Owner \<longrightarrow> b = a)"

definition spec_remove :: "(string \<Rightarrow> role option) \<Rightarrow> string \<Rightarrow> change \<times> (string \<Rightarrow> role option)" where
  "spec_remove m a =
     (if m a = None then (Not_a_member, m)
      else if sole_owner m a \<and> (\<exists>b. b \<noteq> a \<and> m b \<noteq> None) then (Last_owner, m)
      else (Changed, m(a := None)))"

definition spec_set_role :: "(string \<Rightarrow> role option) \<Rightarrow> string \<Rightarrow> role \<Rightarrow> change \<times> (string \<Rightarrow> role option)" where
  "spec_set_role m a r =
     (if m a = None then (Not_a_member, m)
      else if sole_owner m a \<and> r = Member then (Last_owner, m)
      else (Changed, m(a \<mapsto> r)))"

lemma length_one_iff:
  "distinct (map k xs) \<Longrightarrow> x \<in> set xs \<Longrightarrow> length xs = 1 \<longleftrightarrow> (\<forall>y \<in> set xs. k y = k x)"
  by (cases xs; cases "tl xs") auto

lemma distinct_store_members:
  assumes "db_ok d"
  shows "distinct (map m_account_id (filter (\<lambda>m. m_store_id m = s \<and> P m) (memberships d)))"
proof -
  have "inj_on m_account_id (set (filter (\<lambda>m. m_store_id m = s \<and> P m) (memberships d)))"
    using assms by (auto simp: db_ok_def keys_ok_def distinct_map inj_on_def)
  moreover have "distinct (memberships d)"
    using assms by (auto simp: db_ok_def keys_ok_def distinct_map)
  ultimately show ?thesis by (simp add: distinct_map)
qed

lemma owner_count_one:
  assumes "db_ok d" "member_role d s a = Some Owner"
  shows "owner_count d s = 1 \<longleftrightarrow> sole_owner (member_role d s) a"
proof -
  let ?F = "filter (\<lambda>m. m_store_id m = s \<and> m_role m = Owner) (memberships d)"
  obtain m where m: "m \<in> set ?F" "m_account_id m = a"
    using assms member_role_iff [OF assms(1)] by auto
  have "owner_count d s = 1 \<longleftrightarrow> (\<forall>y \<in> set ?F. m_account_id y = a)"
    unfolding owner_count_def using length_one_iff [OF distinct_store_members [OF assms(1)] m(1)] m(2) by simp
  also have "\<dots> \<longleftrightarrow> sole_owner (member_role d s) a"
    using assms(2) by (auto simp: sole_owner_def member_role_iff [OF assms(1)])
  finally show ?thesis .
qed

lemma member_count_many:
  assumes "db_ok d" "member_role d s a = Some r"
  shows "1 < member_count d s \<longleftrightarrow> (\<exists>b. b \<noteq> a \<and> member_role d s b \<noteq> None)"
proof -
  let ?F = "filter (\<lambda>m. m_store_id m = s \<and> True) (memberships d)"
  obtain m where m: "m \<in> set ?F" "m_account_id m = a"
    using assms member_role_iff [OF assms(1)] by auto
  have "member_count d s = 1 \<longleftrightarrow> (\<forall>y \<in> set ?F. m_account_id y = a)"
    unfolding member_count_def using length_one_iff [OF distinct_store_members [OF assms(1)] m(1)] m(2) by simp
  moreover have "member_count d s \<noteq> 0"
    using m by (auto simp: member_count_def filter_empty_conv)
  ultimately have "1 < member_count d s \<longleftrightarrow> (\<exists>y \<in> set ?F. m_account_id y \<noteq> a)" by fastforce
  also have "\<dots> \<longleftrightarrow> (\<exists>b. b \<noteq> a \<and> member_role d s b \<noteq> None)"
    by (auto simp: member_role_iff [OF assms(1)])
  finally show ?thesis .
qed

lemma member_role_delete:
  "member_role (d\<lparr>memberships := delete_where (\<lambda>m. m_store_id m = s \<and> m_account_id m = a) (memberships d)\<rparr>) s' b =
     (if s' = s \<and> b = a then None else member_role d s' b)"
proof -
  have "map_option m_role (find (\<lambda>m. m_store_id m = s' \<and> m_account_id m = b)
      (delete_where (\<lambda>m. m_store_id m = s \<and> m_account_id m = a) rows)) =
    (if s' = s \<and> b = a then None
     else map_option m_role (find (\<lambda>m. m_store_id m = s' \<and> m_account_id m = b) rows))" for rows
    by (induction rows) (auto simp: delete_where_def)
  from this [of "memberships d"] show ?thesis by (simp add: member_role_def)
qed

lemma member_role_update:
  "member_role (d\<lparr>memberships := update_where (\<lambda>m. m_store_id m = s \<and> m_account_id m = a) (\<lambda>m. m\<lparr>m_role := r\<rparr>) (memberships d)\<rparr>) s' b =
     (if s' = s \<and> b = a \<and> member_role d s a \<noteq> None then Some r else member_role d s' b)"
proof -
  have "map_option m_role (find (\<lambda>m. m_store_id m = s' \<and> m_account_id m = b)
      (update_where (\<lambda>m. m_store_id m = s \<and> m_account_id m = a) (\<lambda>m. m\<lparr>m_role := r\<rparr>) rows)) =
    (if s' = s \<and> b = a \<and> find (\<lambda>m. m_store_id m = s \<and> m_account_id m = a) rows \<noteq> None then Some r
     else map_option m_role (find (\<lambda>m. m_store_id m = s' \<and> m_account_id m = b) rows))" for rows
    by (induction rows) (auto simp: update_where_def)
  from this [of "memberships d"] show ?thesis by (simp add: member_role_def)
qed

lemma membership_refines_all:
  assumes "db_ok d"
  shows "(fst (remove_member d s a), member_role (snd (remove_member d s a)) s) = spec_remove (member_role d s) a \<and>
    (fst (set_role d s a r), member_role (snd (set_role d s a r)) s) = spec_set_role (member_role d s) a r \<and>
    (\<forall>s'. s' \<noteq> s \<longrightarrow> member_role (snd (remove_member d s a)) s' = member_role d s' \<and>
       member_role (snd (set_role d s a r)) s' = member_role d s')"
proof (cases "member_role d s a")
  case None
  then show ?thesis by (simp add: remove_member_def set_role_def spec_remove_def spec_set_role_def)
next
  case (Some q)
  have own: "q = Owner \<and> owner_count d s = 1 \<longleftrightarrow> sole_owner (member_role d s) a"
    using owner_count_one [OF assms] Some by (cases q) (auto simp: sole_owner_def)
  note many = member_count_many [OF assms Some]
  have "(fst (remove_member d s a), member_role (snd (remove_member d s a)) s) = spec_remove (member_role d s) a"
    using own many Some by (auto simp: remove_member_def spec_remove_def member_role_delete fun_eq_iff)
  moreover have "(fst (set_role d s a r), member_role (snd (set_role d s a r)) s) = spec_set_role (member_role d s) a r"
    using own Some by (auto simp: set_role_def spec_set_role_def member_role_update fun_eq_iff)
  moreover have "member_role (snd (remove_member d s a)) s' = member_role d s'"
    "member_role (snd (set_role d s a r)) s' = member_role d s'" if "s' \<noteq> s" for s'
    using that Some by (auto simp: remove_member_def set_role_def member_role_delete member_role_update fun_eq_iff)
  ultimately show ?thesis by blast
qed

lemmas membership_refines_aux =
  membership_refines_all [THEN conjunct1]
  membership_refines_all [THEN conjunct2, THEN conjunct1]
  membership_refines_all [THEN conjunct2, THEN conjunct2, rule_format]

text \<open>
  C7. Removing a member and changing a role implement the specification over the map of the
  workspace's members, answer and refusal included, and leave every other workspace alone.
\<close>

theorem membership_refines:
  assumes "db_ok d"
  shows "(fst (remove_member d s a), member_role (snd (remove_member d s a)) s) = spec_remove (member_role d s) a \<and>
    (fst (set_role d s a r), member_role (snd (set_role d s a r)) s) = spec_set_role (member_role d s) a r \<and>
    (\<forall>s'. s' \<noteq> s \<longrightarrow> member_role (snd (remove_member d s a)) s' = member_role d s' \<and>
       member_role (snd (set_role d s a r)) s' = member_role d s')"
  by (rule membership_refines_all [OF assms])

text \<open>
  Registering a source store: the first account to register a pair owns it for good; a
  registration by another account is refused and changes nothing; no registration touches the
  owner of another pair.
\<close>

lemma source_first_registration_wins:
  assumes "register_source_store e d sid project account label = Inr (ok, d')"
  shows "(ok \<longleftrightarrow> source_owner d sid project \<in> {None, Some account}) \<and>
    source_owner d' sid project = (if source_owner d sid project = None then Some account else source_owner d sid project) \<and>
    (\<forall>s p. (s, p) \<noteq> (sid, project) \<longrightarrow> source_owner d' s p = source_owner d s p) \<and>
    (\<not> ok \<longrightarrow> d' = d)"
proof (cases "source_owner d sid project")
  case None
  then have d': "ok" "source_stores d' = source_stores d @ [\<lparr>ss_store_id = sid, ss_project_id = project,
      ss_account_id = account, ss_label = label, ss_registered_at = now_iso e, ss_updated_at = now_iso e\<rparr>]"
    using assms by (auto simp: register_source_store_def and_then_Inr insert_source_def split: if_splits)
  with None show ?thesis by (auto simp: source_owner_def find_append split: option.splits)
next
  case (Some owner)
  have upd: "map_option ss_account_id (find Q (update_where P
      (\<lambda>x. x\<lparr>ss_label := label, ss_updated_at := now_iso e\<rparr>) rows)) = map_option ss_account_id (find Q rows)"
    if "Q = (\<lambda>x. ss_store_id x = s \<and> ss_project_id x = p)" for P Q s p and rows :: "source_row list"
    unfolding that by (induction rows) (auto simp: update_where_def)
  show ?thesis
  proof (cases "owner = account")
    case True
    then have "ok" "d' = d\<lparr>source_stores :=
        update_where (\<lambda>x. ss_store_id x = sid \<and> ss_project_id x = project)
          (\<lambda>x. x\<lparr>ss_label := label, ss_updated_at := now_iso e\<rparr>) (source_stores d)\<rparr>"
      using assms Some by (auto simp: register_source_store_def)
    then have "source_owner d' s p = source_owner d s p" for s p
      by (simp add: source_owner_def upd)
    then show ?thesis using Some True \<open>ok\<close> by simp
  next
    case False
    then show ?thesis using assms Some by (auto simp: register_source_store_def)
  qed
qed

lemma member_role_delete_all:
  assumes "memberships d' = delete_where (\<lambda>m. m_store_id m = sid) (memberships d)"
  shows "member_role d' s a = (if s = sid then None else member_role d s a)"
proof -
  have "map_option m_role (find (\<lambda>m. m_store_id m = s \<and> m_account_id m = a)
      (delete_where (\<lambda>m. m_store_id m = sid) rows)) =
    (if s = sid then None else map_option m_role (find (\<lambda>m. m_store_id m = s \<and> m_account_id m = a) rows))"
    for rows
    by (induction rows) (auto simp: delete_where_def)
  from this [of "memberships d"] show ?thesis by (simp add: member_role_def assms)
qed

lemma no_deleted: "\<not> list_ex (\<lambda>x. P x) (delete_where P rows)"
  by (simp add: list_ex_iff)

text \<open>
  Deleting a workspace fails exactly when a source store is registered in it, whatever the
  caller's role; otherwise nothing of the workspace is left: no row, member, invite or sidecar.
\<close>

lemma delete_store_blocked_by_source_stores:
  assumes "db_ok d"
  shows "(delete_store d sid = Inl (Foreign_key_violation ''stores'') \<longleftrightarrow>
       has_store d sid \<and> (\<exists>x \<in> set (source_stores d). ss_store_id x = sid)) \<and>
    (\<forall>d'. delete_store d sid = Inr d' \<longrightarrow>
       \<not> has_store d' sid \<and> member_role d' sid = (\<lambda>_. None) \<and>
       (\<forall>i \<in> set (invites d'). i_store_id i \<noteq> sid) \<and> (\<forall>r \<in> set (derived_stores d'). dr_parent r \<noteq> sid) \<and>
       (\<forall>s. s \<noteq> sid \<longrightarrow> member_role d' s = member_role d s \<and> has_store d' s = has_store d s))"
proof -
  have refused: "delete_store d sid = Inl (Foreign_key_violation ''stores'') \<longleftrightarrow>
      has_store d sid \<and> (\<exists>x \<in> set (source_stores d). ss_store_id x = sid)"
    by (simp add: delete_store_def delete_store_row_def Let_def delete_derived_stores_def
        store_referenced_def no_deleted has_store_def list_ex_iff)
  have "\<not> has_store d' sid \<and> member_role d' sid = (\<lambda>_. None) \<and>
       (\<forall>i \<in> set (invites d'). i_store_id i \<noteq> sid) \<and> (\<forall>r \<in> set (derived_stores d'). dr_parent r \<noteq> sid) \<and>
       (\<forall>s. s \<noteq> sid \<longrightarrow> member_role d' s = member_role d s \<and> has_store d' s = has_store d s)"
    if "delete_store d sid = Inr d'" for d'
  proof -
    have d': "memberships d' = delete_where (\<lambda>m. m_store_id m = sid) (memberships d)"
      "invites d' = delete_where (\<lambda>i. i_store_id i = sid) (invites d)"
      "stores d' = delete_where (\<lambda>s. s_id s = sid) (stores d)"
      "derived_stores d' = delete_where (\<lambda>r. dr_parent r = sid) (derived_stores d)"
      using that by (auto simp: delete_store_def delete_store_row_def Let_def delete_derived_stores_def
          split: if_splits)
    have "has_store d' s \<longleftrightarrow> has_store d s \<and> s \<noteq> sid" for s by (auto simp: has_store_def d'(3))
    then show ?thesis using member_role_delete_all [OF d'(1)] by (simp add: d'(2,4) fun_eq_iff)
  qed
  with refused show ?thesis by blast
qed

end
