(* ===== verification/Gateway_Invites.thy ===== *)
theory Gateway_Invites
  imports Gateway_Stores
begin

text \<open>
  \<open>packages/gateway/src/invites.ts\<close>: minting, listing, revoking and redeeming join tokens.
\<close>

record minted_invite =
  mi_invite_id :: string
  mi_token :: string
  mi_role :: role
  mi_max_uses :: "int option"
  mi_expires_at :: "string option"

definition mint_invite ::
  "env \<Rightarrow> db \<Rightarrow> string \<Rightarrow> string \<Rightarrow> int option \<Rightarrow> string option \<Rightarrow> (db \<times> minted_invite) sql" where
  "mint_invite e d sid created_by max_uses expires_at =
     (let (plaintext, hash) = generate_invite_token e (random e 0 24);
          iid = new_id Inv (random e 1 9);
          row = \<lparr>i_id = iid, i_store_id = sid, i_hash = hash, i_role = Member, i_max_uses = max_uses,
                 i_used_count = 0, i_expires_at = expires_at, i_revoked_at = None,
                 i_created_by = created_by, i_created_at = now_iso e\<rparr>
      in and_then (insert_invite row d)
           (\<lambda>d'. Inr (mark_invite_reachable d' sid,
              \<lparr>mi_invite_id = iid, mi_token = plaintext, mi_role = Member, mi_max_uses = max_uses,
               mi_expires_at = expires_at\<rparr>)))"

definition list_invites :: "db \<Rightarrow> string \<Rightarrow> invite_row list" where
  "list_invites d sid = order_desc i_created_at (filter (\<lambda>i. i_store_id i = sid) (invites d))"

definition revoke_invite :: "env \<Rightarrow> db \<Rightarrow> string \<Rightarrow> string \<Rightarrow> bool \<times> db" where
  "revoke_invite e d sid iid =
     (case find (\<lambda>i. i_id i = iid \<and> i_store_id i = sid) (invites d) of
        None \<Rightarrow> (False, d)
      | Some _ \<Rightarrow>
          (True, d\<lparr>invites := update_where (\<lambda>i. i_id i = iid \<and> i_revoked_at i = None)
             (\<lambda>i. i\<lparr>i_revoked_at := Some (now_iso e)\<rparr>) (invites d)\<rparr>))"

datatype redeem_result = Redeemed string role bool | Rejected

text \<open>An unparsable expiry is \<open>NaN\<close>, and no comparison with it holds.\<close>

definition expired :: "env \<Rightarrow> invite_row \<Rightarrow> bool" where
  "expired e i \<longleftrightarrow>
     (case i_expires_at i of
        None \<Rightarrow> False
      | Some t \<Rightarrow> t \<noteq> [] \<and> (case date_parse (date_other e) t of None \<Rightarrow> False | Some ms \<Rightarrow> ms \<le> int (now e)))"

definition exhausted :: "invite_row \<Rightarrow> bool" where
  "exhausted i \<longleftrightarrow> (case i_max_uses i of None \<Rightarrow> False | Some n \<Rightarrow> n \<le> i_used_count i)"

definition redeem_invite :: "env \<Rightarrow> db \<Rightarrow> string \<Rightarrow> string \<Rightarrow> (redeem_result \<times> db) sql" where
  "redeem_invite e d token account =
     (case find (\<lambda>i. i_hash i = hash_secret e token) (invites d) of
        None \<Rightarrow> Inr (Rejected, d)
      | Some row \<Rightarrow>
          if truthy (i_revoked_at row) then Inr (Rejected, d)
          else if expired e row then Inr (Rejected, d)
          else if exhausted row then Inr (Rejected, d)
          else (case member_role d (i_store_id row) account of
              Some r \<Rightarrow> Inr (Redeemed (i_store_id row) r True, d)
            | None \<Rightarrow>
                and_then (add_member e d (i_store_id row) account Member)
                  (\<lambda>d'. Inr (Redeemed (i_store_id row) Member False,
                     d'\<lparr>invites := update_where (\<lambda>i. i_id i = i_id row)
                         (\<lambda>i. i\<lparr>i_used_count := i_used_count i + 1\<rparr>) (invites d')\<rparr>))))"

subsection \<open>Facts\<close>

lemma db_ok_update_invites:
  assumes "\<And>i. i_id (f i) = i_id i" "\<And>i. i_hash (f i) = i_hash i" "\<And>i. i_store_id (f i) = i_store_id i"
    "\<And>i. i_created_by (f i) = i_created_by i" "db_ok d"
  shows "db_ok (d\<lparr>invites := update_where P f (invites d)\<rparr>)"
  using assms by (auto simp: db_defs map_update_where set_update_where)

lemma db_ok_mint [db_intros]: "mint_invite e d s a m x = Inr (d', i) \<Longrightarrow> db_ok d \<Longrightarrow> db_ok d'"
  by (auto simp: mint_invite_def Let_def and_then_Inr split: prod.splits
      intro: db_ok_mark db_ok_insert_invite)

lemma db_ok_revoke_invite [db_intros]: "db_ok d \<Longrightarrow> db_ok (snd (revoke_invite e d s i))"
  by (auto simp: revoke_invite_def split: option.splits intro: db_ok_update_invites)

lemma db_ok_redeem [db_intros]: "redeem_invite e d t a = Inr (r, d') \<Longrightarrow> db_ok d \<Longrightarrow> db_ok d'"
  by (auto simp: redeem_invite_def and_then_Inr split: option.splits if_splits
      intro!: db_ok_update_invites intro: db_ok_add_member)

text \<open>Every invite has been used at most as often as it allows.\<close>

definition uses_ok :: "db \<Rightarrow> bool" where
  "uses_ok d \<longleftrightarrow> (\<forall>i \<in> set (invites d). 0 \<le> i_used_count i \<and>
     (\<forall>n. i_max_uses i = Some n \<longrightarrow> 0 < n \<and> i_used_count i \<le> n))"

lemma invite_of_hash:
  "db_ok d \<Longrightarrow> i \<in> set (invites d) \<Longrightarrow> i_hash i = h \<Longrightarrow> find (\<lambda>x. i_hash x = h) (invites d) = Some i"
proof -
  assume "db_ok d" and i: "i \<in> set (invites d)" "i_hash i = h"
  then have inj: "inj_on i_hash (set (invites d))" by (simp add: db_ok_def keys_ok_def distinct_map)
  obtain x where x: "find (\<lambda>x. i_hash x = h) (invites d) = Some x"
    using i by (cases "find (\<lambda>x. i_hash x = h) (invites d)") (auto simp: find_None_iff)
  then have "x = i" using inj i find_SomeD [OF x] by (auto dest: inj_onD)
  with x show ?thesis by simp
qed

lemma add_member_new:
  assumes "add_member e d s a r = Inr d'" "member_role d s a = None"
  shows "d' = d\<lparr>memberships := memberships d @ [\<lparr>m_store_id = s, m_account_id = a, m_role = r, m_joined_at = now_iso e\<rparr>]\<rparr>"
    "member_role d' s = (member_role d s)(a \<mapsto> r)" "\<And>s'. s' \<noteq> s \<Longrightarrow> member_role d' s' = member_role d s'"
proof -
  show d': "d' = d\<lparr>memberships := memberships d @ [\<lparr>m_store_id = s, m_account_id = a, m_role = r, m_joined_at = now_iso e\<rparr>]\<rparr>"
    using assms by (auto simp: add_member_def member_role_None insert_membership_def split: if_splits)
  show "member_role d' s = (member_role d s)(a \<mapsto> r)" "\<And>s'. s' \<noteq> s \<Longrightarrow> member_role d' s' = member_role d s'"
    using assms(2) by (auto simp: d' member_role_def find_append fun_eq_iff split: option.splits)
qed

lemma redeem_cases:
  assumes "redeem_invite e d token a = Inr (res, d')"
  obtains (rejected) "res = Rejected" "d' = d"
    "case find (\<lambda>i. i_hash i = hash_secret e token) (invites d) of None \<Rightarrow> True
       | Some i \<Rightarrow> truthy (i_revoked_at i) \<or> expired e i \<or> exhausted i"
  | (already) i r where "find (\<lambda>i. i_hash i = hash_secret e token) (invites d) = Some i"
    "res = Redeemed (i_store_id i) r True" "d' = d" "member_role d (i_store_id i) a = Some r"
  | (joined) i d1 where "find (\<lambda>i. i_hash i = hash_secret e token) (invites d) = Some i"
    "\<not> truthy (i_revoked_at i)" "\<not> expired e i" "\<not> exhausted i"
    "res = Redeemed (i_store_id i) Member False" "member_role d (i_store_id i) a = None"
    "add_member e d (i_store_id i) a Member = Inr d1"
    "d' = d1\<lparr>invites := update_where (\<lambda>x. i_id x = i_id i) (\<lambda>x. x\<lparr>i_used_count := i_used_count x + 1\<rparr>) (invites d1)\<rparr>"
  using assms by (auto simp: redeem_invite_def and_then_Inr split: option.splits if_splits)

lemma uses_ok_redeem:
  assumes "redeem_invite e d token a = Inr (res, d')" "db_ok d" "uses_ok d"
  shows "uses_ok d'"
  using assms(1)
proof (cases rule: redeem_cases)
  case (joined i d1)
  have i: "i \<in> set (invites d)" using find_SomeD [OF joined(1)] by blast
  have inv: "invites d1 = invites d" using add_member_new(1) [OF joined(7,6)] by simp
  have inj: "inj_on i_id (set (invites d))" using assms(2) by (simp add: db_ok_def keys_ok_def distinct_map)
  have lt: "i_used_count x < n" if "x \<in> set (invites d)" "i_id x = i_id i" "i_max_uses x = Some n" for x n
  proof -
    have "x = i" using inj that(2,1) i by (rule inj_onD)
    then show ?thesis using joined(4) that(3) by (simp add: exhausted_def)
  qed
  have "0 \<le> i_used_count y \<and> (\<forall>n. i_max_uses y = Some n \<longrightarrow> 0 < n \<and> i_used_count y \<le> n)"
    if "x \<in> set (invites d)" "y = (if i_id x = i_id i then x\<lparr>i_used_count := i_used_count x + 1\<rparr> else x)" for x y
  proof -
    have u: "0 \<le> i_used_count x" "\<And>n. i_max_uses x = Some n \<Longrightarrow> 0 < n \<and> i_used_count x \<le> n"
      using assms(3) that(1) by (auto simp: uses_ok_def)
    show ?thesis
    proof (cases "i_id x = i_id i")
      case True
      then have "y = x\<lparr>i_used_count := i_used_count x + 1\<rparr>" using that(2) by simp
      then show ?thesis using u lt [OF that(1) True] by fastforce
    next
      case False
      then show ?thesis using u that(2) by simp
    qed
  qed
  then show ?thesis unfolding uses_ok_def joined(8) inv by (auto simp: set_update_where)
qed (use assms in auto)

lemma uses_ok_mint:
  "mint_invite e d s a m x = Inr (d', i) \<Longrightarrow> uses_ok d \<Longrightarrow> (\<forall>n. m = Some n \<longrightarrow> 0 < n) \<Longrightarrow> uses_ok d'"
  by (auto simp: mint_invite_def Let_def and_then_Inr insert_invite_def mark_invite_reachable_def uses_ok_def
      split: prod.splits if_splits)

text \<open>
  C30. Redeeming a token: it is rejected exactly when no live invite has it; a member is told so
  and no use is counted; anybody else becomes a plain member of the invite's workspace and of no
  other, and exactly one use of exactly that invite is counted.
\<close>

theorem redeem_joins:
  assumes "db_ok d" "redeem_invite e d token a = Inr (res, d')"
  shows "case find (\<lambda>i. i_hash i = hash_secret e token) (invites d) of
      None \<Rightarrow> res = Rejected \<and> d' = d
    | Some i \<Rightarrow>
        if truthy (i_revoked_at i) \<or> expired e i \<or> exhausted i then res = Rejected \<and> d' = d
        else case member_role d (i_store_id i) a of
            Some r \<Rightarrow> res = Redeemed (i_store_id i) r True \<and> d' = d
          | None \<Rightarrow> res = Redeemed (i_store_id i) Member False \<and>
              member_role d' (i_store_id i) = (member_role d (i_store_id i))(a \<mapsto> Member) \<and>
              (\<forall>s. s \<noteq> i_store_id i \<longrightarrow> member_role d' s = member_role d s) \<and>
              (\<forall>x \<in> set (invites d). x\<lparr>i_used_count := i_used_count x + (if x = i then 1 else 0)\<rparr> \<in> set (invites d')) \<and>
              length (invites d') = length (invites d) \<and> stores d' = stores d \<and> accounts d' = accounts d"
proof (cases "find (\<lambda>i. i_hash i = hash_secret e token) (invites d)")
  case None
  then show ?thesis using assms(2) by (simp add: redeem_invite_def)
next
  case (Some i)
  show ?thesis
  proof (cases "truthy (i_revoked_at i) \<or> expired e i \<or> exhausted i")
    case True
    then show ?thesis using assms(2) Some by (auto simp: redeem_invite_def split: if_splits)
  next
    case live: False
    show ?thesis
    proof (cases "member_role d (i_store_id i) a")
      case (Some r)
      then show ?thesis using assms(2) \<open>find _ _ = Some i\<close> live by (simp add: redeem_invite_def)
    next
      case None
      then obtain d1 where d1: "add_member e d (i_store_id i) a Member = Inr d1"
        and res: "res = Redeemed (i_store_id i) Member False"
        and d': "d' = d1\<lparr>invites := update_where (\<lambda>x. i_id x = i_id i) (\<lambda>x. x\<lparr>i_used_count := i_used_count x + 1\<rparr>) (invites d1)\<rparr>"
        using assms(2) Some live by (auto simp: redeem_invite_def and_then_Inr)
      note am = add_member_new [OF d1 None]
      have same: "member_role d' = member_role d1" by (simp add: d' member_role_def fun_eq_iff)
      have i: "i \<in> set (invites d)" using find_SomeD [OF Some] by blast
      have inj: "inj_on i_id (set (invites d))" using assms(1) by (simp add: db_ok_def keys_ok_def distinct_map)
      have inv: "invites d' = update_where (\<lambda>x. i_id x = i_id i) (\<lambda>x. x\<lparr>i_used_count := i_used_count x + 1\<rparr>) (invites d)"
        by (simp add: d' am(1))
      have "x\<lparr>i_used_count := i_used_count x + (if x = i then 1 else 0)\<rparr> \<in> set (invites d')"
        if x: "x \<in> set (invites d)" for x
      proof -
        have "i_id x = i_id i \<longleftrightarrow> x = i" using inj i x by (auto dest: inj_onD)
        then show ?thesis unfolding inv set_update_where using x by (intro bexI [of _ x]) auto
      qed
      moreover have "length (invites d') = length (invites d)" by (simp add: inv update_where_def)
      moreover have "stores d' = stores d" "accounts d' = accounts d" by (simp_all add: d' am(1))
      ultimately show ?thesis using Some live None res am(2,3) by (simp add: same)
    qed
  qed
qed

text \<open>
  Revoking an invite ends it: whoever presents its token later, at whatever time, is
  rejected and nothing changes; no other token is affected.
\<close>

lemma invite_revocation_final:
  assumes "db_ok d" "revoke_invite e d sid iid = (True, d')"
    and "i \<in> set (invites d)" "i_id i = iid" "hash_secret e2 token = i_hash i" "i_revoked_at i \<noteq> Some []"
  shows "redeem_invite e2 d' token a = Inr (Rejected, d') \<and>
    (\<forall>x \<in> set (invites d). i_id x \<noteq> iid \<longrightarrow> x \<in> set (invites d'))"
proof -
  have d': "invites d' = update_where (\<lambda>i. i_id i = iid \<and> i_revoked_at i = None)
      (\<lambda>i. i\<lparr>i_revoked_at := Some (now_iso e)\<rparr>) (invites d)"
    using assms(2) by (auto simp: revoke_invite_def split: option.splits)
  let ?j = "if i_revoked_at i = None then i\<lparr>i_revoked_at := Some (now_iso e)\<rparr> else i"
  have ok: "db_ok d'" using db_ok_revoke_invite [OF assms(1)] assms(2) by (metis snd_conv)
  have "?j \<in> set (invites d')" unfolding d' set_update_where using assms(3,4) by (intro bexI [of _ i]) auto
  moreover have "i_hash ?j = hash_secret e2 token" using assms(5) by simp
  ultimately have f: "find (\<lambda>x. i_hash x = hash_secret e2 token) (invites d') = Some ?j"
    by (intro invite_of_hash ok)
  show ?thesis
  proof (cases "truthy (i_revoked_at ?j)")
    case True
    have "\<forall>x \<in> set (invites d). i_id x \<noteq> iid \<longrightarrow> x \<in> set (invites d')"
      unfolding d' set_update_where by auto
    with f True show ?thesis by (simp add: redeem_invite_def)
  next
    case False
    then show ?thesis using assms(6) by (auto simp: truthy_def split: if_splits)
  qed
qed

end
