(* ===== verification/Gateway_Session.thy ===== *)
theory Gateway_Session
  imports Gateway_Invites Utf8
begin

text \<open>
  \<open>packages/gateway/src/config.ts\<close>, \<open>http.ts\<close> and \<open>session.ts\<close>: the configuration, the
  bearer token and body helpers, and the signed cookies. The keyed hash of \<open>node:crypto\<close> is the
  environment's \<open>hmac\<close>; nothing is assumed of it but that it is a function into bytes.
\<close>

subsection \<open>Configuration\<close>

record gateway_config =
  gc_port :: nat
  gc_db_file :: string
  gc_relay_url :: string
  gc_replica_url :: string
  gc_relay_token :: "string option"
  gc_public_url :: "string option"
  gc_google_client_id :: "string option"
  gc_google_client_secret :: "string option"
  gc_admin_emails :: "string list"
  gc_session_secret :: "string option"

definition session_login_enabled :: "gateway_config \<Rightarrow> bool" where
  "session_login_enabled c \<longleftrightarrow> truthy (gc_google_client_id c) \<and> truthy (gc_google_client_secret c) \<and>
     truthy (gc_public_url c) \<and> truthy (gc_session_secret c)"

definition admin_enabled :: "gateway_config \<Rightarrow> bool" where
  "admin_enabled c \<longleftrightarrow> session_login_enabled c \<and> gc_admin_emails c \<noteq> []"

text \<open>\<open>raw || fallback\<close>, \<open>raw || undefined\<close> and \<open>replace(/\/+$/, '')\<close>.\<close>

definition or_else :: "string option \<Rightarrow> string \<Rightarrow> string" where
  "or_else raw fallback = (if truthy raw then the raw else fallback)"

definition or_undefined :: "string option \<Rightarrow> string option" where
  "or_undefined raw = (if truthy raw then raw else None)"

definition strip_slashes :: "string \<Rightarrow> string" where
  "strip_slashes s = rev (dropWhile (\<lambda>c. c = CHR ''/'') (rev s))"

definition lower_char :: "char \<Rightarrow> char" where
  "lower_char c =
     (let n = char_code c
      in if (65 \<le> n \<and> n \<le> 90) \<or> (192 \<le> n \<and> n \<le> 222 \<and> n \<noteq> 215) then char_of (n + 32) else c)"

definition to_lower :: "string \<Rightarrow> string" where
  "to_lower s = map lower_char s"

definition gateway_positive_int :: "string option \<Rightarrow> nat \<Rightarrow> nat option" where
  "gateway_positive_int raw fallback =
     (case raw of
        None \<Rightarrow> Some fallback
      | Some r \<Rightarrow>
          if r = [] then Some fallback
          else if list_all is_digit r \<and> 0 < digits_val r then Some (digits_val r) else None)"

definition load_gateway_config :: "(string \<Rightarrow> string option) \<Rightarrow> gateway_config option" where
  "load_gateway_config env =
     map_option (\<lambda>p.
       \<lparr>gc_port = p,
        gc_db_file = or_else (env ''GATEWAY_DB'') ''./gateway.db'',
        gc_relay_url = strip_slashes (or_else (env ''RELAY_URL'') ''http://127.0.0.1:8787''),
        gc_replica_url = strip_slashes (or_else (env ''REPLICA_URL'') ''http://127.0.0.1:8790''),
        gc_relay_token = or_undefined (env ''RELAY_INTERNAL_TOKEN''),
        gc_public_url = (if truthy (env ''GATEWAY_PUBLIC_URL'')
                         then Some (strip_slashes (the (env ''GATEWAY_PUBLIC_URL''))) else None),
        gc_google_client_id = or_undefined (env ''GOOGLE_CLIENT_ID''),
        gc_google_client_secret = or_undefined (env ''GOOGLE_CLIENT_SECRET''),
        gc_admin_emails = filter (\<lambda>s. s \<noteq> [])
          (map (\<lambda>s. to_lower (js_trim s)) (js_split (CHR '','') (or_else (env ''GATEWAY_ADMIN_EMAILS'') []))),
        gc_session_secret = or_undefined (env ''GATEWAY_SESSION_SECRET'')\<rparr>)
       (gateway_positive_int (env ''GATEWAY_PORT'') 8080)"

subsection \<open>Request helpers\<close>

definition bearer_token :: "request \<Rightarrow> string option" where
  "bearer_token req =
     (case auth_header req of
        None \<Rightarrow> None
      | Some h \<Rightarrow>
          if \<not> starts_with h ''Bearer '' then None
          else (let token = js_trim (drop (length ''Bearer '') h)
                in if token = [] then None else Some token))"

text \<open>\<open>readBody\<close> of the gateway: \<open>None\<close> is the 413.\<close>

definition read_body :: "request \<Rightarrow> nat \<Rightarrow> string option" where
  "read_body req max_bytes = read_chunks max_bytes 0 (chunks req)"

text \<open>
  The three \<open>readJson\<close> helpers differ in their size cap. An empty body is the empty object; a
  body that is no JSON is an error; a JSON value that is not an object or an array is the empty
  object. An array has none of the members the handlers look up, so it is the empty object too.
\<close>

datatype body_result = Body json | Too_large | Bad_json

definition read_json :: "request \<Rightarrow> nat \<Rightarrow> body_result" where
  "read_json req cap =
     (case read_body req cap of
        None \<Rightarrow> Too_large
      | Some buf \<Rightarrow>
          if buf = [] then Body (JObj [])
          else (case json_parse buf of
              None \<Rightarrow> Bad_json
            | Some v \<Rightarrow> Body (if is_obj v then v else JObj [])))"

subsection \<open>UTF-8\<close>

lemma byte_list_utf8: "byte_list (utf8 s)"
proof -
  have "192 + char_code c div 64 < 256" "128 + char_code c mod 64 < 256" for c
  proof -
    have "char_code c div 64 < 4" using char_code_less [of c] by linarith
    then show "192 + char_code c div 64 < 256" by linarith
    have "char_code c mod 64 < 64" by simp
    then show "128 + char_code c mod 64 < 256" by linarith
  qed
  then show ?thesis
    by (induction s) (auto simp: byte_list_def utf8_def utf8_char_def Let_def)
qed

interpretation text_bytes: codec utf8 from_utf8 "\<lambda>s. True"
  by unfold_locales (rule from_utf8_utf8)

text \<open>A text as base64url: the payload of a signed value, and a cursor.\<close>

interpretation url_text: codec_chain utf8 from_utf8 "\<lambda>s. True" base64url from_base64url byte_list
  by unfold_locales (rule byte_list_utf8)

interpretation payload_json: codec_chain stringify json_parse wf_json
    "\<lambda>s. base64url (utf8 s)" "\<lambda>t. Option.bind (from_base64url t) from_utf8" "\<lambda>s. True"
  by unfold_locales (simp_all add: parse_stringify)

subsection \<open>Signed values\<close>

definition sign_payload :: "env \<Rightarrow> string \<Rightarrow> string \<Rightarrow> string" where
  "sign_payload e payload secret = base64url (hmac e secret payload)"

definition sign_value :: "env \<Rightarrow> json \<Rightarrow> string \<Rightarrow> string" where
  "sign_value e v secret =
     (let payload = base64url (utf8 (stringify v)) in payload @ ''.'' @ sign_payload e payload secret)"

text \<open>Splitting at the last dot.\<close>

definition split_last_dot :: "string \<Rightarrow> (string \<times> string) option" where
  "split_last_dot s =
     (if CHR ''.'' \<in> set s
      then let mac = rev (takeWhile (\<lambda>c. c \<noteq> CHR ''.'') (rev s))
           in Some (take (length s - length mac - 1) s, mac)
      else None)"

text \<open>
  An expiry that is a fraction is refused here; the code writes whole milliseconds only. The
  JSON value \<open>null\<close> makes the code's \<open>value.exp\<close> throw into its \<open>catch\<close>.
\<close>

definition verify_value :: "env \<Rightarrow> string option \<Rightarrow> string \<Rightarrow> json option" where
  "verify_value e token secret =
     (case token of
        None \<Rightarrow> None
      | Some t \<Rightarrow>
          (case split_last_dot t of
             None \<Rightarrow> None
           | Some (payload, mac) \<Rightarrow>
               if mac \<noteq> sign_payload e payload secret then None
               else (case Option.bind (Option.bind (from_base64url payload) from_utf8) json_parse of
                   None \<Rightarrow> None
                 | Some v \<Rightarrow>
                     if v = JNull then None
                     else (case jget ''exp'' v of
                         Some (JNum n) \<Rightarrow> if n < int (now e) then None else Some v
                       | Some (JFrac _) \<Rightarrow> None
                       | _ \<Rightarrow> Some v))))"

text \<open>
  \<open>parseCookies\<close>: a malformed percent sequence makes \<open>decodeURIComponent\<close> throw (\<open>None\<close>); a
  repeated name keeps its last value.
\<close>

definition cookie_part :: "string \<Rightarrow> (string \<times> string) option" where
  "cookie_part part =
     (if CHR ''='' \<in> set part
      then Some (js_trim (takeWhile (\<lambda>c. c \<noteq> CHR ''='') part),
                 js_trim (tl (dropWhile (\<lambda>c. c \<noteq> CHR ''='') part)))
      else None)"

fun add_cookies :: "string list \<Rightarrow> (string \<times> string) list \<Rightarrow> (string \<times> string) list option" where
  "add_cookies [] out = Some out"
| "add_cookies (p # ps) out =
     (case cookie_part p of
        None \<Rightarrow> add_cookies ps out
      | Some (k, raw) \<Rightarrow>
          (case decode_uri raw of None \<Rightarrow> None | Some v \<Rightarrow> add_cookies ps (js_set k v out)))"

definition parse_cookies :: "string option \<Rightarrow> (string \<times> string) list option" where
  "parse_cookies header =
     (if \<not> truthy header then Some [] else add_cookies (js_split (CHR '';'') (the header)) [])"

definition session_ttl_ms :: nat where
  "session_ttl_ms = 12 * 60 * 60 * 1000"

definition account_cookie_name :: string where
  "account_cookie_name = ''hub_acct''"

record account_session =
  se_account_id :: string
  se_email :: string

definition session_json :: "env \<Rightarrow> account_session \<Rightarrow> json" where
  "session_json e s =
     JObj [(''accountId'', JStr (se_account_id s)), (''email'', JStr (se_email s)),
           (''exp'', JNum (int (now e + session_ttl_ms)))]"

definition account_cookie :: "env \<Rightarrow> account_session \<Rightarrow> string \<Rightarrow> string" where
  "account_cookie e s secret =
     account_cookie_name @ ''='' @ sign_value e (session_json e s) secret @
     ''; Path=/; HttpOnly; SameSite=Lax; Secure; Max-Age='' @ nat_str (session_ttl_ms div 1000)"

definition clear_account_cookie :: string where
  "clear_account_cookie = account_cookie_name @ ''=; Path=/; HttpOnly; SameSite=Lax; Secure; Max-Age=0''"

text \<open>
  The verified value is used as a session unchecked. A value without the member (the OAuth state
  is signed with the same secret) has the account id \<open>undefined\<close>, which matches no row and
  no path segment; the model uses the empty text, which does neither as well.
\<close>

definition session_of_json :: "json \<Rightarrow> account_session" where
  "session_of_json v =
     \<lparr>se_account_id = (case jget_str ''accountId'' v of Some a \<Rightarrow> a | None \<Rightarrow> []),
      se_email = (case jget_str ''email'' v of Some m \<Rightarrow> m | None \<Rightarrow> [])\<rparr>"

text \<open>The outer \<open>None\<close> is the exception of a malformed cookie header.\<close>

definition read_account :: "env \<Rightarrow> string option \<Rightarrow> string \<Rightarrow> account_session option option" where
  "read_account e header secret =
     map_option (\<lambda>cs. map_option session_of_json (verify_value e (map_of cs account_cookie_name) secret))
       (parse_cookies header)"

subsection \<open>Round trip\<close>

lemma dot_not_id: "list_all id_char s \<Longrightarrow> CHR ''.'' \<notin> set s"
  using id_char_plain by (auto simp: list_all_iff)

lemma split_last_dot_append: "CHR ''.'' \<notin> set m \<Longrightarrow> split_last_dot (p @ ''.'' @ m) = Some (p, m)"
proof -
  assume "CHR ''.'' \<notin> set m"
  then have "takeWhile (\<lambda>c. c \<noteq> CHR ''.'') (rev m @ CHR ''.'' # rev p) = rev m"
    by (subst takeWhile_append2) auto
  then show ?thesis by (simp add: split_last_dot_def)
qed

lemma signed_verifies:
  assumes "byte_list (hmac e secret (base64url (utf8 (stringify v))))" "wf_json v" "v \<noteq> JNull"
    and "hmac e2 = hmac e" "case jget ''exp'' v of Some (JNum n) \<Rightarrow> int (now e2) \<le> n | Some (JFrac _) \<Rightarrow> False | _ \<Rightarrow> True"
  shows "verify_value e2 (Some (sign_value e v secret)) secret = Some v"
proof -
  let ?p = "base64url (utf8 (stringify v))"
  have "split_last_dot (sign_value e v secret) = Some (?p, sign_payload e ?p secret)"
    using base64url_id_chars [OF assms(1)] dot_not_id
    by (simp add: sign_value_def Let_def sign_payload_def split_last_dot_append [simplified])
  moreover have "sign_payload e2 ?p secret = sign_payload e ?p secret" by (simp add: sign_payload_def assms(4))
  ultimately show ?thesis
    using assms(2,3,5) by (auto simp: verify_value_def payload_json.dec_enc_chain simp del: Option.bind_assoc
        split: option.splits json.splits)
qed

text \<open>The characters of a cookie value.\<close>

definition cookie_char :: "char \<Rightarrow> bool" where
  "cookie_char c \<longleftrightarrow> id_char c \<or> c = CHR ''.''"

lemma cookie_char_plain:
  "cookie_char c \<Longrightarrow> c \<noteq> CHR '';'' \<and> c \<noteq> CHR ''='' \<and> c \<noteq> CHR ''%'' \<and> \<not> js_space c"
  by (auto simp: cookie_char_def id_char_def js_space_def Let_def) (auto simp: char_code_def)

lemma js_trim_id: "list_all (\<lambda>c. \<not> js_space c) s \<Longrightarrow> js_trim s = s"
proof -
  assume a: "list_all (\<lambda>c. \<not> js_space c) s"
  have d: "dropWhile js_space t = t" if "list_all (\<lambda>c. \<not> js_space c) t" for t
    using that by (cases t) auto
  show ?thesis using d [OF a] d [of "rev s"] a by (simp add: js_trim_def list_all_iff)
qed

lemma parse_one_cookie:
  assumes "list_all cookie_char k" "list_all cookie_char v"
  shows "parse_cookies (Some (k @ ''='' @ v)) = Some [(k, v)]"
proof -
  have "CHR '';'' \<notin> set (k @ ''='' @ v)" using assms cookie_char_plain by (auto simp: list_all_iff)
  then have s: "js_split (CHR '';'') (k @ ''='' @ v) = [k @ ''='' @ v]" by (rule js_split_none)
  have k: "takeWhile (\<lambda>c. c \<noteq> CHR ''='') (k @ CHR ''='' # v) = k"
    "dropWhile (\<lambda>c. c \<noteq> CHR ''='') (k @ CHR ''='' # v) = CHR ''='' # v"
    using assms(1) cookie_char_plain by (subst takeWhile_append2 dropWhile_append2; force simp: list_all_iff)+
  have "js_trim k = k" "js_trim v = v" "decode_uri v = Some v"
    using assms cookie_char_plain by (auto intro!: js_trim_id decode_uri_plain simp: list_all_iff)
  then show ?thesis using s k by (simp add: parse_cookies_def truthy_def cookie_part_def)
qed

lemma signed_cookie_reads:
  assumes "\<forall>k p. byte_list (hmac e k p)" "hmac e2 = hmac e" "list_all cookie_char k"
    and "wf_json v" "jget ''exp'' v = Some (JNum n)"
  shows "parse_cookies (Some (k @ ''='' @ sign_value e v secret)) = Some [(k, sign_value e v secret)]"
    "verify_value e2 (Some (sign_value e v secret)) secret = (if int (now e2) \<le> n then Some v else None)"
proof -
  let ?t = "sign_value e v secret" and ?p = "base64url (utf8 (stringify v))"
  have "list_all cookie_char ?t"
    using base64url_id_chars [OF byte_list_utf8] base64url_id_chars [of "hmac e secret ?p"] assms(1)
    by (auto simp: sign_value_def Let_def sign_payload_def cookie_char_def list_all_iff)
  then show "parse_cookies (Some (k @ ''='' @ ?t)) = Some [(k, ?t)]" using assms(3) by (rule parse_one_cookie [rotated])
  have v: "v \<noteq> JNull" using assms(5) by (auto simp: jget_def)
  show "verify_value e2 (Some ?t) secret = (if int (now e2) \<le> n then Some v else None)"
  proof (cases "int (now e2) \<le> n")
    case True
    then show ?thesis using assms v by (simp add: signed_verifies)
  next
    case False
    have "split_last_dot ?t = Some (?p, sign_payload e ?p secret)"
      using base64url_id_chars [of "hmac e secret ?p"] assms(1) dot_not_id
      by (simp add: sign_value_def Let_def sign_payload_def split_last_dot_append [simplified])
    then show ?thesis using False assms v
      by (simp add: verify_value_def payload_json.dec_enc_chain sign_payload_def del: Option.bind_assoc)
  qed
qed

lemma session_cookie_reads:
  assumes "\<forall>k p. byte_list (hmac e k p)" "hmac e2 = hmac e"
  shows "read_account e2 (Some (account_cookie_name @ ''='' @ sign_value e (session_json e s) secret)) secret =
    Some (if now e2 \<le> now e + session_ttl_ms
          then Some \<lparr>se_account_id = se_account_id s, se_email = se_email s\<rparr> else None)"
proof -
  have "list_all cookie_char account_cookie_name"
    by (simp add: account_cookie_name_def cookie_char_def id_char_def char_code_def Let_def)
  note r = signed_cookie_reads [OF assms this, of "session_json e s" "int (now e + session_ttl_ms)" secret]
  have ok: "session_of_json (session_json e s) = \<lparr>se_account_id = se_account_id s, se_email = se_email s\<rparr>"
    by (simp add: session_of_json_def session_json_def jget_str_def jget_def)
  have v: "wf_json (session_json e s)" "jget ''exp'' (session_json e s) = Some (JNum (int (now e + session_ttl_ms)))"
    by (simp_all add: session_json_def jget_def)
  show ?thesis unfolding read_account_def r(1) [OF v] by (simp add: r(2) [OF v] ok del: of_nat_add)
qed

text \<open>
  C32. The cookie set at login reads back as the same account and email at every later moment
  until its expiry, and as nobody afterwards.
\<close>

theorem session_cookie_roundtrip:
  assumes "\<forall>k p. byte_list (hmac e k p)" "hmac e2 = hmac e"
  shows "read_account e2 (Some (account_cookie_name @ ''='' @ sign_value e (session_json e s) secret)) secret =
    Some (if now e2 \<le> now e + session_ttl_ms
          then Some \<lparr>se_account_id = se_account_id s, se_email = se_email s\<rparr> else None)"
  by (rule session_cookie_reads) (fact assms)+

text \<open>What verifies was signed: the part before the last dot carries the hash of itself.\<close>

lemma verified_was_signed:
  assumes "verify_value e (Some t) secret = Some v"
  shows "\<exists>payload. t = payload @ ''.'' @ sign_payload e payload secret"
proof -
  obtain payload mac where s: "split_last_dot t = Some (payload, mac)"
    using assms by (auto simp: verify_value_def split: option.splits)
  then have m: "mac = sign_payload e payload secret"
    using assms by (auto simp: verify_value_def split: if_splits)
  have dot: "CHR ''.'' \<in> set t" using s by (auto simp: split_last_dot_def split: if_splits)
  define r where "r = rev t"
  have d: "dropWhile (\<lambda>c. c \<noteq> CHR ''.'') r \<noteq> []" using dot by (simp add: r_def dropWhile_eq_Nil_conv)
  have mac: "mac = rev (takeWhile (\<lambda>c. c \<noteq> CHR ''.'') r)"
    and pl: "payload = take (length t - length mac - 1) t"
    using s dot by (auto simp: split_last_dot_def r_def Let_def)
  obtain q where q: "dropWhile (\<lambda>c. c \<noteq> CHR ''.'') r = CHR ''.'' # q"
    using d hd_dropWhile [of "\<lambda>c. c \<noteq> CHR ''.''" r] by (cases "dropWhile (\<lambda>c. c \<noteq> CHR ''.'') r") auto
  have "r = rev mac @ CHR ''.'' # q" unfolding mac rev_rev_ident q [symmetric] by simp
  then have "t = rev (rev mac @ CHR ''.'' # q)" by (metis r_def rev_rev_ident)
  then have t: "t = rev q @ CHR ''.'' # mac" by simp
  then have "payload = rev q" using pl by simp
  then show ?thesis using t m by auto
qed

end
