(* ===== verification/Gateway_Policy.thy ===== *)
theory Gateway_Policy
  imports Gateway_Session
begin

text \<open>
  \<open>packages/gateway/src/principal.ts\<close> and \<open>policy.ts\<close>: who is acting, and the one gate that
  decides what that principal may do. The gate calls itself on the parent of a sidecar store;
  nothing in its text bounds that recursion, so it is a partial function whose \<open>None\<close> is the
  overflowing call stack. The declarative reading of the gate is \<open>may_access\<close>.
\<close>

subsection \<open>Principals\<close>

datatype via = Key | Session

record principal =
  pr_account_id :: string
  pr_via :: via
  pr_read_only :: bool
  pr_scoped :: bool
  pr_token_id :: "string option"

definition resolve_key_principal :: "env \<Rightarrow> db \<Rightarrow> request \<Rightarrow> principal option" where
  "resolve_key_principal e d req =
     (case bearer_token req of
        None \<Rightarrow> None
      | Some key \<Rightarrow>
          (case identify_token e d key of
             None \<Rightarrow> None
           | Some identity \<Rightarrow>
               Some \<lparr>pr_account_id = ti_account_id identity, pr_via = Key,
                     pr_read_only = ti_read_only identity,
                     pr_scoped = (\<not> token_is_unscoped d (ti_token_id identity)),
                     pr_token_id = Some (ti_token_id identity)\<rparr>))"

text \<open>The outer \<open>None\<close> of the next two is the exception of a malformed cookie header.\<close>

definition resolve_session_principal :: "env \<Rightarrow> gateway_config \<Rightarrow> request \<Rightarrow> principal option option" where
  "resolve_session_principal e c req =
     (if \<not> truthy (gc_session_secret c) then Some None
      else map_option (map_option (\<lambda>session.
             \<lparr>pr_account_id = se_account_id session, pr_via = Session, pr_read_only = False,
              pr_scoped = False, pr_token_id = None\<rparr>))
           (read_account e (cookie_header req) (the (gc_session_secret c))))"

definition resolve_principal :: "env \<Rightarrow> gateway_config \<Rightarrow> db \<Rightarrow> request \<Rightarrow> principal option option" where
  "resolve_principal e c d req =
     (case resolve_key_principal e d req of
        Some p \<Rightarrow> Some (Some p)
      | None \<Rightarrow> resolve_session_principal e c req)"

subsection \<open>The gate\<close>

datatype action = Read | Write | Admin

datatype resource = Store string | Workspace string

datatype decision = Allow | Deny nat string

partial_function (option) authorize :: "db \<Rightarrow> principal \<Rightarrow> action \<Rightarrow> resource \<Rightarrow> decision option" where
  [code]: "authorize d p act res =
     (if (act = Write \<or> act = Admin) \<and> pr_read_only p then Some (Deny 403 ''this key is read-only'')
      else case res of
        Store sid \<Rightarrow>
          if is_derived_store_id sid then
            (case get_derived_store_parent d sid of
               None \<Rightarrow> Some (Deny 403 ''unknown store'')
             | Some parent \<Rightarrow> authorize d p act (Store (fst parent)))
          else if is_personal_store_id sid then
            (if get_personal_store_owner d sid \<noteq> Some (pr_account_id p)
             then Some (Deny 403 ''not your personal store'')
             else if pr_scoped p then Some (Deny 403 ''this key is not scoped for personal memory'')
             else Some Allow)
          else if is_workspace_store_id sid then
            (if member_role d sid (pr_account_id p) = None
             then Some (Deny 403 ''not a member of this store'')
             else if pr_scoped p \<and> truthy (pr_token_id p) \<and> \<not> token_covers_store d (the (pr_token_id p)) sid
             then Some (Deny 403 ''this key is not scoped to this store'')
             else Some Allow)
          else Some (Deny 403 ''unknown store'')
      | Workspace sid \<Rightarrow>
          if pr_scoped p then Some (Deny 403 ''management requires an unscoped key'')
          else (case member_role d sid (pr_account_id p) of
              None \<Rightarrow> Some (Deny 404 ''not found'')
            | Some role \<Rightarrow>
                if act = Admin \<and> role \<noteq> Owner then Some (Deny 403 ''owner only'') else Some Allow))"

subsection \<open>What the gate decides\<close>

text \<open>A sidecar's parent is a workspace or personal store, never another sidecar.\<close>

definition parents_ok :: "db \<Rightarrow> bool" where
  "parents_ok d \<longleftrightarrow>
     (\<forall>r \<in> set (derived_stores d). is_workspace_store_id (dr_parent r) \<or> is_personal_store_id (dr_parent r))"

definition target_store :: "db \<Rightarrow> string \<Rightarrow> string option" where
  "target_store d sid =
     (if is_derived_store_id sid then map_option fst (get_derived_store_parent d sid) else Some sid)"

definition reaches :: "db \<Rightarrow> principal \<Rightarrow> string \<Rightarrow> bool" where
  "reaches d p sid \<longleftrightarrow>
     (if is_personal_store_id sid
      then get_personal_store_owner d sid = Some (pr_account_id p) \<and> \<not> pr_scoped p
      else is_workspace_store_id sid \<and> member_role d sid (pr_account_id p) \<noteq> None \<and>
        (pr_scoped p \<and> truthy (pr_token_id p) \<longrightarrow> token_covers_store d (the (pr_token_id p)) sid))"

fun may_access :: "db \<Rightarrow> principal \<Rightarrow> action \<Rightarrow> resource \<Rightarrow> bool" where
  "may_access d p act (Store sid) \<longleftrightarrow>
     (act = Read \<or> \<not> pr_read_only p) \<and>
     (case target_store d sid of None \<Rightarrow> False | Some t \<Rightarrow> reaches d p t)"
| "may_access d p act (Workspace sid) \<longleftrightarrow>
     (act = Read \<or> \<not> pr_read_only p) \<and> \<not> pr_scoped p \<and>
     (if act = Admin then member_role d sid (pr_account_id p) = Some Owner
      else member_role d sid (pr_account_id p) \<noteq> None)"

lemma parent_not_derived:
  "parents_ok d \<Longrightarrow> get_derived_store_parent d sid = Some (parent, k) \<Longrightarrow> \<not> is_derived_store_id parent"
  by (auto simp: parents_ok_def get_derived_store_parent_def dest!: find_SomeD dest: store_kinds_disjoint)

lemma authorize_plain_store:
  "\<not> is_derived_store_id sid \<Longrightarrow>
   (\<exists>dec. authorize d p act (Store sid) = Some dec \<and> (dec = Allow \<longleftrightarrow> may_access d p act (Store sid)) \<and>
     (\<forall>n m. dec = Deny n m \<longrightarrow> n = 403))"
  by (subst authorize.simps) (cases act; auto simp: reaches_def target_store_def)

text \<open>A sidecar store: the decision is the parent's.\<close>

lemma authorize_derived:
  "is_derived_store_id sid \<Longrightarrow> get_derived_store_parent d sid = Some (parent, k) \<Longrightarrow>
   authorize d p act (Store sid) = authorize d p act (Store parent)"
  by (subst authorize.simps) (subst (2) authorize.simps, simp add: authorize.simps [of d p act "Store parent"])

lemma authorize_outcome:
  assumes "parents_ok d"
  shows "\<exists>dec. authorize d p act res = Some dec \<and> (dec = Allow \<longleftrightarrow> may_access d p act res) \<and>
    (\<forall>s n m. res = Store s \<and> dec = Deny n m \<longrightarrow> n = 403)"
proof (cases res)
  case (Workspace sid)
  then show ?thesis
    by (subst authorize.simps) (cases act; auto split: option.splits)
next
  case (Store sid)
  show ?thesis
  proof (cases "is_derived_store_id sid")
    case False
    then show ?thesis using authorize_plain_store [of sid d p act] Store by blast
  next
    case True
    show ?thesis
    proof (cases "get_derived_store_parent d sid")
      case None
      then show ?thesis using True Store
        by (subst authorize.simps) (cases act; auto simp: target_store_def)
    next
      case (Some pk)
      obtain parent k where pk: "pk = (parent, k)" by fastforce
      have nd: "\<not> is_derived_store_id parent" using parent_not_derived assms Some pk by blast
      have "may_access d p act (Store sid) = may_access d p act (Store parent)"
        using True Some pk nd by (simp add: target_store_def)
      moreover have "authorize d p act (Store sid) = authorize d p act (Store parent)"
        using authorize_derived True Some pk by blast
      ultimately show ?thesis using authorize_plain_store [OF nd, of d p act] Store by auto
    qed
  qed
qed

text \<open>
  C6. The gate always decides, in at most one step of recursion, and it allows exactly what
  the access matrix says: for stores the owner of a personal store with an unscoped key, the
  members of a workspace within the key's scope, whoever reaches the parent of a sidecar; for
  workspace management members with an unscoped key, and owners for administration; and a
  read-only key never writes. A refused store access is always a 403.
\<close>

theorem authorize_decides:
  assumes "parents_ok d"
  shows "\<exists>dec. authorize d p act res = Some dec \<and> (dec = Allow \<longleftrightarrow> may_access d p act res) \<and>
    (\<forall>s n m. res = Store s \<and> dec = Deny n m \<longrightarrow> n = 403)"
  by (rule authorize_outcome [OF assms])

lemma authorize_Allow: "parents_ok d \<Longrightarrow> authorize d p act res = Some Allow \<longleftrightarrow> may_access d p act res"
  using authorize_outcome [of d p act res] by (metis decision.distinct(1) option.inject)

text \<open>
  The attributes of a key only ever narrow: whatever a principal may do as a read-only key,
  it may do as a full key, and whatever a scoped key may do, the same account may do without the
  scope.
\<close>

lemma key_attributes_only_narrow:
  assumes "parents_ok d"
  shows "(authorize d (p\<lparr>pr_read_only := True\<rparr>) act res = Some Allow \<longrightarrow>
      authorize d (p\<lparr>pr_read_only := False\<rparr>) act res = Some Allow \<and> act = Read) \<and>
    (authorize d (p\<lparr>pr_scoped := True\<rparr>) act res = Some Allow \<longrightarrow>
      authorize d (p\<lparr>pr_scoped := False\<rparr>) act res = Some Allow)"
  unfolding authorize_Allow [OF assms]
  by (cases res) (auto simp: reaches_def split: option.splits if_splits)

text \<open>
  The personal boundary: a personal store, and every sidecar of one, is open to the
  account it belongs to and to no other principal, whatever memberships exist.
\<close>

lemma personal_boundary:
  assumes "parents_ok d" "authorize d p act (Store sid) = Some Allow"
    and "target_store d sid = Some t" "is_personal_store_id t"
  shows "get_personal_store_owner d t = Some (pr_account_id p) \<and> \<not> pr_scoped p"
  using assms by (auto simp: authorize_Allow reaches_def)

end
