(* ===== verification/Gateway_Workspace.thy ===== *)
theory Gateway_Workspace
  imports Gateway_Policy
begin

text \<open>
  \<open>packages/gateway/src/workspace.ts\<close> (and \<open>originFor\<close> of \<open>views.ts\<close>): the control-plane
  handlers of workspaces, members and invites. A handler maps the environment, the
  configuration, the request and the database to a response and the database it leaves;
  response \<open>None\<close> is an exception that escapes to the server, which answers 500.
\<close>

type_synonym handled = "response option \<times> db"

definition reply :: "db \<Rightarrow> nat \<Rightarrow> json \<Rightarrow> handled" where
  "reply d n v = (Some (Json n v), d)"

definition refuse :: "db \<Rightarrow> nat \<Rightarrow> string \<Rightarrow> handled" where
  "refuse d n msg = (Some (send_error n msg), d)"

definition thrown :: "db \<Rightarrow> handled" where
  "thrown d = (None, d)"

definition max_json_body :: nat where
  "max_json_body = 64 * 1024"

text \<open>The guards every handler starts with.\<close>

definition as_caller ::
  "env \<Rightarrow> gateway_config \<Rightarrow> db \<Rightarrow> request \<Rightarrow> (principal \<Rightarrow> handled) \<Rightarrow> handled" where
  "as_caller e c d req k =
     (case resolve_principal e c d req of
        None \<Rightarrow> thrown d
      | Some None \<Rightarrow> refuse d 401 ''authentication required''
      | Some (Some p) \<Rightarrow> k p)"

definition if_allowed :: "db \<Rightarrow> principal \<Rightarrow> action \<Rightarrow> resource \<Rightarrow> handled \<Rightarrow> handled" where
  "if_allowed d p act res k =
     (case authorize d p act res of
        None \<Rightarrow> thrown d
      | Some (Deny n msg) \<Rightarrow> refuse d n msg
      | Some Allow \<Rightarrow> k)"

definition with_json :: "db \<Rightarrow> request \<Rightarrow> (json \<Rightarrow> handled) \<Rightarrow> handled" where
  "with_json d req k =
     (case read_json req max_json_body of
        Too_large \<Rightarrow> refuse d 413 ''bad request''
      | Bad_json \<Rightarrow> refuse d 400 ''bad request''
      | Body b \<Rightarrow> k b)"

definition run_sql :: "db \<Rightarrow> 'a sql \<Rightarrow> ('a \<Rightarrow> handled) \<Rightarrow> handled" where
  "run_sql d r k = (case r of Inl _ \<Rightarrow> thrown d | Inr a \<Rightarrow> k a)"

definition json_opt :: "string option \<Rightarrow> json" where
  "json_opt s = (case s of None \<Rightarrow> JNull | Some t \<Rightarrow> JStr t)"

definition role_text :: "role \<Rightarrow> string" where
  "role_text r = (case r of Owner \<Rightarrow> ''owner'' | Member \<Rightarrow> ''member'')"

definition events_url :: "string \<Rightarrow> string" where
  "events_url sid = ''/v1/projects/'' @ sid @ ''/events''"

definition no_content :: "db \<Rightarrow> handled" where
  "no_content d = (Some (Empty 204), d)"

subsection \<open>Handlers\<close>

definition create_workspace :: "env \<Rightarrow> gateway_config \<Rightarrow> request \<Rightarrow> db \<Rightarrow> handled" where
  "create_workspace e c req d = as_caller e c d req (\<lambda>p.
     if pr_read_only p then refuse d 403 ''this key is read-only''
     else if pr_scoped p then refuse d 403 ''management requires an unscoped key''
     else with_json d req (\<lambda>body.
       case jget ''name'' body of
         Some (JStr n) \<Rightarrow>
           if 200 < length n then refuse d 400 ''name must be a string of at most 200 characters''
           else run_sql d (create_store e d (pr_account_id p) (if n = [] then None else Some n))
             (\<lambda>(d', sid). reply d' 201 (JObj [(''workspaceId'', JStr sid), (''eventsUrl'', JStr (events_url sid)),
                (''role'', JStr ''owner''), (''inviteReachable'', JBool False)]))
       | Some _ \<Rightarrow> refuse d 400 ''name must be a string of at most 200 characters''
       | None \<Rightarrow> run_sql d (create_store e d (pr_account_id p) None)
             (\<lambda>(d', sid). reply d' 201 (JObj [(''workspaceId'', JStr sid), (''eventsUrl'', JStr (events_url sid)),
                (''role'', JStr ''owner''), (''inviteReachable'', JBool False)]))))"

definition list_workspaces :: "env \<Rightarrow> gateway_config \<Rightarrow> request \<Rightarrow> db \<Rightarrow> handled" where
  "list_workspaces e c req d = as_caller e c d req (\<lambda>p.
     if pr_scoped p then refuse d 403 ''discovery requires an unscoped key''
     else reply d 200 (JObj [(''workspaces'', JArr (map (\<lambda>s.
       JObj [(''workspaceId'', JStr (as_store_id s)), (''eventsUrl'', JStr (events_url (as_store_id s))),
             (''role'', JStr (role_text (as_role s))), (''name'', json_opt (as_name s)),
             (''inviteReachable'', JBool (as_invite_reachable s)),
             (''memberCount'', JNum (int (as_member_count s)))])
       (list_account_stores d (pr_account_id p))))]))"

definition get_workspace :: "env \<Rightarrow> gateway_config \<Rightarrow> request \<Rightarrow> string \<Rightarrow> db \<Rightarrow> handled" where
  "get_workspace e c req sid d = as_caller e c d req (\<lambda>p.
     if_allowed d p Read (Workspace sid)
       (case get_store d sid of
          None \<Rightarrow> refuse d 404 ''not found''
        | Some s \<Rightarrow>
            reply d 200 (JObj [(''workspaceId'', JStr sid), (''name'', json_opt (s_name s)),
              (''inviteReachable'', JBool (s_invite_reachable s)),
              (''members'', JArr (map (\<lambda>m.
                 JObj [(''accountId'', JStr (mb_account_id m)), (''role'', JStr (role_text (mb_role m))),
                       (''email'', JStr (mb_email m)), (''joinedAt'', JStr (mb_joined_at m))]) (roster d sid)))])))"

text \<open>
  \<open>/^proj_[A-Za-z0-9_-]{1,120}$/\<close>. (The ellipsis character in the code's error text is left
  out: it is no code unit of the model.)
\<close>

definition source_project_id_ok :: "string \<Rightarrow> bool" where
  "source_project_id_ok s \<longleftrightarrow> starts_with s ''proj_'' \<and> 6 \<le> length s \<and> length s \<le> 125 \<and>
     list_all id_char (drop 5 s)"

definition register_source_store_handler ::
  "env \<Rightarrow> gateway_config \<Rightarrow> request \<Rightarrow> string \<Rightarrow> db \<Rightarrow> handled" where
  "register_source_store_handler e c req sid d = as_caller e c d req (\<lambda>p.
     if_allowed d p Write (Store sid) (with_json d req (\<lambda>body.
       case jget_str ''sourceProjectId'' body of
         None \<Rightarrow> refuse d 400 ''sourceProjectId must be a client-minted proj_ id''
       | Some pid \<Rightarrow>
           if \<not> source_project_id_ok pid then refuse d 400 ''sourceProjectId must be a client-minted proj_ id''
           else if (case jget ''label'' body of None \<Rightarrow> False | Some JNull \<Rightarrow> False
                    | Some (JStr l) \<Rightarrow> 120 < length l | Some _ \<Rightarrow> True)
           then refuse d 400 ''label must be a string of at most 120 characters''
           else
             (let label = (case jget_str ''label'' body of
                             Some l \<Rightarrow> if js_trim l = [] then None else Some (js_trim l) | None \<Rightarrow> None)
              in run_sql d (register_source_store e d sid pid (pr_account_id p) label) (\<lambda>(ok, d').
                   if \<not> ok then refuse d' 409 ''source store already registered to another account''
                   else reply d' 200 (JObj [(''workspaceId'', JStr sid), (''sourceProjectId'', JStr pid),
                     (''accountId'', JStr (pr_account_id p)), (''label'', json_opt label)]))))))"

text \<open>\<open>originFor\<close>: the configured public URL, else the request's own host.\<close>

definition local_host :: "string \<Rightarrow> bool" where
  "local_host host \<longleftrightarrow>
     list_ex (\<lambda>n. host = n \<or> starts_with host (n @ '':'')) [''localhost'', ''127.0.0.1'', ''[::1]'']"

definition origin_for :: "gateway_config \<Rightarrow> request \<Rightarrow> string" where
  "origin_for c req =
     (if truthy (gc_public_url c) then the (gc_public_url c)
      else (let host = (case host_header req of Some h \<Rightarrow> h | None \<Rightarrow> ''localhost:8080'')
            in (if local_host host then ''http'' else ''https'') @ ''://'' @ host))"

text \<open>
  The options of an invite: \<open>Inl\<close> is the message of the 400. A number written with a fraction
  or an exponent is no integer here.
\<close>

definition invite_options :: "env \<Rightarrow> json \<Rightarrow> string + int option \<times> string option" where
  "invite_options e body =
     (let max_uses = (case jget ''maxUses'' body of
            None \<Rightarrow> Inr None | Some JNull \<Rightarrow> Inr None
          | Some (JNum n) \<Rightarrow> if n \<le> 0 then Inl ''maxUses must be a positive integer'' else Inr (Some n)
          | Some _ \<Rightarrow> Inl ''maxUses must be a positive integer'');
          expires_at = (case jget ''expiresAt'' body of
            None \<Rightarrow> Inr None | Some JNull \<Rightarrow> Inr None
          | Some (JStr t) \<Rightarrow>
              (case date_parse (date_other e) t of
                 None \<Rightarrow> Inl ''expiresAt must be a future ISO-8601 timestamp''
               | Some ms \<Rightarrow> if ms \<le> int (now e) then Inl ''expiresAt must be a future ISO-8601 timestamp''
                            else Inr (Some t))
          | Some _ \<Rightarrow> Inl ''expiresAt must be a future ISO-8601 timestamp'')
      in and_then max_uses (\<lambda>m. and_then expires_at (\<lambda>x. Inr (m, x))))"

definition json_int_opt :: "int option \<Rightarrow> json" where
  "json_int_opt n = (case n of None \<Rightarrow> JNull | Some i \<Rightarrow> JNum i)"

definition mint_invite_handler :: "env \<Rightarrow> gateway_config \<Rightarrow> request \<Rightarrow> string \<Rightarrow> db \<Rightarrow> handled" where
  "mint_invite_handler e c req sid d = as_caller e c d req (\<lambda>p.
     if_allowed d p Admin (Workspace sid) (with_json d req (\<lambda>body.
       case invite_options e body of
         Inl msg \<Rightarrow> refuse d 400 msg
       | Inr (max_uses, expires_at) \<Rightarrow>
           run_sql d (mint_invite e d sid (pr_account_id p) max_uses expires_at) (\<lambda>(d', i).
             reply d' 201 (JObj [(''inviteId'', JStr (mi_invite_id i)), (''token'', JStr (mi_token i)),
               (''joinUrl'', JStr (origin_for c req @ ''/join?token='' @ encode_uri (mi_token i))),
               (''role'', JStr (role_text (mi_role i))), (''maxUses'', json_int_opt (mi_max_uses i)),
               (''expiresAt'', json_opt (mi_expires_at i))])))))"

definition list_invites_handler :: "env \<Rightarrow> gateway_config \<Rightarrow> request \<Rightarrow> string \<Rightarrow> db \<Rightarrow> handled" where
  "list_invites_handler e c req sid d = as_caller e c d req (\<lambda>p.
     if pr_scoped p then refuse d 403 ''management requires an unscoped key''
     else (case member_role d sid (pr_account_id p) of
         None \<Rightarrow> refuse d 404 ''not found''
       | Some Member \<Rightarrow> refuse d 403 ''owner only''
       | Some Owner \<Rightarrow>
           reply d 200 (JObj [(''invites'', JArr (map (\<lambda>i.
             JObj [(''inviteId'', JStr (i_id i)), (''maxUses'', json_int_opt (i_max_uses i)),
                   (''usedCount'', JNum (i_used_count i)), (''expiresAt'', json_opt (i_expires_at i)),
                   (''revokedAt'', json_opt (i_revoked_at i)), (''createdAt'', JStr (i_created_at i))])
             (list_invites d sid)))])))"

definition revoke_invite_handler ::
  "env \<Rightarrow> gateway_config \<Rightarrow> request \<Rightarrow> string \<Rightarrow> string \<Rightarrow> db \<Rightarrow> handled" where
  "revoke_invite_handler e c req sid iid d = as_caller e c d req (\<lambda>p.
     if_allowed d p Admin (Workspace sid)
       (let (known, d') = revoke_invite e d sid iid
        in if \<not> known then refuse d' 404 ''not found'' else no_content d'))"

definition join_workspace :: "env \<Rightarrow> gateway_config \<Rightarrow> request \<Rightarrow> db \<Rightarrow> handled" where
  "join_workspace e c req d = as_caller e c d req (\<lambda>p.
     if pr_read_only p then refuse d 403 ''this key is read-only''
     else if pr_scoped p then refuse d 403 ''join requires an unscoped key''
     else with_json d req (\<lambda>body.
       let token = (case jget_str ''token'' body of Some t \<Rightarrow> t | None \<Rightarrow> [])
       in if token = [] then refuse d 400 ''token is required''
          else run_sql d (redeem_invite e d token (pr_account_id p)) (\<lambda>(result, d').
            case result of
              Rejected \<Rightarrow> refuse d' 403 ''invalid, revoked, expired, or exhausted invite''
            | Redeemed sid role _ \<Rightarrow>
                reply d' 200 (JObj [(''workspaceId'', JStr sid), (''eventsUrl'', JStr (events_url sid)),
                  (''role'', JStr (role_text role))]))))"

definition parse_role :: "json \<Rightarrow> role option" where
  "parse_role body =
     (case jget_str ''role'' body of
        None \<Rightarrow> None
      | Some r \<Rightarrow> if r = ''owner'' then Some Owner else if r = ''member'' then Some Member else None)"

definition set_member_role :: "env \<Rightarrow> gateway_config \<Rightarrow> request \<Rightarrow> string \<Rightarrow> string \<Rightarrow> db \<Rightarrow> handled" where
  "set_member_role e c req sid account d = as_caller e c d req (\<lambda>p.
     if_allowed d p Admin (Workspace sid) (with_json d req (\<lambda>body.
       case parse_role body of
         None \<Rightarrow> refuse d 400 (''role must be '' @ [CHR 0x27] @ ''owner'' @ [CHR 0x27] @ '' or '' @ [CHR 0x27] @ ''member'' @ [CHR 0x27])
       | Some r \<Rightarrow>
           (let (result, d') = set_role d sid account r
            in case result of
                 Last_owner \<Rightarrow> refuse d' 409 ''cannot demote the sole remaining owner''
               | Not_a_member \<Rightarrow> refuse d' 404 ''not found''
               | Changed \<Rightarrow> reply d' 200 (JObj [(''accountId'', JStr account), (''role'', JStr (role_text r))])))))"

definition remove_member_handler ::
  "env \<Rightarrow> gateway_config \<Rightarrow> request \<Rightarrow> string \<Rightarrow> string \<Rightarrow> db \<Rightarrow> handled" where
  "remove_member_handler e c req sid account d = as_caller e c d req (\<lambda>p.
     if pr_read_only p then refuse d 403 ''this key is read-only''
     else if pr_scoped p then refuse d 403 ''membership changes require an unscoped key''
     else (case member_role d sid (pr_account_id p) of
         None \<Rightarrow> refuse d 404 ''not found''
       | Some caller_role \<Rightarrow>
           if account \<noteq> pr_account_id p \<and> caller_role \<noteq> Owner
           then refuse d 403 ''only an owner may remove another member''
           else (let (result, d') = remove_member d sid account
                 in case result of
                      Last_owner \<Rightarrow> refuse d' 409 ''transfer ownership or delete the workspace first''
                    | Not_a_member \<Rightarrow> refuse d' 404 ''not found''
                    | Changed \<Rightarrow> no_content d')))"

definition rename_workspace :: "env \<Rightarrow> gateway_config \<Rightarrow> request \<Rightarrow> string \<Rightarrow> db \<Rightarrow> handled" where
  "rename_workspace e c req sid d = as_caller e c d req (\<lambda>p.
     if_allowed d p Admin (Workspace sid) (with_json d req (\<lambda>body.
       let done = (\<lambda>name. reply (rename_store d sid name) 200
                     (JObj [(''workspaceId'', JStr sid), (''name'', json_opt name)]))
       in case jget ''name'' body of
            Some JNull \<Rightarrow> done None
          | Some (JStr n) \<Rightarrow>
              if 200 < length n then refuse d 400 ''name must be a string of at most 200 characters, or null''
              else done (if js_trim n = [] then None else Some (js_trim n))
          | _ \<Rightarrow> refuse d 400 ''name must be a string of at most 200 characters, or null'')))"

definition delete_workspace :: "env \<Rightarrow> gateway_config \<Rightarrow> request \<Rightarrow> string \<Rightarrow> db \<Rightarrow> handled" where
  "delete_workspace e c req sid d = as_caller e c d req (\<lambda>p.
     if_allowed d p Admin (Workspace sid)
       (run_sql d (delete_store d sid) no_content))"

subsection \<open>What a handler can do to the database\<close>

text \<open>
  \<open>outcome P h\<close>: the handler's result either leaves the database and answers an error or
  nothing new, or satisfies \<open>P\<close> on what it leaves. The rules walk through the guards.
\<close>

definition outcome :: "db \<Rightarrow> (response option \<Rightarrow> db \<Rightarrow> bool) \<Rightarrow> handled \<Rightarrow> bool" where
  "outcome d P h \<longleftrightarrow> snd h = d \<or> P (fst h) (snd h)"

named_theorems handler_rules \<open>walking through the guards of a handler\<close>

lemma outcome_unchanged [handler_rules]:
  "outcome d P (refuse d n m)" "outcome d P (thrown d)" "outcome d P (reply d n v)" "outcome d P (no_content d)"
  by (simp_all add: outcome_def refuse_def thrown_def reply_def no_content_def)

lemma outcome_as_caller [handler_rules]:
  "(\<And>p. resolve_principal e c d req = Some (Some p) \<Longrightarrow> outcome d P (k p)) \<Longrightarrow> outcome d P (as_caller e c d req k)"
  by (auto simp: as_caller_def outcome_unchanged split: option.splits)

lemma outcome_if_allowed [handler_rules]:
  "(authorize d p act res = Some Allow \<Longrightarrow> outcome d P k) \<Longrightarrow> outcome d P (if_allowed d p act res k)"
  by (auto simp: if_allowed_def outcome_unchanged split: option.splits decision.splits)

lemma outcome_with_json [handler_rules]:
  "(\<And>b. read_json req max_json_body = Body b \<Longrightarrow> outcome d P (k b)) \<Longrightarrow> outcome d P (with_json d req k)"
  by (auto simp: with_json_def outcome_unchanged split: body_result.splits)

lemma outcome_run_sql [handler_rules]:
  "(\<And>x. r = Inr x \<Longrightarrow> outcome d P (k x)) \<Longrightarrow> outcome d P (run_sql d r k)"
  by (auto simp: run_sql_def outcome_unchanged split: sum.splits)

lemma outcome_reply: "P (Some (Json n v)) d' \<Longrightarrow> outcome d P (reply d' n v)"
  by (simp add: outcome_def reply_def)

lemma outcome_no_content: "P (Some (Empty 204)) d' \<Longrightarrow> outcome d P (no_content d')"
  by (simp add: outcome_def no_content_def)

end
