(* ===== verification/Gateway_Device.thy ===== *)
theory Gateway_Device
  imports Gateway_Workspace
begin

text \<open>
  \<open>packages/gateway/src/device.ts\<close> and \<open>device-api.ts\<close>: the device authorization grant. A row
  goes from pending to approved (browser) and is consumed by the poll that delivers the account;
  the key is minted then.
\<close>

subsection \<open>Codes\<close>

definition expires_in_s :: nat where "expires_in_s = 600"
definition interval_s :: nat where "interval_s = 5"

definition user_code_alphabet :: string where
  "user_code_alphabet = ''ABCDEFGHJKLMNPQRSTUVWXYZ23456789''"

definition default_device_label :: string where
  "default_device_label = ''device login''"

text \<open>
  \<open>toUpperCase\<close> on code units 0 to 255; the sharp s becomes two letters, and the two characters
  whose capitals lie above 255 are dropped by the filter that follows in the code, as here.
\<close>

definition upper_char :: "char \<Rightarrow> string" where
  "upper_char c =
     (let n = char_code c
      in if 97 \<le> n \<and> n \<le> 122 then [char_of (n - 32)]
         else if 224 \<le> n \<and> n \<le> 254 \<and> n \<noteq> 247 then [char_of (n - 32)]
         else if n = 223 then ''SS'' else [c])"

definition to_upper :: "string \<Rightarrow> string" where
  "to_upper s = concat (map upper_char s)"

definition code_char :: "char \<Rightarrow> bool" where
  "code_char c \<longleftrightarrow> (let n = char_code c in (65 \<le> n \<and> n \<le> 90) \<or> (48 \<le> n \<and> n \<le> 57))"

definition regroup_code :: "string \<Rightarrow> string" where
  "regroup_code s = take 4 s @ ''-'' @ drop 4 s"

definition normalize_user_code :: "string \<Rightarrow> string" where
  "normalize_user_code input =
     (let s = filter code_char (to_upper input) in if length s = 8 then regroup_code s else s)"

definition random_user_code :: "nat list \<Rightarrow> string" where
  "random_user_code bytes =
     regroup_code (map (\<lambda>b. user_code_alphabet ! (b mod length user_code_alphabet)) (take 8 bytes))"

subsection \<open>Operations\<close>

definition sweep_expired :: "env \<Rightarrow> db \<Rightarrow> db" where
  "sweep_expired e d =
     d\<lparr>device_auth := delete_where (\<lambda>x. d_expires_at x < now_iso e) (device_auth d)\<rparr>"

record device_code_result =
  dc_device_code :: string
  dc_user_code :: string
  dc_verification_uri :: string
  dc_verification_uri_complete :: string
  dc_expires_in :: nat
  dc_interval :: nat

text \<open>
  The retry loop: at most \<open>fuel\<close> further draws (10 in the code) while the code is taken. Draw 0
  of the request is the device code, draws 1 and up are user codes.
\<close>

fun pick_user_code :: "env \<Rightarrow> db \<Rightarrow> nat \<Rightarrow> nat \<Rightarrow> string" where
  "pick_user_code e d k 0 = random_user_code (random e k 8)"
| "pick_user_code e d k (Suc fuel) =
     (let code = random_user_code (random e k 8)
      in if code \<in> set (map d_user_code (device_auth d)) then pick_user_code e d (Suc k) fuel else code)"

definition start_device_auth ::
  "env \<Rightarrow> gateway_config \<Rightarrow> db \<Rightarrow> string option \<Rightarrow> (db \<times> device_code_result) sql" where
  "start_device_auth e c d0 label =
     (let d = sweep_expired e d0;
          device_code = base64url (random e 0 32);
          user_code = pick_user_code e d 1 10;
          uri = (case gc_public_url c of Some u \<Rightarrow> u | None \<Rightarrow> ''undefined'') @ ''/device''
      in and_then (insert_device
           \<lparr>d_device_code = device_code, d_user_code = user_code, d_account_id = None, d_status = Pending,
            d_label = (case label of Some l \<Rightarrow> l | None \<Rightarrow> default_device_label),
            d_created_at = now_iso e, d_expires_at = iso (now e + expires_in_s * 1000),
            d_last_polled_at = None\<rparr> d)
           (\<lambda>d'. Inr (d', \<lparr>dc_device_code = device_code, dc_user_code = user_code,
              dc_verification_uri = uri,
              dc_verification_uri_complete = uri @ ''?code='' @ encode_uri user_code,
              dc_expires_in = expires_in_s, dc_interval = interval_s\<rparr>)))"

text \<open>\<open>Date.parse(t) < nowMs\<close>; \<open>NaN\<close> is not less.\<close>

definition time_before_now :: "env \<Rightarrow> string \<Rightarrow> bool" where
  "time_before_now e t = (case date_parse (date_other e) t of None \<Rightarrow> False | Some ms \<Rightarrow> ms < int (now e))"

definition find_pending_by_user_code :: "env \<Rightarrow> db \<Rightarrow> string \<Rightarrow> (string \<times> string) option" where
  "find_pending_by_user_code e d code =
     (case find (\<lambda>x. d_user_code x = normalize_user_code code) (device_auth d) of
        None \<Rightarrow> None
      | Some row \<Rightarrow>
          if d_status row \<noteq> Pending \<or> time_before_now e (d_expires_at row) then None
          else Some (d_user_code row, d_label row))"

definition approve_device :: "env \<Rightarrow> db \<Rightarrow> string \<Rightarrow> string \<Rightarrow> (bool \<times> db) sql" where
  "approve_device e d user_code account =
     (let code = normalize_user_code user_code
      in case find (\<lambda>x. d_user_code x = code) (device_auth d) of
           None \<Rightarrow> Inr (False, d)
         | Some row \<Rightarrow>
             if d_status row \<noteq> Pending \<or> time_before_now e (d_expires_at row) then Inr (False, d)
             else if \<not> has_account d account then Inl (Foreign_key_violation ''device_auth'')
             else Inr (True, d\<lparr>device_auth := update_where (\<lambda>x. d_user_code x = code)
                    (\<lambda>x. x\<lparr>d_status := Approved, d_account_id := Some account\<rparr>) (device_auth d)\<rparr>))"

datatype poll_result = Poll_pending | Slow_down | Expired | Poll_denied | Delivered string string

definition polled_too_soon :: "env \<Rightarrow> string option \<Rightarrow> bool" where
  "polled_too_soon e polled =
     (truthy polled \<and>
      (case date_parse (date_other e) (the polled) of
         None \<Rightarrow> False | Some ms \<Rightarrow> int (now e) - ms < int (interval_s * 1000)))"

definition poll_device_token :: "env \<Rightarrow> db \<Rightarrow> string \<Rightarrow> poll_result \<times> db" where
  "poll_device_token e d device_code =
     (case find (\<lambda>x. d_device_code x = device_code) (device_auth d) of
        None \<Rightarrow> (Expired, d)
      | Some row \<Rightarrow>
          if time_before_now e (d_expires_at row) then (Expired, d)
          else if polled_too_soon e (d_last_polled_at row) then (Slow_down, d)
          else
            (let d1 = d\<lparr>device_auth := update_where (\<lambda>x. d_device_code x = device_code)
                        (\<lambda>x. x\<lparr>d_last_polled_at := Some (now_iso e)\<rparr>) (device_auth d)\<rparr>
             in if d_status row = Denied then (Poll_denied, d1)
                else if d_status row \<noteq> Approved \<or> \<not> truthy (d_account_id row) then (Poll_pending, d1)
                else (Delivered (the (d_account_id row)) (d_label row),
                      d1\<lparr>device_auth := delete_where (\<lambda>x. d_device_code x = device_code) (device_auth d1)\<rparr>)))"

subsection \<open>Endpoints\<close>

definition device_max_json :: nat where "device_max_json = 4 * 1024"

definition handle_device_code :: "env \<Rightarrow> gateway_config \<Rightarrow> request \<Rightarrow> db \<Rightarrow> handled" where
  "handle_device_code e c req d =
     (if \<not> truthy (gc_public_url c) then refuse d 503 ''device authorization not configured''
      else (case read_json req device_max_json of
          Body body \<Rightarrow>
            (let label = (case jget_str ''label'' body of
                            Some l \<Rightarrow> if js_trim l = [] then None else Some (take 64 (js_trim l)) | None \<Rightarrow> None)
             in case start_device_auth e c d label of
                  Inl _ \<Rightarrow> thrown (sweep_expired e d)
                | Inr (d', g) \<Rightarrow> reply d' 200 (JObj [(''device_code'', JStr (dc_device_code g)),
                    (''user_code'', JStr (dc_user_code g)), (''verification_uri'', JStr (dc_verification_uri g)),
                    (''verification_uri_complete'', JStr (dc_verification_uri_complete g)),
                    (''expires_in'', JNum (int (dc_expires_in g))), (''interval'', JNum (int (dc_interval g)))]))
        | _ \<Rightarrow> refuse d 400 ''invalid JSON''))"

definition handle_device_token :: "env \<Rightarrow> gateway_config \<Rightarrow> request \<Rightarrow> db \<Rightarrow> handled" where
  "handle_device_token e c req d =
     (case read_json req device_max_json of
        Body body \<Rightarrow>
          (let code = (case jget_str ''device_code'' body of Some s \<Rightarrow> s | None \<Rightarrow> [])
           in if code = [] then refuse d 400 ''expired_token''
              else (let (poll, d') = poll_device_token e d code
                    in case poll of
                         Poll_pending \<Rightarrow> refuse d' 400 ''authorization_pending''
                       | Slow_down \<Rightarrow> refuse d' 400 ''slow_down''
                       | Poll_denied \<Rightarrow> refuse d' 400 ''access_denied''
                       | Expired \<Rightarrow> refuse d' 400 ''expired_token''
                       | Delivered account label \<Rightarrow>
                           run_sql d' (issue_api_key e d' account (Some label) False []) (\<lambda>(d2, k).
                             reply d2 200 (JObj [(''token'', JStr (ik_plaintext k)),
                               (''tokenId'', JStr (ik_token_id k)), (''label'', JStr label)]))))
      | _ \<Rightarrow> refuse d 400 ''invalid JSON'')"

subsection \<open>Facts\<close>

lemma db_ok_delete_devices [db_intros]: "db_ok d \<Longrightarrow> db_ok (d\<lparr>device_auth := delete_where P (device_auth d)\<rparr>)"
  by (auto simp: db_defs)

lemma db_ok_sweep [db_intros]: "db_ok d \<Longrightarrow> db_ok (sweep_expired e d)"
  unfolding sweep_expired_def by (rule db_ok_delete_devices)

lemma db_ok_start_device [db_intros]: "start_device_auth e c d l = Inr (d', g) \<Longrightarrow> db_ok d \<Longrightarrow> db_ok d'"
  by (auto simp: start_device_auth_def Let_def and_then_Inr intro: db_ok_insert_device db_ok_sweep)

lemma db_ok_update_devices:
  assumes "\<And>x. d_device_code (f x) = d_device_code x" "\<And>x. d_user_code (f x) = d_user_code x"
    "\<And>x. d_account_id (f x) = d_account_id x \<or> d_account_id (f x) = Some a" "has_account d a \<or> (\<forall>x. d_account_id (f x) = d_account_id x)"
    "db_ok d"
  shows "db_ok (d\<lparr>device_auth := update_where P f (device_auth d)\<rparr>)"
proof -
  let ?d = "d\<lparr>device_auth := update_where P f (device_auth d)\<rparr>"
  have same: "has_account ?d = has_account d" "has_store ?d = has_store d" "has_token ?d = has_token d"
    by (auto simp: has_account_def has_store_def has_token_def)
  have "has_account d b" if "x \<in> set (device_auth ?d)" "d_account_id x = Some b" for x b
  proof -
    have "\<exists>y \<in> set (device_auth d). x = (if P y then f y else y)"
      using that(1) by (simp add: set_update_where)
    then obtain y where y: "y \<in> set (device_auth d)" "x = (if P y then f y else y)" by blast
    have old: "d_account_id y = Some b \<Longrightarrow> has_account d b" using assms(5) y(1) by (auto simp: db_ok_def refs_ok_def)
    show ?thesis
    proof (cases "P y \<and> d_account_id (f y) = Some a \<and> d_account_id (f y) \<noteq> d_account_id y")
      case True
      then show ?thesis using that(2) y(2) assms(4) by auto
    next
      case False
      then show ?thesis using that(2) y(2) old assms(3) [of y] by (auto split: if_splits)
    qed
  qed
  then have "refs_ok ?d" using assms(5) unfolding db_ok_def refs_ok_def same by simp
  moreover have "keys_ok ?d" using assms(1,2,5) by (simp add: db_ok_def keys_ok_def map_update_where)
  ultimately show ?thesis by (simp add: db_ok_def)
qed

lemma db_ok_approve [db_intros]: "approve_device e d u a = Inr (b, d') \<Longrightarrow> db_ok d \<Longrightarrow> db_ok d'"
  by (auto simp: approve_device_def Let_def split: option.splits if_splits intro!: db_ok_update_devices [where a = a])

lemma db_ok_poll [db_intros]: "db_ok d \<Longrightarrow> db_ok (snd (poll_device_token e d c))"
proof -
  assume ok: "db_ok d"
  have upd: "db_ok (d\<lparr>device_auth := update_where P (\<lambda>x. x\<lparr>d_last_polled_at := t\<rparr>) (device_auth d)\<rparr>)" for P t
    by (rule db_ok_update_devices) (use ok in auto)
  have del: "db_ok (d\<lparr>device_auth := delete_where Q (update_where P (\<lambda>x. x\<lparr>d_last_polled_at := t\<rparr>) (device_auth d))\<rparr>)" for P Q t
    using db_ok_delete_devices [OF upd [of P t], of Q] by simp
  show ?thesis
    using ok upd del by (auto simp: poll_device_token_def Let_def split: option.splits)
qed

lemma code_char_upper: "code_char c \<Longrightarrow> upper_char c = [c]"
  by (auto simp: code_char_def upper_char_def Let_def)

lemma normalize_code_chars: "list_all code_char s \<Longrightarrow> filter code_char (to_upper s) = s"
  by (induction s) (auto simp: to_upper_def code_char_upper)

lemma dash_upper: "upper_char (CHR ''-'') = ''-''" "\<not> code_char (CHR ''-'')"
  by (simp_all add: upper_char_def code_char_def char_code_def Let_def)

lemma normalize_regroup:
  "list_all code_char s \<Longrightarrow> length s = 8 \<Longrightarrow> normalize_user_code (regroup_code s) = regroup_code s"
proof -
  assume a: "list_all code_char s" and l: "length s = 8"
  have t: "list_all code_char (take 4 s)" "list_all code_char (drop 4 s)"
    using a by (auto simp: list_all_iff dest: in_set_takeD in_set_dropD)
  have "filter code_char (to_upper (regroup_code s)) = take 4 s @ drop 4 s"
    using normalize_code_chars [OF t(1)] normalize_code_chars [OF t(2)]
    by (simp add: regroup_code_def to_upper_def dash_upper)
  then show ?thesis using l by (simp add: normalize_user_code_def)
qed

lemma regroup_chars:
  "list_all code_char r \<Longrightarrow> list_all (\<lambda>c. code_char c \<or> c = CHR ''-'') (regroup_code r)"
  by (auto simp: regroup_code_def list_all_iff dest: in_set_takeD in_set_dropD)

lemma alphabet_code_chars: "list_all code_char user_code_alphabet"
  by (simp add: user_code_alphabet_def code_char_def char_code_def Let_def)

lemma length_alphabet: "length user_code_alphabet = 32"
  by (simp add: user_code_alphabet_def)

text \<open>
  A user code typed in any case, with any separators, finds the grant it was minted for:
  a minted code is a normal form, normalising is idempotent, and lower case, blanks and dashes
  do not matter.
\<close>

lemma user_code_normal_form:
  assumes "length bytes = 8"
  shows "normalize_user_code (random_user_code bytes) = random_user_code bytes \<and>
    normalize_user_code (normalize_user_code s) = normalize_user_code s \<and>
    normalize_user_code (map lower_char (random_user_code bytes)) = random_user_code bytes"
proof -
  let ?r = "map (\<lambda>b. user_code_alphabet ! (b mod length user_code_alphabet)) (take 8 bytes)"
  have "?r ! i \<in> set user_code_alphabet" if "i < 8" for i
    using that assms by (simp add: length_alphabet)
  then have r: "list_all code_char ?r" "length ?r = 8"
    using alphabet_code_chars assms by (auto simp: list_all_iff length_alphabet)
  have idem: "normalize_user_code (normalize_user_code s) = normalize_user_code s"
  proof (cases "length (filter code_char (to_upper s)) = 8")
    case True
    then show ?thesis using normalize_regroup [of "filter code_char (to_upper s)"]
      by (simp add: normalize_user_code_def list_all_iff)
  next
    case False
    have "filter code_char (to_upper (filter code_char (to_upper s))) = filter code_char (to_upper s)"
      by (rule normalize_code_chars) (simp add: list_all_iff)
    then show ?thesis using False by (simp add: normalize_user_code_def)
  qed
  have low: "filter code_char (upper_char (lower_char c)) = filter code_char (upper_char c)" if "code_char c \<or> c = CHR ''-''" for c
  proof (cases "65 \<le> char_code c \<and> char_code c \<le> 90")
    case True
    then show ?thesis
      by (simp add: lower_char_def upper_char_def Let_def code_of_char)
  next
    case False
    then have "lower_char c = c" using that
      by (auto simp: lower_char_def code_char_def Let_def char_code_def)
    then show ?thesis by simp
  qed
  have "filter code_char (to_upper (map lower_char t)) = filter code_char (to_upper t)"
    if "list_all (\<lambda>c. code_char c \<or> c = CHR ''-'') t" for t
    using that by (induction t) (auto simp: to_upper_def low)
  moreover have "list_all (\<lambda>c. code_char c \<or> c = CHR ''-'') (regroup_code ?r)"
    by (rule regroup_chars) (rule r(1))
  ultimately have "normalize_user_code (map lower_char (regroup_code ?r)) = normalize_user_code (regroup_code ?r)"
    by (simp add: normalize_user_code_def)
  then show ?thesis using idem normalize_regroup [OF r] by (simp add: random_user_code_def)
qed

text \<open>
  C33. A grant is delivered at most once and only to an approved account: a poll delivers
  an account only when an approval for it stands in the row and the row has not expired, the
  delivery consumes the row, and every later poll of the same code reads as expired.
\<close>

theorem device_single_delivery:
  assumes "poll_device_token e d code = (Delivered account label, d')"
  shows "(\<exists>row \<in> set (device_auth d). d_device_code row = code \<and> d_status row = Approved \<and>
        d_account_id row = Some account \<and> d_label row = label \<and> \<not> time_before_now e (d_expires_at row)) \<and>
    poll_device_token e2 d' code = (Expired, d')"
proof -
  obtain row where row: "find (\<lambda>x. d_device_code x = code) (device_auth d) = Some row"
    "\<not> time_before_now e (d_expires_at row)" "d_status row = Approved" "truthy (d_account_id row)"
    "account = the (d_account_id row)" "label = d_label row"
    and d': "\<forall>x \<in> set (device_auth d'). d_device_code x \<noteq> code"
    using assms by (auto simp: poll_device_token_def Let_def split: option.splits if_splits)
  have "find (\<lambda>x. d_device_code x = code) (device_auth d') = None"
    using d' by (auto simp: find_None_iff)
  then have "poll_device_token e2 d' code = (Expired, d')" by (simp add: poll_device_token_def)
  moreover have "row \<in> set (device_auth d)" "d_device_code row = code" using find_SomeD [OF row(1)] by auto
  moreover have "d_account_id row = Some account" using row(4,5) by (auto simp: truthy_def)
  ultimately show ?thesis using row by blast
qed

text \<open>
  Polling is paced: after a poll that answers pending, any poll of the same code less than
  the interval later is told to slow down and leaves the row as it is, unless the grant has
  expired by then.
\<close>

lemma device_polling_paced:
  assumes "poll_device_token e d code = (Poll_pending, d')" "in_range (now e)"
    and "now e \<le> now e2" "now e2 < now e + interval_s * 1000"
  shows "snd (poll_device_token e2 d' code) = d' \<and> fst (poll_device_token e2 d' code) \<in> {Slow_down, Expired}"
proof -
  obtain row where row: "find (\<lambda>x. d_device_code x = code) (device_auth d) = Some row"
    and d': "device_auth d' = update_where (\<lambda>x. d_device_code x = code)
                        (\<lambda>x. x\<lparr>d_last_polled_at := Some (now_iso e)\<rparr>) (device_auth d)"
    using assms(1) by (auto simp: poll_device_token_def Let_def split: option.splits if_splits)
  have "d_device_code row = code" using find_SomeD [OF row] by simp
  then have f: "find (\<lambda>x. d_device_code x = code) (device_auth d') = Some (row\<lparr>d_last_polled_at := Some (now_iso e)\<rparr>)"
    unfolding d' by (subst find_update_where) (simp_all add: row)
  have "polled_too_soon e2 (Some (now_iso e))"
    using assms(2-4) by (simp add: polled_too_soon_def) (simp add: now_iso_def)
  then show ?thesis using f by (auto simp: poll_device_token_def)
qed

end
