(* ===== verification/Gateway_Proxy.thy ===== *)
theory Gateway_Proxy
  imports Gateway_Device
begin

text \<open>
  \<open>packages/gateway/src/proxy.ts\<close> and \<open>usage.ts\<close>: the data plane. The relay is reached by
  \<open>fetch\<close>, an argument: it maps a request and the state of the world behind it to a status and a
  body, or to no answer. Metering keeps one row per store and UTC day.
\<close>

type_synonym 'w fetch = "request \<Rightarrow> 'w \<Rightarrow> (nat \<times> string) option \<times> 'w"

subsection \<open>Usage\<close>

definition utc_day :: "nat \<Rightarrow> string" where
  "utc_day ms = take 10 (iso ms)"

definition record_usage :: "env \<Rightarrow> db \<Rightarrow> string \<Rightarrow> nat \<Rightarrow> nat \<Rightarrow> db" where
  "record_usage e d sid bytes_in bytes_out =
     (let day = utc_day (now e); hit = (\<lambda>u. u_day u = day \<and> u_store_id u = sid)
      in if list_ex hit (usage_daily d)
         then d\<lparr>usage_daily := update_where hit
                (\<lambda>u. u\<lparr>u_requests := u_requests u + 1, u_bytes_in := u_bytes_in u + bytes_in,
                       u_bytes_out := u_bytes_out u + bytes_out\<rparr>) (usage_daily d)\<rparr>
         else d\<lparr>usage_daily := usage_daily d @
                [\<lparr>u_day = day, u_store_id = sid, u_requests = 1, u_bytes_in = bytes_in,
                  u_bytes_out = bytes_out\<rparr>]\<rparr>)"

text \<open>\<open>ORDER BY day DESC, bytes_out DESC\<close>: the outer key is sorted last, and stably.\<close>

definition usage_since :: "db \<Rightarrow> string \<Rightarrow> usage_row list" where
  "usage_since d since_day =
     order_desc u_day (order_desc u_bytes_out (filter (\<lambda>u. since_day \<le> u_day u) (usage_daily d)))"

lemma db_ok_usage [db_intros]: "db_ok d \<Longrightarrow> db_ok (record_usage e d s i j)"
proof -
  assume ok: "db_ok d"
  have k: "db_ok (d\<lparr>usage_daily := rows\<rparr>)" if "distinct (map (\<lambda>u. (u_day u, u_store_id u)) rows)" for rows
    using ok that by (simp add: ok_defs)
  moreover have "distinct (map (\<lambda>u. (u_day u, u_store_id u)) (usage_daily d))"
    using ok by (simp add: db_ok_def keys_ok_def)
  ultimately show ?thesis
    by (auto simp: record_usage_def Let_def map_update_where list_ex_iff intro!: k) fastforce
qed

text \<open>The rows of a store and day add up to what was recorded.\<close>

definition metered :: "(usage_row \<Rightarrow> nat) \<Rightarrow> db \<Rightarrow> string \<Rightarrow> string \<Rightarrow> nat" where
  "metered f d day sid = sum_list (map f (filter (\<lambda>u. u_day u = day \<and> u_store_id u = sid) (usage_daily d)))"

lemma metered_update:
  fixes f :: "usage_row \<Rightarrow> nat" and day day' sid sid' :: string
  defines "S \<equiv> \<lambda>rows. sum_list (map f (filter (\<lambda>u. u_day u = day' \<and> u_store_id u = sid') rows))"
    and "U \<equiv> update_where (\<lambda>u. u_day u = day \<and> u_store_id u = sid)"
  assumes "distinct (map (\<lambda>u. (u_day u, u_store_id u)) rows)" "u0 \<in> set rows" "u_day u0 = day" "u_store_id u0 = sid"
    and "\<And>u. u_day (g u) = u_day u" "\<And>u. u_store_id (g u) = u_store_id u" "\<And>u. f (g u) = f u + k"
  shows "S (U g rows) = S rows + (if day' = day \<and> sid' = sid then k else 0)"
  using assms(3,4)
proof (induction rows)
  case (Cons u rows)
  have S: "S (x # xs) = (if u_day x = day' \<and> u_store_id x = sid' then f x else 0) + S xs" for x xs
    by (simp add: S_def)
  show ?case
  proof (cases "u_day u = day \<and> u_store_id u = sid")
    case True
    then have "\<forall>x \<in> set rows. \<not> (u_day x = day \<and> u_store_id x = sid)"
      using Cons.prems(1) by (metis (no_types, lifting) distinct.simps(2) image_eqI list.simps(9) set_map)
    then have "U g rows = rows" unfolding U_def update_where_def by (intro map_idI) auto
    then have "U g (u # rows) = g u # rows" using True by (simp add: U_def update_where_def)
    then show ?thesis using True assms(7-9) by (auto simp: S)
  next
    case False
    then have "u0 \<in> set rows" using Cons.prems(2) assms(5,6) by auto
    then have "S (U g rows) = S rows + (if day' = day \<and> sid' = sid then k else 0)"
      using Cons.IH Cons.prems(1) by simp
    moreover have "U g (u # rows) = u # U g rows" using False by (auto simp: U_def update_where_def)
    ultimately show ?thesis by (simp add: S)
  qed
qed simp

text \<open>
  Metering counts every forwarded request once: recording adds one request and the given
  bytes to the row of that store and today, and leaves every other store and day as it was.
\<close>

lemma usage_accounting:
  assumes "db_ok d"
  shows "metered u_requests (record_usage e d sid i j) day s =
       metered u_requests d day s + (if day = utc_day (now e) \<and> s = sid then 1 else 0) \<and>
     metered u_bytes_in (record_usage e d sid i j) day s =
       metered u_bytes_in d day s + (if day = utc_day (now e) \<and> s = sid then i else 0) \<and>
     metered u_bytes_out (record_usage e d sid i j) day s =
       metered u_bytes_out d day s + (if day = utc_day (now e) \<and> s = sid then j else 0)"
proof -
  let ?hit = "\<lambda>u. u_day u = utc_day (now e) \<and> u_store_id u = sid"
  have dist: "distinct (map (\<lambda>u. (u_day u, u_store_id u)) (usage_daily d))"
    using assms by (simp add: db_ok_def keys_ok_def)
  show ?thesis
  proof (cases "list_ex ?hit (usage_daily d)")
    case True
    then obtain u0 where u0: "u0 \<in> set (usage_daily d)" "u_day u0 = utc_day (now e)" "u_store_id u0 = sid"
      by (auto simp: list_ex_iff)
    let ?g = "\<lambda>u. u\<lparr>u_requests := u_requests u + 1, u_bytes_in := u_bytes_in u + i, u_bytes_out := u_bytes_out u + j\<rparr>"
    have r: "record_usage e d sid i j = d\<lparr>usage_daily := update_where ?hit ?g (usage_daily d)\<rparr>"
      using True by (simp add: record_usage_def Let_def)
    note m = metered_update [OF dist u0, where g = ?g]
    show ?thesis
      using m [where f = u_requests and k = 1] m [where f = u_bytes_in and k = i] m [where f = u_bytes_out and k = j]
      by (simp add: r metered_def)
  next
    case False
    then show ?thesis by (auto simp: record_usage_def Let_def metered_def)
  qed
qed

subsection \<open>Forwarding\<close>

definition max_proxy_body_bytes :: nat where
  "max_proxy_body_bytes = 10 * 1024 * 1024"

definition forwarded :: "gateway_config \<Rightarrow> request \<Rightarrow> string \<Rightarrow> request" where
  "forwarded c req body =
     \<lparr>meth = meth req, path = path req, query = query req,
      auth_header = (if truthy (gc_relay_token c) then Some (''Bearer '' @ the (gc_relay_token c)) else None),
      cookie_header = None, host_header = None, chunks = (if body = [] then [] else [body])\<rparr>"

definition touch_principal :: "env \<Rightarrow> db \<Rightarrow> principal \<Rightarrow> db" where
  "touch_principal e d p = (if truthy (pr_token_id p) then touch_token e d (the (pr_token_id p)) else d)"

text \<open>The request goes out, and its answer comes back unchanged; the token and the meter follow.\<close>

definition forward_events ::
  "env \<Rightarrow> gateway_config \<Rightarrow> 'w fetch \<Rightarrow> request \<Rightarrow> string \<Rightarrow> principal \<Rightarrow> string \<Rightarrow> db \<Rightarrow> 'w \<Rightarrow> handled \<times> 'w" where
  "forward_events e c fetch req sid p body d w =
     (case fetch (forwarded c req body) w of
        (None, w') \<Rightarrow> (refuse d 502 ''relay unreachable'', w')
      | (Some (status, text), w') \<Rightarrow>
          ((Some (Raw status text),
            record_usage e (touch_principal e d p) sid (length body) (length (utf8 text))), w'))"

definition handle_events_proxy ::
  "env \<Rightarrow> gateway_config \<Rightarrow> 'w fetch \<Rightarrow> request \<Rightarrow> string \<Rightarrow> db \<Rightarrow> 'w \<Rightarrow> handled \<times> 'w" where
  "handle_events_proxy e c fetch req sid d w =
     (case resolve_key_principal e d req of
        None \<Rightarrow> (refuse d 401 ''missing or invalid API key'', w)
      | Some p \<Rightarrow>
          if \<not> is_valid_store_id sid then (refuse d 400 ''invalid store id'', w)
          else (case authorize d p (if meth req = ''POST'' then Write else Read) (Store sid) of
              None \<Rightarrow> (thrown d, w)
            | Some (Deny n msg) \<Rightarrow> (refuse d n msg, w)
            | Some Allow \<Rightarrow>
                if meth req = ''POST'' then
                  (case read_body req max_proxy_body_bytes of
                     None \<Rightarrow> (refuse d 413 ''payload too large'', w)
                   | Some body \<Rightarrow> forward_events e c fetch req sid p body d w)
                else forward_events e c fetch req sid p [] d w))"

subsection \<open>Store discovery\<close>

definition store_answer :: "string \<Rightarrow> json" where
  "store_answer sid = JObj [(''storeId'', JStr sid), (''eventsUrl'', JStr (events_url sid))]"

definition handle_personal_store :: "env \<Rightarrow> request \<Rightarrow> db \<Rightarrow> handled" where
  "handle_personal_store e req d =
     (case resolve_key_principal e d req of
        None \<Rightarrow> refuse d 401 ''missing or invalid API key''
      | Some p \<Rightarrow>
          if pr_scoped p then refuse d 403 ''this key is not scoped for personal memory''
          else run_sql d (get_or_create_personal_store e d (pr_account_id p)) (\<lambda>(d', ps).
                 reply (touch_principal e d' p) 200 (store_answer (ps_store_id ps))))"

definition handle_derived_store :: "env \<Rightarrow> request \<Rightarrow> string \<Rightarrow> string \<Rightarrow> db \<Rightarrow> handled" where
  "handle_derived_store e req parent kind d =
     (case resolve_key_principal e d req of
        None \<Rightarrow> refuse d 401 ''missing or invalid API key''
      | Some p \<Rightarrow>
          if \<not> is_valid_store_id parent then refuse d 400 ''invalid store id''
          else if \<not> is_workspace_store_id parent \<and> \<not> is_personal_store_id parent
          then refuse d 400 ''invalid parent store id''
          else if \<not> is_artifact_kind kind then refuse d 400 ''unknown artifact kind''
          else if_allowed d p Read (Store parent)
            (run_sql d (get_or_create_derived_store e d parent kind) (\<lambda>(d', ds).
               reply (touch_principal e d' p) 200 (store_answer (ds_store_id ds)))))"

lemma db_ok_touch_principal [db_intros]: "db_ok d \<Longrightarrow> db_ok (touch_principal e d p)"
  by (simp add: touch_principal_def db_ok_touch)

lemma derived_after_touch [simp]:
  "derived_stores (touch_principal e d p) = derived_stores d"
  "memberships (touch_principal e d p) = memberships d"
  by (simp_all add: touch_principal_def touch_token_def)

lemma derived_found:
  assumes "get_or_create_derived_store e d parent kind = Inr (d', ds)" "db_ok d"
  shows "get_derived_store_parent d' (ds_store_id ds) = Some (parent, kind)"
    "set (derived_stores d') \<subseteq> insert \<lparr>dr_parent = parent, dr_kind = kind, dr_store_id = ds_store_id ds, dr_created_at = ds_created_at ds\<rparr> (set (derived_stores d))"
proof -
  have ok: "db_ok d'" using assms by (blast intro: db_intros)
  have inj: "inj_on dr_store_id (set (derived_stores d'))" using ok by (simp add: db_ok_def keys_ok_def distinct_map)
  have "\<exists>r \<in> set (derived_stores d'). dr_parent r = parent \<and> dr_kind r = kind \<and> dr_store_id r = ds_store_id ds"
    using assms(1)
    by (auto simp: get_or_create_derived_store_def Let_def and_then_Inr insert_derived_def
        split: option.splits if_splits dest!: find_SomeD)
  then obtain r where r: "r \<in> set (derived_stores d')" "dr_parent r = parent" "dr_kind r = kind" "dr_store_id r = ds_store_id ds"
    by blast
  obtain q where q: "find (\<lambda>x. dr_store_id x = ds_store_id ds) (derived_stores d') = Some q"
    using r by (cases "find (\<lambda>x. dr_store_id x = ds_store_id ds) (derived_stores d')") (auto simp: find_None_iff)
  have "q = r" using find_SomeD [OF q] r inj by (metis inj_onD)
  then show "get_derived_store_parent d' (ds_store_id ds) = Some (parent, kind)"
    using q r by (simp add: get_derived_store_parent_def)
  show "set (derived_stores d') \<subseteq> insert \<lparr>dr_parent = parent, dr_kind = kind, dr_store_id = ds_store_id ds, dr_created_at = ds_created_at ds\<rparr> (set (derived_stores d))"
    using assms(1)
    by (auto simp: get_or_create_derived_store_def Let_def and_then_Inr insert_derived_def
        split: option.splits if_splits)
qed

text \<open>
  Asking for a sidecar store never chains bindings: the store it answers with is bound to the
  requested workspace or personal store, the gate decides for it what it decides for that
  parent, and every binding's parent stays a real store.
\<close>

lemma derived_store_inherits:
  assumes "db_ok d" "parents_ok d"
    and "handle_derived_store e req parent kind d = (Some (Json 200 (store_answer sid)), d')"
    and "is_derived_store_id sid"
  shows "parents_ok d' \<and> get_derived_store_parent d' sid = Some (parent, kind) \<and>
    (\<forall>p act. authorize d' p act (Store sid) = authorize d' p act (Store parent))"
proof -
  obtain p d1 ds where p: "is_workspace_store_id parent \<or> is_personal_store_id parent"
    and ds: "get_or_create_derived_store e d parent kind = Inr (d1, ds)"
    and d': "d' = touch_principal e d1 p" "sid = ds_store_id ds"
    using assms(3)
    by (auto simp: handle_derived_store_def if_allowed_def run_sql_def reply_def refuse_def send_error_def
        thrown_def store_answer_def split: option.splits if_splits decision.splits sum.splits)
  have g: "get_derived_store_parent d' sid = Some (parent, kind)"
    using derived_found(1) [OF ds assms(1)] by (simp add: d' get_derived_store_parent_def)
  moreover have "parents_ok d'"
    using derived_found(2) [OF ds assms(1)] assms(2) p by (auto simp: parents_ok_def d'(1))
  ultimately show ?thesis using authorize_derived [OF assms(4)] by blast
qed

lemma proxy_forwards:
  assumes "handle_events_proxy e c fetch req sid d w = (h, w')" "w' \<noteq> w"
  shows "\<exists>p body. resolve_key_principal e d req = Some p \<and> is_valid_store_id sid \<and>
    authorize d p (if meth req = ''POST'' then Write else Read) (Store sid) = Some Allow \<and>
    (if meth req = ''POST'' then read_body req max_proxy_body_bytes = Some body else body = []) \<and>
    w' = snd (fetch (forwarded c req body) w)"
proof -
  have out: "snd (forward_events e c fetch req sid p body d w) = snd (fetch (forwarded c req body) w)" for p body
    by (auto simp: forward_events_def split: prod.splits option.splits)
  obtain p where p: "resolve_key_principal e d req = Some p" "is_valid_store_id sid"
    "authorize d p (if meth req = ''POST'' then Write else Read) (Store sid) = Some Allow"
    using assms by (auto simp: handle_events_proxy_def split: option.splits if_splits decision.splits)
  show ?thesis
  proof (cases "meth req = ''POST''")
    case True
    then obtain body where "read_body req max_proxy_body_bytes = Some body"
      "forward_events e c fetch req sid p body d w = (h, w')"
      using assms p by (auto simp: handle_events_proxy_def split: option.splits)
    then show ?thesis using p True out [of p body] by auto
  next
    case False
    then have "forward_events e c fetch req sid p [] d w = (h, w')"
      using assms p by (simp add: handle_events_proxy_def)
    then show ?thesis using p False out [of p "[]"] by auto
  qed
qed

text \<open>
  C34. What reaches the relay through the gateway: nothing, unless the key is known, the path id is
  well-formed and the gate allows the store; and then one request with exactly the caller's method,
  path, query and body, no cookie, and an Authorization header that is the gateway's own relay token
  when one is configured and is missing when none is, never the caller's key.
\<close>

theorem proxy_forwards_only_allowed:
  assumes "handle_events_proxy e c fetch req sid d w = (h, w')" "w' \<noteq> w"
  shows "\<exists>p body. resolve_key_principal e d req = Some p \<and> is_valid_store_id sid \<and>
    authorize d p (if meth req = ''POST'' then Write else Read) (Store sid) = Some Allow \<and>
    (if meth req = ''POST'' then read_body req max_proxy_body_bytes = Some body else body = []) \<and>
    (\<exists>q. w' = snd (fetch q w) \<and> meth q = meth req \<and> path q = path req \<and> query q = query req \<and>
      concat (chunks q) = body \<and> cookie_header q = None \<and>
      auth_header q = (if truthy (gc_relay_token c) then Some (''Bearer '' @ the (gc_relay_token c)) else None))"
proof -
  have q: "meth (forwarded c req b) = meth req \<and> path (forwarded c req b) = path req \<and>
      query (forwarded c req b) = query req \<and> concat (chunks (forwarded c req b)) = b \<and>
      cookie_header (forwarded c req b) = None \<and>
      auth_header (forwarded c req b) = (if truthy (gc_relay_token c) then Some (''Bearer '' @ the (gc_relay_token c)) else None)" for b
    by (simp add: forwarded_def)
  then show ?thesis using proxy_forwards [OF assms] by blast
qed

end
