(* ===== verification/Gateway_Overview.thy ===== *)
theory Gateway_Overview
  imports Gateway_Proxy
begin

text \<open>
  \<open>packages/gateway/src/overview.ts\<close>: the operator's read-only aggregates: counts, the relay's
  storage snapshot, recent traffic, and the attribution of usage to accounts. The loops that fill
  the billing rows are folds over the rows, as in the code; the closed form is a theorem.
\<close>

subsection \<open>Counts and traffic\<close>

record counts =
  co_accounts :: nat
  co_private :: nat
  co_shared :: nat
  co_members :: nat
  co_keys_active :: nat
  co_keys_revoked :: nat
  co_personal :: nat

definition count_where :: "('r \<Rightarrow> bool) \<Rightarrow> 'r list \<Rightarrow> nat" where
  "count_where P rows = length (filter P rows)"

definition control_plane_counts :: "db \<Rightarrow> counts" where
  "control_plane_counts d =
     \<lparr>co_accounts = length (accounts d),
      co_private = count_where (\<lambda>s. \<not> s_invite_reachable s) (stores d),
      co_shared = count_where s_invite_reachable (stores d),
      co_members = length (memberships d),
      co_keys_active = count_where (\<lambda>t. t_revoked_at t = None) (api_tokens d),
      co_keys_revoked = count_where (\<lambda>t. t_revoked_at t \<noteq> None) (api_tokens d),
      co_personal = length (personal_stores d)\<rparr>"

record traffic =
  tr_days :: nat
  tr_requests :: nat
  tr_bytes_in :: nat
  tr_bytes_out :: nat
  tr_rows :: "usage_row list"

definition traffic_since :: "db \<Rightarrow> nat \<Rightarrow> nat \<Rightarrow> traffic" where
  "traffic_since d days now_ms =
     (let since = utc_day (now_ms - days * 24 * 60 * 60 * 1000);
          rows = usage_since d since;
          (r, i, j) = foldl (\<lambda>(r, i, j) u. (r + u_requests u, i + u_bytes_in u, j + u_bytes_out u)) (0, 0, 0) rows
      in \<lparr>tr_days = days, tr_requests = r, tr_bytes_in = i, tr_bytes_out = j, tr_rows = rows\<rparr>)"

subsection \<open>The relay's storage snapshot\<close>

record store_size =
  sz_store_id :: string
  sz_events :: int
  sz_bytes :: int

text \<open>An entry of another shape is outside the model and is left out.\<close>

definition json_num :: "string \<Rightarrow> json \<Rightarrow> int option" where
  "json_num k v = (case jget k v of Some (JNum n) \<Rightarrow> Some n | _ \<Rightarrow> None)"

definition decode_size :: "json \<Rightarrow> store_size list" where
  "decode_size v =
     (case (jget_str ''storeId'' v, json_num ''events'' v, json_num ''bytes'' v) of
        (Some s, Some n, Some b) \<Rightarrow> [\<lparr>sz_store_id = s, sz_events = n, sz_bytes = b\<rparr>]
      | _ \<Rightarrow> [])"

definition decode_sizes :: "json \<Rightarrow> store_size list" where
  "decode_sizes data = (case jget ''stores'' data of Some (JArr vs) \<Rightarrow> concat (map decode_size vs) | _ \<Rightarrow> [])"

definition stats_request :: "gateway_config \<Rightarrow> request" where
  "stats_request c =
     \<lparr>meth = ''GET'', path = ''/v1/stats'', query = [],
      auth_header = (if truthy (gc_relay_token c) then Some (''Bearer '' @ the (gc_relay_token c)) else None),
      cookie_header = None, host_header = None, chunks = []\<rparr>"

text \<open>The parsed answer: \<open>None\<close> is unreachable, an error status or a body that is no JSON object.\<close>

definition fetch_stats :: "gateway_config \<Rightarrow> 'w fetch \<Rightarrow> 'w \<Rightarrow> json option" where
  "fetch_stats c fetch w =
     (case fst (fetch (stats_request c) w) of
        None \<Rightarrow> None
      | Some (status, text) \<Rightarrow>
          if 200 \<le> status \<and> status < 300
          then Option.bind (json_parse text) (\<lambda>v. if is_obj v then Some v else None) else None)"

record relay_storage =
  rs_reachable :: bool
  rs_stores :: int
  rs_events :: int
  rs_bytes :: int
  rs_top :: "store_size list"

definition empty_storage :: relay_storage where
  "empty_storage = \<lparr>rs_reachable = False, rs_stores = 0, rs_events = 0, rs_bytes = 0, rs_top = []\<rparr>"

definition fetch_relay_storage :: "gateway_config \<Rightarrow> 'w fetch \<Rightarrow> 'w \<Rightarrow> relay_storage" where
  "fetch_relay_storage c fetch w =
     (case fetch_stats c fetch w of
        None \<Rightarrow> empty_storage
      | Some data \<Rightarrow>
          (let total = (\<lambda>k. case Option.bind (jget ''totals'' data) (json_num k) of Some n \<Rightarrow> n | None \<Rightarrow> 0)
           in \<lparr>rs_reachable = True, rs_stores = total ''stores'', rs_events = total ''events'',
               rs_bytes = total ''bytes'', rs_top = take 8 (decode_sizes data)\<rparr>))"

definition fetch_relay_store_sizes :: "gateway_config \<Rightarrow> 'w fetch \<Rightarrow> 'w \<Rightarrow> (string \<times> int) list option" where
  "fetch_relay_store_sizes c fetch w =
     map_option (\<lambda>data. js_index sz_store_id sz_bytes (decode_sizes data) []) (fetch_stats c fetch w)"

record overview =
  ov_counts :: counts
  ov_storage :: relay_storage
  ov_traffic :: traffic

definition gather_overview :: "env \<Rightarrow> gateway_config \<Rightarrow> 'w fetch \<Rightarrow> db \<Rightarrow> 'w \<Rightarrow> overview" where
  "gather_overview e c fetch d w =
     \<lparr>ov_counts = control_plane_counts d, ov_storage = fetch_relay_storage c fetch w,
      ov_traffic = traffic_since d 7 (now e)\<rparr>"

subsection \<open>Accounts\<close>

record account_summary =
  su_account_id :: string
  su_email :: string
  su_created_at :: string
  su_owned :: nat
  su_joined :: nat
  su_keys_active :: nat
  su_personal :: bool

definition list_accounts :: "db \<Rightarrow> account_summary list" where
  "list_accounts d =
     map (\<lambda>a. \<lparr>su_account_id = a_id a, su_email = a_email a, su_created_at = a_created_at a,
              su_owned = count_where (\<lambda>m. m_account_id m = a_id a \<and> m_role m = Owner) (memberships d),
              su_joined = count_where (\<lambda>m. m_account_id m = a_id a \<and> m_role m = Member) (memberships d),
              su_keys_active = count_where (\<lambda>t. t_account_id t = a_id a \<and> t_revoked_at t = None) (api_tokens d),
              su_personal = (0 < count_where (\<lambda>p. p_account_id p = a_id a) (personal_stores d))\<rparr>)
       (order_asc a_created_at (accounts d))"

subsection \<open>Billing\<close>

record billing_row =
  b_account_id :: string
  b_email :: string
  b_workspaces :: nat
  b_members :: nat
  b_stored_bytes :: int
  b_requests :: nat
  b_egress :: nat
  b_ingress :: nat

text \<open>Store to billed account: a workspace's creator, a personal store's account.\<close>

definition billing_owner :: "db \<Rightarrow> (string \<times> string) list" where
  "billing_owner d =
     js_index p_store_id p_account_id (personal_stores d) (js_index s_id s_created_by (stores d) [])"

definition empty_row :: "account_row \<Rightarrow> billing_row" where
  "empty_row a = \<lparr>b_account_id = a_id a, b_email = a_email a, b_workspaces = 0, b_members = 0,
     b_stored_bytes = 0, b_requests = 0, b_egress = 0, b_ingress = 0\<rparr>"

text \<open>\<open>const r = byId.get(acc); if (r) \<dots>\<close>: a missing account is skipped.\<close>

definition at_account :: "string \<Rightarrow> (billing_row \<Rightarrow> billing_row) \<Rightarrow> billing_row list \<Rightarrow> billing_row list" where
  "at_account acc f rows = update_where (\<lambda>r. b_account_id r = acc) f rows"

definition at_owner ::
  "(string \<times> string) list \<Rightarrow> string \<Rightarrow> (billing_row \<Rightarrow> billing_row) \<Rightarrow> billing_row list \<Rightarrow> billing_row list" where
  "at_owner owner sid f rows =
     (case map_of owner sid of
        None \<Rightarrow> rows | Some acc \<Rightarrow> if acc = [] then rows else at_account acc f rows)"

definition group_accounts :: "string list \<Rightarrow> (string \<times> nat) list" where
  "group_accounts accs = map (\<lambda>a. (a, length (filter (\<lambda>x. x = a) accs))) (remdups accs)"

definition store_creator :: "db \<Rightarrow> string \<Rightarrow> string list" where
  "store_creator d sid = map s_created_by (filter (\<lambda>s. s_id s = sid) (stores d))"

record billing =
  bl_days :: nat
  bl_relay_reachable :: bool
  bl_rows :: "billing_row list"

definition bill_usage :: "(string \<times> string) list \<Rightarrow> usage_row list \<Rightarrow> billing_row list \<Rightarrow> billing_row list" where
  "bill_usage owner us rows =
     foldl (\<lambda>rows u. at_owner owner (u_store_id u)
       (\<lambda>r. r\<lparr>b_requests := b_requests r + u_requests u, b_egress := b_egress r + u_bytes_out u,
              b_ingress := b_ingress r + u_bytes_in u\<rparr>) rows) rows us"

definition bill_storage :: "(string \<times> string) list \<Rightarrow> (string \<times> int) list \<Rightarrow> billing_row list \<Rightarrow> billing_row list" where
  "bill_storage owner sizes rows =
     foldl (\<lambda>rows (sid, bytes). at_owner owner sid (\<lambda>r. r\<lparr>b_stored_bytes := b_stored_bytes r + bytes\<rparr>) rows)
       rows sizes"

definition gather_billing :: "env \<Rightarrow> gateway_config \<Rightarrow> 'w fetch \<Rightarrow> nat \<Rightarrow> db \<Rightarrow> 'w \<Rightarrow> billing" where
  "gather_billing e c fetch days d w =
     (let sizes = fetch_relay_store_sizes c fetch w;
          owner = billing_owner d;
          rows0 = map empty_row (order_asc a_created_at (accounts d));
          rows1 = foldl (\<lambda>rows (acc, n). at_account acc (\<lambda>r. r\<lparr>b_workspaces := n\<rparr>) rows) rows0
                    (group_accounts (map s_created_by (stores d)));
          rows2 = foldl (\<lambda>rows (acc, n). at_account acc (\<lambda>r. r\<lparr>b_members := n\<rparr>) rows) rows1
                    (group_accounts (concat (map (\<lambda>m. store_creator d (m_store_id m)) (memberships d))));
          rows3 = bill_usage owner (usage_since d (utc_day (now e - days * 24 * 60 * 60 * 1000))) rows2
      in \<lparr>bl_days = days, bl_relay_reachable = (sizes \<noteq> None),
          bl_rows = (case sizes of None \<Rightarrow> rows3 | Some s \<Rightarrow> bill_storage owner s rows3)\<rparr>)"

subsection \<open>Facts\<close>

lemma foldl_traffic:
  "foldl (\<lambda>(r, i, j) u. (r + u_requests u, i + u_bytes_in u, j + u_bytes_out u)) (r0, i0, j0) us =
     (r0 + sum_list (map u_requests us), i0 + sum_list (map u_bytes_in us), j0 + sum_list (map u_bytes_out us))"
  by (induction us arbitrary: r0 i0 j0) auto

text \<open>A column summed over the table and its ordered listing agree.\<close>

lemma sum_list_order: "sum_list (map f (order_desc k rows)) = sum_list (map (f :: 'r \<Rightarrow> nat) rows)"
  by (metis mset_map mset_order(2) sum_mset_sum_list)

text \<open>The part of \<open>us\<close> billed to an account.\<close>

definition billed :: "(string \<times> string) list \<Rightarrow> (usage_row \<Rightarrow> nat) \<Rightarrow> string \<Rightarrow> usage_row list \<Rightarrow> nat" where
  "billed owner f acc us = sum_list (map f (filter (\<lambda>u. map_of owner (u_store_id u) = Some acc) us))"

lemma bill_usage_rows:
  assumes "[] \<notin> b_account_id ` set rows"
  shows "bill_usage owner us rows = map (\<lambda>r. r\<lparr>b_requests := b_requests r + billed owner u_requests (b_account_id r) us,
     b_egress := b_egress r + billed owner u_bytes_out (b_account_id r) us,
     b_ingress := b_ingress r + billed owner u_bytes_in (b_account_id r) us\<rparr>) rows"
  using assms
proof (induction us arbitrary: rows)
  case Nil
  then show ?case by (simp add: bill_usage_def billed_def)
next
  case (Cons u us)
  let ?f = "\<lambda>r. r\<lparr>b_requests := b_requests r + u_requests u, b_egress := b_egress r + u_bytes_out u,
              b_ingress := b_ingress r + u_bytes_in u\<rparr>"
  let ?rows = "at_owner owner (u_store_id u) ?f rows"
  have keep: "b_account_id ` set ?rows = b_account_id ` set rows"
    by (auto simp: at_owner_def at_account_def image_update_where split: option.splits)
  have one: "?rows = map (\<lambda>r. if map_of owner (u_store_id u) = Some (b_account_id r) then ?f r else r) rows"
    using Cons.prems by (auto simp: at_owner_def at_account_def update_where_def split: option.splits)
      (rule map_idI [symmetric], force)
  have "bill_usage owner (u # us) rows = bill_usage owner us ?rows" by (simp add: bill_usage_def)
  also have "\<dots> = map (\<lambda>r. r\<lparr>b_requests := b_requests r + billed owner u_requests (b_account_id r) us,
     b_egress := b_egress r + billed owner u_bytes_out (b_account_id r) us,
     b_ingress := b_ingress r + billed owner u_bytes_in (b_account_id r) us\<rparr>) ?rows"
    by (rule Cons.IH) (use Cons.prems keep in simp)
  also have "\<dots> = map (\<lambda>r. r\<lparr>b_requests := b_requests r + billed owner u_requests (b_account_id r) (u # us),
     b_egress := b_egress r + billed owner u_bytes_out (b_account_id r) (u # us),
     b_ingress := b_ingress r + billed owner u_bytes_in (b_account_id r) (u # us)\<rparr>) rows"
    unfolding one by (simp add: billed_def)
  finally show ?case .
qed

lemma billed_partition:
  assumes "distinct accs"
  shows "sum_list (map (\<lambda>a. billed owner f a us) accs) =
    sum_list (map f (filter (\<lambda>u. \<exists>a \<in> set accs. map_of owner (u_store_id u) = Some a) us))"
  using assms
proof (induction us)
  case (Cons u us)
  have "sum_list (map (\<lambda>a. billed owner f a (u # us)) accs) =
      sum_list (map (\<lambda>a. if map_of owner (u_store_id u) = Some a then f u else 0) accs) +
      sum_list (map (\<lambda>a. billed owner f a us) accs)"
    by (simp add: billed_def sum_list_addf [symmetric]) (rule arg_cong [of _ _ sum_list], simp)
  moreover have "sum_list (map (\<lambda>a. if map_of owner (u_store_id u) = Some a then f u else 0) accs) =
      (if \<exists>a \<in> set accs. map_of owner (u_store_id u) = Some a then f u else 0)"
    using Cons.prems by (induction accs) auto
  ultimately show ?case using Cons by simp
qed (simp add: billed_def)

lemma foldl_at_account:
  assumes "\<And>n r. b_account_id (g n r) = b_account_id r"
  shows "map b_account_id (foldl (\<lambda>rows (acc, n). at_account acc (g n) rows) rows xs) = map b_account_id rows"
  by (induction xs arbitrary: rows) (auto simp: at_account_def map_update_where assms)

lemma foldl_at_account_requests:
  assumes "\<And>n r. b_requests (g n r) = b_requests r"
  shows "map b_requests (foldl (\<lambda>rows (acc, n). at_account acc (g n) rows) rows xs) = map b_requests rows"
  by (induction xs arbitrary: rows) (auto simp: at_account_def map_update_where assms)

lemma bill_storage_requests: "map b_requests (bill_storage owner sizes rows) = map b_requests rows"
  by (induction sizes arbitrary: rows)
    (auto simp: bill_storage_def at_owner_def at_account_def map_update_where split: option.splits)

text \<open>
  Billing loses no request and invents none: over the window, the requests billed to the
  accounts add up to the metered requests of the stores that have a billed account; a store with
  no such account is in nobody's row.
\<close>

lemma billing_conserves_requests:
  assumes "db_ok d" "[] \<notin> a_id ` set (accounts d)"
  shows "sum_list (map b_requests (bl_rows (gather_billing e c fetch days d w))) =
    sum_list (map u_requests (filter
      (\<lambda>u. \<exists>a. map_of (billing_owner d) (u_store_id u) = Some a \<and> has_account d a)
      (usage_since d (utc_day (now e - days * 24 * 60 * 60 * 1000)))))"
proof -
  let ?us = "usage_since d (utc_day (now e - days * 24 * 60 * 60 * 1000))"
  let ?o = "billing_owner d"
  define rows2 where "rows2 = foldl (\<lambda>rows (acc, n). at_account acc (\<lambda>r. r\<lparr>b_members := n\<rparr>) rows)
     (foldl (\<lambda>rows (acc, n). at_account acc (\<lambda>r. r\<lparr>b_workspaces := n\<rparr>) rows)
        (map empty_row (order_asc a_created_at (accounts d))) (group_accounts (map s_created_by (stores d))))
     (group_accounts (concat (map (\<lambda>m. store_creator d (m_store_id m)) (memberships d))))"
  have ids: "map b_account_id rows2 = map a_id (order_asc a_created_at (accounts d))"
    unfolding rows2_def by (subst foldl_at_account, simp, subst foldl_at_account) (simp_all add: empty_row_def)
  have zero: "map b_requests rows2 = map (\<lambda>_. 0) (order_asc a_created_at (accounts d))"
    unfolding rows2_def
    by (subst foldl_at_account_requests, simp, subst foldl_at_account_requests) (simp_all add: empty_row_def)
  have ne: "[] \<notin> b_account_id ` set rows2" using assms(2) ids by (metis list.set_map set_order(1))
  have dist: "distinct (map b_account_id rows2)" using assms(1) by (simp add: ids db_ok_def keys_ok_def)
  have set: "set (map b_account_id rows2) = a_id ` set (accounts d)" by (simp only: ids) simp
  have "map b_requests (bl_rows (gather_billing e c fetch days d w)) = map b_requests (bill_usage ?o ?us rows2)"
    by (auto simp: gather_billing_def Let_def rows2_def bill_storage_requests split: option.splits)
  also have "\<dots> = map (\<lambda>r. b_requests r + billed ?o u_requests (b_account_id r) ?us) rows2"
    by (simp add: bill_usage_rows [OF ne])
  finally have "sum_list (map b_requests (bl_rows (gather_billing e c fetch days d w))) =
      sum_list (map b_requests rows2) + sum_list (map (\<lambda>a. billed ?o u_requests a ?us) (map b_account_id rows2))"
    by (simp add: sum_list_addf comp_def)
  also have "sum_list (map b_requests rows2) = 0" by (simp add: zero)
  also have "sum_list (map (\<lambda>a. billed ?o u_requests a ?us) (map b_account_id rows2)) =
      sum_list (map u_requests (filter (\<lambda>u. \<exists>a \<in> set (map b_account_id rows2). map_of ?o (u_store_id u) = Some a) ?us))"
    by (rule billed_partition [OF dist])
  finally show ?thesis unfolding set has_account_def by (simp add: Bex_def conj_commute)
qed

end
