(* ===== verification/Gateway_Pages.thy ===== *)
theory Gateway_Pages
  imports Gateway_Overview
begin

text \<open>
  The HTML of \<open>packages/gateway/src/views.ts\<close> and \<open>web.ts\<close>. A page is the sequence of its bytes:
  fixed text is written out as it is sent, text that comes from accounts, workspaces and requests
  is encoded as UTF-8 and, where the code calls \<open>htmlEscape\<close>, escaped; the two commute. The second
  part shows what escaping is for.
\<close>

subsection \<open>Text in a page\<close>

definition html_char :: "char \<Rightarrow> string" where
  "html_char c =
     (if c = CHR ''&'' then ''&amp;'' else if c = CHR ''<'' then ''&lt;''
      else if c = CHR ''>'' then ''&gt;'' else if c = dquote then ''&quot;''
      else if c = CHR 0x27 then ''&#39;'' else [c])"

definition html_escape :: "string \<Rightarrow> string" where
  "html_escape s = concat (map html_char s)"

fun html_unescape :: "string \<Rightarrow> string" where
  "html_unescape [] = []"
| "html_unescape (c # cs) =
     (if c \<noteq> CHR ''&'' then c # html_unescape cs
      else if take 4 cs = ''amp;'' then CHR ''&'' # html_unescape (drop 4 cs)
      else if take 3 cs = ''lt;'' then CHR ''<'' # html_unescape (drop 3 cs)
      else if take 3 cs = ''gt;'' then CHR ''>'' # html_unescape (drop 3 cs)
      else if take 5 cs = ''quot;'' then dquote # html_unescape (drop 5 cs)
      else if take 4 cs = ''#39;'' then CHR 0x27 # html_unescape (drop 4 cs)
      else c # html_unescape cs)"

definition utf8_text :: "string \<Rightarrow> string" where
  "utf8_text s = map char_of (utf8 s)"

definition escaped :: "string \<Rightarrow> string" where
  "escaped s = html_escape (utf8_text s)"

definition em_dash :: string where "em_dash = [CHR 0xE2, CHR 0x80, CHR 0x94]"

definition en_dash :: string where "en_dash = [CHR 0xE2, CHR 0x80, CHR 0x93]"

definition middle_dot :: string where "middle_dot = [CHR 0xC2, CHR 0xB7]"

definition check_mark :: string where "check_mark = [CHR 0xE2, CHR 0x9C, CHR 0x93]"

text \<open>\<open>toUpperCase\<close> of one code unit, encoded; three of them have no upper case among these units.\<close>

definition upper_text :: "char \<Rightarrow> string" where
  "upper_text c =
     (let n = char_code c
      in if n = 223 then ''SS''
         else if n = 255 then [CHR 0xC5, CHR 0xB8]
         else if n = 181 then [CHR 0xCE, CHR 0x9C]
         else if (97 \<le> n \<and> n \<le> 122) \<or> (224 \<le> n \<and> n \<noteq> 247) then utf8_text [char_of (n - 32)]
         else utf8_text [c])"

subsection \<open>Numbers\<close>

text \<open>\<open>toLocaleString('en-US')\<close>: a comma before every third digit from the right.\<close>

fun thousands :: "string \<Rightarrow> string" where
  "thousands (a # b # c # d # r) = a # b # c # CHR '','' # thousands (d # r)"
| "thousands ds = ds"

definition num :: "int \<Rightarrow> string" where
  "num n = (if n < 0 then ''-'' else []) @ rev (thousands (rev (nat_str (nat (abs n)))))"

text \<open>
  The loop of \<open>formatBytes\<close>: the divisor and how often it was multiplied. Dividing by 1024 is exact on
  the numbers of the code, and \<open>toFixed(1)\<close> rounds halves up.
\<close>

fun byte_scale :: "nat \<Rightarrow> int \<Rightarrow> int \<Rightarrow> int \<times> nat" where
  "byte_scale 0 n d = (d, 0)"
| "byte_scale (Suc k) n d =
     (if 1024 * d \<le> n then (let (d', u) = byte_scale k n (1024 * d) in (d', Suc u)) else (d, 0))"

definition tenths :: "int \<Rightarrow> int \<Rightarrow> int" where
  "tenths n d = (20 * n + d) div (2 * d)"

definition format_bytes :: "int \<Rightarrow> string" where
  "format_bytes n =
     (if n < 1024 then int_str n @ '' B''
      else (let (d, u) = byte_scale 3 n 1024; t = tenths n d
            in int_str (t div 10) @ ''.'' @ int_str (t mod 10) @ '' '' @ [''KB'', ''MB'', ''GB'', ''TB''] ! u))"

subsection \<open>The shell\<close>

definition github_url :: "string" where
  \<open>github_url = ''https://github.com/shakystar/memorize''\<close>

definition page_head :: "string \<Rightarrow> string" where
  \<open>page_head title =
     ''<!doctype html><html lang="en" class="bg-canvas text-fg"><head><meta charset="utf-8">\<newline>'' @
     ''<meta name="viewport" content="width=device-width, initial-scale=1">\<newline>'' @
     ''<title>'' @ html_escape title @ ''</title>\<newline>'' @
     ''<link rel="preconnect" href="https://fonts.googleapis.com">\<newline>'' @
     ''<link rel="preconnect" href="https://fonts.gstatic.com" crossorigin>\<newline>'' @
     ''<link href="https://fonts.googleapis.com/css2?family=Inter:wght@400;500;600;700&family=JetBrains+Mono:wght@400;500&display=swap" rel="stylesheet">\<newline>'' @
     ''<link rel="stylesheet" href="/assets/app.css">\<newline>'' @
     ''</head>''\<close>

definition account_menu :: "string option \<Rightarrow> string" where
  \<open>account_menu user =
     (case user of
        None \<Rightarrow> ''<a href="/app" class="text-fg-muted hover:text-fg hover:no-underline">Open app</a>''
      | Some email \<Rightarrow>
          let initial = html_escape (case email of [] \<Rightarrow> ''?'' | c # _ \<Rightarrow> upper_text c)
          in ''<details class="relative">\<newline>'' @
             '' <summary class="flex items-center gap-2">\<newline>'' @
             ''  <span title="'' @ escaped email @ ''"\<newline>'' @
             ''   class="flex h-7 w-7 items-center justify-center rounded-full border border-default bg-canvas-subtle text-xs font-semibold">'' @
             initial @ ''</span>\<newline>'' @
             '' </summary>\<newline>'' @
             '' <div class="shadow-menu absolute right-0 z-20 mt-2 w-60 rounded-lg border border-default bg-canvas p-1">\<newline>'' @
             ''  <div class="px-3 py-2">\<newline>'' @
             ''   <div class="truncate text-sm font-semibold">'' @ escaped email @
             ''</div>\<newline>'' @
             ''  </div>\<newline>'' @
             ''  <div class="my-1 border-t border-default"></div>\<newline>'' @
             ''  <a href="/account" class="block rounded-md px-3 py-1.5 text-sm hover:bg-canvas-subtle hover:no-underline">Overview</a>\<newline>'' @
             ''  <a href="/account/workspaces" class="block rounded-md px-3 py-1.5 text-sm hover:bg-canvas-subtle hover:no-underline">Workspaces</a>\<newline>'' @
             ''  <a href="/account/keys" class="block rounded-md px-3 py-1.5 text-sm hover:bg-canvas-subtle hover:no-underline">API keys</a>\<newline>'' @
             ''  <div class="my-1 border-t border-default"></div>\<newline>'' @
             ''  <a href="/account/logout" class="block rounded-md px-3 py-1.5 text-sm text-danger hover:bg-canvas-subtle hover:no-underline">Sign out</a>\<newline>'' @
             '' </div>\<newline>'' @
             ''</details>'')\<close>

definition container :: "bool \<Rightarrow> string" where
  \<open>container wide = (if wide then ''max-w-5xl'' else ''max-w-3xl'')\<close>

definition layout :: "string \<Rightarrow> string \<Rightarrow> string option \<Rightarrow> bool \<Rightarrow> string" where
  \<open>layout title body user wide =
     page_head title @ ''<body class="min-h-screen bg-canvas text-fg antialiased">\<newline>'' @
     ''<header class="border-b border-default">\<newline>'' @
     '' <div class="'' @ container wide @
     '' mx-auto flex items-center justify-between gap-4 px-5 py-3">\<newline>'' @
     ''  <a href="/" class="font-semibold text-fg hover:no-underline">Memorize <span class="text-fg-muted">Hub</span></a>\<newline>'' @
     ''  <nav class="flex items-center gap-5 text-sm">\<newline>'' @
     ''   <a href="/docs" class="text-fg-muted hover:text-fg hover:no-underline">Docs</a>\<newline>'' @
     ''   <a href="'' @ github_url @
     ''" class="text-fg-muted hover:text-fg hover:no-underline">GitHub</a>\<newline>'' @
     ''   '' @ account_menu user @ ''\<newline>'' @
     ''  </nav>\<newline>'' @
     '' </div>\<newline>'' @
     ''</header>\<newline>'' @
     ''<main class="'' @ container wide @ '' mx-auto px-5 py-10">'' @ body @ ''</main>\<newline>'' @
     ''<footer class="border-t border-default mt-16">\<newline>'' @
     '' <div class="'' @ container wide @ '' mx-auto px-5 py-8 text-sm text-fg-muted">\<newline>'' @
     ''  <p>Memorize Hub '' @ em_dash @ '' the optional relay + control-plane for\<newline>'' @
     ''   <a href="'' @ github_url @
     ''" class="text-accent hover:underline">memorize</a>\'s cross-machine sync.\<newline>'' @
     ''   AGPL-3.0.</p>\<newline>'' @
     '' </div>\<newline>'' @
     ''</footer>\<newline>'' @
     ''</body></html>''\<close>

definition cmd_block :: "string \<Rightarrow> string" where
  \<open>cmd_block cmd =
     ''<div class="flex items-center gap-2 my-2">\<newline>'' @
     '' <code class="flex-1 overflow-x-auto whitespace-nowrap rounded-md border border-default bg-canvas-inset px-3 py-2 text-sm font-mono">'' @
     html_escape cmd @ ''</code>\<newline>'' @
     '' <button type="button" class="copy btn shrink-0">copy</button></div>''\<close>

definition copy_script :: "string" where
  \<open>copy_script =
     ''<script>\<newline>'' @
     ''document.addEventListener(\'click\',function(e){\<newline>'' @
     '' var b=e.target;\<newline>'' @
     '' if(b&&b.classList&&b.classList.contains(\'copy\')){\<newline>'' @
     ''  var c=b.previousElementSibling;\<newline>'' @
     ''  if(c&&navigator.clipboard){navigator.clipboard.writeText(c.textContent).then(function(){\<newline>'' @
     ''   var t=b.textContent;b.textContent=\'copied\';setTimeout(function(){b.textContent=t},1200);});}\<newline>'' @
     '' }\<newline>'' @
     ''});\<newline>'' @
     ''</script>''\<close>

subsection \<open>Documentation pages\<close>

record doc_page =
  dp_slug :: string
  dp_title :: string
  dp_section :: string
  dp_render :: "string \<Rightarrow> string"

definition docs_link :: "string \<Rightarrow> doc_page \<Rightarrow> string" where
  \<open>docs_link active p =
     (let href = (if dp_slug p = [] then ''/docs'' else ''/docs/'' @ dp_slug p);
          cls = (if dp_slug p = active then ''bg-canvas-subtle font-semibold text-fg''
                 else ''text-fg-muted hover:bg-canvas-subtle hover:text-fg hover:no-underline'')
      in ''<a href="'' @ href @ ''" class="block rounded-md px-3 py-1.5 text-sm '' @ cls @ ''">'' @
         html_escape (dp_title p) @ ''</a>'')\<close>

definition docs_sidebar :: "doc_page list \<Rightarrow> string \<Rightarrow> string" where
  \<open>docs_sidebar pages active =
     concat (map (\<lambda>s. ''<div class="mb-4"><p class="px-3 pb-1 text-xs font-medium uppercase tracking-wide text-fg-subtle">'' @
         html_escape s @ ''</p>'' @
         concat (map (docs_link active) (filter (\<lambda>p. dp_section p = s) pages)) @ ''</div>'')
       (uniq (map dp_section pages)))\<close>

definition docs_layout :: "string \<Rightarrow> string \<Rightarrow> string \<Rightarrow> string" where
  \<open>docs_layout title sidebar content =
     page_head title @ ''<body class="min-h-screen bg-canvas text-fg antialiased">\<newline>'' @
     ''<header class="sticky top-0 z-30 border-b border-default bg-canvas/90 backdrop-blur">\<newline>'' @
     '' <div class="max-w-6xl mx-auto flex items-center justify-between gap-4 px-5 py-3">\<newline>'' @
     ''  <a href="/" class="font-semibold text-fg hover:no-underline">Memorize <span class="text-fg-muted">Hub</span>\<newline>'' @
     ''   <span class="ml-1 text-fg-subtle">Docs</span></a>\<newline>'' @
     ''  <nav class="flex items-center gap-4 text-sm">\<newline>'' @
     ''   <a href="'' @ github_url @
     ''" class="text-fg-muted hover:text-fg hover:no-underline">GitHub</a>\<newline>'' @
     ''   <a href="/app" class="btn btn-primary">Open dashboard -&gt;</a>\<newline>'' @
     ''  </nav>\<newline>'' @
     '' </div>\<newline>'' @
     ''</header>\<newline>'' @
     ''<div class="max-w-6xl mx-auto grid gap-10 px-5 py-8 md:grid-cols-[15rem_minmax(0,1fr)]">\<newline>'' @
     '' <aside class="md:sticky md:top-20 md:self-start">'' @ sidebar @ ''</aside>\<newline>'' @
     '' <main class="min-w-0 pb-16">'' @ content @ ''</main>\<newline>'' @
     ''</div>\<newline>'' @
     ''</body></html>''\<close>

definition h1_class :: "string" where
  \<open>h1_class = ''text-2xl font-bold tracking-tight''\<close>

definition h2_class :: "string" where
  \<open>h2_class = ''mt-10 text-lg font-semibold''\<close>

definition p_class :: "string" where
  \<open>p_class = ''mt-2 text-sm prose-muted''\<close>

definition docs_overview :: "string \<Rightarrow> string" where
  \<open>docs_overview origin =
     ''<h1 class="'' @ h1_class @ ''">Memorize Hub</h1>\<newline>'' @
     ''<p class="mt-3 text-base prose-muted max-w-2xl">The Hub is the optional relay + control-plane for\<newline>'' @
     '' <a href="https://github.com/shakystar/memorize" class="text-accent hover:underline">memorize</a>\'s\<newline>'' @
     '' cross-machine sync. It holds opaque per-store event logs so your machines '' @ em_dash @
     '' and teammates '' @ em_dash @ '' converge\<newline>'' @
     '' without sharing a filesystem.</p>\<newline>'' @
     ''<div class="mt-6 grid gap-4 sm:grid-cols-3">\<newline>'' @
     '' <div class="card"><h2 class="font-semibold">Personal memory</h2><p class="mt-1 text-sm prose-muted">A private,\<newline>'' @
     ''  account-scoped store that follows you across machines.</p></div>\<newline>'' @
     '' <div class="card"><h2 class="font-semibold">Shared workspaces</h2><p class="mt-1 text-sm prose-muted">Invite\<newline>'' @
     ''  teammates into one event log; memory becomes the union, tagged by provenance.</p></div>\<newline>'' @
     '' <div class="card"><h2 class="font-semibold">Local-first</h2><p class="mt-1 text-sm prose-muted">The relay is\<newline>'' @
     ''  always optional. Append-only, store-and-forward, self-healing.</p></div>\<newline>'' @
     ''</div>\<newline>'' @
     ''<h2 class="'' @ h2_class @ ''">Two planes</h2>\<newline>'' @
     ''<p class="'' @ p_class @
     ''">A dumb <strong class="text-fg">relay</strong> stores opaque, append-only event logs keyed only on\<newline>'' @
     '' <code class="font-mono">event.id</code>. A thin <strong class="text-fg">gateway</strong> owns identity, keys,\<newline>'' @
     '' membership, and invites, and reverse-proxies the relay. They never mix '' @ em_dash @
     '' that is what keeps the relay\<newline>'' @
     '' vendor-neutral and your memory schema free to evolve.</p>\<newline>'' @
     ''<p class="mt-4 text-sm"><a href="/docs/quickstart" class="text-accent hover:underline">Start with the quickstart -&gt;</a></p>''\<close>

definition docs_quickstart :: "string \<Rightarrow> string" where
  \<open>docs_quickstart origin =
     ''<h1 class="'' @ h1_class @ ''">Quickstart</h1>\<newline>'' @
     ''<p class="'' @ p_class @
     ''">Sync a project across two machines in three steps.</p>\<newline>'' @
     ''<h2 class="'' @ h2_class @ ''">1. Install memorize</h2>\<newline>'' @
     cmd_block ''npm i -g @shakystar/memorize'' @ ''\<newline>'' @
     ''<h2 class="'' @ h2_class @ ''">2. Log in once per machine</h2>\<newline>'' @
     ''<p class="'' @ p_class @ ''">Opens your browser to approve the device '' @ em_dash @
     '' nothing to paste.</p>\<newline>'' @
     cmd_block (''memorize login '' @ origin) @ ''\<newline>'' @
     ''<h2 class="'' @ h2_class @ ''">3. Clone the project</h2>\<newline>'' @
     ''<p class="'' @ p_class @ ''">Every workspace shows its clone URL in the\<newline>'' @
     '' <a href="/app" class="text-accent hover:underline">dashboard</a>.\<newline>'' @
     '' <code class="font-mono">clone</code> stores the remote and pulls once '' @ em_dash @
     '' use it, not\<newline>'' @
     '' <code class="font-mono">init</code>, which forks a new empty project that will not sync.</p>\<newline>'' @
     cmd_block (''memorize clone '' @ origin @ ''/clone/PROJECT_ID'') @ ''\<newline>'' @
     ''<h2 class="'' @ h2_class @ ''">Already have the project locally?</h2>\<newline>'' @
     ''<p class="'' @ p_class @ ''">Run steps 1'' @ en_dash @
     ''2, then attach the remote instead of cloning '' @ em_dash @
     '' it pushes and pulls\<newline>'' @
     '' once right away.</p>\<newline>'' @
     cmd_block (''memorize remote '' @ origin @ ''/clone/PROJECT_ID'') @ ''\<newline>'' @
     ''<p class="mt-6 text-sm prose-muted">That\'s it. After connecting, sync runs automatically at\<newline>'' @
     '' session boundaries '' @ em_dash @ '' no manual sync in day-to-day use.</p>''\<close>

definition docs_workspaces :: "string \<Rightarrow> string" where
  \<open>docs_workspaces origin =
     ''<h1 class="'' @ h1_class @ ''">Workspaces</h1>\<newline>'' @
     ''<p class="'' @ p_class @
     ''">A workspace is a shared, multi-account project surface: several accounts each sync their\<newline>'' @
     '' project into one shared event log, and every member\'s local store becomes the union, distinguished by\<newline>'' @
     '' provenance. A <strong class="text-fg">private project is the degenerate 1-member case</strong> of the same\<newline>'' @
     '' mechanism.</p>\<newline>'' @
     ''<h2 class="'' @ h2_class @ ''">Roles</h2>\<newline>'' @
     ''<p class="'' @ p_class @
     ''">Two roles: <strong class="text-fg">owner</strong> (manages membership, invites, roles, and can\<newline>'' @
     '' delete the workspace) and <strong class="text-fg">member</strong> (sync = publish). Owners are equal peers;\<newline>'' @
     '' the only guardrail is that the last owner cannot leave while other members remain.</p>\<newline>'' @
     ''<h2 class="'' @ h2_class @ ''">Invites</h2>\<newline>'' @
     ''<p class="'' @ p_class @
     ''">Owners mint a revocable, optionally-expiring, multi-use invite link. The first invite flips a\<newline>'' @
     '' private project into a shared workspace. Joining is per-account and authenticated '' @
     em_dash @ '' the link grants\<newline>'' @
     '' membership, not raw data access.</p>''\<close>

definition docs_personal_memory :: "string \<Rightarrow> string" where
  \<open>docs_personal_memory origin =
     ''<h1 class="'' @ h1_class @ ''">Personal memory</h1>\<newline>'' @
     ''<p class="'' @ p_class @
     ''">Your global, cross-project memory syncs to a private, account-scoped store. It is never shared,\<newline>'' @
     '' never grantable, and reachable only by your own unscoped keys '' @ em_dash @
     '' the privacy boundary is structural, not a\<newline>'' @
     '' setting. The client keeps personal-scoped memory out of any workspace push.</p>''\<close>

definition docs_keys :: "string \<Rightarrow> string" where
  \<open>docs_keys origin =
     ''<h1 class="'' @ h1_class @ ''">API keys</h1>\<newline>'' @
     ''<p class="'' @ p_class @
     ''">Keys authenticate your machines to the Hub. Two orthogonal attributes only ever narrow access:\<newline>'' @
     '' <strong class="text-fg">read-only</strong> (pull, never push or mutate) and <strong class="text-fg">scope</strong>\<newline>'' @
     '' (a data-plane-only key limited to specific workspaces). An unscoped key syncs personal memory and every\<newline>'' @
     '' workspace you belong to; a scoped key reaches neither personal memory nor account management.</p>''\<close>

definition docs_commands :: "string \<Rightarrow> string" where
  \<open>docs_commands origin =
     ''<h1 class="'' @ h1_class @ ''">Commands</h1>\<newline>'' @
     ''<p class="'' @ p_class @
     ''">The Hub-facing memorize commands. The full CLI is documented in the\<newline>'' @
     '' <a href="https://github.com/shakystar/memorize" class="text-accent hover:underline">memorize README</a>.</p>\<newline>'' @
     ''<h2 class="'' @ h2_class @ ''">memorize login</h2>\<newline>'' @
     ''<p class="'' @ p_class @ ''">Connect a machine to a Hub '' @ em_dash @
     '' opens your browser to approve the device.</p>\<newline>'' @
     cmd_block (''memorize login '' @ origin) @ ''\<newline>'' @
     ''<h2 class="'' @ h2_class @ ''">memorize clone</h2>\<newline>'' @
     ''<p class="'' @ p_class @
     ''">Copy a project from its share URL: stores the remote and does the first pull.</p>\<newline>'' @
     cmd_block (''memorize clone '' @ origin @ ''/clone/PROJECT_ID'') @ ''\<newline>'' @
     ''<h2 class="'' @ h2_class @ ''">memorize remote</h2>\<newline>'' @
     ''<p class="'' @ p_class @
     ''">Attach a remote to a project you already have locally, then push and pull once.</p>\<newline>'' @
     cmd_block (''memorize remote '' @ origin @ ''/clone/PROJECT_ID'') @ ''\<newline>'' @
     ''<h2 class="'' @ h2_class @ ''">Manual sync</h2>\<newline>'' @
     ''<p class="'' @ p_class @
     ''">After connecting, sync runs automatically at session boundaries '' @ em_dash @
     '' there is no\<newline>'' @
     '' shortcut alias. To force a pass:</p>\<newline>'' @
     cmd_block ''memorize project sync --push --pull''\<close>

definition doc_pages :: "doc_page list" where
  \<open>doc_pages =
     [\<lparr>dp_slug = [], dp_title = ''Overview'', dp_section = ''Getting started'', dp_render = docs_overview\<rparr>,
      \<lparr>dp_slug = ''quickstart'', dp_title = ''Quickstart'', dp_section = ''Getting started'', dp_render = docs_quickstart\<rparr>,
      \<lparr>dp_slug = ''workspaces'', dp_title = ''Workspaces'', dp_section = ''Concepts'', dp_render = docs_workspaces\<rparr>,
      \<lparr>dp_slug = ''personal-memory'', dp_title = ''Personal memory'', dp_section = ''Concepts'', dp_render = docs_personal_memory\<rparr>,
      \<lparr>dp_slug = ''keys'', dp_title = ''API keys'', dp_section = ''Concepts'', dp_render = docs_keys\<rparr>,
      \<lparr>dp_slug = ''commands'', dp_title = ''Commands'', dp_section = ''Reference'', dp_render = docs_commands\<rparr>]\<close>

definition docs_missing :: "string" where
  \<open>docs_missing =
     ''<h1 class="'' @ h1_class @ ''">Not found</h1><p class="'' @ p_class @
     ''">No such docs page. <a href="/docs" class="text-accent hover:underline">Back to docs</a>.</p>''\<close>

subsection \<open>Landing, errors and devices\<close>

definition landing_page :: "string \<Rightarrow> string" where
  \<open>landing_page origin =
     layout ''Memorize Hub'' (
     ''\<newline>'' @
     ''<section class="py-8">\<newline>'' @
     '' <h1 class="text-4xl font-bold tracking-tight">Cross-machine memory<br>for local-first agents.</h1>\<newline>'' @
     '' <p class="mt-4 text-lg prose-muted max-w-2xl">A dumb store-and-forward relay plus a thin control-plane.\<newline>'' @
     ''  Your project and personal memory, synced across every machine you work on '' @ em_dash @
     '' and\<newline>'' @
     ''  shared with teammates when you want it.</p>\<newline>'' @
     '' <div class="mt-6 flex flex-wrap items-center gap-3">\<newline>'' @
     ''  <a href="/app" class="btn btn-primary">Open the app</a>\<newline>'' @
     ''  <a href="/docs" class="text-accent hover:underline">Read the docs -&gt;</a>\<newline>'' @
     '' </div>\<newline>'' @
     ''</section>\<newline>'' @
     ''\<newline>'' @
     ''<section class="mt-6">\<newline>'' @
     '' <p class="text-sm prose-muted mb-1">Connect a machine once, then clone any project:</p>\<newline>'' @
     '' '' @ cmd_block ''npm i -g @shakystar/memorize'' @ ''\<newline>'' @
     '' '' @ cmd_block (''memorize login '' @ origin) @ ''\<newline>'' @
     '' '' @ cmd_block (''memorize clone '' @ origin @ ''/clone/PROJECT_ID'') @ ''\<newline>'' @
     '' <p class="mt-2 text-sm prose-muted">From there, sync runs automatically at session boundaries.</p>\<newline>'' @
     ''</section>\<newline>'' @
     ''\<newline>'' @
     ''<section class="mt-14 grid gap-4 sm:grid-cols-3">\<newline>'' @
     '' <div class="card">\<newline>'' @
     ''  <h2 class="font-semibold">Personal memory</h2>\<newline>'' @
     ''  <p class="mt-1 text-sm prose-muted">A private, account-scoped store that follows you\<newline>'' @
     ''   across machines. Never shared, never grantable.</p>\<newline>'' @
     '' </div>\<newline>'' @
     '' <div class="card">\<newline>'' @
     ''  <h2 class="font-semibold">Shared workspaces</h2>\<newline>'' @
     ''  <p class="mt-1 text-sm prose-muted">Invite teammates into one event log; each member\'s\<newline>'' @
     ''   memory becomes the union, tagged by provenance.</p>\<newline>'' @
     '' </div>\<newline>'' @
     '' <div class="card">\<newline>'' @
     ''  <h2 class="font-semibold">Local-first</h2>\<newline>'' @
     ''  <p class="mt-1 text-sm prose-muted">The relay is always optional. Sync is\<newline>'' @
     ''   store-and-forward and append-only '' @ em_dash @
     '' outages self-heal, never lose data.</p>\<newline>'' @
     '' </div>\<newline>'' @
     ''</section>\<newline>'' @
     copy_script) None False\<close>

definition error_page :: "string \<Rightarrow> string \<Rightarrow> string" where
  \<open>error_page title body =
     layout (''Memorize Hub '' @ em_dash @ '' '' @ title)
       (''<h1 class="text-2xl font-bold">'' @ html_escape title @ ''</h1>'' @ body) None False\<close>

definition device_entry_page :: "string \<Rightarrow> string \<Rightarrow> bool \<Rightarrow> string" where
  \<open>device_entry_page email raw_code not_found =
     (let msg = (if not_found
        then ''<p class="mt-2 text-sm text-danger">That code was not found or has expired. Check your terminal and try again.</p>''
        else ''<p class="mt-2 text-sm prose-muted">Enter the code shown in your terminal to connect this device.</p>'')
      in layout (''Memorize Hub '' @ em_dash @ '' connect a device'') (
     ''<h1 class="text-2xl font-bold tracking-tight">Connect a device</h1>\<newline>'' @
     msg @ ''\<newline>'' @
     ''<form method="GET" action="/device" class="mt-5 flex items-center gap-2">\<newline>'' @
     '' <input name="code" value="'' @ escaped raw_code @
     ''" placeholder="XXXX-XXXX" autofocus\<newline>'' @
     ''  class="rounded-md border border-default bg-canvas-inset px-3 py-2 font-mono uppercase tracking-widest">\<newline>'' @
     '' <button type="submit" class="btn btn-primary">Continue</button>\<newline>'' @
     ''</form>'')
       (Some email) False)\<close>

definition device_approve_page :: "string \<Rightarrow> string \<Rightarrow> string \<Rightarrow> string" where
  \<open>device_approve_page email user_code csrf =
     layout (''Memorize Hub '' @ em_dash @ '' approve device'') (
     ''<h1 class="text-2xl font-bold tracking-tight">Connect a device</h1>\<newline>'' @
     ''<p class="mt-2 prose-muted">A device is asking to sign in as\<newline>'' @
     '' <strong class="text-fg">'' @ escaped email @
     ''</strong>. Only approve this if you just started a\<newline>'' @
     '' login from your own terminal.</p>\<newline>'' @
     ''<div class="card mt-4"><p class="text-xs uppercase tracking-wide text-fg-subtle">Code</p>\<newline>'' @
     '' <p class="mt-1 font-mono text-2xl tracking-widest">'' @ escaped user_code @
     ''</p></div>\<newline>'' @
     ''<form method="POST" action="/device" class="mt-5 flex items-center gap-3">\<newline>'' @
     '' <input type="hidden" name="user_code" value="'' @ escaped user_code @ ''">\<newline>'' @
     '' <input type="hidden" name="csrf" value="'' @ escaped csrf @ ''">\<newline>'' @
     '' <button type="submit" class="btn btn-primary">Approve</button>\<newline>'' @
     '' <a href="/app" class="text-sm text-fg-muted hover:text-fg hover:no-underline">Cancel</a>\<newline>'' @
     ''</form>'')
       (Some email) False\<close>

definition device_result_page :: "string \<Rightarrow> bool \<Rightarrow> string" where
  \<open>device_result_page email approved =
     layout (''Memorize Hub '' @ em_dash @ '' device'') (if approved
      then ''<h1 class="text-2xl font-bold tracking-tight">Device approved</h1>\<newline>'' @
           ''<p class="mt-2 prose-muted">Return to your terminal '' @ em_dash @
           '' it will finish signing in automatically. You can\<newline>'' @
           '' close this tab.</p>''
      else ''<h1 class="text-2xl font-bold tracking-tight">Nothing to approve</h1>\<newline>'' @
           ''<p class="mt-2 prose-muted">That request was not found or has expired. Start the login again from your\<newline>'' @
           '' terminal.</p>'')
       (Some email) False\<close>

subsection \<open>Joining and cloning\<close>

text \<open>A workspace's name, escaped, or its id as it is.\<close>

definition store_title :: "string option \<Rightarrow> string \<Rightarrow> string" where
  \<open>store_title name sid =
     (case name of Some n \<Rightarrow> if n = [] then utf8_text sid else escaped n | None \<Rightarrow> utf8_text sid)\<close>

definition joined_page :: "string \<Rightarrow> string \<Rightarrow> bool \<Rightarrow> string option \<Rightarrow> string \<Rightarrow> string" where
  \<open>joined_page email origin already name sid =
     layout (''Memorize Hub '' @ em_dash @ '' joined'') (
     ''<h1 class="text-2xl font-bold">Workspace joined</h1>\<newline>'' @
     ''<p class="mt-2 prose-muted">'' @
     (if already then ''You are already a member of'' else ''You joined'') @
     '' <strong class="text-fg">'' @ store_title name sid @ ''</strong>\<newline>'' @
     '' (<code class="font-mono">'' @ escaped sid @ ''</code>).</p>\<newline>'' @
     ''<p class="mt-4 text-sm prose-muted">Join from a new machine:</p>\<newline>'' @
     cmd_block ''npm i -g @shakystar/memorize'' @ ''\<newline>'' @
     cmd_block (''memorize login '' @ origin) @ ''\<newline>'' @
     cmd_block (''memorize clone '' @ origin @ ''/clone/'' @ utf8_text sid) @ ''\<newline>'' @
     ''<p class="mt-3 text-sm prose-muted">Already have the project locally?</p>\<newline>'' @
     cmd_block ''npm i -g @shakystar/memorize'' @ ''\<newline>'' @
     cmd_block (''memorize login '' @ origin) @ ''\<newline>'' @
     cmd_block (''memorize remote '' @ origin @ ''/clone/'' @ utf8_text sid) @ ''\<newline>'' @
     ''<p class="mt-3 text-sm prose-muted">After connecting, sync runs automatically at session boundaries.</p>\<newline>'' @
     ''<p class="mt-4"><a href="/app" class="btn btn-primary">Open the app</a></p>\<newline>'' @
     copy_script)
       (Some email) False\<close>

definition clone_missing_page :: "string \<Rightarrow> string" where
  \<open>clone_missing_page email =
     layout (''Memorize Hub '' @ em_dash @ '' not found'') (
     ''<h1 class="text-2xl font-bold">Not found</h1>\<newline>'' @
     ''<p class="mt-2 prose-muted">No such project, or you are not a member. Ask an owner for an invite link.</p>'')
       (Some email) False\<close>

definition clone_page_of :: "string \<Rightarrow> string \<Rightarrow> string option \<Rightarrow> string \<Rightarrow> string" where
  \<open>clone_page_of email origin name sid =
     layout (''Memorize Hub '' @ em_dash @ '' clone '' @ store_title name sid) (
     ''<h1 class="text-2xl font-bold">Clone '' @ store_title name sid @ ''</h1>\<newline>'' @
     ''<p class="mt-2 prose-muted">Run these on the machine you want to sync\<newline>'' @
     '' (<code class="font-mono">'' @ escaped sid @ ''</code>):</p>\<newline>'' @
     ''<div class="mt-4">\<newline>'' @
     cmd_block ''npm i -g @shakystar/memorize'' @ ''\<newline>'' @
     cmd_block (''memorize login '' @ origin) @ ''\<newline>'' @
     cmd_block (''memorize clone '' @ origin @ ''/clone/'' @ utf8_text sid) @ ''\<newline>'' @
     ''</div>\<newline>'' @
     ''<p class="mt-3 text-sm prose-muted">Already have the project locally?</p>\<newline>'' @
     cmd_block ''npm i -g @shakystar/memorize'' @ ''\<newline>'' @
     cmd_block (''memorize login '' @ origin) @ ''\<newline>'' @
     cmd_block (''memorize remote '' @ origin @ ''/clone/'' @ utf8_text sid) @ ''\<newline>'' @
     ''<p class="mt-3 text-sm prose-muted">After connecting, sync runs automatically at session boundaries.</p>\<newline>'' @
     copy_script)
       (Some email) False\<close>

subsection \<open>Operator pages\<close>

record nav_item =
  ni_label :: string
  ni_href :: "string option"
  ni_active :: bool

definition rail_item :: "nav_item \<Rightarrow> string" where
  \<open>rail_item n =
     (case ni_href n of
        None \<Rightarrow> ''<span class="flex items-center justify-between rounded-md px-3 py-1.5 text-sm text-fg-subtle">'' @
          html_escape (ni_label n) @
          ''<span class="rounded bg-canvas-subtle px-1.5 py-0.5 text-[10px] uppercase tracking-wide">soon</span></span>''
      | Some href \<Rightarrow>
          let cls = (if ni_active n then ''bg-canvas-subtle font-semibold text-fg''
            else ''text-fg-muted hover:bg-canvas-subtle hover:text-fg hover:no-underline'')
          in ''<a href="'' @ href @ ''" class="block rounded-md px-3 py-1.5 text-sm '' @ cls @ ''">'' @
             html_escape (ni_label n) @ ''</a>'')\<close>

definition operator_layout :: "string \<Rightarrow> string \<Rightarrow> nav_item list \<Rightarrow> string \<Rightarrow> string" where
  \<open>operator_layout title email nav body =
     page_head title @ ''<body class="min-h-screen bg-canvas text-fg antialiased">\<newline>'' @
     ''<header class="sticky top-0 z-30 border-b border-default bg-canvas/90 backdrop-blur">\<newline>'' @
     '' <div class="max-w-6xl mx-auto flex items-center justify-between gap-4 px-5 py-3">\<newline>'' @
     ''  <span class="flex items-center gap-2 font-semibold text-fg">\<newline>'' @
     ''   <span class="inline-block h-2 w-2 rounded-full bg-success" title="live"></span>\<newline>'' @
     ''   Operator <span class="ml-1 font-normal text-fg-subtle">Memorize Hub</span>\<newline>'' @
     ''  </span>\<newline>'' @
     ''  <nav class="flex items-center gap-4 text-sm text-fg-muted">\<newline>'' @
     ''   <span class="tabular-nums">'' @ escaped email @ ''</span>\<newline>'' @
     ''   <a href="/account/logout" class="hover:text-fg hover:no-underline">Sign out</a>\<newline>'' @
     ''  </nav>\<newline>'' @
     '' </div>\<newline>'' @
     ''</header>\<newline>'' @
     ''<div class="max-w-6xl mx-auto grid gap-10 px-5 py-8 md:grid-cols-[13rem_minmax(0,1fr)]">\<newline>'' @
     '' <aside class="md:sticky md:top-20 md:self-start"><nav class="space-y-0.5">'' @
     concat (map rail_item nav) @ ''</nav></aside>\<newline>'' @
     '' <main class="min-w-0 pb-16">'' @ body @ ''</main>\<newline>'' @
     ''</div>\<newline>'' @
     ''</body></html>''\<close>

definition operator_nav :: "string \<Rightarrow> nav_item list" where
  \<open>operator_nav active =
     [\<lparr>ni_label = ''Overview'', ni_href = Some ''/admin'', ni_active = (active = ''overview'')\<rparr>,
      \<lparr>ni_label = ''Accounts'', ni_href = Some ''/admin/accounts'', ni_active = (active = ''accounts'')\<rparr>,
      \<lparr>ni_label = ''Billing'', ni_href = Some ''/admin/billing'', ni_active = (active = ''billing'')\<rparr>]\<close>

text \<open>A card without a third line has an empty one.\<close>

definition stat_card :: "string \<Rightarrow> string \<Rightarrow> string \<Rightarrow> string" where
  \<open>stat_card label value sub =
     ''<div class="card">\<newline>'' @
     ''   <p class="text-xs font-medium uppercase tracking-wide text-fg-subtle">'' @
     html_escape label @ ''</p>\<newline>'' @
     ''   <p class="mt-1 text-2xl font-semibold tabular-nums">'' @ html_escape value @
     ''</p>\<newline>'' @
     ''   '' @
     (if sub = [] then [] else ''<p class="mt-0.5 text-xs text-fg-muted">'' @ html_escape sub @ ''</p>'') @
     ''\<newline>'' @
     ''  </div>''\<close>

definition storage_row :: "store_size \<Rightarrow> string" where
  \<open>storage_row r =
     ''<tr class="border-t border-default">\<newline>'' @
     ''           <td class="py-1.5 font-mono text-xs">'' @ escaped (sz_store_id r) @
     ''</td>\<newline>'' @
     ''           <td class="py-1.5 text-right tabular-nums">'' @ num (sz_events r) @
     ''</td>\<newline>'' @
     ''           <td class="py-1.5 text-right tabular-nums">'' @
     html_escape (format_bytes (sz_bytes r)) @ ''</td>\<newline>'' @
     ''          </tr>''\<close>

definition storage_table :: "store_size list \<Rightarrow> string" where
  \<open>storage_table rows =
     (if rows = [] then []
      else ''<div class="card mt-4 overflow-x-auto"><table class="w-full text-sm">\<newline>'' @
           ''        <thead><tr class="text-left text-fg-subtle">\<newline>'' @
           ''         <th class="pb-2 font-medium">Store</th>\<newline>'' @
           ''         <th class="pb-2 text-right font-medium">Events</th>\<newline>'' @
           ''         <th class="pb-2 text-right font-medium">Size</th>\<newline>'' @
           ''        </tr></thead>\<newline>'' @
           ''        <tbody>'' @ concat (map storage_row rows) @ ''</tbody></table></div>'')\<close>

definition storage_section :: "relay_storage \<Rightarrow> string" where
  \<open>storage_section s =
     (if rs_reachable s
      then ''<div class="grid gap-4 sm:grid-cols-3">\<newline>'' @
           ''        '' @ stat_card ''Total stored'' (format_bytes (rs_bytes s)) [] @
           ''\<newline>'' @
           ''        '' @ stat_card ''Events'' (num (rs_events s)) [] @ ''\<newline>'' @
           ''        '' @ stat_card ''Stores'' (num (rs_stores s)) [] @ ''\<newline>'' @
           ''       </div>'' @ storage_table (rs_top s)
      else ''<p class="text-sm text-fg-muted">Relay unreachable '' @ em_dash @ '' no size snapshot.</p>'')\<close>

definition control_plane_cards :: "counts \<Rightarrow> string" where
  \<open>control_plane_cards c =
     stat_card ''Accounts'' (num (int (co_accounts c))) [] @
     stat_card ''Workspaces'' (num (int (co_private c + co_shared c)))
       (num (int (co_private c)) @ '' private '' @ middle_dot @ '' '' @ num (int (co_shared c)) @ '' shared'') @
     stat_card ''Members'' (num (int (co_members c))) [] @
     stat_card ''API keys'' (num (int (co_keys_active c))) (num (int (co_keys_revoked c)) @ '' revoked'') @
     stat_card ''Personal stores'' (num (int (co_personal c))) []\<close>

definition traffic_cards :: "traffic \<Rightarrow> string" where
  \<open>traffic_cards t =
     stat_card ''Requests'' (num (int (tr_requests t))) [] @
     stat_card ''Egress'' (format_bytes (int (tr_bytes_out t))) [] @
     stat_card ''Ingress'' (format_bytes (int (tr_bytes_in t))) []\<close>

definition render_overview :: "string \<Rightarrow> overview \<Rightarrow> string" where
  \<open>render_overview email v =
     operator_layout (''Memorize Hub '' @ em_dash @ '' Operator'') email (operator_nav ''overview'') (
     ''\<newline>'' @
     ''<div class="flex items-baseline justify-between">\<newline>'' @
     '' <h1 class="text-2xl font-bold tracking-tight">Overview</h1>\<newline>'' @
     '' <span class="text-xs text-fg-subtle">read-only '' @ middle_dot @
     '' aggregate</span>\<newline>'' @
     ''</div>\<newline>'' @
     ''<p class="mt-1 text-sm prose-muted">Sizes and counts only, never keys or memory contents.</p>\<newline>'' @
     ''\<newline>'' @
     ''<h2 class="mt-8 text-lg font-semibold">Control plane</h2>\<newline>'' @
     ''<div class="mt-3 grid gap-4 sm:grid-cols-3 lg:grid-cols-5">'' @
     control_plane_cards (ov_counts v) @ ''</div>\<newline>'' @
     ''\<newline>'' @
     ''<h2 class="mt-8 text-lg font-semibold">Traffic <span class="text-sm font-normal text-fg-subtle">'' @
     middle_dot @ '' last '' @ nat_str (tr_days (ov_traffic v)) @ '' days</span></h2>\<newline>'' @
     ''<div class="mt-3 grid gap-4 sm:grid-cols-3">'' @ traffic_cards (ov_traffic v) @
     ''</div>\<newline>'' @
     ''\<newline>'' @
     ''<h2 class="mt-8 text-lg font-semibold">Storage at rest</h2>\<newline>'' @
     ''<div class="mt-3">'' @ storage_section (ov_storage v) @ ''</div>'')\<close>

definition td_class :: "string" where
  \<open>td_class = ''py-1.5 border-t border-default''\<close>

definition tdnum_class :: "string" where
  \<open>tdnum_class = td_class @ '' text-right tabular-nums''\<close>

definition thead_class :: "string" where
  \<open>thead_class = ''text-left text-fg-subtle''\<close>

definition account_row_html :: "account_summary \<Rightarrow> string" where
  \<open>account_row_html a =
     ''<tr>\<newline>'' @
     ''       <td class="'' @ td_class @ ''">'' @ escaped (su_email a) @ ''</td>\<newline>'' @
     ''       <td class="'' @ td_class @ '' text-fg-muted">'' @ escaped (take 10 (su_created_at a)) @
     ''</td>\<newline>'' @
     ''       <td class="'' @ tdnum_class @ ''">'' @ num (int (su_owned a)) @ ''</td>\<newline>'' @
     ''       <td class="'' @ tdnum_class @ ''">'' @ num (int (su_joined a)) @ ''</td>\<newline>'' @
     ''       <td class="'' @ tdnum_class @ ''">'' @ num (int (su_keys_active a)) @
     ''</td>\<newline>'' @
     ''       <td class="'' @ td_class @ '' text-center">'' @
     (if su_personal a then check_mark else em_dash) @ ''</td>\<newline>'' @
     ''      </tr>''\<close>

definition render_accounts :: "string \<Rightarrow> account_summary list \<Rightarrow> string" where
  \<open>render_accounts email rows =
     operator_layout (''Memorize Hub '' @ em_dash @ '' Operator '' @ middle_dot @ '' Accounts'') email (operator_nav ''accounts'') (
     ''\<newline>'' @
     ''<div class="flex items-baseline justify-between">\<newline>'' @
     '' <h1 class="text-2xl font-bold tracking-tight">Accounts</h1>\<newline>'' @
     '' <span class="text-xs text-fg-subtle">'' @ num (int (length rows)) @ '' total '' @
     middle_dot @ '' read-only</span>\<newline>'' @
     ''</div>\<newline>'' @
     ''<p class="mt-1 text-sm prose-muted">Identity and membership counts only '' @ em_dash @
     '' never key values or memory contents.</p>\<newline>'' @
     ''<div class="card mt-6 overflow-x-auto"><table class="w-full text-sm">\<newline>'' @
     '' <thead><tr class="'' @ thead_class @ ''">\<newline>'' @
     ''  <th class="pb-2 font-medium">Account</th>\<newline>'' @
     ''  <th class="pb-2 font-medium">Joined</th>\<newline>'' @
     ''  <th class="pb-2 text-right font-medium">Owned</th>\<newline>'' @
     ''  <th class="pb-2 text-right font-medium">Member</th>\<newline>'' @
     ''  <th class="pb-2 text-right font-medium">Keys</th>\<newline>'' @
     ''  <th class="pb-2 text-center font-medium">Personal</th>\<newline>'' @
     '' </tr></thead>\<newline>'' @
     '' <tbody>'' @
     (if rows = [] then ''<tr><td class="'' @ td_class @ '' text-fg-muted" colspan="6">No accounts yet.</td></tr>''
        else concat (map account_row_html rows)) @
     ''</tbody>\<newline>'' @
     ''</table></div>'')\<close>

definition stored_cell :: "bool \<Rightarrow> billing_row \<Rightarrow> string" where
  \<open>stored_cell reachable r =
     (if reachable then html_escape (format_bytes (b_stored_bytes r))
      else ''<span class="text-fg-subtle">'' @ em_dash @ ''</span>'')\<close>

definition billing_row_html :: "bool \<Rightarrow> billing_row \<Rightarrow> string" where
  \<open>billing_row_html reachable r =
     ''<tr>\<newline>'' @
     ''       <td class="'' @ td_class @ ''">'' @ escaped (b_email r) @ ''</td>\<newline>'' @
     ''       <td class="'' @ td_class @
     ''"><span class="rounded bg-canvas-subtle px-1.5 py-0.5 text-[10px] uppercase tracking-wide text-fg-subtle">unlimited</span></td>\<newline>'' @
     ''       <td class="'' @ tdnum_class @ ''">'' @ num (int (b_workspaces r)) @
     ''</td>\<newline>'' @
     ''       <td class="'' @ tdnum_class @ ''">'' @ num (int (b_members r)) @ ''</td>\<newline>'' @
     ''       <td class="'' @ tdnum_class @ ''">'' @ stored_cell reachable r @ ''</td>\<newline>'' @
     ''       <td class="'' @ tdnum_class @ ''">'' @ html_escape (format_bytes (int (b_egress r))) @
     ''</td>\<newline>'' @
     ''       <td class="'' @ tdnum_class @ ''">'' @ num (int (b_requests r)) @ ''</td>\<newline>'' @
     ''      </tr>''\<close>

definition render_billing :: "string \<Rightarrow> billing \<Rightarrow> string" where
  \<open>render_billing email b =
     operator_layout (''Memorize Hub '' @ em_dash @ '' Operator '' @ middle_dot @ '' Billing'') email (operator_nav ''billing'') (
     ''\<newline>'' @
     ''<div class="flex items-baseline justify-between">\<newline>'' @
     '' <h1 class="text-2xl font-bold tracking-tight">Billing</h1>\<newline>'' @
     '' <span class="text-xs text-fg-subtle">last '' @ nat_str (bl_days b) @ '' days '' @
     middle_dot @ '' read-only</span>\<newline>'' @
     ''</div>\<newline>'' @
     ''<div class="card mt-4 border-attention-border bg-attention-subtle">\<newline>'' @
     '' <p class="text-sm text-fg">Plan enforcement is not wired '' @ em_dash @
     '' every account is <strong>unlimited</strong>.\<newline>'' @
     ''  This is the seam: future <strong>free / plus / pro</strong> tiers would cap workspace count and invite\<newline>'' @
     ''  headcount, and attach here.</p>\<newline>'' @
     ''</div>\<newline>'' @
     ''<div class="card mt-4 overflow-x-auto"><table class="w-full text-sm">\<newline>'' @
     '' <thead><tr class="'' @ thead_class @ ''">\<newline>'' @
     ''  <th class="pb-2 font-medium">Account</th>\<newline>'' @
     ''  <th class="pb-2 font-medium">Plan</th>\<newline>'' @
     ''  <th class="pb-2 text-right font-medium">Workspaces</th>\<newline>'' @
     ''  <th class="pb-2 text-right font-medium">Members</th>\<newline>'' @
     ''  <th class="pb-2 text-right font-medium">Stored</th>\<newline>'' @
     ''  <th class="pb-2 text-right font-medium">Egress</th>\<newline>'' @
     ''  <th class="pb-2 text-right font-medium">Requests</th>\<newline>'' @
     '' </tr></thead>\<newline>'' @
     '' <tbody>'' @
     (if bl_rows b = [] then ''<tr><td class="'' @ td_class @ '' text-fg-muted" colspan="7">No accounts yet.</td></tr>''
        else concat (map (billing_row_html (bl_relay_reachable b)) (bl_rows b))) @
     ''</tbody>\<newline>'' @
     ''</table></div>\<newline>'' @
     ''<p class="mt-3 text-xs text-fg-subtle">Workspaces + Members = the future caps. Cost is attributed to each\<newline>'' @
     '' store\'s creator (+ the account\'s personal store).'' @
     (if bl_relay_reachable b then [] else '' Stored sizes hidden '' @ em_dash @ '' relay unreachable.'') @
     ''</p>'')\<close>

subsection \<open>What escaping is for\<close>

definition is_markup :: "char \<Rightarrow> bool" where
  "is_markup c \<longleftrightarrow> c \<in> {CHR ''<'', CHR ''>'', CHR 0x22, CHR 0x27}"

definition markup :: "string \<Rightarrow> string" where
  "markup s = filter is_markup s"

lemma markup_append: "markup (a @ b) = markup a @ markup b"
  by (simp add: markup_def)

lemma markup_Nil: "markup [] = []"
  by (simp add: markup_def)

lemma markup_none: "(\<And>c. c \<in> set s \<Longrightarrow> \<not> is_markup c) \<Longrightarrow> markup s = []"
  by (simp add: markup_def filter_empty_conv)

lemma markup_escape: "markup (html_escape s) = []"
proof -
  have "filter is_markup (html_char c) = []" for c by (auto simp: html_char_def is_markup_def dquote_def)
  then show ?thesis by (simp add: markup_def html_escape_def filter_concat comp_def)
qed

lemma markup_escaped: "markup (escaped s) = []"
  by (simp add: escaped_def markup_escape)

lemma html_unescape_char: "html_unescape (html_char c @ r) = c # html_unescape r"
  by (auto simp: html_char_def dquote_def)

lemma unescape_escape: "html_unescape (html_escape s) = s"
  by (induction s) (simp_all add: html_escape_def html_unescape_char)

lemma char_code_utf8: "map char_code (utf8_text s) = utf8 s"
proof -
  have "\<forall>n \<in> set (utf8 s). n < 256" using byte_list_utf8 [of s] by (simp add: byte_list_def list_all_iff)
  then show ?thesis by (simp add: utf8_text_def code_of_char map_idI)
qed

lemma shown_again: "from_utf8 (map char_code (html_unescape (escaped s))) = Some s"
  by (simp add: escaped_def unescape_escape char_code_utf8 from_utf8_utf8)

lemma markup_utf8: "markup s = [] \<Longrightarrow> markup (utf8_text s) = []"
proof (induction s)
  case (Cons c s)
  have c: "\<not> is_markup c" and s: "markup s = []" using Cons.prems by (simp_all add: markup_def split: if_splits)
  have "\<not> is_markup d" if d: "d \<in> set (map char_of (utf8_char c))" for d
  proof (cases "char_code c < 128")
    case True
    then show ?thesis using c d by (simp add: utf8_char_def char_of_code)
  next
    case False
    then have "d = char_of (192 + char_code c div 64) \<or> d = char_of (128 + char_code c mod 64)"
      using d by (simp add: utf8_char_def Let_def)
    moreover have "192 + char_code c div 64 < 256" "128 + char_code c mod 64 < 256"
      using less_mult_imp_div_less [of "char_code c" 64 64] char_code_less [of c] by simp_all
    ultimately obtain n :: nat where n: "d = char_of n" "128 \<le> n" "n < 256"
      by (elim disjE) (auto intro!: that)
    then have "char_code d = n" by (simp add: code_of_char)
    then show ?thesis using n(2) by (auto simp: is_markup_def char_code_def)
  qed
  then have "markup (map char_of (utf8_char c)) = []" by (rule markup_none)
  moreover have "utf8_text (c # s) = map char_of (utf8_char c) @ utf8_text s" by (simp add: utf8_text_def utf8_def)
  ultimately show ?case using Cons.IH s by (simp add: markup_append)
qed (simp add: utf8_text_def utf8_def)

lemma set_thousands: "set (thousands ds) \<subseteq> insert (CHR '','') (set ds)"
  by (induction ds rule: thousands.induct) auto

lemma not_markup_digit: "is_digit c \<Longrightarrow> \<not> is_markup c"
  by (auto simp: is_markup_def is_digit_def char_code_def)

lemma markup_nat_str: "markup (nat_str n) = []"
  using nat_str_digits [of n] by (intro markup_none not_markup_digit) (simp add: list_all_iff)

lemma markup_num: "markup (num n) = []"
proof (rule markup_none)
  fix c assume "c \<in> set (num n)"
  then have "c = CHR ''-'' \<or> c = CHR '','' \<or> c \<in> set (nat_str (nat \<bar>n\<bar>))"
    using set_thousands [of "rev (nat_str (nat \<bar>n\<bar>))"] by (auto simp: num_def split: if_splits)
  then show "\<not> is_markup c"
    using nat_str_digits [of "nat \<bar>n\<bar>"] not_markup_digit by (auto simp: list_all_iff is_markup_def)
qed

lemma markup_signs: "markup em_dash = []" "markup check_mark = []"
  by code_simp+

lemma markup_rows:
  assumes "\<And>x y. markup (f x) = markup (f y)" "length xs = length ys"
  shows "markup (concat (map f xs)) = markup (concat (map f ys))"
  using assms(2) by (induction xs ys rule: list_induct2) (simp_all add: markup_append assms(1))

lemmas markup_rules = markup_append markup_Nil markup_escape markup_escaped markup_num markup_nat_str append_Nil append_Nil2

lemma markup_menu: "markup (account_menu (Some e)) = markup (account_menu (Some e'))"
  unfolding account_menu_def option.case Let_def by (simp only: markup_rules)

lemma markup_layout:
  "markup b = markup b' \<Longrightarrow> markup (layout t b (Some e) w) = markup (layout t' b' (Some e') w)"
  unfolding layout_def page_head_def by (simp only: markup_rules markup_menu [of e e'])

lemma markup_cmd_block: "markup (cmd_block c) = markup (cmd_block c')"
  unfolding cmd_block_def by (simp only: markup_rules)

lemma markup_device_pages:
  "markup (device_entry_page e r n) = markup (device_entry_page e' r' n)"
  "markup (device_approve_page e u c) = markup (device_approve_page e' u' c')"
  "markup (device_result_page e a) = markup (device_result_page e' a)"
  unfolding device_entry_page_def device_approve_page_def device_result_page_def Let_def
  by (rule markup_layout; simp only: markup_rules)+

lemma markup_store_title: "markup sid = [] \<Longrightarrow> markup (store_title name sid) = []"
  by (auto simp: store_title_def markup_escaped markup_utf8 split: option.splits)

lemma markup_store_pages:
  assumes "markup sid = []" "markup sid' = []"
  shows "markup (joined_page e g a n sid) = markup (joined_page e' g' a n' sid')"
    "markup (clone_page_of e g n sid) = markup (clone_page_of e' g' n' sid')"
proof -
  define k where "k = markup (cmd_block [])"
  have cmd: "markup (cmd_block c) = k" for c unfolding k_def by (rule markup_cmd_block)
  note r = markup_rules markup_store_title [OF assms(1)] markup_store_title [OF assms(2)] cmd
  have "markup ''You are already a member of'' = []" "markup ''You joined'' = []" by code_simp+
  then have v: "markup (if a then ''You are already a member of'' else ''You joined'') = []"
    by (cases a) (simp_all only: simp_thms if_True if_False)
  show "markup (joined_page e g a n sid) = markup (joined_page e' g' a n' sid')"
    unfolding joined_page_def by (rule markup_layout) (simp only: r v)
  show "markup (clone_page_of e g n sid) = markup (clone_page_of e' g' n' sid')"
    unfolding clone_page_of_def by (rule markup_layout) (simp only: r)
qed

lemma markup_operator:
  "markup b = markup b' \<Longrightarrow> markup (operator_layout t e nv b) = markup (operator_layout t' e' nv b')"
  unfolding operator_layout_def page_head_def by (simp only: markup_rules)

lemma markup_accounts:
  assumes "length rows = length rows'"
  shows "markup (render_accounts e rows) = markup (render_accounts e' rows')"
proof -
  have row: "markup (account_row_html x) = markup (account_row_html y)" for x y
  proof -
    have sign: "markup (if su_personal z then check_mark else em_dash) = []" for z by (simp add: markup_signs)
    show ?thesis unfolding account_row_html_def by (simp only: markup_rules sign)
  qed
  have none: "rows = [] \<longleftrightarrow> rows' = []" using assms by auto
  have "markup (if rows = [] then u else concat (map account_row_html rows)) =
      markup (if rows' = [] then u else concat (map account_row_html rows'))" for u
    using markup_rows [of account_row_html rows rows'] row assms none by simp
  then show ?thesis
    unfolding render_accounts_def by (intro markup_operator) (simp only: markup_rules)
qed

lemma markup_card: "(s = []) = (s' = []) \<Longrightarrow> markup (stat_card l v s) = markup (stat_card l' v' s')"
proof -
  assume s: "(s = []) = (s' = [])"
  have \<open>markup (if s = [] then [] else ''<p class="mt-0.5 text-xs text-fg-muted">'' @ html_escape s @ ''</p>'') =
      markup (if s' = [] then [] else ''<p class="mt-0.5 text-xs text-fg-muted">'' @ html_escape s' @ ''</p>'')\<close>
    unfolding s by (cases "s' = []") (simp_all only: simp_thms if_True if_False markup_rules)
  then show ?thesis unfolding stat_card_def by (simp only: markup_rules)
qed

lemma markup_overview:
  assumes "rs_reachable (ov_storage v) = rs_reachable (ov_storage v')" "length (rs_top (ov_storage v)) = length (rs_top (ov_storage v'))"
  shows "markup (render_overview e v) = markup (render_overview e' v')"
proof -
  have "markup (storage_row x) = markup (storage_row y)" for x y
    unfolding storage_row_def by (simp only: markup_rules)
  then have rows: "markup (concat (map storage_row (rs_top (ov_storage v)))) = markup (concat (map storage_row (rs_top (ov_storage v'))))"
    by (rule markup_rows [OF _ assms(2)])
  have none: "rs_top (ov_storage v) = [] \<longleftrightarrow> rs_top (ov_storage v') = []" using assms(2) by auto
  have table: "markup (storage_table (rs_top (ov_storage v))) = markup (storage_table (rs_top (ov_storage v')))"
    unfolding storage_table_def none
    by (cases "rs_top (ov_storage v') = []") (simp_all only: simp_thms if_True if_False markup_append rows)
  define k where "k = markup (stat_card [] [] [])"
  define k2 where "k2 = markup (stat_card [] [] ''x'')"
  have card: "markup (stat_card l x []) = k" for l x unfolding k_def by (rule markup_card) simp
  have card2: "markup (stat_card l x (y @ '' revoked'')) = k2" "markup (stat_card l x (y @ '' private '' @ z)) = k2" for l x y z
    unfolding k2_def by (rule markup_card, simp)+
  have stored: "markup (storage_section (ov_storage v)) = markup (storage_section (ov_storage v'))"
    unfolding storage_section_def assms(1)
    by (cases "rs_reachable (ov_storage v')") (simp_all only: simp_thms if_True if_False markup_rules table card)
  have cards: "markup (control_plane_cards (ov_counts v)) = markup (control_plane_cards (ov_counts v'))"
    "markup (traffic_cards (ov_traffic v)) = markup (traffic_cards (ov_traffic v'))"
    unfolding control_plane_cards_def traffic_cards_def by (simp_all only: markup_append card card2)
  show ?thesis
    unfolding render_overview_def by (rule markup_operator) (simp only: markup_rules stored cards)
qed

lemma markup_billing:
  assumes "bl_relay_reachable b = bl_relay_reachable b'" "length (bl_rows b) = length (bl_rows b')"
  shows "markup (render_billing e b) = markup (render_billing e' b')"
proof -
  let ?r = "bl_relay_reachable b'"
  have cell: "markup (stored_cell ?r x) = markup (stored_cell ?r y)" for x y
    unfolding stored_cell_def by (cases ?r) (simp_all only: simp_thms if_True if_False markup_rules)
  have "markup (billing_row_html ?r x) = markup (billing_row_html ?r y)" for x y
    unfolding billing_row_html_def by (simp only: markup_rules cell [of x y])
  then have rows: "markup (concat (map (billing_row_html ?r) (bl_rows b))) = markup (concat (map (billing_row_html ?r) (bl_rows b')))"
    by (rule markup_rows [OF _ assms(2)])
  have none: "bl_rows b = [] \<longleftrightarrow> bl_rows b' = []" using assms(2) by auto
  have table: "markup (if bl_rows b = [] then u else concat (map (billing_row_html ?r) (bl_rows b))) =
      markup (if bl_rows b' = [] then u else concat (map (billing_row_html ?r) (bl_rows b')))" for u
    using none rows by simp
  show ?thesis
    unfolding render_billing_def assms(1) by (rule markup_operator) (simp only: markup_rules table)
qed

text \<open>
  C39. No text can change a page: what a browser shows of an escaped text is that text; and the
  brackets and quotes of the device, join, clone, account, billing and overview pages, in their
  order, are the same whatever email, code, token, workspace name or store they are made from, so
  that none of these can open an element or leave an attribute. The pages of a workspace without a
  name show its id unescaped, which the ids the gateway makes allow.
\<close>

theorem pages_keep_their_markup:
  "from_utf8 (map char_code (html_unescape (escaped s))) = Some s \<and>
   markup (device_entry_page e r n) = markup (device_entry_page e' r' n) \<and>
   markup (device_approve_page e u c) = markup (device_approve_page e' u' c') \<and>
   markup (device_result_page e ok) = markup (device_result_page e' ok) \<and>
   (markup i = [] \<and> markup i' = [] \<longrightarrow>
      markup (joined_page e g a name i) = markup (joined_page e' g' a name' i') \<and>
      markup (clone_page_of e g name i) = markup (clone_page_of e' g' name' i')) \<and>
   (length rows = length rows' \<longrightarrow> markup (render_accounts e rows) = markup (render_accounts e' rows')) \<and>
   (bl_relay_reachable b = bl_relay_reachable b' \<and> length (bl_rows b) = length (bl_rows b') \<longrightarrow>
      markup (render_billing e b) = markup (render_billing e' b')) \<and>
   (rs_reachable (ov_storage v) = rs_reachable (ov_storage v') \<and> length (rs_top (ov_storage v)) = length (rs_top (ov_storage v')) \<longrightarrow>
      markup (render_overview e v) = markup (render_overview e' v'))"
  by (intro conjI impI shown_again markup_device_pages markup_store_pages markup_accounts markup_billing markup_overview) simp_all

theorem pages_keep_their_markup_witness:
  "markup (joined_page ''a@x'' ''http://h'' False (Some ''<script>'') ''wsp_1'') =
   markup (joined_page ''a@x'' ''http://h'' False (Some ''notes'') ''wsp_1'') \<and>
   markup ''<script>'' = ''<>''"
proof -
  have i: "markup ''wsp_1'' = []" "markup ''<script>'' = ''<>''" by code_simp+
  show ?thesis
    using pages_keep_their_markup [where i = "''wsp_1''" and i' = "''wsp_1''" and name = "Some ''<script>''" and name' = "Some ''notes''"
        and e = "''a@x''" and e' = "''a@x''" and g = "''http://h''" and g' = "''http://h''" and a = False] i by blast
qed

text \<open>The title of the clone page escapes a name that is escaped already.\<close>

lemma clone_title_escapes_twice:
  "html_escape (store_title (Some ''R&D'') ''wsp_1'') = ''R&amp;amp;D''"
  by code_simp

end
