(* ===== verification/Gateway_Timeline.thy ===== *)
theory Gateway_Timeline
  imports Gateway_Proxy
begin

text \<open>
  \<open>packages/gateway/src/timeline.ts\<close>: the read surfaces of a workspace. The gateway checks
  membership, asks the headless replica (the argument \<open>fetch\<close>), and labels the members of the
  items it gets back.
\<close>

subsection \<open>Labels\<close>

text \<open>\<open>{ ...row }\<close> of an object or an array.\<close>

fun spread_members :: "json \<Rightarrow> (string \<times> json) list" where
  "spread_members (JObj ms) = ms"
| "spread_members (JArr vs) = zip (map nat_str [0..<length vs]) vs"
| "spread_members _ = []"

fun is_row :: "json \<Rightarrow> bool" where
  "is_row (JObj _) = True"
| "is_row (JArr _) = True"
| "is_row _ = False"

definition source_of :: "(string \<times> source_store) list \<Rightarrow> (string \<times> json) list \<Rightarrow> source_store option" where
  "source_of sources ms =
     (case map_of ms ''sourceProjectId'' of Some (JStr p) \<Rightarrow> map_of sources p | _ \<Rightarrow> None)"

definition email_of :: "(string \<times> string) list \<Rightarrow> string \<Rightarrow> (string \<times> json) list \<Rightarrow> string option" where
  "email_of emails field_name ms =
     (case map_of ms field_name of Some (JStr a) \<Rightarrow> map_of emails a | _ \<Rightarrow> None)"

text \<open>\<open>...(label ? { key: label } : {})\<close>.\<close>

definition put_label :: "string \<Rightarrow> string option \<Rightarrow> (string \<times> json) list \<Rightarrow> (string \<times> json) list" where
  "put_label k label ms = (if truthy label then js_set k (JStr (the label)) ms else ms)"

definition label_item :: "(string \<times> string) list \<Rightarrow> (string \<times> source_store) list \<Rightarrow> json \<Rightarrow> json" where
  "label_item emails sources item =
     (if \<not> is_row item then item
      else (let row = spread_members item;
                source = source_of sources row;
                member = (case source of Some s \<Rightarrow> Some (so_email s) | None \<Rightarrow> email_of emails ''member'' row);
                writer = email_of emails ''writer'' row;
                label = Option.bind source so_label
            in JObj (put_label ''sourceProjectLabel'' label
                 (put_label ''writer'' writer (put_label ''member'' member row)))))"

definition label_members :: "string \<Rightarrow> (string \<times> string) list \<Rightarrow> (string \<times> source_store) list \<Rightarrow> string" where
  "label_members raw emails sources =
     (case json_parse raw of
        Some (JObj ms) \<Rightarrow>
          (case map_of ms ''items'' of
             Some (JArr items) \<Rightarrow>
               stringify (JObj (js_set ''items'' (JArr (map (label_item emails sources) items)) ms))
           | _ \<Rightarrow> raw)
      | _ \<Rightarrow> raw)"

subsection \<open>Forwarding\<close>

definition emails_by_account :: "db \<Rightarrow> string \<Rightarrow> (string \<times> string) list" where
  "emails_by_account d sid = js_index mb_account_id mb_email (roster d sid) []"

definition sources_by_project :: "db \<Rightarrow> string \<Rightarrow> (string \<times> source_store) list" where
  "sources_by_project d sid = js_index so_project_id (\<lambda>s. s) (list_source_stores d sid) []"

definition replica_request :: "string \<Rightarrow> string \<Rightarrow> (string \<times> string) list \<Rightarrow> request" where
  "replica_request sid resource_name params =
     \<lparr>meth = ''GET'', path = ''/v1/workspaces/'' @ encode_uri sid @ ''/'' @ resource_name, query = params,
      auth_header = None, cookie_header = None, host_header = None, chunks = []\<rparr>"

definition forward_replica_read ::
  "env \<Rightarrow> gateway_config \<Rightarrow> 'w fetch \<Rightarrow> request \<Rightarrow> string \<Rightarrow> string \<Rightarrow> (string \<times> string) list \<Rightarrow> db \<Rightarrow> 'w \<Rightarrow> handled \<times> 'w" where
  "forward_replica_read e c fetch req sid resource_name params d w =
     (case resolve_principal e c d req of
        None \<Rightarrow> (thrown d, w)
      | Some None \<Rightarrow> (refuse d 401 ''authentication required'', w)
      | Some (Some p) \<Rightarrow>
          (case authorize d p Read (Workspace sid) of
             None \<Rightarrow> (thrown d, w)
           | Some (Deny n msg) \<Rightarrow> (refuse d n msg, w)
           | Some Allow \<Rightarrow>
               (case fetch (replica_request sid resource_name params) w of
                  (None, w') \<Rightarrow> (refuse d 502 ''replica unreachable'', w')
                | (Some (status, text), w') \<Rightarrow>
                    ((Some (Raw status
                       (if 200 \<le> status \<and> status < 300
                        then label_members text (emails_by_account d sid) (sources_by_project d sid)
                        else text)), d), w'))))"

definition handle_workspace_timeline ::
  "env \<Rightarrow> gateway_config \<Rightarrow> 'w fetch \<Rightarrow> request \<Rightarrow> string \<Rightarrow> db \<Rightarrow> 'w \<Rightarrow> handled \<times> 'w" where
  "handle_workspace_timeline e c fetch req sid d w =
     (let param = (\<lambda>k. case query_get k req of None \<Rightarrow> [] | Some v \<Rightarrow> [(k, v)])
      in forward_replica_read e c fetch req sid ''timeline'' (param ''limit'' @ param ''before'') d w)"

definition handle_workspace_tasks ::
  "env \<Rightarrow> gateway_config \<Rightarrow> 'w fetch \<Rightarrow> request \<Rightarrow> string \<Rightarrow> db \<Rightarrow> 'w \<Rightarrow> handled \<times> 'w" where
  "handle_workspace_tasks e c fetch req sid d w = forward_replica_read e c fetch req sid ''tasks'' [] d w"

subsection \<open>What labelling does\<close>

lemma map_of_put_label: "map_of (put_label k l ms) k' = (if k' = k \<and> truthy l then Some (JStr (the l)) else map_of ms k')"
  by (auto simp: put_label_def)

lemma nat_str_inject: "nat_str i = nat_str j \<longleftrightarrow> i = j"
  using nat_str_digits by metis

lemma distinct_spread: "wf_json item \<Longrightarrow> distinct (map fst (spread_members item))"
  by (cases item rule: spread_members.cases) (auto simp: distinct_map inj_on_def nat_str_inject)

lemma wf_spread: "wf_json item \<Longrightarrow> (k, v) \<in> set (spread_members item) \<Longrightarrow> wf_json v"
  by (cases item rule: spread_members.cases) (auto simp: list_all_iff dest: set_zip_rightD)

lemma wf_put_label:
  assumes "distinct (map fst ms)" "\<forall>(k, v) \<in> set ms. wf_json v"
  shows "distinct (map fst (put_label k l ms)) \<and> (\<forall>(k, v) \<in> set (put_label k l ms). wf_json v)"
  using assms by (auto simp: put_label_def set_js_set)

lemma wf_label_item: "wf_json item \<Longrightarrow> wf_json (label_item emails sources item)"
proof (cases "is_row item")
  case True
  assume "wf_json item"
  then have "distinct (map fst (spread_members item))" "\<forall>(k, v) \<in> set (spread_members item). wf_json v"
    using distinct_spread wf_spread by blast+
  then have "distinct (map fst (put_label k3 l3 (put_label k2 l2 (put_label k1 l1 (spread_members item))))) \<and>
     (\<forall>(k, v) \<in> set (put_label k3 l3 (put_label k2 l2 (put_label k1 l1 (spread_members item)))). wf_json v)"
    for k1 k2 k3 l1 l2 l3
    by (intro wf_put_label) (use wf_put_label in blast)+
  then show ?thesis using True by (simp add: label_item_def Let_def list_all_iff case_prod_beta)
qed (simp add: label_item_def)

text \<open>
  Labelling a timeline: the labelled body parses back to the same page with the same number
  of items; in every item the member is the registrant's email when its source store is
  registered, else the email of the account it names, else what it was; every other member but
  the writer and the source label is untouched.
\<close>

lemma labels_resolve_members:
  assumes "json_parse raw = Some (JObj ms)" "map_of ms ''items'' = Some (JArr items)"
  shows "\<exists>ms'. json_parse (label_members raw emails sources) = Some (JObj ms') \<and>
    (\<forall>k. k \<noteq> ''items'' \<longrightarrow> map_of ms' k = map_of ms k) \<and>
    map_of ms' ''items'' = Some (JArr (map (label_item emails sources) items)) \<and>
    (\<forall>row. JObj row \<in> set items \<longrightarrow> (\<exists>row'. label_item emails sources (JObj row) = JObj row' \<and>
       (\<forall>k. k \<notin> {''member'', ''writer'', ''sourceProjectLabel''} \<longrightarrow> map_of row' k = map_of row k) \<and>
       map_of row' ''member'' =
         (case source_of sources row of
            Some s \<Rightarrow> if so_email s = [] then map_of row ''member'' else Some (JStr (so_email s))
          | None \<Rightarrow> (case email_of emails ''member'' row of
               Some m \<Rightarrow> if m = [] then map_of row ''member'' else Some (JStr m)
             | None \<Rightarrow> map_of row ''member''))))"
proof -
  let ?ms = "js_set ''items'' (JArr (map (label_item emails sources) items)) ms"
  have wf: "wf_json (JObj ms)" using wf_json_parse assms(1) by blast
  have items: "\<forall>i \<in> set items. wf_json i"
    using wf map_of_SomeD [OF assms(2)] by (auto simp: list_all_iff)
  have "wf_json (JObj ?ms)"
    using wf items wf_label_item by (auto simp: list_all_iff set_js_set)
  then have "json_parse (label_members raw emails sources) = Some (JObj ?ms)"
    using assms by (simp add: label_members_def parse_stringify del: stringify.simps)
  moreover have "\<exists>row'. label_item emails sources (JObj row) = JObj row' \<and>
       (\<forall>k. k \<notin> {''member'', ''writer'', ''sourceProjectLabel''} \<longrightarrow> map_of row' k = map_of row k) \<and>
       map_of row' ''member'' =
         (case source_of sources row of
            Some s \<Rightarrow> if so_email s = [] then map_of row ''member'' else Some (JStr (so_email s))
          | None \<Rightarrow> (case email_of emails ''member'' row of
               Some m \<Rightarrow> if m = [] then map_of row ''member'' else Some (JStr m)
             | None \<Rightarrow> map_of row ''member''))" for row
    by (simp add: label_item_def Let_def map_of_put_label truthy_def split: option.splits)
  ultimately show ?thesis by (intro exI [of _ ?ms]) simp
qed

end
