(* ===== verification/Gateway_Account.thy ===== *)
theory Gateway_Account
  imports Gateway_Workspace
begin

text \<open>
  \<open>packages/gateway/src/account-api.ts\<close>: identity echo and key management for an account.
\<close>

definition account_max_json :: nat where "account_max_json = 16 * 1024"

definition account_principal ::
  "env \<Rightarrow> gateway_config \<Rightarrow> db \<Rightarrow> request \<Rightarrow> bool \<Rightarrow> (principal \<Rightarrow> handled) \<Rightarrow> handled" where
  "account_principal e c d req mutate k = as_caller e c d req (\<lambda>p.
     if pr_scoped p then refuse d 403 ''account management requires an unscoped key''
     else if mutate \<and> pr_read_only p then refuse d 403 ''this key is read-only''
     else k p)"

definition via_text :: "via \<Rightarrow> string" where
  "via_text v = (case v of Key \<Rightarrow> ''key'' | Session \<Rightarrow> ''session'')"

definition handle_account_whoami :: "env \<Rightarrow> gateway_config \<Rightarrow> request \<Rightarrow> db \<Rightarrow> handled" where
  "handle_account_whoami e c req d = as_caller e c d req (\<lambda>p.
     case get_account d (pr_account_id p) of
       None \<Rightarrow> refuse d 401 ''authentication required''
     | Some account \<Rightarrow>
         reply d 200 (JObj [(''accountId'', JStr (pr_account_id p)), (''email'', JStr (a_email account)),
           (''via'', JStr (via_text (pr_via p))), (''readOnly'', JBool (pr_read_only p)),
           (''scoped'', JBool (pr_scoped p))]))"

definition token_summary_json :: "token_summary \<Rightarrow> json" where
  "token_summary_json t =
     JObj [(''id'', JStr (ts_id t)), (''prefix'', JStr (ts_prefix t)), (''label'', json_opt (ts_label t)),
           (''readOnly'', JBool (ts_read_only t)), (''revokedAt'', json_opt (ts_revoked_at t)),
           (''lastUsedAt'', json_opt (ts_last_used_at t)), (''scopes'', JArr (map JStr (ts_scopes t)))]"

definition handle_account_keys_list :: "env \<Rightarrow> gateway_config \<Rightarrow> request \<Rightarrow> db \<Rightarrow> handled" where
  "handle_account_keys_list e c req d = account_principal e c d req False (\<lambda>p.
     reply d 200 (JObj [(''keys'', JArr (map token_summary_json (list_account_tokens d (pr_account_id p))))]))"

text \<open>The requested scopes: strings that name a store the account belongs to.\<close>

definition requested_stores :: "db \<Rightarrow> string \<Rightarrow> json \<Rightarrow> string list" where
  "requested_stores d account body =
     (let owned = map as_store_id (list_account_stores d account)
      in case jget ''storeIds'' body of
           Some (JArr vs) \<Rightarrow>
             concat (map (\<lambda>v. case v of JStr s \<Rightarrow> if s \<in> set owned then [s] else [] | _ \<Rightarrow> []) vs)
         | _ \<Rightarrow> [])"

definition handle_account_key_issue :: "env \<Rightarrow> gateway_config \<Rightarrow> request \<Rightarrow> db \<Rightarrow> handled" where
  "handle_account_key_issue e c req d = account_principal e c d req True (\<lambda>p.
     case read_json req account_max_json of
       Body body \<Rightarrow>
         (let read_only = (jget ''readOnly'' body = Some (JBool True));
              label = (case jget_str ''label'' body of Some l \<Rightarrow> if l = [] then None else Some l | None \<Rightarrow> None)
          in run_sql d (issue_api_key e d (pr_account_id p) label read_only
                 (requested_stores d (pr_account_id p) body))
               (\<lambda>(d', k). reply d' 201 (JObj [(''key'', JStr (ik_plaintext k))])))
     | _ \<Rightarrow> refuse d 400 ''invalid JSON'')"

definition handle_account_key_revoke :: "env \<Rightarrow> gateway_config \<Rightarrow> request \<Rightarrow> string \<Rightarrow> db \<Rightarrow> handled" where
  "handle_account_key_revoke e c req tid d = account_principal e c d req True (\<lambda>p.
     if \<not> token_belongs_to_account d tid (pr_account_id p) then refuse d 404 ''not found''
     else no_content (snd (revoke_token e d tid)))"

lemma outcome_account_principal [handler_rules]:
  "(\<And>p. outcome d P (k p)) \<Longrightarrow> outcome d P (account_principal e c d req m k)"
  unfolding account_principal_def by (intro outcome_as_caller) (auto simp: outcome_unchanged)

text \<open>
  A request for a key limited to workspaces none of which the account belongs to is answered
  with a key that covers every store: the filter empties the list, and an empty list means no
  limit.
\<close>

lemma issue_with_foreign_scopes_widens:
  assumes "db_ok d" "resolve_principal e c d req = Some (Some p)"
    and "read_json req account_max_json = Body body" "jget ''storeIds'' body = Some (JArr [JStr s])"
    and "member_role d s (pr_account_id p) = None"
    and "handle_account_key_issue e c req d = (Some (Json 201 v), d')"
  shows "\<exists>key i. v = JObj [(''key'', JStr key)] \<and> identify_token e d' key = Some i \<and>
    ti_account_id i = pr_account_id p \<and> token_covers_store d' (ti_token_id i) t"
proof -
  have "s \<notin> as_store_id ` set (list_account_stores d (pr_account_id p))"
  proof
    assume "s \<in> as_store_id ` set (list_account_stores d (pr_account_id p))"
    then have "\<exists>m \<in> set (memberships d). m_account_id m = pr_account_id p \<and> m_store_id m = s"
      by (auto simp: list_account_stores_def)
    then show False using assms(5) unfolding member_role_None is_member_def by force
  qed
  then have none: "requested_stores d (pr_account_id p) body = []"
    using assms(4) by (simp add: requested_stores_def)
  obtain label ro k where k: "issue_api_key e d (pr_account_id p) label ro [] = Inr (d', k)"
    and v: "v = JObj [(''key'', JStr (ik_plaintext k))]"
    using assms(2,3,6) none
    by (auto simp: handle_account_key_issue_def account_principal_def as_caller_def refuse_def send_error_def
        run_sql_def reply_def thrown_def Let_def split: if_splits sum.splits)
  show ?thesis using issued_key_works [OF assms(1) k] v by simp
qed

end
