(* ===== verification/Gateway_Web.thy ===== *)
theory Gateway_Web
  imports Gateway_Pages Gateway_Timeline Gateway_Account
begin

text \<open>
  \<open>packages/gateway/src/oauth.ts\<close>, \<open>web.ts\<close>, \<open>assets.ts\<close> and \<open>spa.ts\<close>: the browser surfaces.
  A page is its status, its bytes (\<open>Gateway_Pages\<close>) and the cookies it sets. Google's two endpoints
  and the static files are arguments.
\<close>

subsection \<open>Forms and URLs\<close>

text \<open>\<open>URLSearchParams\<close>: the form encoding, a space being a plus sign.\<close>

definition form_safe :: "char \<Rightarrow> bool" where
  "form_safe c \<longleftrightarrow>
     (let n = char_code c
      in (65 \<le> n \<and> n \<le> 90) \<or> (97 \<le> n \<and> n \<le> 122) \<or> (48 \<le> n \<and> n \<le> 57) \<or> n \<in> {42, 45, 46, 95})"

definition form_char :: "char \<Rightarrow> string" where
  "form_char c =
     (if form_safe c then [c] else if c = CHR '' '' then ''+'' else concat (map percent (utf8_char c)))"

definition form_encode :: "string \<Rightarrow> string" where
  "form_encode s = concat (map form_char s)"

definition form_pairs :: "(string \<times> string) list \<Rightarrow> string" where
  "form_pairs ps = join ''&'' (map (\<lambda>(k, v). form_encode k @ ''='' @ form_encode v) ps)"

text \<open>Decoding never fails: a percent sign without two hexadecimal digits stands for itself.\<close>

fun form_bytes :: "string \<Rightarrow> nat list" where
  "form_bytes [] = []"
| "form_bytes (c # cs) =
     (if c = CHR ''+'' then 32 # form_bytes cs
      else if c = CHR ''%'' then
        (case cs of
           h1 # h2 # r \<Rightarrow> (case hex_byte h1 h2 of Some n \<Rightarrow> n # form_bytes r | None \<Rightarrow> 37 # form_bytes cs)
         | _ \<Rightarrow> 37 # form_bytes cs)
      else utf8_char c @ form_bytes cs)"

definition form_decode :: "string \<Rightarrow> string" where
  "form_decode s = (case from_utf8 (form_bytes s) of Some t \<Rightarrow> t | None \<Rightarrow> s)"

definition form_get :: "string \<Rightarrow> string \<Rightarrow> string option" where
  "form_get body k =
     map_of (map (\<lambda>part. (form_decode (takeWhile (\<lambda>c. c \<noteq> CHR ''='') part),
                          form_decode (tl (dropWhile (\<lambda>c. c \<noteq> CHR ''='') part))))
       (filter (\<lambda>part. part \<noteq> []) (js_split (CHR ''&'') body))) k"

definition or_empty :: "string option \<Rightarrow> string" where
  "or_empty s = (case s of Some t \<Rightarrow> t | None \<Rightarrow> [])"

subsection \<open>OAuth\<close>

definition state_ttl_ms :: nat where "state_ttl_ms = 10 * 60 * 1000"

definition state_cookie_name :: string where "state_cookie_name = ''hub_oauth_state''"

definition callback_url :: "gateway_config \<Rightarrow> string" where
  "callback_url c = (case gc_public_url c of Some u \<Rightarrow> u | None \<Rightarrow> ''undefined'') @ ''/oauth/callback''"

definition state_json :: "env \<Rightarrow> json" where
  "state_json e =
     JObj [(''nonce'', JStr (base64url (random e 0 16))), (''flow'', JStr ''account''),
           (''exp'', JNum (int (now e + state_ttl_ms)))]"

definition cookie_attrs :: "string \<Rightarrow> nat \<Rightarrow> string" where
  "cookie_attrs p age = ''; Path='' @ p @ ''; HttpOnly; SameSite=Lax; Secure; Max-Age='' @ nat_str age"

text \<open>The redirect and the state cookie.\<close>

definition begin_login :: "env \<Rightarrow> gateway_config \<Rightarrow> string \<times> string" where
  "begin_login e c =
     (let state = sign_value e (state_json e) (or_empty (gc_session_secret c))
      in (''https://accounts.google.com/o/oauth2/v2/auth?'' @ form_pairs
            [(''client_id'', or_empty (gc_google_client_id c)), (''redirect_uri'', callback_url c),
             (''response_type'', ''code''), (''scope'', ''openid email profile''), (''state'', state)],
          state_cookie_name @ ''='' @ state @ cookie_attrs ''/oauth'' (state_ttl_ms div 1000)))"

definition verify_callback :: "env \<Rightarrow> string option \<Rightarrow> string option \<Rightarrow> string \<Rightarrow> bool" where
  "verify_callback e returned cookie secret \<longleftrightarrow>
     truthy returned \<and> truthy cookie \<and> returned = cookie \<and>
     (case verify_value e returned secret of
        None \<Rightarrow> False | Some payload \<Rightarrow> jget_str ''flow'' payload = Some ''account'')"

definition clear_state_cookie :: string where
  "clear_state_cookie = state_cookie_name @ ''='' @ cookie_attrs ''/oauth'' 0"

text \<open>
  \<open>resolveLogin\<close>: the two endpoints answer a status and a body, or not at all; the outer \<open>None\<close>
  is an exception (no answer, or a body that is no JSON).
\<close>

record google =
  token_endpoint :: "string \<Rightarrow> (nat \<times> string) option"
  user_endpoint :: "string \<Rightarrow> (nat \<times> string) option"

definition ok_status :: "nat \<Rightarrow> bool" where
  "ok_status n \<longleftrightarrow> 200 \<le> n \<and> n < 300"

definition login_of_user :: "json \<Rightarrow> (string \<times> string) option" where
  "login_of_user user =
     (case (jget_str ''sub'' user, jget_str ''email'' user) of
        (Some sub, Some email) \<Rightarrow>
          if sub = [] \<or> email = [] \<or> jget ''email_verified'' user \<noteq> Some (JBool True) then None
          else Some (sub, to_lower email)
      | _ \<Rightarrow> None)"

definition resolve_login :: "google \<Rightarrow> string \<Rightarrow> (string \<times> string) option option" where
  "resolve_login g code =
     (case token_endpoint g code of
        None \<Rightarrow> None
      | Some (status, text) \<Rightarrow>
          if \<not> ok_status status then Some None
          else (case json_parse text of
              None \<Rightarrow> None
            | Some token \<Rightarrow>
                (case jget_str ''access_token'' token of
                   None \<Rightarrow> Some None
                 | Some access \<Rightarrow>
                     if access = [] then Some None
                     else (case user_endpoint g access of
                         None \<Rightarrow> None
                       | Some (status2, text2) \<Rightarrow>
                           if \<not> ok_status status2 then Some None
                           else map_option login_of_user (json_parse text2)))))"

subsection \<open>Pages\<close>

definition send_html :: "db \<Rightarrow> nat \<Rightarrow> string \<Rightarrow> string list \<Rightarrow> handled" where
  "send_html d n html cookies = (Some (Page n html cookies), d)"

text \<open>The paragraphs of the error pages.\<close>

definition muted :: "string \<Rightarrow> string" where
  \<open>muted text = ''<p class="prose-muted">'' @ text @ ''</p>''\<close>

definition invalid_state :: string where
  \<open>invalid_state = ''Invalid state. <a class="text-accent hover:underline" href="/account">Try again</a>.''\<close>

definition unverified_email :: string where
  "unverified_email = ''Could not read a verified email from your Google account.''"

definition accounts_unset :: string where
  "accounts_unset = ''Set GOOGLE_CLIENT_ID/SECRET, GATEWAY_PUBLIC_URL, and GATEWAY_SESSION_SECRET.''"

definition expired_form :: string where
  "expired_form = ''Invalid or expired form. Reopen the link shown in your terminal.''"

definition missing_token :: string where
  "missing_token = ''This join link is missing its token.''"

definition invite_refused :: string where
  "invite_refused =
     ''This invite is unknown, revoked, expired, or fully used. Ask the workspace owner for a fresh link.''"

definition redirect_to :: "db \<Rightarrow> string \<Rightarrow> string list \<Rightarrow> handled" where
  "redirect_to d location cookies = (Some (Redirect location cookies), d)"

definition with_cookies :: "db \<Rightarrow> request \<Rightarrow> ((string \<times> string) list \<Rightarrow> handled) \<Rightarrow> handled" where
  "with_cookies d req k = (case parse_cookies (cookie_header req) of None \<Rightarrow> thrown d | Some cs \<Rightarrow> k cs)"

definition with_session ::
  "env \<Rightarrow> gateway_config \<Rightarrow> db \<Rightarrow> request \<Rightarrow> (account_session option \<Rightarrow> handled) \<Rightarrow> handled" where
  "with_session e c d req k =
     (case read_account e (cookie_header req) (or_empty (gc_session_secret c)) of
        None \<Rightarrow> thrown d | Some s \<Rightarrow> k s)"

definition set_join_cookie :: "string \<Rightarrow> string" where
  "set_join_cookie token = ''hub_join='' @ encode_uri token @ cookie_attrs ''/'' 600"

definition clear_join_cookie :: string where
  "clear_join_cookie = ''hub_join='' @ cookie_attrs ''/'' 0"

definition set_return_cookie :: "string \<Rightarrow> string" where
  "set_return_cookie p = ''hub_return='' @ encode_uri p @ cookie_attrs ''/'' 600"

definition clear_return_cookie :: string where
  "clear_return_cookie = ''hub_return='' @ cookie_attrs ''/'' 0"

definition read_nav_user :: "env \<Rightarrow> gateway_config \<Rightarrow> request \<Rightarrow> account_session option option" where
  "read_nav_user e c req =
     (if \<not> truthy (gc_session_secret c) then Some None
      else read_account e (cookie_header req) (the (gc_session_secret c)))"

definition handle_landing :: "env \<Rightarrow> gateway_config \<Rightarrow> request \<Rightarrow> db \<Rightarrow> handled" where
  "handle_landing e c req d =
     (case read_nav_user e c req of
        None \<Rightarrow> thrown d
      | Some (Some _) \<Rightarrow> redirect_to d ''/app'' []
      | Some None \<Rightarrow> send_html d 200 (landing_page (utf8_text (origin_for c req))) [])"

text \<open>\<open>decodeURIComponent\<close> of what follows \<open>/docs\<close>.\<close>

definition docs_slug :: "string \<Rightarrow> string option" where
  "docs_slug p =
     (if p = ''/docs'' \<or> p = ''/docs/'' then Some []
      else decode_uri (if starts_with p ''/docs/'' then drop 6 p else if starts_with p ''/docs'' then drop 5 p else p))"

definition docs_html :: "string \<Rightarrow> string \<Rightarrow> nat \<times> string" where
  "docs_html slug origin =
     (case find (\<lambda>p. dp_slug p = slug) doc_pages of
        None \<Rightarrow> (404, docs_layout (''Memorize Hub '' @ em_dash @ '' docs'') (docs_sidebar doc_pages []) docs_missing)
      | Some p \<Rightarrow>
          (200, docs_layout (''Memorize Hub '' @ em_dash @ '' '' @ dp_title p) (docs_sidebar doc_pages slug)
             (dp_render p origin @ copy_script)))"

definition handle_docs :: "gateway_config \<Rightarrow> request \<Rightarrow> db \<Rightarrow> handled" where
  "handle_docs c req d =
     (case docs_slug (path req) of
        None \<Rightarrow> thrown d
      | Some slug \<Rightarrow>
          (let (status, html) = docs_html slug (utf8_text (origin_for c req)) in send_html d status html []))"

text \<open>A return path is followed only when it is local.\<close>

definition local_path :: "string \<Rightarrow> bool" where
  "local_path p \<longleftrightarrow> starts_with p ''/'' \<and> \<not> starts_with p ''//''"

definition handle_oauth_callback :: "env \<Rightarrow> gateway_config \<Rightarrow> google \<Rightarrow> request \<Rightarrow> db \<Rightarrow> handled" where
  "handle_oauth_callback e c g req d =
     (if \<not> truthy (gc_session_secret c) then send_html d 503 (error_page ''Login not configured'' (muted ''OAuth is not set up on this Hub.'')) []
      else with_cookies d req (\<lambda>cookies.
        let secret = the (gc_session_secret c)
        in if \<not> verify_callback e (query_get ''state'' req) (map_of cookies state_cookie_name) secret
           then send_html d 403 (error_page ''Login failed'' (muted invalid_state)) [clear_state_cookie]
           else if \<not> truthy (query_get ''code'' req) then 
             send_html d 400 (error_page ''Login failed'' (muted ''Missing authorization code.'')) [clear_state_cookie]
           else if \<not> session_login_enabled c then 
             send_html d 503 (error_page ''Accounts not configured'' []) [clear_state_cookie]
           else (case resolve_login g (the (query_get ''code'' req)) of
               None \<Rightarrow> thrown d
             | Some None \<Rightarrow> 
                 send_html d 403 (error_page ''Login failed'' (muted unverified_email)) [clear_state_cookie]
             | Some (Some (sub, email)) \<Rightarrow>
                 run_sql d (upsert_account_by_google e d sub email) (\<lambda>(d', account).
                   let set_cookies = [account_cookie e \<lparr>se_account_id = account, se_email = email\<rparr> secret,
                                      clear_state_cookie];
                       pending_join = map_of cookies ''hub_join'';
                       pending_return = map_of cookies ''hub_return''
                   in if truthy pending_join
                      then redirect_to d' (''/join?token='' @ encode_uri (the pending_join)) (set_cookies @ [clear_join_cookie])
                      else if truthy pending_return \<and> local_path (the pending_return)
                      then redirect_to d' (the pending_return) (set_cookies @ [clear_return_cookie])
                      else redirect_to d' ''/app'' set_cookies))))"

definition handle_account_me :: "env \<Rightarrow> gateway_config \<Rightarrow> request \<Rightarrow> db \<Rightarrow> handled" where
  "handle_account_me e c req d =
     (case read_nav_user e c req of
        None \<Rightarrow> thrown d
      | Some None \<Rightarrow> refuse d 401 ''not signed in''
      | Some (Some session) \<Rightarrow>
          run_sql d (get_or_create_personal_store e d (se_account_id session)) (\<lambda>(d', ps).
            reply d' 200 (JObj [(''accountId'', JStr (se_account_id session)), (''email'', JStr (se_email session)),
              (''personalStoreId'', JStr (ps_store_id ps))])))"

definition handle_account :: "env \<Rightarrow> gateway_config \<Rightarrow> request \<Rightarrow> db \<Rightarrow> handled" where
  "handle_account e c req d =
     (if \<not> session_login_enabled c then send_html d 503 (error_page ''Accounts not configured'' (muted accounts_unset)) []
      else if meth req = ''GET'' \<and> path req = ''/account/login''
      then (let (location, cookie) = begin_login e c in redirect_to d location [cookie])
      else if meth req = ''GET'' \<and> path req = ''/account/logout'' then redirect_to d ''/app'' [clear_account_cookie]
      else redirect_to d ''/app'' [])"

definition device_csrf_ttl_ms :: nat where "device_csrf_ttl_ms = 10 * 60 * 1000"

text \<open>The approval form carries the signed code.\<close>

definition device_csrf :: "env \<Rightarrow> gateway_config \<Rightarrow> string \<Rightarrow> string" where
  "device_csrf e c user_code =
     sign_value e (JObj [(''c'', JStr user_code), (''exp'', JNum (int (now e + device_csrf_ttl_ms)))])
       (or_empty (gc_session_secret c))"

definition handle_device_page :: "env \<Rightarrow> gateway_config \<Rightarrow> request \<Rightarrow> db \<Rightarrow> handled" where
  "handle_device_page e c req d =
     (if \<not> session_login_enabled c then send_html d 503 (error_page ''Device sign-in not configured'' []) []
      else with_session e c d req (\<lambda>session.
        let code = normalize_user_code (or_empty (query_get ''code'' req))
        in case session of
             None \<Rightarrow>
               redirect_to d ''/account/login''
                 [set_return_cookie (''/device'' @ (if code = [] then [] else ''?code='' @ encode_uri code))]
           | Some s \<Rightarrow>
               (case (if code = [] then None else find_pending_by_user_code e d code) of
                  None \<Rightarrow>
                    send_html d (if code = [] then 200 else 404)
                      (device_entry_page (se_email s) (or_empty (query_get ''code'' req)) (code \<noteq> [])) []
                | Some (user_code, _) \<Rightarrow>
                    send_html d 200 (device_approve_page (se_email s) user_code (device_csrf e c user_code)) [])))"

definition handle_device_approve :: "env \<Rightarrow> gateway_config \<Rightarrow> request \<Rightarrow> db \<Rightarrow> handled" where
  "handle_device_approve e c req d =
     (if \<not> session_login_enabled c then send_html d 503 (error_page ''Device sign-in not configured'' []) []
      else with_session e c d req (\<lambda>session.
        case session of
          None \<Rightarrow> redirect_to d ''/account/login'' []
        | Some s \<Rightarrow>
            (case read_body req (4 * 1024) of
               None \<Rightarrow> send_html d 400 (error_page ''Bad request'' []) []
             | Some form \<Rightarrow>
                 (let user_code = normalize_user_code (or_empty (form_get form ''user_code''));
                      csrf = verify_value e (Some (or_empty (form_get form ''csrf''))) (or_empty (gc_session_secret c))
                  in if (case csrf of None \<Rightarrow> True | Some v \<Rightarrow> jget_str ''c'' v \<noteq> Some user_code)
                     then send_html d 403 (error_page ''Approval failed'' (muted expired_form)) []
                     else run_sql d (approve_device e d user_code (se_account_id s)) (\<lambda>(ok, d').
                       send_html d' (if ok then 200 else 404) (device_result_page (se_email s) ok) [])))))"

text \<open>
  The operator pages. The overview and the billing table (\<open>gather_overview\<close>, \<open>gather_billing\<close>) ask
  the relay for its statistics; the page is sent whatever it answers.
\<close>

definition handle_admin ::
  "env \<Rightarrow> gateway_config \<Rightarrow> 'w fetch \<Rightarrow> request \<Rightarrow> db \<Rightarrow> 'w \<Rightarrow> handled \<times> 'w" where
  "handle_admin e c fetch req d w =
     (if \<not> admin_enabled c then (send_html d 503 (error_page ''Operator dashboard not configured'' []) [], w)
      else (case read_account e (cookie_header req) (or_empty (gc_session_secret c)) of
          None \<Rightarrow> (thrown d, w)
        | Some None \<Rightarrow> (redirect_to d ''/account/login'' [], w)
        | Some (Some s) \<Rightarrow>
            if se_email s \<notin> set (gc_admin_emails c) then (send_html d 404 (error_page ''Not found'' (muted ''Not found.'')) [], w)
            else if path req = ''/admin'' then
              (send_html d 200 (render_overview (se_email s) (gather_overview e c fetch d w)) [], snd (fetch (stats_request c) w))
            else if path req = ''/admin/accounts'' then
              (send_html d 200 (render_accounts (se_email s) (list_accounts d)) [], w)
            else if path req = ''/admin/billing'' then
              (send_html d 200 (render_billing (se_email s) (gather_billing e c fetch 7 d w)) [], snd (fetch (stats_request c) w))
            else (send_html d 404 (error_page ''Not found'' (muted ''Not found.'')) [], w)))"

definition handle_join_page :: "env \<Rightarrow> gateway_config \<Rightarrow> request \<Rightarrow> db \<Rightarrow> handled" where
  "handle_join_page e c req d =
     (if \<not> session_login_enabled c then send_html d 503 (error_page ''Accounts not configured'' []) []
      else (let token = or_empty (query_get ''token'' req)
            in if token = [] then send_html d 400 (error_page ''Invalid invite'' (muted missing_token)) []
               else with_session e c d req (\<lambda>session.
                 case session of
                   None \<Rightarrow> (let (location, cookie) = begin_login e c
                            in redirect_to d location [set_join_cookie token, cookie])
                 | Some s \<Rightarrow>
                     run_sql d (redeem_invite e d token (se_account_id s)) (\<lambda>(result, d').
                       case result of
                         Rejected \<Rightarrow> send_html d' 403 (error_page ''Invite not valid'' (muted invite_refused)) [clear_join_cookie]
                       | Redeemed sid _ already \<Rightarrow>
                           send_html d' 200
                             (joined_page (se_email s) (utf8_text (origin_for c req)) already
                                (Option.bind (get_store d' sid) s_name) sid) [clear_join_cookie]))))"

definition handle_clone_page :: "env \<Rightarrow> gateway_config \<Rightarrow> request \<Rightarrow> string \<Rightarrow> db \<Rightarrow> handled" where
  "handle_clone_page e c req sid d =
     (if \<not> session_login_enabled c then send_html d 503 (error_page ''Accounts not configured'' []) []
      else with_session e c d req (\<lambda>session.
        case session of
          None \<Rightarrow> redirect_to d ''/account/login'' [set_return_cookie (''/clone/'' @ encode_uri sid)]
        | Some s \<Rightarrow>
            if member_role d sid (se_account_id s) = None then send_html d 404 (clone_missing_page (se_email s)) []
            else send_html d 200
                   (clone_page_of (se_email s) (utf8_text (origin_for c req)) (Option.bind (get_store d sid) s_name) sid) []))"

subsection \<open>Static files\<close>

definition is_asset_path :: "string \<Rightarrow> bool" where
  "is_asset_path p \<longleftrightarrow> p = ''/assets/app.css''"

definition handle_asset :: "(string \<Rightarrow> string option) \<Rightarrow> string \<Rightarrow> db \<Rightarrow> handled" where
  "handle_asset public p d =
     (if \<not> is_asset_path p then refuse d 404 ''not found''
      else (case public ''app.css'' of
          None \<Rightarrow> refuse d 404 ''asset not built''
        | Some content \<Rightarrow> (Some (Raw 200 content), d)))"

definition is_spa_path :: "string \<Rightarrow> bool" where
  "is_spa_path p \<longleftrightarrow> p = ''/app'' \<or> p = ''/app/'' \<or> starts_with p ''/app/''"

definition has_dots :: "string \<Rightarrow> bool" where
  "has_dots s \<longleftrightarrow> list_ex (\<lambda>i. take 2 (drop i s) = ''..'') [0..<length s]"

text \<open>
  \<open>dist\<close> reads a file below the distribution directory. Joining a relative path without
  \<open>..\<close> stays below it, so the prefix test of the code is part of \<open>dist\<close>.
\<close>

definition handle_spa :: "(string \<Rightarrow> string option) \<Rightarrow> string \<Rightarrow> db \<Rightarrow> handled" where
  "handle_spa dist p d =
     (let index = (case dist ''index.html'' of
                     None \<Rightarrow> refuse d 404 ''web app not built'' | Some html \<Rightarrow> (Some (Raw 200 html), d));
          rel = drop (length ''/app/'') p
      in if starts_with p ''/app/'' \<and> p \<noteq> ''/app/'' \<and> \<not> has_dots rel
         then (case dist rel of None \<Rightarrow> index | Some data \<Rightarrow> (Some (Raw 200 data), d))
         else index)"

subsection \<open>Properties\<close>

lemma session_of_signed:
  assumes "read_account e header secret = Some (Some s)"
  shows "\<exists>cs t payload. parse_cookies header = Some cs \<and> map_of cs account_cookie_name = Some t \<and>
    t = payload @ ''.'' @ sign_payload e payload secret"
proof -
  obtain cs v where "parse_cookies header = Some cs" "verify_value e (map_of cs account_cookie_name) secret = Some v"
    using assms by (auto simp: read_account_def)
  moreover obtain t where "map_of cs account_cookie_name = Some t"
    using calculation(2) by (auto simp: verify_value_def split: option.splits)
  ultimately show ?thesis using verified_was_signed [of e t secret v] by auto
qed

text \<open>
  A device is approved only by its form: the database changes only when the caller's
  session cookie verifies and the submitted form carries a signed value for the very code that is
  approved, and then the row of that code is approved for the caller's account.
\<close>

lemma device_approval_needs_form:
  assumes "handle_device_approve e c req d = (r, d')" "d' \<noteq> d"
  shows "\<exists>s form v code. read_account e (cookie_header req) (or_empty (gc_session_secret c)) = Some (Some s) \<and>
    read_body req (4 * 1024) = Some form \<and>
    verify_value e (Some (or_empty (form_get form ''csrf''))) (or_empty (gc_session_secret c)) = Some v \<and>
    jget_str ''c'' v = Some code \<and> code = normalize_user_code (or_empty (form_get form ''user_code'')) \<and>
    approve_device e d code (se_account_id s) = Inr (True, d')"
proof -
  obtain s where s: "read_account e (cookie_header req) (or_empty (gc_session_secret c)) = Some (Some s)"
    using assms by (auto simp: handle_device_approve_def with_session_def send_html_def thrown_def redirect_to_def
        split: if_splits option.splits)
  obtain form where form: "read_body req (4 * 1024) = Some form"
    using assms s by (auto simp: handle_device_approve_def with_session_def send_html_def split: if_splits option.splits)
  define code where "code = normalize_user_code (or_empty (form_get form ''user_code''))"
  obtain v where v: "verify_value e (Some (or_empty (form_get form ''csrf''))) (or_empty (gc_session_secret c)) = Some v"
    "jget_str ''c'' v = Some code"
    using assms s form
    by (auto simp: handle_device_approve_def with_session_def send_html_def Let_def code_def split: if_splits option.splits)
  have run: "run_sql d (approve_device e d code (se_account_id s)) (\<lambda>(ok, d').
      send_html d' (if ok then 200 else 404) (device_result_page (se_email s) ok) []) = (r, d')"
    using assms s form v
    by (auto simp: handle_device_approve_def with_session_def send_html_def Let_def code_def split: if_splits)
  then obtain ok where ok: "approve_device e d code (se_account_id s) = Inr (ok, d')"
    using assms(2) by (auto simp: run_sql_def send_html_def thrown_def split: sum.splits)
  moreover have "ok" using ok assms(2) by (cases ok) (auto simp: approve_device_def Let_def split: option.splits if_splits)
  ultimately have "approve_device e d code (se_account_id s) = Inr (True, d')" by simp
  then show ?thesis using s form v code_def by blast
qed

text \<open>
  After signing in nobody is sent off the site: the callback redirects to the app, to the join
  page, or to a path that starts with one slash.
\<close>

lemma login_redirects_stay_local:
  assumes "handle_oauth_callback e c g req d = (Some (Redirect location cookies), d')"
  shows "local_path location"
  using assms
  by (auto simp: handle_oauth_callback_def with_cookies_def run_sql_def send_html_def thrown_def redirect_to_def
      local_path_def starts_with_def Let_def split: if_splits option.splits sum.splits)

end
