(* ===== verification/Gateway_Evolution.thy ===== *)
theory Gateway_Evolution
  imports Gateway_Web
begin

text \<open>
  What no operation of the control plane ever does to the database, collected in two relations.
  \<open>evolves d d'\<close> says that the invariant \<open>gw_ok\<close> (schema, sidecar parents, invite counts) is
  kept, that no workspace loses its last owner while somebody else remains, and that a revoked
  key stays revoked. \<open>grows\<close> is the same with every owned workspace still owned; it is reflexive
  and transitive and may precede a step of \<open>evolves\<close>. Every writing operation satisfies \<open>grows\<close>
  (\<open>grow_rules\<close>), but for the three that take members away (\<open>evolve_rules\<close>).
\<close>

definition gw_ok :: "db \<Rightarrow> bool" where
  "gw_ok d \<longleftrightarrow> db_ok d \<and> parents_ok d \<and> uses_ok d"

definition has_owner :: "db \<Rightarrow> string \<Rightarrow> bool" where
  "has_owner d s \<longleftrightarrow> (\<exists>m \<in> set (memberships d). m_store_id m = s \<and> m_role m = Owner)"

definition no_members :: "db \<Rightarrow> string \<Rightarrow> bool" where
  "no_members d s \<longleftrightarrow> (\<forall>m \<in> set (memberships d). m_store_id m \<noteq> s)"

definition owners_stay :: "db \<Rightarrow> db \<Rightarrow> bool" where
  "owners_stay d d' \<longleftrightarrow> (\<forall>s. has_owner d s \<longrightarrow> has_owner d' s)"

definition keeps_owners :: "db \<Rightarrow> db \<Rightarrow> bool" where
  "keeps_owners d d' \<longleftrightarrow> (\<forall>s. has_owner d s \<longrightarrow> has_owner d' s \<or> no_members d' s)"

definition keeps_revoked :: "db \<Rightarrow> db \<Rightarrow> bool" where
  "keeps_revoked d d' \<longleftrightarrow>
     (\<forall>t \<in> set (api_tokens d). truthy (t_revoked_at t) \<longrightarrow>
        (\<exists>t' \<in> set (api_tokens d'). t_hash t' = t_hash t \<and> truthy (t_revoked_at t')))"

definition grows :: "db \<Rightarrow> db \<Rightarrow> bool" where
  "grows d d' \<longleftrightarrow> gw_ok d \<longrightarrow> gw_ok d' \<and> owners_stay d d' \<and> keeps_revoked d d'"

definition evolves :: "db \<Rightarrow> db \<Rightarrow> bool" where
  "evolves d d' \<longleftrightarrow> gw_ok d \<longrightarrow> gw_ok d' \<and> keeps_owners d d' \<and> keeps_revoked d d'"

lemma owners_stay_same: "set (memberships d) \<subseteq> set (memberships d') \<Longrightarrow> owners_stay d d'"
  by (auto simp: owners_stay_def has_owner_def)

lemma keeps_revoked_same: "api_tokens d' = api_tokens d \<Longrightarrow> keeps_revoked d d'"
  by (auto simp: keeps_revoked_def)

lemma keeps_revoked_trans: "keeps_revoked a b \<Longrightarrow> keeps_revoked b c \<Longrightarrow> keeps_revoked a c"
  unfolding keeps_revoked_def by metis

lemma grows_refl [simp, intro]: "grows d d"
  by (simp add: grows_def owners_stay_def keeps_revoked_same)

lemma grows_trans: "grows a b \<Longrightarrow> grows b c \<Longrightarrow> grows a c"
  using keeps_revoked_trans by (auto simp: grows_def owners_stay_def)

lemma grows_evolves: "grows d d' \<Longrightarrow> evolves d d'"
  by (auto simp: grows_def evolves_def owners_stay_def keeps_owners_def)

lemma evolves_refl [simp, intro]: "evolves d d"
  by (rule grows_evolves) simp

lemma grows_then_evolves: "grows a b \<Longrightarrow> evolves b c \<Longrightarrow> evolves a c"
  using keeps_revoked_trans by (auto simp: grows_def evolves_def owners_stay_def keeps_owners_def)

lemma growsI:
  assumes "db_ok d \<Longrightarrow> db_ok d'" "db_ok d \<Longrightarrow> parents_ok d \<Longrightarrow> parents_ok d'" "db_ok d \<Longrightarrow> uses_ok d \<Longrightarrow> uses_ok d'"
    "set (memberships d) \<subseteq> set (memberships d')" "keeps_revoked d d'"
  shows "grows d d'"
  using assms owners_stay_same by (simp add: grows_def gw_ok_def)

lemma evolvesI:
  assumes "db_ok d \<Longrightarrow> db_ok d'" "db_ok d \<Longrightarrow> parents_ok d \<Longrightarrow> parents_ok d'" "db_ok d \<Longrightarrow> uses_ok d \<Longrightarrow> uses_ok d'"
    "db_ok d \<Longrightarrow> keeps_owners d d'" "api_tokens d' = api_tokens d"
  shows "evolves d d'"
  using assms keeps_revoked_same by (simp add: evolves_def gw_ok_def)

lemma parents_ok_same: "derived_stores d' = derived_stores d \<Longrightarrow> parents_ok d \<Longrightarrow> parents_ok d'"
  by (simp add: parents_ok_def)

lemma uses_ok_same: "invites d' = invites d \<Longrightarrow> uses_ok d \<Longrightarrow> uses_ok d'"
  by (simp add: uses_ok_def)

text \<open>An operation that leaves these four tables alone.\<close>

lemma grows_same:
  assumes "db_ok d \<Longrightarrow> db_ok d'" "derived_stores d' = derived_stores d" "invites d' = invites d"
    "memberships d' = memberships d" "api_tokens d' = api_tokens d"
  shows "grows d d'"
proof (rule growsI)
  show "keeps_revoked d d'" by (rule keeps_revoked_same [OF assms(5)])
qed (use assms parents_ok_same uses_ok_same in auto)

named_theorems grow_rules \<open>operations after which every owner is still there\<close>
named_theorems evolve_rules \<open>operations that may take members away\<close>

subsection \<open>Operations\<close>

lemma keeps_revoked_update:
  assumes "api_tokens d' = update_where P f (api_tokens d)" "\<And>t. t_hash (f t) = t_hash t"
    "\<And>t. P t \<Longrightarrow> truthy (t_revoked_at t) \<Longrightarrow> truthy (t_revoked_at (f t))"
  shows "keeps_revoked d d'"
  unfolding keeps_revoked_def assms(1)
proof (intro ballI impI)
  fix t assume t: "t \<in> set (api_tokens d)" "truthy (t_revoked_at t)"
  let ?t = "if P t then f t else t"
  have "?t \<in> set (update_where P f (api_tokens d))" using t(1) by (auto simp: set_update_where)
  moreover have "t_hash ?t = t_hash t \<and> truthy (t_revoked_at ?t)" using t(2) assms(2,3) by auto
  ultimately show "\<exists>t' \<in> set (update_where P f (api_tokens d)). t_hash t' = t_hash t \<and> truthy (t_revoked_at t')"
    by blast
qed

lemma grows_touch [grow_rules]: "grows d (touch_token e d tid)"
proof (rule growsI)
  show "keeps_revoked d (touch_token e d tid)"
    by (rule keeps_revoked_update [where P = "\<lambda>t. t_id t = tid" and f = "\<lambda>t. t\<lparr>t_last_used_at := Some (now_iso e)\<rparr>"])
      (auto simp: touch_token_def)
qed (auto simp: touch_token_def parents_ok_def uses_ok_def intro: db_ok_touch [unfolded touch_token_def])

lemma grows_revoke [grow_rules]: "grows d (snd (revoke_token e d tid))"
proof (rule growsI)
  show "keeps_revoked d (snd (revoke_token e d tid))"
    by (rule keeps_revoked_update [where P = "\<lambda>t. t_id t = tid \<and> t_revoked_at t = None"
          and f = "\<lambda>t. t\<lparr>t_revoked_at := Some (now_iso e)\<rparr>"])
      (auto simp: revoke_token_def Let_def)
  show "db_ok d \<Longrightarrow> db_ok (snd (revoke_token e d tid))" by (rule db_ok_revoke)
qed (auto simp: revoke_token_def Let_def parents_ok_def uses_ok_def)

lemma grows_issue [grow_rules]: "issue_api_key e d a l r ss = Inr (d', k) \<Longrightarrow> grows d d'"
proof -
  assume i: "issue_api_key e d a l r ss = Inr (d', k)"
  note f = issue_effect [OF i]
  have "derived_stores d' = derived_stores d" "invites d' = invites d" by (subst f(10), simp)+
  moreover have "keeps_revoked d d'" unfolding keeps_revoked_def f(1) by auto
  ultimately show ?thesis
    using db_ok_issue [OF i] f(7) by (intro growsI) (auto simp: parents_ok_def uses_ok_def)
qed

lemma insert_membership_tables:
  "insert_membership r d = Inr d' \<Longrightarrow> d' = d\<lparr>memberships := memberships d @ [r]\<rparr>"
  by (auto simp: insert_membership_def split: if_splits)

lemma grows_create_store [grow_rules]: "create_store e d a n = Inr (d', s) \<Longrightarrow> grows d d'"
proof -
  assume c: "create_store e d a n = Inr (d', s)"
  then have "api_tokens d' = api_tokens d" "invites d' = invites d" "derived_stores d' = derived_stores d"
    "set (memberships d) \<subseteq> set (memberships d')"
    by (auto simp: create_store_def Let_def and_then_Inr insert_store_def dest!: insert_membership_tables split: if_splits)
  then show ?thesis using db_ok_create_store [OF c]
    by (intro growsI) (auto simp: parents_ok_def uses_ok_def intro: keeps_revoked_same)
qed

text \<open>The owners' rule, by the refinement of the row operations to the map.\<close>

lemma has_owner_iff: "db_ok d \<Longrightarrow> has_owner d s \<longleftrightarrow> (\<exists>a. member_role d s a = Some Owner)"
  by (auto simp: has_owner_def member_role_iff)

lemma no_members_iff: "db_ok d \<Longrightarrow> no_members d s \<longleftrightarrow> (\<forall>a. member_role d s a = None)"
  by (auto simp: no_members_def member_role_None is_member_def image_iff)

lemma spec_remove_keeps_owner:
  assumes own: "m b = Some Owner"
  shows "(\<exists>c. snd (spec_remove m a) c = Some Owner) \<or> (\<forall>c. snd (spec_remove m a) c = None)"
proof (cases "\<exists>c. m c = Some Owner \<and> c \<noteq> a")
  case True
  then obtain c where "m c = Some Owner" "c \<noteq> a" by blast
  then have "snd (spec_remove m a) c = Some Owner" by (simp add: spec_remove_def split: option.split)
  then show ?thesis by blast
next
  case False
  then have "b = a" using own by blast
  with False own have "sole_owner m a" unfolding sole_owner_def by blast
  show ?thesis
  proof (cases "\<exists>c. c \<noteq> a \<and> m c \<noteq> None")
    case True
    then have "snd (spec_remove m a) = m" using \<open>sole_owner m a\<close> own \<open>b = a\<close> by (simp add: spec_remove_def)
    then show ?thesis using own by metis
  next
    case False
    then have "snd (spec_remove m a) c = None" for c using own \<open>b = a\<close> by (auto simp: spec_remove_def)
    then show ?thesis by blast
  qed
qed

lemma spec_set_role_keeps_owner:
  assumes own: "m b = Some Owner"
  shows "\<exists>c. snd (spec_set_role m a r) c = Some Owner"
proof (cases "\<exists>c. m c = Some Owner \<and> c \<noteq> a")
  case True
  then obtain c where "m c = Some Owner" "c \<noteq> a" by blast
  then have "snd (spec_set_role m a r) c = Some Owner" by (simp add: spec_set_role_def split: option.split)
  then show ?thesis by blast
next
  case False
  then have "b = a" using own by blast
  with False own have "sole_owner m a" unfolding sole_owner_def by blast
  then have "snd (spec_set_role m a r) a = Some Owner"
    using own \<open>b = a\<close> by (cases r) (simp_all add: spec_set_role_def)
  then show ?thesis by blast
qed

lemma keeps_owners_members:
  assumes "db_ok d" "db_ok d'" "\<And>s'. s' \<noteq> s \<Longrightarrow> member_role d' s' = member_role d s'"
    "\<And>b. member_role d s b = Some Owner \<Longrightarrow>
      (\<exists>c. member_role d' s c = Some Owner) \<or> (\<forall>c. member_role d' s c = None)"
  shows "keeps_owners d d'"
  unfolding keeps_owners_def has_owner_iff [OF assms(1)] has_owner_iff [OF assms(2)] no_members_iff [OF assms(2)]
  using assms(3,4) by metis

lemma keeps_owners_remove: "db_ok d \<Longrightarrow> keeps_owners d (snd (remove_member d s a))"
proof -
  assume ok: "db_ok d"
  note ref = membership_refines_all [OF ok, of s a Owner]
  have "member_role (snd (remove_member d s a)) s = snd (spec_remove (member_role d s) a)"
    using ref by (metis snd_conv)
  then show ?thesis
    using ref by (intro keeps_owners_members [OF ok db_ok_remove_member [OF ok]]) (blast, simp only: spec_remove_keeps_owner)
qed

lemma keeps_owners_set_role: "db_ok d \<Longrightarrow> keeps_owners d (snd (set_role d s a r))"
proof -
  assume ok: "db_ok d"
  note ref = membership_refines_all [OF ok, of s a r]
  have "member_role (snd (set_role d s a r)) s = snd (spec_set_role (member_role d s) a r)"
    using ref by (metis snd_conv)
  then show ?thesis
    using ref by (intro keeps_owners_members [OF ok db_ok_set_role [OF ok]]) (blast, simp only: spec_set_role_keeps_owner simp_thms)
qed

lemma members_tables:
  "d' = snd (remove_member d s a) \<or> d' = snd (set_role d s a r) \<Longrightarrow>
   api_tokens d' = api_tokens d \<and> invites d' = invites d \<and> derived_stores d' = derived_stores d"
  by (auto simp: remove_member_def set_role_def split: option.splits)

lemma evolves_members [evolve_rules]:
  "evolves d (snd (remove_member d s a))" "evolves d (snd (set_role d s a r))"
proof -
  show "evolves d (snd (remove_member d s a))"
    by (rule evolvesI) (use members_tables [of "snd (remove_member d s a)" d s a] in
        \<open>auto simp: parents_ok_def uses_ok_def intro: db_intros keeps_owners_remove\<close>)
  show "evolves d (snd (set_role d s a r))"
    by (rule evolvesI) (use members_tables [of "snd (set_role d s a r)" d s a r] in
        \<open>auto simp: parents_ok_def uses_ok_def intro: db_intros keeps_owners_set_role\<close>)
qed

lemma grows_rename [grow_rules]: "grows d (rename_store d s n)"
  by (intro grows_same db_ok_rename) (auto simp: rename_store_def)

lemma evolves_delete_store [evolve_rules]: "delete_store d s = Inr d' \<Longrightarrow> evolves d d'"
proof -
  assume del: "delete_store d s = Inr d'"
  then have t: "api_tokens d' = api_tokens d" "set (invites d') \<subseteq> set (invites d)"
    "set (derived_stores d') \<subseteq> set (derived_stores d)"
    "memberships d' = delete_where (\<lambda>m. m_store_id m = s) (memberships d)"
    by (auto simp: delete_store_def delete_store_row_def Let_def delete_derived_stores_def split: if_splits)
  have "keeps_owners d d'" by (auto simp: keeps_owners_def has_owner_def no_members_def t(4))
  then show ?thesis using t db_ok_delete_store [OF del]
    by (intro evolvesI) (auto simp: parents_ok_def uses_ok_def intro: keeps_revoked_same)
qed

lemma grows_register [grow_rules]:
  assumes "register_source_store e d s p a l = Inr (ok, d')"
  shows "grows d d'"
proof (rule grows_same)
  show "db_ok d \<Longrightarrow> db_ok d'" by (rule db_ok_register [OF assms])
qed (use assms in \<open>auto simp: register_source_store_def and_then_Inr insert_source_def
    split: option.splits if_splits\<close>)

lemma mint_tables:
  assumes "mint_invite e d s a m x = Inr (d', i)"
  shows "memberships d' = memberships d" "derived_stores d' = derived_stores d" "api_tokens d' = api_tokens d"
  using assms by (auto simp: mint_invite_def Let_def and_then_Inr insert_invite_def mark_invite_reachable_def
      split: prod.splits if_splits)

lemma grows_mint [grow_rules]:
  "mint_invite e d s a m x = Inr (d', i) \<Longrightarrow> (\<forall>n. m = Some n \<longrightarrow> 0 < n) \<Longrightarrow> grows d d'"
  by (intro growsI)
    (auto dest: db_ok_mint uses_ok_mint simp: mint_tables parents_ok_def
      intro: keeps_revoked_same)

lemma grows_revoke_invite [grow_rules]: "grows d (snd (revoke_invite e d s i))"
proof (rule growsI)
  show "db_ok d \<Longrightarrow> db_ok (snd (revoke_invite e d s i))" by (rule db_ok_revoke_invite)
  show "uses_ok d \<Longrightarrow> uses_ok (snd (revoke_invite e d s i))"
    by (auto simp: revoke_invite_def uses_ok_def set_update_where split: option.splits if_splits)
qed (auto simp: revoke_invite_def parents_ok_def split: option.splits intro: keeps_revoked_same)

lemma grows_redeem [grow_rules]: "redeem_invite e d t a = Inr (res, d') \<Longrightarrow> grows d d'"
proof -
  assume r: "redeem_invite e d t a = Inr (res, d')"
  have t: "api_tokens d' = api_tokens d \<and> derived_stores d' = derived_stores d \<and> set (memberships d) \<subseteq> set (memberships d')"
    using r
  proof (cases rule: redeem_cases)
    case (joined i d1)
    then show ?thesis using add_member_new(1) [OF joined(7,6)] by auto
  qed auto
  show ?thesis
    by (rule growsI) (use t r uses_ok_redeem db_ok_redeem in
        \<open>auto simp: parents_ok_def intro: keeps_revoked_same\<close>)
qed

lemma grows_personal [grow_rules]:
  assumes "get_or_create_personal_store e d a = Inr (d', p)"
  shows "grows d d'"
proof (rule grows_same)
  show "db_ok d \<Longrightarrow> db_ok d'" by (rule db_ok_personal [OF assms])
qed (use assms in \<open>auto simp: get_or_create_personal_store_def Let_def and_then_Inr insert_personal_def
    split: option.splits if_splits\<close>)

lemma grows_google [grow_rules]:
  assumes "upsert_account_by_google e d sub em = Inr (d', a)"
  shows "grows d d'"
proof (rule grows_same)
  show "db_ok d \<Longrightarrow> db_ok d'" by (rule db_ok_upsert_google [OF assms])
qed (use assms in \<open>auto simp: upsert_account_by_google_def and_then_Inr insert_account_def set_provider_sub_def
    split: option.splits if_splits\<close>)

lemma grows_derived [grow_rules]:
  assumes "get_or_create_derived_store e d parent kind = Inr (d', ds)"
    "is_workspace_store_id parent \<or> is_personal_store_id parent"
  shows "grows d d'"
proof -
  have t: "memberships d' = memberships d" "invites d' = invites d" "api_tokens d' = api_tokens d"
    using assms(1) by (auto simp: get_or_create_derived_store_def Let_def and_then_Inr insert_derived_def
        split: option.splits if_splits)
  have "parents_ok d'" if "db_ok d" "parents_ok d"
    using derived_found(2) [OF assms(1) that(1)] that(2) assms(2) by (auto simp: parents_ok_def)
  then show ?thesis using t db_ok_derived [OF assms(1)]
    by (intro growsI) (auto simp: uses_ok_def intro: keeps_revoked_same)
qed

lemma grows_usage [grow_rules]: "grows d (record_usage e d s i j)"
proof (rule grows_same)
  show "db_ok d \<Longrightarrow> db_ok (record_usage e d s i j)" by (rule db_ok_usage)
qed (auto simp: record_usage_def Let_def)

lemma grows_sweep [grow_rules]: "grows d (sweep_expired e d)"
  by (rule grows_same) (auto simp: sweep_expired_def intro: db_ok_delete_devices)

lemma grows_start_device [grow_rules]:
  assumes "start_device_auth e c d l = Inr (d', g)"
  shows "grows d d'"
proof (rule grows_same)
  show "db_ok d \<Longrightarrow> db_ok d'" by (rule db_ok_start_device [OF assms])
qed (use assms in \<open>auto simp: start_device_auth_def Let_def and_then_Inr insert_device_def sweep_expired_def
    split: option.splits if_splits\<close>)

lemma grows_approve [grow_rules]:
  assumes "approve_device e d u a = Inr (b, d')"
  shows "grows d d'"
proof (rule grows_same)
  show "db_ok d \<Longrightarrow> db_ok d'" by (rule db_ok_approve [OF assms])
qed (use assms in \<open>auto simp: approve_device_def Let_def
    split: option.splits if_splits\<close>)

lemma poll_tables:
  "api_tokens (snd (poll_device_token e d c)) = api_tokens d \<and> memberships (snd (poll_device_token e d c)) = memberships d \<and>
   invites (snd (poll_device_token e d c)) = invites d \<and> derived_stores (snd (poll_device_token e d c)) = derived_stores d"
  by (auto simp: poll_device_token_def Let_def split: option.splits)

lemma grows_poll [grow_rules]: "grows d (snd (poll_device_token e d c))"
  by (rule grows_same) (use db_ok_poll poll_tables in auto)

end
