(* ===== verification/Gateway_Handlers.thy ===== *)
theory Gateway_Handlers
  imports Gateway_Evolution
begin

text \<open>
  Every handler of the gateway, walked through once: the database it leaves evolves from the one
  it found, and when it answers an error (or throws) it has changed nothing but the device
  authorization rows, unless the error is the relay's or the replica's: then it may have moved the
  meters. \<open>behave_rules\<close> are the rules for the guards, \<open>behaved\<close> collects the result
  for each handler.
\<close>

subsection \<open>The rules\<close>

definition failed :: "response option \<Rightarrow> bool" where
  "failed r \<longleftrightarrow> (case r of None \<Rightarrow> True | Some (Raw _ _) \<Rightarrow> False | Some a \<Rightarrow> 400 \<le> status_of a)"

definition same_but_devices :: "db \<Rightarrow> db \<Rightarrow> bool" where
  "same_but_devices d d' \<longleftrightarrow> d' = d\<lparr>device_auth := device_auth d'\<rparr>"

text \<open>Only the mark of a key's last use and the usage of a store have changed.\<close>

definition same_but_meters :: "db \<Rightarrow> db \<Rightarrow> bool" where
  "same_but_meters d d' \<longleftrightarrow> d' = d\<lparr>api_tokens := api_tokens d', usage_daily := usage_daily d'\<rparr> \<and>
     map (\<lambda>t. t\<lparr>t_last_used_at := None\<rparr>) (api_tokens d') = map (\<lambda>t. t\<lparr>t_last_used_at := None\<rparr>) (api_tokens d)"

definition is_raw :: "response option \<Rightarrow> bool" where
  "is_raw r \<longleftrightarrow> (case r of Some (Raw _ _) \<Rightarrow> True | _ \<Rightarrow> False)"

definition behaves :: "db \<Rightarrow> handled \<Rightarrow> bool" where
  "behaves d h \<longleftrightarrow> evolves d (snd h) \<and> (failed (fst h) \<longrightarrow> same_but_devices d (snd h)) \<and>
     (is_raw (fst h) \<longrightarrow> same_but_meters d (snd h))"

lemma same_but_meters_refl [simp]: "same_but_meters d d"
  by (simp add: same_but_meters_def)

lemma same_but_meters_forwarded: "same_but_meters d (record_usage e (touch_principal e d p) s i j)"
  by (auto simp: same_but_meters_def record_usage_def touch_principal_def touch_token_def update_where_def Let_def)

lemma same_but_devices_refl [simp]: "same_but_devices d d"
  by (simp add: same_but_devices_def)

named_theorems behave_rules \<open>walking through a handler\<close>
named_theorems behaved \<open>the handlers, walked through\<close>

lemma behaves_unchanged [behave_rules]:
  "behaves d (refuse d n m)" "behaves d (thrown d)" "behaves d (reply d n v)" "behaves d (no_content d)"
  "behaves d (send_html d n t cs)" "behaves d (redirect_to d l cs)" "behaves d (r, d)"
  by (simp_all add: behaves_def refuse_def thrown_def reply_def no_content_def send_html_def redirect_to_def)

lemma behaves_as_caller [behave_rules]:
  "(\<And>p. behaves d (k p)) \<Longrightarrow> behaves d (as_caller e c d req k)"
  by (auto simp: as_caller_def behaves_unchanged split: option.split)

lemma behaves_if_allowed [behave_rules]: "behaves d k \<Longrightarrow> behaves d (if_allowed d p act res k)"
  by (auto simp: if_allowed_def behaves_unchanged split: option.split decision.split)

lemma behaves_with_json [behave_rules]: "(\<And>b. behaves d (k b)) \<Longrightarrow> behaves d (with_json d req k)"
  by (auto simp: with_json_def behaves_unchanged split: body_result.split)

lemma behaves_run_sql [behave_rules]:
  "(\<And>x. r = Inr x \<Longrightarrow> behaves d (k x)) \<Longrightarrow> behaves d (run_sql d r k)"
  by (auto simp: run_sql_def behaves_unchanged split: sum.split)

lemma behaves_account_principal [behave_rules]:
  "(\<And>p. behaves d (k p)) \<Longrightarrow> behaves d (account_principal e c d req m k)"
  unfolding account_principal_def by (intro behaves_as_caller) (auto simp: behaves_unchanged)

lemma behaves_with_session [behave_rules]:
  "(\<And>s. behaves d (k s)) \<Longrightarrow> behaves d (with_session e c d req k)"
  by (simp add: with_session_def behaves_unchanged split: option.split)

lemma behaves_with_cookies [behave_rules]:
  "(\<And>cs. behaves d (k cs)) \<Longrightarrow> behaves d (with_cookies d req k)"
  by (simp add: with_cookies_def behaves_unchanged split: option.split)

lemma behaves_if [behave_rules]:
  "(b \<Longrightarrow> behaves d x) \<Longrightarrow> (\<not> b \<Longrightarrow> behaves d y) \<Longrightarrow> behaves d (if b then x else y)"
  by simp

lemma behaves_option [behave_rules]:
  "(x = None \<Longrightarrow> behaves d a) \<Longrightarrow> (\<And>y. x = Some y \<Longrightarrow> behaves d (f y)) \<Longrightarrow> behaves d (case x of None \<Rightarrow> a | Some y \<Rightarrow> f y)"
  by (cases x) simp_all

lemma behaves_prod [behave_rules]:
  "(\<And>a b. x = (a, b) \<Longrightarrow> behaves d (f a b)) \<Longrightarrow> behaves d (case x of (a, b) \<Rightarrow> f a b)"
  by (cases x) simp

lemma behaves_sum [behave_rules]:
  "(\<And>a. x = Inl a \<Longrightarrow> behaves d (f a)) \<Longrightarrow> (\<And>b. x = Inr b \<Longrightarrow> behaves d (g b)) \<Longrightarrow>
   behaves d (case x of Inl a \<Rightarrow> f a | Inr b \<Rightarrow> g b)"
  by (cases x) simp_all

lemma behaves_json [behave_rules]:
  "behaves d n \<Longrightarrow> (\<And>b. behaves d (f b)) \<Longrightarrow> (\<And>i. behaves d (g i)) \<Longrightarrow> (\<And>s. behaves d (h s)) \<Longrightarrow>
   (\<And>a. behaves d (k a)) \<Longrightarrow> (\<And>m. behaves d (l m)) \<Longrightarrow> (\<And>t. behaves d (z t)) \<Longrightarrow>
   behaves d (case v of JFrac t \<Rightarrow> z t | JNull \<Rightarrow> n | JBool b \<Rightarrow> f b | JNum i \<Rightarrow> g i | JStr s \<Rightarrow> h s | JArr a \<Rightarrow> k a | JObj m \<Rightarrow> l m)"
  by (cases v) simp_all

lemma behaves_body [behave_rules]:
  "behaves d x \<Longrightarrow> behaves d y \<Longrightarrow> (\<And>b. behaves d (f b)) \<Longrightarrow>
   behaves d (case r of Too_large \<Rightarrow> x | Bad_json \<Rightarrow> y | Body b \<Rightarrow> f b)"
  by (cases r) simp_all

lemma behaves_answered:
  assumes "evolves d d'"
  shows "n < 400 \<Longrightarrow> behaves d (reply d' n v)" "behaves d (no_content d')" "n < 400 \<Longrightarrow> behaves d (send_html d' n t cs)"
    "behaves d (redirect_to d' l cs)" "same_but_meters d d' \<Longrightarrow> behaves d (Some (Raw n b), d')"
  using assms by (auto simp: behaves_def failed_def is_raw_def reply_def no_content_def send_html_def redirect_to_def)

lemma behaves_refused: 
  assumes "evolves d d'" "same_but_devices d d'" 
  shows "behaves d (refuse d' n m)" "behaves d (thrown d')" "behaves d (send_html d' n t cs)"
  using assms by (auto simp: behaves_def is_raw_def refuse_def send_error_def thrown_def send_html_def)

lemmas grow_evolves = grow_rules [THEN grows_evolves]

subsection \<open>Refused operations change nothing\<close>

lemma register_refused: "register_source_store e d s p a l = Inr (ok, d') \<Longrightarrow> \<not> ok \<Longrightarrow> d' = d"
  by (auto simp: register_source_store_def and_then_Inr split: option.splits if_splits)

lemma members_refused:
  "remove_member d s a = (r, d') \<Longrightarrow> r \<noteq> Changed \<Longrightarrow> d' = d"
  "set_role d s a r' = (r, d') \<Longrightarrow> r \<noteq> Changed \<Longrightarrow> d' = d"
  by (auto simp: remove_member_def set_role_def split: option.splits if_splits)

lemma revoke_invite_refused: "revoke_invite e d s i = (known, d') \<Longrightarrow> \<not> known \<Longrightarrow> d' = d"
  by (auto simp: revoke_invite_def split: option.splits if_splits)

lemma redeem_refused: "redeem_invite e d t a = Inr (Rejected, d') \<Longrightarrow> d' = d"
  by (cases rule: redeem_cases) auto

lemma invite_options_positive: "invite_options e b = Inr (m, x) \<Longrightarrow> \<forall>n. m = Some n \<longrightarrow> 0 < n"
  by (auto simp: invite_options_def and_then_Inr split: option.splits json.splits if_splits)

subsection \<open>The handlers\<close>

lemma remove_member_evolves: "remove_member d s a = (r, d') \<Longrightarrow> evolves d d'"
  using evolves_members(1) [of d s a] by simp

lemma set_role_evolves: "set_role d s a q = (r, d') \<Longrightarrow> evolves d d'"
  using evolves_members(2) [of d s a q] by simp

lemma create_workspace_behaves [behaved]: "behaves d (create_workspace e c req d)" 
  unfolding create_workspace_def by (intro behave_rules behaves_answered; auto intro: grow_evolves)

lemma list_workspaces_behaves [behaved]: "behaves d (list_workspaces e c req d)"
  unfolding list_workspaces_def by (intro behave_rules)

lemma get_workspace_behaves [behaved]: "behaves d (get_workspace e c req s d)"
  unfolding get_workspace_def by (intro behave_rules)

lemma register_source_store_handler_behaves [behaved]: "behaves d (register_source_store_handler e c req s d)"
  unfolding register_source_store_handler_def Let_def
  by (intro behave_rules; auto intro: grow_evolves behaves_answered dest: register_refused intro!: behave_rules)

lemma mint_evolves:
  "mint_invite e d s a m x = Inr (d', i) \<Longrightarrow> invite_options e b = Inr (m, x) \<Longrightarrow> evolves d d'"
  using grows_evolves grows_mint invite_options_positive by blast

lemma mint_invite_handler_behaves [behaved]: "behaves d (mint_invite_handler e c req s d)"
  unfolding mint_invite_handler_def
  by (intro behave_rules behaves_answered) (auto intro: mint_evolves)

lemma list_invites_handler_behaves [behaved]: "behaves d (list_invites_handler e c req s d)"
  unfolding list_invites_handler_def 
  by (auto intro!: behave_rules split: role.split)

lemma revoke_invite_handler_behaves [behaved]: "behaves d (revoke_invite_handler e c req s i d)"
  unfolding revoke_invite_handler_def Let_def 
  by (intro behave_rules; metis behaves_unchanged behaves_answered(2) revoke_invite_refused grows_revoke_invite grows_evolves snd_conv)

lemma join_workspace_behaves [behaved]: "behaves d (join_workspace e c req d)"
  unfolding join_workspace_def Let_def 
  by (intro behave_rules; auto split: redeem_result.split intro: behaves_answered grow_evolves dest: redeem_refused intro!: behave_rules)

lemma set_member_role_behaves [behaved]: "behaves d (set_member_role e c req s a d)"
  unfolding set_member_role_def Let_def
  by (intro behave_rules; auto split: change.split dest: members_refused
      intro: behaves_answered set_role_evolves intro!: behave_rules)

lemma remove_member_handler_behaves [behaved]: "behaves d (remove_member_handler e c req s a d)"
  unfolding remove_member_handler_def Let_def
  by (intro behave_rules; auto split: change.split dest: members_refused
      intro: behaves_answered remove_member_evolves intro!: behave_rules)

lemma rename_workspace_behaves [behaved]: "behaves d (rename_workspace e c req s d)"
  unfolding rename_workspace_def Let_def 
  by (intro behave_rules behaves_answered; auto intro: grow_evolves)

lemma delete_workspace_behaves [behaved]: "behaves d (delete_workspace e c req s d)"
  unfolding delete_workspace_def Let_def 
  by (intro behave_rules behaves_answered evolve_rules)

lemma handle_account_whoami_behaves [behaved]: "behaves d (handle_account_whoami e c req d)"
  unfolding handle_account_whoami_def by (intro behave_rules)

lemma handle_account_keys_list_behaves [behaved]: "behaves d (handle_account_keys_list e c req d)"
  unfolding handle_account_keys_list_def by (intro behave_rules)

lemma handle_account_key_issue_behaves [behaved]: "behaves d (handle_account_key_issue e c req d)"
  unfolding handle_account_key_issue_def Let_def
  by (intro behave_rules behaves_answered; auto intro: grow_evolves)

lemma handle_account_key_revoke_behaves [behaved]: "behaves d (handle_account_key_revoke e c req t d)"
  unfolding handle_account_key_revoke_def by (intro behave_rules behaves_answered grow_evolves)

lemma sweep_same: "same_but_devices d (sweep_expired e d)"
  by (simp add: same_but_devices_def sweep_expired_def)

lemma poll_same: "same_but_devices d (snd (poll_device_token e d c))"
  by (auto simp: same_but_devices_def poll_device_token_def Let_def split: option.splits)

lemma handle_device_code_behaves [behaved]: "behaves d (handle_device_code e c req d)"
  unfolding handle_device_code_def Let_def
  by (intro behave_rules behaves_answered behaves_refused sweep_same; auto intro: grow_evolves)

lemma poll_evolves: "poll_device_token e d c = (p, d') \<Longrightarrow> grows d d' \<and> same_but_devices d d'"
  using grows_poll [of d e c] poll_same [of d e c] by simp

lemma handle_device_token_behaves [behaved]: "behaves d (handle_device_token e c req d)"
proof -
  have *: "behaves d (run_sql d' (issue_api_key e d' a l r []) (\<lambda>(d2, k). reply d2 200 (v k)))"
    if "poll_device_token e d code = (p, d')" for p d' a l r v code
    using poll_evolves [OF that]
    by (auto simp: run_sql_def split: sum.split intro!: behaves_refused behaves_answered intro: grows_evolves grows_trans grows_issue)
  show ?thesis
    unfolding handle_device_token_def Let_def
    by (intro behave_rules; auto split: poll_result.split dest: poll_evolves intro: grows_evolves intro!: behaves_refused behave_rules *)
qed

lemma touch_principal_grows: "grows d (touch_principal e d p)"
  by (simp add: touch_principal_def grows_touch)

lemma handle_personal_store_behaves [behaved]: "behaves d (handle_personal_store e req d)"
  unfolding handle_personal_store_def
  by (intro behave_rules behaves_answered; auto intro: grows_evolves grows_trans grows_personal touch_principal_grows)

lemma handle_derived_store_behaves [behaved]: "behaves d (handle_derived_store e req s k d)"
  unfolding handle_derived_store_def
  by (intro behave_rules behaves_answered; auto intro: grows_evolves grows_trans grows_derived touch_principal_grows)

lemma handle_events_proxy_behaves [behaved]: "behaves d (fst (handle_events_proxy e c f req s d w))"
proof -
  have "behaves d (fst (forward_events e c f req s p b d w))" for p b
    by (auto simp: forward_events_def split: prod.split option.split intro!: behave_rules behaves_answered same_but_meters_forwarded
      intro: grows_evolves grows_trans grows_usage touch_principal_grows)
  then show ?thesis
    by (auto simp: handle_events_proxy_def split: option.split decision.split intro!: behave_rules)
qed

lemma forward_replica_read_behaves [behaved]: "behaves d (fst (forward_replica_read e c f req s r ps d w))"
  by (auto simp: forward_replica_read_def split: option.split decision.split prod.split intro!: behave_rules)

lemma handle_oauth_callback_behaves [behaved]: "behaves d (handle_oauth_callback e c g req d)"
  unfolding handle_oauth_callback_def Let_def
  by (intro behave_rules behaves_answered; auto intro: grow_evolves)

lemma handle_account_me_behaves [behaved]: "behaves d (handle_account_me e c req d)"
  unfolding handle_account_me_def
  by (intro behave_rules behaves_answered; auto intro: grow_evolves)

lemma approve_same: "approve_device e d u a = Inr (ok, d') \<Longrightarrow> same_but_devices d d'"
  by (auto simp: same_but_devices_def approve_device_def Let_def split: option.splits if_splits)

lemma handle_device_approve_behaves [behaved]: "behaves d (handle_device_approve e c req d)"
  unfolding handle_device_approve_def Let_def
  by (intro behave_rules behaves_refused; auto intro: grow_evolves approve_same)

lemma handle_join_page_behaves [behaved]: "behaves d (handle_join_page e c req d)"
  unfolding handle_join_page_def Let_def
  by (intro behave_rules; auto split: redeem_result.split intro: behaves_answered grow_evolves dest: redeem_refused intro!: behave_rules)

lemma handle_landing_behaves [behaved]: "behaves d (handle_landing e c req d)"
  unfolding handle_landing_def by (intro behave_rules)

lemma handle_docs_behaves [behaved]: "behaves d (handle_docs c req d)"
  unfolding handle_docs_def Let_def by (intro behave_rules)

lemma handle_account_behaves [behaved]: "behaves d (handle_account e c req d)"
  unfolding handle_account_def Let_def by (intro behave_rules)

lemma handle_device_page_behaves [behaved]: "behaves d (handle_device_page e c req d)"
  unfolding handle_device_page_def Let_def by (intro behave_rules)

lemma handle_admin_behaves [behaved]: "behaves d (fst (handle_admin e c f req d w))"
  by (auto simp: handle_admin_def split: option.split intro!: behave_rules)

lemma handle_clone_page_behaves [behaved]: "behaves d (handle_clone_page e c req s d)"
  unfolding handle_clone_page_def Let_def by (intro behave_rules)

lemma handle_asset_behaves [behaved]: "behaves d (handle_asset f s d)"
  unfolding handle_asset_def Let_def by (intro behave_rules)

lemma handle_spa_behaves [behaved]: "behaves d (handle_spa f s d)"
  unfolding handle_spa_def Let_def by (intro behave_rules)
end
