(* ===== verification/Gateway_Server.thy ===== *)
theory Gateway_Server
  imports Gateway_Handlers
begin

text \<open>
  \<open>packages/gateway/src/server.ts\<close>: the route table of the public edge and its error boundary.
  \<open>'w\<close> is the world behind the two proxied services; what lies outside the process (relay,
  replica, Google, static files) is the record \<open>outside\<close>. The table is a list of alternatives in
  the code's order, of which the first that applies answers.
\<close>

record 'w outside =
  relay_fetch :: "'w fetch"
  replica_fetch :: "'w fetch"
  google_login :: google
  public_files :: "string \<Rightarrow> string option"
  dist_files :: "string \<Rightarrow> string option"

subsection \<open>Route tables\<close>

definition on :: "bool \<Rightarrow> 'a \<Rightarrow> 'a option" where
  "on b x = (if b then Some x else None)"

definition on_path :: "bool \<Rightarrow> segment list \<Rightarrow> string \<Rightarrow> (string list \<Rightarrow> 'a) \<Rightarrow> 'a option" where
  "on_path b ps p k = (if b then map_option k (match_route ps p) else None)"

fun first_of :: "'a option list \<Rightarrow> 'a \<Rightarrow> 'a" where
  "first_of [] otherwise = otherwise"
| "first_of (Some x # rest) otherwise = x"
| "first_of (None # rest) otherwise = first_of rest otherwise"

definition under :: "string \<Rightarrow> string \<Rightarrow> bool" where
  "under prefix p \<longleftrightarrow> p = prefix \<or> starts_with p (prefix @ ''/'')"

text \<open>\<open>decode\<close>: a capture that is no valid percent encoding throws.\<close>

definition decoded :: "db \<Rightarrow> 'w \<Rightarrow> string \<Rightarrow> (string \<Rightarrow> handled \<times> 'w) \<Rightarrow> handled \<times> 'w" where
  "decoded d w raw k = (case decode_uri raw of None \<Rightarrow> (thrown d, w) | Some s \<Rightarrow> k s)"

definition clone_page :: "segment list" where
  "clone_page = [Lit ''clone'', Capture]"

definition ws_path :: "segment list \<Rightarrow> segment list" where
  "ws_path ps = [Lit ''v1'', Lit ''workspaces'', Capture] @ ps"

definition derived_path :: "segment list" where
  "derived_path = [Lit ''v1'', Lit ''stores'', Capture, Lit ''derived'', Capture]"

definition account_key_path :: "segment list" where
  "account_key_path = [Lit ''v1'', Lit ''account'', Lit ''keys'', Capture]"

definition events_path :: "segment list" where
  "events_path = [Lit ''v1'', Lit ''projects'', Capture, Lit ''events'']"

subsection \<open>The table\<close>

definition browser_routes ::
  "env \<Rightarrow> gateway_config \<Rightarrow> 'w outside \<Rightarrow> request \<Rightarrow> db \<Rightarrow> 'w \<Rightarrow> (handled \<times> 'w) option list" where
  "browser_routes e c out req d w =
     (let get = (meth req = ''GET''); p = path req
      in [on (get \<and> p = ''/healthz'') (reply d 200 (JObj [(''ok'', JBool True)]), w),
          on (get \<and> is_asset_path p) (handle_asset (public_files out) p d, w),
          on (get \<and> is_spa_path p) (handle_spa (dist_files out) p d, w),
          on (get \<and> p = ''/'') (handle_landing e c req d, w),
          on (get \<and> under ''/docs'' p) (handle_docs c req d, w),
          on (get \<and> p = ''/oauth/callback'') (handle_oauth_callback e c (google_login out) req d, w),
          on (get \<and> p = ''/account/me'') (handle_account_me e c req d, w),
          on (under ''/account'' p) (handle_account e c req d, w),
          on (under ''/admin'' p) (handle_admin e c (relay_fetch out) req d w),
          on (get \<and> p = ''/join'') (handle_join_page e c req d, w),
          on_path get clone_page p (\<lambda>ids. decoded d w (ids ! 0) (\<lambda>s. (handle_clone_page e c req s d, w))),
          on (get \<and> p = ''/device'') (handle_device_page e c req d, w),
          on (meth req = ''POST'' \<and> p = ''/device'') (handle_device_approve e c req d, w)])"

definition account_routes ::
  "env \<Rightarrow> gateway_config \<Rightarrow> request \<Rightarrow> db \<Rightarrow> 'w \<Rightarrow> (handled \<times> 'w) option list" where
  "account_routes e c req d w =
     (let get = (meth req = ''GET''); post = (meth req = ''POST''); p = path req
      in [on (post \<and> p = ''/v1/device/code'') (handle_device_code e c req d, w),
          on (post \<and> p = ''/v1/device/token'') (handle_device_token e c req d, w),
          on (get \<and> p = ''/v1/account'') (handle_account_whoami e c req d, w),
          on (get \<and> p = ''/v1/account/personal-store'') (handle_personal_store e req d, w),
          on_path get derived_path p (\<lambda>ids. decoded d w (ids ! 0) (\<lambda>s. decoded d w (ids ! 1) (\<lambda>k.
            (handle_derived_store e req s k d, w)))),
          on (get \<and> p = ''/v1/account/workspaces'') (list_workspaces e c req d, w),
          on (get \<and> p = ''/v1/account/keys'') (handle_account_keys_list e c req d, w),
          on (post \<and> p = ''/v1/account/keys'') (handle_account_key_issue e c req d, w),
          on_path (meth req = ''DELETE'') account_key_path p (\<lambda>ids. decoded d w (ids ! 0) (\<lambda>k.
            (handle_account_key_revoke e c req k d, w)))])"

definition workspace_routes ::
  "env \<Rightarrow> gateway_config \<Rightarrow> 'w outside \<Rightarrow> request \<Rightarrow> db \<Rightarrow> 'w \<Rightarrow> (handled \<times> 'w) option list" where
  "workspace_routes e c out req d w =
     (let get = (meth req = ''GET''); post = (meth req = ''POST''); patch = (meth req = ''PATCH'');
          delete = (meth req = ''DELETE''); p = path req;
          one = (\<lambda>b ps h. on_path b (ws_path ps) p (\<lambda>ids. decoded d w (ids ! 0) (\<lambda>s. (h s d, w))));
          two = (\<lambda>b l h. on_path b (ws_path [Lit l, Capture]) p (\<lambda>ids. decoded d w (ids ! 0) (\<lambda>s.
                   decoded d w (ids ! 1) (\<lambda>x. (h s x d, w)))))
      in [on (post \<and> p = ''/v1/workspaces'') (create_workspace e c req d, w),
          on (post \<and> p = ''/v1/workspaces/join'') (join_workspace e c req d, w),
          on_path get (ws_path [Lit ''timeline'']) p (\<lambda>ids. decoded d w (ids ! 0) (\<lambda>s.
            handle_workspace_timeline e c (replica_fetch out) req s d w)),
          on_path get (ws_path [Lit ''tasks'']) p (\<lambda>ids. decoded d w (ids ! 0) (\<lambda>s.
            handle_workspace_tasks e c (replica_fetch out) req s d w)),
          one post [Lit ''source-stores''] (register_source_store_handler e c req),
          two delete ''invites'' (revoke_invite_handler e c req),
          one post [Lit ''invites''] (mint_invite_handler e c req),
          one get [Lit ''invites''] (list_invites_handler e c req),
          two patch ''members'' (set_member_role e c req),
          two delete ''members'' (remove_member_handler e c req),
          one get [] (get_workspace e c req),
          one patch [] (rename_workspace e c req),
          one delete [] (delete_workspace e c req)])"

definition event_routes ::
  "env \<Rightarrow> gateway_config \<Rightarrow> 'w outside \<Rightarrow> request \<Rightarrow> db \<Rightarrow> 'w \<Rightarrow> (handled \<times> 'w) option list" where
  "event_routes e c out req d w =
     [on_path (meth req = ''GET'' \<or> meth req = ''POST'') events_path (path req) (\<lambda>ids.
        decoded d w (ids ! 0) (\<lambda>s. handle_events_proxy e c (relay_fetch out) req s d w))]"

definition route ::
  "env \<Rightarrow> gateway_config \<Rightarrow> 'w outside \<Rightarrow> request \<Rightarrow> db \<Rightarrow> 'w \<Rightarrow> handled \<times> 'w" where
  "route e c out req d w =
     first_of (browser_routes e c out req d w @ account_routes e c req d w @ workspace_routes e c out req d w @
         event_routes e c out req d w)
       (refuse d 404 ''not found'', w)"

text \<open>\<open>createGatewayServer\<close>: an exception is answered 500; what was committed before it stays.\<close>

definition gateway_handle ::
  "env \<Rightarrow> gateway_config \<Rightarrow> 'w outside \<Rightarrow> request \<Rightarrow> db \<Rightarrow> 'w \<Rightarrow> response \<times> db \<times> 'w" where
  "gateway_handle e c out req d w =
     (let ((r, d'), w') = route e c out req d w
      in (case r of None \<Rightarrow> send_error 500 ''internal error'' | Some a \<Rightarrow> a, d', w'))"

subsection \<open>Walking through the table\<close>

lemma first_of_prop:
  assumes "P otherwise" "\<And>x. Some x \<in> set xs \<Longrightarrow> P x"
  shows "P (first_of xs otherwise)"
  using assms by (induction xs otherwise rule: first_of.induct) auto

definition each :: "('a \<Rightarrow> bool) \<Rightarrow> 'a option list \<Rightarrow> bool" where
  "each P xs \<longleftrightarrow> (\<forall>x. Some x \<in> set xs \<longrightarrow> P x)"

named_theorems route_rules \<open>walking through the route table\<close>

lemma each_Nil [route_rules]: "each P []"
  by (simp add: each_def)

lemma each_on [route_rules]: "(b \<Longrightarrow> P x) \<Longrightarrow> each P xs \<Longrightarrow> each P (on b x # xs)"
  by (auto simp: each_def on_def)

lemma each_on_path [route_rules]:
  "(\<And>ids. b \<Longrightarrow> match_route ps p = Some ids \<Longrightarrow> P (k ids)) \<Longrightarrow> each P xs \<Longrightarrow> each P (on_path b ps p k # xs)"
  by (cases b; cases "match_route ps p") (auto simp: each_def on_path_def)

lemma each_append: "each P xs \<Longrightarrow> each P ys \<Longrightarrow> each P (xs @ ys)"
  by (auto simp: each_def)

text \<open>A property of every alternative is one of the route.\<close>

lemma route_prop:
  assumes "P (refuse d 404 ''not found'', w)"
    "each P (browser_routes e c out req d w)" "each P (account_routes e c req d w)"
    "each P (workspace_routes e c out req d w)" "each P (event_routes e c out req d w)"
  shows "P (route e c out req d w)"
  unfolding route_def
  by (rule first_of_prop [where P = P, OF assms(1)]) (use assms(2-) in \<open>auto simp: each_def\<close>)

subsection \<open>What any request can do\<close>

lemma behaves_decoded:
  "(\<And>s. behaves d (fst (k s))) \<Longrightarrow> behaves d (fst (decoded d w raw k))"
  by (simp add: decoded_def behaves_unchanged split: option.split)

lemma behaves_route: "behaves d (fst (route e c out req d w))"
proof (rule route_prop [where P = "\<lambda>x. behaves d (fst x)"])
  show "behaves d (fst (refuse d 404 ''not found'', w))" by (simp add: behaves_unchanged)
  show "each (\<lambda>x. behaves d (fst x)) (browser_routes e c out req d w)"
    unfolding browser_routes_def Let_def
    by (intro route_rules behaves_decoded) (simp_all add: behaved behaves_unchanged)
  show "each (\<lambda>x. behaves d (fst x)) (account_routes e c req d w)"
    unfolding account_routes_def Let_def
    by (intro route_rules behaves_decoded) (simp_all add: behaved)
  show "each (\<lambda>x. behaves d (fst x)) (workspace_routes e c out req d w)"
    unfolding workspace_routes_def Let_def handle_workspace_timeline_def handle_workspace_tasks_def
    by (intro route_rules behaves_decoded) (simp_all add: behaved)
  show "each (\<lambda>x. behaves d (fst x)) (event_routes e c out req d w)"
    unfolding event_routes_def by (intro route_rules behaves_decoded) (simp add: behaved)
qed

lemma handled_by_route:
  assumes "gateway_handle e c out req d w = (a, d', w')"
  shows "\<exists>r. route e c out req d w = ((r, d'), w') \<and>
    a = (case r of None \<Rightarrow> send_error 500 ''internal error'' | Some b \<Rightarrow> b)"
  using assms by (auto simp: gateway_handle_def split: prod.splits)

lemma evolves_handle: "gateway_handle e c out req d w = (a, d', w') \<Longrightarrow> evolves d d'"
  using behaves_route [of d e c out req w] handled_by_route [of e c out req d w a d' w']
  by (auto simp: behaves_def)


subsection \<open>Runs of the gateway\<close>

text \<open>
  A step: a request at some time and with some randomness (the environment \<open>e\<close>), or a change of
  the outside world. A run starts with the empty database of a fresh deployment.
\<close>

inductive gw_step :: "gateway_config \<Rightarrow> db \<times> 'w \<Rightarrow> db \<times> 'w \<Rightarrow> bool" for c where
  request: "gateway_handle e c out req d w = (a, d', w') \<Longrightarrow> gw_step c (d, w) (d', w')"
| outside: "gw_step c (d, w) (d, w')"

inductive_cases gw_stepE [elim!]: "gw_step c (d, w) (d', w')"

definition gw_run :: "gateway_config \<Rightarrow> db \<times> 'w \<Rightarrow> db \<times> 'w \<Rightarrow> bool" where
  "gw_run c = (gw_step c)\<^sup>*\<^sup>*"

lemma evolves_step: "gw_step c s s' \<Longrightarrow> evolves (fst s) (fst s')"
  by (cases rule: gw_step.cases) (auto dest: evolves_handle)

lemma run_keeps:
  assumes "gw_run c s s'" "gw_ok (fst s)"
  shows "gw_ok (fst s') \<and> keeps_revoked (fst s) (fst s')"
  using assms(1) unfolding gw_run_def
proof (induction rule: rtranclp_induct)
  case base
  then show ?case using assms(2) by (simp add: keeps_revoked_same)
next
  case (step y z)
  then show ?case using evolves_step [OF step(2)] keeps_revoked_trans unfolding evolves_def by blast
qed

lemma gw_ok_empty: "gw_ok empty_db"
  by (simp add: gw_ok_def parents_ok_def uses_ok_def db_ok_empty) (simp add: empty_db_def)

text \<open>
  C3. In every state the gateway can reach, whatever requests came, in whatever order and at
  whatever times, and whatever the outside world answered: keys are unique and references
  resolve as the schema says, no sidecar store hangs on another sidecar, and no invite was used
  more often than it allows.
\<close>

theorem reachable_states_ok:
  assumes "gw_run c (empty_db, w) (d, w')"
  shows "db_ok d \<and> parents_ok d \<and> uses_ok d"
  using run_keeps [OF assms] gw_ok_empty by (simp add: gw_ok_def)

text \<open>
  C4. No request takes the last owner from a workspace that keeps members: in every state that
  satisfies the invariant (every reachable one), a workspace with an owner has an owner after
  any request whatever, unless nobody at all is left in it.
\<close>

theorem no_request_orphans_a_workspace:
  assumes "db_ok d" "parents_ok d" "uses_ok d" "gateway_handle e c out req d w = (a, d', w')"
    and "member_role d s owner = Some Owner"
  shows "(\<exists>account. member_role d' s account = Some Owner) \<or> (\<forall>account. member_role d' s account = None)"
proof -
  have ok: "gw_ok d" using assms(1-3) by (simp add: gw_ok_def)
  then have "gw_ok d'" "keeps_owners d d'" using evolves_handle [OF assms(4)] by (auto simp: evolves_def)
  then show ?thesis
    using ok assms(5) has_owner_iff [of d s] has_owner_iff [of d' s] no_members_iff [of d' s]
    unfolding keeps_owners_def gw_ok_def by blast
qed

text \<open>
  C5. Revocation is final: a key that is revoked in a state that satisfies the invariant
  identifies nobody in any later state of any run, so no request carrying it as a bearer token is ever authenticated by it again.
\<close>

theorem revoked_key_never_returns:
  assumes "db_ok d" "parents_ok d" "uses_ok d" "t \<in> set (api_tokens d)" "truthy (t_revoked_at t)"
    and "t_hash t = hash_secret e key" "gw_run c (d, w) (d', w')"
  shows "identify_token e d' key = None \<and> (bearer_token req = Some key \<longrightarrow> resolve_key_principal e d' req = None)"
proof -
  have "gw_ok d" using assms(1-3) by (simp add: gw_ok_def)
  then have ok: "gw_ok d'" "keeps_revoked d d'" using run_keeps [OF assms(7)] by auto
  then obtain t' where t': "t' \<in> set (api_tokens d')" "t_hash t' = hash_secret e key" "truthy (t_revoked_at t')"
    using assms(4-6) unfolding keeps_revoked_def by metis
  have inj: "inj_on t_hash (set (api_tokens d'))" using ok by (simp add: gw_ok_def db_ok_def keys_ok_def distinct_map)
  have "identify_token e d' key = None"
    using t' inj identify_SomeD [of e d' key] by (metis inj_onD not_None_eq)
  then show ?thesis by (simp add: resolve_key_principal_def)
qed

subsection \<open>Workspaces are hidden from strangers\<close>

text \<open>The segments a filled-in pattern splits into.\<close>

fun fill_list :: "segment list \<Rightarrow> string list \<Rightarrow> string list" where
  "fill_list [] cs = []"
| "fill_list (Lit l # ps) cs = l # fill_list ps cs"
| "fill_list (Capture # ps) [] = []"
| "fill_list (Capture # ps) (c # cs) = c # fill_list ps cs"

lemma js_split_fill:
  "plain_segment s \<Longrightarrow> list_all plain_segment cs \<Longrightarrow> \<forall>l. Lit l \<in> set ps \<longrightarrow> plain_segment l \<Longrightarrow>
   js_split (CHR ''/'') (s @ fill_segments ps cs) = s # fill_list ps cs"
proof (induction ps cs arbitrary: s rule: fill_segments.induct)
  case (2 l ps cs)
  then show ?case using js_split_slash [of s "l @ fill_segments ps cs"] by simp
next
  case (4 ps c cs)
  then show ?case using js_split_slash [of s "c @ fill_segments ps cs"] by simp
qed (simp_all add: js_split_none plain_segment_def)

lemma deny_outsider:
  assumes "member_role d s (pr_account_id p) = None"
  shows "authorize d p act (Workspace s) = Some
      (if act \<noteq> Read \<and> pr_read_only p then Deny 403 ''this key is read-only''
       else if pr_scoped p then Deny 403 ''management requires an unscoped key'' else Deny 404 ''not found'')"
    "is_workspace_store_id s \<Longrightarrow> authorize d p Write (Store s) = Some
      (Deny 403 (if pr_read_only p then ''this key is read-only'' else ''not a member of this store''))"
  using assms store_kinds_disjoint [of s] by (subst authorize.simps; cases act; auto)+

definition workspace_endpoints :: "(string \<times> segment list) list" where
  "workspace_endpoints =
     [(''GET'', []), (''PATCH'', []), (''DELETE'', []), (''GET'', [Lit ''timeline'']), (''GET'', [Lit ''tasks'']),
      (''GET'', [Lit ''invites'']), (''POST'', [Lit ''invites'']), (''DELETE'', [Lit ''invites'', Capture]),
      (''PATCH'', [Lit ''members'', Capture]), (''DELETE'', [Lit ''members'', Capture]),
      (''POST'', [Lit ''source-stores''])]"

text \<open>
  What an account outside a workspace is told, by the kind of its key and the endpoint: that the
  workspace is not there, or why such a key is refused everywhere.
\<close>

definition outsider_answer :: "principal \<Rightarrow> string \<times> segment list \<Rightarrow> response" where
  "outsider_answer p endpoint =
     (if fst endpoint \<noteq> ''GET'' \<and> pr_read_only p then send_error 403 ''this key is read-only''
      else if snd endpoint = [Lit ''source-stores''] then send_error 403 ''not a member of this store''
      else if pr_scoped p
      then send_error 403
        (if endpoint = (''DELETE'', [Lit ''members'', Capture]) then ''membership changes require an unscoped key''
         else ''management requires an unscoped key'')
      else send_error 404 ''not found'')"

lemma first_of_append: "first_of (xs @ ys) z = first_of xs (first_of ys z)"
  by (induction xs z rule: first_of.induct) auto

lemma first_of_on [simp]: "first_of (on b x # xs) z = (if b then x else first_of xs z)"
  by (simp add: on_def)

lemma first_of_on_path [simp]:
  "first_of (on_path b ps p k # xs) z =
     (if b then case match_route ps p of None \<Rightarrow> first_of xs z | Some ids \<Rightarrow> k ids else first_of xs z)"
  by (simp add: on_path_def split: option.split)

text \<open>A path below \<open>/v1\<close> is none of the browser's.\<close>

lemma not_browser:
  assumes "path req = ''/v1'' @ q" "js_split (CHR ''/'') (path req) = [] # ''v1'' # segs"
  shows "first_of (browser_routes e c out req d w) z = z"
  using assms(2)
  by (simp add: browser_routes_def Let_def assms(1) is_asset_path_def is_spa_path_def under_def starts_with_def
      match_route_def clone_page_def)

lemma not_account:
  assumes "path req = ''/v1/workspaces/'' @ q" "js_split (CHR ''/'') (path req) = [] # ''v1'' # ''workspaces'' # segs"
  shows "first_of (account_routes e c req d w) z = z"
  using assms(2)
  by (simp add: account_routes_def Let_def assms(1) match_route_def derived_path_def account_key_path_def)

lemma route_workspace:
  assumes "path req = ''/v1/workspaces/'' @ q" "js_split (CHR ''/'') (path req) = [] # ''v1'' # ''workspaces'' # segs"
  shows "route e c out req d w =
    first_of (workspace_routes e c out req d w) (first_of (event_routes e c out req d w) (refuse d 404 ''not found'', w))"
proof -
  have "path req = ''/v1'' @ (''/workspaces/'' @ q)" by (simp add: assms(1))
  then show ?thesis
    unfolding route_def first_of_append by (simp only: not_browser [OF _ assms(2)] not_account [OF assms])
qed

definition outsider :: "env \<Rightarrow> gateway_config \<Rightarrow> db \<Rightarrow> request \<Rightarrow> string \<Rightarrow> principal \<Rightarrow> bool" where
  "outsider e c d req s p \<longleftrightarrow>
     resolve_principal e c d req = Some (Some p) \<and> member_role d s (pr_account_id p) = None"

lemma outsider_refused:
  assumes "outsider e c d req s p"
  shows "get_workspace e c req s d = (Some (outsider_answer p (''GET'', [])), d)"
    "rename_workspace e c req s d = (Some (outsider_answer p (''PATCH'', [])), d)"
    "delete_workspace e c req s d = (Some (outsider_answer p (''DELETE'', [])), d)"
    "mint_invite_handler e c req s d = (Some (outsider_answer p (''POST'', [Lit ''invites''])), d)"
    "list_invites_handler e c req s d = (Some (outsider_answer p (''GET'', [Lit ''invites''])), d)"
    "revoke_invite_handler e c req s x d = (Some (outsider_answer p (''DELETE'', [Lit ''invites'', Capture])), d)"
    "set_member_role e c req s x d = (Some (outsider_answer p (''PATCH'', [Lit ''members'', Capture])), d)"
    "remove_member_handler e c req s x d = (Some (outsider_answer p (''DELETE'', [Lit ''members'', Capture])), d)"
    "handle_workspace_timeline e c f req s d w = ((Some (outsider_answer p (''GET'', [Lit ''timeline''])), d), w)"
    "handle_workspace_tasks e c f req s d w = ((Some (outsider_answer p (''GET'', [Lit ''tasks''])), d), w)"
    "is_workspace_store_id s \<Longrightarrow>
     register_source_store_handler e c req s d = (Some (outsider_answer p (''POST'', [Lit ''source-stores''])), d)"
proof -
  have p: "resolve_principal e c d req = Some (Some p)" "member_role d s (pr_account_id p) = None"
    using assms by (auto simp: outsider_def)
  note [simp] = p deny_outsider [OF p(2)] outsider_answer_def as_caller_def if_allowed_def refuse_def
  show "get_workspace e c req s d = (Some (outsider_answer p (''GET'', [])), d)"
    "rename_workspace e c req s d = (Some (outsider_answer p (''PATCH'', [])), d)"
    "delete_workspace e c req s d = (Some (outsider_answer p (''DELETE'', [])), d)"
    "mint_invite_handler e c req s d = (Some (outsider_answer p (''POST'', [Lit ''invites''])), d)"
    "list_invites_handler e c req s d = (Some (outsider_answer p (''GET'', [Lit ''invites''])), d)"
    "revoke_invite_handler e c req s x d = (Some (outsider_answer p (''DELETE'', [Lit ''invites'', Capture])), d)"
    "set_member_role e c req s x d = (Some (outsider_answer p (''PATCH'', [Lit ''members'', Capture])), d)"
    "remove_member_handler e c req s x d = (Some (outsider_answer p (''DELETE'', [Lit ''members'', Capture])), d)"
    "handle_workspace_timeline e c f req s d w = ((Some (outsider_answer p (''GET'', [Lit ''timeline''])), d), w)"
    "handle_workspace_tasks e c f req s d w = ((Some (outsider_answer p (''GET'', [Lit ''tasks''])), d), w)"
    by (simp_all add: get_workspace_def rename_workspace_def delete_workspace_def
        mint_invite_handler_def list_invites_handler_def revoke_invite_handler_def set_member_role_def
        remove_member_handler_def handle_workspace_timeline_def handle_workspace_tasks_def forward_replica_read_def)
  show "is_workspace_store_id s \<Longrightarrow>
     register_source_store_handler e c req s d = (Some (outsider_answer p (''POST'', [Lit ''source-stores''])), d)"
    by (simp add: register_source_store_handler_def)
qed

lemma endpoint_segments:
  assumes "(m, ps) \<in> set workspace_endpoints" "valid_path_id s" "valid_path_id x"
  shows "js_split (CHR ''/'') (fill_segments (ws_path ps) [s, x]) = [] # ''v1'' # ''workspaces'' # s # fill_list ps [x]"
proof -
  have plain: "\<forall>l. Lit l \<in> set (ws_path ps) \<longrightarrow> plain_segment l"
    using assms(1) by (auto simp: workspace_endpoints_def ws_path_def plain_segment_def)
  have "list_all plain_segment [s, x]" using assms(2,3) valid_path_id_plain by simp
  from js_split_fill [of "[]", OF _ this plain] show ?thesis
    by (simp add: plain_segment_def ws_path_def)
qed

text \<open>
  C8. A workspace is hidden from everybody outside it: at each of the eleven endpoints below a
  workspace's address, a signed-in account that is no member gets an answer that its key and the
  endpoint alone decide, the same whether the workspace exists or not and whatever is in the
  request's body: 404 with a session or a plain key, a 403 about the key with a read-only or scoped
  one, and the data plane's 403 when it registers a source store. Neither the database nor the
  outside world changes.
\<close>

theorem workspaces_hidden_from_strangers:
  assumes "outsider e c d req s p" "(meth req, ps) \<in> set workspace_endpoints"
    and "path req = fill_segments (ws_path ps) [s, x]" "valid_path_id s" "valid_path_id x"
    and "ps = [Lit ''source-stores''] \<longrightarrow> is_workspace_store_id s"
  shows "gateway_handle e c out req d w = (outsider_answer p (meth req, ps), d, w)"
proof -
  have segs: "js_split (CHR ''/'') (path req) = [] # ''v1'' # ''workspaces'' # s # fill_list ps [x]"
    using endpoint_segments [OF assms(2,4,5)] assms(3) by simp
  have plain: "s \<noteq> []" "x \<noteq> []" using assms(4,5) valid_path_id_plain by auto
  note dec = valid_path_id_decode [OF assms(4)] valid_path_id_decode [OF assms(5)]
  have path: "path req = ''/v1/workspaces/'' @ s @ fill_segments ps [x]" by (simp add: assms(3) ws_path_def)
  have "route e c out req d w = ((Some (outsider_answer p (meth req, ps)), d), w)"
    using assms(2,6) unfolding route_workspace [OF path segs] workspace_endpoints_def
    by (simp only: list.set insert_iff empty_iff prod.inject simp_thms; elim disjE conjE;
        use segs plain dec in \<open>simp add: workspace_routes_def Let_def match_route_def ws_path_def decoded_def path
          outsider_refused [OF assms(1)]\<close>)
  then show ?thesis by (simp add: gateway_handle_def)
qed

subsection \<open>An invite that outlives its workspace's members\<close>

text \<open>
  C40. The last-owner rule has a gap: the only member of a workspace, its owner, may leave, and an
  invite issued before stays live. Whoever redeems it becomes the only member, a plain
  member of a workspace without an owner, which nobody can administer any more.
\<close>

theorem invite_outlives_last_owner:
  assumes "db_ok d" "member_role d s = [owner \<mapsto> Owner]"
    and "i \<in> set (invites d)" "i_store_id i = s" "i_hash i = hash_secret e token"
    and "\<not> truthy (i_revoked_at i)" "\<not> expired e i" "\<not> exhausted i" "has_account d guest"
  shows "\<exists>d1 d2. remove_member d s owner = (Changed, d1) \<and>
    redeem_invite e d1 token guest = Inr (Redeemed s Member False, d2) \<and>
    member_role d2 s = [guest \<mapsto> Member] \<and>
    (\<forall>p act. pr_account_id p = guest \<longrightarrow> act = Admin \<longrightarrow> authorize d2 p act (Workspace s) \<noteq> Some Allow)"
proof -
  obtain r d1 where d1: "remove_member d s owner = (r, d1)" by fastforce
  have spec: "spec_remove [owner \<mapsto> Owner] owner = (Changed, Map.empty)"
    by (auto simp: spec_remove_def)
  have "(r, member_role d1 s) = (Changed, Map.empty)"
    using membership_refines_all [OF assms(1), of s owner Owner] d1 assms(2) spec by simp
  then have r: "r = Changed" "member_role d1 s = Map.empty" by auto
  have ok1: "db_ok d1" using db_ok_remove_member [OF assms(1), of s owner] d1 by simp
  have inv: "invites d1 = invites d" and acc: "accounts d1 = accounts d" and sto: "stores d1 = stores d"
    using d1 by (auto simp: remove_member_def split: option.splits if_splits)
  have f: "find (\<lambda>x. i_hash x = hash_secret e token) (invites d1) = Some i"
    using invite_of_hash [OF ok1] assms(3,5) inv by simp
  have hs: "has_store d1 s" using assms(3,4) ok1 inv by (auto simp: db_ok_def refs_ok_def has_store_def)
  have ha: "has_account d1 guest" using assms(9) acc by (simp add: has_account_def)
  have none: "member_role d1 s guest = None" by (simp add: r(2))
  obtain d2 where am: "add_member e d1 s guest Member = Inr d2"
    using hs ha none by (auto simp: add_member_def insert_membership_def member_role_None)
  let ?d3 = "d2\<lparr>invites := update_where (\<lambda>x. i_id x = i_id i) (\<lambda>x. x\<lparr>i_used_count := i_used_count x + 1\<rparr>) (invites d2)\<rparr>"
  have red: "redeem_invite e d1 token guest = Inr (Redeemed s Member False, ?d3)"
    using f assms(4,6-8) none am by (simp add: redeem_invite_def)
  have "member_role ?d3 = member_role d2" by (simp add: member_role_def fun_eq_iff)
  then have role: "member_role ?d3 s = [guest \<mapsto> Member]" using add_member_new(2) [OF am none] r(2) by simp
  have "authorize ?d3 p Admin (Workspace s) \<noteq> Some Allow" if "pr_account_id p = guest" for p
    using role that by (subst authorize.simps) simp
  then show ?thesis using d1 r(1) red role by blast
qed

end
