(* ===== verification/Gateway_Examples.thy ===== *)
theory Gateway_Examples
  imports Gateway_Server
begin

text \<open>
  A small gateway (two accounts, one shared workspace, keys, an invite, a device grant) on
  which the properties of the gateway are applied: each witness discharges the hypotheses of one
  property at concrete values.
\<close>

subsection \<open>The sample\<close>

definition ex_env :: "nat \<Rightarrow> env" where
  "ex_env t = \<lparr>now = t, random = (\<lambda>k n. replicate n k), sha256 = (\<lambda>s. s), hmac = (\<lambda>k p. [1, 2, 3]),
     date_other = (\<lambda>_. None)\<rparr>"

definition ex_config :: gateway_config where
  "ex_config = \<lparr>gc_port = 8080, gc_db_file = ''db'', gc_relay_url = ''http://relay'', gc_replica_url = ''http://replica'',
     gc_relay_token = Some ''t'', gc_public_url = Some ''https://hub'', gc_google_client_id = Some ''i'',
     gc_google_client_secret = Some ''g'', gc_admin_emails = [], gc_session_secret = Some ''s''\<rparr>"

definition ex_outside :: "nat outside" where
  "ex_outside = \<lparr>relay_fetch = (\<lambda>req n. (Some (200, ''{}''), Suc n)), replica_fetch = (\<lambda>req n. (None, n)),
     google_login = \<lparr>token_endpoint = (\<lambda>_. None), user_endpoint = (\<lambda>_. None)\<rparr>,
     public_files = (\<lambda>_. None), dist_files = (\<lambda>_. None)\<rparr>"

definition ex_token :: "string \<Rightarrow> string \<Rightarrow> string \<Rightarrow> string option \<Rightarrow> token_row" where
  "ex_token tid account key revoked = \<lparr>t_id = tid, t_account_id = account, t_hash = key, t_prefix = take 6 key,
     t_label = None, t_read_only = False, t_created_at = ''2026'', t_revoked_at = revoked, t_last_used_at = None\<rparr>"

definition ex_invite :: invite_row where
  "ex_invite = \<lparr>i_id = ''inv_1'', i_store_id = ''wsp_1'', i_hash = ''secret'', i_role = Member, i_max_uses = Some 2,
     i_used_count = 0, i_expires_at = None, i_revoked_at = None, i_created_by = ''acc_a'', i_created_at = ''2026''\<rparr>"

definition ex_db :: db where
  "ex_db = empty_db\<lparr>
     accounts := [\<lparr>a_id = ''acc_a'', a_email = ''a@x'', a_provider_sub = None, a_created_at = ''2026''\<rparr>,
                  \<lparr>a_id = ''acc_b'', a_email = ''b@x'', a_provider_sub = None, a_created_at = ''2026''\<rparr>],
     api_tokens := [ex_token ''tok_1'' ''acc_a'' ''mzk_a'' None, ex_token ''tok_2'' ''acc_b'' ''mzk_b'' None,
                    ex_token ''tok_3'' ''acc_a'' ''mzk_r'' (Some ''2026'')],
     stores := [\<lparr>s_id = ''wsp_1'', s_invite_reachable = True, s_name = None, s_created_by = ''acc_a'', s_created_at = ''2026''\<rparr>],
     memberships := [\<lparr>m_store_id = ''wsp_1'', m_account_id = ''acc_a'', m_role = Owner, m_joined_at = ''2026''\<rparr>],
     invites := [ex_invite],
     device_auth := [\<lparr>d_device_code = ''dev'', d_user_code = ''AAAA-AAAA'', d_account_id = Some ''acc_a'', d_status = Approved,
        d_label = ''laptop'', d_created_at = ''2026'', d_expires_at = ''never'', d_last_polled_at = None\<rparr>]\<rparr>"

definition ex_request :: "string \<Rightarrow> string \<Rightarrow> string option \<Rightarrow> string list \<Rightarrow> request" where
  "ex_request m p key body = \<lparr>meth = m, path = p, query = [], auth_header = map_option (\<lambda>k. ''Bearer '' @ k) key,
     cookie_header = None, host_header = None, chunks = body\<rparr>"

lemmas ex_defs = ex_env_def ex_config_def ex_outside_def ex_token_def ex_invite_def ex_db_def ex_request_def empty_db_def

lemma ex_ok: "db_ok ex_db" "parents_ok ex_db" "uses_ok ex_db"
  by (simp_all add: ex_defs db_defs parents_ok_def uses_ok_def)

lemma ex_member: "member_role ex_db ''wsp_1'' = [''acc_a'' \<mapsto> Owner]"
  by (auto simp: member_role_def ex_defs fun_eq_iff)

lemma ex_trim: "js_trim ''mzk_a'' = ''mzk_a''" "js_trim ''mzk_b'' = ''mzk_b''" "js_trim ''mzk_r'' = ''mzk_r''"
  by code_simp+

lemma ex_bearer:
  "js_trim k = k \<Longrightarrow> k \<noteq> [] \<Longrightarrow> bearer_token (ex_request m p (Some k) b) = Some k"
  by (simp add: bearer_token_def ex_request_def starts_with_def)

subsection \<open>Runs\<close>

lemma reachable_states_ok_witness:
  "let d = fst (snd (gateway_handle (ex_env 5) ex_config ex_outside
       (ex_request ''POST'' ''/v1/device/code'' None [''{}'']) empty_db 0))
   in db_ok d \<and> parents_ok d \<and> uses_ok d"
proof -
  obtain a d w where h: "gateway_handle (ex_env 5) ex_config ex_outside
       (ex_request ''POST'' ''/v1/device/code'' None [''{}'']) empty_db 0 = (a, d, w)"
    by (metis prod_cases3)
  have "gw_run ex_config (empty_db, 0) (d, w)"
    unfolding gw_run_def by (rule r_into_rtranclp [where r = "gw_step ex_config", OF gw_step.request [OF h]])
  from reachable_states_ok [OF this] show ?thesis by (simp add: h)
qed

lemma no_request_orphans_a_workspace_witness:
  "let d = fst (snd (gateway_handle (ex_env 5) ex_config ex_outside
       (ex_request ''DELETE'' ''/v1/workspaces/wsp_1/members/acc_a'' (Some ''mzk_a'') []) ex_db 0))
   in (\<exists>account. member_role d ''wsp_1'' account = Some Owner) \<or> (\<forall>account. member_role d ''wsp_1'' account = None)"
proof -
  obtain a d w where h: "gateway_handle (ex_env 5) ex_config ex_outside
       (ex_request ''DELETE'' ''/v1/workspaces/wsp_1/members/acc_a'' (Some ''mzk_a'') []) ex_db 0 = (a, d, w)"
    by (metis prod_cases3)
  show ?thesis
    using no_request_orphans_a_workspace [OF ex_ok h, of "''wsp_1''" "''acc_a''"] by (simp add: h ex_member)
qed

lemma revoked_key_never_returns_witness:
  "let d = fst (snd (gateway_handle (ex_env 5) ex_config ex_outside
       (ex_request ''GET'' ''/v1/account/keys'' (Some ''mzk_a'') []) ex_db 0))
   in resolve_key_principal (ex_env 9) d (ex_request ''GET'' ''/v1/account'' (Some ''mzk_r'') []) = None"
proof -
  obtain a d w where h: "gateway_handle (ex_env 5) ex_config ex_outside
       (ex_request ''GET'' ''/v1/account/keys'' (Some ''mzk_a'') []) ex_db 0 = (a, d, w)"
    by (metis prod_cases3)
  have "gw_run ex_config (ex_db, 0) (d, w)"
    unfolding gw_run_def by (rule r_into_rtranclp [where r = "gw_step ex_config", OF gw_step.request [OF h]])
  moreover have "bearer_token (ex_request ''GET'' ''/v1/account'' (Some ''mzk_r'') []) = Some ''mzk_r''"
    by (rule ex_bearer) (simp_all add: ex_trim)
  moreover have "ex_token ''tok_3'' ''acc_a'' ''mzk_r'' (Some ''2026'') \<in> set (api_tokens ex_db)"
    by (simp add: ex_db_def)
  moreover have "t_hash (ex_token ''tok_3'' ''acc_a'' ''mzk_r'' (Some ''2026'')) = hash_secret (ex_env 9) ''mzk_r''"
    "truthy (t_revoked_at (ex_token ''tok_3'' ''acc_a'' ''mzk_r'' (Some ''2026'')))"
    by (simp_all add: ex_token_def truthy_def hash_secret_def ex_env_def)
  ultimately show ?thesis
    using revoked_key_never_returns [OF ex_ok, of "ex_token ''tok_3'' ''acc_a'' ''mzk_r'' (Some ''2026'')" "ex_env 9" "''mzk_r''"
        ex_config 0 d w "ex_request ''GET'' ''/v1/account'' (Some ''mzk_r'') []"]
    by (simp add: h)
qed


definition ex_outsider :: principal where
  "ex_outsider = \<lparr>pr_account_id = ''acc_b'', pr_via = Key, pr_read_only = False, pr_scoped = False, pr_token_id = Some ''tok_2''\<rparr>"

lemma ex_outsider_resolves:
  "outsider (ex_env 5) ex_config ex_db (ex_request m p (Some ''mzk_b'') b) ''wsp_1'' ex_outsider"
  by (simp add: outsider_def ex_outsider_def resolve_principal_def resolve_key_principal_def ex_bearer ex_trim identify_token_def
      token_is_unscoped_def hash_secret_def member_role_def ex_env_def ex_db_def ex_token_def truthy_def empty_db_def)

lemma workspaces_hidden_from_strangers_witness:
  "gateway_handle (ex_env 5) ex_config ex_outside
     (ex_request ''PATCH'' ''/v1/workspaces/wsp_1/members/acc_a'' (Some ''mzk_b'') [''{}'']) ex_db 0 =
   (send_error 404 ''not found'', ex_db, 0)"
proof -
  let ?r = "ex_request ''PATCH'' ''/v1/workspaces/wsp_1/members/acc_a'' (Some ''mzk_b'') [''{}'']"
  have "gateway_handle (ex_env 5) ex_config ex_outside ?r ex_db 0 =
      (outsider_answer ex_outsider (meth ?r, [Lit ''members'', Capture]), ex_db, 0)"
    by (rule workspaces_hidden_from_strangers [OF ex_outsider_resolves, where x = "''acc_a''"])
      (simp_all add: ex_request_def workspace_endpoints_def ws_path_def valid_path_id_def id_char_def char_code_def)
  moreover have "outsider_answer ex_outsider (meth ?r, [Lit ''members'', Capture]) = send_error 404 ''not found''"
    by (simp add: outsider_answer_def ex_outsider_def ex_request_def)
  ultimately show ?thesis by simp
qed

lemma invite_outlives_last_owner_witness:
  "\<exists>d1 d2. remove_member ex_db ''wsp_1'' ''acc_a'' = (Changed, d1) \<and>
    redeem_invite (ex_env 5) d1 ''secret'' ''acc_b'' = Inr (Redeemed ''wsp_1'' Member False, d2) \<and>
    member_role d2 ''wsp_1'' = [''acc_b'' \<mapsto> Member]"
  using invite_outlives_last_owner [OF ex_ok(1) ex_member, of ex_invite "ex_env 5" "''secret''" "''acc_b''"]
  by (auto simp: ex_defs hash_secret_def truthy_def expired_def exhausted_def has_account_def)

subsection \<open>Keys, members, invites\<close>

lemma ex_principal:
  "resolve_principal (ex_env t) ex_config ex_db (ex_request m p (Some ''mzk_a'') b) =
   Some (Some \<lparr>pr_account_id = ''acc_a'', pr_via = Key, pr_read_only = False, pr_scoped = False, pr_token_id = Some ''tok_1''\<rparr>)"
  by (simp add: resolve_principal_def resolve_key_principal_def ex_bearer ex_trim identify_token_def
      token_is_unscoped_def hash_secret_def ex_env_def ex_db_def ex_token_def truthy_def empty_db_def)

lemma authorize_decides_witness:
  "\<exists>dec. authorize ex_db \<lparr>pr_account_id = ''acc_a'', pr_via = Key, pr_read_only = False, pr_scoped = False, pr_token_id = None\<rparr>
     Write (Store ''wsp_1'') = Some dec \<and> dec = Allow"
proof -
  let ?p = "\<lparr>pr_account_id = ''acc_a'', pr_via = Key, pr_read_only = False, pr_scoped = False, pr_token_id = None\<rparr>"
  have "may_access ex_db ?p Write (Store ''wsp_1'')"
    by (simp add: target_store_def reaches_def ex_member is_derived_store_id_def is_personal_store_id_def
        is_workspace_store_id_def starts_with_def)
  then show ?thesis using authorize_decides [OF ex_ok(2), of ?p Write "Store ''wsp_1''"] by blast
qed

lemma membership_refines_witness:
  "(fst (remove_member ex_db ''wsp_1'' ''acc_a''), member_role (snd (remove_member ex_db ''wsp_1'' ''acc_a'')) ''wsp_1'') =
   (Changed, Map.empty)"
proof -
  have "spec_remove [''acc_a'' \<mapsto> Owner] ''acc_a'' = (Changed, Map.empty)" by (auto simp: spec_remove_def)
  then show ?thesis using membership_refines [OF ex_ok(1), of "''wsp_1''" "''acc_a''"] by (simp add: ex_member)
qed

lemma ex_find_invite: "find (\<lambda>i. i_hash i = hash_secret (ex_env t) ''secret'') (invites ex_db) = Some ex_invite"
  by (simp add: ex_defs hash_secret_def)

lemma ex_invite_live: "\<not> truthy (i_revoked_at ex_invite)" "\<not> expired e ex_invite" "\<not> exhausted ex_invite"
  by (simp_all add: ex_invite_def truthy_def expired_def exhausted_def)

lemma ex_redeem: "\<exists>d'. redeem_invite (ex_env 5) ex_db ''secret'' ''acc_b'' = Inr (Redeemed ''wsp_1'' Member False, d')"
proof -
  have i: "i_store_id ex_invite = ''wsp_1''" by (simp add: ex_invite_def)
  have k: "\<not> is_member ex_db ''wsp_1'' ''acc_b''" "has_account ex_db ''acc_b''" "has_store ex_db ''wsp_1''"
    by (simp_all add: is_member_def ex_db_def empty_db_def has_account_def has_store_def)
  show ?thesis
    by (simp add: redeem_invite_def ex_find_invite ex_invite_live add_member_def insert_membership_def i k ex_member)
qed

lemma redeem_joins_witness:
  "\<exists>d'. redeem_invite (ex_env 5) ex_db ''secret'' ''acc_b'' = Inr (Redeemed ''wsp_1'' Member False, d') \<and>
     member_role d' ''wsp_1'' = [''acc_a'' \<mapsto> Owner, ''acc_b'' \<mapsto> Member]"
proof -
  obtain d' where r: "redeem_invite (ex_env 5) ex_db ''secret'' ''acc_b'' = Inr (Redeemed ''wsp_1'' Member False, d')"
    using ex_redeem by blast
  have s: "i_store_id ex_invite = ''wsp_1''" by (simp add: ex_invite_def)
  show ?thesis
    using redeem_joins [OF ex_ok(1) r] by (simp add: r ex_find_invite ex_invite_live s ex_member)
qed

lemma invite_revocation_final_witness:
  "redeem_invite (ex_env 9) (snd (revoke_invite (ex_env 5) ex_db ''wsp_1'' ''inv_1'')) ''secret'' ''acc_b'' =
   Inr (Rejected, snd (revoke_invite (ex_env 5) ex_db ''wsp_1'' ''inv_1''))"
proof -
  have r: "revoke_invite (ex_env 5) ex_db ''wsp_1'' ''inv_1'' =
      (True, snd (revoke_invite (ex_env 5) ex_db ''wsp_1'' ''inv_1''))"
    by (simp add: revoke_invite_def ex_db_def ex_invite_def empty_db_def)
  have "ex_invite \<in> set (invites ex_db)" "i_id ex_invite = ''inv_1''" "hash_secret (ex_env 9) ''secret'' = i_hash ex_invite"
    "i_revoked_at ex_invite \<noteq> Some []"
    by (simp_all add: ex_db_def ex_invite_def hash_secret_def ex_env_def)
  from invite_revocation_final [OF ex_ok(1) r this] show ?thesis by blast
qed

lemma base64url_long: "(4 * length xs + 2) div 3 \<noteq> 1 \<Longrightarrow> base64url xs \<noteq> [c]"
  using length_base64url [of xs] by auto

lemma key_lifecycle_witness:
  "\<exists>d' k. issue_api_key (ex_env 5) ex_db ''acc_b'' None True [''wsp_1''] = Inr (d', k) \<and>
     identify_token (ex_env 5) d' (ik_plaintext k) =
       Some \<lparr>ti_token_id = ik_token_id k, ti_account_id = ''acc_b'', ti_read_only = True\<rparr> \<and>
     \<not> token_covers_store d' (ik_token_id k) ''wsp_2''"
proof -
  have "\<exists>d' k. issue_api_key (ex_env 5) ex_db ''acc_b'' None True [''wsp_1''] = Inr (d', k)"
    by (simp add: issue_api_key_def Let_def insert_token_def insert_scope_def generate_api_key_def hash_secret_def
        ex_db_def ex_env_def ex_token_def empty_db_def has_account_def has_token_def new_id_def base64url_long)
  then obtain d' k where i: "issue_api_key (ex_env 5) ex_db ''acc_b'' None True [''wsp_1''] = Inr (d', k)" by blast
  from key_lifecycle [OF ex_ok(1) i] show ?thesis using i by auto
qed

lemma personal_store_private_witness:
  "\<exists>d' ps. get_or_create_personal_store (ex_env 5) ex_db ''acc_b'' = Inr (d', ps) \<and>
     get_personal_store_owner d' (ps_store_id ps) = Some ''acc_b''"
proof -
  have "\<exists>d' ps. get_or_create_personal_store (ex_env 5) ex_db ''acc_b'' = Inr (d', ps)"
    by (simp add: get_or_create_personal_store_def insert_personal_def Let_def ex_db_def empty_db_def has_account_def)
  then obtain d' ps where i: "get_or_create_personal_store (ex_env 5) ex_db ''acc_b'' = Inr (d', ps)" by blast
  from personal_store_private [OF ex_ok(1) i] show ?thesis using i by auto
qed

lemma delete_store_blocked_by_source_stores_witness:
  "\<exists>d'. delete_store ex_db ''wsp_1'' = Inr d' \<and> \<not> has_store d' ''wsp_1''"
proof -
  have "\<exists>d'. delete_store ex_db ''wsp_1'' = Inr d'"
    by (simp add: delete_store_def delete_derived_stores_def delete_store_row_def store_referenced_def
        Let_def ex_db_def ex_invite_def empty_db_def delete_where_def)
  then show ?thesis using delete_store_blocked_by_source_stores [OF ex_ok(1), of "''wsp_1''"] by blast
qed

subsection \<open>Sessions, devices, traffic\<close>

lemma session_cookie_roundtrip_witness:
  "read_account (ex_env 10) (Some (account_cookie_name @ ''='' @ sign_value (ex_env 5)
     (session_json (ex_env 5) \<lparr>se_account_id = ''acc_a'', se_email = ''a@x''\<rparr>) ''s'')) ''s'' =
   Some (Some \<lparr>se_account_id = ''acc_a'', se_email = ''a@x''\<rparr>)"
proof -
  have "\<forall>k p. byte_list (hmac (ex_env 5) k p)" "hmac (ex_env 10) = hmac (ex_env 5)"
    by (simp_all add: ex_env_def byte_list_def)
  from session_cookie_roundtrip [OF this, of "\<lparr>se_account_id = ''acc_a'', se_email = ''a@x''\<rparr>" "''s''"]
  show ?thesis by (simp add: ex_env_def session_ttl_ms_def)
qed

lemma device_single_delivery_witness:
  "\<exists>d'. poll_device_token (ex_env 5) ex_db ''dev'' = (Delivered ''acc_a'' ''laptop'', d') \<and>
     poll_device_token (ex_env 9) d' ''dev'' = (Expired, d')"
proof -
  have never: "date_parse (date_other (ex_env 5)) ''never'' = None" by (simp add: ex_env_def) code_simp
  have "\<exists>d'. poll_device_token (ex_env 5) ex_db ''dev'' = (Delivered ''acc_a'' ''laptop'', d')"
    by (simp add: poll_device_token_def time_before_now_def ex_db_def never polled_too_soon_def truthy_def)
  then obtain d' where p: "poll_device_token (ex_env 5) ex_db ''dev'' = (Delivered ''acc_a'' ''laptop'', d')" by blast
  from device_single_delivery [OF p, of "ex_env 9"] show ?thesis using p by blast
qed

lemma billing_conserves_requests_witness:
  "let d = record_usage (ex_env 5) ex_db ''wsp_1'' 3 4
   in sum_list (map b_requests (bl_rows (gather_billing (ex_env 5) ex_config (relay_fetch ex_outside) 7 d 0))) =
      sum_list (map u_requests (filter
        (\<lambda>u. \<exists>a. map_of (billing_owner d) (u_store_id u) = Some a \<and> has_account d a)
        (usage_since d (utc_day (now (ex_env 5) - 7 * 24 * 60 * 60 * 1000)))))"
proof -
  have "[] \<notin> a_id ` set (accounts (record_usage (ex_env 5) ex_db ''wsp_1'' 3 4))"
    by (simp add: record_usage_def Let_def ex_db_def)
  from billing_conserves_requests [OF db_ok_usage [OF ex_ok(1)] this] show ?thesis unfolding Let_def .
qed

lemma proxy_forwards_only_allowed_witness:
  "\<exists>p. resolve_key_principal (ex_env 5) ex_db (ex_request ''GET'' ''/v1/projects/wsp_1/events'' (Some ''mzk_a'') []) = Some p \<and>
     authorize ex_db p Read (Store ''wsp_1'') = Some Allow"
proof -
  let ?r = "ex_request ''GET'' ''/v1/projects/wsp_1/events'' (Some ''mzk_a'') []"
  let ?p = "\<lparr>pr_account_id = ''acc_a'', pr_via = Key, pr_read_only = False, pr_scoped = False, pr_token_id = Some ''tok_1''\<rparr>"
  have k: "resolve_key_principal (ex_env 5) ex_db ?r = Some ?p"
    by (simp add: resolve_key_principal_def ex_bearer ex_trim identify_token_def
      token_is_unscoped_def hash_secret_def ex_env_def ex_db_def ex_token_def truthy_def empty_db_def)
  have a: "authorize ex_db ?p Read (Store ''wsp_1'') = Some Allow"
    by (subst authorize_Allow [OF ex_ok(2)])
      (simp add: target_store_def reaches_def ex_member is_derived_store_id_def is_personal_store_id_def
        is_workspace_store_id_def starts_with_def)
  have m: "meth ?r = ''GET''" by (simp add: ex_request_def)
  have v: "is_valid_store_id ''wsp_1''"
    by (simp add: is_valid_store_id_def valid_path_id_def id_char_def char_code_def)
  obtain h where "handle_events_proxy (ex_env 5) ex_config (relay_fetch ex_outside) ?r ''wsp_1'' ex_db 0 = (h, Suc 0)"
    by (simp add: handle_events_proxy_def k a v m forward_events_def) (simp add: ex_outside_def)
  from proxy_forwards_only_allowed [OF this] show ?thesis using m by auto
qed

lemma labels_resolve_members_witness:
  "\<exists>ms'. json_parse (label_members (stringify (JObj [(''items'', JArr [JObj [(''member'', JStr ''acc_a'')]])]))
      [(''acc_a'', ''a@x'')] []) = Some (JObj ms') \<and> (\<exists>items. map_of ms' ''items'' = Some (JArr items))"
proof -
  have "json_parse (stringify (JObj [(''items'', JArr [JObj [(''member'', JStr ''acc_a'')]])])) =
      Some (JObj [(''items'', JArr [JObj [(''member'', JStr ''acc_a'')]])])"
    by (rule parse_stringify) simp
  from labels_resolve_members [OF this, of "[JObj [(''member'', JStr ''acc_a'')]]" "[(''acc_a'', ''a@x'')]" "[]"]
  show ?thesis by fastforce
qed

definition ex_scope_body :: json where
  "ex_scope_body = JObj [(''storeIds'', JArr [JStr ''wsp_9''])]"

lemma issue_with_foreign_scopes_widens_witness:
  "\<exists>v d' key i. handle_account_key_issue (ex_env 5) ex_config
       (ex_request ''POST'' ''/v1/account/keys'' (Some ''mzk_a'') [stringify ex_scope_body]) ex_db = (Some (Json 201 v), d') \<and>
     v = JObj [(''key'', JStr key)] \<and> identify_token (ex_env 5) d' key = Some i \<and>
     token_covers_store d' (ti_token_id i) ''wsp_1''"
proof -
  let ?r = "ex_request ''POST'' ''/v1/account/keys'' (Some ''mzk_a'') [stringify ex_scope_body]"
  let ?p = "\<lparr>pr_account_id = ''acc_a'', pr_via = Key, pr_read_only = False, pr_scoped = False, pr_token_id = Some ''tok_1''\<rparr>"
  have "length (stringify ex_scope_body) = 22" by code_simp
  moreover have "is_obj ex_scope_body" by (simp add: ex_scope_body_def is_obj_def)
  moreover have "json_parse (stringify ex_scope_body) = Some ex_scope_body"
    unfolding ex_scope_body_def by (rule parse_stringify) simp
  ultimately have b: "read_json ?r account_max_json = Body ex_scope_body"
    by (auto simp: read_json_def read_body_def ex_request_def account_max_json_def)
  have s: "jget ''storeIds'' ex_scope_body = Some (JArr [JStr ''wsp_9''])" by (simp add: ex_scope_body_def jget_def)
  have none: "member_role ex_db ''wsp_9'' (pr_account_id ?p) = None"
    by (simp add: member_role_def ex_db_def empty_db_def)
  have "\<exists>d' k. issue_api_key (ex_env 5) ex_db ''acc_a'' None False [] = Inr (d', k)"
    by (simp add: issue_api_key_def Let_def insert_token_def generate_api_key_def hash_secret_def
        ex_db_def ex_env_def ex_token_def empty_db_def has_account_def has_token_def new_id_def base64url_long)
  then obtain d' k where i: "issue_api_key (ex_env 5) ex_db ''acc_a'' None False [] = Inr (d', k)" by blast
  have "requested_stores ex_db ''acc_a'' ex_scope_body = []"
    by (simp add: requested_stores_def list_account_stores_def s ex_db_def empty_db_def order_desc_def)
  then have h: "handle_account_key_issue (ex_env 5) ex_config ?r ex_db = (Some (Json 201 (JObj [(''key'', JStr (ik_plaintext k))])), d')"
    by (simp add: handle_account_key_issue_def account_principal_def as_caller_def ex_principal b Let_def run_sql_def
        reply_def jget_str_def) (simp add: ex_scope_body_def jget_def i)
  show ?thesis using issue_with_foreign_scopes_widens [OF ex_ok(1) ex_principal b s none h] h by blast
qed

end
