(* ===== verification/Hub.thy ===== *)
theory Hub
  imports Relay_Server Gateway_Examples
begin

text \<open>
  The two servers together: the gateway's relay is the relay of \<open>packages/relay\<close>. A project's
  log is what the relay's files hold; the theorems follow a push and a pull through both servers
  and show who can change a log at all.
\<close>

subsection \<open>The relay behind the gateway\<close>

fun body_text :: "response \<Rightarrow> string" where
  "body_text (Json n v) = stringify v"
| "body_text (Raw n t) = t"
| "body_text (Empty n) = []"
| "body_text (Page n t cs) = t"
| "body_text (Redirect l cs) = []"

definition serve_relay :: "relay_options \<Rightarrow> relay_store fetch" where
  "serve_relay opts req s =
     (let (r, s') = relay_handle opts req IoOk s in (Some (status_of r, body_text r), s'))"

definition shared_log :: "relay_store \<Rightarrow> string \<Rightarrow> event list" where
  "shared_log s sid = events (disk_log s sid)"

text \<open>What a request does to the logs of the relay: nothing, or a push to the log it names.\<close>

definition log_step :: "request \<Rightarrow> nat \<Rightarrow> string \<Rightarrow> relay_store \<Rightarrow> relay_store \<Rightarrow> bool" where
  "log_step req cap pid s s' \<longleftrightarrow>
     shared_log s' pid = shared_log s pid \<or>
     (\<exists>raw body es. meth req = ''POST'' \<and> match_route events_route (path req) = Some [raw] \<and>
        decode_uri raw = Some pid \<and> read_chunks cap 0 (chunks req) = Some body \<and> parse_push body = Inr es \<and>
        shared_log s' pid = spec_push (shared_log s pid) es)"

lemma log_step_refl: "log_step req cap pid s s"
  by (simp add: log_step_def)

lemma read_keeps:
  assumes "durable s"
  shows "durable (snd (read s pid since)) \<and> shared_log (snd (read s pid since)) = shared_log s"
  using ensure_durable [OF assms, of pid] durableD(1) [OF assms]
  by (simp add: read_refines(2) shared_log_def fun_eq_iff)

lemma append_keeps:
  assumes "durable s" "list_all storable es" "append s pid es IoOk = (r, s')"
  shows "durable s'" "shared_log s' p = (if p = pid then spec_push (shared_log s pid) es else shared_log s p)"
  using append_durable [OF assms(1,2), of pid] events_append [OF assms(1,2), of pid p] assms(3)
  by (simp_all add: shared_log_def)

lemma relay_log_step:
  assumes "durable s"
  shows "durable (snd (relay_handle opts req IoOk s)) \<and>
    log_step req (max_body opts) pid s (snd (relay_handle opts req IoOk s))"
proof -
  define Q where "Q r \<longleftrightarrow> durable (snd r) \<and> log_step req (max_body opts) pid s (snd r)"
    for r :: "response \<times> relay_store"
  have same: "Q (r, s)" for r using assms by (simp add: Q_def log_step_refl)
  have rd: "Q (r, s')" if "read s x since = (y, s')" for x since y s' r
    using read_keeps [OF assms, of x since] that by (simp add: Q_def log_step_def)
  have ap: "Q (r, s')"
    if "meth req = ''POST''" "match_route events_route (path req) = Some [raw]" "decode_uri raw = Some x"
      "read_chunks (max_body opts) 0 (chunks req) = Some body" "parse_push body = Inr es" "append s x es IoOk = (y, s')"
    for raw x body es y s' r
    using append_keeps [OF assms parse_push_storable [OF that(5)] that(6)] that(1-5)
    by (cases "pid = x") (auto simp: Q_def log_step_def)
  have "Q (relay_handle opts req IoOk s)"
    unfolding relay_handle_def
    by (simp add: same split: option.split list.split sum.split prod.split) (blast intro: ap rd)
  then show ?thesis by (simp add: Q_def)
qed

lemma serve_relay_simps [simp]:
  "snd (serve_relay opts r s) = snd (relay_handle opts r IoOk s)"
  by (simp add: serve_relay_def split: prod.split)

text \<open>A log after a request: as it was, or extended by an authorised push.\<close>

definition fair_log :: "env \<Rightarrow> db \<Rightarrow> request \<Rightarrow> string \<Rightarrow> relay_store \<Rightarrow> relay_store \<Rightarrow> bool" where
  "fair_log e d req sid s s' \<longleftrightarrow> durable s' \<and>
     (shared_log s' sid = shared_log s sid \<or>
     (\<exists>p body es. resolve_key_principal e d req = Some p \<and> meth req = ''POST'' \<and>
        authorize d p Write (Store sid) = Some Allow \<and> read_body req max_proxy_body_bytes = Some body \<and>
        parse_push body = Inr es \<and> shared_log s' sid = spec_push (shared_log s sid) es))"

lemma fair_log_refl: "durable s \<Longrightarrow> fair_log e d req sid s s"
  by (simp add: fair_log_def)

lemma fair_log_get:
  assumes "durable s" "meth r \<noteq> ''POST''"
  shows "fair_log e d req sid s (snd (serve_relay opts r s))"
  using relay_log_step [OF assms(1), of opts r sid] assms(2)
  by (auto simp: fair_log_def log_step_def)

lemma fair_log_proxy:
  assumes dur: "durable s" and ids: "match_route events_path (path req) = Some ids" "decode_uri (ids ! 0) = Some x"
  shows "fair_log e d req sid s (snd (handle_events_proxy e c (serve_relay opts) req x d s))"
proof -
  obtain h w' where h: "handle_events_proxy e c (serve_relay opts) req x d s = (h, w')" by fastforce
  have "fair_log e d req sid s w'" if neq: "w' \<noteq> s"
  proof -
    obtain p body where f: "resolve_key_principal e d req = Some p"
      "authorize d p (if meth req = ''POST'' then Write else Read) (Store x) = Some Allow"
      "if meth req = ''POST'' then read_body req max_proxy_body_bytes = Some body else body = []"
      "w' = snd (relay_handle opts (forwarded c req body) IoOk s)"
      using proxy_forwards [OF h neq] unfolding serve_relay_simps by blast
    have chunk: "read_chunks (max_body opts) 0 (chunks (forwarded c req body)) = Some b \<Longrightarrow> b = body" for b
      by (auto simp: forwarded_def split: if_splits)
    have step: "durable w'" "log_step (forwarded c req body) (max_body opts) sid s w'"
      using relay_log_step [OF dur, of opts "forwarded c req body" sid] by (simp_all add: f(4))
    show ?thesis
    proof (cases "shared_log w' sid = shared_log s sid")
      case False
      then obtain raw es where l: "meth req = ''POST''" "match_route events_route (path req) = Some [raw]"
        "decode_uri raw = Some sid" "parse_push body = Inr es" "shared_log w' sid = spec_push (shared_log s sid) es"
        using step(2) chunk by (auto simp: log_step_def forwarded_def)
      have "x = sid" using l(2,3) ids by (auto simp: events_path_def events_route_def)
      then show ?thesis using step(1) f(1-3) l by (auto simp: fair_log_def)
    qed (simp add: fair_log_def step(1))
  qed
  then show ?thesis using fair_log_refl [OF dur] h by (cases "w' = s") auto
qed

lemma fair_log_route:
  assumes dur: "durable s" and out: "relay_fetch out = serve_relay opts" "\<forall>r w. snd (replica_fetch out r w) = w"
  shows "fair_log e d req sid s (snd (route e c out req d s))"
proof (rule route_prop [where P = "\<lambda>x. fair_log e d req sid s (snd x)"])
  note same = fair_log_refl [OF dur, of e d req sid]
  have dec: "fair_log e d req sid s (snd (decoded d s raw k))"
    if "\<And>x. decode_uri raw = Some x \<Longrightarrow> fair_log e d req sid s (snd (k x))"
    for raw and k :: "string \<Rightarrow> handled \<times> relay_store"
    using that same by (simp add: decoded_def split: option.split)
  have admin: "fair_log e d req sid s (snd (handle_admin e c (relay_fetch out) req d s))"
  proof -
    have "fair_log e d req sid s (snd (serve_relay opts (stats_request c) s))"
      by (rule fair_log_get [OF dur]) (simp add: stats_request_def)
    then show ?thesis by (auto simp: handle_admin_def same out(1) split: option.split)
  qed
  have "snd (forward_replica_read e c (replica_fetch out) req x rn ps d s) = s" for x rn ps
    using out(2) by (auto simp: forward_replica_read_def split: option.split decision.split prod.split) (metis snd_conv)+
  then have replica: "fair_log e d req sid s (snd (forward_replica_read e c (replica_fetch out) req x rn ps d s))" for x rn ps
    using same by simp
  show "each (\<lambda>x. fair_log e d req sid s (snd x)) (browser_routes e c out req d s)"
    unfolding browser_routes_def Let_def by (intro route_rules dec) (simp_all add: same admin)
  show "each (\<lambda>x. fair_log e d req sid s (snd x)) (account_routes e c req d s)"
    unfolding account_routes_def Let_def by (intro route_rules dec) (simp_all add: same)
  show "each (\<lambda>x. fair_log e d req sid s (snd x)) (workspace_routes e c out req d s)"
    unfolding workspace_routes_def Let_def handle_workspace_timeline_def handle_workspace_tasks_def
    by (intro route_rules dec) (simp_all add: same replica)
  show "each (\<lambda>x. fair_log e d req sid s (snd x)) (event_routes e c out req d s)"
    unfolding event_routes_def out(1) by (intro route_rules dec fair_log_proxy dur)
  show "fair_log e d req sid s (snd (refuse d 404 ''not found'', s))" by (simp add: same)
qed

text \<open>
  C2. Nobody but an authorised writer changes a shared log, in front of a relay whose disk does not
  fail. Whatever request the gateway gets,
  every log behind it either stays exactly as it was, or it is the log the request's path
  names, the request carries a live key that the gate allows to write it, and the log grows at
  its end by exactly the new events of the request's body. No log ever loses an event, and the
  relay's files stay consistent with its memory.
\<close>

theorem logs_change_by_authorised_pushes_only:
  assumes "durable s" "relay_fetch out = serve_relay opts" "\<forall>r w. snd (replica_fetch out r w) = w"
    and "gateway_handle e c out req d s = (a, d', s')"
  shows "durable s' \<and>
    (shared_log s' sid = shared_log s sid \<or>
     (\<exists>p body es. resolve_key_principal e d req = Some p \<and> meth req = ''POST'' \<and>
        authorize d p Write (Store sid) = Some Allow \<and> read_body req max_proxy_body_bytes = Some body \<and>
        parse_push body = Inr es \<and> shared_log s' sid = spec_push (shared_log s sid) es))"
  using fair_log_route [OF assms(1-3), of e d req sid c] handled_by_route [OF assms(4)]
  by (auto simp: fair_log_def)

subsection \<open>From one member to another\<close>

definition may_reach :: "env \<Rightarrow> db \<Rightarrow> request \<Rightarrow> action \<Rightarrow> string \<Rightarrow> bool" where
  "may_reach e d req act sid \<longleftrightarrow>
     (case resolve_key_principal e d req of None \<Rightarrow> False | Some p \<Rightarrow> may_access d p act (Store sid))"

lemma route_events:
  assumes "path req = ''/v1/projects/'' @ sid @ ''/events''" "valid_path_id sid" "meth req \<in> {''GET'', ''POST''}"
  shows "route e c out req d w = handle_events_proxy e c (relay_fetch out) req sid d w"
proof -
  have segs: "js_split (CHR ''/'') (path req) = [[], ''v1'', ''projects'', sid, ''events'']"
    using js_split_fill [of "[]" "[sid]" events_path] valid_path_id_plain [OF assms(2)] assms(1)
    by (auto simp: events_path_def plain_segment_def)
  have p: "path req = ''/v1'' @ (''/projects/'' @ sid @ ''/events'')" by (simp add: assms(1))
  note plain = valid_path_id_plain [OF assms(2)] and dec = valid_path_id_decode [OF assms(2)]
  have acc: "first_of (account_routes e c req d w) z = z" for z
    using segs by (simp add: account_routes_def Let_def assms(1) match_route_def derived_path_def account_key_path_def)
  have ws: "first_of (workspace_routes e c out req d w) z = z" for z
    using segs by (simp add: workspace_routes_def Let_def assms(1) match_route_def ws_path_def)
  have "first_of (event_routes e c out req d w) z = handle_events_proxy e c (relay_fetch out) req sid d w" for z
    using segs plain dec assms(3) by (auto simp: event_routes_def match_route_def events_path_def decoded_def)
  then show ?thesis
    unfolding route_def first_of_append by (simp only: not_browser [OF p segs] acc ws)
qed

lemma access_after_forward [simp]:
  "may_access (record_usage e (touch_principal e d p) s i j) q act (Store sid) = may_access d q act (Store sid)"
  by (auto simp: target_store_def get_derived_store_parent_def reaches_def get_personal_store_owner_def member_role_def
      token_covers_store_def token_is_unscoped_def record_usage_def Let_def touch_principal_def touch_token_def
      split: option.splits)

lemma may_reach_after [simp]:
  "may_reach e2 (record_usage e (touch_principal e d p) s i j) req act sid = may_reach e2 d req act sid"
proof -
  have "resolve_key_principal e2 (record_usage e (touch_principal e d p) s i j) req = resolve_key_principal e2 d req"
    by (simp add: resolve_key_principal_def record_usage_def touch_principal_def Let_def token_is_unscoped_def
        identify_token_def touch_token_def find_update_where split: option.split)
  then show ?thesis by (simp add: may_reach_def del: may_access.simps split: option.split)
qed

lemma derived_after_forward [simp]: "derived_stores (record_usage e d s i j) = derived_stores d"
  by (simp add: record_usage_def Let_def)

text \<open>A request that may reach the store goes through to the relay.\<close>

lemma handle_forwarded:
  assumes "parents_ok d" "may_reach e d req (if meth req = ''POST'' then Write else Read) sid"
    and "path req = ''/v1/projects/'' @ sid @ ''/events''" "valid_path_id sid" "meth req \<in> {''GET'', ''POST''}"
    and "if meth req = ''POST'' then read_body req max_proxy_body_bytes = Some body else body = []"
    and "relay_fetch out (forwarded c req body) w = (Some (status, text), w')"
  shows "\<exists>p. gateway_handle e c out req d w =
    (Raw status text, record_usage e (touch_principal e d p) sid (length body) (length (utf8 text)), w')"
proof -
  obtain p where p: "resolve_key_principal e d req = Some p"
    "authorize d p (if meth req = ''POST'' then Write else Read) (Store sid) = Some Allow"
    using assms(2) authorize_Allow [OF assms(1)] by (auto simp: may_reach_def split: option.splits)
  have "is_valid_store_id sid" using assms(4) by (simp add: is_valid_store_id_def)
  then show ?thesis
    using p assms(5-7) unfolding gateway_handle_def route_events [OF assms(3-5)]
    by (auto simp: handle_events_proxy_def forward_events_def)
qed

text \<open>
  C1. Memory travels, while the relay's disk does not fail: a batch of events that one member pushes through the gateway is stored
  and acknowledged by the relay, and the next full pull by any member that may read the
  store, with its own key and at a later time, returns the log with the batch's new events at
  its end.
\<close>

theorem push_reaches_every_member:
  assumes "parents_ok d" "durable s" "relay_fetch out = serve_relay opts"
    and token: "case relay_token opts of None \<Rightarrow> True | Some t \<Rightarrow> t \<noteq> [] \<and> gc_relay_token c = Some t"
    and push: "may_reach e1 d push Write sid" "meth push = ''POST''" "path push = ''/v1/projects/'' @ sid @ ''/events''"
    and pull: "may_reach e2 d pull Read sid" "meth pull = ''GET''" "path pull = ''/v1/projects/'' @ sid @ ''/events''"
    and "valid_path_id sid" "list_all storable es" "query_get ''since'' pull = None"
    and body: "read_body push max_proxy_body_bytes = Some (stringify (JObj [(''events'', JArr es)]))"
      "length (stringify (JObj [(''events'', JArr es)])) \<le> max_body opts"
    and h1: "gateway_handle e1 c out push d s = (a1, d1, s1)" and h2: "gateway_handle e2 c out pull d1 s1 = (a2, d2, s2)"
  shows "a1 = Raw 200 (stringify (push_response (map the_id (fresh_for s sid es)))) \<and>
    a2 = Raw 200 (stringify (pull_response (spec_push (shared_log s sid) es)))"
proof -
  let ?body = "stringify (JObj [(''events'', JArr es)])"
  have auth: "case relay_token opts of None \<Rightarrow> True | Some t \<Rightarrow> authorized (auth_header (forwarded c r b)) t" for r b
    using token by (auto simp: authorized_def forwarded_def truthy_def split: option.splits)
  have parse: "parse_push ?body = Inr es"
    using wire_roundtrip [OF assms(12)] by blast
  have chunk: "read_chunks (max_body opts) 0 (chunks (forwarded c push ?body)) = Some ?body"
    using body(2) by (simp add: forwarded_def del: stringify.simps)
  obtain t1 where t1: "append s sid es IoOk = (Inr (map the_id (fresh_for s sid es)), t1)"
    using append_accepts [OF assms(2), of sid es] by (cases "append s sid es IoOk") simp
  have "relay_handle opts (forwarded c push ?body) IoOk s = (Json 200 (push_response (map the_id (fresh_for s sid es))), t1)"
    using relay_handle_events [where req = "forwarded c push ?body" and io = IoOk and s = s, OF auth _ assms(11)] push(2,3) parse chunk t1
    by (simp add: forwarded_def del: stringify.simps)
  then have f1: "relay_fetch out (forwarded c push ?body) s = (Some (200, stringify (push_response (map the_id (fresh_for s sid es)))), t1)"
    by (simp add: assms(3) serve_relay_def del: stringify.simps)
  have reach1: "may_reach e1 d push (if meth push = ''POST'' then Write else Read) sid" "meth push \<in> {''GET'', ''POST''}"
    using push(1,2) by simp_all
  have b1: "if meth push = ''POST'' then read_body push max_proxy_body_bytes = Some ?body else ?body = []"
    using push(2) body(1) by simp
  obtain p where g1: "gateway_handle e1 c out push d s =
      (Raw 200 (stringify (push_response (map the_id (fresh_for s sid es)))),
       record_usage e1 (touch_principal e1 d p) sid (length ?body)
         (length (utf8 (stringify (push_response (map the_id (fresh_for s sid es)))))), t1)"
    using handle_forwarded [OF assms(1) reach1(1) push(3) assms(11) reach1(2) b1 f1] by blast
  have r1: "a1 = Raw 200 (stringify (push_response (map the_id (fresh_for s sid es))))" "s1 = t1"
    "\<exists>i j. d1 = record_usage e1 (touch_principal e1 d p) sid i j"
    using g1 unfolding h1 by blast+
  have dur: "durable s1" and log: "shared_log s1 sid = spec_push (shared_log s sid) es"
    using append_keeps(1) [OF assms(2,12) t1] append_keeps(2) [OF assms(2,12) t1, of sid] r1(2) by simp_all
  have reach2: "may_reach e2 d1 pull (if meth pull = ''POST'' then Write else Read) sid" "meth pull \<in> {''GET'', ''POST''}"
    and ok1: "parents_ok d1"
    using r1(3) pull(1,2) assms(1) by (auto simp: parents_ok_def)
  obtain t2 where t2: "read s1 sid None = (Inr (shared_log s1 sid), t2)"
    using read_refines(1) [OF durableD(1) [OF dur], where pid = sid and since = None] by (cases "read s1 sid None") (simp add: shared_log_def)
  have "relay_handle opts (forwarded c pull []) IoOk s1 = (Json 200 (pull_response (shared_log s1 sid)), t2)"
    using relay_handle_events [where req = "forwarded c pull []" and io = IoOk and s = s1, OF auth _ assms(11)] pull(2,3) assms(13) t2
    by (simp add: forwarded_def query_get_def)
  then have f2: "relay_fetch out (forwarded c pull []) s1 = (Some (200, stringify (pull_response (shared_log s1 sid))), t2)"
    by (simp add: assms(3) serve_relay_def del: stringify.simps)
  have b2: "if meth pull = ''POST'' then read_body pull max_proxy_body_bytes = Some [] else [] = []"
    using pull(2) by simp
  have "a2 = Raw 200 (stringify (pull_response (shared_log s1 sid)))"
    using handle_forwarded [OF ok1 reach2(1) pull(3) assms(11) reach2(2) b2 f2] unfolding h2 by blast
  then show ?thesis using r1(1) log by simp
qed

subsection \<open>Examples\<close>

definition hub_outside :: "relay_store outside" where
  "hub_outside = \<lparr>relay_fetch = serve_relay sample_options, replica_fetch = (\<lambda>r s. (None, s)),
     google_login = \<lparr>token_endpoint = (\<lambda>_. None), user_endpoint = (\<lambda>_. None)\<rparr>,
     public_files = (\<lambda>_. None), dist_files = (\<lambda>_. None)\<rparr>"

definition hub_db :: db where
  "hub_db = ex_db\<lparr>memberships := memberships ex_db @
     [\<lparr>m_store_id = ''wsp_1'', m_account_id = ''acc_b'', m_role = Member, m_joined_at = ''2026''\<rparr>]\<rparr>"

definition hub_push :: request where
  "hub_push = ex_request ''POST'' ''/v1/projects/wsp_1/events'' (Some ''mzk_a'')
     [stringify (JObj [(''events'', JArr [sample_event ''a''])])]"

definition hub_pull :: request where
  "hub_pull = ex_request ''GET'' ''/v1/projects/wsp_1/events'' (Some ''mzk_b'') []"

lemma hub_requests:
  "meth hub_push = ''POST''" "path hub_push = ''/v1/projects/'' @ ''wsp_1'' @ ''/events''"
  "meth hub_pull = ''GET''" "path hub_pull = ''/v1/projects/'' @ ''wsp_1'' @ ''/events''" "query_get ''since'' hub_pull = None"
  by (simp_all add: hub_push_def hub_pull_def ex_request_def query_get_def)

lemma hub_keys:
  "resolve_key_principal (ex_env t) hub_db hub_push = Some \<lparr>pr_account_id = ''acc_a'', pr_via = Key, pr_read_only = False,
     pr_scoped = False, pr_token_id = Some ''tok_1''\<rparr>"
  "resolve_key_principal (ex_env t) hub_db hub_pull = Some \<lparr>pr_account_id = ''acc_b'', pr_via = Key, pr_read_only = False,
     pr_scoped = False, pr_token_id = Some ''tok_2''\<rparr>"
  by (simp_all add: resolve_key_principal_def hub_push_def hub_pull_def ex_bearer ex_trim identify_token_def
      token_is_unscoped_def hash_secret_def ex_env_def hub_db_def ex_db_def ex_token_def truthy_def empty_db_def)

lemma hub_members: "member_role hub_db ''wsp_1'' ''acc_a'' = Some Owner" "member_role hub_db ''wsp_1'' ''acc_b'' = Some Member"
  by (simp_all add: member_role_def hub_db_def ex_db_def)

lemma hub_reach: "may_reach (ex_env t) hub_db hub_push Write ''wsp_1''" "may_reach (ex_env t) hub_db hub_pull Read ''wsp_1''"
  by (simp_all add: may_reach_def hub_keys target_store_def reaches_def hub_members
      is_derived_store_id_def is_personal_store_id_def is_workspace_store_id_def starts_with_def)

lemma hub_size: "length (stringify (JObj [(''events'', JArr [sample_event ''a''])])) \<le> 100"
  by code_simp

lemma hub_body: "read_body hub_push max_proxy_body_bytes = Some (stringify (JObj [(''events'', JArr [sample_event ''a''])]))"
proof -
  have "length (stringify (JObj [(''events'', JArr [sample_event ''a''])])) \<le> max_proxy_body_bytes"
    using hub_size by (rule le_trans) (simp add: max_proxy_body_bytes_def)
  then show ?thesis by (simp add: read_body_def hub_push_def ex_request_def del: stringify.simps)
qed

lemma push_reaches_every_member_witness:
  "fst (gateway_handle (ex_env 9) ex_config hub_outside hub_pull
     (fst (snd (gateway_handle (ex_env 5) ex_config hub_outside hub_push hub_db sample_store)))
     (snd (snd (gateway_handle (ex_env 5) ex_config hub_outside hub_push hub_db sample_store)))) =
   Raw 200 (stringify (pull_response (spec_push [] [sample_event ''a''])))"
proof -
  obtain a1 d1 s1 where h1: "gateway_handle (ex_env 5) ex_config hub_outside hub_push hub_db sample_store = (a1, d1, s1)"
    by (metis prod_cases3)
  obtain a2 d2 s2 where h2: "gateway_handle (ex_env 9) ex_config hub_outside hub_pull d1 s1 = (a2, d2, s2)"
    by (metis prod_cases3)
  have p: "parents_ok hub_db" using ex_ok(2) by (simp add: hub_db_def parents_ok_def)
  have o: "relay_fetch hub_outside = serve_relay sample_options" by (simp add: hub_outside_def)
  have t: "case relay_token sample_options of None \<Rightarrow> True | Some t \<Rightarrow> t \<noteq> [] \<and> gc_relay_token ex_config = Some t"
    by (simp add: sample_options_def ex_config_def)
  have v: "valid_path_id ''wsp_1''" by code_simp
  have st: "list_all storable [sample_event ''a'']" by simp
  have m: "length (stringify (JObj [(''events'', JArr [sample_event ''a''])])) \<le> max_body sample_options"
    using hub_size by (simp add: sample_options_def)
  have "a2 = Raw 200 (stringify (pull_response (spec_push (shared_log sample_store ''wsp_1'') [sample_event ''a''])))"
    using push_reaches_every_member [OF p sample_durable o t hub_reach(1) hub_requests(1,2) hub_reach(2)
        hub_requests(3,4) v st hub_requests(5) hub_body m h1 h2] by blast
  then show ?thesis by (simp add: h1 h2 shared_log_def del: stringify.simps)
qed

lemma logs_change_by_authorised_pushes_only_witness:
  "durable (snd (snd (gateway_handle (ex_env 5) ex_config hub_outside hub_push hub_db sample_store)))"
proof -
  obtain a d s where h: "gateway_handle (ex_env 5) ex_config hub_outside hub_push hub_db sample_store = (a, d, s)"
    by (metis prod_cases3)
  have o: "relay_fetch hub_outside = serve_relay sample_options" "\<forall>r w. snd (replica_fetch hub_outside r w) = w"
    by (simp_all add: hub_outside_def)
  from logs_change_by_authorised_pushes_only [OF sample_durable o h, of "''wsp_1''"] show ?thesis by (simp add: h)
qed

end
