(* ===== verification/Replica_Lane.thy ===== *)
theory Replica_Lane
  imports Gateway_Session "HOL-Library.Product_Lexorder"
begin

text \<open>
  \<open>packages/replica/src/workspace.ts\<close>, \<open>read-lane.ts\<close>, \<open>timeline.ts\<close> and \<open>tasks.ts\<close>: the
  server-side lane of a workspace and the two read surfaces over it.

  The embedded memorize engine is a third-party package: the record \<open>engine\<close> holds the calls the
  replica makes, over a state \<open>'w\<close> of the engine's files and of the hub behind it. The engine's
  entities (events, memories, tasks) are records with the fields the replica reads. A result
  \<open>None\<close> is an exception.
\<close>

subsection \<open>The engine\<close>

record domain_event =
  e_id :: string
  e_type :: string
  e_scope_type :: string
  e_scope_id :: string
  e_created_at :: string
  e_writer :: "string option"
  e_source :: "string option"
  e_payload :: json

record memory =
  y_id :: string
  y_created_at :: string
  y_kind :: string
  y_text :: string
  y_salience :: int
  y_source :: "string option"
  y_tags :: "string list option"

record task =
  k_id :: string
  k_created_at :: string
  k_updated_at :: string
  k_title :: string
  k_status :: string
  k_priority :: string
  k_owner_type :: string
  k_depends_on :: "string list option"
  k_description :: "string option"
  k_goal :: "string option"
  k_acceptance :: "string list option"
  k_questions :: "string list option"
  k_risks :: "string list option"
  k_latest_handoff :: "string option"

record 'w engine =
  schema_version :: json
  actor_system :: string
  read_sync_file :: "'w \<Rightarrow> string \<Rightarrow> json option"
  write_sync_file :: "string \<Rightarrow> json \<Rightarrow> 'w \<Rightarrow> 'w"
  read_events :: "'w \<Rightarrow> string \<Rightarrow> domain_event list"
  insert_external :: "string \<Rightarrow> domain_event list \<Rightarrow> 'w \<Rightarrow> 'w"
  pull_project :: "string \<Rightarrow> string \<Rightarrow> string \<Rightarrow> 'w \<Rightarrow> json option \<times> 'w"
  list_valid_memories :: "'w \<Rightarrow> string \<Rightarrow> memory list"
  list_tasks :: "'w \<Rightarrow> string \<Rightarrow> task list"

subsection \<open>The lane of a workspace\<close>

definition lower_alnum :: "char \<Rightarrow> bool" where
  "lower_alnum c \<longleftrightarrow> (let n = char_code c in (97 \<le> n \<and> n \<le> 122) \<or> (48 \<le> n \<and> n \<le> 57))"

text \<open>\<open>/^[a-z0-9]+(?:_[a-z0-9]+)*$/\<close>: groups separated by single underscores.\<close>

definition plain_suffix :: "string \<Rightarrow> bool" where
  "plain_suffix s \<longleftrightarrow> list_all (\<lambda>g. g \<noteq> [] \<and> list_all lower_alnum g) (js_split (CHR ''_'') s)"

definition lower_hex :: "nat \<Rightarrow> char" where
  "lower_hex n = (if n < 10 then char_of (48 + n) else char_of (87 + n))"

definition hex_text :: "nat list \<Rightarrow> string" where
  "hex_text bs = concat (map (\<lambda>b. [lower_hex (b div 16), lower_hex (b mod 16)]) bs)"

definition server_store_id :: "string \<Rightarrow> string option" where
  "server_store_id workspace_id =
     (if \<not> starts_with workspace_id ''wsp_'' then None
      else (let suffix = drop (length ''wsp_'') workspace_id
            in if plain_suffix suffix then Some (''proj_hub_'' @ suffix)
               else Some (''proj_hub_'' @ hex_text (utf8 workspace_id))))"

definition binding_patch :: "string \<Rightarrow> string \<Rightarrow> string \<Rightarrow> (string \<times> json) list" where
  "binding_patch workspace_id hub_url at =
     [(''remoteProjectId'', JStr workspace_id), (''syncEnabled'', JBool True),
      (''syncTransport'', JObj [(''type'', JStr ''http''), (''url'', JStr hub_url)]), (''updatedAt'', JStr at)]"

text \<open>\<open>{ ...existing, ...patch }\<close>: the patch's members replace those of the same name.\<close>

definition spread_over :: "(string \<times> json) list \<Rightarrow> (string \<times> json) list \<Rightarrow> (string \<times> json) list" where
  "spread_over ms patch = foldl (\<lambda>acc (k, v). js_set k v acc) ms patch"

definition bind_workspace_store ::
  "'w engine \<Rightarrow> string \<Rightarrow> string \<Rightarrow> string \<Rightarrow> string \<Rightarrow> 'w \<Rightarrow> json \<times> 'w" where
  "bind_workspace_store g sid workspace_id hub_url at w =
     (let patch = binding_patch workspace_id hub_url at;
          next = JObj (case read_sync_file g w sid of
              Some (JObj ms) \<Rightarrow> spread_over ms patch
            | _ \<Rightarrow> [(''id'', JStr (''sync_'' @ sid)), (''schemaVersion'', schema_version g), (''createdAt'', JStr at),
                     (''projectId'', JStr sid), (''syncStatus'', JStr ''idle'')] @ patch)
      in (next, write_sync_file g sid next w))"

definition created_project_id :: "domain_event \<Rightarrow> string option" where
  "created_project_id ev = (if e_type ev \<noteq> ''project.created'' then None else jget_str ''id'' (e_payload ev))"

definition genesis_event_id :: "env \<Rightarrow> string \<Rightarrow> string" where
  "genesis_event_id e sid = ''evt_hub_timeline_genesis_'' @ take 24 (sha256 e sid)"

definition lane_genesis :: "env \<Rightarrow> 'w engine \<Rightarrow> string \<Rightarrow> string \<Rightarrow> domain_event" where
  "lane_genesis e g sid workspace_id =
     \<lparr>e_id = genesis_event_id e sid, e_type = ''project.created'', e_scope_type = ''project'', e_scope_id = sid,
      e_created_at = now_iso e, e_writer = Some (actor_system g), e_source = Some sid,
      e_payload = JObj [(''id'', JStr sid), (''schemaVersion'', schema_version g), (''createdAt'', JStr (now_iso e)),
        (''updatedAt'', JStr (now_iso e)), (''title'', JStr ''Hub Timeline''),
        (''summary'', JStr (''Server-side Timeline read lane for '' @ workspace_id)), (''goals'', JArr []),
        (''status'', JStr ''active''), (''rootPath'', JStr (''hub://'' @ workspace_id)), (''importedContextCount'', JNum 0),
        (''activeWorkstreamIds'', JArr []), (''activeTaskIds'', JArr []), (''acceptedDecisionIds'', JArr []),
        (''ruleIds'', JArr [])]\<rparr>"

definition ensure_lane_project :: "env \<Rightarrow> 'w engine \<Rightarrow> string \<Rightarrow> string \<Rightarrow> 'w \<Rightarrow> 'w" where
  "ensure_lane_project e g sid workspace_id w =
     (if list_ex (\<lambda>ev. created_project_id ev = Some sid) (read_events g w sid) then w
      else insert_external g sid [lane_genesis e g sid workspace_id] w)"

definition ensure_read_lane :: "env \<Rightarrow> 'w engine \<Rightarrow> string \<Rightarrow> string \<Rightarrow> 'w \<Rightarrow> string option \<times> 'w" where
  "ensure_read_lane e g workspace_id hub_url w =
     (case server_store_id workspace_id of
        None \<Rightarrow> (None, w)
      | Some sid \<Rightarrow>
          (Some sid, ensure_lane_project e g sid workspace_id
             (snd (bind_workspace_store g sid workspace_id hub_url (now_iso e) w))))"

subsection \<open>Cursors\<close>

text \<open>
  A cursor that is no base64url of UTF-8 is decoded leniently by \<open>Buffer\<close>: \<open>loose\<close> stands for
  that decoding.
\<close>

definition encode_cursor :: "string \<Rightarrow> string \<Rightarrow> string" where
  "encode_cursor at ident = base64url (utf8 (at @ ''|'' @ ident))"

definition cursor_text :: "(string \<Rightarrow> string) \<Rightarrow> string \<Rightarrow> string" where
  "cursor_text loose raw =
     (case Option.bind (from_base64url raw) from_utf8 of Some t \<Rightarrow> t | None \<Rightarrow> loose raw)"

definition decode_cursor :: "(string \<Rightarrow> string) \<Rightarrow> string \<Rightarrow> (string \<times> string) option" where
  "decode_cursor loose raw =
     (let decoded = cursor_text loose raw; at = takeWhile (\<lambda>c. c \<noteq> CHR ''|'') decoded;
          ident = drop (Suc (length at)) decoded
      in if at = [] \<or> ident = [] then None else Some (at, ident))"

lemma decode_encode_cursor:
  assumes "at \<noteq> []" "CHR ''|'' \<notin> set at" "ident \<noteq> []"
  shows "decode_cursor loose (encode_cursor at ident) = Some (at, ident)"
proof -
  have t: "cursor_text loose (encode_cursor at ident) = at @ ''|'' @ ident"
    by (simp add: cursor_text_def encode_cursor_def url_text.dec_enc_chain)
  have "\<forall>c \<in> set at. c \<noteq> CHR ''|''" using assms(2) by auto
  then have "takeWhile (\<lambda>c. c \<noteq> CHR ''|'') (at @ ''|'' @ ident) = at"
    by (simp add: takeWhile_append2)
  then show ?thesis using assms by (simp add: decode_cursor_def t)
qed

subsection \<open>The timeline\<close>

record timeline_item =
  tm_id :: string
  tm_at :: string
  tm_kind :: string
  tm_text :: string
  tm_salience :: int
  tm_member :: string
  tm_writer :: "string option"
  tm_source :: "string option"
  tm_tags :: "string list"

definition memory_id_from_event :: "domain_event \<Rightarrow> string option" where
  "memory_id_from_event ev = (if e_type ev \<noteq> ''memory.consolidated'' then None else jget_str ''id'' (e_payload ev))"

definition first_some :: "'a option \<Rightarrow> 'a option \<Rightarrow> 'a option" where
  "first_some a b = (case a of None \<Rightarrow> b | Some _ \<Rightarrow> a)"

definition memory_events :: "domain_event list \<Rightarrow> (string \<times> domain_event) list" where
  "memory_events events = foldl (\<lambda>acc ev. case memory_id_from_event ev of
       Some i \<Rightarrow> if i = [] then acc else js_set i ev acc | None \<Rightarrow> acc) [] events"

definition timeline_item_of :: "string \<Rightarrow> (string \<times> domain_event) list \<Rightarrow> memory \<Rightarrow> timeline_item" where
  "timeline_item_of sid evs m =
     (let ev = map_of evs (y_id m); writer = Option.bind ev e_writer;
          source = first_some (y_source m) (Option.bind ev e_source);
          shown = (\<lambda>s. if truthy s then s else None)
      in \<lparr>tm_id = y_id m, tm_at = y_created_at m, tm_kind = y_kind m, tm_text = y_text m, tm_salience = y_salience m,
          tm_member = (case first_some writer source of Some x \<Rightarrow> x | None \<Rightarrow> sid),
          tm_writer = shown writer, tm_source = shown source,
          tm_tags = (case y_tags m of Some ts \<Rightarrow> ts | None \<Rightarrow> [])\<rparr>)"

definition by_ascending_timeline :: "timeline_item \<Rightarrow> timeline_item \<Rightarrow> int" where
  "by_ascending_timeline a b =
     (if tm_at a \<noteq> tm_at b then (if tm_at a < tm_at b then -1 else 1)
      else if tm_id a < tm_id b then -1 else if tm_id b < tm_id a then 1 else 0)"

definition is_before_cursor :: "timeline_item \<Rightarrow> string \<times> string \<Rightarrow> bool" where
  "is_before_cursor item c =
     (if tm_at item \<noteq> fst c then tm_at item < fst c else tm_id item < snd c)"

definition default_limit :: nat where "default_limit = 50"

definition timeline_of :: "'w engine \<Rightarrow> 'w \<Rightarrow> string \<Rightarrow> timeline_item list" where
  "timeline_of g w sid =
     js_sort by_ascending_timeline
       (map (timeline_item_of sid (memory_events (read_events g w sid))) (list_valid_memories g w sid))"

record timeline_page =
  pg_items :: "timeline_item list"
  pg_has_more :: bool
  pg_next_cursor :: "string option"

text \<open>The newest \<open>limit\<close> items before the cursor, oldest first.\<close>

definition page_of :: "timeline_item list \<Rightarrow> nat \<Rightarrow> (string \<times> string) option \<Rightarrow> timeline_page" where
  "page_of everything limit before =
     (let pool = (case before of None \<Rightarrow> everything | Some c \<Rightarrow> filter (\<lambda>i. is_before_cursor i c) everything);
          items = drop (length pool - limit) pool;
          more = length items < length pool
      in \<lparr>pg_items = items, pg_has_more = more,
          pg_next_cursor = (case items of
              [] \<Rightarrow> None
            | oldest # _ \<Rightarrow> if more then Some (encode_cursor (tm_at oldest) (tm_id oldest)) else None)\<rparr>)"

definition member_if :: "bool \<Rightarrow> string \<Rightarrow> json \<Rightarrow> (string \<times> json) list" where
  "member_if b k v = (if b then [(k, v)] else [])"

definition timeline_item_json :: "timeline_item \<Rightarrow> json" where
  "timeline_item_json i = JObj (
     [(''id'', JStr (tm_id i)), (''at'', JStr (tm_at i)), (''type'', JStr ''memory.consolidated''),
      (''kind'', JStr (tm_kind i)), (''text'', JStr (tm_text i)), (''salience'', JNum (tm_salience i)),
      (''member'', JStr (tm_member i))] @
     (case tm_writer i of None \<Rightarrow> [] | Some x \<Rightarrow> [(''writer'', JStr x)]) @
     (case tm_source i of None \<Rightarrow> [] | Some x \<Rightarrow> [(''sourceProjectId'', JStr x), (''sourceProjectLabel'', JStr x)]) @
     member_if (tm_tags i \<noteq> []) ''tags'' (JArr (map JStr (tm_tags i))))"

definition timeline_json :: "string \<Rightarrow> json \<Rightarrow> timeline_page \<Rightarrow> json" where
  "timeline_json sid pulled p = JObj (
     [(''storeId'', JStr sid), (''pulled'', pulled), (''items'', JArr (map timeline_item_json (pg_items p))),
      (''hasMore'', JBool (pg_has_more p))] @
     (case pg_next_cursor p of None \<Rightarrow> [] | Some c \<Rightarrow> [(''nextCursor'', JStr c)]))"

definition read_timeline ::
  "env \<Rightarrow> 'w engine \<Rightarrow> string option \<Rightarrow> string \<Rightarrow> string \<Rightarrow> string \<Rightarrow> int option \<Rightarrow> (string \<times> string) option \<Rightarrow> 'w \<Rightarrow> json option \<times> 'w" where
  "read_timeline e g root hub_url key workspace_id limit before w =
     (if \<not> truthy root then (None, w)
      else if (case limit of None \<Rightarrow> False | Some n \<Rightarrow> n < 1) then (None, w)
      else (case ensure_read_lane e g workspace_id hub_url w of
          (None, w1) \<Rightarrow> (None, w1)
        | (Some sid, w1) \<Rightarrow>
            (case pull_project g hub_url key sid w1 of
               (None, w2) \<Rightarrow> (None, w2)
             | (Some pulled, w2) \<Rightarrow>
                 (Some (timeline_json sid pulled
                    (page_of (timeline_of g w2 sid) (case limit of None \<Rightarrow> default_limit | Some n \<Rightarrow> nat n) before)), w2))))"

subsection \<open>The task board\<close>

definition task_event_types :: "string list" where
  "task_event_types = [''task.created'', ''task.updated'', ''task.item-appended'']"

definition task_id_of_event :: "domain_event \<Rightarrow> string option" where
  "task_id_of_event ev =
     (if e_type ev \<notin> set task_event_types then None
      else (case jget_str ''id'' (e_payload ev) of
          Some i \<Rightarrow> if starts_with i ''task_'' then Some i
                    else if e_scope_type ev = ''task'' then Some (e_scope_id ev) else None
        | None \<Rightarrow> if e_scope_type ev = ''task'' then Some (e_scope_id ev) else None))"

text \<open>One pass over the events: the last task event, the first start, and the handoffs.\<close>

record board_index =
  bx_last :: "(string \<times> domain_event) list"
  bx_started :: "(string \<times> string) list"
  bx_handoffs :: "(string \<times> json) list"

definition index_task :: "domain_event \<Rightarrow> board_index \<Rightarrow> board_index" where
  "index_task ev b =
     (case task_id_of_event ev of
        None \<Rightarrow> b
      | Some tid \<Rightarrow>
          if tid = [] then b
          else (let b1 = b\<lparr>bx_last := js_set tid ev (bx_last b)\<rparr>
                in if jget_str ''status'' (e_payload ev) = Some ''in_progress'' \<and> map_of (bx_started b1) tid = None
                   then b1\<lparr>bx_started := js_set tid (e_created_at ev) (bx_started b1)\<rparr> else b1))"

definition index_handoff :: "domain_event \<Rightarrow> board_index \<Rightarrow> board_index" where
  "index_handoff ev b =
     (if e_type ev \<noteq> ''handoff.created'' then b
      else (case jget_str ''id'' (e_payload ev) of
          None \<Rightarrow> b | Some i \<Rightarrow> b\<lparr>bx_handoffs := js_set i (e_payload ev) (bx_handoffs b)\<rparr>))"

definition index_events :: "domain_event list \<Rightarrow> board_index" where
  "index_events events =
     foldl (\<lambda>b ev. index_handoff ev (index_task ev b)) \<lparr>bx_last = [], bx_started = [], bx_handoffs = []\<rparr> events"

definition text_if :: "string \<Rightarrow> string option \<Rightarrow> (string \<times> json) list" where
  "text_if k v = (if truthy v then [(k, JStr (the v))] else [])"

definition list_if :: "string \<Rightarrow> string list option \<Rightarrow> (string \<times> json) list" where
  "list_if k v = (case v of Some (x # xs) \<Rightarrow> [(k, JArr (map JStr (x # xs)))] | _ \<Rightarrow> [])"

text \<open>A member of the handoff's payload; an undefined one is left out of the printed answer.\<close>

definition copy_member :: "string \<Rightarrow> json \<Rightarrow> (string \<times> json) list" where
  "copy_member k h = (case jget k h of None \<Rightarrow> [] | Some v \<Rightarrow> [(k, v)])"

definition copy_items :: "string \<Rightarrow> json \<Rightarrow> (string \<times> json) list" where
  "copy_items k h = (case jget k h of Some (JArr (x # xs)) \<Rightarrow> [(k, JArr (x # xs))] | _ \<Rightarrow> [])"

definition handoff_json :: "json \<Rightarrow> json" where
  "handoff_json h = JObj (copy_member ''summary'' h @ copy_member ''nextAction'' h @
     copy_items ''doneItems'' h @ copy_items ''remainingItems'' h)"

record board_item =
  bd_id :: string
  bd_at :: string
  bd_json :: json

definition to_board_item :: "string \<Rightarrow> board_index \<Rightarrow> task \<Rightarrow> board_item" where
  "to_board_item sid b t =
     (let ev = map_of (bx_last b) (k_id t); writer = Option.bind ev e_writer; source = Option.bind ev e_source;
          handoff = (if truthy (k_latest_handoff t) then map_of (bx_handoffs b) (the (k_latest_handoff t)) else None)
      in \<lparr>bd_id = k_id t, bd_at = k_updated_at t, bd_json = JObj (
          [(''id'', JStr (k_id t)), (''at'', JStr (k_updated_at t)), (''createdAt'', JStr (k_created_at t)),
           (''member'', JStr (case first_some writer source of Some x \<Rightarrow> x | None \<Rightarrow> sid))] @
          text_if ''startedAt'' (map_of (bx_started b) (k_id t)) @
          list_if ''dependsOn'' (k_depends_on t) @
          text_if ''writer'' writer @
          text_if ''sourceProjectId'' source @ text_if ''sourceProjectLabel'' source @
          [(''title'', JStr (k_title t)), (''status'', JStr (k_status t)), (''priority'', JStr (k_priority t)),
           (''ownerType'', JStr (k_owner_type t))] @
          text_if ''description'' (k_description t) @ text_if ''goal'' (k_goal t) @
          list_if ''acceptanceCriteria'' (k_acceptance t) @ list_if ''openQuestions'' (k_questions t) @
          list_if ''riskNotes'' (k_risks t) @
          (case handoff of None \<Rightarrow> [] | Some h \<Rightarrow> [(''handoff'', handoff_json h)]))\<rparr>)"

definition by_board :: "board_item \<Rightarrow> board_item \<Rightarrow> int" where
  "by_board a b =
     (if bd_at a \<noteq> bd_at b then (if bd_at a < bd_at b then -1 else 1) else if bd_id a < bd_id b then -1 else 1)"

definition board_of :: "'w engine \<Rightarrow> 'w \<Rightarrow> string \<Rightarrow> board_item list" where
  "board_of g w sid = js_sort by_board (map (to_board_item sid (index_events (read_events g w sid))) (list_tasks g w sid))"

definition read_tasks ::
  "env \<Rightarrow> 'w engine \<Rightarrow> string option \<Rightarrow> string \<Rightarrow> string \<Rightarrow> string \<Rightarrow> 'w \<Rightarrow> json option \<times> 'w" where
  "read_tasks e g root hub_url key workspace_id w =
     (if \<not> truthy root then (None, w)
      else (case ensure_read_lane e g workspace_id hub_url w of
          (None, w1) \<Rightarrow> (None, w1)
        | (Some sid, w1) \<Rightarrow>
            (case pull_project g hub_url key sid w1 of
               (None, w2) \<Rightarrow> (None, w2)
             | (Some pulled, w2) \<Rightarrow>
                 (Some (JObj [(''storeId'', JStr sid), (''pulled'', pulled),
                    (''items'', JArr (map bd_json (board_of g w2 sid)))]), w2))))"

subsection \<open>Both orders follow time, then id\<close>

definition timeline_key :: "timeline_item \<Rightarrow> string \<times> string" where
  "timeline_key i = (tm_at i, tm_id i)"

definition board_key :: "board_item \<Rightarrow> string \<times> string" where
  "board_key i = (bd_at i, bd_id i)"

interpretation timeline_order: keyed_comparator by_ascending_timeline timeline_key
  by unfold_locales (auto simp: by_ascending_timeline_def timeline_key_def less_prod_def split: if_splits)

interpretation board_order: keyed_comparator by_board board_key
  by unfold_locales (auto simp: by_board_def board_key_def less_prod_def split: if_splits)

lemma before_cursor_iff: "is_before_cursor i c \<longleftrightarrow> timeline_key i < c"
  by (cases c) (auto simp: is_before_cursor_def timeline_key_def less_prod_def)

lemma timeline_sorted: "sorted (map timeline_key (timeline_of g w sid))"
  by (simp add: timeline_of_def timeline_order.sorted_sort)

subsection \<open>Pages\<close>

text \<open>The items below a position of a strictly ordered timeline are those before its cursor.\<close>

lemma filter_before_nth:
  assumes "sorted (map key xs)" "distinct (map key xs)" "k < length xs"
  shows "filter (\<lambda>i. key i < (key (xs ! k) :: 'k::linorder)) xs = take k xs"
proof -
  have lt: "key (xs ! i) < key (xs ! k) \<longleftrightarrow> i < k" if "i < length xs" for i
    using that assms sorted_nth_mono [of "map key xs" i k] sorted_nth_mono [of "map key xs" k i]
      nth_eq_iff_index_eq [of "map key xs" i k]
    by (cases "i < k") (auto simp: order.strict_iff_order not_less)
  have a: "filter (\<lambda>i. key i < key (xs ! k)) (take k xs) = take k xs"
    by (rule filter_True) (use lt assms(3) in \<open>auto simp: in_set_conv_nth\<close>)
  have b: "filter (\<lambda>i. key i < key (xs ! k)) (drop k xs) = []"
  proof (rule filter_False, rule ballI)
    fix x assume "x \<in> set (drop k xs)"
    then obtain j where j: "j < length (drop k xs)" "x = drop k xs ! j" by (metis in_set_conv_nth)
    then have "x = xs ! (k + j)" "k + j < length xs" by simp_all
    then show "\<not> key x < key (xs ! k)" using lt [of "k + j"] by simp
  qed
  have "filter (\<lambda>i. key i < key (xs ! k)) (take k xs @ drop k xs) = take k xs"
    unfolding filter_append a b by simp
  then show ?thesis unfolding append_take_drop_id .
qed

definition page_cursor :: "timeline_item list \<Rightarrow> nat \<Rightarrow> string option" where
  "page_cursor xs m = (if 0 < m then Some (encode_cursor (tm_at (xs ! m)) (tm_id (xs ! m))) else None)"

lemma page_of_simple:
  assumes "0 < limit" and pool: "(case before of None \<Rightarrow> xs | Some c \<Rightarrow> filter (\<lambda>i. is_before_cursor i c) xs) = pool"
  shows "page_of xs limit before =
    \<lparr>pg_items = drop (length pool - limit) pool, pg_has_more = limit < length pool,
     pg_next_cursor = page_cursor pool (length pool - limit)\<rparr>"
proof (cases "limit < length pool")
  case True
  have "drop (length pool - limit) pool = pool ! (length pool - limit) # drop (Suc (length pool - limit)) pool"
    using Cons_nth_drop_Suc [of "length pool - limit" pool] True assms(1) by simp
  then show ?thesis using True assms(1) unfolding page_of_def pool by (simp add: page_cursor_def Let_def)
next
  case False
  then have z: "length pool - limit = 0" by simp
  show ?thesis unfolding page_of_def pool Let_def z using False by (cases pool) (simp_all add: page_cursor_def)
qed

lemma page_of_pool:
  assumes "0 < limit" "k \<le> length xs"
    "(case before of None \<Rightarrow> xs | Some c \<Rightarrow> filter (\<lambda>i. is_before_cursor i c) xs) = take k xs"
  shows "page_of xs limit before =
    \<lparr>pg_items = drop (k - limit) (take k xs), pg_has_more = limit < k, pg_next_cursor = page_cursor xs (k - limit)\<rparr>"
proof -
  have "length (take k xs) = k" using assms(2) by simp
  moreover have "page_cursor (take k xs) (k - limit) = page_cursor xs (k - limit)"
    using assms(1) by (simp add: page_cursor_def)
  ultimately show ?thesis using page_of_simple [OF assms(1,3)] by simp
qed

lemma page_before_nth:
  assumes "sorted (map timeline_key xs)" "distinct (map timeline_key xs)" "k < length xs" "0 < limit"
  shows "page_of xs limit (Some (tm_at (xs ! k), tm_id (xs ! k))) =
    \<lparr>pg_items = drop (k - limit) (take k xs), pg_has_more = limit < k, pg_next_cursor = page_cursor xs (k - limit)\<rparr>"
  by (rule page_of_pool)
    (use filter_before_nth [OF assms(1-3)] assms(3,4) in \<open>simp_all add: before_cursor_iff timeline_key_def\<close>)

lemma first_page:
  "0 < limit \<Longrightarrow> page_of xs limit None =
    \<lparr>pg_items = drop (length xs - limit) xs, pg_has_more = limit < length xs,
     pg_next_cursor = page_cursor xs (length xs - limit)\<rparr>"
  using page_of_pool [of limit "length xs" xs None] by simp

subsection \<open>Lanes of different workspaces\<close>

lemma lower_hex_code: "n < 16 \<Longrightarrow> char_code (lower_hex n) = (if n < 10 then 48 + n else 87 + n)"
  by (simp add: lower_hex_def code_of_char)

lemma lower_hex_inject:
  assumes "a < 16" "b < 16"
  shows "lower_hex a = lower_hex b \<longleftrightarrow> a = b"
proof
  assume "lower_hex a = lower_hex b"
  then have "(if a < 10 then 48 + a else 87 + a) = (if b < 10 then 48 + b else 87 + b)"
    using lower_hex_code assms by metis
  then show "a = b" using assms by (simp split: if_splits)
qed simp

lemma hex_text_Cons: "hex_text (b # bs) = lower_hex (b div 16) # lower_hex (b mod 16) # hex_text bs"
  by (simp add: hex_text_def)

lemma hex_text_inject: "byte_list xs \<Longrightarrow> byte_list ys \<Longrightarrow> hex_text xs = hex_text ys \<Longrightarrow> xs = ys"
proof (induction xs arbitrary: ys)
  case Nil
  then show ?case by (cases ys) (simp_all add: hex_text_def)
next
  case (Cons x xs)
  then obtain y ys' where y: "ys = y # ys'" by (cases ys) (simp_all add: hex_text_def)
  have b: "x < 256" "y < 256" "byte_list xs" "byte_list ys'" using Cons.prems(1,2) by (simp_all add: y byte_list_def)
  have "x div 16 = y div 16" "x mod 16 = y mod 16" and rest: "hex_text xs = hex_text ys'"
    using Cons.prems(3) b(1,2) by (simp_all add: y hex_text_Cons lower_hex_inject)
  then have "x = y" by (metis div_mult_mod_eq)
  then show ?case using Cons.IH [OF b(3,4) rest] y by simp
qed

lemma length_hex_text: "length (hex_text bs) = 2 * length bs"
  by (induction bs) (simp_all add: hex_text_Cons, simp add: hex_text_def)

lemma length_utf8: "length s \<le> length (utf8 s)"
proof (induction s)
  case (Cons c s)
  have "1 \<le> length (utf8_char c)" by (simp add: utf8_char_def Let_def)
  then show ?case using Cons by (simp add: utf8_def)
qed simp

lemma lane_inject:
  assumes "length a = length b" "server_store_id a = Some lane" "server_store_id b = Some lane"
  shows "a = b"
proof -
  obtain x where x: "a = ''wsp_'' @ x" using assms(2) by (auto simp: server_store_id_def starts_with_iff split: if_splits)
  obtain y where y: "b = ''wsp_'' @ y" using assms(3) by (auto simp: server_store_id_def starts_with_iff split: if_splits)
  have long: "length z < length (hex_text (utf8 (''wsp_'' @ z)))" for z
    using length_utf8 [of "''wsp_'' @ z"] by (simp add: length_hex_text)
  have eq: "(if plain_suffix x then x else hex_text (utf8 a)) = (if plain_suffix y then y else hex_text (utf8 b))"
    using assms(2,3) by (auto simp: server_store_id_def x y Let_def starts_with_def split: if_splits)
  have "length x = length y" using assms(1) by (simp add: x y)
  then have "length x \<noteq> length (hex_text (utf8 b))" "length y \<noteq> length (hex_text (utf8 a))"
    using long [of x] long [of y] by (simp_all add: x y)
  with eq consider "x = y" | "hex_text (utf8 a) = hex_text (utf8 b)"
    by (auto split: if_splits)
  then show ?thesis
  proof cases
    case 2
    then show ?thesis using hex_text_inject [OF byte_list_utf8 byte_list_utf8] text_bytes.enc_eq_iff by blast
  qed (simp add: x y)
qed

text \<open>
  Two different workspaces with ids of the same length, as the gateway mints them, never share
  a lane: what the replica pulls for one is never written into the other's store.
\<close>

lemma lanes_separate_workspaces:
  assumes "a \<noteq> b" "length a = length b" "server_store_id a = Some lane" "server_store_id b = Some lane'"
  shows "lane \<noteq> lane'"
  using lane_inject [OF assms(2,3)] assms(1,4) by blast

lemma lanes_separate_workspaces_witness:
  "server_store_id ''wsp_aB'' = Some ''proj_hub_7773705f6142'' \<and> server_store_id ''wsp_ab'' = Some ''proj_hub_ab'' \<and>
   ''proj_hub_7773705f6142'' \<noteq> ''proj_hub_ab''"
proof -
  have s: "server_store_id ''wsp_aB'' = Some ''proj_hub_7773705f6142''" "server_store_id ''wsp_ab'' = Some ''proj_hub_ab''"
    by code_simp+
  show ?thesis using lanes_separate_workspaces [OF _ _ s] s by simp
qed

text \<open>Ids of different lengths can meet in one lane, though the encoding is said to avoid it.\<close>

lemma lanes_can_meet:
  "server_store_id ''wsp_A'' = Some ''proj_hub_7773705f41'' \<and>
   server_store_id ''wsp_7773705f41'' = Some ''proj_hub_7773705f41''"
  by code_simp

end
