(* ===== verification/Replica_Author.thy ===== *)
theory Replica_Author
  imports Replica_Lane
begin

text \<open>
  \<open>packages/replica/src/author.ts\<close>: authoring one memory into the lane of a workspace as the
  calling user. The engine's record grows by the calls that write and push, and by the \<open>fetch\<close> of
  the whoami request, given the base URL. A salience is \<open>None\<close> when \<open>Number.isInteger\<close> refuses it.
\<close>

subsection \<open>The writing engine\<close>

record event_draft =
  dr_type :: string
  dr_project :: string
  dr_scope_type :: string
  dr_scope_id :: string
  dr_actor :: string
  dr_writer :: string
  dr_payload :: json

record 'w author_engine = "'w engine" +
  hub_fetch :: "string \<Rightarrow> request \<Rightarrow> 'w \<Rightarrow> (nat \<times> string) option \<times> 'w"
  store_exists :: "'w \<Rightarrow> string \<Rightarrow> bool"
  create_id :: "string \<Rightarrow> 'w \<Rightarrow> string \<times> 'w"
  append_event :: "event_draft \<Rightarrow> 'w \<Rightarrow> string option \<times> 'w"
  push_project :: "string \<Rightarrow> string \<Rightarrow> string \<Rightarrow> 'w \<Rightarrow> nat option \<times> 'w"

datatype author_error =
  No_root
| Bad_kind
| Empty_text
| Bad_salience
| Hub_unreachable
| Whoami_failed nat
| Whoami_unreadable
| No_account
| Key_read_only
| No_workspace_id
| Write_failed
| Push_failed

subsection \<open>Who is calling\<close>

fun js_truthy :: "json option \<Rightarrow> bool" where
  "js_truthy None = False"
| "js_truthy (Some JNull) = False"
| "js_truthy (Some (JBool b)) = b"
| "js_truthy (Some (JNum n)) = (n \<noteq> 0)"
| "js_truthy (Some (JStr s)) = (s \<noteq> [])"
| "js_truthy (Some v) = True"

definition whoami_request :: "string \<Rightarrow> request" where
  "whoami_request key =
     \<lparr>meth = ''GET'', path = ''/v1/account'', query = [], auth_header = Some (''Bearer '' @ key),
      cookie_header = None, host_header = None, chunks = []\<rparr>"

text \<open>
  The answer to the whoami request. Every thrown \<open>TypeError\<close> on a body that is no object ends like
  an unreadable one; an \<open>accountId\<close> that is no string is outside the wire format and refused.
\<close>

definition whoami_account :: "nat \<times> string \<Rightarrow> author_error + string" where
  "whoami_account r =
     (if \<not> (200 \<le> fst r \<and> fst r < 300) then Inl (Whoami_failed (fst r))
      else (case json_parse (snd r) of
          None \<Rightarrow> Inl Whoami_unreadable
        | Some body \<Rightarrow>
            (case jget_str ''accountId'' body of
               None \<Rightarrow> Inl No_account
             | Some a \<Rightarrow> if a = [] then Inl No_account
                         else if js_truthy (jget ''readOnly'' body) then Inl Key_read_only
                         else Inr a)))"

definition whoami :: "'w author_engine \<Rightarrow> string \<Rightarrow> string \<Rightarrow> 'w \<Rightarrow> (author_error + string) \<times> 'w" where
  "whoami g hub_url key w =
     (case hub_fetch g (strip_slashes hub_url) (whoami_request key) w of
        (None, w1) \<Rightarrow> (Inl Hub_unreachable, w1)
      | (Some r, w1) \<Rightarrow> (whoami_account r, w1))"

subsection \<open>Authoring\<close>

record memory_item =
  mi_kind :: string
  mi_text :: string
  mi_salience :: "int option"

record author_result =
  ar_memory :: string
  ar_event :: string
  ar_account :: string
  ar_store :: string
  ar_accepted :: nat

definition valid_kinds :: "string list" where
  "valid_kinds = [''decision'', ''rationale'', ''progress'']"

definition check_item :: "string option \<Rightarrow> memory_item \<Rightarrow> author_error option" where
  "check_item root item =
     (if \<not> truthy root then Some No_root
      else if mi_kind item \<notin> set valid_kinds then Some Bad_kind
      else if js_trim (mi_text item) = [] then Some Empty_text
      else (case mi_salience item of
          None \<Rightarrow> Some Bad_salience
        | Some n \<Rightarrow> if n < 1 \<or> 10 < n then Some Bad_salience else None))"

definition genesis_draft :: "'w author_engine \<Rightarrow> string \<Rightarrow> string \<Rightarrow> string \<Rightarrow> string \<Rightarrow> event_draft" where
  "genesis_draft g at sid account workspace_id =
     \<lparr>dr_type = ''project.created'', dr_project = sid, dr_scope_type = ''project'', dr_scope_id = sid,
      dr_actor = ''user'', dr_writer = account,
      dr_payload = JObj [(''id'', JStr sid), (''schemaVersion'', schema_version g), (''createdAt'', JStr at),
        (''updatedAt'', JStr at), (''title'', JStr ''Hub web edits''),
        (''summary'', JStr (''Server-side authoring lane for '' @ workspace_id @ '' (H060 S1)'')),
        (''goals'', JArr []), (''status'', JStr ''active''), (''rootPath'', JStr (''hub://'' @ workspace_id)),
        (''activeWorkstreamIds'', JArr []), (''activeTaskIds'', JArr []), (''acceptedDecisionIds'', JArr []),
        (''ruleIds'', JArr [])]\<rparr>"

definition memory_draft :: "'w author_engine \<Rightarrow> string \<Rightarrow> string \<Rightarrow> string \<Rightarrow> string \<Rightarrow> memory_item \<Rightarrow> event_draft" where
  "memory_draft g at sid account memory_id item =
     \<lparr>dr_type = ''memory.consolidated'', dr_project = sid, dr_scope_type = ''project'', dr_scope_id = sid,
      dr_actor = ''user'', dr_writer = account,
      dr_payload = JObj [(''id'', JStr memory_id), (''schemaVersion'', schema_version g), (''createdAt'', JStr at),
        (''updatedAt'', JStr at), (''projectId'', JStr sid), (''kind'', JStr (mi_kind item)),
        (''text'', JStr (js_trim (mi_text item))), (''salience'', JNum (the (mi_salience item))),
        (''sourceObservationIds'', JArr []), (''importSource'', JStr ''hub-web'')]\<rparr>"

text \<open>The genesis of a lane that has no store yet.\<close>

definition author_genesis :: "'w author_engine \<Rightarrow> string \<Rightarrow> string \<Rightarrow> string \<Rightarrow> string \<Rightarrow> 'w \<Rightarrow> bool \<times> 'w" where
  "author_genesis g at sid account workspace_id w =
     (if store_exists g w sid then (True, w)
      else (case append_event g (genesis_draft g at sid account workspace_id) w of
          (None, w1) \<Rightarrow> (False, w1)
        | (Some _, w1) \<Rightarrow> (True, w1)))"

text \<open>The memory itself, the binding of the lane and the push.\<close>

definition author_push ::
  "'w author_engine \<Rightarrow> string \<Rightarrow> string \<Rightarrow> string \<Rightarrow> string \<Rightarrow> string \<Rightarrow> string \<Rightarrow> memory_item \<Rightarrow> 'w \<Rightarrow> (author_error + author_result) \<times> 'w" where
  "author_push g at hub_url key sid account workspace_id item w =
     (let (memory_id, w1) = create_id g ''mem'' w
      in case append_event g (memory_draft g at sid account memory_id item) w1 of
           (None, w2) \<Rightarrow> (Inl Write_failed, w2)
         | (Some event_id, w2) \<Rightarrow>
             (let w3 = snd (bind_workspace_store (engine.truncate g) sid workspace_id hub_url at w2)
              in case push_project g hub_url key sid w3 of
                   (None, w4) \<Rightarrow> (Inl Push_failed, w4)
                 | (Some accepted, w4) \<Rightarrow>
                     (Inr \<lparr>ar_memory = memory_id, ar_event = event_id, ar_account = account, ar_store = sid,
                           ar_accepted = accepted\<rparr>, w4)))"

definition author_memory ::
  "env \<Rightarrow> 'w author_engine \<Rightarrow> string option \<Rightarrow> string \<Rightarrow> string \<Rightarrow> string \<Rightarrow> memory_item \<Rightarrow> 'w \<Rightarrow> (author_error + author_result) \<times> 'w" where
  "author_memory e g root hub_url key workspace_id item w =
     (case check_item root item of
        Some err \<Rightarrow> (Inl err, w)
      | None \<Rightarrow>
          (case whoami g hub_url key w of
             (Inl err, w1) \<Rightarrow> (Inl err, w1)
           | (Inr account, w1) \<Rightarrow>
               (case server_store_id workspace_id of
                  None \<Rightarrow> (Inl No_workspace_id, w1)
                | Some sid \<Rightarrow>
                    (case author_genesis g (now_iso e) sid account workspace_id w1 of
                       (False, w2) \<Rightarrow> (Inl Write_failed, w2)
                     | (True, w2) \<Rightarrow> author_push g (now_iso e) hub_url key sid account workspace_id item w2))))"

subsection \<open>What is written\<close>

text \<open>
  A journal of the events an engine has written: appending adds the event or fails; a push adds
  nothing but events about the state of the sync (the comment of \<open>bindWorkspaceStore\<close> says of the
  engine that pull and push append \<open>sync.state.updated\<close> events); fetching, making an id and writing
  the sync file, which that comment sets apart from it, add none.
\<close>

definition sync_event :: "event_draft \<Rightarrow> bool" where
  "sync_event d \<longleftrightarrow> dr_type d = ''sync.state.updated''"

definition keeps_journal :: "'w author_engine \<Rightarrow> ('w \<Rightarrow> event_draft list) \<Rightarrow> bool" where
  "keeps_journal g J \<longleftrightarrow>
     (\<forall>d w. J (snd (append_event g d w)) = (if fst (append_event g d w) = None then J w else J w @ [d])) \<and>
     (\<forall>u r w. J (snd (hub_fetch g u r w)) = J w) \<and> (\<forall>p w. J (snd (create_id g p w)) = J w) \<and>
     (\<forall>u k s w. \<exists>ss. list_all sync_event ss \<and> J (snd (push_project g u k s w)) = J w @ ss) \<and> (\<forall>s v w. J (write_sync_file g s v w) = J w)"

lemma keeps_journalD:
  assumes "keeps_journal g J"
  shows "J (snd (append_event g d w)) = (if fst (append_event g d w) = None then J w else J w @ [d])"
    "J (snd (hub_fetch g u r w)) = J w" "J (snd (create_id g p w)) = J w"
    "\<exists>ss. list_all sync_event ss \<and> J (snd (push_project g u k s w)) = J w @ ss" "J (write_sync_file g s v w) = J w"
  using assms unfolding keeps_journal_def by blast+

lemma append_journal:
  assumes "keeps_journal g J" "append_event g d w = (r, w')"
  shows "J w' = (if r = None then J w else J w @ [d])"
  using keeps_journalD(1) [OF assms(1), of d w] assms(2) by simp

lemma fetch_journal: "keeps_journal g J \<Longrightarrow> hub_fetch g u r w = (x, w') \<Longrightarrow> J w' = J w"
  using keeps_journalD(2) [of g J u r w] by simp

lemma create_journal: "keeps_journal g J \<Longrightarrow> create_id g p w = (i, w') \<Longrightarrow> J w' = J w"
  using keeps_journalD(3) [of g J p w] by simp

lemma push_journal:
  "keeps_journal g J \<Longrightarrow> push_project g u k s w = (r, w') \<Longrightarrow> \<exists>ss. list_all sync_event ss \<and> J w' = J w @ ss"
  using keeps_journalD(4) [of g J u k s w] by simp

lemma bind_journal: "keeps_journal g J \<Longrightarrow> J (snd (bind_workspace_store (engine.truncate g) s wid u at w)) = J w"
  using keeps_journalD(5) by (simp add: bind_workspace_store_def engine.truncate_def Let_def)

lemma genesis_journal:
  assumes "keeps_journal g J" "author_genesis g at sid account wid w = (b, w')"
  shows "J w' = J w \<or> J w' = J w @ [genesis_draft g at sid account wid]"
  using assms(2) append_journal [OF assms(1), of "genesis_draft g at sid account wid" w]
  by (cases "append_event g (genesis_draft g at sid account wid) w")
    (auto simp: author_genesis_def split: if_splits option.splits)

lemma push_writes:
  assumes k: "keeps_journal g J" and p: "author_push g at hub key sid account wid item w = (r, w')"
  obtains memory_id ss where "list_all sync_event ss" "J w' = J w \<and> \<not> (\<exists>res. r = Inr res) \<or>
    J w' = J w @ [memory_draft g at sid account memory_id item] @ ss \<and>
    (\<forall>res. r = Inr res \<longrightarrow> ar_memory res = memory_id \<and> ar_account res = account \<and> ar_store res = sid)"
proof -
  obtain memory_id w1 where c: "create_id g ''mem'' w = (memory_id, w1)" by fastforce
  obtain ev w2 where a: "append_event g (memory_draft g at sid account memory_id item) w1 = (ev, w2)" by fastforce
  define w3 where "w3 = snd (bind_workspace_store (engine.truncate g) sid wid hub at w2)"
  obtain ok w4 where q: "push_project g hub key sid w3 = (ok, w4)" by fastforce
  obtain ss where ss: "list_all sync_event ss" "J w4 = J w3 @ ss" using push_journal [OF k q] by blast
  have j: "J w1 = J w" "J w2 = (if ev = None then J w1 else J w1 @ [memory_draft g at sid account memory_id item])"
    "J w3 = J w2"
    using create_journal [OF k c] append_journal [OF k a] bind_journal [OF k] by (simp_all add: w3_def)
  show ?thesis
    using that [OF ss(1), of memory_id] p j ss(2)
    by (cases ev; cases ok) (auto simp: author_push_def c a q w3_def [symmetric] Let_def)
qed

definition written_by :: "string \<Rightarrow> string \<Rightarrow> event_draft \<Rightarrow> bool" where
  "written_by account sid d \<longleftrightarrow> dr_writer d = account \<and> dr_project d = sid \<and> dr_actor d = ''user'' \<and>
     dr_type d \<in> {''project.created'', ''memory.consolidated''}"

lemma drafts_written_by [simp]:
  "written_by account sid (genesis_draft g at sid account wid)"
  "written_by account sid (memory_draft g at sid account memory_id item)"
  by (simp_all add: written_by_def genesis_draft_def memory_draft_def)

lemma author_memory_cases:
  assumes "author_memory e g root hub key wid item w = (r, w')"
  obtains (refused) err where "r = Inl err" "check_item root item = Some err" "w' = w"
  | (unknown) err where "check_item root item = None" "whoami g hub key w = (Inl err, w')" "r = Inl err"
  | (no_lane) account where "check_item root item = None" "whoami g hub key w = (Inr account, w')" "r = Inl No_workspace_id"
  | (no_genesis) account w1 sid where "check_item root item = None" "whoami g hub key w = (Inr account, w1)"
      "server_store_id wid = Some sid" "author_genesis g (now_iso e) sid account wid w1 = (False, w')" "r = Inl Write_failed"
  | (pushed) account w1 sid w2 where "check_item root item = None" "whoami g hub key w = (Inr account, w1)"
      "server_store_id wid = Some sid" "author_genesis g (now_iso e) sid account wid w1 = (True, w2)"
      "author_push g (now_iso e) hub key sid account wid item w2 = (r, w')"
  using assms unfolding author_memory_def by (auto split: option.splits prod.splits sum.splits bool.splits)

lemma whoami_journal: "keeps_journal g J \<Longrightarrow> whoami g hub key w = (x, w') \<Longrightarrow> J w' = J w"
  using fetch_journal [of g J "strip_slashes hub" "whoami_request key" w]
  by (auto simp: whoami_def split: prod.splits option.splits)

lemma whoami_answered:
  "whoami g hub key w = (Inr account, w') \<Longrightarrow>
   \<exists>answer. fst (hub_fetch g (strip_slashes hub) (whoami_request key) w) = Some answer \<and> whoami_account answer = Inr account"
  by (auto simp: whoami_def split: prod.splits option.splits)

text \<open>
  C10. Authoring writes only as the caller and only what the caller may write: the engine's journal
  grows by at most two events, each into the workspace's own lane and each with the account the hub
  named for the caller's key as its writer, followed by what the engine's push itself records about
  the sync; nothing is written unless the item is valid, the hub accepted the key and the key is
  writable; and a run that reports success has written exactly the memory it reports, last of the two.
\<close>

theorem authored_as_the_caller:
  assumes "keeps_journal g J" "author_memory e g root hub key wid item w = (r, w')"
  shows "\<exists>ds ss. J w' = J w @ ds @ ss \<and> length ds \<le> 2 \<and> list_all sync_event ss \<and> (ss \<noteq> [] \<longrightarrow> ds \<noteq> []) \<and>
    (ds \<noteq> [] \<longrightarrow> check_item root item = None \<and>
      (\<exists>sid account answer. server_store_id wid = Some sid \<and>
        fst (hub_fetch g (strip_slashes hub) (whoami_request key) w) = Some answer \<and> whoami_account answer = Inr account \<and>
        list_all (written_by account sid) ds)) \<and>
    (\<forall>res. r = Inr res \<longrightarrow> ds \<noteq> [] \<and>
      last ds = memory_draft g (now_iso e) (ar_store res) (ar_account res) (ar_memory res) item)"
  using assms(2)
proof (cases rule: author_memory_cases)
  case (no_genesis account w1 sid)
  then show ?thesis
    using genesis_journal [OF assms(1) no_genesis(4)] whoami_journal [OF assms(1) no_genesis(2)] whoami_answered [OF no_genesis(2)]
    by (intro exI [of _ "drop (length (J w)) (J w')"] exI [of _ "[]"]) auto
next
  case (pushed account w1 sid w2)
  obtain memory_id ss where ss: "list_all sync_event ss" and m: "J w' = J w2 \<and> \<not> (\<exists>res. r = Inr res) \<or>
    J w' = J w2 @ [memory_draft g (now_iso e) sid account memory_id item] @ ss \<and>
    (\<forall>res. r = Inr res \<longrightarrow> ar_memory res = memory_id \<and> ar_account res = account \<and> ar_store res = sid)"
    by (rule push_writes [OF assms(1) pushed(5)])
  then show ?thesis
    using genesis_journal [OF assms(1) pushed(4)] whoami_journal [OF assms(1) pushed(2)] whoami_answered [OF pushed(2)] pushed(1,3)
    by (elim disjE; intro exI [of _ "drop (length (J w)) (J w2) @ (if J w' = J w2 then [] else [memory_draft g (now_iso e) sid account memory_id item])"]
        exI [of _ "if J w' = J w2 then [] else ss"]) auto
qed (use whoami_journal [OF assms(1)] in \<open>auto intro!: exI [of _ "[]"]\<close>)

text \<open>An engine whose state is its journal, before a hub that knows one account; its push records one event.\<close>

definition synced_draft :: "string \<Rightarrow> event_draft" where
  "synced_draft sid =
     \<lparr>dr_type = ''sync.state.updated'', dr_project = sid, dr_scope_type = ''project'', dr_scope_id = sid,
      dr_actor = ''system'', dr_writer = ''engine'', dr_payload = JNull\<rparr>"

definition journal_engine :: "event_draft list author_engine" where
  "journal_engine =
     \<lparr>schema_version = JStr ''1'', actor_system = ''system'', read_sync_file = \<lambda>_ _. None, write_sync_file = \<lambda>_ _ w. w,
      read_events = \<lambda>_ _. [], insert_external = \<lambda>_ _ w. w, pull_project = \<lambda>_ _ _ w. (None, w),
      list_valid_memories = \<lambda>_ _. [], list_tasks = \<lambda>_ _. [],
      hub_fetch = \<lambda>_ _ w. (Some (200, stringify (JObj [(''accountId'', JStr ''acc_a''), (''readOnly'', JBool False)])), w),
      store_exists = \<lambda>_ _. False, create_id = \<lambda>p w. (p @ ''_1'', w), append_event = \<lambda>d w. (Some ''evt_1'', w @ [d]),
      push_project = \<lambda>_ _ s w. (Some (length w), w @ [synced_draft s])\<rparr>"

definition author_env :: env where
  "author_env = \<lparr>now = 0, random = \<lambda>_ _. [], sha256 = \<lambda>s. s, hmac = \<lambda>_ _. [], date_other = \<lambda>_. None\<rparr>"

definition sample_item :: memory_item where
  "sample_item = \<lparr>mi_kind = ''decision'', mi_text = '' use SQLite '', mi_salience = Some 7\<rparr>"

definition authored :: "(author_error + author_result) \<times> event_draft list" where
  "authored = author_memory author_env journal_engine (Some ''/srv'') ''https://hub/'' ''mzk_a'' ''wsp_ab'' sample_item []"

theorem authored_as_the_caller_witness:
  "\<exists>ds ss. snd authored = ds @ ss \<and> length ds \<le> 2 \<and> ds \<noteq> [] \<and> list_all sync_event ss \<and>
     (\<exists>account. list_all (written_by account ''proj_hub_ab'') ds) \<and>
     fst authored = Inr \<lparr>ar_memory = ''mem_1'', ar_event = ''evt_1'', ar_account = ''acc_a'', ar_store = ''proj_hub_ab'', ar_accepted = 2\<rparr>"
proof -
  have k: "keeps_journal journal_engine (\<lambda>w. w)" by (auto simp: keeps_journal_def journal_engine_def sync_event_def synced_draft_def)
  have run: "author_memory author_env journal_engine (Some ''/srv'') ''https://hub/'' ''mzk_a'' ''wsp_ab'' sample_item [] =
      (fst authored, snd authored)"
    by (simp add: authored_def)
  have c: "check_item (Some ''/srv'') sample_item = None" "server_store_id ''wsp_ab'' = Some ''proj_hub_ab''"
    by code_simp+
  have p: "json_parse (stringify (JObj [(''accountId'', JStr ''acc_a''), (''readOnly'', JBool False)])) =
      Some (JObj [(''accountId'', JStr ''acc_a''), (''readOnly'', JBool False)])"
    by (rule parse_stringify) simp
  have "whoami journal_engine ''https://hub/'' ''mzk_a'' [] = (Inr ''acc_a'', [])"
    by (simp add: whoami_def whoami_account_def journal_engine_def p jget_str_def jget_def del: stringify.simps)
  then have r: "fst authored = Inr \<lparr>ar_memory = ''mem_1'', ar_event = ''evt_1'', ar_account = ''acc_a'', ar_store = ''proj_hub_ab'', ar_accepted = 2\<rparr>"
    unfolding authored_def author_memory_def c
    by (simp add: author_genesis_def author_push_def journal_engine_def Let_def bind_workspace_store_def engine.truncate_def)
  obtain ds ss where "snd authored = [] @ ds @ ss" "length ds \<le> 2" "list_all sync_event ss"
    "ds \<noteq> [] \<longrightarrow> (\<exists>sid account. server_store_id ''wsp_ab'' = Some sid \<and> list_all (written_by account sid) ds)" "ds \<noteq> []"
    using authored_as_the_caller [OF k run] r by blast
  then show ?thesis using r c by auto
qed

end
