(* ===== verification/Replica_Server.thy ===== *)
theory Replica_Server
  imports Replica_Author
begin

text \<open>
  \<open>packages/replica/src/index.ts\<close>, \<open>server.ts\<close> and \<open>cli.ts\<close>: the replica's configuration, its
  HTTP surface and the command line. \<open>Number(raw)\<close> is read here on plain decimal digits; what it
  answers on any other text is the argument \<open>number\<close>, \<open>None\<close> when the value is no integer. \<open>loose\<close>
  is the lenient decoding of \<open>Buffer\<close>.
\<close>

definition to_number :: "(string \<Rightarrow> int option) \<Rightarrow> string \<Rightarrow> int option" where
  "to_number number raw = (if raw \<noteq> [] \<and> list_all is_digit raw then Some (int (digits_val raw)) else number raw)"

subsection \<open>Configuration\<close>

definition replica_positive_int :: "(string \<Rightarrow> int option) \<Rightarrow> string option \<Rightarrow> int \<Rightarrow> int option" where
  "replica_positive_int number raw fallback =
     (case raw of
        None \<Rightarrow> Some fallback
      | Some r \<Rightarrow>
          if r = [] then Some fallback
          else (case to_number number r of None \<Rightarrow> None | Some n \<Rightarrow> if n \<le> 0 then None else Some n))"

record replica_options =
  ro_relay_url :: string
  ro_relay_token :: "string option"

record replica_config =
  rc_port :: int
  rc_options :: replica_options

definition load_replica_config :: "(string \<Rightarrow> int option) \<Rightarrow> (string \<Rightarrow> string option) \<Rightarrow> replica_config option" where
  "load_replica_config number env =
     (case replica_positive_int number (env ''REPLICA_PORT'') 8790 of
        None \<Rightarrow> None
      | Some p \<Rightarrow>
          if \<not> truthy (env ''MEMORIZE_ROOT'') then None
          else Some \<lparr>rc_port = p, rc_options =
            \<lparr>ro_relay_url = strip_slashes (or_else (env ''REPLICA_RELAY_URL'') (or_else (env ''RELAY_URL'') ''http://127.0.0.1:8787'')),
             ro_relay_token = or_undefined (if truthy (env ''RELAY_INTERNAL_TOKEN'') then env ''RELAY_INTERNAL_TOKEN''
                                            else env ''MEMORIZE_RELAY_TOKEN'')\<rparr>\<rparr>)"

subsection \<open>Requests\<close>

definition timeline_route :: "segment list" where
  "timeline_route = [Lit ''v1'', Lit ''workspaces'', Capture, Lit ''timeline'']"

definition tasks_route :: "segment list" where
  "tasks_route = [Lit ''v1'', Lit ''workspaces'', Capture, Lit ''tasks'']"

text \<open>The parameter \<open>limit\<close>: absent, a number, or refused with 400.\<close>

definition limit_param :: "(string \<Rightarrow> int option) \<Rightarrow> request \<Rightarrow> int option option" where
  "limit_param number req =
     (case query_get ''limit'' req of
        None \<Rightarrow> Some None
      | Some raw \<Rightarrow> (case to_number number raw of None \<Rightarrow> None | Some n \<Rightarrow> if n < 1 then None else Some (Some n)))"

definition before_param :: "(string \<Rightarrow> string) \<Rightarrow> request \<Rightarrow> (string \<times> string) option option" where
  "before_param loose req =
     (case query_get ''before'' req of
        None \<Rightarrow> Some None
      | Some raw \<Rightarrow> (case decode_cursor loose raw of None \<Rightarrow> None | Some c \<Rightarrow> Some (Some c)))"

text \<open>The answer to a read; one that threw ends in the server's \<open>catch\<close>.\<close>

definition answer_read :: "json option \<times> 'w \<Rightarrow> response \<times> 'w" where
  "answer_read r = (case fst r of Some v \<Rightarrow> Json 200 v | None \<Rightarrow> send_error 500 ''internal replica error'', snd r)"

definition replica_timeline ::
  "env \<Rightarrow> 'w engine \<Rightarrow> string option \<Rightarrow> replica_options \<Rightarrow> (string \<Rightarrow> int option) \<Rightarrow> (string \<Rightarrow> string) \<Rightarrow> request \<Rightarrow> string \<Rightarrow> 'w \<Rightarrow> response \<times> 'w" where
  "replica_timeline e g root opts number loose req capture w =
     (case limit_param number req of
        None \<Rightarrow> (send_error 400 ''limit must be a positive integer'', w)
      | Some limit \<Rightarrow>
          (case before_param loose req of
             None \<Rightarrow> (send_error 400 ''before must be a valid cursor'', w)
           | Some before \<Rightarrow>
               (case decode_uri capture of
                  None \<Rightarrow> answer_read (None, w)
                | Some workspace_id \<Rightarrow>
                    answer_read (read_timeline e g root (ro_relay_url opts)
                      (case ro_relay_token opts of Some t \<Rightarrow> t | None \<Rightarrow> []) workspace_id limit before w))))"

definition replica_tasks ::
  "env \<Rightarrow> 'w engine \<Rightarrow> string option \<Rightarrow> replica_options \<Rightarrow> string \<Rightarrow> 'w \<Rightarrow> response \<times> 'w" where
  "replica_tasks e g root opts capture w =
     (case decode_uri capture of
        None \<Rightarrow> answer_read (None, w)
      | Some workspace_id \<Rightarrow>
          answer_read (read_tasks e g root (ro_relay_url opts)
            (case ro_relay_token opts of Some t \<Rightarrow> t | None \<Rightarrow> []) workspace_id w))"

definition replica_handle ::
  "env \<Rightarrow> 'w engine \<Rightarrow> string option \<Rightarrow> replica_options \<Rightarrow> (string \<Rightarrow> int option) \<Rightarrow> (string \<Rightarrow> string) \<Rightarrow> request \<Rightarrow> 'w \<Rightarrow> response \<times> 'w" where
  "replica_handle e g root opts number loose req w =
     (if meth req = ''GET'' \<and> path req = ''/healthz'' then (Json 200 (JObj [(''ok'', JBool True)]), w)
      else (case (if meth req = ''GET'' then match_route timeline_route (path req) else None) of
          Some cs \<Rightarrow> replica_timeline e g root opts number loose req (hd cs) w
        | None \<Rightarrow>
            (case (if meth req = ''GET'' then match_route tasks_route (path req) else None) of
               Some cs \<Rightarrow> replica_tasks e g root opts (hd cs) w
             | None \<Rightarrow> (send_error 404 ''not found'', w))))"

subsection \<open>The command line\<close>

text \<open>\<open>parseArgs\<close>: \<open>None\<close> is the usage error.\<close>

fun parse_args :: "string list \<Rightarrow> (string \<times> string) list \<Rightarrow> (string \<times> string) list option" where
  "parse_args [] flags = Some flags"
| "parse_args [a] flags = None"
| "parse_args (a # v # rest) flags =
     (if \<not> starts_with a ''--'' \<or> starts_with v ''--'' then None
      else parse_args rest (js_set (drop (length ''--'') a) v flags))"

definition author_result_json :: "author_result \<Rightarrow> json" where
  "author_result_json r = JObj [(''memoryId'', JStr (ar_memory r)), (''eventId'', JStr (ar_event r)),
     (''accountId'', JStr (ar_account r)), (''storeId'', JStr (ar_store r)), (''accepted'', JNum (int (ar_accepted r)))]"

text \<open>What \<open>main\<close> prints; \<open>None\<close> is a message on the error stream and exit code 1.\<close>

definition cli_main ::
  "env \<Rightarrow> 'w author_engine \<Rightarrow> (string \<Rightarrow> int option) \<Rightarrow> (string \<Rightarrow> string option) \<Rightarrow> string list \<Rightarrow> 'w \<Rightarrow> json option \<times> 'w" where
  "cli_main e g number environ argv w =
     (case parse_args (tl argv) [] of
        None \<Rightarrow> (None, w)
      | Some flags \<Rightarrow>
          (let flag = map_of flags; command = (case argv of [] \<Rightarrow> [] | c # _ \<Rightarrow> c); root = environ ''MEMORIZE_ROOT'';
               hub = flag ''hub''; wid = flag ''workspace''; key = environ ''HUB_API_KEY''
           in if \<not> truthy hub \<or> \<not> truthy wid \<or> \<not> truthy key then (None, w)
              else if command = ''author-memory'' then
                (if \<not> truthy (flag ''kind'') \<or> \<not> truthy (flag ''text'') then (None, w)
                 else (case author_memory e g root (the hub) (the key) (the wid)
                          \<lparr>mi_kind = the (flag ''kind''), mi_text = the (flag ''text''),
                           mi_salience = Option.bind (flag ''salience'') (to_number number)\<rparr> w of
                     (Inl err, w1) \<Rightarrow> (None, w1)
                   | (Inr r, w1) \<Rightarrow> (Some (author_result_json r), w1)))
              else if command = ''timeline'' then
                (if \<not> truthy (flag ''limit'')
                 then read_timeline e (engine.truncate g) root (the hub) (the key) (the wid) None None w
                 else (case to_number number (the (flag ''limit'')) of
                     None \<Rightarrow> (None, w)
                   | Some n \<Rightarrow> read_timeline e (engine.truncate g) root (the hub) (the key) (the wid) (Some n) None w))
              else if command = ''tasks'' then read_tasks e (engine.truncate g) root (the hub) (the key) (the wid) w
              else (None, w)))"

lemma parse_args_even: "parse_args argv flags = Some flags' \<Longrightarrow> even (length argv)"
  by (induction argv flags rule: parse_args.induct) (auto split: if_splits)

lemma parse_args_flags:
  "list_all (\<lambda>(k, v). \<not> starts_with v ''--'') kvs \<Longrightarrow>
   parse_args (concat (map (\<lambda>(k, v). [''--'' @ k, v]) kvs)) flags = Some (foldl (\<lambda>m (k, v). js_set k v m) flags kvs)"
  by (induction kvs arbitrary: flags) (auto simp: starts_with_def)

subsection \<open>Pages\<close>

definition page_limit :: "int option \<Rightarrow> nat" where
  "page_limit limit = (case limit of None \<Rightarrow> default_limit | Some n \<Rightarrow> nat n)"

lemma page_of_bounded: "length (pg_items (page_of xs limit before)) \<le> limit"
  by (simp add: page_of_def Let_def)

lemma page_of_members: "set (pg_items (page_of xs limit before)) \<subseteq> set xs"
  using set_drop_subset by (fastforce simp: page_of_def Let_def split: option.splits)

lemma read_timeline_cases:
  assumes "read_timeline e g root hub key wid limit before w = (Some v, w')"
  obtains sid pulled where "server_store_id wid = Some sid"
    "v = timeline_json sid pulled (page_of (timeline_of g w' sid) (page_limit limit) before)"
proof -
  obtain r w1 where l: "ensure_read_lane e g wid hub w = (r, w1)" by fastforce
  with assms obtain sid where r: "r = Some sid"
    by (cases r) (auto simp: read_timeline_def split: if_splits)
  obtain p w2 where q: "pull_project g hub key sid w1 = (p, w2)" by fastforce
  with assms l r obtain pulled where "p = Some pulled"
    by (cases p) (auto simp: read_timeline_def split: if_splits)
  then have "v = timeline_json sid pulled (page_of (timeline_of g w' sid) (page_limit limit) before)"
    using assms l r q by (auto simp: read_timeline_def page_limit_def split: if_splits)
  moreover have "server_store_id wid = Some sid"
    using l r by (auto simp: ensure_read_lane_def split: option.splits)
  ultimately show ?thesis using that by blast
qed

lemma timeline_json_items: "jget ''items'' (timeline_json sid pulled p) = Some (JArr (map timeline_item_json (pg_items p)))"
  by (simp add: timeline_json_def jget_def)

lemma page_of_sorted:
  "sorted (map timeline_key xs) \<Longrightarrow> sorted (map timeline_key (pg_items (page_of xs limit before)))"
  by (auto simp: page_of_def Let_def drop_map [symmetric] sorted_wrt_drop sorted_filter split: option.split)

lemma page_of_before: "i \<in> set (pg_items (page_of xs limit (Some c))) \<Longrightarrow> timeline_key i < c"
  by (auto simp: page_of_def Let_def before_cursor_iff dest: in_set_dropD)

definition page_contract :: "'w engine \<Rightarrow> 'w \<Rightarrow> string \<Rightarrow> int option \<Rightarrow> (string \<times> string) option \<Rightarrow> json \<Rightarrow> bool" where
  "page_contract g w sid limit before v \<longleftrightarrow>
     (\<exists>items. jget ''items'' v = Some (JArr (map timeline_item_json items)) \<and> length items \<le> page_limit limit \<and>
        set items \<subseteq> set (timeline_of g w sid) \<and> sorted (map timeline_key items) \<and>
        (\<forall>c. before = Some c \<longrightarrow> (\<forall>i \<in> set items. timeline_key i < c)))"

lemma page_contract_page:
  "page_contract g w sid limit before (timeline_json sid pulled (page_of (timeline_of g w sid) (page_limit limit) before))"
proof -
  let ?p = "page_of (timeline_of g w sid) (page_limit limit) before"
  have "\<forall>c. before = Some c \<longrightarrow> (\<forall>i \<in> set (pg_items ?p). timeline_key i < c)"
    by (auto dest: page_of_before)
  then show ?thesis
    unfolding page_contract_def timeline_json_items
    using page_of_bounded [of "timeline_of g w sid" "page_limit limit" before]
      page_of_members [of "timeline_of g w sid" "page_limit limit" before]
      page_of_sorted [OF timeline_sorted, of g w sid "page_limit limit" before]
    by (intro exI [of _ "pg_items ?p"] conjI) simp_all
qed

lemma timeline_not_health: "match_route timeline_route (path req) = Some cs \<Longrightarrow> path req \<noteq> ''/healthz''"
proof
  assume "match_route timeline_route (path req) = Some cs" "path req = ''/healthz''"
  moreover have "match_route timeline_route ''/healthz'' = None" by code_simp
  ultimately show False by simp
qed

lemma answer_read_200: "answer_read r = (Json 200 v, w') \<Longrightarrow> r = (Some v, w')"
  by (cases r) (auto simp: answer_read_def send_error_def split: option.splits)

lemma replica_timeline_200:
  assumes "replica_timeline e g root opts number loose req capture w = (Json 200 v, w')"
  obtains limit before wid sid where "limit_param number req = Some limit" "before_param loose req = Some before"
    "decode_uri capture = Some wid" "server_store_id wid = Some sid" "page_contract g w' sid limit before v"
proof -
  obtain limit where l: "limit_param number req = Some limit"
    using assms by (auto simp: replica_timeline_def send_error_def split: option.splits)
  obtain before where b: "before_param loose req = Some before"
    using assms l by (auto simp: replica_timeline_def send_error_def split: option.splits)
  obtain wid where d: "decode_uri capture = Some wid"
    using assms l b by (cases "decode_uri capture") (auto simp: replica_timeline_def dest: answer_read_200)
  have "read_timeline e g root (ro_relay_url opts) (case ro_relay_token opts of Some t \<Rightarrow> t | None \<Rightarrow> []) wid limit before w = (Some v, w')"
    using assms l b d by (auto simp: replica_timeline_def dest: answer_read_200)
  then obtain sid pulled where sid: "server_store_id wid = Some sid"
    and v: "v = timeline_json sid pulled (page_of (timeline_of g w' sid) (page_limit limit) before)"
    by (rule read_timeline_cases)
  have "page_contract g w' sid limit before v" unfolding v by (rule page_contract_page)
  then show ?thesis by (rule that [OF l b d sid])
qed

text \<open>
  C35. A page of the timeline is bounded and ordered: a request whose limit is no positive integer
  or whose cursor does not decode is refused with 400 before the engine is touched; a page holds at
  most limit items (50 when none is given), all of the workspace's own timeline, in time order, and
  all before the cursor.
\<close>

theorem replica_pages_bounded:
  assumes "meth req = ''GET''" "match_route timeline_route (path req) = Some [capture]"
    "replica_handle e g root opts number loose req w = (resp, w')"
  shows "(limit_param number req = None \<or> before_param loose req = None \<longrightarrow> status_of resp = 400 \<and> w' = w) \<and>
    (\<forall>v. resp = Json 200 v \<longrightarrow>
      (\<exists>limit before wid sid. limit_param number req = Some limit \<and> before_param loose req = Some before \<and>
        decode_uri capture = Some wid \<and> server_store_id wid = Some sid \<and> page_contract g w' sid limit before v))"
proof -
  have r: "replica_timeline e g root opts number loose req capture w = (resp, w')"
    using assms timeline_not_health [OF assms(2)] by (simp add: replica_handle_def)
  show ?thesis
  proof (intro conjI impI allI)
    assume "limit_param number req = None \<or> before_param loose req = None"
    then have "status_of resp = 400 \<and> w' = w"
      using r by (auto simp: replica_timeline_def split: option.splits)
    then show "status_of resp = 400" "w' = w" by simp_all
  next
    fix v assume "resp = Json 200 v"
    then show "\<exists>limit before wid sid. limit_param number req = Some limit \<and> before_param loose req = Some before \<and>
        decode_uri capture = Some wid \<and> server_store_id wid = Some sid \<and> page_contract g w' sid limit before v"
      using r by (auto elim: replica_timeline_200)
  qed
qed

text \<open>A lane with two memories, asked for a page of one.\<close>

definition library_memory :: "string \<Rightarrow> string \<Rightarrow> memory" where
  "library_memory i at = \<lparr>y_id = i, y_created_at = at, y_kind = ''progress'', y_text = ''done'', y_salience = 5,
     y_source = None, y_tags = None\<rparr>"

definition library_engine :: "unit engine" where
  "library_engine =
     \<lparr>schema_version = JStr ''1'', actor_system = ''system'', read_sync_file = \<lambda>_ _. None, write_sync_file = \<lambda>_ _ w. w,
      read_events = \<lambda>_ _. [], insert_external = \<lambda>_ _ w. w, pull_project = \<lambda>_ _ _ w. (Some (JObj []), w),
      list_valid_memories = \<lambda>_ _. [library_memory ''mem_1'' ''2026-01-01'', library_memory ''mem_2'' ''2026-01-02''],
      list_tasks = \<lambda>_ _. []\<rparr>"

definition library_request :: request where
  "library_request = \<lparr>meth = ''GET'', path = ''/v1/workspaces/wsp_ab/timeline'', query = [(''limit'', ''1'')],
     auth_header = None, cookie_header = None, host_header = None, chunks = []\<rparr>"

definition library_answer :: "response \<times> unit" where
  "library_answer = replica_handle author_env library_engine (Some ''/srv'')
     \<lparr>ro_relay_url = ''http://relay'', ro_relay_token = None\<rparr> (\<lambda>_. None) (\<lambda>s. s) library_request ()"

theorem replica_pages_bounded_witness:
  "\<exists>v. fst library_answer = Json 200 v \<and> page_contract library_engine () ''proj_hub_ab'' (Some 1) None v"
proof -
  have c: "match_route timeline_route ''/v1/workspaces/wsp_ab/timeline'' = Some [''wsp_ab'']"
    "decode_uri ''wsp_ab'' = Some ''wsp_ab''" "server_store_id ''wsp_ab'' = Some ''proj_hub_ab''"
    "limit_param (\<lambda>_. None) library_request = Some (Some 1)" "before_param (\<lambda>s. s) library_request = Some None"
    by code_simp+
  have q: "meth library_request = ''GET''" "path library_request = ''/v1/workspaces/wsp_ab/timeline''"
    by (simp_all add: library_request_def)
  have "\<exists>v. fst library_answer = Json 200 v"
    unfolding library_answer_def replica_handle_def replica_timeline_def q c
    by (simp add: c read_timeline_def ensure_read_lane_def library_engine_def truthy_def answer_read_def)
  then obtain v where v: "fst library_answer = Json 200 v" by blast
  have m: "match_route timeline_route (path library_request) = Some [''wsp_ab'']" by (simp add: q c)
  have "library_answer = (Json 200 v, ())" using v by (metis prod.collapse old.unit.exhaust)
  from replica_pages_bounded [OF q(1) m this [unfolded library_answer_def]]
  obtain limit before wid sid where r: "limit_param (\<lambda>_. None) library_request = Some limit"
    "before_param (\<lambda>s. s) library_request = Some before" "decode_uri ''wsp_ab'' = Some wid" "server_store_id wid = Some sid"
    "page_contract library_engine () sid limit before v"
    by blast
  then have "limit = Some 1" "before = None" "sid = ''proj_hub_ab''" using c by auto
  then show ?thesis using v r(5) by blast
qed

end
