(* ===== verification/Web_Timeline.thy ===== *)
theory Web_Timeline
  imports Replica_Lane
begin

text \<open>
  \<open>packages/web/src/lib/timeline-page.ts\<close>, \<open>paginated-timeline.ts\<close> and \<open>live-feed.ts\<close>: the
  browser's timeline and the cached feeds. A hook is a state and one function per thing that
  happens to it: the effect that runs when the workspace changes, an answer, a failure, the call
  that loads older items. An answer carries the key its request was made for.
\<close>

subsection \<open>Merging pages\<close>

definition compare_items :: "timeline_item \<Rightarrow> timeline_item \<Rightarrow> int" where
  "compare_items a b =
     (if tm_at a \<noteq> tm_at b then (if tm_at a < tm_at b then -1 else 1)
      else if tm_id a < tm_id b then -1 else if tm_id b < tm_id a then 1 else 0)"

definition merge_older_page :: "timeline_item list \<Rightarrow> timeline_item list \<Rightarrow> timeline_item list" where
  "merge_older_page existing older =
     js_sort compare_items
       (map snd (js_index tm_id (\<lambda>i. i) existing (js_index tm_id (\<lambda>i. i) older [])))"

interpretation item_order: keyed_comparator compare_items timeline_key
  by unfold_locales (auto simp: compare_items_def timeline_key_def less_prod_def split: if_splits)

subsection \<open>The session cache\<close>

text \<open>
  The map in memory and the browser's session storage. The storage holds printed lists, and what
  does not read back as a list is no entry; a failing write (\<open>stored = False\<close>) is ignored.
\<close>

record 'i cache =
  ca_memory :: "(string \<times> 'i list) list"
  ca_session :: "(string \<times> 'i list) list"

definition read_cache :: "'i cache \<Rightarrow> string \<Rightarrow> 'i list option" where
  "read_cache c key = (case map_of (ca_memory c) key of Some xs \<Rightarrow> Some xs | None \<Rightarrow> map_of (ca_session c) key)"

definition write_cache :: "bool \<Rightarrow> string \<Rightarrow> 'i list \<Rightarrow> 'i cache \<Rightarrow> 'i cache" where
  "write_cache stored key xs c =
     \<lparr>ca_memory = js_set key xs (ca_memory c),
      ca_session = (if stored then js_set key xs (ca_session c) else ca_session c)\<rparr>"

subsection \<open>The paginated timeline\<close>

definition page_size :: nat where "page_size = 50"

record timeline_answer =
  an_items :: "timeline_item list"
  an_has_more :: bool
  an_next_cursor :: "string option"

record pager =
  pa_items :: "timeline_item list"
  pa_loading :: bool
  pa_error :: "string option"
  pa_has_more :: bool
  pa_loading_older :: bool
  pa_cursor :: "string option"
  pa_busy :: bool
  pa_active :: "string option"

definition or_none :: "'i list option \<Rightarrow> 'i list" where
  "or_none x = (case x of Some xs \<Rightarrow> xs | None \<Rightarrow> [])"

text \<open>The effect for a workspace; it also asks for the first page.\<close>

definition pager_start :: "timeline_item cache \<Rightarrow> string \<Rightarrow> pager" where
  "pager_start c key =
     \<lparr>pa_items = or_none (read_cache c key), pa_loading = (read_cache c key = None), pa_error = None,
      pa_has_more = False, pa_loading_older = False, pa_cursor = None, pa_busy = False, pa_active = Some key\<rparr>"

definition pager_first :: "bool \<Rightarrow> string \<Rightarrow> timeline_answer \<Rightarrow> pager \<times> timeline_item cache \<Rightarrow> pager \<times> timeline_item cache" where
  "pager_first stored key a pc =
     (let (p, c) = pc
      in if pa_active p \<noteq> Some key then (p, c)
         else (p\<lparr>pa_items := an_items a, pa_has_more := an_has_more a, pa_cursor := an_next_cursor a, pa_loading := False\<rparr>,
               write_cache stored key (an_items a) c))"

definition pager_first_failed :: "string \<Rightarrow> bool \<Rightarrow> string \<Rightarrow> pager \<Rightarrow> pager" where
  "pager_first_failed key had_cache msg p =
     (if pa_active p \<noteq> Some key then p
      else p\<lparr>pa_loading := False, pa_error := (if had_cache then pa_error p else Some msg)\<rparr>)"

text \<open>\<open>loadOlder\<close>: the cursor to ask with, if it asks at all.\<close>

definition load_older :: "pager \<Rightarrow> string option \<times> pager" where
  "load_older p =
     (if \<not> pa_has_more p \<or> pa_busy p then (None, p)
      else if \<not> truthy (pa_cursor p) then (None, p)
      else (pa_cursor p, p\<lparr>pa_busy := True, pa_loading_older := True\<rparr>))"

definition pager_older :: "string \<Rightarrow> timeline_answer \<Rightarrow> pager \<Rightarrow> pager" where
  "pager_older key a p =
     (if pa_active p \<noteq> Some key then p
      else p\<lparr>pa_items := merge_older_page (pa_items p) (an_items a), pa_has_more := an_has_more a,
             pa_cursor := an_next_cursor a, pa_busy := False, pa_loading_older := False\<rparr>)"

definition pager_older_failed :: "string \<Rightarrow> pager \<Rightarrow> pager" where
  "pager_older_failed key p =
     (if pa_active p \<noteq> Some key then p else p\<lparr>pa_busy := False, pa_loading_older := False\<rparr>)"

subsection \<open>What a merge is\<close>

lemma js_index_fresh:
  "distinct (map f xs) \<Longrightarrow> f ` set xs \<inter> fst ` set m = {} \<Longrightarrow>
   js_index f g xs m = m @ map (\<lambda>x. (f x, g x)) xs"
  by (induction xs arbitrary: m) (auto simp: js_set_fresh)

definition by_id :: "timeline_item list \<Rightarrow> string \<Rightarrow> timeline_item option" where
  "by_id xs i = find (\<lambda>x. tm_id x = i) (rev xs)"

lemma by_id_SomeD: "by_id xs i = Some x \<Longrightarrow> x \<in> set xs \<and> tm_id x = i"
  unfolding by_id_def by (drule find_SomeD) simp

lemma by_id_iff: "distinct (map tm_id xs) \<Longrightarrow> by_id xs i = Some x \<longleftrightarrow> x \<in> set xs \<and> tm_id x = i"
proof
  assume d: "distinct (map tm_id xs)" and x: "x \<in> set xs \<and> tm_id x = i"
  then obtain y where y: "by_id xs i = Some y" by (cases "by_id xs i") (auto simp: by_id_def find_None_iff)
  then show "by_id xs i = Some x" using by_id_SomeD [OF y] d x by (metis distinct_map inj_onD)
qed (rule by_id_SomeD)

lemma by_id_perm:
  "distinct (map tm_id xs) \<Longrightarrow> set xs = set ys \<Longrightarrow> distinct (map tm_id ys) \<Longrightarrow> by_id xs i = by_id ys i"
  using by_id_iff by (metis not_None_eq)

lemma values_of_index:
  assumes "distinct (map fst m)" "\<forall>p \<in> set m. tm_id (snd p) = fst p"
  shows "distinct (map tm_id (map snd m))" "by_id (map snd m) i = map_of m i"
proof -
  have ids: "map tm_id (map snd m) = map fst m" using assms(2) by (induction m) auto
  show d: "distinct (map tm_id (map snd m))" unfolding ids by (rule assms(1))
  show "by_id (map snd m) i = map_of m i"
  proof (cases "map_of m i")
    case None
    then have "i \<notin> fst ` set m" by (simp add: map_of_eq_None_iff)
    then have "\<forall>x \<in> set (map snd m). tm_id x \<noteq> i" using assms(2) by force
    then show ?thesis using None by (auto simp: by_id_def find_None_iff)
  next
    case (Some v)
    then have "v \<in> set (map snd m) \<and> tm_id v = i" using assms(2) by (force dest: map_of_SomeD)
    then show ?thesis using Some by_id_iff [OF d] by metis
  qed
qed

lemma index_values:
  fixes m :: "(string \<times> timeline_item) list"
  shows "\<forall>p \<in> set m. tm_id (snd p) = fst p \<Longrightarrow> \<forall>p \<in> set (js_index tm_id (\<lambda>i. i) xs m). tm_id (snd p) = fst p"
proof (induction xs arbitrary: m)
  case (Cons x xs)
  have "set (js_set k v m) \<subseteq> insert (k, v) (set m)" for k v and m :: "(string \<times> timeline_item) list"
    by (induction k v m rule: js_set.induct) auto
  from this [of "tm_id x" x m] have "\<forall>p \<in> set (js_set (tm_id x) x m). tm_id (snd p) = fst p"
    using Cons.prems by auto
  then show ?case using Cons.IH by simp
qed simp

text \<open>
  Merging a page is a union by id in which what is loaded wins: the result is in time order,
  holds every id once, and for every id it holds the loaded item with that id if there is one,
  else the page's; so merging a page again, or the same pages in another order of arrival, changes
  nothing.
\<close>

lemma merge_is_a_union:
  shows "sorted (map timeline_key (merge_older_page existing older)) \<and>
    distinct (map tm_id (merge_older_page existing older)) \<and>
    by_id (merge_older_page existing older) i =
      (case by_id existing i of Some x \<Rightarrow> Some x | None \<Rightarrow> by_id older i)"
proof -
  let ?m = "js_index tm_id (\<lambda>i. i) existing (js_index tm_id (\<lambda>i. i) older [])"
  have d: "distinct (map fst ?m)" by (intro distinct_js_index) simp
  have v: "\<forall>p \<in> set ?m. tm_id (snd p) = fst p" by (intro index_values) simp
  note vals = values_of_index [OF d v]
  have "by_id (merge_older_page existing older) i = by_id (map snd ?m) i"
    by (rule by_id_perm) (use vals(1) in \<open>simp_all add: merge_older_page_def distinct_js_sort\<close>)
  also have "\<dots> = (case by_id existing i of Some x \<Rightarrow> Some x | None \<Rightarrow> by_id older i)"
    unfolding vals(2) by (simp add: map_of_js_index by_id_def split: option.split)
  finally show ?thesis using vals(1)
    by (simp add: merge_older_page_def item_order.sorted_sort distinct_js_sort)
qed

subsection \<open>Browsing to the beginning\<close>

text \<open>What the replica answers over a timeline that does not change.\<close>

definition answer_of :: "(string \<Rightarrow> string) \<Rightarrow> timeline_item list \<Rightarrow> string option \<Rightarrow> timeline_answer" where
  "answer_of loose xs cursor =
     (let p = page_of xs page_size (Option.bind cursor (decode_cursor loose))
      in \<lparr>an_items = pg_items p, an_has_more = pg_has_more p, an_next_cursor = pg_next_cursor p\<rparr>)"

text \<open>One round: \<open>loadOlder\<close>, and its answer when it asked.\<close>

definition older_round :: "(string \<Rightarrow> string) \<Rightarrow> string \<Rightarrow> timeline_item list \<Rightarrow> pager \<Rightarrow> pager" where
  "older_round loose key xs p =
     (case load_older p of
        (None, p1) \<Rightarrow> p1
      | (Some cursor, p1) \<Rightarrow> pager_older key (answer_of loose xs (Some cursor)) p1)"

definition browse :: "(string \<Rightarrow> string) \<Rightarrow> string \<Rightarrow> timeline_item list \<Rightarrow> timeline_item cache \<Rightarrow> nat \<Rightarrow> pager" where
  "browse loose key xs c n =
     (older_round loose key xs ^^ n) (fst (pager_first True key (answer_of loose xs None) (pager_start c key, c)))"

definition shows_from :: "string \<Rightarrow> timeline_item list \<Rightarrow> nat \<Rightarrow> pager \<Rightarrow> bool" where
  "shows_from key xs m p \<longleftrightarrow>
     pa_items p = drop m xs \<and> (pa_has_more p \<longleftrightarrow> 0 < m) \<and> pa_cursor p = page_cursor xs m \<and>
     \<not> pa_busy p \<and> pa_active p = Some key \<and> \<not> pa_loading p"

definition cursor_safe :: "timeline_item \<Rightarrow> bool" where
  "cursor_safe i \<longleftrightarrow> tm_at i \<noteq> [] \<and> CHR ''|'' \<notin> set (tm_at i) \<and> tm_id i \<noteq> []"

lemma encode_cursor_nonempty: "encode_cursor at i \<noteq> []"
proof -
  have "1 \<le> length (utf8 (at @ ''|'' @ i))" using length_utf8 [of "at @ ''|'' @ i"] by simp
  then have "1 \<le> length (base64url (utf8 (at @ ''|'' @ i)))" unfolding length_base64url by linarith
  then show ?thesis by (auto simp: encode_cursor_def)
qed

lemma merge_next_page:
  assumes "sorted (map timeline_key xs)" "distinct (map tm_id xs)" "k \<le> m"
  shows "merge_older_page (drop m xs) (drop k (take m xs)) = drop k xs"
proof -
  have split: "drop k (take m xs) @ drop m xs = drop k xs"
    using assms(3) by (metis append_take_drop_id drop_append drop_drop drop_take le_add_diff_inverse2 take_drop)
  have d: "distinct (map tm_id (drop k (take m xs) @ drop m xs))" unfolding split using assms(2) by (simp add: drop_map [symmetric] distinct_drop)
  have "js_index tm_id (\<lambda>i. i) (drop m xs) (js_index tm_id (\<lambda>i. i) (drop k (take m xs)) []) =
      map (\<lambda>x. (tm_id x, x)) (drop k (take m xs) @ drop m xs)"
  proof -
    have inner: "js_index tm_id (\<lambda>i. i) (drop k (take m xs)) [] = map (\<lambda>x. (tm_id x, x)) (drop k (take m xs))"
      using d js_index_fresh [of tm_id "drop k (take m xs)" "[]"] by simp
    have "tm_id ` set (drop m xs) \<inter> fst ` set (map (\<lambda>x. (tm_id x, x)) (drop k (take m xs))) = {}"
      using d by (simp only: map_append distinct_append set_map image_image fst_conv) blast
    from js_index_fresh [OF _ this] show ?thesis using d unfolding inner by simp
  qed
  then have "merge_older_page (drop m xs) (drop k (take m xs)) = js_sort compare_items (drop k xs)"
    by (simp add: merge_older_page_def split comp_def)
  also have "\<dots> = drop k xs"
  proof (rule item_order.sort_already)
    show "sorted (map timeline_key (drop k xs))" using assms(1) by (simp add: drop_map [symmetric] sorted_wrt_drop)
    have "distinct (map tm_id (drop k xs))" using assms(2) by (simp add: drop_map [symmetric] distinct_drop)
    then show "distinct (map timeline_key (drop k xs))"
      by (auto simp: distinct_map inj_on_def timeline_key_def)
  qed
  finally show ?thesis .
qed

lemma older_round_step:
  assumes "sorted (map timeline_key xs)" "distinct (map tm_id xs)" "list_all cursor_safe xs" "m < length xs \<or> m = 0"
    and "shows_from key xs m p"
  shows "shows_from key xs (m - page_size) (older_round loose key xs p)"
proof (cases "m = 0")
  case True
  then show ?thesis using assms(5) by (simp add: shows_from_def older_round_def load_older_def)
next
  case False
  then have m: "0 < m" "m < length xs" using assms(4) by simp_all
  have dk: "distinct (map timeline_key xs)" using assms(2) by (auto simp: distinct_map inj_on_def timeline_key_def)
  have safe: "cursor_safe (xs ! m)" using assms(3) m by (simp add: list_all_length)
  define cursor where "cursor = encode_cursor (tm_at (xs ! m)) (tm_id (xs ! m))"
  have cur: "pa_cursor p = Some cursor" "cursor \<noteq> []"
    using assms(5) m encode_cursor_nonempty by (simp_all add: shows_from_def page_cursor_def cursor_def)
  have asks: "load_older p = (Some cursor, p\<lparr>pa_busy := True, pa_loading_older := True\<rparr>)"
  proof -
    have "pa_has_more p" "\<not> pa_busy p" using assms(5) m by (simp_all add: shows_from_def)
    then show ?thesis using cur by (simp add: load_older_def truthy_def)
  qed
  have dec: "decode_cursor loose cursor = Some (tm_at (xs ! m), tm_id (xs ! m))"
    using safe unfolding cursor_def cursor_safe_def by (intro decode_encode_cursor) auto
  have page: "answer_of loose xs (Some cursor) =
      \<lparr>an_items = drop (m - page_size) (take m xs), an_has_more = page_size < m, an_next_cursor = page_cursor xs (m - page_size)\<rparr>"
    using page_before_nth [OF assms(1) dk m(2), of page_size] by (simp add: answer_of_def dec page_size_def)
  have "merge_older_page (pa_items p) (drop (m - page_size) (take m xs)) = drop (m - page_size) xs"
    using merge_next_page [OF assms(1,2), of "m - page_size" m] assms(5) by (simp add: shows_from_def)
  then show ?thesis
    using assms(5) by (simp add: older_round_def asks page pager_older_def shows_from_def)
qed

lemma browse_shows:
  assumes "sorted (map timeline_key xs)" "distinct (map tm_id xs)" "list_all cursor_safe xs"
  shows "shows_from key xs (length xs - Suc n * page_size) (browse loose key xs c n)"
proof (induction n)
  case 0
  have "0 < page_size" by (simp add: page_size_def)
  then show ?case
    using first_page [of page_size xs]
    by (auto simp: browse_def pager_start_def pager_first_def answer_of_def shows_from_def)
next
  case (Suc n)
  have b: "length xs - Suc n * page_size < length xs \<or> length xs - Suc n * page_size = 0"
    by (auto simp: page_size_def)
  have "browse loose key xs c (Suc n) = older_round loose key xs (browse loose key xs c n)"
    by (simp add: browse_def)
  moreover have "length xs - Suc (Suc n) * page_size = length xs - Suc n * page_size - page_size" by simp
  ultimately show ?case using older_round_step [OF assms b Suc.IH] by simp
qed

text \<open>
  C26. Scrolling back reaches the beginning and loses nothing: over a timeline that stands still,
  after the first page and n rounds of loading older items exactly the newest
  (n + 1) * 50 items are on screen, in order and each once; whether more is offered is whether
  more is there; so length xs div 50 rounds show everything, and no further request is made.
\<close>

theorem scrolling_back_shows_everything:
  assumes "sorted (map timeline_key xs)" "distinct (map tm_id xs)" "list_all cursor_safe xs"
  shows "pa_items (browse loose key xs c n) = drop (length xs - Suc n * page_size) xs \<and>
    (pa_has_more (browse loose key xs c n) \<longleftrightarrow> Suc n * page_size < length xs) \<and>
    (length xs div page_size \<le> n \<longrightarrow> pa_items (browse loose key xs c n) = xs \<and>
       fst (load_older (browse loose key xs c n)) = None)"
proof -
  have s: "shows_from key xs (length xs - Suc n * page_size) (browse loose key xs c n)"
    by (rule browse_shows [OF assms])
  have "length xs - Suc n * page_size = 0" if "length xs div page_size \<le> n"
  proof -
    have "length xs < Suc (length xs div page_size) * page_size"
      using dividend_less_div_times [of page_size "length xs"] by (simp add: page_size_def)
    also have "\<dots> \<le> Suc n * page_size" using that by (intro mult_le_mono1) simp
    finally show ?thesis by simp
  qed
  then show ?thesis using s by (auto simp: shows_from_def load_older_def)
qed

text \<open>A timeline of 120 items needs three pages.\<close>

definition sample_timeline :: "timeline_item list" where
  "sample_timeline = map (\<lambda>n. \<lparr>tm_id = replicate n (CHR ''m'') @ ''_'', tm_at = ''2026-01-01'', tm_kind = ''progress'', tm_text = [],
     tm_salience = 5, tm_member = ''a@x'', tm_writer = None, tm_source = None, tm_tags = []\<rparr>) [0..<120]"

lemma sample_ids: "i < j \<Longrightarrow> replicate i (CHR ''m'') @ ''_'' < replicate j (CHR ''m'') @ ''_''"
proof -
  assume "i < j"
  then obtain k where "j = i + Suc k" using less_imp_Suc_add by auto
  then have "replicate j (CHR ''m'') = replicate i (CHR ''m'') @ replicate (Suc k) (CHR ''m'')"
    by (simp only: replicate_add)
  moreover have "p @ ''_'' < p @ replicate (Suc k) (CHR ''m'') @ ''_''" for p
    by (induction p) simp_all
  ultimately show ?thesis by (simp only: append_assoc)
qed

theorem scrolling_back_shows_everything_witness:
  "pa_items (browse (\<lambda>s. s) ''tl'' sample_timeline \<lparr>ca_memory = [], ca_session = []\<rparr> 2) = sample_timeline"
proof -
  have s: "sorted_wrt (<) (map timeline_key sample_timeline)"
    by (auto simp: sorted_wrt_iff_nth_less sample_timeline_def timeline_key_def less_prod_def intro: sample_ids)
  have "distinct (map timeline_key sample_timeline)" using s strict_sorted_iff by blast
  then have d: "distinct (map tm_id sample_timeline)"
    by (auto simp: sample_timeline_def distinct_map inj_on_def timeline_key_def)
  have "list_all cursor_safe sample_timeline"
    by (simp add: sample_timeline_def list_all_iff cursor_safe_def)
  moreover have "length sample_timeline div page_size \<le> 2" by (simp add: sample_timeline_def page_size_def)
  ultimately show ?thesis
    using scrolling_back_shows_everything [OF _ d, of "\<lambda>s. s" "''tl''"] s strict_sorted_imp_sorted by blast
qed

subsection \<open>A late page\<close>

text \<open>
  Answers carry the workspace they were asked for, not the visit. A user who has loaded the second
  of three pages asks for the third, leaves the workspace and returns: the page asked for in the
  first visit arrives after the first page of the second visit and is merged under it, with the
  cursor below it. The second page is missing and will not be asked for.
\<close>

definition one_item :: "string \<Rightarrow> timeline_item" where
  "one_item at = \<lparr>tm_id = ''m'' @ at, tm_at = at, tm_kind = ''progress'', tm_text = [], tm_salience = 5, tm_member = ''a'',
     tm_writer = None, tm_source = None, tm_tags = []\<rparr>"

definition one_page :: "string \<Rightarrow> string option \<Rightarrow> timeline_answer" where
  "one_page at cursor = \<lparr>an_items = [one_item at], an_has_more = (cursor \<noteq> None), an_next_cursor = cursor\<rparr>"

definition empty_cache :: "timeline_item cache" where
  "empty_cache = \<lparr>ca_memory = [], ca_session = []\<rparr>"

definition first_visit :: pager where
  "first_visit = pager_older ''a'' (one_page ''2'' (Some ''c2''))
     (snd (load_older (fst (pager_first True ''a'' (one_page ''3'' (Some ''c3'')) (pager_start empty_cache ''a'', empty_cache)))))"

definition second_visit :: pager where
  "second_visit = pager_older ''a'' (one_page ''1'' None)
     (fst (pager_first True ''a'' (one_page ''3'' (Some ''c3'')) (pager_start empty_cache ''a'', empty_cache)))"

lemma late_page_leaves_gap:
  "pa_items first_visit = [one_item ''2'', one_item ''3''] \<and> fst (load_older first_visit) = Some ''c2'' \<and>
   pa_items second_visit = [one_item ''1'', one_item ''3''] \<and> \<not> pa_has_more second_visit"
  by code_simp

end
