(* ===== verification/Web_Tasks.thy ===== *)
theory Web_Tasks
  imports Web_Timeline
begin

text \<open>
  \<open>packages/web/src/lib/tasks-timeline.ts\<close> over the fields of \<open>TaskEntry\<close> (\<open>domain.ts\<close>) that it
  reads: the bars of the task view, its time axis and the order of its rows. A time is \<open>None\<close>
  when \<open>Date.parse\<close> answers \<open>NaN\<close>. The depth-first search runs on fuel and answers \<open>None\<close> when it
  runs out; one more than the number of tasks is always enough.
\<close>

datatype task_status = Todo | In_progress | Handoff_ready | Blocked | Done | Cancelled

record task_entry =
  te_id :: string
  te_at :: string
  te_created :: string
  te_started :: "string option"
  te_depends :: "string list option"
  te_status :: task_status

subsection \<open>Bars\<close>

definition terminal :: "task_status \<Rightarrow> bool" where
  "terminal s \<longleftrightarrow> s = Done \<or> s = Cancelled"

definition end_of :: "(string \<Rightarrow> int option) \<Rightarrow> task_entry \<Rightarrow> int \<Rightarrow> int option" where
  "end_of parse t now_ms = (if terminal (te_status t) then parse (te_at t) else Some now_ms)"

record segments =
  sg_wait_start :: "int option"
  sg_wait_end :: "int option"
  sg_work :: "(int option \<times> int option) option"
  sg_milestone :: bool
  sg_arrow_anchor :: "int option"

definition compute_segments :: "(string \<Rightarrow> int option) \<Rightarrow> task_entry \<Rightarrow> int \<Rightarrow> segments" where
  "compute_segments parse t now_ms =
     (let created = parse (te_created t);
          started = (if truthy (te_started t) then Some (parse (the (te_started t))) else None);
          finish = end_of parse t now_ms
      in \<lparr>sg_wait_start = created,
          sg_wait_end = (case started of Some s \<Rightarrow> s | None \<Rightarrow> finish),
          sg_work = map_option (\<lambda>s. (s, finish)) started,
          sg_milestone = (started = None \<and> terminal (te_status t)),
          sg_arrow_anchor = (case started of Some s \<Rightarrow> s | None \<Rightarrow> created)\<rparr>)"

subsection \<open>The time axis\<close>

datatype js_number = NaN | Neg_infinity | Finite int | Pos_infinity

definition js_time :: "int option \<Rightarrow> js_number" where
  "js_time t = (case t of Some n \<Rightarrow> Finite n | None \<Rightarrow> NaN)"

fun js_le :: "js_number \<Rightarrow> js_number \<Rightarrow> bool" where
  "js_le NaN b = False"
| "js_le a NaN = False"
| "js_le Neg_infinity b = True"
| "js_le a Pos_infinity = True"
| "js_le (Finite a) (Finite b) = (a \<le> b)"
| "js_le a b = False"

definition js_min :: "js_number \<Rightarrow> js_number \<Rightarrow> js_number" where
  "js_min a b = (if a = NaN \<or> b = NaN then NaN else if js_le a b then a else b)"

definition js_max :: "js_number \<Rightarrow> js_number \<Rightarrow> js_number" where
  "js_max a b = (if a = NaN \<or> b = NaN then NaN else if js_le a b then b else a)"

definition axis_step :: "(string \<Rightarrow> int option) \<Rightarrow> int \<Rightarrow> task_entry \<Rightarrow> js_number \<times> js_number \<Rightarrow> js_number \<times> js_number" where
  "axis_step parse now_ms t lh =
     (js_min (fst lh) (js_time (parse (te_created t))), js_max (snd lh) (js_time (end_of parse t now_ms)))"

definition time_domain :: "(string \<Rightarrow> int option) \<Rightarrow> task_entry list \<Rightarrow> int \<Rightarrow> int \<times> int" where
  "time_domain parse tasks now_ms =
     (case foldl (\<lambda>lh t. axis_step parse now_ms t lh) (Pos_infinity, Neg_infinity) tasks of
        (Finite lo, Finite hi) \<Rightarrow> if hi \<le> lo then (lo, lo + 60000) else (lo, hi)
      | _ \<Rightarrow> (now_ms, now_ms + 1))"

subsection \<open>The order of the rows\<close>

definition by_creation :: "task_entry \<Rightarrow> task_entry \<Rightarrow> int" where
  "by_creation a b =
     (if te_created a \<noteq> te_created b then (if te_created a < te_created b then -1 else 1)
      else if te_id a < te_id b then -1 else 1)"

record topo =
  tp_out :: "task_entry list"
  tp_done :: "string set"
  tp_stack :: "string set"

definition finish :: "task_entry \<Rightarrow> topo \<Rightarrow> topo" where
  "finish t s = s\<lparr>tp_stack := tp_stack s - {te_id t}, tp_done := insert (te_id t) (tp_done s), tp_out := tp_out s @ [t]\<rparr>"

fun visit :: "(string \<Rightarrow> task_entry option) \<Rightarrow> nat \<Rightarrow> task_entry \<Rightarrow> topo \<Rightarrow> topo option"
and visit_deps :: "(string \<Rightarrow> task_entry option) \<Rightarrow> nat \<Rightarrow> string list \<Rightarrow> topo \<Rightarrow> topo option" where
  "visit look 0 t s = None"
| "visit look (Suc n) t s =
     (if te_id t \<in> tp_done s \<or> te_id t \<in> tp_stack s then Some s
      else map_option (finish t) (visit_deps look n (or_none (te_depends t)) (s\<lparr>tp_stack := insert (te_id t) (tp_stack s)\<rparr>)))"
| "visit_deps look n [] s = Some s"
| "visit_deps look n (d # ds) s =
     (case look d of
        None \<Rightarrow> visit_deps look n ds s
      | Some t \<Rightarrow> (case visit look n t s of None \<Rightarrow> None | Some s1 \<Rightarrow> visit_deps look n ds s1))"

fun visit_all :: "(string \<Rightarrow> task_entry option) \<Rightarrow> nat \<Rightarrow> task_entry list \<Rightarrow> topo \<Rightarrow> topo option" where
  "visit_all look n [] s = Some s"
| "visit_all look n (t # ts) s = (case visit look n t s of None \<Rightarrow> None | Some s1 \<Rightarrow> visit_all look n ts s1)"

definition topo_order :: "task_entry list \<Rightarrow> task_entry list option" where
  "topo_order tasks =
     map_option tp_out
       (visit_all (map_of (js_index te_id (\<lambda>t. t) tasks [])) (Suc (length tasks)) (js_sort by_creation tasks)
         \<lparr>tp_out = [], tp_done = {}, tp_stack = {}\<rparr>)"

interpretation creation_order: keyed_comparator by_creation "\<lambda>t. (te_created t, te_id t)"
  by unfold_locales (auto simp: by_creation_def less_prod_def split: if_splits)

subsection \<open>The axis holds every bar\<close>

lemma axis_fold:
  assumes "\<And>t. t \<in> set tasks \<Longrightarrow> parse (te_created t) \<noteq> None \<and> end_of parse t now_ms \<noteq> None"
  shows "foldl (\<lambda>lh t. axis_step parse now_ms t lh) (Finite lo, Finite hi) tasks =
    (Finite (foldl min lo (map (\<lambda>t. the (parse (te_created t))) tasks)),
     Finite (foldl max hi (map (\<lambda>t. the (end_of parse t now_ms)) tasks)))"
  using assms
proof (induction tasks arbitrary: lo hi)
  case (Cons t tasks)
  have "axis_step parse now_ms t (Finite lo, Finite hi) =
      (Finite (min lo (the (parse (te_created t)))), Finite (max hi (the (end_of parse t now_ms))))"
    using Cons.prems [of t] by (auto simp: axis_step_def js_time_def js_min_def js_max_def)
  then show ?case using Cons by simp
qed simp

lemma foldl_min_le: "foldl min (a :: 'a::linorder) xs \<le> a \<and> (\<forall>x \<in> set xs. foldl min a xs \<le> x)"
proof (induction xs arbitrary: a)
  case (Cons x xs)
  show ?case using Cons.IH [of "min a x"] by simp
qed simp

lemma foldl_max_ge: "(a :: 'a::linorder) \<le> foldl max a xs \<and> (\<forall>x \<in> set xs. x \<le> foldl max a xs)"
proof (induction xs arbitrary: a)
  case (Cons x xs)
  show ?case using Cons.IH [of "max a x"] by simp
qed simp

lemma time_domain_wide: "fst (time_domain parse tasks now_ms) < snd (time_domain parse tasks now_ms)"
  by (simp add: time_domain_def split: prod.split js_number.split)

lemma bars_fit:
  assumes "\<And>t. t \<in> set tasks \<Longrightarrow> parse (te_created t) \<noteq> None \<and> end_of parse t now_ms \<noteq> None" "t \<in> set tasks"
  shows "fst (time_domain parse tasks now_ms) \<le> the (parse (te_created t)) \<and>
    the (end_of parse t now_ms) \<le> snd (time_domain parse tasks now_ms)"
proof -
  obtain u us where tasks: "tasks = u # us" using assms(2) by (cases tasks) auto
  let ?lo = "foldl min (the (parse (te_created u))) (map (\<lambda>t. the (parse (te_created t))) us)"
  let ?hi = "foldl max (the (end_of parse u now_ms)) (map (\<lambda>t. the (end_of parse t now_ms)) us)"
  have "axis_step parse now_ms u (Pos_infinity, Neg_infinity) =
      (Finite (the (parse (te_created u))), Finite (the (end_of parse u now_ms)))"
    using assms(1) [of u] by (auto simp: tasks axis_step_def js_time_def js_min_def js_max_def)
  then have "time_domain parse tasks now_ms = (if ?hi \<le> ?lo then (?lo, ?lo + 60000) else (?lo, ?hi))"
    using axis_fold [of us parse now_ms] assms(1) by (simp add: time_domain_def tasks)
  moreover have "?lo \<le> the (parse (te_created t))" "the (end_of parse t now_ms) \<le> ?hi"
    using assms(2) foldl_min_le [of "the (parse (te_created u))"] foldl_max_ge [of "the (end_of parse u now_ms)"]
    by (auto simp: tasks)
  ultimately show ?thesis by auto
qed

subsection \<open>The search\<close>

definition topo_ok :: "task_entry set \<Rightarrow> topo \<Rightarrow> bool" where
  "topo_ok T s \<longleftrightarrow> tp_done s = te_id ` set (tp_out s) \<and> distinct (map te_id (tp_out s)) \<and>
     tp_done s \<inter> tp_stack s = {} \<and> set (tp_out s) \<subseteq> T \<and> tp_stack s \<subseteq> te_id ` T"

definition reached :: "task_entry set \<Rightarrow> topo \<Rightarrow> string set \<Rightarrow> topo option \<Rightarrow> bool" where
  "reached T s ids r \<longleftrightarrow> (\<exists>s'. r = Some s' \<and> topo_ok T s' \<and> tp_stack s' = tp_stack s \<and>
     tp_done s \<subseteq> tp_done s' \<and> ids \<subseteq> tp_done s' \<union> tp_stack s)"

lemma reachedE:
  assumes "reached T s ids r"
  obtains s' where "r = Some s'" "topo_ok T s'" "tp_stack s' = tp_stack s" "tp_done s \<subseteq> tp_done s'"
    "ids \<subseteq> tp_done s' \<union> tp_stack s"
  using assms unfolding reached_def by blast

lemma topo_ok_finish:
  assumes "topo_ok T s" "t \<in> T" "te_id t \<notin> tp_done s"
  shows "topo_ok T (finish t s)"
  using assms by (auto simp: topo_ok_def finish_def)

lemma topo_ok_push:
  "topo_ok T s \<Longrightarrow> t \<in> T \<Longrightarrow> te_id t \<notin> tp_done s \<Longrightarrow> topo_ok T (s\<lparr>tp_stack := insert (te_id t) (tp_stack s)\<rparr>)"
  by (auto simp: topo_ok_def)

lemma room_after_push:
  assumes "finite T" "t \<in> T" "te_id t \<notin> S" "card (te_id ` T - S) < Suc n"
  shows "card (te_id ` T - insert (te_id t) S) < n"
proof -
  have "te_id ` T - insert (te_id t) S \<subset> te_id ` T - S" using assms(2,3) by blast
  then have "card (te_id ` T - insert (te_id t) S) < card (te_id ` T - S)"
    using assms(1) by (intro psubset_card_mono) auto
  then show ?thesis using assms(4) by simp
qed


definition consistent :: "task_entry set \<Rightarrow> (string \<Rightarrow> task_entry option) \<Rightarrow> bool" where
  "consistent T look \<longleftrightarrow> (\<forall>i t. look i = Some t \<longrightarrow> te_id t = i \<and> t \<in> T)"

lemma consistentD: "consistent T look \<Longrightarrow> look i = Some t \<Longrightarrow> te_id t = i \<and> t \<in> T"
  by (simp add: consistent_def)

lemma visit_reaches:
  shows "consistent T look \<Longrightarrow> finite T \<Longrightarrow> topo_ok T s \<Longrightarrow> t \<in> T \<Longrightarrow> card (te_id ` T - tp_stack s) < n \<Longrightarrow>
      reached T s {te_id t} (visit look n t s)"
    and "consistent T look \<Longrightarrow> finite T \<Longrightarrow> topo_ok T s \<Longrightarrow> card (te_id ` T - tp_stack s) < n \<Longrightarrow>
      reached T s {d \<in> set ds. look d \<noteq> None} (visit_deps look n ds s)"
proof (induction look n t s and look n ds s rule: visit_visit_deps.induct)
  case (2 look n t s)
  show ?case
  proof (cases "te_id t \<in> tp_done s \<or> te_id t \<in> tp_stack s")
    case True
    then show ?thesis using 2(4) by (auto simp: reached_def)
  next
    case False
    let ?s = "s\<lparr>tp_stack := insert (te_id t) (tp_stack s)\<rparr>"
    have ok: "topo_ok T ?s" using topo_ok_push 2(4,5) False by blast
    have room: "card (te_id ` T - tp_stack ?s) < n"
      using room_after_push [OF 2(3,5) _ 2(6)] False by simp
    obtain s' where s': "visit_deps look n (or_none (te_depends t)) ?s = Some s'" "topo_ok T s'"
      "tp_stack s' = tp_stack ?s" "tp_done ?s \<subseteq> tp_done s'"
      by (rule reachedE [OF 2(1) [OF False 2(2,3) ok room]])
    have "te_id t \<notin> tp_done s'" using s'(2,3) by (auto simp: topo_ok_def)
    then have "topo_ok T (finish t s')" by (rule topo_ok_finish [OF s'(2) 2(5)])
    moreover have "tp_stack (finish t s') = tp_stack s" using s'(3) False by (auto simp: finish_def)
    moreover have "tp_done s \<subseteq> tp_done (finish t s')" "te_id t \<in> tp_done (finish t s')"
      using s'(4) by (auto simp: finish_def)
    ultimately show ?thesis using False s'(1) by (simp add: reached_def)
  qed
next
  case (4 look n d ds s)
  show ?case
  proof (cases "look d")
    case None
    have "{x \<in> set (d # ds). look x \<noteq> None} = {x \<in> set ds. look x \<noteq> None}" using None by auto
    then show ?thesis using 4(1) [OF None 4(4-7)] None by (simp only: visit_deps.simps option.case)
  next
    case (Some t)
    have t: "te_id t = d" "t \<in> T" using consistentD [OF 4(4) Some] by simp_all
    obtain s1 where s1: "visit look n t s = Some s1" "topo_ok T s1" "tp_stack s1 = tp_stack s"
      "tp_done s \<subseteq> tp_done s1" "{te_id t} \<subseteq> tp_done s1 \<union> tp_stack s"
      by (rule reachedE [OF 4(2) [OF Some 4(4-6) t(2) 4(7)]])
    have "card (te_id ` T - tp_stack s1) < n" using 4(7) by (simp add: s1(3))
    then obtain s2 where s2: "visit_deps look n ds s1 = Some s2" "topo_ok T s2" "tp_stack s2 = tp_stack s1"
      "tp_done s1 \<subseteq> tp_done s2" "{d \<in> set ds. look d \<noteq> None} \<subseteq> tp_done s2 \<union> tp_stack s1"
      by (rule reachedE [OF 4(3) [OF Some s1(1) 4(4,5) s1(2)]])
    have "{x \<in> set (d # ds). look x \<noteq> None} \<subseteq> tp_done s2 \<union> tp_stack s"
      using s1(3,4,5) s2(4,5) t by auto
    then show ?thesis using s1(1,3,4) s2 Some by (auto simp: reached_def)
  qed
qed (auto simp: reached_def)

subsection \<open>Dependencies come first\<close>

definition deps_first :: "(string \<Rightarrow> task_entry option) \<Rightarrow> task_entry list \<Rightarrow> bool" where
  "deps_first look out \<longleftrightarrow>
     (\<forall>i < length out. \<forall>d \<in> set (or_none (te_depends (out ! i))). look d \<noteq> None \<longrightarrow> d \<in> te_id ` set (take i out))"

lemma deps_first_snoc:
  "deps_first look out \<Longrightarrow> {d \<in> set (or_none (te_depends t)). look d \<noteq> None} \<subseteq> te_id ` set out \<Longrightarrow>
   deps_first look (out @ [t])"
  unfolding deps_first_def by (auto simp: less_Suc_eq nth_append subset_iff)

definition depends_rel :: "task_entry set \<Rightarrow> (string \<times> string) set" where
  "depends_rel T = {(d, te_id t) | d t. t \<in> T \<and> d \<in> set (or_none (te_depends t))}"

text \<open>Everything on the stack waits for the task about to be visited.\<close>

definition awaited :: "task_entry set \<Rightarrow> topo \<Rightarrow> string \<Rightarrow> bool" where
  "awaited T s i \<longleftrightarrow> (\<forall>k \<in> tp_stack s. (i, k) \<in> (depends_rel T)\<^sup>+)"

lemma awaited_fresh: "acyclic (depends_rel T) \<Longrightarrow> awaited T s i \<Longrightarrow> i \<notin> tp_stack s"
  by (auto simp: awaited_def acyclic_def)

lemma awaited_dep:
  assumes "awaited T s (te_id t)" "t \<in> T" "d \<in> set (or_none (te_depends t))"
  shows "awaited T (s\<lparr>tp_stack := insert (te_id t) (tp_stack s)\<rparr>) d"
proof -
  have r: "(d, te_id t) \<in> (depends_rel T)\<^sup>+" using assms(2,3) by (auto simp: depends_rel_def)
  then show ?thesis using assms(1) by (auto simp: awaited_def intro: trancl_trans)
qed

lemma visit_orders:
  shows "consistent T look \<Longrightarrow> finite T \<Longrightarrow> acyclic (depends_rel T) \<Longrightarrow> topo_ok T s \<Longrightarrow> t \<in> T \<Longrightarrow>
      card (te_id ` T - tp_stack s) < n \<Longrightarrow> awaited T s (te_id t) \<Longrightarrow> deps_first look (tp_out s) \<Longrightarrow>
      visit look n t s = Some s' \<Longrightarrow> deps_first look (tp_out s')"
    and "consistent T look \<Longrightarrow> finite T \<Longrightarrow> acyclic (depends_rel T) \<Longrightarrow> topo_ok T s \<Longrightarrow>
      card (te_id ` T - tp_stack s) < n \<Longrightarrow> \<forall>d \<in> set ds. awaited T s d \<Longrightarrow> deps_first look (tp_out s) \<Longrightarrow>
      visit_deps look n ds s = Some s' \<Longrightarrow> deps_first look (tp_out s')"
proof (induction look n t s and look n ds s arbitrary: s' and s' rule: visit_visit_deps.induct)
  case (2 look n t s)
  show ?case
  proof (cases "te_id t \<in> tp_done s \<or> te_id t \<in> tp_stack s")
    case True
    then show ?thesis using 2(9,10) by simp
  next
    case False
    let ?s = "s\<lparr>tp_stack := insert (te_id t) (tp_stack s)\<rparr>" and ?ds = "or_none (te_depends t)"
    have ok: "topo_ok T ?s" using topo_ok_push 2(5,6) False by blast
    have room: "card (te_id ` T - tp_stack ?s) < n"
      using room_after_push [OF 2(3,6) _ 2(7)] False by simp
    have wait: "\<forall>d \<in> set ?ds. awaited T ?s d" using awaited_dep [OF 2(8,6)] by blast
    obtain s1 where s1: "visit_deps look n ?ds ?s = Some s1" "topo_ok T s1"
      "{d \<in> set ?ds. look d \<noteq> None} \<subseteq> tp_done s1 \<union> tp_stack ?s"
      by (rule reachedE [OF visit_reaches(2) [OF 2(2,3) ok room]])
    have "deps_first look (tp_out s1)"
      using 2(1) [OF False 2(2-4) ok room wait _ s1(1)] 2(9) by simp
    moreover have "{d \<in> set ?ds. look d \<noteq> None} \<subseteq> te_id ` set (tp_out s1)"
      using s1(2,3) wait awaited_fresh [OF 2(4)] unfolding topo_ok_def by blast
    ultimately have "deps_first look (tp_out s1 @ [t])" by (rule deps_first_snoc)
    then show ?thesis using 2(10) False s1(1) by (auto simp: finish_def)
  qed
next
  case (4 look n d ds s)
  show ?case
  proof (cases "look d")
    case None
    then show ?thesis using 4(1) [OF None 4(4-8)] 4(9-) by simp
  next
    case (Some t)
    have t: "te_id t = d" "t \<in> T" using consistentD [OF 4(4) Some] by simp_all
    obtain s1 where s1: "visit look n t s = Some s1" "topo_ok T s1" "tp_stack s1 = tp_stack s"
      by (rule reachedE [OF visit_reaches(1) [OF 4(4,5,7) t(2) 4(8)]])
    have "deps_first look (tp_out s1)"
      using 4(2) [OF Some 4(4-7) _ 4(8) _ 4(10) s1(1)] 4(9) t by simp
    moreover have "\<forall>d \<in> set ds. awaited T s1 d" using 4(9) by (simp add: awaited_def s1(3))
    moreover have "visit_deps look n ds s1 = Some s'" using 4(11) Some s1(1) by simp
    ultimately show ?thesis using 4(3) [OF Some s1(1) 4(4-6) s1(2)] 4(8) by (simp add: s1(3))
  qed
qed auto

subsection \<open>All rows\<close>

lemma visit_all_reaches:
  assumes "consistent T look" "finite T" "card (te_id ` T) < n"
  shows "topo_ok T s \<Longrightarrow> tp_stack s = {} \<Longrightarrow> set ts \<subseteq> T \<Longrightarrow>
    \<exists>s'. visit_all look n ts s = Some s' \<and> topo_ok T s' \<and> tp_done s \<union> te_id ` set ts \<subseteq> tp_done s' \<and>
      (acyclic (depends_rel T) \<longrightarrow> deps_first look (tp_out s) \<longrightarrow> deps_first look (tp_out s'))"
proof (induction ts arbitrary: s)
  case (Cons t ts)
  have t: "t \<in> T" and room: "card (te_id ` T - tp_stack s) < n" using Cons.prems assms(3) by simp_all
  obtain s1 where s1: "visit look n t s = Some s1" "topo_ok T s1" "tp_stack s1 = tp_stack s"
    "tp_done s \<subseteq> tp_done s1" "{te_id t} \<subseteq> tp_done s1 \<union> tp_stack s"
    by (rule reachedE [OF visit_reaches(1) [OF assms(1,2) Cons.prems(1) t room]])
  have o: "acyclic (depends_rel T) \<Longrightarrow> deps_first look (tp_out s) \<Longrightarrow> deps_first look (tp_out s1)"
    using visit_orders(1) [OF assms(1,2) _ Cons.prems(1) t room _ _ s1(1)] Cons.prems(2) by (simp add: awaited_def)
  obtain s2 where s2: "visit_all look n ts s1 = Some s2" "topo_ok T s2" "tp_done s1 \<union> te_id ` set ts \<subseteq> tp_done s2"
    "acyclic (depends_rel T) \<Longrightarrow> deps_first look (tp_out s1) \<Longrightarrow> deps_first look (tp_out s2)"
    using Cons.IH [OF s1(2)] s1(3) Cons.prems(2,3) by auto
  have "tp_done s \<union> te_id ` set (t # ts) \<subseteq> tp_done s2" using s1(4,5) s2(3) Cons.prems(2) by auto
  then show ?case using s1(1) s2 o by simp
qed simp

definition by_id_of :: "task_entry list \<Rightarrow> string \<Rightarrow> task_entry option" where
  "by_id_of tasks i = find (\<lambda>t. te_id t = i) (rev tasks)"

lemma look_finds: "map_of (js_index te_id (\<lambda>t. t) tasks []) i = by_id_of tasks i" for tasks :: "task_entry list"
  by (simp add: map_of_js_index by_id_of_def split: option.split)

lemma topo_rows:
  shows "\<exists>out. topo_order tasks = Some out \<and> distinct (map te_id out) \<and> te_id ` set out = te_id ` set tasks \<and>
    (distinct (map te_id tasks) \<longrightarrow> mset out = mset tasks) \<and>
    (acyclic (depends_rel (set tasks)) \<longrightarrow>
      (\<forall>i < length out. \<forall>d \<in> set (or_none (te_depends (out ! i))). d \<in> te_id ` set tasks \<longrightarrow> d \<in> te_id ` set (take i out)))"
proof -
  let ?look = "map_of (js_index te_id (\<lambda>t. t) tasks [])" and ?s = "\<lparr>tp_out = [], tp_done = {}, tp_stack = {}\<rparr>"
  have c: "consistent (set tasks) ?look"
    unfolding consistent_def look_finds by (auto simp: by_id_of_def dest: find_SomeD)
  have some: "?look d \<noteq> None \<longleftrightarrow> d \<in> te_id ` set tasks" for d
    unfolding look_finds by (auto simp: by_id_of_def find_None_iff)
  have "card (te_id ` set tasks) < Suc (length tasks)"
    using card_image_le [of "set tasks" te_id] card_length [of tasks] by simp
  from visit_all_reaches [OF c _ this, of ?s "js_sort by_creation tasks"]
  obtain s' where s': "visit_all ?look (Suc (length tasks)) (js_sort by_creation tasks) ?s = Some s'" "topo_ok (set tasks) s'"
    "te_id ` set tasks \<subseteq> tp_done s'" "acyclic (depends_rel (set tasks)) \<longrightarrow> deps_first ?look (tp_out s')"
    by (auto simp: topo_ok_def deps_first_def)
  then have out: "topo_order tasks = Some (tp_out s')" by (simp add: topo_order_def)
  have ids: "te_id ` set (tp_out s') = te_id ` set tasks" and d: "distinct (map te_id (tp_out s'))" and sub: "set (tp_out s') \<subseteq> set tasks"
    using s'(2,3) by (auto simp: topo_ok_def)
  have "mset (tp_out s') = mset tasks" if "distinct (map te_id tasks)"
  proof -
    have "set (tp_out s') = set tasks"
      using that ids sub by (auto simp: distinct_map inj_on_def image_iff subset_iff)
    then show ?thesis using d that by (simp add: set_eq_iff_mset_eq_distinct [symmetric] distinct_map)
  qed
  then show ?thesis using out ids d s'(4) unfolding deps_first_def some by blast
qed

text \<open>Two tasks that wait for each other, and two that do not.\<close>

text \<open>
  C28. The rows: the search always ends, also when the dependencies form a cycle, with every task's
  id exactly once; with distinct ids it is a permutation of the tasks; and when the dependencies
  form no cycle every row comes after all the rows it depends on.
\<close>

theorem topo_order_complete:
  shows "\<exists>out. topo_order tasks = Some out \<and> distinct (map te_id out) \<and> te_id ` set out = te_id ` set tasks \<and>
    (distinct (map te_id tasks) \<longrightarrow> mset out = mset tasks) \<and>
    (acyclic (depends_rel (set tasks)) \<longrightarrow>
      (\<forall>i < length out. \<forall>d \<in> set (or_none (te_depends (out ! i))). d \<in> te_id ` set tasks \<longrightarrow> d \<in> te_id ` set (take i out)))"
  by (rule topo_rows)

definition sample_task :: "string \<Rightarrow> string list \<Rightarrow> task_entry" where
  "sample_task i ds = \<lparr>te_id = i, te_at = ''2026-01-02'', te_created = ''2026-01-01'', te_started = None,
     te_depends = Some ds, te_status = Todo\<rparr>"

lemma loop_rows: "map_option (map te_id) (topo_order [sample_task ''x'' [''y''], sample_task ''y'' [''x'']]) = Some [''y'', ''x'']"
  by code_simp

lemma chain_acyclic: "acyclic (depends_rel (set [sample_task ''bb'' [''a''], sample_task ''a'' []]))"
proof (rule acyclic_subset)
  show "depends_rel (set [sample_task ''bb'' [''a''], sample_task ''a'' []]) \<subseteq> measure length"
    by (auto simp: depends_rel_def sample_task_def or_none_def)
qed (rule wf_acyclic, rule wf_measure)

theorem topo_order_complete_witness:
  "\<exists>out. topo_order [sample_task ''bb'' [''a''], sample_task ''a'' []] = Some out \<and>
     mset out = mset [sample_task ''bb'' [''a''], sample_task ''a'' []] \<and>
     (\<forall>i < length out. \<forall>d \<in> set (or_none (te_depends (out ! i))). d \<in> {''a'', ''bb''} \<longrightarrow> d \<in> te_id ` set (take i out))"
proof -
  have ids: "te_id ` set [sample_task ''bb'' [''a''], sample_task ''a'' []] = {''a'', ''bb''}"
    "distinct (map te_id [sample_task ''bb'' [''a''], sample_task ''a'' []])"
    by (auto simp: sample_task_def)
  show ?thesis
    using topo_order_complete [of "[sample_task ''bb'' [''a''], sample_task ''a'' []]", unfolded ids(1)] chain_acyclic ids(2)
    by blast
qed

end
