(* ===== verification/Web_Board.thy ===== *)
theory Web_Board
  imports Web_Tasks
begin

text \<open>
  \<open>packages/web/src/components/canvas/TasksTab.tsx\<close> and \<open>TasksTimeline.tsx\<close>: the task views. The
  filters, the columns of the board, the sections of the list, the rows, arrows and day ticks of the
  time view. \<open>localeCompare\<close> is an argument (\<open>collate\<close>), and so are the local midnight of a time
  and the text of a date; pixel arithmetic is not modelled.
\<close>

subsection \<open>Cards\<close>

datatype priority = Low | Medium | High

datatype owner_type = Human | Agent | Unassigned

record handoff =
  ho_summary :: string
  ho_next_action :: string
  ho_done_items :: "string list option"
  ho_remaining_items :: "string list option"

record card = task_entry +
  cd_member :: string
  cd_title :: string
  cd_priority :: priority
  cd_owner_type :: owner_type
  cd_writer :: "string option"
  cd_source_id :: "string option"
  cd_source_label :: "string option"
  cd_description :: "string option"
  cd_goal :: "string option"
  cd_criteria :: "string list option"
  cd_questions :: "string list option"
  cd_risks :: "string list option"
  cd_handoff :: "handoff option"

definition status_order :: "task_status list" where
  "status_order = [Todo, In_progress, Handoff_ready, Blocked, Done, Cancelled]"

definition board_columns :: "task_status list" where
  "board_columns = [Todo, In_progress, Handoff_ready, Blocked, Done]"

definition board_hidden :: "task_status list" where
  "board_hidden = [Cancelled]"

fun status_label :: "task_status \<Rightarrow> string" where
  "status_label Todo = ''To do''"
| "status_label In_progress = ''In progress''"
| "status_label Handoff_ready = ''Handoff ready''"
| "status_label Blocked = ''Blocked''"
| "status_label Done = ''Done''"
| "status_label Cancelled = ''Cancelled''"

fun priority_label :: "priority \<Rightarrow> string" where
  "priority_label High = ''High''"
| "priority_label Medium = ''Medium''"
| "priority_label Low = ''Low''"

fun priority_rank :: "priority \<Rightarrow> int" where
  "priority_rank High = 2"
| "priority_rank Medium = 1"
| "priority_rank Low = 0"

fun next_priority :: "priority option \<Rightarrow> priority option" where
  "next_priority None = Some High"
| "next_priority (Some High) = Some Medium"
| "next_priority (Some Medium) = Some Low"
| "next_priority (Some Low) = None"

definition by_priority_then_recency :: "(string \<Rightarrow> string \<Rightarrow> int) \<Rightarrow> card \<Rightarrow> card \<Rightarrow> int" where
  "by_priority_then_recency collate a b =
     (let r = priority_rank (cd_priority b) - priority_rank (cd_priority a)
      in if r \<noteq> 0 then r else collate (te_at b) (te_at a))"

text \<open>The text before the first at sign; \<open>split\<close> never answers an empty array.\<close>

definition short_name :: "string \<Rightarrow> string" where
  "short_name email = hd (js_split (CHR ''@'') email)"

definition source_label :: "card \<Rightarrow> string" where
  "source_label t =
     (case cd_source_label t of Some l \<Rightarrow> l | None \<Rightarrow> (case cd_source_id t of Some i \<Rightarrow> i | None \<Rightarrow> ''Unknown source''))"

definition source_shown :: "card \<Rightarrow> string option" where
  "source_shown t = (case cd_source_label t of Some l \<Rightarrow> Some l | None \<Rightarrow> cd_source_id t)"

text \<open>The parts of a card's last line; empty and missing parts are dropped.\<close>

definition card_meta :: "card \<Rightarrow> string list" where
  "card_meta t =
     map the (filter truthy
       [Some (short_name (cd_member t)), if cd_owner_type t = Human then Some ''human'' else cd_writer t, source_shown t])"

subsection \<open>Filters and the detail panel\<close>

datatype task_view = Board_view | List_view | Timeline_view

record tasks_tab =
  tt_view :: task_view
  tt_member :: "string option"
  tt_priority :: "priority option"
  tt_selected :: "string option"

definition members_of_tasks :: "card list \<Rightarrow> string list" where
  "members_of_tasks tasks = uniq (map cd_member tasks)"

definition visible_tasks :: "tasks_tab \<Rightarrow> card list \<Rightarrow> card list" where
  "visible_tasks s tasks =
     filter (\<lambda>t. case tt_priority s of Some p \<Rightarrow> cd_priority t = p | None \<Rightarrow> True)
       (filter (\<lambda>t. if truthy (tt_member s) then cd_member t = the (tt_member s) else True) tasks)"

definition selected_task :: "tasks_tab \<Rightarrow> card list \<Rightarrow> card option" where
  "selected_task s tasks = find (\<lambda>t. Some (te_id t) = tt_selected s) tasks"

definition toggle_priority :: "tasks_tab \<Rightarrow> tasks_tab" where
  "toggle_priority s = s\<lparr>tt_priority := next_priority (tt_priority s)\<rparr>"

text \<open>A goal or description equal to the title is one that was never filled in.\<close>

record panel_sections =
  ps_goal :: "string option"
  ps_description :: "string option"
  ps_criteria :: "string list"
  ps_questions :: "string list"
  ps_risks :: "string list"

definition detail_panel :: "card \<Rightarrow> panel_sections" where
  "detail_panel t =
     \<lparr>ps_goal = (if truthy (cd_goal t) \<and> cd_goal t \<noteq> Some (cd_title t) then cd_goal t else None),
      ps_description = (if truthy (cd_description t) \<and> cd_description t \<noteq> Some (cd_title t) \<and> cd_description t \<noteq> cd_goal t
        then cd_description t else None),
      ps_criteria = or_none (cd_criteria t), ps_questions = or_none (cd_questions t), ps_risks = or_none (cd_risks t)\<rparr>"

subsection \<open>Board and list\<close>

definition board :: "(string \<Rightarrow> string \<Rightarrow> int) \<Rightarrow> card list \<Rightarrow> (task_status \<times> card list) list" where
  "board collate tasks =
     filter (\<lambda>(s, column). column \<noteq> [])
       (map (\<lambda>s. (s, js_sort (by_priority_then_recency collate) (filter (\<lambda>t. te_status t = s) tasks))) board_columns)"

definition hidden_tasks :: "card list \<Rightarrow> card list" where
  "hidden_tasks tasks = filter (\<lambda>t. te_status t \<in> set board_hidden) tasks"

definition hidden_groups :: "card list \<Rightarrow> (task_status \<times> nat) list" where
  "hidden_groups tasks =
     map (\<lambda>s. (s, length (filter (\<lambda>t. te_status t = s) (hidden_tasks tasks))))
       (filter (\<lambda>s. list_ex (\<lambda>t. te_status t = s) (hidden_tasks tasks)) board_hidden)"

fun index_of :: "'a \<Rightarrow> 'a list \<Rightarrow> int" where
  "index_of x [] = -1"
| "index_of x (y # ys) = (if x = y then 0 else let n = index_of x ys in if n = -1 then -1 else n + 1)"

definition by_status :: "(string \<Rightarrow> string \<Rightarrow> int) \<Rightarrow> card \<Rightarrow> card \<Rightarrow> int" where
  "by_status collate a b =
     (let r = index_of (te_status a) status_order - index_of (te_status b) status_order
      in if r \<noteq> 0 then r else by_priority_then_recency collate a b)"

definition list_view :: "(string \<Rightarrow> string \<Rightarrow> int) \<Rightarrow> card list \<Rightarrow> (string \<times> card list) list" where
  "list_view collate tasks =
     map (\<lambda>l. (l, js_sort (by_status collate) (filter (\<lambda>t. source_label t = l) tasks))) (uniq (map source_label tasks))"

subsection \<open>The comparators\<close>

text \<open>Comparing by a number first and by another comparator then.\<close>

lemma lexical_comparator:
  assumes "preorder_comparator cmp"
  shows "preorder_comparator (\<lambda>a b. let r = (f a :: int) - f b in if r \<noteq> 0 then r else cmp a b)"
  using preorder_comparator.cmp_total [OF assms] preorder_comparator.cmp_trans [OF assms]
  by unfold_locales (auto simp: Let_def split: if_splits)

lemma swapped_comparator: "preorder_comparator cmp \<Longrightarrow> preorder_comparator (\<lambda>a b. cmp (f b) (f a))"
  by unfold_locales (blast intro: preorder_comparator.cmp_total preorder_comparator.cmp_trans)+

lemma board_order: "preorder_comparator collate \<Longrightarrow> preorder_comparator (by_priority_then_recency collate)"
  using lexical_comparator [OF swapped_comparator, of collate "\<lambda>t. - priority_rank (cd_priority t)" te_at]
  by (simp add: by_priority_then_recency_def [abs_def] Let_def)

lemma list_order: "preorder_comparator collate \<Longrightarrow> preorder_comparator (by_status collate)"
  using lexical_comparator [OF board_order, of collate "\<lambda>t. index_of (te_status t) status_order"]
  by (simp add: by_status_def [abs_def] Let_def)

text \<open>The order of code units is a collation, and timestamps of one format are collated by it.\<close>

definition compare_text :: "string \<Rightarrow> string \<Rightarrow> int" where
  "compare_text a b = (if a < b then -1 else if b < a then 1 else 0)"

interpretation code_units: preorder_comparator compare_text
  by unfold_locales (auto simp: compare_text_def split: if_splits)

interpretation board_sort: preorder_comparator "by_priority_then_recency compare_text"
  by (rule board_order) unfold_locales

interpretation list_sort: preorder_comparator "by_status compare_text"
  by (rule list_order) unfold_locales

subsection \<open>Every task once\<close>

lemma nonempty_groups: "concat (map snd (filter (\<lambda>(s, xs). xs \<noteq> []) gs)) = concat (map snd gs)"
  by (induction gs) auto

lemma mset_sorted_groups:
  "mset (concat (map snd (map (\<lambda>l. (l, js_sort cmp (f l))) ls))) = mset (concat (map f ls))"
  by (induction ls) simp_all

lemma board_complete: "mset (concat (map snd (board collate tasks))) + mset (hidden_tasks tasks) = mset tasks"
proof -
  have "mset (concat (map snd (board collate tasks))) = mset (concat (map (\<lambda>s. filter (\<lambda>t. te_status t = s) tasks) board_columns))"
    unfolding board_def nonempty_groups mset_sorted_groups ..
  moreover have "mset (concat (map (\<lambda>s. filter (\<lambda>t. te_status t = s) tasks) (board_columns @ board_hidden))) = mset tasks"
  proof (rule mset_split_by)
    have "s \<in> set (board_columns @ board_hidden)" for s by (cases s) (simp_all add: board_columns_def board_hidden_def)
    then show "te_status ` set tasks \<subseteq> set (board_columns @ board_hidden)" by blast
  qed (simp add: board_columns_def board_hidden_def)
  ultimately show ?thesis by (simp add: hidden_tasks_def board_hidden_def)
qed

lemma list_complete: "mset (concat (map snd (list_view collate tasks))) = mset tasks"
  unfolding list_view_def mset_sorted_groups by (rule mset_split_by) simp_all

definition in_groups :: "('l \<Rightarrow> 'a \<Rightarrow> bool) \<Rightarrow> ('a \<Rightarrow> 'a \<Rightarrow> int) \<Rightarrow> ('l \<times> 'a list) list \<Rightarrow> bool" where
  "in_groups P cmp gs \<longleftrightarrow> distinct (map fst gs) \<and>
     list_all (\<lambda>(l, xs). xs \<noteq> [] \<and> list_all (P l) xs \<and> sorted_wrt (\<lambda>x y. cmp x y \<le> 0) xs) gs"

lemma hidden_sum: "sum_list (map snd (hidden_groups tasks)) = length (hidden_tasks tasks)"
proof -
  have "filter (\<lambda>t. te_status t = Cancelled) (hidden_tasks tasks) = hidden_tasks tasks"
    by (simp add: hidden_tasks_def board_hidden_def)
  moreover have "list_ex (\<lambda>t. te_status t = Cancelled) (hidden_tasks tasks) \<longleftrightarrow> hidden_tasks tasks \<noteq> []"
    by (auto simp: hidden_tasks_def board_hidden_def list_ex_iff filter_empty_conv)
  ultimately show ?thesis by (simp add: hidden_groups_def board_hidden_def)
qed

text \<open>
  Every task once: the columns of the board and its hidden group, and the sections of the list,
  show the visible tasks without losing or doubling one; each stands under its status, or its
  source, under a heading that appears once and never over nothing, the more urgent before the less
  and then the newer before the older; and the numbers of the hidden groups add up.
\<close>

lemma views_show_each_task_once:
  assumes "preorder_comparator collate"
  shows "mset (concat (map snd (board collate tasks))) + mset (hidden_tasks tasks) = mset tasks \<and>
    in_groups (\<lambda>s t. te_status t = s) (by_priority_then_recency collate) (board collate tasks) \<and>
    sum_list (map snd (hidden_groups tasks)) = length (hidden_tasks tasks) \<and>
    mset (concat (map snd (list_view collate tasks))) = mset tasks \<and>
    in_groups (\<lambda>l t. source_label t = l) (by_status collate) (list_view collate tasks)"
proof -
  note sorts = preorder_comparator.sort_in_order [OF board_order [OF assms]]
    preorder_comparator.sort_in_order [OF list_order [OF assms]]
  have nonempty: "js_sort cmp xs \<noteq> [] \<longleftrightarrow> xs \<noteq> []" for cmp :: "card \<Rightarrow> card \<Rightarrow> int" and xs
    by (metis length_0_conv length_js_sort)
  have "distinct (map fst (board collate tasks))"
    unfolding board_def
    by (rule distinct_map_filter) (simp add: board_columns_def)
  then have 1: "in_groups (\<lambda>s t. te_status t = s) (by_priority_then_recency collate) (board collate tasks)"
    by (auto simp: in_groups_def board_def list_all_iff sorts)
  have 2: "in_groups (\<lambda>l t. source_label t = l) (by_status collate) (list_view collate tasks)"
    by (auto simp: in_groups_def list_view_def list_all_iff nonempty filter_empty_conv sorts comp_def)
  show ?thesis using board_complete list_complete hidden_sum 1 2 by blast
qed

definition sample_card :: "string \<Rightarrow> task_status \<Rightarrow> priority \<Rightarrow> card" where
  "sample_card i s p = task_entry.extend
     \<lparr>te_id = i, te_at = ''2026-01-0'' @ i, te_created = ''2026-01-01'', te_started = None, te_depends = None, te_status = s\<rparr>
     (card.fields ''a@x'' i p Agent None None None None None None None None None)"

lemma views_show_each_task_once_witness:
  "let ts = [sample_card ''1'' Todo Low, sample_card ''2'' Cancelled Low, sample_card ''3'' Todo High, sample_card ''4'' Todo Low]
   in board compare_text ts = [(Todo, [sample_card ''3'' Todo High, sample_card ''4'' Todo Low, sample_card ''1'' Todo Low])] \<and>
     hidden_groups ts = [(Cancelled, 1)] \<and>
     in_groups (\<lambda>s t. te_status t = s) (by_priority_then_recency compare_text) (board compare_text ts)"
proof -
  let ?ts = "[sample_card ''1'' Todo Low, sample_card ''2'' Cancelled Low, sample_card ''3'' Todo High, sample_card ''4'' Todo Low]"
  have b: "board compare_text ?ts = [(Todo, [sample_card ''3'' Todo High, sample_card ''4'' Todo Low, sample_card ''1'' Todo Low])]"
    and h: "hidden_groups ?ts = [(Cancelled, 1)]"
    by code_simp+
  have "preorder_comparator compare_text" by unfold_locales
  from views_show_each_task_once [OF this, of ?ts] show ?thesis using b h by (simp only: Let_def)
qed

end
