(* ===== verification/Web_Gantt.thy ===== *)
theory Web_Gantt
  imports Web_Board
begin

text \<open>
  \<open>packages/web/src/components/canvas/TasksTimeline.tsx\<close>: the time view of the tasks. Rows and
  arrows are given by their row numbers, the window by its two ends in milliseconds, the ticks by
  their times. Local midnight, the day of the month and the month's name depend on the browser's
  time zone and language and are arguments; positions in pixels, which are fractions, are not
  modelled, except the vertical ones.
\<close>

definition day_ms :: int where "day_ms = 86400000"

definition header_h :: int where "header_h = 44"

definition row_h :: int where "row_h = 40"

subsection \<open>Rows and arrows\<close>

definition ordered_tasks :: "card list \<Rightarrow> task_entry list option" where
  "ordered_tasks tasks = topo_order (map task_entry.truncate tasks)"

definition row_index :: "task_entry list \<Rightarrow> string \<Rightarrow> nat option" where
  "row_index rows = map_of (js_index (\<lambda>p. te_id (snd p)) fst (zip [0..<length rows] rows) [])"

definition row_middle :: "nat \<Rightarrow> int" where
  "row_middle i = header_h + int i * row_h + row_h div 2"

definition total_height :: "task_entry list \<Rightarrow> int" where
  "total_height rows = header_h + int (length rows) * row_h + 12"

text \<open>An arrow: the row it leaves and the row it ends at.\<close>

definition arrows :: "task_entry list \<Rightarrow> (nat \<times> nat) list" where
  "arrows rows =
     concat (map (\<lambda>t. concat (map (\<lambda>d.
       case (row_index rows d, row_index rows (te_id t)) of (Some i, Some j) \<Rightarrow> [(i, j)] | _ \<Rightarrow> [])
         (filter (\<lambda>d. row_index rows d \<noteq> None) (or_none (te_depends t))))) rows)"

text \<open>The horizontal extent of a bar in time: where it starts, where it ends, where arrows land.\<close>

definition bar_of :: "(string \<Rightarrow> int option) \<Rightarrow> int \<Rightarrow> task_entry \<Rightarrow> int option \<times> int option \<times> int option" where
  "bar_of parse now_ms t =
     (let s = compute_segments parse t now_ms
      in (sg_wait_start s, (case sg_work s of Some (_, e) \<Rightarrow> e | None \<Rightarrow> sg_wait_end s), sg_arrow_anchor s))"

lemma row_index_at:
  assumes "distinct (map te_id rows)" "i < length rows"
  shows "row_index rows (te_id (rows ! i)) = Some i"
proof -
  let ?ps = "zip [0..<length rows] rows"
  have mem: "(i, rows ! i) \<in> set ?ps" using assms(2) by (auto simp: in_set_zip intro!: exI [of _ i])
  have only: "p = (i, rows ! i)" if "p \<in> set ?ps" "te_id (snd p) = te_id (rows ! i)" for p
  proof -
    note p = that
    obtain n where n: "p = (n, rows ! n)" "n < length rows" using p(1) by (auto simp: set_zip)
    then show ?thesis using nth_eq_iff_index_eq [OF assms(1), of n i] p(2) assms(2) by simp
  qed
  obtain p where p: "find (\<lambda>p. te_id (snd p) = te_id (rows ! i)) (rev ?ps) = Some p"
    using mem by (cases "find (\<lambda>p. te_id (snd p) = te_id (rows ! i)) (rev ?ps)") (auto simp: find_None_iff)
  then have "p = (i, rows ! i)" using only [of p] find_SomeD [OF p] by simp
  then show ?thesis using p by (simp add: row_index_def map_of_js_index)
qed

lemma row_index_None: "row_index rows d = None \<longleftrightarrow> d \<notin> te_id ` set rows"
proof -
  have "(\<lambda>p. te_id (snd p)) ` set (zip [0..<length rows] rows) = te_id ` set rows"
  proof -
    have "map snd (zip [0..<length rows] rows) = rows" by simp
    then have "snd ` set (zip [0..<length rows] rows) = set rows" by (metis set_map)
    then show ?thesis by (metis image_image)
  qed
  then show ?thesis
    unfolding row_index_def map_of_eq_None_iff keys_js_index by simp
qed

lemma arrow_iff:
  assumes "distinct (map te_id rows)"
  shows "(i, j) \<in> set (arrows rows) \<longleftrightarrow>
    i < length rows \<and> j < length rows \<and> te_id (rows ! i) \<in> set (or_none (te_depends (rows ! j)))"
proof
  assume "(i, j) \<in> set (arrows rows)"
  then obtain t d where t: "t \<in> set rows" "d \<in> set (or_none (te_depends t))" "row_index rows d = Some i" "row_index rows (te_id t) = Some j"
    by (auto simp: arrows_def split: option.splits)
  obtain m where m: "m < length rows" "rows ! m = t" using t(1) by (auto simp: in_set_conv_nth)
  then have jm: "j = m" using row_index_at [OF assms m(1)] t(4) by simp
  have "d \<in> te_id ` set rows" using t(3) row_index_None [of rows d] by auto
  then obtain n where n: "n < length rows" "te_id (rows ! n) = d" by (auto simp: in_set_conv_nth)
  then have "i = n" using row_index_at [OF assms n(1)] t(3) by simp
  then show "i < length rows \<and> j < length rows \<and> te_id (rows ! i) \<in> set (or_none (te_depends (rows ! j)))"
    using n m jm t(2) by simp
next
  assume a: "i < length rows \<and> j < length rows \<and> te_id (rows ! i) \<in> set (or_none (te_depends (rows ! j)))"
  then have "row_index rows (te_id (rows ! i)) = Some i" "row_index rows (te_id (rows ! j)) = Some j"
    using row_index_at [OF assms] by simp_all
  then show "(i, j) \<in> set (arrows rows)"
    using a by (auto simp: arrows_def intro!: bexI [of _ "rows ! j"] bexI [of _ "te_id (rows ! i)"])
qed

text \<open>
  The rows and arrows of the time view: every task has one row and the rows fit the height;
  there is an arrow for every dependency between shown tasks and no other; and when the
  dependencies form no cycle every arrow points down.
\<close>

lemma arrows_point_down:
  assumes "distinct (map te_id tasks)"
  shows "\<exists>rows. ordered_tasks tasks = Some rows \<and> mset rows = mset (map task_entry.truncate tasks) \<and>
    (\<forall>i < length rows. row_index rows (te_id (rows ! i)) = Some i \<and> row_middle i < total_height rows) \<and>
    (\<forall>i j. (i, j) \<in> set (arrows rows) \<longleftrightarrow>
      i < length rows \<and> j < length rows \<and> te_id (rows ! i) \<in> set (or_none (te_depends (rows ! j)))) \<and>
    (acyclic (depends_rel (set (map task_entry.truncate tasks))) \<longrightarrow> (\<forall>(i, j) \<in> set (arrows rows). i < j))"
proof -
  let ?ts = "map task_entry.truncate tasks"
  have "map te_id ?ts = map te_id tasks" by (simp add: comp_def task_entry.truncate_def)
  then have d: "distinct (map te_id ?ts)" using assms by (simp only:)
  obtain rows where r: "topo_order ?ts = Some rows" "distinct (map te_id rows)" "te_id ` set rows = te_id ` set ?ts"
      "mset rows = mset ?ts"
    and down: "acyclic (depends_rel (set ?ts)) \<Longrightarrow>
      \<forall>i < length rows. \<forall>d \<in> set (or_none (te_depends (rows ! i))). d \<in> te_id ` set ?ts \<longrightarrow> d \<in> te_id ` set (take i rows)"
    using topo_rows [of ?ts] d by auto
  have below: "i < j" if "acyclic (depends_rel (set ?ts))" "(i, j) \<in> set (arrows rows)" for i j
  proof -
    have a: "i < length rows" "j < length rows" "te_id (rows ! i) \<in> set (or_none (te_depends (rows ! j)))"
      using that(2) arrow_iff [OF r(2)] by auto
    have "te_id (rows ! i) \<in> te_id ` set ?ts" using a(1) r(3) by (metis imageI nth_mem)
    then have "te_id (rows ! i) \<in> te_id ` set (take j rows)" using down [OF that(1)] a(2,3) by blast
    then obtain t where t: "t \<in> set (take j rows)" "te_id (rows ! i) = te_id t" by blast
    obtain k where k: "k < length (take j rows)" "take j rows ! k = t" using t(1) by (metis in_set_conv_nth)
    then have "k < j" "k < length rows" "rows ! k = t" by simp_all
    then show ?thesis using row_index_at [OF r(2) a(1)] row_index_at [OF r(2), of k] t(2) by simp
  qed
  have fits: "row_middle i < total_height rows" if "i < length rows" for i
    using that by (simp add: row_middle_def total_height_def row_h_def)
  have o: "ordered_tasks tasks = Some rows" using r(1) by (simp add: ordered_tasks_def)
  have at: "\<forall>i < length rows. row_index rows (te_id (rows ! i)) = Some i \<and> row_middle i < total_height rows"
    using row_index_at [OF r(2)] fits by blast
  have down: "acyclic (depends_rel (set ?ts)) \<longrightarrow> (\<forall>(i, j) \<in> set (arrows rows). i < j)" using below by blast
  have all: "\<forall>i j. (i, j) \<in> set (arrows rows) \<longleftrightarrow>
      i < length rows \<and> j < length rows \<and> te_id (rows ! i) \<in> set (or_none (te_depends (rows ! j)))"
    using arrow_iff [OF r(2)] by blast
  show ?thesis by (intro exI [of _ rows] conjI o r(4) at all down)
qed

definition waiting_card :: "string \<Rightarrow> string list \<Rightarrow> card" where
  "waiting_card i ds = (sample_card i Todo Low)\<lparr>te_depends := Some ds\<rparr>"

lemma arrows_point_down_witness:
  "\<exists>rows. ordered_tasks [waiting_card ''2'' [''1'', ''9''], waiting_card ''1'' []] = Some rows \<and> arrows rows = [(0, 1)] \<and>
     (\<forall>i j. (i, j) \<in> set (arrows rows) \<longleftrightarrow>
       i < length rows \<and> j < length rows \<and> te_id (rows ! i) \<in> set (or_none (te_depends (rows ! j))))"
proof -
  let ?ts = "[waiting_card ''2'' [''1'', ''9''], waiting_card ''1'' []]"
  have "map_option arrows (ordered_tasks ?ts) = Some [(0, 1)]" by code_simp
  moreover have "distinct (map te_id ?ts)" by code_simp
  ultimately show ?thesis using arrows_point_down [of ?ts] by auto
qed

subsection \<open>The window\<close>

record window =
  wn_lo :: int
  wn_hi :: int

definition initial_window :: "int \<times> int \<Rightarrow> int \<Rightarrow> window" where
  "initial_window data now_ms =
     \<lparr>wn_lo = min (fst data) now_ms - 15 * day_ms, wn_hi = max (snd data) now_ms + 45 * day_ms\<rparr>"

text \<open>\<open>onScroll\<close>: near an edge thirty days are grafted on.\<close>

definition on_scroll :: "int \<Rightarrow> int \<Rightarrow> int \<Rightarrow> window \<Rightarrow> window" where
  "on_scroll left width client w =
     (if left < 400 then w\<lparr>wn_lo := wn_lo w - 30 * day_ms\<rparr>
      else if width - client - 400 < left then w\<lparr>wn_hi := wn_hi w + 30 * day_ms\<rparr>
      else w)"

subsection \<open>Day ticks\<close>

record tick =
  tk_time :: int
  tk_day :: nat
  tk_today :: bool
  tk_month :: "string option"

text \<open>The loop over the days; it starts at the local midnight before the window.\<close>

function tick_times :: "int \<Rightarrow> int \<Rightarrow> int \<Rightarrow> int list" where
  "tick_times lo hi ms =
     (if hi < ms then []
      else (if ms < lo then [] else [ms]) @ tick_times lo hi (ms + day_ms))"
  by pat_completeness auto
termination
  by (relation "measure (\<lambda>(lo, hi, ms). nat (hi + 1 - ms))") (auto simp: day_ms_def)

declare tick_times.simps [simp del]

definition day_ticks ::
  "(int \<Rightarrow> int) \<Rightarrow> (int \<Rightarrow> nat) \<Rightarrow> (int \<Rightarrow> string) \<Rightarrow> int \<Rightarrow> int \<Rightarrow> int \<Rightarrow> tick list" where
  "day_ticks midnight day_of month_of lo hi now_ms =
     (let ts = tick_times lo hi (midnight lo)
      in map (\<lambda>(k, t). \<lparr>tk_time = t, tk_day = day_of t, tk_today = (t = midnight now_ms),
           tk_month = (if day_of t = 1 \<or> k = 0 then Some (month_of t) else None)\<rparr>) (zip [0..<length ts] ts))"

lemma set_tick_times: "set (tick_times lo hi ms) = {t. lo \<le> t \<and> t \<le> hi \<and> ms \<le> t \<and> day_ms dvd t - ms}"
proof (induction lo hi ms rule: tick_times.induct)
  case (1 lo hi ms)
  show ?case
  proof (cases "hi < ms")
    case True
    then show ?thesis by (subst tick_times.simps) auto
  next
    case False
    have pos: "0 < day_ms" by (simp add: day_ms_def)
    have step: "ms + day_ms \<le> t \<and> day_ms dvd t - (ms + day_ms) \<longleftrightarrow> ms \<le> t \<and> t \<noteq> ms \<and> day_ms dvd t - ms" for t
    proof -
      have "day_ms dvd t - (ms + day_ms) \<longleftrightarrow> day_ms dvd t - ms"
        using dvd_add_times_triv_right_iff [of day_ms "t - ms" "-1"] by (simp add: algebra_simps)
      moreover have "ms + day_ms \<le> t" if "ms \<le> t" "t \<noteq> ms" "day_ms dvd t - ms"
        using zdvd_imp_le [OF that(3)] that(1,2) by simp
      ultimately show ?thesis using pos by auto
    qed
    have "set (tick_times lo hi ms) = (if ms < lo then {} else {ms}) \<union> {t. lo \<le> t \<and> t \<le> hi \<and> ms + day_ms \<le> t \<and> day_ms dvd t - (ms + day_ms)}"
      using False 1 by (subst tick_times.simps) auto
    then show ?thesis using False step by auto
  qed
qed

lemma ticks_times: "tk_time ` set (day_ticks mid day mon lo hi now_ms) = set (tick_times lo hi (mid lo))"
  by (auto simp: day_ticks_def Let_def set_zip in_set_conv_nth image_iff)

lemma tick_fields:
  "t \<in> set (day_ticks mid day mon lo hi now_ms) \<Longrightarrow> tk_day t = day (tk_time t) \<and> tk_today t = (tk_time t = mid now_ms)"
  by (auto simp: day_ticks_def Let_def)

text \<open>
  The ticks stand one day of 24 hours apart from the local midnight before the window, so today
  is marked exactly when its midnight is a whole number of such days later. Across a change of
  the clocks it is not, and then no tick is marked as today although today is in the window.
\<close>

lemma today_is_marked_iff:
  assumes "mid lo \<le> lo" "lo \<le> mid now_ms" "mid now_ms \<le> hi"
  shows "(\<exists>t \<in> set (day_ticks mid day mon lo hi now_ms). tk_today t) \<longleftrightarrow> day_ms dvd mid now_ms - mid lo"
proof -
  have "(\<exists>t \<in> set (day_ticks mid day mon lo hi now_ms). tk_today t) \<longleftrightarrow> mid now_ms \<in> tk_time ` set (day_ticks mid day mon lo hi now_ms)"
    using tick_fields by (auto simp: image_iff) metis
  also have "\<dots> \<longleftrightarrow> day_ms dvd mid now_ms - mid lo"
    unfolding ticks_times set_tick_times using assms by auto
  finally show ?thesis .
qed

text \<open>A zone whose clocks go back one hour at noon of the day numbered 10.\<close>

definition autumn_midnight :: "int \<Rightarrow> int" where
  "autumn_midnight t =
     (let shift = (if t < 10 * day_ms + 12 * 3600000 then 0 else 3600000)
      in if t < 10 * day_ms + 12 * 3600000 then t - t mod day_ms
         else if t < 11 * day_ms + shift then 10 * day_ms
         else (t - shift) - (t - shift) mod day_ms + shift)"

lemma today_is_marked_iff_witness:
  "\<not> (\<exists>t \<in> set (day_ticks autumn_midnight (\<lambda>t. 1) (\<lambda>t. []) 0 (60 * day_ms) (15 * day_ms + 7200000)). tk_today t) \<and>
   (\<exists>t \<in> set (day_ticks autumn_midnight (\<lambda>t. 1) (\<lambda>t. []) 0 (60 * day_ms) (9 * day_ms + 7200000)). tk_today t)"
proof -
  have m: "autumn_midnight 0 = 0" "autumn_midnight (15 * day_ms + 7200000) = 15 * day_ms + 3600000"
    "autumn_midnight (9 * day_ms + 7200000) = 9 * day_ms"
    by code_simp+
  have "\<not> day_ms dvd autumn_midnight (15 * day_ms + 7200000) - autumn_midnight 0"
    "day_ms dvd autumn_midnight (9 * day_ms + 7200000) - autumn_midnight 0"
    unfolding m by (simp_all add: day_ms_def)
  moreover have "autumn_midnight 0 \<le> 0" "0 \<le> autumn_midnight (15 * day_ms + 7200000)" "autumn_midnight (15 * day_ms + 7200000) \<le> 60 * day_ms"
    "0 \<le> autumn_midnight (9 * day_ms + 7200000)" "autumn_midnight (9 * day_ms + 7200000) \<le> 60 * day_ms"
    unfolding m by (simp_all add: day_ms_def)
  ultimately show ?thesis
    using today_is_marked_iff [of autumn_midnight 0 "15 * day_ms + 7200000" "60 * day_ms" "\<lambda>t. 1" "\<lambda>t. []"]
      today_is_marked_iff [of autumn_midnight 0 "9 * day_ms + 7200000" "60 * day_ms" "\<lambda>t. 1" "\<lambda>t. []"] by simp
qed

end
