(* ===== verification/Web_Feed.thy ===== *)
theory Web_Feed
  imports Web_Timeline
begin

text \<open>
  \<open>packages/web/src/lib/live-feed.ts\<close>: the stale-while-revalidate feed. The state is the hook's
  state, its \<open>activeKey\<close> reference, the cache and the requests in flight; a request remembers what
  the effect that made it found in the cache. The events are the effect and the two ways a
  request ends; requests end in any order.
\<close>

subsection \<open>The hook\<close>

record 'i request =
  rq_key :: string
  rq_cached :: "'i list option"

record 'i feed =
  fe_items :: "'i list"
  fe_loading :: bool
  fe_error :: "string option"
  fe_active :: "string option"
  fe_cache :: "'i cache"
  fe_pending :: "'i request list"

definition feed_mount :: "string \<Rightarrow> bool \<Rightarrow> 'i cache \<Rightarrow> 'i feed" where
  "feed_mount key enabled c =
     \<lparr>fe_items = or_none (if enabled then read_cache c key else None), fe_loading = False, fe_error = None,
      fe_active = None, fe_cache = c, fe_pending = []\<rparr>"

definition feed_effect :: "bool \<Rightarrow> string \<Rightarrow> 'i feed \<Rightarrow> 'i feed" where
  "feed_effect enabled key w =
     (if \<not> enabled then w
      else let cached = read_cache (fe_cache w) key
           in w\<lparr>fe_active := Some key, fe_items := or_none cached, fe_loading := (cached = None), fe_error := None,
                fe_pending := fe_pending w @ [\<lparr>rq_key = key, rq_cached = cached\<rparr>]\<rparr>)"

definition feed_answer :: "bool \<Rightarrow> 'i request \<Rightarrow> 'i list \<Rightarrow> 'i feed \<Rightarrow> 'i feed" where
  "feed_answer stored r xs w =
     (let w = w\<lparr>fe_pending := remove1 r (fe_pending w)\<rparr>
      in if fe_active w \<noteq> Some (rq_key r) then w
         else w\<lparr>fe_cache := write_cache stored (rq_key r) xs (fe_cache w), fe_items := xs,
                fe_loading := False, fe_error := None\<rparr>)"

definition feed_failure :: "'i request \<Rightarrow> string \<Rightarrow> 'i feed \<Rightarrow> 'i feed" where
  "feed_failure r msg w =
     (let w = w\<lparr>fe_pending := remove1 r (fe_pending w)\<rparr>
      in if fe_active w \<noteq> Some (rq_key r) then w
         else w\<lparr>fe_items := or_none (rq_cached r), fe_loading := False,
                fe_error := (if rq_cached r \<noteq> None then None else Some msg)\<rparr>)"

subsection \<open>Runs\<close>

datatype 'i feed_event =
  Effect bool string
| Answer bool "'i request" "'i list"
| Failure "'i request" string

inductive feed_step :: "'i feed \<Rightarrow> 'i feed_event \<Rightarrow> 'i feed \<Rightarrow> bool" where
  effect: "feed_step w (Effect enabled key) (feed_effect enabled key w)"
| answer: "r \<in> set (fe_pending w) \<Longrightarrow> feed_step w (Answer stored r xs) (feed_answer stored r xs w)"
| failure: "r \<in> set (fe_pending w) \<Longrightarrow> feed_step w (Failure r msg) (feed_failure r msg w)"

inductive_cases feed_stepE: "feed_step w e w'"

inductive feed_run :: "'i feed \<Rightarrow> 'i feed_event list \<Rightarrow> 'i feed \<Rightarrow> bool" where
  start: "feed_run w [] w"
| further: "feed_run w es w' \<Longrightarrow> feed_step w' e w'' \<Longrightarrow> feed_run w (es @ [e]) w''"

text \<open>Where a list shown under a key may come from: an answer to a request for the key, or the cache.\<close>

definition sourced :: "'i cache \<Rightarrow> 'i feed_event list \<Rightarrow> string \<Rightarrow> 'i list \<Rightarrow> bool" where
  "sourced c es key xs \<longleftrightarrow>
     read_cache c key = Some xs \<or> (\<exists>stored r. rq_key r = key \<and> Answer stored r xs \<in> set es)"

lemma sourced_more: "sourced c es key xs \<Longrightarrow> sourced c (es @ [e]) key xs"
  by (auto simp: sourced_def)

lemma sourced_answer: "sourced c (es @ [Answer stored r xs]) (rq_key r) xs"
  by (auto simp: sourced_def)

definition feed_ok :: "'i cache \<Rightarrow> 'i feed_event list \<Rightarrow> 'i feed \<Rightarrow> bool" where
  "feed_ok c es w \<longleftrightarrow>
     (\<forall>key. fe_active w = Some key \<longrightarrow> fe_items w = [] \<or> sourced c es key (fe_items w)) \<and>
     (fe_loading w \<longrightarrow> fe_items w = [] \<and> (\<exists>r \<in> set (fe_pending w). fe_active w = Some (rq_key r))) \<and>
     (fe_error w \<noteq> None \<longrightarrow> fe_items w = [] \<and> \<not> fe_loading w) \<and>
     (\<forall>key xs. read_cache (fe_cache w) key = Some xs \<longrightarrow> sourced c es key xs) \<and>
     (\<forall>r \<in> set (fe_pending w). \<forall>xs. rq_cached r = Some xs \<longrightarrow> sourced c es (rq_key r) xs)"

lemma feed_okI:
  assumes "\<And>key. fe_active w = Some key \<Longrightarrow> fe_items w = [] \<or> sourced c es key (fe_items w)"
    "fe_loading w \<Longrightarrow> fe_items w = [] \<and> (\<exists>r \<in> set (fe_pending w). fe_active w = Some (rq_key r))"
    "fe_error w \<noteq> None \<Longrightarrow> fe_items w = [] \<and> \<not> fe_loading w"
    "\<And>key xs. read_cache (fe_cache w) key = Some xs \<Longrightarrow> sourced c es key xs"
    "\<And>r xs. r \<in> set (fe_pending w) \<Longrightarrow> rq_cached r = Some xs \<Longrightarrow> sourced c es (rq_key r) xs"
  shows "feed_ok c es w"
  unfolding feed_ok_def using assms by blast

lemma read_write_cache:
  "read_cache (write_cache stored key xs c) key' = (if key' = key then Some xs else read_cache c key')"
  by (auto simp: read_cache_def write_cache_def map_of_js_set split: option.split)

lemma or_none_sourced: "(\<And>xs. x = Some xs \<Longrightarrow> sourced c es key xs) \<Longrightarrow> or_none x = [] \<or> sourced c es key (or_none x)"
  by (cases x) (simp_all add: or_none_def)

lemma other_request:
  assumes "fe_active w \<noteq> Some (rq_key r)" "\<exists>q \<in> set (fe_pending w). fe_active w = Some (rq_key q)"
  shows "\<exists>q \<in> set (remove1 r (fe_pending w)). fe_active w = Some (rq_key q)"
proof -
  obtain q where q: "q \<in> set (fe_pending w)" "fe_active w = Some (rq_key q)" using assms(2) by blast
  then have "q \<noteq> r" using assms(1) by auto
  then show ?thesis using q by (metis in_set_remove1)
qed

lemma feed_ok_more: "feed_ok c es w \<Longrightarrow> feed_ok c (es @ [e]) w"
  unfolding feed_ok_def using sourced_more by blast

text \<open>A request of a workspace that is not shown any more only leaves the list.\<close>

lemma feed_ok_drop:
  assumes "fe_active w \<noteq> Some (rq_key r)" "feed_ok c es w"
  shows "feed_ok c (es @ [e]) (w\<lparr>fe_pending := remove1 r (fe_pending w)\<rparr>)"
proof -
  have "feed_ok c (es @ [e]) w" by (rule feed_ok_more [OF assms(2)])
  then show ?thesis
    unfolding feed_ok_def using other_request [OF assms(1)] set_remove1_subset [of r "fe_pending w"] by simp blast
qed

lemma feed_ok_step: "feed_step w e w' \<Longrightarrow> feed_ok c es w \<Longrightarrow> feed_ok c (es @ [e]) w'"
proof (induction rule: feed_step.induct)
  case (effect w enabled key)
  then have ok: "read_cache (fe_cache w) k = Some xs \<Longrightarrow> sourced c (es @ [Effect enabled key]) k xs" for k xs
    unfolding feed_ok_def using sourced_more by blast
  show ?case
  proof (cases enabled)
    case True
    show ?thesis
    proof (rule feed_okI)
      show "fe_items (feed_effect enabled key w) = [] \<or> sourced c (es @ [Effect enabled key]) k (fe_items (feed_effect enabled key w))"
        if "fe_active (feed_effect enabled key w) = Some k" for k
        using that ok [of k] or_none_sourced [of "read_cache (fe_cache w) k"] True by (simp add: feed_effect_def Let_def)
    qed (use True ok effect in \<open>auto simp: feed_effect_def Let_def or_none_def feed_ok_def sourced_more\<close>)
  next
    case False
    then show ?thesis using feed_ok_more [OF effect] by (simp add: feed_effect_def)
  qed
next
  case (answer r w stored xs)
  show ?case
  proof (cases "fe_active w = Some (rq_key r)")
    case True
    show ?thesis
      by (rule feed_okI)
        (use answer True in \<open>auto simp: feed_answer_def Let_def feed_ok_def read_write_cache sourced_more sourced_answer
           split: if_splits dest: set_remove1_subset [THEN subsetD]\<close>)
  next
    case False
    then show ?thesis using feed_ok_drop [OF False answer(2)] by (simp add: feed_answer_def Let_def)
  qed
next
  case (failure r w msg)
  have cached: "rq_cached r = Some xs \<Longrightarrow> sourced c (es @ [Failure r msg]) (rq_key r) xs" for xs
    using failure unfolding feed_ok_def using sourced_more by blast
  show ?case
  proof (cases "fe_active w = Some (rq_key r)")
    case True
    show ?thesis
      by (rule feed_okI)
        (use failure True or_none_sourced [OF cached] in \<open>auto simp: feed_failure_def Let_def feed_ok_def sourced_more or_none_def
           split: if_splits option.splits dest: set_remove1_subset [THEN subsetD]\<close>)
  next
    case False
    then show ?thesis using feed_ok_drop [OF False failure(2)] by (simp add: feed_failure_def Let_def)
  qed
qed

lemma feed_ok_mount: "feed_ok c [] (feed_mount key enabled c)"
  by (rule feed_okI) (auto simp: feed_mount_def sourced_def)

lemma feed_run_ok: "feed_run w es w' \<Longrightarrow> feed_ok c [] w \<Longrightarrow> feed_ok c es w'"
  by (induction rule: feed_run.induct) (auto intro: feed_ok_step)

text \<open>
  C27. Whatever the order in which requests are answered or fail and the workspace changes: the
  feed never shows one workspace's items under another, every list on screen being one that was
  answered to a request for the active key or was in the cache under it; the spinner is shown only
  while nothing is on screen and a request for the active key is in flight, so a feed is never
  stuck loading; an error is shown only when there is nothing to show.
\<close>

theorem feed_never_mixes_or_hangs:
  assumes "feed_run (feed_mount key0 enabled c) es w" "fe_active w = Some key"
  shows "(fe_items w = [] \<or> sourced c es key (fe_items w)) \<and>
    (fe_loading w \<longrightarrow> fe_items w = [] \<and> (\<exists>r \<in> set (fe_pending w). rq_key r = key)) \<and>
    (fe_error w \<noteq> None \<longrightarrow> fe_items w = [] \<and> \<not> fe_loading w)"
proof -
  have "feed_ok c es w" using feed_run_ok [OF assms(1) feed_ok_mount] .
  then show ?thesis using assms(2) unfolding feed_ok_def by auto
qed

text \<open>A switch of workspace while the first request is open: its late answer is dropped.\<close>

definition switching :: "nat feed" where
  "switching = feed_answer True \<lparr>rq_key = ''tasks:a'', rq_cached = None\<rparr> [1, 2]
     (feed_effect True ''tasks:b'' (feed_effect True ''tasks:a''
       (feed_mount ''tasks:a'' True \<lparr>ca_memory = [], ca_session = []\<rparr>)))"

lemma switching_run:
  "feed_run (feed_mount ''tasks:a'' True \<lparr>ca_memory = [], ca_session = []\<rparr>)
     [Effect True ''tasks:a'', Effect True ''tasks:b'', Answer True \<lparr>rq_key = ''tasks:a'', rq_cached = None\<rparr> [1, 2]] switching"
proof -
  let ?w = "feed_mount ''tasks:a'' True \<lparr>ca_memory = [], ca_session = []\<rparr> :: nat feed"
  let ?r = "\<lparr>rq_key = ''tasks:a'', rq_cached = None\<rparr> :: nat request"
  let ?v = "feed_effect True ''tasks:b'' (feed_effect True ''tasks:a'' ?w)"
  have "feed_run ?w (([] @ [Effect True ''tasks:a'']) @ [Effect True ''tasks:b'']) ?v"
    by (rule feed_run.further [OF feed_run.further [OF feed_run.start feed_step.effect] feed_step.effect])
  moreover have "?r \<in> set (fe_pending ?v)"
    by (simp add: feed_effect_def feed_mount_def read_cache_def Let_def)
  ultimately have "feed_run ?w ((([] @ [Effect True ''tasks:a'']) @ [Effect True ''tasks:b'']) @ [Answer True ?r [1, 2]]) switching"
    unfolding switching_def by (rule feed_run.further [OF _ feed_step.answer])
  then show ?thesis by (simp only: append.simps)
qed

theorem feed_never_mixes_or_hangs_witness:
  "fe_items switching = [] \<and> fe_loading switching \<and> (\<exists>r \<in> set (fe_pending switching). rq_key r = ''tasks:b'')"
proof -
  have s: "fe_active switching = Some ''tasks:b''" "fe_loading switching"
    by (simp_all add: switching_def feed_answer_def feed_effect_def feed_mount_def read_cache_def Let_def)
  show ?thesis using feed_never_mixes_or_hangs [OF switching_run s(1)] s(2) by blast
qed

end
