(* ===== verification/Web_Router.thy ===== *)
theory Web_Router
  imports Http
begin

text \<open>
  \<open>packages/web/src/lib/tabs.ts\<close> and \<open>use-app-location.ts\<close>: the paths of the app and the hook
  that keeps the view and the address bar together. The browser's history is the entries before
  and after the one shown; an entry is a path and a query string. \<open>parse\<close> answers \<open>None\<close> when
  \<open>decodeURIComponent\<close> throws.
\<close>

subsection \<open>Tabs\<close>

datatype tab = Tab_timeline | Tab_tasks | Tab_talk | Tab_decisions | Tab_sources | Tab_connect

fun tab_text :: "tab \<Rightarrow> string" where
  "tab_text Tab_timeline = ''timeline''"
| "tab_text Tab_tasks = ''tasks''"
| "tab_text Tab_talk = ''talk''"
| "tab_text Tab_decisions = ''decisions''"
| "tab_text Tab_sources = ''sources''"
| "tab_text Tab_connect = ''connect''"

definition tabs :: "tab list" where
  "tabs = [Tab_timeline, Tab_tasks, Tab_talk, Tab_decisions, Tab_sources]"

text \<open>\<open>isTab\<close>, with the tab it found.\<close>

definition is_tab :: "string option \<Rightarrow> tab option" where
  "is_tab x = (case x of None \<Rightarrow> None | Some s \<Rightarrow> find (\<lambda>t. tab_text t = s) (tabs @ [Tab_connect]))"

lemma is_tab_text [simp]: "is_tab (Some (tab_text t)) = Some t"
  by (cases t) (simp_all add: is_tab_def tabs_def)

subsection \<open>Paths\<close>

datatype view = Personal_view | Workspace_view "string option" tab

definition base :: string where
  "base = ''/app''"

definition parse :: "string \<Rightarrow> view option" where
  "parse pathname =
     (let rest = (if starts_with pathname base then drop (length base) pathname else pathname);
          segs = filter (\<lambda>s. s \<noteq> []) (js_split (CHR ''/'') rest)
      in case segs of
           [] \<Rightarrow> Some (Workspace_view None Tab_timeline)
         | first # others \<Rightarrow>
             if first = ''personal'' then Some Personal_view
             else (case decode_uri first of
                 None \<Rightarrow> None
               | Some workspace_id \<Rightarrow>
                   Some (Workspace_view (Some workspace_id)
                     (case is_tab (case others of [] \<Rightarrow> None | second # _ \<Rightarrow> Some second) of
                        Some t \<Rightarrow> t | None \<Rightarrow> Tab_timeline))))"

fun to_path :: "view \<Rightarrow> string" where
  "to_path Personal_view = base @ ''/personal''"
| "to_path (Workspace_view None t) = base"
| "to_path (Workspace_view (Some i) t) = base @ ''/'' @ encode_uri i @ ''/'' @ tab_text t"

subsection \<open>The hook\<close>

type_synonym entry = "string \<times> string"

record location =
  lo_back :: "entry list"
  lo_here :: entry
  lo_forward :: "entry list"
  lo_view :: view

definition mount :: "entry \<Rightarrow> location option" where
  "mount e = map_option (\<lambda>v. \<lparr>lo_back = [], lo_here = e, lo_forward = [], lo_view = v\<rparr>) (parse (fst e))"

definition navigate :: "view \<Rightarrow> bool \<Rightarrow> location \<Rightarrow> location" where
  "navigate target replace l =
     (let e = (to_path target, snd (lo_here l))
      in if replace then l\<lparr>lo_here := e, lo_view := target\<rparr>
         else l\<lparr>lo_back := lo_here l # lo_back l, lo_here := e, lo_forward := [], lo_view := target\<rparr>)"

text \<open>\<open>onPop\<close>; a path that does not parse leaves the view.\<close>

definition on_pop :: "location \<Rightarrow> location" where
  "on_pop l = (case parse (fst (lo_here l)) of Some v \<Rightarrow> l\<lparr>lo_view := v\<rparr> | None \<Rightarrow> l)"

datatype nav = Navigate view bool | Back | Forward

fun nav_step :: "location \<Rightarrow> nav \<Rightarrow> location" where
  "nav_step l (Navigate target replace) = navigate target replace l"
| "nav_step l Back =
     (case lo_back l of
        [] \<Rightarrow> l
      | e # es \<Rightarrow> on_pop (l\<lparr>lo_back := es, lo_here := e, lo_forward := lo_here l # lo_forward l\<rparr>))"
| "nav_step l Forward =
     (case lo_forward l of
        [] \<Rightarrow> l
      | e # es \<Rightarrow> on_pop (l\<lparr>lo_back := lo_here l # lo_back l, lo_here := e, lo_forward := es\<rparr>))"

subsection \<open>A path names its view\<close>

text \<open>
  The views a path can name. The ids \<open>.\<close> and \<open>..\<close> are excluded because the browser resolves such
  segments before it shows a path.
\<close>

fun addressable :: "view \<Rightarrow> bool" where
  "addressable Personal_view = True"
| "addressable (Workspace_view None t) = (t = Tab_timeline)"
| "addressable (Workspace_view (Some i) t) = (i \<notin> {[], ''personal'', ''.'', ''..''})"

lemma percent_no_slash: "n < 256 \<Longrightarrow> CHR ''/'' \<notin> set (percent n)"
proof -
  assume n: "n < 256"
  have h: "upper_hex m \<noteq> CHR ''/''" if "m < 16" for m
  proof
    assume "upper_hex m = CHR ''/''"
    then have "hex_val (CHR ''/'') = Some m" using hex_val_upper [OF that] by simp
    moreover have "hex_val (CHR ''/'') = None" by code_simp
    ultimately show False by simp
  qed
  have "n div 16 < 16" "n mod 16 < 16" using n by auto
  then show ?thesis using h [of "n div 16"] h [of "n mod 16"] unfolding percent_def by auto
qed

lemma encode_char_no_slash: "CHR ''/'' \<notin> set (encode_char c)"
proof (cases "uri_unreserved c")
  case True
  moreover have "\<not> uri_unreserved (CHR ''/'')" by code_simp
  ultimately show ?thesis by (auto simp: encode_char_def)
next
  case False
  have "192 + char_code c div 64 < 256" "128 + char_code c mod 64 < 256"
    using less_mult_imp_div_less [of "char_code c" 64 64] char_code_less [of c] by auto
  then show ?thesis using False percent_no_slash char_code_less [of c] by (simp add: encode_char_def Let_def)
qed

lemma encode_uri_no_slash: "CHR ''/'' \<notin> set (encode_uri s)"
  by (simp add: encode_uri_def encode_char_no_slash)

interpretation uri_text: codec encode_uri decode_uri "\<lambda>s. True"
  by unfold_locales (rule decode_encode_uri)

lemma parse_segments: "parse (base @ (CHR ''/'' # s)) =
  (case filter (\<lambda>s. s \<noteq> []) (js_split (CHR ''/'') s) of
     [] \<Rightarrow> Some (Workspace_view None Tab_timeline)
   | first # others \<Rightarrow>
       if first = ''personal'' then Some Personal_view
       else (case decode_uri first of
           None \<Rightarrow> None
         | Some i \<Rightarrow> Some (Workspace_view (Some i)
             (case is_tab (case others of [] \<Rightarrow> None | second # _ \<Rightarrow> Some second) of Some t \<Rightarrow> t | None \<Rightarrow> Tab_timeline))))"
  by (simp add: parse_def base_def starts_with_def)

lemma parse_path: "addressable v \<Longrightarrow> parse (to_path v) = Some v"
proof (induction v rule: to_path.induct)
  case (3 i t)
  have id: "encode_uri i \<noteq> []" "encode_uri i \<noteq> ''personal''"
    using 3 uri_text.enc_eq_iff [OF TrueI TrueI, of i "[]"] uri_text.enc_eq_iff [OF TrueI TrueI, of i "''personal''"]
    by (simp_all add: encode_uri_def encode_char_def uri_unreserved_def char_code_def)
  have t: "CHR ''/'' \<notin> set (tab_text t)" "tab_text t \<noteq> []" by (cases t; simp)+
  have "js_split (CHR ''/'') (encode_uri i @ ''/'' @ tab_text t) = [encode_uri i, tab_text t]"
    using js_split_append [OF encode_uri_no_slash, of i "tab_text t"] js_split_none [OF t(1)] by simp
  then show ?case using id t(2) by (simp add: parse_segments decode_encode_uri)
qed (simp_all add: parse_def base_def starts_with_def)

lemma unaddressable: "parse (to_path (Workspace_view (Some ''personal'') Tab_tasks)) = Some Personal_view \<and>
  parse (to_path (Workspace_view (Some []) Tab_tasks)) = Some (Workspace_view (Some ''tasks'') Tab_timeline) \<and>
  parse (to_path (Workspace_view None Tab_tasks)) = Some (Workspace_view None Tab_timeline)"
  by code_simp

definition names_view :: "string \<Rightarrow> entry \<Rightarrow> bool" where
  "names_view search e \<longleftrightarrow> parse (fst e) \<noteq> None \<and> snd e = search"

definition in_step :: "string \<Rightarrow> location \<Rightarrow> bool" where
  "in_step search l \<longleftrightarrow> parse (fst (lo_here l)) = Some (lo_view l) \<and> snd (lo_here l) = search \<and>
     list_all (names_view search) (lo_back l) \<and> list_all (names_view search) (lo_forward l)"

fun goes_somewhere :: "nav \<Rightarrow> bool" where
  "goes_somewhere (Navigate v r) = addressable v"
| "goes_somewhere _ = True"

lemma in_step_here: "in_step search l \<Longrightarrow> names_view search (lo_here l)"
  by (simp add: in_step_def names_view_def)

lemma in_step_pop:
  assumes "names_view search (lo_here l)" "list_all (names_view search) (lo_back l)" "list_all (names_view search) (lo_forward l)"
  shows "in_step search (on_pop l)"
proof -
  obtain v where "parse (fst (lo_here l)) = Some v" using assms(1) by (auto simp: names_view_def)
  then show ?thesis using assms by (simp add: in_step_def on_pop_def names_view_def)
qed

lemma in_step_nav: "in_step search l \<Longrightarrow> goes_somewhere e \<Longrightarrow> in_step search (nav_step l e)"
proof (induction l e rule: nav_step.induct)
  case (1 l target replace)
  then have "parse (to_path target) = Some target" by (simp add: parse_path)
  then show ?case using 1(1) in_step_here [OF 1(1)] by (simp add: in_step_def navigate_def Let_def)
next
  case (2 l)
  show ?case
  proof (cases "lo_back l")
    case (Cons e es)
    have "in_step search (on_pop (l\<lparr>lo_back := es, lo_here := e, lo_forward := lo_here l # lo_forward l\<rparr>))"
      by (rule in_step_pop) (use Cons 2(1) in_step_here [OF 2(1)] in \<open>simp_all add: in_step_def\<close>)
    then show ?thesis using Cons by simp
  qed (use 2 in simp)
next
  case (3 l)
  show ?case
  proof (cases "lo_forward l")
    case (Cons e es)
    have "in_step search (on_pop (l\<lparr>lo_back := lo_here l # lo_back l, lo_here := e, lo_forward := es\<rparr>))"
      by (rule in_step_pop) (use Cons 3(1) in_step_here [OF 3(1)] in \<open>simp_all add: in_step_def\<close>)
    then show ?thesis using Cons by simp
  qed (use 3 in simp)
qed

text \<open>
  C38. The address restores the view: after any navigation to views that have a path, in any mix
  with the back and forward buttons, the path in the address bar parses to the view on screen, so
  a reload or a shared link shows it again, and the query string is the one the app was opened
  with.
\<close>

theorem address_restores_view:
  assumes "mount (url, search) = Some l" "list_all goes_somewhere es"
  shows "parse (fst (lo_here (foldl nav_step l es))) = Some (lo_view (foldl nav_step l es)) \<and>
    snd (lo_here (foldl nav_step l es)) = search"
proof -
  have "in_step search l" using assms(1) by (auto simp: mount_def in_step_def)
  then have "in_step search (foldl nav_step l es)"
    using assms(2) by (induction es arbitrary: l) (simp_all add: in_step_nav)
  then show ?thesis by (simp add: in_step_def)
qed

definition opened :: location where
  "opened = \<lparr>lo_back = [], lo_here = (''/app'', ''?demo''), lo_forward = [], lo_view = Workspace_view None Tab_timeline\<rparr>"

definition clicks :: "nav list" where
  "clicks = [Navigate (Workspace_view (Some ''wsp a/b'') Tab_tasks) True, Navigate Personal_view False, Back]"

theorem address_restores_view_witness:
  "lo_view (foldl nav_step opened clicks) = Workspace_view (Some ''wsp a/b'') Tab_tasks \<and>
   fst (lo_here (foldl nav_step opened clicks)) = ''/app/wsp%20a%2Fb/tasks'' \<and>
   parse ''/app/wsp%20a%2Fb/tasks'' = Some (Workspace_view (Some ''wsp a/b'') Tab_tasks)"
proof -
  have s: "mount (''/app'', ''?demo'') = Some opened" "list_all goes_somewhere clicks"
    "lo_view (foldl nav_step opened clicks) = Workspace_view (Some ''wsp a/b'') Tab_tasks"
    "fst (lo_here (foldl nav_step opened clicks)) = ''/app/wsp%20a%2Fb/tasks''"
    by code_simp+
  show ?thesis using address_restores_view [OF s(1,2)] s(3,4) by simp
qed

end
