(* ===== verification/Web_Api.thy ===== *)
theory Web_Api
  imports Hub Web_Router
begin

text \<open>
  \<open>packages/web/src/lib/api.ts\<close>: the browser's client of the gateway. A call is one \<open>fetch\<close>, an
  argument as in the gateway's own calls; the cookie is what the browser adds to a same-origin
  request. A body is read as JSON and cast, not checked, so a call answers a JSON value, \<open>None\<close>
  where the code reads a member that is missing. The second half puts the gateway behind the
  client.
\<close>

subsection \<open>Calls\<close>

datatype api_error =
  Offline
| Bad_body
| Bad_status string nat
| Refused string

type_synonym ('a, 'w) call = "'w \<Rightarrow> (api_error + 'a) \<times> 'w"

definition browser_request ::
  "string option \<Rightarrow> string \<Rightarrow> string \<Rightarrow> (string \<times> string) list \<Rightarrow> json option \<Rightarrow> request" where
  "browser_request cookie m p q body =
     \<lparr>meth = m, path = p, query = q, auth_header = None, cookie_header = cookie, host_header = None,
      chunks = (case body of None \<Rightarrow> [] | Some v \<Rightarrow> [stringify v])\<rparr>"

definition ask :: "'w fetch \<Rightarrow> request \<Rightarrow> (nat \<times> string \<Rightarrow> api_error + 'a) \<Rightarrow> ('a, 'w) call" where
  "ask fetch req k w =
     (case fetch req w of (None, w1) \<Rightarrow> (Inl Offline, w1) | (Some r, w1) \<Rightarrow> (k r, w1))"

definition ok :: "string \<Rightarrow> nat \<times> string \<Rightarrow> (api_error + 'a) \<Rightarrow> api_error + 'a" where
  "ok what r k = (if ok_status (fst r) then k else Inl (Bad_status what (fst r)))"

definition body_json :: "nat \<times> string \<Rightarrow> api_error + json" where
  "body_json r = (case json_parse (snd r) of None \<Rightarrow> Inl Bad_body | Some v \<Rightarrow> Inr v)"

text \<open>\<open>body.k\<close>: reading a member of \<open>null\<close> throws.\<close>

definition body_member :: "string \<Rightarrow> nat \<times> string \<Rightarrow> api_error + json option" where
  "body_member k r = and_then (body_json r) (\<lambda>v. if v = JNull then Inl Bad_body else Inr (jget k v))"

definition q :: "string \<Rightarrow> string" where
  "q i = encode_uri i"

definition workspace_url :: "string \<Rightarrow> string" where
  "workspace_url i = ''/v1/workspaces/'' @ q i"

definition get_me :: "'w fetch \<Rightarrow> string option \<Rightarrow> (json option, 'w) call" where
  "get_me fetch cookie = ask fetch (browser_request cookie ''GET'' ''/account/me'' [] None)
     (\<lambda>r. if fst r = 401 then Inr None
          else ok ''GET /account/me'' r (and_then (body_json r) (\<lambda>v. Inr (Some v))))"

definition list_my_workspaces :: "'w fetch \<Rightarrow> string option \<Rightarrow> (json option, 'w) call" where
  "list_my_workspaces fetch cookie = ask fetch (browser_request cookie ''GET'' ''/v1/account/workspaces'' [] None)
     (\<lambda>r. ok ''GET /v1/account/workspaces'' r (body_member ''workspaces'' r))"

definition create_my_workspace :: "'w fetch \<Rightarrow> string option \<Rightarrow> string \<Rightarrow> (json, 'w) call" where
  "create_my_workspace fetch cookie name =
     ask fetch (browser_request cookie ''POST'' ''/v1/workspaces'' []
         (Some (JObj (if name = [] then [] else [(''name'', JStr name)]))))
       (\<lambda>r. ok ''POST /v1/workspaces'' r (body_json r))"

definition get_workspace_detail :: "'w fetch \<Rightarrow> string option \<Rightarrow> string \<Rightarrow> (json, 'w) call" where
  "get_workspace_detail fetch cookie i = ask fetch (browser_request cookie ''GET'' (workspace_url i) [] None)
     (\<lambda>r. ok (''GET /v1/workspaces/'' @ i) r (body_json r))"

definition get_workspace_timeline ::
  "'w fetch \<Rightarrow> string option \<Rightarrow> string \<Rightarrow> nat option \<Rightarrow> string option \<Rightarrow> (json, 'w) call" where
  "get_workspace_timeline fetch cookie i limit before =
     ask fetch (browser_request cookie ''GET'' (workspace_url i @ ''/timeline'')
         ((''limit'', nat_str (case limit of None \<Rightarrow> 50 | Some n \<Rightarrow> n)) #
          (if truthy before then [(''before'', the before)] else [])) None)
       (\<lambda>r. ok (''GET /v1/workspaces/'' @ i @ ''/timeline'') r (body_json r))"

definition get_workspace_tasks :: "'w fetch \<Rightarrow> string option \<Rightarrow> string \<Rightarrow> (json, 'w) call" where
  "get_workspace_tasks fetch cookie i = ask fetch (browser_request cookie ''GET'' (workspace_url i @ ''/tasks'') [] None)
     (\<lambda>r. ok (''GET /v1/workspaces/'' @ i @ ''/tasks'') r (body_json r))"

definition list_workspace_invites :: "'w fetch \<Rightarrow> string option \<Rightarrow> string \<Rightarrow> (json option, 'w) call" where
  "list_workspace_invites fetch cookie i = ask fetch (browser_request cookie ''GET'' (workspace_url i @ ''/invites'') [] None)
     (\<lambda>r. ok ''GET invites'' r (body_member ''invites'' r))"

definition mint_workspace_invite :: "'w fetch \<Rightarrow> string option \<Rightarrow> string \<Rightarrow> json \<Rightarrow> (json, 'w) call" where
  "mint_workspace_invite fetch cookie i opts =
     ask fetch (browser_request cookie ''POST'' (workspace_url i @ ''/invites'') [] (Some opts))
       (\<lambda>r. ok ''POST invites'' r (body_json r))"

definition revoke_workspace_invite :: "'w fetch \<Rightarrow> string option \<Rightarrow> string \<Rightarrow> string \<Rightarrow> (unit, 'w) call" where
  "revoke_workspace_invite fetch cookie i invite =
     ask fetch (browser_request cookie ''DELETE'' (workspace_url i @ ''/invites/'' @ q invite) [] None)
       (\<lambda>r. ok ''DELETE invite'' r (Inr ()))"

definition set_workspace_role :: "'w fetch \<Rightarrow> string option \<Rightarrow> string \<Rightarrow> string \<Rightarrow> role \<Rightarrow> (unit, 'w) call" where
  "set_workspace_role fetch cookie i account rl =
     ask fetch (browser_request cookie ''PATCH'' (workspace_url i @ ''/members/'' @ q account) []
         (Some (JObj [(''role'', JStr (role_text rl))])))
       (\<lambda>r. if fst r = 409 then Inl (Refused ''Cannot demote the sole remaining owner.'')
            else ok ''PATCH member role'' r (Inr ()))"

text \<open>The dash in the code's message is left out: it is no code unit of the model.\<close>

definition remove_workspace_member :: "'w fetch \<Rightarrow> string option \<Rightarrow> string \<Rightarrow> string \<Rightarrow> (unit, 'w) call" where
  "remove_workspace_member fetch cookie i account =
     ask fetch (browser_request cookie ''DELETE'' (workspace_url i @ ''/members/'' @ q account) [] None)
       (\<lambda>r. if fst r = 409
            then Inl (Refused ''The last owner cannot be removed: transfer ownership or delete the workspace.'')
            else ok ''DELETE member'' r (Inr ()))"

definition delete_my_workspace :: "'w fetch \<Rightarrow> string option \<Rightarrow> string \<Rightarrow> (unit, 'w) call" where
  "delete_my_workspace fetch cookie i = ask fetch (browser_request cookie ''DELETE'' (workspace_url i) [] None)
     (\<lambda>r. ok ''DELETE workspace'' r (Inr ()))"

definition rename_my_workspace :: "'w fetch \<Rightarrow> string option \<Rightarrow> string \<Rightarrow> string \<Rightarrow> (unit, 'w) call" where
  "rename_my_workspace fetch cookie i name =
     ask fetch (browser_request cookie ''PATCH'' (workspace_url i) [] (Some (JObj [(''name'', JStr name)])))
       (\<lambda>r. ok ''PATCH workspace'' r (Inr ()))"

definition list_keys :: "'w fetch \<Rightarrow> string option \<Rightarrow> (json option, 'w) call" where
  "list_keys fetch cookie = ask fetch (browser_request cookie ''GET'' ''/v1/account/keys'' [] None)
     (\<lambda>r. ok ''GET /v1/account/keys'' r (body_member ''keys'' r))"

definition issue_key :: "'w fetch \<Rightarrow> string option \<Rightarrow> json \<Rightarrow> (json option, 'w) call" where
  "issue_key fetch cookie opts = ask fetch (browser_request cookie ''POST'' ''/v1/account/keys'' [] (Some opts))
     (\<lambda>r. ok ''POST /v1/account/keys'' r (body_member ''key'' r))"

definition revoke_key :: "'w fetch \<Rightarrow> string option \<Rightarrow> string \<Rightarrow> (unit, 'w) call" where
  "revoke_key fetch cookie i = ask fetch (browser_request cookie ''DELETE'' (''/v1/account/keys/'' @ q i) [] None)
     (\<lambda>r. ok ''DELETE /v1/account/keys'' r (Inr ()))"

subsection \<open>The gateway behind the client\<close>

definition serve_gateway :: "env \<Rightarrow> gateway_config \<Rightarrow> 'w outside \<Rightarrow> (db \<times> 'w) fetch" where
  "serve_gateway e c out req s =
     (let (r, d', w') = gateway_handle e c out req (fst s) (snd s) in (Some (status_of r, body_text r), (d', w')))"

text \<open>A handler's result as the client sees it.\<close>

definition seen :: "handled \<times> 'w \<Rightarrow> (nat \<times> string) option \<times> (db \<times> 'w)" where
  "seen h = (let ((r, d'), w') = h; a = (case r of None \<Rightarrow> send_error 500 ''internal error'' | Some x \<Rightarrow> x)
             in (Some (status_of a, body_text a), (d', w')))"

lemma serve_seen: "serve_gateway e c out req (d, w) = seen (route e c out req d w)"
  by (simp add: serve_gateway_def gateway_handle_def seen_def Let_def split: prod.split)

lemma plain_encoded: "plain_segment (encode_uri i)"
  by (simp add: plain_segment_def encode_uri_no_slash)

lemma encoded_nonempty: "i \<noteq> [] \<Longrightarrow> encode_uri i \<noteq> []"
  using uri_text.enc_eq_iff [OF TrueI TrueI, of i "[]"] by (simp add: encode_uri_def)

lemma split_workspace_url:
  assumes "list_all plain_segment cs" "\<forall>l. Lit l \<in> set ps \<longrightarrow> plain_segment l"
  shows "js_split (CHR ''/'') (workspace_url i @ fill_segments ps cs) = [] # ''v1'' # ''workspaces'' # encode_uri i # fill_list ps cs"
  using js_split_fill [of "[]" "encode_uri i # cs" "ws_path ps"] assms plain_encoded [of i]
  by (auto simp: plain_segment_def ws_path_def workspace_url_def q_def)

definition workspace_request ::
  "string option \<Rightarrow> string \<Rightarrow> string \<Rightarrow> segment list \<Rightarrow> string list \<Rightarrow> (string \<times> string) list \<Rightarrow> json option \<Rightarrow> request" where
  "workspace_request cookie m i ps cs qs body = browser_request cookie m (workspace_url i @ fill_segments ps (map q cs)) qs body"

lemma route_workspace_request:
  assumes "\<forall>l. Lit l \<in> set ps \<longrightarrow> plain_segment l"
  shows "route e c out (workspace_request cookie m i ps cs qs body) d w =
    first_of (workspace_routes e c out (workspace_request cookie m i ps cs qs body) d w)
      (first_of (event_routes e c out (workspace_request cookie m i ps cs qs body) d w) (refuse d 404 ''not found'', w))"
proof (rule route_workspace)
  show "path (workspace_request cookie m i ps cs qs body) = ''/v1/workspaces/'' @ (q i @ fill_segments ps (map q cs))"
    by (simp add: workspace_request_def browser_request_def workspace_url_def)
  show "js_split (CHR ''/'') (path (workspace_request cookie m i ps cs qs body)) =
      [] # ''v1'' # ''workspaces'' # (encode_uri i # fill_list ps (map q cs))"
    using split_workspace_url [of "map q cs" ps i] assms plain_encoded
    by (simp add: workspace_request_def browser_request_def list_all_iff q_def)
qed

lemma workspace_request_simps:
  "meth (workspace_request cookie m i ps cs qs body) = m"
  "path (workspace_request cookie m i ps cs qs body) = workspace_url i @ fill_segments ps (map q cs)"
  by (simp_all add: workspace_request_def browser_request_def)

lemma not_join: "workspace_url i @ ''/'' @ n \<noteq> ''/v1/workspaces/join''"
proof
  assume "workspace_url i @ ''/'' @ n = ''/v1/workspaces/join''"
  then have "q i @ CHR ''/'' # n = ''join''" by (simp add: workspace_url_def)
  moreover have "CHR ''/'' \<in> set (q i @ CHR ''/'' # n)" by simp
  ultimately have "CHR ''/'' \<in> set (''join'')" by metis
  then show False by simp
qed

text \<open>The ten workspace requests reach their handlers, with the ids decoded.\<close>

lemma reach_workspace:
  fixes w :: 'w and cookie :: "string option" and i x :: string
  assumes "i \<noteq> []" "x \<noteq> []"
  defines "r \<equiv> \<lambda>m ps cs qs body. workspace_request cookie m i ps cs qs body"
  shows "route e c out (r ''GET'' [] [] qs body) d w = (get_workspace e c (r ''GET'' [] [] qs body) i d, w)"
    "route e c out (r ''PATCH'' [] [] qs body) d w = (rename_workspace e c (r ''PATCH'' [] [] qs body) i d, w)"
    "route e c out (r ''DELETE'' [] [] qs body) d w = (delete_workspace e c (r ''DELETE'' [] [] qs body) i d, w)"
    "route e c out (r ''GET'' [Lit ''timeline''] [] qs body) d w =
       handle_workspace_timeline e c (replica_fetch out) (r ''GET'' [Lit ''timeline''] [] qs body) i d w"
    "route e c out (r ''GET'' [Lit ''tasks''] [] qs body) d w =
       handle_workspace_tasks e c (replica_fetch out) (r ''GET'' [Lit ''tasks''] [] qs body) i d w"
    "route e c out (r ''GET'' [Lit ''invites''] [] qs body) d w = (list_invites_handler e c (r ''GET'' [Lit ''invites''] [] qs body) i d, w)"
    "route e c out (r ''POST'' [Lit ''invites''] [] qs body) d w = (mint_invite_handler e c (r ''POST'' [Lit ''invites''] [] qs body) i d, w)"
    "route e c out (r ''DELETE'' [Lit ''invites'', Capture] [x] qs body) d w =
       (revoke_invite_handler e c (r ''DELETE'' [Lit ''invites'', Capture] [x] qs body) i x d, w)"
    "route e c out (r ''PATCH'' [Lit ''members'', Capture] [x] qs body) d w =
       (set_member_role e c (r ''PATCH'' [Lit ''members'', Capture] [x] qs body) i x d, w)"
    "route e c out (r ''DELETE'' [Lit ''members'', Capture] [x] qs body) d w =
       (remove_member_handler e c (r ''DELETE'' [Lit ''members'', Capture] [x] qs body) i x d, w)"
proof -
  have plain: "plain_segment (encode_uri x)" "encode_uri i \<noteq> []" "encode_uri x \<noteq> []"
    using plain_encoded encoded_nonempty assms(1,2) by simp_all
  have lits: "plain_segment ''timeline''" "plain_segment ''tasks''" "plain_segment ''invites''" "plain_segment ''members''"
    by (simp_all add: plain_segment_def)
  have split: "js_split (CHR ''/'') (workspace_url i) = [[], ''v1'', ''workspaces'', encode_uri i]"
    "js_split (CHR ''/'') (workspace_url i @ CHR ''/'' # l) = [[], ''v1'', ''workspaces'', encode_uri i, l]"
    "js_split (CHR ''/'') (workspace_url i @ CHR ''/'' # l @ CHR ''/'' # encode_uri x) = [[], ''v1'', ''workspaces'', encode_uri i, l, encode_uri x]"
    if "plain_segment l" for l
    using split_workspace_url [of "[]" "[]" i] split_workspace_url [of "[]" "[Lit l]" i]
      split_workspace_url [of "[encode_uri x]" "[Lit l, Capture]" i] that plain by simp_all
  note facts = workspace_request_simps r_def workspace_routes_def Let_def match_route_def ws_path_def decoded_def q_def
    decode_encode_uri plain lits
  have first: "workspace_url i \<noteq> ''/v1/workspaces''" by (simp add: workspace_url_def)
  show "route e c out (r ''GET'' [] [] qs body) d w = (get_workspace e c (r ''GET'' [] [] qs body) i d, w)"
    "route e c out (r ''PATCH'' [] [] qs body) d w = (rename_workspace e c (r ''PATCH'' [] [] qs body) i d, w)"
    "route e c out (r ''DELETE'' [] [] qs body) d w = (delete_workspace e c (r ''DELETE'' [] [] qs body) i d, w)"
    unfolding r_def by (subst route_workspace_request; simp add: facts split(1) [OF lits(1)])+
  show "route e c out (r ''GET'' [Lit ''timeline''] [] qs body) d w =
       handle_workspace_timeline e c (replica_fetch out) (r ''GET'' [Lit ''timeline''] [] qs body) i d w"
    "route e c out (r ''GET'' [Lit ''tasks''] [] qs body) d w =
       handle_workspace_tasks e c (replica_fetch out) (r ''GET'' [Lit ''tasks''] [] qs body) i d w"
    "route e c out (r ''GET'' [Lit ''invites''] [] qs body) d w = (list_invites_handler e c (r ''GET'' [Lit ''invites''] [] qs body) i d, w)"
    unfolding r_def by (subst route_workspace_request; simp add: facts split(2))+
  have "workspace_url i @ ''/invites'' \<noteq> ''/v1/workspaces''" by (simp add: workspace_url_def)
  then show "route e c out (r ''POST'' [Lit ''invites''] [] qs body) d w = (mint_invite_handler e c (r ''POST'' [Lit ''invites''] [] qs body) i d, w)"
    unfolding r_def using not_join [of i "''invites''"] by (subst route_workspace_request; simp add: facts split(2))+
  show "route e c out (r ''DELETE'' [Lit ''invites'', Capture] [x] qs body) d w =
       (revoke_invite_handler e c (r ''DELETE'' [Lit ''invites'', Capture] [x] qs body) i x d, w)"
    "route e c out (r ''PATCH'' [Lit ''members'', Capture] [x] qs body) d w =
       (set_member_role e c (r ''PATCH'' [Lit ''members'', Capture] [x] qs body) i x d, w)"
    "route e c out (r ''DELETE'' [Lit ''members'', Capture] [x] qs body) d w =
       (remove_member_handler e c (r ''DELETE'' [Lit ''members'', Capture] [x] qs body) i x d, w)"
    unfolding r_def by (subst route_workspace_request; simp add: facts split(3) [OF lits(3), simplified] split(3) [OF lits(4), simplified])+
qed

text \<open>What a call asks for.\<close>

definition recorder :: "request list fetch" where
  "recorder req reqs = (None, reqs @ [req])"

definition sent :: "(request list fetch \<Rightarrow> ('a, request list) call) \<Rightarrow> request" where
  "sent f = hd (snd (f recorder []))"

lemma sent_ask [simp]: "sent (\<lambda>f. ask f req k) = req"
  by (simp add: sent_def ask_def recorder_def)

lemma sent_workspace:
  "sent (\<lambda>f. get_workspace_detail f ck i) = workspace_request ck ''GET'' i [] [] [] None"
  "sent (\<lambda>f. rename_my_workspace f ck i n) = workspace_request ck ''PATCH'' i [] [] [] (Some (JObj [(''name'', JStr n)]))"
  "sent (\<lambda>f. delete_my_workspace f ck i) = workspace_request ck ''DELETE'' i [] [] [] None"
  "sent (\<lambda>f. get_workspace_timeline f ck i l b) = workspace_request ck ''GET'' i [Lit ''timeline''] []
     ((''limit'', nat_str (case l of None \<Rightarrow> 50 | Some n \<Rightarrow> n)) # (if truthy b then [(''before'', the b)] else [])) None"
  "sent (\<lambda>f. get_workspace_tasks f ck i) = workspace_request ck ''GET'' i [Lit ''tasks''] [] [] None"
  "sent (\<lambda>f. list_workspace_invites f ck i) = workspace_request ck ''GET'' i [Lit ''invites''] [] [] None"
  "sent (\<lambda>f. mint_workspace_invite f ck i v) = workspace_request ck ''POST'' i [Lit ''invites''] [] [] (Some v)"
  "sent (\<lambda>f. revoke_workspace_invite f ck i x) = workspace_request ck ''DELETE'' i [Lit ''invites'', Capture] [x] [] None"
  "sent (\<lambda>f. set_workspace_role f ck i x rl) = workspace_request ck ''PATCH'' i [Lit ''members'', Capture] [x] []
     (Some (JObj [(''role'', JStr (role_text rl))]))"
  "sent (\<lambda>f. remove_workspace_member f ck i x) = workspace_request ck ''DELETE'' i [Lit ''members'', Capture] [x] [] None"
  by (simp_all add: workspace_request_def get_workspace_detail_def rename_my_workspace_def delete_my_workspace_def
      get_workspace_timeline_def get_workspace_tasks_def list_workspace_invites_def mint_workspace_invite_def
      revoke_workspace_invite_def set_workspace_role_def remove_workspace_member_def)

lemma split_key_url: "js_split (CHR ''/'') (''/v1/account/keys/'' @ encode_uri x) = [[], ''v1'', ''account'', ''keys'', encode_uri x]"
  using js_split_fill [of "[]" "[encode_uri x]" account_key_path] plain_encoded [of x]
  by (simp add: plain_segment_def account_key_path_def)

lemma reach_account:
  fixes w :: 'w
  assumes "x \<noteq> []"
  shows "route e c out (browser_request ck ''GET'' ''/account/me'' qs body) d w =
      (handle_account_me e c (browser_request ck ''GET'' ''/account/me'' qs body) d, w)"
    "route e c out (browser_request ck ''GET'' ''/v1/account/workspaces'' qs body) d w =
      (list_workspaces e c (browser_request ck ''GET'' ''/v1/account/workspaces'' qs body) d, w)"
    "route e c out (browser_request ck ''POST'' ''/v1/workspaces'' qs body) d w =
      (create_workspace e c (browser_request ck ''POST'' ''/v1/workspaces'' qs body) d, w)"
    "route e c out (browser_request ck ''GET'' ''/v1/account/keys'' qs body) d w =
      (handle_account_keys_list e c (browser_request ck ''GET'' ''/v1/account/keys'' qs body) d, w)"
    "route e c out (browser_request ck ''POST'' ''/v1/account/keys'' qs body) d w =
      (handle_account_key_issue e c (browser_request ck ''POST'' ''/v1/account/keys'' qs body) d, w)"
    "route e c out (browser_request ck ''DELETE'' (''/v1/account/keys/'' @ encode_uri x) qs body) d w =
      (handle_account_key_revoke e c (browser_request ck ''DELETE'' (''/v1/account/keys/'' @ encode_uri x) qs body) x d, w)"
proof -
  note facts = route_def first_of_append browser_routes_def account_routes_def workspace_routes_def Let_def browser_request_def
    is_asset_path_def is_spa_path_def under_def starts_with_def match_route_def clone_page_def derived_path_def account_key_path_def
    decoded_def decode_encode_uri
  show "route e c out (browser_request ck ''GET'' ''/account/me'' qs body) d w =
      (handle_account_me e c (browser_request ck ''GET'' ''/account/me'' qs body) d, w)"
    "route e c out (browser_request ck ''GET'' ''/v1/account/workspaces'' qs body) d w =
      (list_workspaces e c (browser_request ck ''GET'' ''/v1/account/workspaces'' qs body) d, w)"
    "route e c out (browser_request ck ''POST'' ''/v1/workspaces'' qs body) d w =
      (create_workspace e c (browser_request ck ''POST'' ''/v1/workspaces'' qs body) d, w)"
    "route e c out (browser_request ck ''GET'' ''/v1/account/keys'' qs body) d w =
      (handle_account_keys_list e c (browser_request ck ''GET'' ''/v1/account/keys'' qs body) d, w)"
    "route e c out (browser_request ck ''POST'' ''/v1/account/keys'' qs body) d w =
      (handle_account_key_issue e c (browser_request ck ''POST'' ''/v1/account/keys'' qs body) d, w)"
    by (simp_all add: facts)
  show "route e c out (browser_request ck ''DELETE'' (''/v1/account/keys/'' @ encode_uri x) qs body) d w =
      (handle_account_key_revoke e c (browser_request ck ''DELETE'' (''/v1/account/keys/'' @ encode_uri x) qs body) x d, w)"
    using split_key_url [of x] encoded_nonempty [OF assms] by (simp add: facts)
qed

text \<open>
  Client and gateway agree: the request that each of the client's calls sends is routed to the
  handler of that operation, on the very ids it was called with, whatever characters they hold,
  slashes and percent signs included. (The ids of one or two dots are excluded: a browser resolves
  such a segment away.)
\<close>

lemma calls_reach_their_handlers:
  assumes "i \<notin> {[], ''.'', ''..''}" "x \<notin> {[], ''.'', ''..''}"
  shows "
    route e c out (sent (\<lambda>f. get_me f ck)) d w = (handle_account_me e c (sent (\<lambda>f. get_me f ck)) d, w) \<and>
    route e c out (sent (\<lambda>f. list_my_workspaces f ck)) d w = (list_workspaces e c (sent (\<lambda>f. list_my_workspaces f ck)) d, w) \<and>
    route e c out (sent (\<lambda>f. create_my_workspace f ck name)) d w = (create_workspace e c (sent (\<lambda>f. create_my_workspace f ck name)) d, w) \<and>
    route e c out (sent (\<lambda>f. get_workspace_detail f ck i)) d w = (get_workspace e c (sent (\<lambda>f. get_workspace_detail f ck i)) i d, w) \<and>
    route e c out (sent (\<lambda>f. get_workspace_timeline f ck i limit before)) d w = handle_workspace_timeline e c (replica_fetch out) (sent (\<lambda>f. get_workspace_timeline f ck i limit before)) i d w \<and>
    route e c out (sent (\<lambda>f. get_workspace_tasks f ck i)) d w = handle_workspace_tasks e c (replica_fetch out) (sent (\<lambda>f. get_workspace_tasks f ck i)) i d w \<and>
    route e c out (sent (\<lambda>f. list_workspace_invites f ck i)) d w = (list_invites_handler e c (sent (\<lambda>f. list_workspace_invites f ck i)) i d, w) \<and>
    route e c out (sent (\<lambda>f. mint_workspace_invite f ck i opts)) d w = (mint_invite_handler e c (sent (\<lambda>f. mint_workspace_invite f ck i opts)) i d, w) \<and>
    route e c out (sent (\<lambda>f. revoke_workspace_invite f ck i x)) d w = (revoke_invite_handler e c (sent (\<lambda>f. revoke_workspace_invite f ck i x)) i x d, w) \<and>
    route e c out (sent (\<lambda>f. set_workspace_role f ck i x rl)) d w = (set_member_role e c (sent (\<lambda>f. set_workspace_role f ck i x rl)) i x d, w) \<and>
    route e c out (sent (\<lambda>f. remove_workspace_member f ck i x)) d w = (remove_member_handler e c (sent (\<lambda>f. remove_workspace_member f ck i x)) i x d, w) \<and>
    route e c out (sent (\<lambda>f. delete_my_workspace f ck i)) d w = (delete_workspace e c (sent (\<lambda>f. delete_my_workspace f ck i)) i d, w) \<and>
    route e c out (sent (\<lambda>f. rename_my_workspace f ck i name)) d w = (rename_workspace e c (sent (\<lambda>f. rename_my_workspace f ck i name)) i d, w) \<and>
    route e c out (sent (\<lambda>f. list_keys f ck)) d w = (handle_account_keys_list e c (sent (\<lambda>f. list_keys f ck)) d, w) \<and>
    route e c out (sent (\<lambda>f. issue_key f ck opts)) d w = (handle_account_key_issue e c (sent (\<lambda>f. issue_key f ck opts)) d, w) \<and>
    route e c out (sent (\<lambda>f. revoke_key f ck x)) d w = (handle_account_key_revoke e c (sent (\<lambda>f. revoke_key f ck x)) x d, w)"
proof -
  have n: "i \<noteq> []" "x \<noteq> []" using assms by simp_all
  show ?thesis
    unfolding sent_workspace reach_workspace [OF n] get_me_def list_my_workspaces_def create_my_workspace_def list_keys_def
      issue_key_def revoke_key_def q_def sent_ask reach_account [OF n(2)]
    by (intro conjI refl)
qed

lemma calls_reach_their_handlers_witness:
  "route (ex_env 5) ex_config ex_outside (sent (\<lambda>f. revoke_workspace_invite f None ''wsp/../1'' ''inv 1'')) ex_db 0 =
    (revoke_invite_handler (ex_env 5) ex_config (sent (\<lambda>f. revoke_workspace_invite f None ''wsp/../1'' ''inv 1'')) ''wsp/../1'' ''inv 1'' ex_db, 0)"
proof -
  have n: "''wsp/../1'' \<notin> {[], ''.'', ''..''}" "''inv 1'' \<notin> {[], ''.'', ''..''}" by simp_all
  show ?thesis
    by (rule calls_reach_their_handlers [OF n, THEN conjunct2, THEN conjunct2, THEN conjunct2, THEN conjunct2, THEN conjunct2,
          THEN conjunct2, THEN conjunct2, THEN conjunct2, THEN conjunct1])
qed

subsection \<open>From creating to listing\<close>

definition signed_in :: "env \<Rightarrow> gateway_config \<Rightarrow> string option \<Rightarrow> string \<Rightarrow> bool" where
  "signed_in e c ck account \<longleftrightarrow> truthy (gc_session_secret c) \<and>
     (\<exists>s. read_account e ck (the (gc_session_secret c)) = Some (Some s) \<and> se_account_id s = account)"

definition session_of :: "string \<Rightarrow> principal" where
  "session_of account = \<lparr>pr_account_id = account, pr_via = Session, pr_read_only = False, pr_scoped = False, pr_token_id = None\<rparr>"

lemma signed_in_resolves:
  "signed_in e c ck account \<Longrightarrow> resolve_principal e c d (browser_request ck m p qs body) = Some (Some (session_of account))"
  by (auto simp: signed_in_def resolve_principal_def resolve_key_principal_def bearer_token_def browser_request_def
      resolve_session_principal_def session_of_def)

lemma session_of_simps [simp]:
  "pr_account_id (session_of a) = a" "\<not> pr_read_only (session_of a)" "\<not> pr_scoped (session_of a)"
  by (simp_all add: session_of_def)

lemma read_json_sent:
  assumes "wf_json (JObj ms)"
  shows "read_json (browser_request ck m p qs (Some (JObj ms))) cap = Body (JObj ms) \<or>
    read_json (browser_request ck m p qs (Some (JObj ms))) cap = Too_large"
proof -
  have "json_parse (stringify (JObj ms)) = Some (JObj ms)" by (rule parse_stringify [OF assms])
  moreover have "read_chunks cap 0 [stringify (JObj ms)] \<in> {None, Some (stringify (JObj ms))}"
    by (simp add: read_chunks_iff)
  moreover have "stringify (JObj ms) \<noteq> []" by simp
  ultimately show ?thesis
    by (auto simp: read_json_def read_body_def browser_request_def is_obj_def simp del: stringify.simps)
qed

lemma created_store:
  assumes "db_ok d" "create_store e d a n = Inr (d', sid)"
  shows "\<lparr>as_store_id = sid, as_role = Owner, as_name = n, as_invite_reachable = False, as_member_count = 1\<rparr>
    \<in> set (list_account_stores d' a)"
proof -
  define st where "st = \<lparr>s_id = sid, s_invite_reachable = False, s_name = n, s_created_by = a, s_created_at = now_iso e\<rparr>"
  define mb where "mb = \<lparr>m_store_id = sid, m_account_id = a, m_role = Owner, m_joined_at = now_iso e\<rparr>"
  have fresh: "sid \<notin> s_id ` set (stores d)" and d': "d' = d\<lparr>stores := stores d @ [st], memberships := memberships d @ [mb]\<rparr>"
    using assms(2)
    by (auto simp: create_store_def Let_def and_then_Inr insert_store_def insert_membership_def st_def mb_def split: if_splits)
  have "\<forall>m \<in> set (memberships d). m_store_id m \<noteq> sid"
    using assms(1) fresh by (auto simp: db_ok_def refs_ok_def has_store_def)
  then have "filter (\<lambda>m. m_store_id m = sid) (memberships d) = []" by (simp add: filter_empty_conv)
  then have count: "member_count d' sid = 1" by (simp add: member_count_def d' mb_def)
  have "(mb, st) \<in> set (concat (map (\<lambda>m. map (Pair m) (filter (\<lambda>s. s_id s = m_store_id m) (stores d')))
      (filter (\<lambda>m. m_account_id m = a) (memberships d'))))"
    by (auto simp: d' mb_def st_def)
  then show ?thesis
    unfolding list_account_stores_def
    by (intro image_eqI [of _ _ "(mb, st)", THEN set_map [THEN equalityD2, THEN subsetD]])
      (simp_all add: count mb_def st_def)
qed

definition workspace_row :: "account_store \<Rightarrow> json" where
  "workspace_row s =
     JObj [(''workspaceId'', JStr (as_store_id s)), (''eventsUrl'', JStr (events_url (as_store_id s))),
       (''role'', JStr (role_text (as_role s))), (''name'', json_opt (as_name s)),
       (''inviteReachable'', JBool (as_invite_reachable s)), (''memberCount'', JNum (int (as_member_count s)))]"

lemma wf_json_opt [simp]: "wf_json (json_opt x)"
  by (cases x) (simp_all add: json_opt_def)

lemma wf_workspace_row: "wf_json (workspace_row s)"
  by (simp add: workspace_row_def)

lemma listed_workspaces:
  assumes "signed_in e c ck a"
  shows "list_my_workspaces (serve_gateway e c out) ck (d, w) =
    (Inr (Some (JArr (map workspace_row (list_account_stores d a)))), (d, w))"
proof -
  let ?v = "JObj [(''workspaces'', JArr (map workspace_row (list_account_stores d a)))]"
  have "wf_json ?v" by (simp add: list_all_iff wf_workspace_row)
  then have p: "json_parse (stringify ?v) = Some ?v" by (rule parse_stringify)
  have "list_workspaces e c (browser_request ck ''GET'' ''/v1/account/workspaces'' [] None) d = (Some (Json 200 ?v), d)"
    by (simp add: list_workspaces_def as_caller_def signed_in_resolves [OF assms] reply_def workspace_row_def)
  then show ?thesis
    by (simp add: list_my_workspaces_def ask_def serve_seen reach_account(2) [of "''x''"] seen_def ok_def ok_status_def
        body_member_def body_json_def p jget_def del: stringify.simps)
qed

lemma created_workspace:
  assumes "signed_in e c ck a" "create_my_workspace (serve_gateway e c out) ck name (d, w) = (Inr v, (d', w'))"
  shows "\<exists>sid. create_store e d a (if name = [] then None else Some name) = Inr (d', sid) \<and>
    jget ''workspaceId'' v = Some (JStr sid) \<and> w' = w"
proof -
  let ?ms = "if name = [] then [] else [(''name'', JStr name)]"
  let ?r = "browser_request ck ''POST'' ''/v1/workspaces'' [] (Some (JObj ?ms))"
  let ?n = "if name = [] then None else Some name"
  obtain h d1 where h: "create_workspace e c ?r d = (h, d1)" by fastforce
  have body: "read_json ?r max_json_body \<in> {Body (JObj ?ms), Too_large}"
    using read_json_sent [of ?ms ck "''POST''" "''/v1/workspaces''" "[]" max_json_body] by auto
  have seen: "(case seen ((h, d1), w) of (Some r, s1) \<Rightarrow> (ok ''POST /v1/workspaces'' r (body_json r), s1) | (None, s1) \<Rightarrow> (Inl Offline, s1)) = (Inr v, (d', w'))"
    using assms(2) h
    by (simp add: create_my_workspace_def ask_def serve_seen reach_account(3) [of "''x''"] split: option.splits)
  have "\<exists>sid. create_store e d a ?n = Inr (d1, sid) \<and> h = Some (Json 201 (JObj [(''workspaceId'', JStr sid),
      (''eventsUrl'', JStr (events_url sid)), (''role'', JStr ''owner''), (''inviteReachable'', JBool False)]))"
  proof -
    have no: "h \<noteq> Some (send_error n m)" if "\<not> ok_status n" for n m
      using seen that by (auto simp: seen_def send_error_def ok_def Let_def)
    have err: "\<not> ok_status 413" "\<not> ok_status 400" "\<not> ok_status 500" by (simp_all add: ok_status_def)
    have none: "h \<noteq> None"
    proof
      assume "h = None"
      then show False using seen err by (simp add: seen_def send_error_def ok_def Let_def)
    qed
    show ?thesis
      using h body none no [OF err(1), of "''bad request''"]
        no [OF err(2), of "''name must be a string of at most 200 characters''"]
      by (auto simp: create_workspace_def as_caller_def signed_in_resolves [OF assms(1)] with_json_def refuse_def jget_def
          run_sql_def thrown_def reply_def split: if_splits sum.splits)
  qed
  then obtain sid where sid: "create_store e d a ?n = Inr (d1, sid)" and hs: "h = Some (Json 201 (JObj [(''workspaceId'', JStr sid),
      (''eventsUrl'', JStr (events_url sid)), (''role'', JStr ''owner''), (''inviteReachable'', JBool False)]))" by blast
  have "json_parse (stringify (JObj [(''workspaceId'', JStr sid), (''eventsUrl'', JStr (events_url sid)),
      (''role'', JStr ''owner''), (''inviteReachable'', JBool False)])) = Some (JObj [(''workspaceId'', JStr sid),
      (''eventsUrl'', JStr (events_url sid)), (''role'', JStr ''owner''), (''inviteReachable'', JBool False)])"
    by (rule parse_stringify) simp
  then have "d1 = d'" "w' = w" "jget ''workspaceId'' v = Some (JStr sid)"
    using seen by (auto simp: hs seen_def ok_def ok_status_def body_json_def jget_def simp del: stringify.simps)
  then show ?thesis using sid by blast
qed

text \<open>
  C21. What one creates one sees: when the client's call to create a workspace answers, the next
  listing by the same account, at any later time while the session lasts, holds a workspace of the
  very id that was answered, with the caller as its owner and only member, the name that was given,
  and no invite.
\<close>

theorem created_workspace_is_listed:
  assumes "db_ok d" "signed_in e c ck a" "signed_in e' c ck' a"
    and "create_my_workspace (serve_gateway e c out) ck name (d, w) = (Inr v, (d', w'))"
  shows "\<exists>sid rows. jget ''workspaceId'' v = Some (JStr sid) \<and>
    list_my_workspaces (serve_gateway e' c out') ck' (d', w') = (Inr (Some (JArr rows)), (d', w')) \<and>
    workspace_row \<lparr>as_store_id = sid, as_role = Owner, as_name = (if name = [] then None else Some name),
      as_invite_reachable = False, as_member_count = 1\<rparr> \<in> set rows"
  using created_workspace [OF assms(2,4)] created_store [OF assms(1)] listed_workspaces [OF assms(3), of out' d' w'] by fastforce

definition ex_cookie :: "string option" where
  "ex_cookie = Some (account_cookie_name @ ''='' @ sign_value (ex_env 5)
     (session_json (ex_env 5) \<lparr>se_account_id = ''acc_a'', se_email = ''a@x''\<rparr>) ''s'')"

lemma ex_signed_in: "t \<in> {5, 6} \<Longrightarrow> signed_in (ex_env t) ex_config ex_cookie ''acc_a''"
proof -
  assume t: "t \<in> {5, 6}"
  have "\<forall>k p. byte_list (hmac (ex_env 5) k p)" "hmac (ex_env t) = hmac (ex_env 5)"
    by (simp_all add: ex_env_def byte_list_def)
  from session_cookie_reads [OF this, of "\<lparr>se_account_id = ''acc_a'', se_email = ''a@x''\<rparr>" "''s''"] t
  show ?thesis by (auto simp: signed_in_def ex_cookie_def ex_config_def truthy_def ex_env_def session_ttl_ms_def)
qed

lemma ex_create: "\<exists>v d' w'. create_my_workspace (serve_gateway (ex_env 5) ex_config ex_outside) ex_cookie [] (ex_db, 0) = (Inr v, (d', w'))"
proof -
  have id: "new_id Wsp (replicate 9 0) \<noteq> ''wsp_1''" by code_simp
  have "\<exists>d' sid. create_store (ex_env 5) ex_db ''acc_a'' None = Inr (d', sid)"
    using id by (auto simp: create_store_def Let_def insert_store_def insert_membership_def ex_defs has_account_def has_store_def is_member_def)
  then obtain d' sid where c: "create_store (ex_env 5) ex_db ''acc_a'' None = Inr (d', sid)" by blast
  let ?v = "JObj [(''workspaceId'', JStr sid), (''eventsUrl'', JStr (events_url sid)), (''role'', JStr ''owner''), (''inviteReachable'', JBool False)]"
  have p: "json_parse (stringify ?v) = Some ?v" by (rule parse_stringify) simp
  have "stringify (JObj []) = ''{}''" by simp
  then have b: "read_json (browser_request ex_cookie ''POST'' ''/v1/workspaces'' [] (Some (JObj []))) max_json_body = Body (JObj [])"
    using parse_stringify [of "JObj []"]
    by (simp add: read_json_def read_body_def browser_request_def max_json_body_def is_obj_def)
  have "create_workspace (ex_env 5) ex_config (browser_request ex_cookie ''POST'' ''/v1/workspaces'' [] (Some (JObj []))) ex_db =
      (Some (Json 201 ?v), d')"
    using c by (simp add: create_workspace_def as_caller_def signed_in_resolves [OF ex_signed_in] with_json_def b jget_def run_sql_def reply_def)
  then show ?thesis
    by (simp add: create_my_workspace_def ask_def serve_seen reach_account(3) [of "''x''"] seen_def ok_def ok_status_def body_json_def p
        del: stringify.simps)
qed

theorem created_workspace_is_listed_witness:
  "\<exists>d' w' rows sid. list_my_workspaces (serve_gateway (ex_env 6) ex_config ex_outside) ex_cookie (d', w') = (Inr (Some (JArr rows)), (d', w')) \<and>
     workspace_row \<lparr>as_store_id = sid, as_role = Owner, as_name = None, as_invite_reachable = False, as_member_count = 1\<rparr> \<in> set rows"
proof -
  obtain v d' w' where c: "create_my_workspace (serve_gateway (ex_env 5) ex_config ex_outside) ex_cookie [] (ex_db, 0) = (Inr v, (d', w'))"
    using ex_create by blast
  show ?thesis
    using created_workspace_is_listed [OF ex_ok(1) ex_signed_in ex_signed_in c, of 6 ex_outside] by auto
qed

end
