(* ===== verification/Web_App.thy ===== *)
theory Web_App
  imports Web_Api
begin

text \<open>
  \<open>packages/web/src/App.tsx\<close>: the app's shell. The state is the hook state of \<open>App\<close>, the location
  of \<open>Web_Router\<close> and the requests that are open; requests end in any order. After every change the
  reconciliation effect runs. A screen says what is shown, without its markup. The example account
  and workspaces are those of \<open>mock.ts\<close>; \<open>dev\<close> is \<open>MOCK_ENABLED\<close>, the build's development flag.
\<close>

subsection \<open>State\<close>

record me =
  me_account_id :: string
  me_email :: string
  me_personal_store_id :: string

record workspace =
  w_id :: string
  w_events_url :: string
  w_role :: role
  w_name :: "string option"
  w_invite_reachable :: bool
  w_member_count :: nat

definition mock_me :: me where
  "mock_me = \<lparr>me_account_id = ''acc_mock'', me_email = ''you@example.com'', me_personal_store_id = ''psm_mock_0000000000''\<rparr>"

definition mock_workspaces :: "workspace list" where
  "mock_workspaces =
     [\<lparr>w_id = ''wsp_mock_launch'', w_events_url = ''/v1/projects/wsp_mock_launch/events'', w_role = Owner,
       w_name = Some ''product-launch'', w_invite_reachable = True, w_member_count = 3\<rparr>,
      \<lparr>w_id = ''wsp_mock_notes'', w_events_url = ''/v1/projects/wsp_mock_notes/events'', w_role = Owner,
       w_name = Some ''my-notes'', w_invite_reachable = False, w_member_count = 1\<rparr>]"

text \<open>Open requests: who is signed in, or the list of workspaces together with what waits for it.\<close>

datatype waiting = After_load | After_created | After_changed bool

datatype asked = Me_asked | List_asked waiting

text \<open>\<open>ap_me\<close> is \<open>None\<close> while loading and \<open>Some None\<close> when nobody is signed in.\<close>

record app =
  ap_me :: "me option option"
  ap_workspaces :: "workspace list"
  ap_new_open :: bool
  ap_settings_open :: bool
  ap_account_open :: bool
  ap_location :: location
  ap_asked :: "asked list"

definition app_start :: "location \<Rightarrow> app" where
  "app_start l = \<lparr>ap_me = None, ap_workspaces = [], ap_new_open = False, ap_settings_open = False,
     ap_account_open = False, ap_location = l, ap_asked = []\<rparr>"

abbreviation route_of :: "app \<Rightarrow> view" where
  "route_of a \<equiv> lo_view (ap_location a)"

definition current_tab :: "app \<Rightarrow> tab" where
  "current_tab a = (case route_of a of Workspace_view i t \<Rightarrow> t | Personal_view \<Rightarrow> Tab_timeline)"

definition demo :: "app \<Rightarrow> bool" where
  "demo a \<longleftrightarrow> ap_me a = Some None"

definition shown_workspaces :: "app \<Rightarrow> workspace list" where
  "shown_workspaces a = (if demo a then mock_workspaces else ap_workspaces a)"

definition head_of :: "'a list \<Rightarrow> 'a option" where
  "head_of xs = (case xs of [] \<Rightarrow> None | x # _ \<Rightarrow> Some x)"

definition route_workspace :: "app \<Rightarrow> string option" where
  "route_workspace a = (case route_of a of Workspace_view i t \<Rightarrow> i | Personal_view \<Rightarrow> None)"

definition selected :: "app \<Rightarrow> workspace option" where
  "selected a =
     (case find (\<lambda>w. Some (w_id w) = route_workspace a) (shown_workspaces a) of
        Some w \<Rightarrow> Some w
      | None \<Rightarrow> if demo a then head_of (shown_workspaces a) else None)"

definition app_navigate :: "view \<Rightarrow> bool \<Rightarrow> app \<Rightarrow> app" where
  "app_navigate v replace a = a\<lparr>ap_location := navigate v replace (ap_location a)\<rparr>"

subsection \<open>Loading\<close>

definition forced_demo :: "app \<Rightarrow> bool" where
  "forced_demo a \<longleftrightarrow>
     (let search = snd (lo_here (ap_location a))
      in form_get (if starts_with search ''?'' then drop 1 search else search) ''demo'' \<noteq> None)"

definition ask_list :: "waiting \<Rightarrow> app \<Rightarrow> app" where
  "ask_list k a = a\<lparr>ap_asked := ap_asked a @ [List_asked k]\<rparr>"

definition load :: "app \<Rightarrow> app" where
  "load a = (if forced_demo a then a\<lparr>ap_me := Some None\<rparr> else a\<lparr>ap_asked := ap_asked a @ [Me_asked]\<rparr>)"

definition closed :: "asked \<Rightarrow> app \<Rightarrow> app" where
  "closed r a = a\<lparr>ap_asked := remove1 r (ap_asked a)\<rparr>"

definition fall_back :: "bool \<Rightarrow> app \<Rightarrow> app" where
  "fall_back dev a = (if dev then a\<lparr>ap_me := Some (Some mock_me), ap_workspaces := mock_workspaces\<rparr> else a)"

definition me_answer :: "me option \<Rightarrow> app \<Rightarrow> app" where
  "me_answer m a =
     (let a = (closed Me_asked a)\<lparr>ap_me := Some m\<rparr> in if m = None then a else ask_list After_load a)"

definition me_failed :: "bool \<Rightarrow> app \<Rightarrow> app" where
  "me_failed dev a = fall_back dev (closed Me_asked a)"

definition list_answer :: "waiting \<Rightarrow> workspace list \<Rightarrow> app \<Rightarrow> app" where
  "list_answer k ws a =
     (let a = (closed (List_asked k) a)\<lparr>ap_workspaces := ws\<rparr>
      in if k = After_changed True
         then app_navigate (Workspace_view (map_option w_id (head_of ws)) Tab_timeline) True a
         else a)"

definition list_failed :: "bool \<Rightarrow> waiting \<Rightarrow> app \<Rightarrow> app" where
  "list_failed dev k a =
     (let a = closed (List_asked k) a in if k = After_load then fall_back dev a else a)"

subsection \<open>Reconciling the address with the list\<close>

definition listed :: "string option \<Rightarrow> workspace list \<Rightarrow> bool" where
  "listed i ws \<longleftrightarrow> (case i of None \<Rightarrow> False | Some x \<Rightarrow> list_ex (\<lambda>w. w_id w = x) ws)"

definition reconcile :: "app \<Rightarrow> app" where
  "reconcile a =
     (if ap_me a = None then a
      else (case route_of a of
          Personal_view \<Rightarrow> a
        | Workspace_view i t \<Rightarrow>
            (case shown_workspaces a of
               [] \<Rightarrow> a
             | first # others \<Rightarrow>
                 if \<not> listed i (first # others) then app_navigate (Workspace_view (Some (w_id first)) t) True a
                 else if to_path (route_of a) \<noteq> fst (lo_here (ap_location a)) then app_navigate (route_of a) True a
                 else a)))"

subsection \<open>What the user does\<close>

definition on_select :: "string \<Rightarrow> app \<Rightarrow> app" where
  "on_select i a = app_navigate (Workspace_view (Some i) (current_tab a)) False a"

definition on_select_personal :: "app \<Rightarrow> app" where
  "on_select_personal a = app_navigate Personal_view False a"

text \<open>\<open>None\<close>: the app is left for the login page.\<close>

definition on_create :: "app \<Rightarrow> app option" where
  "on_create a = (if demo a then None else Some (a\<lparr>ap_new_open := True\<rparr>))"

definition on_created :: "string \<Rightarrow> app \<Rightarrow> app" where
  "on_created i a = app_navigate (Workspace_view (Some i) Tab_timeline) False (ask_list After_created a)"

definition on_changed :: "bool \<Rightarrow> app \<Rightarrow> app" where
  "on_changed removed a = ask_list (After_changed removed) a"

definition on_tab_change :: "tab \<Rightarrow> app \<Rightarrow> app" where
  "on_tab_change t a =
     (case selected a of None \<Rightarrow> a | Some w \<Rightarrow> app_navigate (Workspace_view (Some (w_id w)) t) False a)"

subsection \<open>The screen\<close>

record sidebar_row =
  sr_id :: string
  sr_label :: string
  sr_members :: nat
  sr_active :: bool

record sidebar =
  sb_personal_active :: bool
  sb_rows :: "sidebar_row list"
  sb_account :: "string option"

definition sidebar_of :: "me \<Rightarrow> bool \<Rightarrow> workspace list \<Rightarrow> string option \<Rightarrow> bool \<Rightarrow> sidebar" where
  "sidebar_of m dm ws sel personal =
     \<lparr>sb_personal_active = personal,
      sb_rows = map (\<lambda>w. \<lparr>sr_id = w_id w, sr_label = (case w_name w of Some n \<Rightarrow> n | None \<Rightarrow> ''untitled''),
        sr_members = w_member_count w, sr_active = (\<not> personal \<and> Some (w_id w) = sel)\<rparr>) ws,
      sb_account = (if dm then None else Some (me_email m))\<rparr>"

record workspace_main =
  wm_id :: string
  wm_title :: string
  wm_shared :: bool
  wm_example :: bool
  wm_share :: bool
  wm_settings :: bool
  wm_tab :: tab

definition workspace_view :: "bool \<Rightarrow> workspace \<Rightarrow> tab \<Rightarrow> workspace_main" where
  "workspace_view dm w t =
     \<lparr>wm_id = w_id w, wm_title = (case w_name w of Some n \<Rightarrow> n | None \<Rightarrow> ''untitled''),
      wm_shared = w_invite_reachable w, wm_example = dm, wm_share = (\<not> dm),
      wm_settings = (\<not> dm \<and> w_role w = Owner), wm_tab = t\<rparr>"

datatype main = Personal_main "string option" | Workspace_main workspace_main | Empty_main

text \<open>The dialogs that stand open; a settings dialog needs a selected workspace.\<close>

record dialogs =
  dg_new :: bool
  dg_settings :: "string option"
  dg_account :: bool

datatype screen = Loading_screen | Shell sidebar main dialogs

definition app_screen :: "app \<Rightarrow> screen" where
  "app_screen a =
     (case ap_me a of
        None \<Rightarrow> Loading_screen
      | Some m \<Rightarrow>
          let account = (case m of Some x \<Rightarrow> x | None \<Rightarrow> mock_me); personal = (route_of a = Personal_view)
          in Shell (sidebar_of account (demo a) (shown_workspaces a) (map_option w_id (selected a)) personal)
               (if personal then Personal_main (if demo a then None else Some (me_personal_store_id account))
                else (case selected a of
                    Some w \<Rightarrow> Workspace_main (workspace_view (demo a) w (current_tab a))
                  | None \<Rightarrow> Empty_main))
               \<lparr>dg_new = (\<not> demo a \<and> ap_new_open a),
                dg_settings = (if \<not> demo a \<and> ap_settings_open a then map_option w_id (selected a) else None),
                dg_account = (\<not> demo a \<and> ap_account_open a)\<rparr>)"

subsection \<open>Runs\<close>

datatype app_event =
  Me_is "me option"
| Me_failed
| List_is waiting "workspace list"
| List_failed waiting
| Select string
| Select_personal
| Create
| Created string
| Changed_list bool
| Select_tab tab
| Go_back
| Go_forward
| Set_open bool bool bool

inductive app_acts :: "bool \<Rightarrow> app \<Rightarrow> app_event \<Rightarrow> app \<Rightarrow> bool" for dev where
  "Me_asked \<in> set (ap_asked a) \<Longrightarrow> app_acts dev a (Me_is m) (me_answer m a)"
| "Me_asked \<in> set (ap_asked a) \<Longrightarrow> app_acts dev a Me_failed (me_failed dev a)"
| "List_asked k \<in> set (ap_asked a) \<Longrightarrow> app_acts dev a (List_is k ws) (list_answer k ws a)"
| "List_asked k \<in> set (ap_asked a) \<Longrightarrow> app_acts dev a (List_failed k) (list_failed dev k a)"
| "ap_me a \<noteq> None \<Longrightarrow> app_acts dev a (Select i) (on_select i a)"
| "ap_me a \<noteq> None \<Longrightarrow> app_acts dev a Select_personal (on_select_personal a)"
| "ap_me a \<noteq> None \<Longrightarrow> on_create a = Some a' \<Longrightarrow> app_acts dev a Create a'"
| "ap_me a \<noteq> None \<Longrightarrow> \<not> demo a \<Longrightarrow> app_acts dev a (Created i) (on_created i a)"
| "ap_me a \<noteq> None \<Longrightarrow> \<not> demo a \<Longrightarrow> app_acts dev a (Changed_list removed) (on_changed removed a)"
| "ap_me a \<noteq> None \<Longrightarrow> app_acts dev a (Select_tab t) (on_tab_change t a)"
| "app_acts dev a Go_back (a\<lparr>ap_location := nav_step (ap_location a) Back\<rparr>)"
| "app_acts dev a Go_forward (a\<lparr>ap_location := nav_step (ap_location a) Forward\<rparr>)"
| "ap_me a \<noteq> None \<Longrightarrow>
   app_acts dev a (Set_open n s c) (a\<lparr>ap_new_open := n, ap_settings_open := s, ap_account_open := c\<rparr>)"

inductive_cases app_actsE: "app_acts dev a e a'"

inductive app_run :: "bool \<Rightarrow> app \<Rightarrow> app_event list \<Rightarrow> app \<Rightarrow> bool" for dev where
  start: "app_run dev a [] (reconcile (load a))"
| further: "app_run dev a es a1 \<Longrightarrow> app_acts dev a1 e a2 \<Longrightarrow> app_run dev a (es @ [e]) (reconcile a2)"

subsection \<open>The effect comes to rest\<close>

lemma app_navigate_simps [simp]:
  "route_of (app_navigate v r a) = v" "fst (lo_here (ap_location (app_navigate v r a))) = to_path v"
  "ap_me (app_navigate v r a) = ap_me a" "demo (app_navigate v r a) = demo a"
  "shown_workspaces (app_navigate v r a) = shown_workspaces a"
  "ap_workspaces (app_navigate v r a) = ap_workspaces a" "ap_asked (app_navigate v r a) = ap_asked a"
  by (simp_all add: app_navigate_def navigate_def Let_def demo_def shown_workspaces_def)

definition at_rest :: "app \<Rightarrow> bool" where
  "at_rest a \<longleftrightarrow> ap_me a = None \<or> route_of a = Personal_view \<or> shown_workspaces a = [] \<or>
     (listed (route_workspace a) (shown_workspaces a) \<and> fst (lo_here (ap_location a)) = to_path (route_of a))"

lemma reconcile_at_rest: "at_rest (reconcile a)"
  by (auto simp: reconcile_def at_rest_def route_workspace_def listed_def split: view.splits list.splits option.splits)

lemma at_rest_reconcile: "at_rest a \<Longrightarrow> reconcile a = a"
  by (auto simp: reconcile_def at_rest_def route_workspace_def split: view.splits list.splits)

lemma reconcile_keeps [simp]:
  "ap_me (reconcile a) = ap_me a" "demo (reconcile a) = demo a" "shown_workspaces (reconcile a) = shown_workspaces a"
  by (auto simp: reconcile_def split: view.splits list.splits)

lemma listed_selected:
  assumes "listed (route_workspace a) (shown_workspaces a)"
  shows "\<exists>w. selected a = Some w \<and> w \<in> set (shown_workspaces a) \<and> route_workspace a = Some (w_id w)"
proof -
  obtain i where i: "route_workspace a = Some i" "\<exists>w \<in> set (shown_workspaces a). w_id w = i"
    using assms by (auto simp: listed_def list_ex_iff split: option.splits)
  obtain w where "find (\<lambda>w. Some (w_id w) = route_workspace a) (shown_workspaces a) = Some w"
    using i by (cases "find (\<lambda>w. Some (w_id w) = route_workspace a) (shown_workspaces a)") (auto simp: find_None_iff)
  then show ?thesis using find_SomeD [of "\<lambda>w. Some (w_id w) = route_workspace a"] by (auto simp: selected_def i)
qed

lemma selected_shown: "selected a = Some w \<Longrightarrow> w \<in> set (shown_workspaces a)"
  by (auto simp: selected_def head_of_def dest: find_SomeD split: option.splits if_splits list.splits)

lemma demo_shows [simp]: "demo a \<Longrightarrow> shown_workspaces a \<noteq> []"
  by (simp add: shown_workspaces_def mock_workspaces_def)

subsection \<open>The query string stays\<close>

definition searches :: "string \<Rightarrow> location \<Rightarrow> bool" where
  "searches search l \<longleftrightarrow> list_all (\<lambda>e. snd e = search) (lo_here l # lo_back l @ lo_forward l)"

lemma searches_navigate: "searches s l \<Longrightarrow> searches s (navigate v r l)"
  by (auto simp: searches_def navigate_def Let_def)

lemma searches_nav_step: "searches s l \<Longrightarrow> searches s (nav_step l e)"
  by (cases e) (auto simp: searches_def navigate_def Let_def on_pop_def split: list.splits option.splits)

lemma searches_reconcile: "searches s (ap_location a) \<Longrightarrow> searches s (ap_location (reconcile a))"
  by (auto simp: reconcile_def app_navigate_def searches_navigate split: view.splits list.splits)

lemma searches_load: "ap_location (load a) = ap_location a"
  by (simp add: load_def)

lemma searches_acts: "app_acts dev a e a' \<Longrightarrow> searches s (ap_location a) \<Longrightarrow> searches s (ap_location a')"
  by (induction rule: app_acts.induct)
    (auto simp: me_answer_def me_failed_def list_answer_def list_failed_def fall_back_def closed_def ask_list_def on_select_def
      on_select_personal_def on_create_def on_created_def on_changed_def on_tab_change_def app_navigate_def searches_navigate
      searches_nav_step Let_def simp del: nav_step.simps split: option.splits if_splits)

lemma app_run_rests:
  assumes "app_run dev a es a'" "searches s (ap_location a)"
  shows "at_rest a' \<and> searches s (ap_location a')"
  using assms by induction (simp_all add: reconcile_at_rest searches_reconcile searches_load searches_acts)

subsection \<open>The screen and the address agree\<close>

definition screen_agrees :: "app \<Rightarrow> screen \<Rightarrow> bool" where
  "screen_agrees a s =
     (case s of
        Loading_screen \<Rightarrow> ap_me a = None
      | Shell sb main dg \<Rightarrow>
          (case main of
             Personal_main p \<Rightarrow> route_of a = Personal_view \<and> \<not> list_ex sr_active (sb_rows sb)
           | Empty_main \<Rightarrow> sb_rows sb = [] \<and> \<not> demo a
           | Workspace_main wm \<Rightarrow>
               list_ex (\<lambda>w. w_id w = wm_id wm) (shown_workspaces a) \<and>
               fst (lo_here (ap_location a)) = to_path (Workspace_view (Some (wm_id wm)) (wm_tab wm)) \<and>
               list_ex sr_active (sb_rows sb) \<and>
               list_all (\<lambda>r. sr_active r \<longleftrightarrow> sr_id r = wm_id wm) (sb_rows sb)) \<and>
          (demo a \<longrightarrow> dg = \<lparr>dg_new = False, dg_settings = None, dg_account = False\<rparr>))"

lemma rest_agrees:
  assumes "at_rest a"
  shows "screen_agrees a (app_screen a)"
proof (cases "ap_me a")
  case None
  then show ?thesis by (simp add: app_screen_def screen_agrees_def)
next
  case (Some m)
  consider (personal) "route_of a = Personal_view" | (empty) "route_of a \<noteq> Personal_view" "shown_workspaces a = []"
    | (listed) "route_of a \<noteq> Personal_view" "listed (route_workspace a) (shown_workspaces a)"
        "fst (lo_here (ap_location a)) = to_path (route_of a)"
    using assms Some by (auto simp: at_rest_def)
  then show ?thesis
  proof cases
    case personal
    then show ?thesis using Some
      by (auto simp: app_screen_def screen_agrees_def sidebar_of_def list_ex_iff Let_def)
  next
    case empty
    then have "selected a = None" "\<not> demo a" using selected_shown [of a] demo_shows [of a] by (cases "selected a"; auto)+
    then show ?thesis using Some empty by (simp add: app_screen_def screen_agrees_def sidebar_of_def Let_def)
  next
    case listed
    obtain w where w: "selected a = Some w" "w \<in> set (shown_workspaces a)" "route_workspace a = Some (w_id w)"
      using listed_selected [OF listed(2)] by blast
    have "route_of a = Workspace_view (Some (w_id w)) (current_tab a)"
      using w(3) by (auto simp: route_workspace_def current_tab_def split: view.splits)
    then show ?thesis using Some w listed(3)
      by (auto simp: app_screen_def screen_agrees_def sidebar_of_def workspace_view_def list_ex_iff list_all_iff Let_def)
  qed
qed

text \<open>
  C22. The app always lands: whatever address it was opened at, in whatever order the answers and
  failures come and whatever is clicked, the screen is the loading card, the personal page with no
  workspace marked, a workspace that is in the list, marked in the sidebar, at the very address
  that names it and its tab, or the empty page when there is no workspace; a visitor sees no
  dialog; the effect that corrects the address has come to rest, and the query string is still the
  one the app was opened with.
\<close>

theorem app_always_lands:
  assumes "mount (url, search) = Some l" "app_run dev (app_start l) es a"
  shows "screen_agrees a (app_screen a) \<and> reconcile a = a \<and> snd (lo_here (ap_location a)) = search"
proof -
  have "searches search (ap_location (app_start l))"
    using assms(1) by (auto simp: mount_def app_start_def searches_def)
  then have "at_rest a" "searches search (ap_location a)" using app_run_rests [OF assms(2)] by blast+
  then show ?thesis by (simp add: rest_agrees at_rest_reconcile searches_def)
qed

definition ex_location :: location where
  "ex_location = \<lparr>lo_back = [], lo_here = (''/app/wsp_gone'', ''?x=1''), lo_forward = [],
     lo_view = Workspace_view (Some ''wsp_gone'') Tab_timeline\<rparr>"

definition ex_app :: app where
  "ex_app = reconcile (list_answer After_load mock_workspaces (reconcile (me_answer (Some mock_me) (reconcile (load (app_start ex_location))))))"

lemma ex_mount: "mount (''/app/wsp_gone'', ''?x=1'') = Some ex_location"
  by code_simp

lemma ex_app_run: "app_run False (app_start ex_location) [Me_is (Some mock_me), List_is After_load mock_workspaces] ex_app"
proof -
  let ?a0 = "reconcile (load (app_start ex_location))" and ?a1 = "reconcile (me_answer (Some mock_me) (reconcile (load (app_start ex_location))))"
  have asked: "Me_asked \<in> set (ap_asked ?a0)" "List_asked After_load \<in> set (ap_asked ?a1)" by code_simp+
  have "app_run False (app_start ex_location) ([] @ [Me_is (Some mock_me)]) ?a1"
    by (rule app_run.further [OF app_run.start]) (rule app_acts.intros(1) [OF asked(1)])
  from app_run.further [OF this app_acts.intros(3) [OF asked(2), of _ mock_workspaces]] show ?thesis
    unfolding ex_app_def by (simp only: append.simps)
qed

theorem app_always_lands_witness:
  "fst (lo_here (ap_location ex_app)) = ''/app/wsp_mock_launch/timeline'' \<and> lo_back (ap_location ex_app) = [] \<and>
   screen_agrees ex_app (app_screen ex_app) \<and> snd (lo_here (ap_location ex_app)) = ''?x=1''"
proof -
  have "fst (lo_here (ap_location ex_app)) = ''/app/wsp_mock_launch/timeline'' \<and> lo_back (ap_location ex_app) = []"
    by code_simp
  then show ?thesis using app_always_lands [OF ex_mount ex_app_run] by blast
qed

subsection \<open>A new workspace\<close>

lemma reconcile_listed:
  "route_of a = Workspace_view (Some i) t \<Longrightarrow> listed (Some i) (shown_workspaces a) \<Longrightarrow> route_of (reconcile a) = Workspace_view (Some i) t"
  by (auto simp: reconcile_def split: list.splits)

lemma reconcile_unlisted:
  "ap_me a \<noteq> None \<Longrightarrow> route_of a = Workspace_view (Some i) t \<Longrightarrow> shown_workspaces a = w # ws \<Longrightarrow>
   \<not> listed (Some i) (w # ws) \<Longrightarrow> route_of (reconcile a) = Workspace_view (Some (w_id w)) t"
  by (auto simp: reconcile_def)

lemma list_answer_simps:
  "k \<noteq> After_changed True \<Longrightarrow> route_of (list_answer k ws a) = route_of a"
  "shown_workspaces (list_answer k ws a) = (if demo a then mock_workspaces else ws)"
  "ap_me (list_answer k ws a) = ap_me a"
  by (simp_all add: list_answer_def Let_def closed_def app_navigate_def shown_workspaces_def demo_def)

lemma on_created_simps:
  "route_of (on_created i a) = Workspace_view (Some i) Tab_timeline"
  "shown_workspaces (on_created i a) = shown_workspaces a" "ap_me (on_created i a) = ap_me a"
  "demo (on_created i a) = demo a"
  by (simp_all add: on_created_def ask_list_def shown_workspaces_def demo_def)

text \<open>
  A workspace created beside others is not opened: the app goes to its address before the
  refreshed list has come, the effect does not find the id in the old list and replaces the address
  by the first workspace's, and there the app stays when the refreshed list, with the new workspace
  in it, comes. A first workspace is opened, the effect having nothing to replace it by.
\<close>

lemma created_workspace_is_not_opened:
  assumes "ap_me a = Some (Some m)" "\<not> listed (Some i) (ap_workspaces a)" "listed (Some i) fresh"
    and "\<And>w. w \<in> set (ap_workspaces a) \<Longrightarrow> listed (Some (w_id w)) fresh"
  shows "route_of (reconcile (list_answer After_created fresh (reconcile (on_created i a)))) =
    Workspace_view (Some (case ap_workspaces a of [] \<Rightarrow> i | w # ws \<Rightarrow> w_id w)) Tab_timeline"
proof -
  let ?b = "reconcile (on_created i a)" and ?j = "case ap_workspaces a of [] \<Rightarrow> i | w # ws \<Rightarrow> w_id w"
  have d: "\<not> demo a" "shown_workspaces a = ap_workspaces a" using assms(1) by (simp_all add: demo_def shown_workspaces_def)
  have b: "route_of ?b = Workspace_view (Some ?j) Tab_timeline"
  proof (cases "ap_workspaces a")
    case Nil
    then show ?thesis by (simp add: reconcile_def on_created_simps d)
  next
    case (Cons w ws)
    then show ?thesis
      using reconcile_unlisted [of "on_created i a" i Tab_timeline w ws] assms(1,2) by (simp add: on_created_simps d)
  qed
  have "listed (Some ?j) fresh" using assms(3,4) by (cases "ap_workspaces a") auto
  then show ?thesis
    by (intro reconcile_listed) (simp_all add: list_answer_simps b on_created_simps d)
qed

lemma created_workspace_is_not_opened_witness:
  "route_of (reconcile (list_answer After_created
      (mock_workspaces @ [\<lparr>w_id = ''wsp_new'', w_events_url = [], w_role = Owner, w_name = None, w_invite_reachable = False, w_member_count = 1\<rparr>])
      (reconcile (on_created ''wsp_new'' ex_app)))) = Workspace_view (Some ''wsp_mock_launch'') Tab_timeline"
proof -
  have ws: "ap_workspaces ex_app = mock_workspaces" and m: "ap_me ex_app = Some (Some mock_me)" by code_simp+
  show ?thesis
    by (subst created_workspace_is_not_opened [OF m])
      (auto simp: ws listed_def mock_workspaces_def)
qed

end
