(* ===== verification/Web_Chat.thy ===== *)
theory Web_Chat
  imports Web_Board
begin

text \<open>
  \<open>packages/web/src/components/canvas/TimelineTab.tsx\<close>: the timeline in the manner of a chat. Days
  and runs of one author, what a bubble says, and the effects that keep the scroll position.
  \<open>localeCompare\<close>, the local midnight of a timestamp and the text of a date are arguments.
\<close>

subsection \<open>Items\<close>

datatype memory_kind = Decision | Rationale | Progress

datatype session_verb = Started | Resumed | Paused | Completed

datatype body =
  Memory_consolidated memory_kind string
| Memory_retracted string
| Decision_accepted string
| Task_created string
| Task_updated string task_status
| Handoff_created string
| Session session_verb string

record item =
  it_id :: string
  it_at :: string
  it_member :: string
  it_writer :: "string option"
  it_source_id :: "string option"
  it_source_label :: "string option"
  it_body :: body

definition is_session :: "item \<Rightarrow> bool" where
  "is_session i = (case it_body i of Session v a \<Rightarrow> True | _ \<Rightarrow> False)"

fun session_verb_text :: "session_verb \<Rightarrow> string" where
  "session_verb_text Started = ''started a session''"
| "session_verb_text Resumed = ''resumed a session''"
| "session_verb_text Paused = ''paused a session''"
| "session_verb_text Completed = ''finished a session''"

fun kind_label :: "memory_kind \<Rightarrow> string" where
  "kind_label Decision = ''Decision''"
| "kind_label Rationale = ''Why''"
| "kind_label Progress = ''Progress''"

fun status_text :: "task_status \<Rightarrow> string" where
  "status_text Todo = ''todo''"
| "status_text In_progress = ''in_progress''"
| "status_text Handoff_ready = ''handoff_ready''"
| "status_text Blocked = ''blocked''"
| "status_text Done = ''done''"
| "status_text Cancelled = ''cancelled''"

text \<open>\<open>replace\<close> with a string replaces its first occurrence.\<close>

fun first_underscore :: "string \<Rightarrow> string" where
  "first_underscore [] = []"
| "first_underscore (c # cs) = (if c = CHR ''_'' then CHR '' '' # cs else c # first_underscore cs)"

record bubble =
  bb_badge :: "string option"
  bb_body :: string
  bb_muted :: bool

definition describe :: "item \<Rightarrow> bubble" where
  "describe i =
     (case it_body i of
        Memory_consolidated k t \<Rightarrow> \<lparr>bb_badge = Some (kind_label k), bb_body = t, bb_muted = False\<rparr>
      | Memory_retracted t \<Rightarrow> \<lparr>bb_badge = Some ''Retracted'', bb_body = t, bb_muted = True\<rparr>
      | Decision_accepted t \<Rightarrow> \<lparr>bb_badge = Some ''Decision'', bb_body = t, bb_muted = False\<rparr>
      | Task_created t \<Rightarrow> \<lparr>bb_badge = Some ''New task'', bb_body = t, bb_muted = False\<rparr>
      | Task_updated t s \<Rightarrow> \<lparr>bb_badge = Some (first_underscore (status_text s)), bb_body = t, bb_muted = False\<rparr>
      | Handoff_created t \<Rightarrow> \<lparr>bb_badge = Some ''Handoff'', bb_body = t, bb_muted = False\<rparr>
      | Session v a \<Rightarrow> \<lparr>bb_badge = None, bb_body = [], bb_muted = False\<rparr>)"

text \<open>The parts of the line under a bubble.\<close>

definition provenance :: "item \<Rightarrow> string list" where
  "provenance i =
     map the (filter truthy [it_writer i, case it_source_label i of Some l \<Rightarrow> Some l | None \<Rightarrow> it_source_id i])"

text \<open>The parts of a session's line, the time apart.\<close>

definition system_line :: "item \<Rightarrow> string list option" where
  "system_line i =
     (case it_body i of
        Session v a \<Rightarrow>
          Some ((a @ '' '' @ session_verb_text v) #
            (case (case it_source_label i of Some l \<Rightarrow> Some l | None \<Rightarrow> it_source_id i) of
               Some s \<Rightarrow> if s = [] then [] else [s] | None \<Rightarrow> []))
      | _ \<Rightarrow> None)"

subsection \<open>Runs of one author\<close>

datatype group = Messages string "item list" | System item

fun group_items :: "group \<Rightarrow> item list" where
  "group_items (Messages m xs) = xs"
| "group_items (System i) = [i]"

definition extend_groups :: "group list \<Rightarrow> item \<Rightarrow> group list" where
  "extend_groups gs i =
     (if is_session i then gs @ [System i]
      else (case rev gs of
          Messages m xs # r \<Rightarrow>
            if m = it_member i then rev r @ [Messages m (xs @ [i])] else gs @ [Messages (it_member i) [i]]
        | _ \<Rightarrow> gs @ [Messages (it_member i) [i]]))"

definition group_by_author :: "item list \<Rightarrow> group list" where
  "group_by_author items = foldl extend_groups [] items"

subsection \<open>Days\<close>

definition by_time :: "(string \<Rightarrow> string \<Rightarrow> int) \<Rightarrow> item \<Rightarrow> item \<Rightarrow> int" where
  "by_time collate a b = collate (it_at a) (it_at b)"

fun add_to_day :: "string \<Rightarrow> item \<Rightarrow> (string \<times> item list) list \<Rightarrow> (string \<times> item list) list" where
  "add_to_day l i [] = [(l, [i])]"
| "add_to_day l i ((l', xs) # ds) = (if l = l' then (l', xs @ [i]) # ds else (l', xs) # add_to_day l i ds)"

definition group_by_day ::
  "(string \<Rightarrow> string \<Rightarrow> int) \<Rightarrow> (string \<Rightarrow> string) \<Rightarrow> item list \<Rightarrow> (string \<times> item list) list" where
  "group_by_day collate label items =
     foldl (\<lambda>ds i. add_to_day (label (it_at i)) i ds) [] (js_sort (by_time collate) items)"

text \<open>\<open>Math.round\<close> of a quotient: halves go up.\<close>

definition js_round_quotient :: "int \<Rightarrow> int \<Rightarrow> int" where
  "js_round_quotient n d = (2 * n + d) div (2 * d)"

definition day_label :: "(int \<Rightarrow> int) \<Rightarrow> (int \<Rightarrow> string) \<Rightarrow> int \<Rightarrow> int \<Rightarrow> string" where
  "day_label midnight text_of today t =
     (let n = js_round_quotient (midnight today - midnight t) 86400000
      in if n = 0 then ''Today'' else if n = 1 then ''Yesterday'' else text_of t)"

definition members_of_timeline :: "item list \<Rightarrow> string list" where
  "members_of_timeline items = uniq (map it_member items)"

definition visible_items :: "string option \<Rightarrow> item list \<Rightarrow> item list" where
  "visible_items member items =
     (if truthy member then filter (\<lambda>i. it_member i = the member) items else items)"

definition member_chip :: "string \<Rightarrow> string \<Rightarrow> string" where
  "member_chip me_email m = (if m = me_email then ''Me'' else short_name m)"

subsection \<open>Scrolling\<close>

record scroll =
  sc_did_initial :: bool
  sc_newest :: "string option"
  sc_anchor :: "int option"

text \<open>The effect on the visible items: whether it scrolls to the end.\<close>

definition bottom_effect :: "item list \<Rightarrow> scroll \<Rightarrow> bool \<times> scroll" where
  "bottom_effect visible s =
     (if visible = [] then (False, s)
      else let newest = Some (it_id (last visible))
           in if \<not> sc_did_initial s then (True, s\<lparr>sc_did_initial := True, sc_newest := newest\<rparr>)
              else if newest \<noteq> sc_newest s then (True, s\<lparr>sc_newest := newest\<rparr>)
              else (False, s))"

text \<open>The sentinel comes into view: the height is kept and older items are asked for.\<close>

definition sentinel :: "bool \<Rightarrow> bool \<Rightarrow> bool \<Rightarrow> int \<Rightarrow> scroll \<Rightarrow> bool \<times> scroll" where
  "sentinel intersecting has_more loading_older height s =
     (if intersecting \<and> has_more \<and> \<not> loading_older then (True, s\<lparr>sc_anchor := Some height\<rparr>) else (False, s))"

text \<open>After the items have changed: the new scroll position.\<close>

definition anchor_effect :: "int \<Rightarrow> int \<Rightarrow> scroll \<Rightarrow> int \<times> scroll" where
  "anchor_effect pos height s =
     (case sc_anchor s of None \<Rightarrow> (pos, s) | Some h \<Rightarrow> (pos + (height - h), s\<lparr>sc_anchor := None\<rparr>))"

subsection \<open>Every item once\<close>

lemma extend_groups_items: "concat (map group_items (extend_groups gs i)) = concat (map group_items gs) @ [i]"
proof (cases "rev gs")
  case (Cons g r)
  then have "gs = rev r @ [g]" by simp
  then show ?thesis by (cases g) (simp_all add: extend_groups_def)
qed (simp add: extend_groups_def)

lemma groups_concat: "concat (map group_items (foldl extend_groups gs items)) = concat (map group_items gs) @ items"
  by (induction items arbitrary: gs) (simp_all add: extend_groups_items)

text \<open>What a run is: sessions stand alone, the others by author, and no two runs of one author touch.\<close>

fun run_ok :: "group \<Rightarrow> bool" where
  "run_ok (Messages m xs) = (xs \<noteq> [] \<and> list_all (\<lambda>i. \<not> is_session i \<and> it_member i = m) xs)"
| "run_ok (System i) = is_session i"

definition author_of :: "group \<Rightarrow> string option" where
  "author_of g = (case g of Messages m xs \<Rightarrow> Some m | System i \<Rightarrow> None)"

definition runs_ok :: "group list \<Rightarrow> bool" where
  "runs_ok gs \<longleftrightarrow> list_all run_ok gs \<and> successively (\<lambda>g h. author_of g = None \<or> author_of g \<noteq> author_of h) gs"

lemma runs_ok_snoc:
  "runs_ok (gs @ [g]) \<longleftrightarrow> runs_ok gs \<and> run_ok g \<and> (gs = [] \<or> author_of (last gs) = None \<or> author_of (last gs) \<noteq> author_of g)"
  by (auto simp: runs_ok_def successively_append_iff)

lemma extend_groups_ok:
  assumes "runs_ok gs"
  shows "runs_ok (extend_groups gs i)"
proof (cases "rev gs")
  case Nil
  then have "gs = []" by simp
  then show ?thesis by (simp add: extend_groups_def runs_ok_def author_of_def)
next
  case (Cons g r)
  then have gs: "gs = rev r @ [g]" by simp
  then have end_gs: "gs \<noteq> []" "last gs = g" by simp_all
  have r: "runs_ok (rev r)" "run_ok g" "rev r = [] \<or> author_of (last (rev r)) = None \<or> author_of (last (rev r)) \<noteq> author_of g"
    using assms unfolding gs runs_ok_snoc by blast+
  show ?thesis
  proof (cases "is_session i \<or> (\<forall>m xs. g = Messages m xs \<longrightarrow> m \<noteq> it_member i)")
    case True
    let ?new = "if is_session i then System i else Messages (it_member i) [i]"
    have "extend_groups gs i = gs @ [?new]" using True Cons by (auto simp: extend_groups_def split: group.splits)
    moreover have "author_of g = None \<or> author_of g \<noteq> author_of ?new"
      using True by (auto simp: author_of_def split: group.splits)
    ultimately show ?thesis using assms end_gs by (simp only: runs_ok_snoc) simp
  next
    case False
    then obtain xs where g: "g = Messages (it_member i) xs" "\<not> is_session i" by blast
    then have "extend_groups gs i = rev r @ [Messages (it_member i) (xs @ [i])]" using Cons by (simp add: extend_groups_def)
    then show ?thesis using r g by (simp only: runs_ok_snoc) (simp add: author_of_def)
  qed
qed

lemma groups_ok: "runs_ok (group_by_author items)"
proof -
  have "runs_ok gs \<Longrightarrow> runs_ok (foldl extend_groups gs items)" for gs
    by (induction items arbitrary: gs) (simp_all add: extend_groups_ok)
  then show ?thesis by (simp add: group_by_author_def runs_ok_def)
qed

lemma add_to_day_groups:
  "distinct (map fst ds) \<Longrightarrow> set (map fst (add_to_day l i ds)) = insert l (set (map fst ds)) \<and> distinct (map fst (add_to_day l i ds)) \<and>
   (\<forall>k. concat (map snd (filter (\<lambda>d. fst d = k) (add_to_day l i ds))) =
     concat (map snd (filter (\<lambda>d. fst d = k) ds)) @ (if k = l then [i] else []))"
proof (induction ds)
  case (Cons d ds)
  have "filter (\<lambda>x. fst x = fst d) ds = []" using Cons.prems by (auto simp: filter_empty_conv image_iff)
  then show ?case using Cons by (cases d) auto
qed auto

text \<open>A day's section holds exactly the items with its label, in order.\<close>

lemma day_sections:
  "distinct (map fst (foldl (\<lambda>ds i. add_to_day (f i) i ds) [] xs)) \<and>
   set (map fst (foldl (\<lambda>ds i. add_to_day (f i) i ds) [] xs)) = f ` set xs \<and>
   (\<forall>k. concat (map snd (filter (\<lambda>d. fst d = k) (foldl (\<lambda>ds i. add_to_day (f i) i ds) [] xs))) = filter (\<lambda>i. f i = k) xs)"
proof (induction xs rule: rev_induct)
  case (snoc x xs)
  let ?ds = "foldl (\<lambda>ds i. add_to_day (f i) i ds) [] xs"
  have "distinct (map fst ?ds)" using snoc by blast
  from add_to_day_groups [OF this, of "f x" x] snoc show ?case by auto
qed simp

lemma section_of:
  assumes "distinct (map fst ds)" "(l, xs) \<in> set ds"
  shows "concat (map snd (filter (\<lambda>d. fst d = l) ds)) = xs"
  using assms
proof (induction ds)
  case (Cons d ds)
  show ?case
  proof (cases "d = (l, xs)")
    case True
    then have "filter (\<lambda>d. fst d = l) ds = []" using Cons.prems(1) by (force simp: filter_empty_conv)
    then show ?thesis using True by simp
  next
    case False
    then have mem: "(l, xs) \<in> set ds" using Cons.prems(2) by simp
    then have "l \<in> fst ` set ds" by force
    then have "fst d \<noteq> l" using Cons.prems(1) by auto
    then show ?thesis using Cons mem by simp
  qed
qed simp

lemma days_are:
  "group_by_day collate label items =
     map (\<lambda>l. (l, filter (\<lambda>i. label (it_at i) = l) (js_sort (by_time collate) items))) (map fst (group_by_day collate label items))"
  (is "?ds = _")
proof -
  note d = day_sections [of "\<lambda>i. label (it_at i)" "js_sort (by_time collate) items", folded group_by_day_def]
  have "d = (fst d, filter (\<lambda>i. label (it_at i) = fst d) (js_sort (by_time collate) items))" if "d \<in> set ?ds" for d
    using section_of [of ?ds "fst d" "snd d"] d that by (metis prod.collapse)
  then show ?thesis by (simp add: comp_def map_idI [symmetric])
qed

text \<open>
  C37. Every item once: the days together show the visible items without losing or doubling one;
  a day's heading appears once, never over nothing, and holds exactly the items with its label in
  the order of their times; and the runs of a day, put together, are the day, each run being one
  session's line or the consecutive bubbles of one author, no two runs of one author touching.
\<close>

theorem chat_shows_each_item_once:
  assumes "preorder_comparator collate"
  shows "mset (concat (map snd (group_by_day collate label items))) = mset items \<and>
    distinct (map fst (group_by_day collate label items)) \<and>
    (\<forall>(l, xs) \<in> set (group_by_day collate label items).
      xs \<noteq> [] \<and> xs = filter (\<lambda>i. label (it_at i) = l) (js_sort (by_time collate) items) \<and>
      sorted_wrt (\<lambda>a b. by_time collate a b \<le> 0) xs \<and>
      concat (map group_items (group_by_author xs)) = xs \<and> runs_ok (group_by_author xs))"
proof -
  let ?ds = "group_by_day collate label items" and ?s = "js_sort (by_time collate) items"
  note d = day_sections [of "\<lambda>i. label (it_at i)" ?s, folded group_by_day_def]
  have bt: "preorder_comparator (by_time collate)"
    using preorder_comparator.cmp_total [OF assms] preorder_comparator.cmp_trans [OF assms]
    by unfold_locales (auto simp: by_time_def)
  have "mset (concat (map snd ?ds)) = mset (concat (map (\<lambda>l. filter (\<lambda>i. label (it_at i) = l) ?s) (map fst ?ds)))"
    by (subst days_are) (simp add: comp_def)
  also have "\<dots> = mset ?s"
    by (rule mset_split_by) (use d in auto)
  finally have all: "mset (concat (map snd ?ds)) = mset items" by simp
  have each: "xs = filter (\<lambda>i. label (it_at i) = l) ?s \<and> xs \<noteq> []" if "(l, xs) \<in> set ?ds" for l xs
  proof -
    have x: "xs = filter (\<lambda>i. label (it_at i) = l) ?s" using section_of [of ?ds l xs] d that by metis
    have "l \<in> (\<lambda>i. label (it_at i)) ` set ?s" using d that by (metis (no_types, lifting) fst_conv imageI image_set)
    then show ?thesis using x by (auto simp: filter_empty_conv)
  qed
  have sorted: "sorted_wrt (\<lambda>a b. by_time collate a b \<le> 0) (filter P ?s)" for P
    by (rule sorted_wrt_filter) (rule preorder_comparator.sort_in_order [OF bt])
  have runs: "concat (map group_items (group_by_author xs)) = xs" for xs
    by (simp add: group_by_author_def groups_concat)
  show ?thesis using all d each sorted runs groups_ok by fast
qed

text \<open>Older items in front do not scroll to the end, and what was in view stays where it was.\<close>

lemma prepending_keeps_view:
  assumes "visible \<noteq> []" "bottom_effect visible s = (b, s')"
  shows "\<not> fst (bottom_effect (older @ visible) s')" "\<lbrakk>sentinel True True False h s' = (True, s2); sc_anchor s' = None\<rbrakk> \<Longrightarrow>
    h' - fst (anchor_effect pos h' s2) = h - pos"
  using assms by (auto simp: bottom_effect_def sentinel_def anchor_effect_def Let_def split: if_splits)

definition sample_item :: "string \<Rightarrow> string \<Rightarrow> string \<Rightarrow> body \<Rightarrow> item" where
  "sample_item i t m b = \<lparr>it_id = i, it_at = t, it_member = m, it_writer = None, it_source_id = None, it_source_label = None, it_body = b\<rparr>"

theorem chat_shows_each_item_once_witness:
  "let xs = [sample_item ''2'' ''02T1'' ''a'' (Task_created ''t''), sample_item ''1'' ''01T9'' ''a'' (Task_created ''s''),
       sample_item ''3'' ''02T2'' ''a'' (Session Started ''x''), sample_item ''4'' ''02T3'' ''a'' (Task_created ''u'')]
   in map (\<lambda>(l, ys). (l, map (\<lambda>g. map it_id (group_items g)) (group_by_author ys))) (group_by_day compare_text (take 2) xs) =
       [(''01'', [[''1'']]), (''02'', [[''2''], [''3''], [''4'']])] \<and>
     mset (concat (map snd (group_by_day compare_text (take 2) xs))) = mset xs"
proof -
  have "preorder_comparator compare_text" by unfold_locales
  note t = chat_shows_each_item_once [OF this, of "take 2"]
  have "map (\<lambda>(l, ys). (l, map (\<lambda>g. map it_id (group_items g)) (group_by_author ys))) (group_by_day compare_text (take 2)
      [sample_item ''2'' ''02T1'' ''a'' (Task_created ''t''), sample_item ''1'' ''01T9'' ''a'' (Task_created ''s''),
       sample_item ''3'' ''02T2'' ''a'' (Session Started ''x''), sample_item ''4'' ''02T3'' ''a'' (Task_created ''u'')]) =
       [(''01'', [[''1'']]), (''02'', [[''2''], [''3''], [''4'']])]"
    by code_simp
  then show ?thesis using t unfolding Let_def by blast
qed

end
