(* ===== verification/Web_Canvas.thy ===== *)
theory Web_Canvas
  imports Web_Feed Web_App Web_Chat
begin

text \<open>
  \<open>packages/web/src/components/canvas/WorkspaceCanvas.tsx\<close> and \<open>ConnectTab.tsx\<close>: which tab a
  workspace shows and what stands in it, over the paging hook and the live feed. \<open>dev\<close> is the
  development flag of the build; the example data are arguments.
\<close>

subsection \<open>Tabs\<close>

definition tab_label :: "tab \<Rightarrow> string" where
  "tab_label t =
     (case t of Tab_timeline \<Rightarrow> ''Timeline'' | Tab_tasks \<Rightarrow> ''Tasks'' | Tab_talk \<Rightarrow> ''Talk''
      | Tab_decisions \<Rightarrow> ''Decisions'' | Tab_sources \<Rightarrow> ''Sources'' | Tab_connect \<Rightarrow> ''Connect'')"

definition tab_tbd :: "tab \<Rightarrow> bool" where
  "tab_tbd t \<longleftrightarrow> t \<in> {Tab_talk, Tab_decisions, Tab_sources}"

definition effective_tab :: "bool \<Rightarrow> tab \<Rightarrow> tab" where
  "effective_tab dm t = (if dm \<and> t = Tab_connect then Tab_timeline else t)"

record tab_button =
  tb_tab :: tab
  tb_active :: bool
  tb_tbd :: bool
  tb_divider :: bool

definition tab_bar :: "bool \<Rightarrow> tab \<Rightarrow> tab_button list" where
  "tab_bar dm t =
     map (\<lambda>(p, x). \<lparr>tb_tab = x, tb_active = (effective_tab dm t = x), tb_tbd = tab_tbd x,
        tb_divider = (tab_tbd x \<and> \<not> (case p of Some y \<Rightarrow> tab_tbd y | None \<Rightarrow> False))\<rparr>)
       (zip (None # map Some tabs) tabs) @
     (if dm then [] else [\<lparr>tb_tab = Tab_connect, tb_active = (effective_tab dm t = Tab_connect), tb_tbd = False, tb_divider = False\<rparr>])"

subsection \<open>What a tab shows\<close>

datatype empty_state = Busy string | Failed string string | Nothing_yet

definition empty_state :: "bool \<Rightarrow> bool \<Rightarrow> string option \<Rightarrow> string \<Rightarrow> string \<Rightarrow> empty_state" where
  "empty_state example loading err busy_title err_title =
     (if \<not> example \<and> loading then Busy busy_title
      else if \<not> example \<and> truthy err then Failed err_title (the err)
      else Nothing_yet)"

datatype 'k content =
  Connect_content
| Timeline_content "timeline_item list" bool bool
| Tasks_content "'k list"
| Empty_content empty_state
| Coming_soon string

record 'k canvas =
  cv_bar :: "tab_button list"
  cv_badge :: "string option"
  cv_content :: "'k content"

definition badge :: "bool \<Rightarrow> bool \<Rightarrow> string option" where
  "badge dev dm = (if dm then Some ''Example data'' else if dev then Some ''Mock data - dev only'' else None)"

definition workspace_canvas ::
  "bool \<Rightarrow> timeline_item list \<Rightarrow> 'k list \<Rightarrow> bool \<Rightarrow> tab \<Rightarrow> pager \<Rightarrow> 'k feed \<Rightarrow> 'k canvas" where
  "workspace_canvas dev mock_timeline mock_tasks dm t timeline tasks =
     (let example = (dev \<or> dm);
          items = (if example then mock_timeline else pa_items timeline);
          cards = (if example then mock_tasks else fe_items tasks)
      in \<lparr>cv_bar = tab_bar dm t, cv_badge = badge dev dm,
          cv_content = (case effective_tab dm t of
             Tab_connect \<Rightarrow> Connect_content
           | Tab_timeline \<Rightarrow>
               if items = []
               then Empty_content (empty_state example (pa_loading timeline) (pa_error timeline) ''Loading timeline'' ''Timeline unavailable'')
               else Timeline_content items (if example then False else pa_has_more timeline)
                 (if example then False else pa_loading_older timeline)
           | Tab_tasks \<Rightarrow>
               if cards = []
               then Empty_content (empty_state example (fe_loading tasks) (fe_error tasks) ''Loading tasks'' ''Tasks unavailable'')
               else Tasks_content cards
           | Tab_talk \<Rightarrow> Coming_soon ''Talk''
           | Tab_decisions \<Rightarrow> Coming_soon ''Decisions''
           | Tab_sources \<Rightarrow> Coming_soon ''Sources'')\<rparr>)"

text \<open>The two hooks of a canvas ask for nothing when it shows example data.\<close>

definition hooks_enabled :: "bool \<Rightarrow> bool \<Rightarrow> bool" where
  "hooks_enabled dev dm \<longleftrightarrow> \<not> (dev \<or> dm)"

subsection \<open>Connect\<close>

definition clone_url :: "string \<Rightarrow> string \<Rightarrow> string" where
  "clone_url origin i = origin @ ''/clone/'' @ i"

definition join_commands :: "string \<Rightarrow> string \<Rightarrow> string list" where
  "join_commands origin i =
     [''npm i -g @shakystar/memorize'', ''memorize login '' @ origin, ''memorize clone '' @ clone_url origin i]"

definition attach_commands :: "string \<Rightarrow> string \<Rightarrow> string list" where
  "attach_commands origin i =
     [''npm i -g @shakystar/memorize'', ''memorize login '' @ origin, ''memorize remote '' @ clone_url origin i]"

definition command_block :: "string list \<Rightarrow> string" where
  "command_block cmds = join [nl] cmds"

subsection \<open>Example data\<close>

text \<open>One button is active, and it is the tab whose content is shown.\<close>

lemma one_active_tab: "length (filter tb_active (tab_bar dm t)) = 1 \<and>
  map tb_tab (filter tb_active (tab_bar dm t)) = [effective_tab dm t]"
  by (cases t; cases dm) (simp_all add: tab_bar_def tabs_def effective_tab_def)

text \<open>In a release an account sees its own data, unlabelled, and a visitor the examples, labelled.\<close>

lemma example_data_is_labelled:
  "cv_badge (workspace_canvas dev mt mk dm t pg fd) = None \<longleftrightarrow> hooks_enabled dev dm"
  "hooks_enabled dev dm \<Longrightarrow> cv_content (workspace_canvas dev mt mk dm t pg fd) = Timeline_content xs m l \<Longrightarrow>
    xs = pa_items pg \<and> m = pa_has_more pg \<and> l = pa_loading_older pg"
  "hooks_enabled dev dm \<Longrightarrow> cv_content (workspace_canvas dev mt mk dm t pg fd) = Tasks_content ys \<Longrightarrow> ys = fe_items fd"
  "dm \<Longrightarrow> cv_content (workspace_canvas dev mt mk dm t pg fd) \<noteq> Connect_content"
  by (auto simp: workspace_canvas_def badge_def hooks_enabled_def effective_tab_def Let_def split: tab.splits if_splits)

text \<open>The canvas of the app's screen.\<close>

definition app_canvas :: "bool \<Rightarrow> timeline_item list \<Rightarrow> 'k list \<Rightarrow> pager \<Rightarrow> 'k feed \<Rightarrow> app \<Rightarrow> 'k canvas option" where
  "app_canvas dev mt mk pg fd a =
     (case app_screen a of
        Shell sb (Workspace_main wm) dg \<Rightarrow> Some (workspace_canvas dev mt mk (wm_example wm) (wm_tab wm) pg fd)
      | _ \<Rightarrow> None)"

text \<open>
  Example data is never silent: a canvas of a release build on the screen carries a badge
  exactly for a visitor who is not signed in; without the badge it holds the items and tasks of the
  live hooks and nothing else; and it offers the tab to connect a machine exactly then.
\<close>

lemma examples_are_badged:
  assumes "app_canvas False mt mk pg fd a = Some v"
  shows "(cv_badge v = None \<longleftrightarrow> \<not> demo a) \<and>
    (\<not> demo a \<longrightarrow> (\<forall>xs m l. cv_content v = Timeline_content xs m l \<longrightarrow> xs = pa_items pg \<and> m = pa_has_more pg \<and> l = pa_loading_older pg) \<and>
      (\<forall>ys. cv_content v = Tasks_content ys \<longrightarrow> ys = fe_items fd)) \<and>
    (Tab_connect \<in> tb_tab ` set (cv_bar v) \<longleftrightarrow> \<not> demo a) \<and> (demo a \<longrightarrow> cv_content v \<noteq> Connect_content)"
proof -
  obtain t where v: "v = workspace_canvas False mt mk (demo a) t pg fd"
    using assms by (auto simp: app_canvas_def app_screen_def workspace_view_def Let_def split: screen.splits main.splits option.splits if_splits)
  have bar: "Tab_connect \<in> tb_tab ` set (cv_bar v) \<longleftrightarrow> \<not> demo a"
    by (simp add: v workspace_canvas_def tab_bar_def tabs_def Let_def)
  have e: "hooks_enabled False (demo a) \<longleftrightarrow> \<not> demo a" by (simp add: hooks_enabled_def)
  have b: "cv_badge v = None \<longleftrightarrow> \<not> demo a" unfolding v example_data_is_labelled(1) e ..
  have live: "xs = pa_items pg \<and> m = pa_has_more pg \<and> l = pa_loading_older pg"
    if "\<not> demo a" "cv_content v = Timeline_content xs m l" for xs m l
    using example_data_is_labelled(2) [of False "demo a"] that unfolding e v by blast
  have cards: "ys = fe_items fd" if "\<not> demo a" "cv_content v = Tasks_content ys" for ys
    using example_data_is_labelled(3) [of False "demo a"] that unfolding e v by blast
  have "cv_content v \<noteq> Connect_content" if "demo a"
    using example_data_is_labelled(4) [OF that] unfolding v by blast
  then show ?thesis using b live cards bar by simp
qed

definition ex_visitor :: app where
  "ex_visitor = reconcile (me_answer None (reconcile (load (app_start ex_location))))"

lemma examples_are_badged_witness:
  "\<exists>v. app_canvas False [] [''task''] (pager_start \<lparr>ca_memory = [], ca_session = []\<rparr> ''k'')
      (feed_mount ''k'' False \<lparr>ca_memory = [], ca_session = []\<rparr>) ex_visitor = Some v \<and> cv_badge v = Some ''Example data'' \<and>
    cv_badge v \<noteq> None \<and> Tab_connect \<notin> tb_tab ` set (cv_bar v)"
proof -
  let ?c = "app_canvas False [] [''task''] (pager_start \<lparr>ca_memory = [], ca_session = []\<rparr> ''k'')
      (feed_mount ''k'' False \<lparr>ca_memory = [], ca_session = []\<rparr>) ex_visitor"
  have "map_option cv_badge ?c = Some (Some ''Example data'')" and d: "demo ex_visitor" by code_simp+
  then obtain v where v: "?c = Some v" "cv_badge v = Some ''Example data''" by auto
  show ?thesis using examples_are_badged [OF v(1)] v d by auto
qed

end
