(* ===== verification/Web_Dialogs.thy ===== *)
theory Web_Dialogs
  imports Web_App
begin

text \<open>
  The dialogs of the web app: \<open>NewWorkspaceDialog.tsx\<close>, \<open>SharePopover.tsx\<close>,
  \<open>WorkspaceSettings.tsx\<close>, \<open>AccountSettings.tsx\<close> and \<open>WorkspaceScopeSelect.tsx\<close> under
  \<open>packages/web/src/components\<close>. A dialog is its hook state and one function per thing that happens
  to it; the calls it makes are arguments, so that each may meet the world at a time of its own. An
  operation answers the new state, the callbacks it made, in order, and the world. Buttons are
  disabled while an operation runs, so operations do not overlap. An error is kept as the value the
  message is printed from; a name in an answer is read as the type it is cast to.
\<close>

subsection \<open>Errors and callbacks\<close>

text \<open>\<open>e.message\<close> and \<open>String(e)\<close>.\<close>

datatype complaint = Message api_error | Printed api_error

datatype callback = On_open_change bool | On_created "json option" | On_changed bool

definition jmember :: "string \<Rightarrow> json \<Rightarrow> api_error + json option" where
  "jmember k v = (if v = JNull then Inl Bad_body else Inr (jget k v))"

subsection \<open>A new workspace\<close>

record new_dialog =
  nd_name :: string
  nd_busy :: bool
  nd_error :: "complaint option"

definition submit :: "(string \<Rightarrow> (json, 'w) call) \<Rightarrow> new_dialog \<Rightarrow> 'w \<Rightarrow> new_dialog \<times> callback list \<times> 'w" where
  "submit create s w =
     (let s = s\<lparr>nd_busy := True, nd_error := None\<rparr>;
          (r, w1) = create (js_trim (nd_name s)) w
      in case and_then r (jmember ''workspaceId'') of
           Inl x \<Rightarrow> (s\<lparr>nd_error := Some (Message x), nd_busy := False\<rparr>, [], w1)
         | Inr i \<Rightarrow> (s\<lparr>nd_name := [], nd_busy := False\<rparr>, [On_open_change False, On_created i], w1))"

subsection \<open>Sharing and settings\<close>

record panel =
  pn_detail :: "json option"
  pn_busy :: bool
  pn_error :: "complaint option"

record share = panel +
  sh_open :: bool
  sh_link :: "string option"
  sh_copied :: bool

definition members_of :: "json \<Rightarrow> json list" where
  "members_of v = (case jget ''members'' v of Some (JArr ms) \<Rightarrow> ms | _ \<Rightarrow> [])"

definition is_owner :: "me \<Rightarrow> json option \<Rightarrow> bool" where
  "is_owner m detail =
     (case detail of
        None \<Rightarrow> False
      | Some v \<Rightarrow>
          (case find (\<lambda>x. jget_str ''accountId'' x = Some (me_account_id m)) (members_of v) of
             None \<Rightarrow> False | Some x \<Rightarrow> jget_str ''role'' x = Some ''owner''))"

text \<open>What stands beside a member: a menu, a button to leave, or the role.\<close>

datatype member_control = Role_menu bool | Leave_button | Role_label

definition member_control :: "me \<Rightarrow> json \<Rightarrow> json \<Rightarrow> member_control" where
  "member_control m v x =
     (let self = (jget_str ''accountId'' x = Some (me_account_id m))
      in if is_owner m (Some v) then Role_menu self
         else if self \<and> 1 < length (members_of v) then Leave_button else Role_label)"

text \<open>Choosing the role that a member has asks for nothing.\<close>

definition choose_role :: "role \<Rightarrow> role \<Rightarrow> role option" where
  "choose_role current r = (if current \<noteq> r then Some r else None)"

text \<open>\<open>run\<close> of the share popover and of the settings dialog.\<close>

definition share_run ::
  "(unit, 'w) call \<Rightarrow> (json, 'w) call \<Rightarrow> bool \<Rightarrow> share \<Rightarrow> 'w \<Rightarrow> share \<times> callback list \<times> 'w" where
  "share_run act get removed s w =
     (let s = s\<lparr>pn_busy := True, pn_error := None\<rparr>
      in case act w of
           (Inl x, w1) \<Rightarrow> (s\<lparr>pn_error := Some (Message x), pn_busy := False\<rparr>, [], w1)
         | (Inr _, w1) \<Rightarrow>
             if removed then (s\<lparr>sh_open := False, pn_busy := False\<rparr>, [On_changed True], w1)
             else (case get w1 of
                 (Inl x, w2) \<Rightarrow> (s\<lparr>pn_error := Some (Message x), pn_busy := False\<rparr>, [], w2)
               | (Inr v, w2) \<Rightarrow> (s\<lparr>pn_detail := Some v, pn_busy := False\<rparr>, [On_changed False], w2)))"

definition settings_run ::
  "(unit, 'w) call \<Rightarrow> (json, 'w) call \<Rightarrow> bool \<Rightarrow> panel \<Rightarrow> 'w \<Rightarrow> panel \<times> callback list \<times> 'w" where
  "settings_run act get removed s w =
     (let s = s\<lparr>pn_busy := True, pn_error := None\<rparr>
      in case act w of
           (Inl x, w1) \<Rightarrow> (s\<lparr>pn_error := Some (Message x), pn_busy := False\<rparr>, [], w1)
         | (Inr _, w1) \<Rightarrow>
             if removed then (s\<lparr>pn_busy := False\<rparr>, [On_changed True, On_open_change False], w1)
             else (case get w1 of
                 (Inl x, w2) \<Rightarrow> (s\<lparr>pn_error := Some (Message x), pn_busy := False\<rparr>, [], w2)
               | (Inr v, w2) \<Rightarrow> (s\<lparr>pn_detail := Some v, pn_busy := False\<rparr>, [On_changed False], w2)))"

definition share_opened :: "(json, 'w) call \<Rightarrow> share \<Rightarrow> 'w \<Rightarrow> share \<times> 'w" where
  "share_opened get s w =
     (let s = s\<lparr>sh_open := True, pn_error := None, sh_link := None, sh_copied := False\<rparr>
      in case get w of
           (Inl x, w1) \<Rightarrow> (s\<lparr>pn_error := Some (Printed x)\<rparr>, w1)
         | (Inr v, w1) \<Rightarrow> (s\<lparr>pn_detail := Some v\<rparr>, w1))"

definition settings_opened :: "(json, 'w) call \<Rightarrow> panel \<Rightarrow> 'w \<Rightarrow> panel \<times> 'w" where
  "settings_opened get s w =
     (let s = s\<lparr>pn_error := None\<rparr>
      in case get w of
           (Inl x, w1) \<Rightarrow> (s\<lparr>pn_error := Some (Printed x)\<rparr>, w1)
         | (Inr v, w1) \<Rightarrow> (s\<lparr>pn_detail := Some v\<rparr>, w1))"

text \<open>
  \<open>copyLink\<close>: an invite is minted once per opening of the popover. \<open>clip\<close> is the clipboard, which
  may refuse; \<open>undefined\<close> is what it is given when the answer has no link.
\<close>

definition copy_link ::
  "(json, 'w) call \<Rightarrow> (string \<Rightarrow> (unit, 'w) call) \<Rightarrow> share \<Rightarrow> 'w \<Rightarrow> share \<times> 'w" where
  "copy_link mint clip s w =
     (let s = s\<lparr>pn_busy := True, pn_error := None\<rparr>;
          (r, w1) = (if truthy (sh_link s) then (Inr (sh_link s), w)
                     else (let (r, w1) = mint w
                           in (and_then r (\<lambda>v. map_sum id (\<lambda>_. jget_str ''joinUrl'' v) (jmember ''joinUrl'' v)), w1)))
      in case r of
           Inl x \<Rightarrow> (s\<lparr>pn_error := Some (Message x), pn_busy := False\<rparr>, w1)
         | Inr url \<Rightarrow>
             (let s = s\<lparr>sh_link := url\<rparr>
              in case clip (case url of Some u \<Rightarrow> u | None \<Rightarrow> ''undefined'') w1 of
                   (Inl x, w2) \<Rightarrow> (s\<lparr>pn_error := Some (Message x), pn_busy := False\<rparr>, w2)
                 | (Inr _, w2) \<Rightarrow> (s\<lparr>sh_copied := True, pn_busy := False\<rparr>, w2)))"

subsection \<open>The account\<close>

datatype account_tab = Account_tab | Keys_tab

record account_dialog =
  ac_tab :: account_tab
  ac_keys :: "json list"
  ac_minted :: "json option"
  ac_label :: string
  ac_read_only :: bool
  ac_scopes :: "string list"
  ac_busy :: bool
  ac_error :: "complaint option"

definition active_keys :: "account_dialog \<Rightarrow> json list" where
  "active_keys s = filter (\<lambda>k. \<not> truthy (jget_str ''revokedAt'' k)) (ac_keys s)"

text \<open>\<open>setKeys(await listKeys())\<close>; the answer is a list, as it is cast to.\<close>

definition load_keys :: "(json option, 'w) call \<Rightarrow> account_dialog \<Rightarrow> 'w \<Rightarrow> (api_error + account_dialog) \<times> 'w" where
  "load_keys lst s w =
     (case lst w of
        (Inl x, w1) \<Rightarrow> (Inl x, w1)
      | (Inr v, w1) \<Rightarrow> (Inr (s\<lparr>ac_keys := (case v of Some (JArr ks) \<Rightarrow> ks | _ \<Rightarrow> [])\<rparr>), w1))"

definition account_opened :: "(json option, 'w) call \<Rightarrow> account_dialog \<Rightarrow> 'w \<Rightarrow> account_dialog \<times> 'w" where
  "account_opened lst s w =
     (let s = s\<lparr>ac_minted := None, ac_error := None, ac_tab := Account_tab\<rparr>
      in case load_keys lst s w of
           (Inl x, w1) \<Rightarrow> (s\<lparr>ac_error := Some (Printed x)\<rparr>, w1)
         | (Inr s1, w1) \<Rightarrow> (s1, w1))"

definition key_options :: "account_dialog \<Rightarrow> json" where
  "key_options s =
     JObj ([(''readOnly'', JBool (ac_read_only s))] @
       (if js_trim (ac_label s) = [] then [] else [(''label'', JStr (js_trim (ac_label s)))]) @
       (if ac_scopes s = [] then [] else [(''storeIds'', JArr (map JStr (ac_scopes s)))]))"

definition generate ::
  "(json \<Rightarrow> (json option, 'w) call) \<Rightarrow> (json option, 'w) call \<Rightarrow> account_dialog \<Rightarrow> 'w \<Rightarrow> account_dialog \<times> 'w" where
  "generate issue lst s w =
     (let s = s\<lparr>ac_busy := True, ac_error := None\<rparr>
      in case issue (key_options s) w of
           (Inl x, w1) \<Rightarrow> (s\<lparr>ac_error := Some (Message x), ac_busy := False\<rparr>, w1)
         | (Inr key, w1) \<Rightarrow>
             (let s = s\<lparr>ac_minted := key, ac_label := [], ac_read_only := False, ac_scopes := []\<rparr>
              in case load_keys lst s w1 of
                   (Inl x, w2) \<Rightarrow> (s\<lparr>ac_error := Some (Message x), ac_busy := False\<rparr>, w2)
                 | (Inr s2, w2) \<Rightarrow> (s2\<lparr>ac_busy := False\<rparr>, w2)))"

definition revoke ::
  "bool \<Rightarrow> (unit, 'w) call \<Rightarrow> (json option, 'w) call \<Rightarrow> account_dialog \<Rightarrow> 'w \<Rightarrow> account_dialog \<times> 'w" where
  "revoke confirmed act lst s w =
     (if \<not> confirmed then (s, w)
      else let s = s\<lparr>ac_busy := True\<rparr>
           in case act w of
                (Inl x, w1) \<Rightarrow> (s\<lparr>ac_error := Some (Message x), ac_busy := False\<rparr>, w1)
              | (Inr _, w1) \<Rightarrow>
                  (case load_keys lst s w1 of
                     (Inl x, w2) \<Rightarrow> (s\<lparr>ac_error := Some (Message x), ac_busy := False\<rparr>, w2)
                   | (Inr s2, w2) \<Rightarrow> (s2\<lparr>ac_busy := False\<rparr>, w2)))"

text \<open>A JavaScript set keeps the order of insertion.\<close>

definition toggle_scope :: "string \<Rightarrow> account_dialog \<Rightarrow> account_dialog" where
  "toggle_scope i s =
     s\<lparr>ac_scopes := (if i \<in> set (ac_scopes s) then removeAll i (ac_scopes s) else ac_scopes s @ [i])\<rparr>"

text \<open>The scope selector: its label, and each workspace with its mark.\<close>

definition scope_label :: "string list \<Rightarrow> string" where
  "scope_label sel =
     (if sel = [] then ''All workspaces (unscoped)''
      else nat_str (length sel) @ '' workspace'' @ (if 1 < length sel then ''s'' else []) @ '' selected'')"

definition scope_rows :: "workspace list \<Rightarrow> string list \<Rightarrow> (string \<times> string \<times> bool) list" where
  "scope_rows ws sel =
     map (\<lambda>w. (w_id w, (case w_name w of Some n \<Rightarrow> n | None \<Rightarrow> ''untitled''), w_id w \<in> set sel)) ws"

subsection \<open>Leaving, listing and issuing at the gateway\<close>

lemma left_workspace:
  assumes "db_ok d" "signed_in e c ck a" "i \<noteq> []" "a \<noteq> []"
    and "remove_workspace_member (serve_gateway e c out) ck i a (d, w) = (Inr (), (d', w'))"
  shows "member_role d' i a = None \<and> db_ok d' \<and> w' = w"
proof -
  let ?r = "workspace_request ck ''DELETE'' i [Lit ''members'', Capture] [a] [] None"
  obtain h d1 where h: "remove_member_handler e c ?r i a d = (h, d1)" by fastforce
  have req: "browser_request ck ''DELETE'' (workspace_url i @ ''/members/'' @ q a) [] None = ?r"
    by (simp add: workspace_request_def)
  have seen: "(case seen ((h, d1), w) of (Some r, s1) \<Rightarrow> ((if fst r = 409 then Inl (Refused
        ''The last owner cannot be removed: transfer ownership or delete the workspace.'')
      else ok ''DELETE member'' r (Inr ())), s1) | (None, s1) \<Rightarrow> (Inl Offline, s1)) = (Inr (), (d', w'))"
    using assms(5) unfolding remove_workspace_member_def ask_def req serve_seen reach_workspace(10) [OF assms(3,4)] h
    by (simp split: option.splits)
  have no: "h \<noteq> Some (send_error n m)" if "\<not> ok_status n" for n m
    using seen that by (auto simp: seen_def send_error_def ok_def Let_def split: if_splits)
  have none: "h \<noteq> None"
  proof
    assume "h = None"
    then show False using seen by (simp add: seen_def send_error_def ok_def ok_status_def Let_def)
  qed
  have err: "\<not> ok_status 404" "\<not> ok_status 409" by (simp_all add: ok_status_def)
  have p: "resolve_principal e c d ?r = Some (Some (session_of a))"
    unfolding workspace_request_def by (rule signed_in_resolves [OF assms(2)])
  have "d1 = snd (remove_member d i a) \<and> fst (remove_member d i a) = Changed"
    using h no [OF err(1), of "''not found''"] no [OF err(2), of "''transfer ownership or delete the workspace first''"] none
    by (auto simp: remove_member_handler_def as_caller_def p refuse_def no_content_def split: option.splits prod.splits change.splits)
  moreover have "d' = d1" "w' = w" using seen none by (auto simp: seen_def ok_def split: if_splits option.splits)
  ultimately have d': "d' = snd (remove_member d i a)" "fst (remove_member d i a) = Changed" "w' = w" by simp_all
  have "d' = d\<lparr>memberships := delete_where (\<lambda>m. m_store_id m = i \<and> m_account_id m = a) (memberships d)\<rparr>"
    using d' by (auto simp: remove_member_def split: option.splits if_splits)
  then have "member_role d' i a = None"
    by (auto simp: member_role_None is_member_def delete_where_def)
  then show ?thesis using db_ok_remove_member [OF assms(1), of i a] d' by simp
qed

lemma wf_token_summary: "wf_json (token_summary_json t)"
  by (simp add: token_summary_json_def list_all_iff)

lemma listed_keys:
  assumes "signed_in e c ck a"
  shows "list_keys (serve_gateway e c out) ck (d, w) =
    (Inr (Some (JArr (map token_summary_json (list_account_tokens d a)))), (d, w))"
proof -
  let ?v = "JObj [(''keys'', JArr (map token_summary_json (list_account_tokens d a)))]"
  have "wf_json ?v" by (simp add: list_all_iff wf_token_summary)
  then have p: "json_parse (stringify ?v) = Some ?v" by (rule parse_stringify)
  have "handle_account_keys_list e c (browser_request ck ''GET'' ''/v1/account/keys'' [] None) d = (Some (Json 200 ?v), d)"
    by (simp add: handle_account_keys_list_def account_principal_def as_caller_def signed_in_resolves [OF assms] reply_def)
  then show ?thesis
    by (simp add: list_keys_def ask_def serve_seen reach_account(4) [of "''x''"] seen_def ok_def ok_status_def
        body_member_def body_json_def p jget_def del: stringify.simps)
qed

lemma issued_via_client:
  assumes "signed_in e c ck a" "wf_json (JObj ms)"
    and "issue_key (serve_gateway e c out) ck (JObj ms) (d, w) = (Inr key, (d', w'))"
  shows "\<exists>k. issue_api_key e d a (case jget_str ''label'' (JObj ms) of Some l \<Rightarrow> if l = [] then None else Some l | None \<Rightarrow> None)
      (jget ''readOnly'' (JObj ms) = Some (JBool True)) (requested_stores d a (JObj ms)) = Inr (d', k) \<and>
    key = Some (JStr (ik_plaintext k)) \<and> w' = w"
proof -
  let ?r = "browser_request ck ''POST'' ''/v1/account/keys'' [] (Some (JObj ms))"
  obtain h d1 where h: "handle_account_key_issue e c ?r d = (h, d1)" by fastforce
  have body: "read_json ?r account_max_json \<in> {Body (JObj ms), Too_large}"
    using read_json_sent [OF assms(2), of ck "''POST''" "''/v1/account/keys''" "[]" account_max_json] by auto
  have seen: "(case seen ((h, d1), w) of (Some r, s1) \<Rightarrow> (ok ''POST /v1/account/keys'' r (body_member ''key'' r), s1) | (None, s1) \<Rightarrow> (Inl Offline, s1)) = (Inr key, (d', w'))"
    using assms(3) h
    by (simp add: issue_key_def ask_def serve_seen reach_account(5) [of "''x''"] split: option.splits)
  have no: "h \<noteq> Some (send_error 400 m)" for m
    using seen by (auto simp: seen_def send_error_def ok_def ok_status_def Let_def)
  have none: "h \<noteq> None"
  proof
    assume "h = None"
    then show False using seen by (simp add: seen_def send_error_def ok_def ok_status_def Let_def)
  qed
  obtain k where k: "issue_api_key e d a (case jget_str ''label'' (JObj ms) of Some l \<Rightarrow> if l = [] then None else Some l | None \<Rightarrow> None)
      (jget ''readOnly'' (JObj ms) = Some (JBool True)) (requested_stores d a (JObj ms)) = Inr (d1, k)"
    and hs: "h = Some (Json 201 (JObj [(''key'', JStr (ik_plaintext k))]))"
    using h body none no [of "''invalid JSON''"]
    by (auto simp: handle_account_key_issue_def account_principal_def as_caller_def signed_in_resolves [OF assms(1)]
        refuse_def run_sql_def thrown_def reply_def Let_def split: sum.splits)
  have "json_parse (stringify (JObj [(''key'', JStr (ik_plaintext k))])) = Some (JObj [(''key'', JStr (ik_plaintext k))])"
    by (rule parse_stringify) simp
  then have "d1 = d'" "w' = w" "key = Some (JStr (ik_plaintext k))"
    using seen by (auto simp: hs seen_def ok_def ok_status_def body_member_def body_json_def jget_def simp del: stringify.simps)
  then show ?thesis using k by blast
qed

subsection \<open>The key that is shown\<close>

text \<open>The scopes a form asks for that the account may ask for.\<close>

definition granted :: "db \<Rightarrow> string \<Rightarrow> account_dialog \<Rightarrow> string list" where
  "granted d a s = filter (\<lambda>i. i \<in> set (map as_store_id (list_account_stores d a))) (ac_scopes s)"

lemma requested_of_options: "requested_stores d a (key_options s) = granted d a s"
proof -
  have "concat (map (\<lambda>v. case v of JStr s \<Rightarrow> if s \<in> A then [s] else [] | _ \<Rightarrow> []) (map JStr xs)) = filter (\<lambda>s. s \<in> A) xs" for A xs
    by (induction xs) simp_all
  then show ?thesis by (simp add: requested_stores_def key_options_def granted_def jget_def Let_def)
qed

lemma options_read:
  "(case jget_str ''label'' (key_options s) of Some l \<Rightarrow> if l = [] then None else Some l | None \<Rightarrow> None) =
     (if js_trim (ac_label s) = [] then None else Some (js_trim (ac_label s)))"
  "(jget ''readOnly'' (key_options s) = Some (JBool True)) = ac_read_only s"
  by (simp_all add: key_options_def jget_str_def jget_def)

lemma wf_options: "wf_json (key_options s)"
  by (simp add: key_options_def list_all_iff)

lemma generated:
  assumes "signed_in e c ck a" "signed_in e' c ck' a"
    and "generate (issue_key (serve_gateway e c out) ck) (list_keys (serve_gateway e' c out') ck') s (d, w) = (s', (d', w'))"
    and "ac_error s' = None"
  shows "\<exists>k. issue_api_key e d a (if js_trim (ac_label s) = [] then None else Some (js_trim (ac_label s))) (ac_read_only s)
      (granted d a s) = Inr (d', k) \<and> ac_minted s' = Some (JStr (ik_plaintext k)) \<and>
    ac_keys s' = map token_summary_json (list_account_tokens d' a) \<and>
    ac_label s' = [] \<and> \<not> ac_read_only s' \<and> ac_scopes s' = [] \<and> \<not> ac_busy s'"
proof -
  let ?s = "s\<lparr>ac_busy := True, ac_error := None\<rparr>"
  have opts: "key_options ?s = key_options s" by (simp add: key_options_def)
  obtain r d1 w1 where r: "issue_key (serve_gateway e c out) ck (key_options s) (d, w) = (r, (d1, w1))" by (metis prod.exhaust)
  obtain key where key: "r = Inr key" using assms(3,4) by (auto simp: generate_def opts r Let_def split: sum.splits)
  obtain ms where ms: "key_options s = JObj ms" by (simp add: key_options_def)
  obtain k where k: "issue_api_key e d a (if js_trim (ac_label s) = [] then None else Some (js_trim (ac_label s))) (ac_read_only s)
      (granted d a s) = Inr (d1, k)" "key = Some (JStr (ik_plaintext k))" "w1 = w"
    using issued_via_client [OF assms(1) wf_options [of s, unfolded ms] r [unfolded ms key]]
    unfolding ms [symmetric] options_read requested_of_options by blast
  show ?thesis
    using assms(3) k by (auto simp: generate_def opts r key load_keys_def listed_keys [OF assms(2)] Let_def)
qed

text \<open>
  C23. The key shown is the key listed: when the form ends without an error, the key on display
  identifies the signed-in account, with the chosen read-only flag, for the chosen workspaces that
  the account belongs to, and for every store when that leaves none; the list below it holds an
  active row of that very key with its label and its scopes; and the form is empty again.
\<close>

theorem generated_key_is_listed:
  assumes "db_ok d" "signed_in e c ck a" "signed_in e' c ck' a"
    and "generate (issue_key (serve_gateway e c out) ck) (list_keys (serve_gateway e' c out') ck') s (d, w) = (s', (d', w'))"
    and "ac_error s' = None"
  shows "\<exists>key t. ac_minted s' = Some (JStr key) \<and>
    identify_token e d' key = Some \<lparr>ti_token_id = ts_id t, ti_account_id = a, ti_read_only = ac_read_only s\<rparr> \<and>
    (\<forall>i. token_covers_store d' (ts_id t) i \<longleftrightarrow> granted d a s = [] \<or> i \<in> set (granted d a s)) \<and>
    token_summary_json t \<in> set (active_keys s') \<and>
    ts_label t = (if js_trim (ac_label s) = [] then None else Some (js_trim (ac_label s))) \<and>
    set (ts_scopes t) = set (granted d a s) \<and>
    ac_label s' = [] \<and> ac_scopes s' = [] \<and> \<not> ac_read_only s'"
proof -
  let ?l = "if js_trim (ac_label s) = [] then None else Some (js_trim (ac_label s))"
  obtain k where k: "issue_api_key e d a ?l (ac_read_only s) (granted d a s) = Inr (d', k)"
    and s': "ac_minted s' = Some (JStr (ik_plaintext k))" "ac_keys s' = map token_summary_json (list_account_tokens d' a)"
      "ac_label s' = []" "\<not> ac_read_only s'" "ac_scopes s' = []"
    using generated [OF assms(2-5)] by blast
  note f = issue_effect [OF k] and works = issued_key_works [OF assms(1) k]
  let ?row = "issued_row e a ?l (ac_read_only s)"
  let ?t = "\<lparr>ts_id = t_id ?row, ts_prefix = t_prefix ?row, ts_label = t_label ?row, ts_read_only = t_read_only ?row,
     ts_revoked_at = t_revoked_at ?row, ts_last_used_at = t_last_used_at ?row, ts_scopes = list_token_scopes d' (t_id ?row)\<rparr>"
  have "?row \<in> set (filter (\<lambda>t. t_account_id t = a) (api_tokens d'))" by (simp add: f(1) issued_row_def)
  then have "?t \<in> set (list_account_tokens d' a)" unfolding list_account_tokens_def by auto
  moreover have "\<not> truthy (jget_str ''revokedAt'' (token_summary_json ?t))"
    by (simp add: token_summary_json_def issued_row_def jget_str_def jget_def json_opt_def truthy_def)
  ultimately have active: "token_summary_json ?t \<in> set (active_keys s')" by (simp add: active_keys_def s'(2))
  have fresh: "ik_token_id k \<notin> sc_token_id ` set (token_scopes d)"
    using assms(1) f(3) unfolding f(5) by (auto simp: db_ok_def refs_ok_def has_token_def)
  have "set (ts_scopes ?t) = sc_store_id ` {x \<in> set (token_scopes d'). sc_token_id x = ik_token_id k}"
    by (simp add: list_token_scopes_def f(5))
  also have "\<dots> = set (granted d a s)"
    using fresh by (auto simp: f(4) image_iff) force
  finally have scopes: "set (ts_scopes ?t) = set (granted d a s)" .
  have label: "ts_label ?t = ?l" by (simp add: issued_row_def)
  show ?thesis
    using works(2,3) s' active scopes label by (intro exI [of _ "ik_plaintext k"] exI [of _ ?t]) (simp add: f(5))
qed

subsection \<open>A scope that has gone stale\<close>

lemma share_left:
  assumes "db_ok d" "signed_in e c ck a" "i \<noteq> []" "a \<noteq> []"
    and "share_run (remove_workspace_member (serve_gateway e c out) ck i a) get True s (d, w) = (s', cbs, (d', w'))"
    and "pn_error s' = None"
  shows "member_role d' i a = None \<and> db_ok d' \<and> w' = w \<and> cbs = [On_changed True] \<and> \<not> sh_open s'"
proof -
  obtain r d1 w1 where r: "remove_workspace_member (serve_gateway e c out) ck i a (d, w) = (r, (d1, w1))" by (metis prod.exhaust)
  obtain u where u: "r = Inr u" using assms(5,6) by (auto simp: share_run_def r Let_def split: sum.splits)
  have "remove_workspace_member (serve_gateway e c out) ck i a (d, w) = (Inr (), (d1, w1))" using r u by simp
  from left_workspace [OF assms(1-4) this] show ?thesis
    using assms(5) r u by (auto simp: share_run_def Let_def)
qed

lemma not_member_not_listed: "member_role d i a = None \<Longrightarrow> i \<notin> set (map as_store_id (list_account_stores d a))"
  by (force simp: list_account_stores_def member_role_None is_member_def)

text \<open>
  C24. A stale scope widens: the account dialog keeps the workspaces that were ticked when it is
  closed and opened again. If the one ticked workspace has been left through the share popover in
  between, the selector still says that one is selected though the list no longer shows it, and
  the key that is then generated for it is a key to every store of the account.
\<close>

theorem stale_scope_widens:
  assumes "db_ok d" "signed_in e1 c ck1 a" "signed_in e3 c ck3 a" "signed_in e4 c ck4 a" "i \<noteq> []" "a \<noteq> []"
    and "share_run (remove_workspace_member (serve_gateway e1 c out) ck1 i a) get True p (d, w) = (p', cbs, (d1, w1))" "pn_error p' = None"
    and "account_opened lst (toggle_scope i s) w2 = (s2, w3)" "ac_scopes s = []"
    and "generate (issue_key (serve_gateway e3 c out) ck3) (list_keys (serve_gateway e4 c out) ck4) s2 (d1, w1) = (s3, (d2, w4))" "ac_error s3 = None"
  shows "scope_label (ac_scopes s2) = ''1 workspace selected'' \<and>
    (\<exists>key t. ac_minted s3 = Some (JStr key) \<and> identify_token e3 d2 key = Some t \<and> ti_account_id t = a \<and>
      (\<forall>j. token_covers_store d2 (ti_token_id t) j))"
proof -
  have left: "member_role d1 i a = None" "db_ok d1" using share_left [OF assms(1,2,5,6,7,8)] by simp_all
  have sc: "ac_scopes s2 = [i]"
    using assms(9,10) by (auto simp: account_opened_def toggle_scope_def load_keys_def Let_def split: sum.splits prod.splits)
  have none: "granted d1 a s2 = []"
    using not_member_not_listed [OF left(1)] by (simp add: granted_def sc)
  obtain k where k: "issue_api_key e3 d1 a (if js_trim (ac_label s2) = [] then None else Some (js_trim (ac_label s2)))
      (ac_read_only s2) [] = Inr (d2, k)" "ac_minted s3 = Some (JStr (ik_plaintext k))"
    using generated [OF assms(3,4,11,12)] unfolding none by blast
  have "nat_str 1 = ''1''" by code_simp
  then have "scope_label [i] = ''1 workspace selected''" by (simp add: scope_label_def)
  then show ?thesis using issued_key_works(2,3) [OF left(2) k(1)] k(2) by (auto simp: sc)
qed

subsection \<open>Concrete dialogs\<close>

definition ex_account :: account_dialog where
  "ex_account = \<lparr>ac_tab = Account_tab, ac_keys = [], ac_minted = None, ac_label = [], ac_read_only = False, ac_scopes = [],
     ac_busy = False, ac_error = None\<rparr>"

definition ex_share :: share where
  "ex_share = \<lparr>pn_detail = None, pn_busy = False, pn_error = None, sh_open = True, sh_link = None, sh_copied = False\<rparr>"

lemma leave_succeeds:
  assumes "signed_in e c ck a" "i \<noteq> []" "a \<noteq> []" "member_role d i a \<noteq> None" "remove_member d i a = (change.Changed, d1)"
  shows "share_run (remove_workspace_member (serve_gateway e c out) ck i a) get True s (d, w) =
    (s\<lparr>sh_open := False, pn_busy := False, pn_error := None\<rparr>, [On_changed True], (d1, w))"
proof -
  let ?r = "workspace_request ck ''DELETE'' i [Lit ''members'', Capture] [a] [] None"
  have req: "browser_request ck ''DELETE'' (workspace_url i @ ''/members/'' @ q a) [] None = ?r"
    by (simp add: workspace_request_def)
  have "resolve_principal e c d ?r = Some (Some (session_of a))"
    unfolding workspace_request_def by (rule signed_in_resolves [OF assms(1)])
  then have "remove_member_handler e c ?r i a d = (Some (Empty 204), d1)"
    using assms(4,5) by (auto simp: remove_member_handler_def as_caller_def no_content_def)
  then have "remove_workspace_member (serve_gateway e c out) ck i a (d, w) = (Inr (), (d1, w))"
    unfolding remove_workspace_member_def ask_def req serve_seen reach_workspace(10) [OF assms(2,3)]
    by (simp add: seen_def ok_def ok_status_def)
  then show ?thesis by (simp add: share_run_def Let_def)
qed

lemma generate_succeeds:
  assumes "signed_in e c ck a" "signed_in e' c ck' a" "length (stringify (key_options s)) \<le> account_max_json"
    and "issue_api_key e d a (if js_trim (ac_label s) = [] then None else Some (js_trim (ac_label s))) (ac_read_only s)
      (granted d a s) = Inr (d', k)"
  shows "\<exists>s'. generate (issue_key (serve_gateway e c out) ck) (list_keys (serve_gateway e' c out') ck') s (d, w) = (s', (d', w)) \<and>
    ac_error s' = None"
proof -
  let ?r = "browser_request ck ''POST'' ''/v1/account/keys'' [] (Some (key_options s))"
  have opts: "key_options (s\<lparr>ac_busy := True, ac_error := None\<rparr>) = key_options s" by (simp add: key_options_def)
  have "json_parse (stringify (key_options s)) = Some (key_options s)" "is_obj (key_options s)"
    by (rule parse_stringify [OF wf_options]) (simp add: key_options_def is_obj_def)
  moreover have "stringify (key_options s) \<noteq> []" by (simp add: key_options_def)
  ultimately have b: "read_json ?r account_max_json = Body (key_options s)"
    using assms(3) by (simp add: read_json_def read_body_def browser_request_def del: stringify.simps)
  have "handle_account_key_issue e c ?r d = (Some (Json 201 (JObj [(''key'', JStr (ik_plaintext k))])), d')"
    using assms(4) unfolding handle_account_key_issue_def account_principal_def as_caller_def signed_in_resolves [OF assms(1)]
    by (simp add: b Let_def options_read requested_of_options run_sql_def reply_def)
  moreover have "json_parse (stringify (JObj [(''key'', JStr (ik_plaintext k))])) = Some (JObj [(''key'', JStr (ik_plaintext k))])"
    by (rule parse_stringify) simp
  ultimately have "issue_key (serve_gateway e c out) ck (key_options s) (d, w) = (Inr (Some (JStr (ik_plaintext k))), (d', w))"
    by (simp add: issue_key_def ask_def serve_seen reach_account(5) [of "''x''"] seen_def ok_def ok_status_def body_member_def
        body_json_def jget_def del: stringify.simps)
  then show ?thesis
    by (simp add: generate_def opts load_keys_def listed_keys [OF assms(2)] Let_def)
qed

lemma ex_issue: "api_tokens d = api_tokens ex_db \<Longrightarrow> accounts d = accounts ex_db \<Longrightarrow>
  \<exists>d' k. issue_api_key (ex_env 5) d ''acc_a'' None False [] = Inr (d', k)"
  by (simp add: issue_api_key_def Let_def insert_token_def generate_api_key_def hash_secret_def
      ex_db_def ex_env_def ex_token_def empty_db_def has_account_def has_token_def new_id_def base64url_long)

lemma ex_trim_nil: "js_trim [] = []"
  by code_simp

theorem generated_key_is_listed_witness:
  "\<exists>s' d' w' key t. generate (issue_key (serve_gateway (ex_env 5) ex_config ex_outside) ex_cookie)
       (list_keys (serve_gateway (ex_env 6) ex_config ex_outside) ex_cookie) ex_account (ex_db, 0) = (s', (d', w')) \<and>
     ac_minted s' = Some (JStr key) \<and> token_summary_json t \<in> set (active_keys s') \<and> (\<forall>i. token_covers_store d' (ts_id t) i)"
proof -
  have si: "signed_in (ex_env 5) ex_config ex_cookie ''acc_a''" "signed_in (ex_env 6) ex_config ex_cookie ''acc_a''"
    by (rule ex_signed_in, simp)+
  have g: "granted d a ex_account = []" for d a by (simp add: granted_def ex_account_def)
  have acc: "ac_label ex_account = []" "\<not> ac_read_only ex_account" by (simp_all add: ex_account_def)
  have "length (stringify (key_options ex_account)) = 18" by code_simp
  then have len: "length (stringify (key_options ex_account)) \<le> account_max_json" by (simp add: account_max_json_def)
  obtain d' k where "issue_api_key (ex_env 5) ex_db ''acc_a'' None False [] = Inr (d', k)" using ex_issue [of ex_db] by auto
  then obtain s' where s': "generate (issue_key (serve_gateway (ex_env 5) ex_config ex_outside) ex_cookie)
       (list_keys (serve_gateway (ex_env 6) ex_config ex_outside) ex_cookie) ex_account (ex_db, 0) = (s', (d', 0))" "ac_error s' = None"
    using generate_succeeds [OF si len, of ex_db d' k ex_outside ex_outside 0] by (auto simp: acc g ex_trim_nil)
  from generated_key_is_listed [OF ex_ok(1) si s'] show ?thesis using s'(1) unfolding g by auto
qed

theorem stale_scope_widens_witness:
  "\<exists>s3 d2 w4 key t. generate (issue_key (serve_gateway (ex_env 5) ex_config ex_outside) ex_cookie)
       (list_keys (serve_gateway (ex_env 6) ex_config ex_outside) ex_cookie) (toggle_scope ''wsp_1'' ex_account)
       (snd (remove_member ex_db ''wsp_1'' ''acc_a''), 0) = (s3, (d2, w4)) \<and>
     ac_minted s3 = Some (JStr key) \<and> identify_token (ex_env 5) d2 key = Some t \<and> token_covers_store d2 (ti_token_id t) ''psm_1''"
proof -
  have si: "signed_in (ex_env 5) ex_config ex_cookie ''acc_a''" "signed_in (ex_env 6) ex_config ex_cookie ''acc_a''"
    by (rule ex_signed_in, simp)+
  let ?d1 = "snd (remove_member ex_db ''wsp_1'' ''acc_a'')" and ?s = "toggle_scope ''wsp_1'' ex_account"
  let ?get = "\<lambda>u. (Inl Offline, u) :: (api_error + json) \<times> (db \<times> nat)"
  let ?lst = "\<lambda>u. (Inr (Some (JArr [])), u) :: (api_error + json option) \<times> unit"
  have m: "member_role ex_db ''wsp_1'' ''acc_a'' \<noteq> None" by (simp add: ex_member)
  have rm: "remove_member ex_db ''wsp_1'' ''acc_a'' = (change.Changed, ?d1)"
    unfolding remove_member_def ex_member by (simp add: owner_count_def member_count_def ex_defs)
  have ne: "''wsp_1'' \<noteq> []" "''acc_a'' \<noteq> []" by simp_all
  have sh: "share_run (remove_workspace_member (serve_gateway (ex_env 5) ex_config ex_outside) ex_cookie ''wsp_1'' ''acc_a'') ?get True
      ex_share (ex_db, 0) = (ex_share\<lparr>sh_open := False, pn_busy := False, pn_error := None\<rparr>, [On_changed True], (?d1, 0))"
    by (rule leave_succeeds [OF si(1) ne m rm])
  have err: "pn_error (ex_share\<lparr>sh_open := False, pn_busy := False, pn_error := None\<rparr>) = None" by simp
  have op: "account_opened ?lst ?s () = (?s\<lparr>ac_minted := None, ac_error := None, ac_tab := Account_tab, ac_keys := []\<rparr>, ())"
    by (simp add: account_opened_def load_keys_def Let_def)
  have same: "?s\<lparr>ac_minted := None, ac_error := None, ac_tab := Account_tab, ac_keys := []\<rparr> = ?s"
    by (simp add: toggle_scope_def ex_account_def)
  have e: "ac_scopes ex_account = []" by (simp add: ex_account_def)
  have sc: "ac_scopes ?s = [''wsp_1'']" "ac_label ?s = []" "\<not> ac_read_only ?s" by (simp_all add: toggle_scope_def ex_account_def)
  have "member_role ?d1 ''wsp_1'' ''acc_a'' = None" using share_left [OF ex_ok(1) si(1) ne sh err] by simp
  then have none: "granted ?d1 ''acc_a'' ?s = []" using not_member_not_listed by (simp add: granted_def sc)
  have "length (stringify (key_options ?s)) = 39" by code_simp
  then have len: "length (stringify (key_options ?s)) \<le> account_max_json" by (simp add: account_max_json_def)
  have "api_tokens ?d1 = api_tokens ex_db" "accounts ?d1 = accounts ex_db" by (simp_all add: remove_member_def split: option.splits)
  then obtain d2 k where "issue_api_key (ex_env 5) ?d1 ''acc_a'' None False [] = Inr (d2, k)" using ex_issue by blast
  then obtain s3 where g: "generate (issue_key (serve_gateway (ex_env 5) ex_config ex_outside) ex_cookie)
       (list_keys (serve_gateway (ex_env 6) ex_config ex_outside) ex_cookie) ?s (?d1, 0) = (s3, (d2, 0))" "ac_error s3 = None"
    using generate_succeeds [OF si len, of ?d1 d2 k ex_outside ex_outside 0] by (auto simp: none sc ex_trim_nil)
  have g': "generate (issue_key (serve_gateway (ex_env 5) ex_config ex_outside) ex_cookie)
       (list_keys (serve_gateway (ex_env 6) ex_config ex_outside) ex_cookie)
       (?s\<lparr>ac_minted := None, ac_error := None, ac_tab := Account_tab, ac_keys := []\<rparr>) (?d1, 0) = (s3, (d2, 0))"
    unfolding same by (rule g(1))
  from stale_scope_widens [OF ex_ok(1) si(1,1,2) ne sh err op e g' g(2)] show ?thesis using g(1) by auto
qed

end
