(* ===== verification/Web_Dialog_Views.thy ===== *)
theory Web_Dialog_Views
  imports Web_Dialogs
begin

text \<open>
  What the dialogs under \<open>packages/web/src/components\<close> show and what their buttons do, as functions of
  the states of \<open>Web_Dialogs\<close>: \<open>SharePopover.tsx\<close>, \<open>WorkspaceSettings.tsx\<close>, \<open>AccountSettings.tsx\<close> and
  \<open>NewWorkspaceDialog.tsx\<close>. Fixed sentences, styling and a member's initial are left out. The dialogs
  stay mounted when the workspace changes, with the detail they had.
\<close>

subsection \<open>Sharing\<close>

text \<open>The calls a click in the popover makes: with \<open>True\<close>, a removal tells the app to leave the page.\<close>

datatype share_action =
    Give_role string string role
  | Remove_from string string bool
  | Mint_link string

definition jtext :: "string \<Rightarrow> json \<Rightarrow> string" where
  "jtext k v = or_empty (jget_str k v)"

definition shown_role :: "json \<Rightarrow> role" where
  "shown_role x = (if jget_str ''role'' x = Some ''owner'' then Owner else Member)"

definition role_menu :: "string \<Rightarrow> string \<Rightarrow> role \<Rightarrow> bool \<Rightarrow> (string \<times> bool \<times> share_action option) list" where
  "role_menu ws account current self =
     [(''Owner'', current = Owner, map_option (Give_role ws account) (choose_role current Owner)),
      (''Member'', current = Member, map_option (Give_role ws account) (choose_role current Member)),
      (if self then ''Leave workspace'' else ''Remove'', False, Some (Remove_from ws account self))]"

datatype row_control =
    Menu "(string \<times> bool \<times> share_action option) list"
  | Leave share_action
  | Role_text string

record member_row =
  mr_email :: string
  mr_self :: bool
  mr_control :: row_control

definition share_row :: "me \<Rightarrow> string \<Rightarrow> json \<Rightarrow> json \<Rightarrow> member_row" where
  "share_row m ws v x =
     (let account = jtext ''accountId'' x; self = (jget_str ''accountId'' x = Some (me_account_id m))
      in \<lparr>mr_email = jtext ''email'' x, mr_self = self,
          mr_control = (case member_control m v x of
              Role_menu _ \<Rightarrow> Menu (role_menu ws account (shown_role x) self)
            | Leave_button \<Rightarrow> Leave (Remove_from ws account True)
            | Role_label \<Rightarrow> Role_text (jtext ''role'' x))\<rparr>)"

definition share_rows :: "me \<Rightarrow> string \<Rightarrow> share \<Rightarrow> member_row list" where
  "share_rows m ws s = (case pn_detail s of None \<Rightarrow> [] | Some v \<Rightarrow> map (share_row m ws v) (members_of v))"

definition reachable_text :: "json option \<Rightarrow> string \<Rightarrow> string \<Rightarrow> string" where
  "reachable_text detail yes no =
     (case detail of None \<Rightarrow> no | Some v \<Rightarrow> if jget ''inviteReachable'' v = Some (JBool True) then yes else no)"

record share_screen =
  ss_error :: "complaint option"
  ss_rows :: "member_row list"
  ss_access :: string
  ss_copy :: "(string \<times> share_action) option"
  ss_disabled :: bool

definition share_screen_of :: "me \<Rightarrow> string \<Rightarrow> share \<Rightarrow> share_screen" where
  "share_screen_of m ws s =
     \<lparr>ss_error = pn_error s, ss_rows = share_rows m ws s,
      ss_access = reachable_text (pn_detail s) ''Anyone with an invite link'' ''Only people invited'',
      ss_copy = (if is_owner m (pn_detail s) then Some (if sh_copied s then ''Copied'' else ''Copy link'', Mint_link ws) else None),
      ss_disabled = pn_busy s\<rparr>"

fun control_actions :: "row_control \<Rightarrow> share_action list" where
  "control_actions (Menu items) = concat (map (\<lambda>(label, ticked, a). case a of None \<Rightarrow> [] | Some x \<Rightarrow> [x]) items)"
| "control_actions (Leave a) = [a]"
| "control_actions (Role_text t) = []"

definition share_actions :: "share_screen \<Rightarrow> share_action list" where
  "share_actions c =
     concat (map (\<lambda>r. control_actions (mr_control r)) (ss_rows c)) @ (case ss_copy c of None \<Rightarrow> [] | Some (label, a) \<Rightarrow> [a])"

text \<open>What \<open>run\<close> is given for a click, over the calls of the client.\<close>

definition share_click ::
  "(share_action \<Rightarrow> (unit, 'w) call) \<Rightarrow> (json, 'w) call \<Rightarrow> bool \<Rightarrow> share_action \<Rightarrow> share \<Rightarrow> 'w \<Rightarrow> share \<times> callback list \<times> 'w" where
  "share_click act get confirmed a s w =
     (case a of
        Remove_from ws account removed \<Rightarrow> if confirmed then share_run (act a) get removed s w else (s, [], w)
      | _ \<Rightarrow> share_run (act a) get False s w)"

definition client_acts :: "(db \<times> 'w) fetch \<Rightarrow> string option \<Rightarrow> share_action \<Rightarrow> (unit, db \<times> 'w) call" where
  "client_acts fetch ck a =
     (case a of
        Give_role ws account r \<Rightarrow> set_workspace_role fetch ck ws account r
      | Remove_from ws account removed \<Rightarrow> remove_workspace_member fetch ck ws account
      | Mint_link ws \<Rightarrow> (\<lambda>w. (Inr (), w)))"

subsection \<open>Settings and a new workspace\<close>

record settings_screen =
  st_id :: string
  st_access :: string
  st_error :: "complaint option"
  st_name :: "string option"
  st_disabled :: bool

text \<open>\<open>st_name\<close> is what the name field starts with; without it the owner's forms are not shown.\<close>

definition settings_screen_of :: "me \<Rightarrow> string \<Rightarrow> panel \<Rightarrow> settings_screen" where
  "settings_screen_of m ws s =
     \<lparr>st_id = ws, st_access = reachable_text (pn_detail s) ''shared'' ''private'', st_error = pn_error s,
      st_name = (case pn_detail s of Some v \<Rightarrow> if is_owner m (Some v) then Some (jtext ''name'' v) else None | None \<Rightarrow> None),
      st_disabled = pn_busy s\<rparr>"

record new_screen =
  ns_name :: string
  ns_error :: "complaint option"
  ns_disabled :: bool

definition new_screen_of :: "new_dialog \<Rightarrow> new_screen" where
  "new_screen_of s = \<lparr>ns_name = nd_name s, ns_error = nd_error s, ns_disabled = nd_busy s\<rparr>"

subsection \<open>The account\<close>

record key_line =
  kl_id :: string
  kl_prefix :: string
  kl_read_only :: bool
  kl_label :: "string option"
  kl_scope :: string

definition key_line_of :: "json \<Rightarrow> key_line" where
  "key_line_of k =
     (let n = (case jget ''scopes'' k of Some (JArr xs) \<Rightarrow> length xs | _ \<Rightarrow> 0)
      in \<lparr>kl_id = jtext ''id'' k, kl_prefix = jtext ''prefix'' k, kl_read_only = (jget ''readOnly'' k = Some (JBool True)),
          kl_label = (if truthy (jget_str ''label'' k) then jget_str ''label'' k else None),
          kl_scope = (if n = 0 then ''all stores'' else nat_str n @ '' workspace(s)'')\<rparr>)"

record key_form =
  kf_label :: string
  kf_scope :: "(string \<times> (string \<times> string \<times> bool) list) option"
  kf_read_only :: bool

datatype account_body =
    Memory_body string
  | Keys_body "json option" "key_line list" key_form

record account_screen =
  as_email :: string
  as_tabs :: "(account_tab \<times> bool) list"
  as_error :: "complaint option"
  as_body :: account_body
  as_disabled :: bool

definition account_screen_of :: "me \<Rightarrow> workspace list \<Rightarrow> account_dialog \<Rightarrow> account_screen" where
  "account_screen_of m ws s =
     \<lparr>as_email = me_email m, as_tabs = map (\<lambda>t. (t, ac_tab s = t)) [Account_tab, Keys_tab], as_error = ac_error s,
      as_body = (case ac_tab s of
          Account_tab \<Rightarrow> Memory_body (me_personal_store_id m)
        | Keys_tab \<Rightarrow> Keys_body (ac_minted s) (map key_line_of (active_keys s))
            \<lparr>kf_label = ac_label s,
             kf_scope = (if ws = [] then None else Some (scope_label (ac_scopes s), scope_rows ws (ac_scopes s))),
             kf_read_only = ac_read_only s\<rparr>),
      as_disabled = ac_busy s\<rparr>"

text \<open>The selector's label tells what is sent; the ticks do not, when a chosen workspace is gone.\<close>

lemma label_tells_scope: "scope_label (ac_scopes s) = ''All workspaces (unscoped)'' \<longleftrightarrow> jget ''storeIds'' (key_options s) = None"
proof -
  have "hd (nat_str n) \<noteq> CHR ''A'' \<and> nat_str n \<noteq> []" for n
    using nat_str_digits [of n] by (cases "nat_str n") (auto simp: is_digit_def char_code_def)
  then have "nat_str n @ xs \<noteq> ''All workspaces (unscoped)''" for n xs
    by (metis hd_append2 list.sel(1))
  then show ?thesis by (auto simp: scope_label_def key_options_def jget_def)
qed

subsection \<open>A list of one workspace over another\<close>

lemma removed_by_owner:
  assumes "signed_in e c ck a" "ws \<noteq> []" "x \<noteq> []" "member_role d ws a = Some Owner" "member_role d ws x = Some Member"
  shows "remove_workspace_member (serve_gateway e c out) ck ws x (d, w) = (Inr (), (snd (remove_member d ws x), w))"
proof -
  let ?r = "workspace_request ck ''DELETE'' ws [Lit ''members'', Capture] [x] [] None"
  have req: "browser_request ck ''DELETE'' (workspace_url ws @ ''/members/'' @ q x) [] None = ?r"
    by (simp add: workspace_request_def)
  have p: "resolve_principal e c d ?r = Some (Some (session_of a))"
    unfolding workspace_request_def by (rule signed_in_resolves [OF assms(1)])
  obtain d1 where "remove_member d ws x = (Changed, d1)" using assms(5) by (simp add: remove_member_def)
  then have "remove_member_handler e c ?r ws x d = no_content (snd (remove_member d ws x))"
    using assms(4) by (simp add: remove_member_handler_def as_caller_def p)
  then show ?thesis
    unfolding remove_workspace_member_def ask_def req serve_seen reach_workspace(10) [OF assms(2,3)]
    by (simp add: seen_def no_content_def ok_def ok_status_def)
qed

lemma share_actions_here:
  "a \<in> set (share_actions (share_screen_of m ws s)) \<Longrightarrow>
   (\<exists>x r. a = Give_role ws x r) \<or> (\<exists>x b. a = Remove_from ws x b) \<or> a = Mint_link ws"
  by (auto simp: share_actions_def share_screen_of_def share_rows_def share_row_def role_menu_def choose_role_def Let_def
      split: option.splits if_splits member_control.splits)

lemma offered_removal:
  assumes "pn_detail s = Some v" "is_owner m (Some v)" "x \<in> set (members_of v)" "jget_str ''accountId'' x = Some i" "i \<noteq> me_account_id m"
  shows "Remove_from ws i False \<in> set (share_actions (share_screen_of m ws s))"
proof -
  have "share_row m ws v x \<in> set (ss_rows (share_screen_of m ws s))"
    using assms(1,3) by (simp add: share_screen_of_def share_rows_def)
  moreover have "Remove_from ws i False \<in> set (control_actions (mr_control (share_row m ws v x)))"
    using assms(2,4,5) by (simp add: share_row_def member_control_def role_menu_def jtext_def or_empty_def Let_def)
  ultimately show ?thesis unfolding share_actions_def by auto
qed

text \<open>
  C25. The share popover acts on the workspace of the page, whatever list it shows. When it is
  opened and the answer comes, it shows that answer's members; when the answer does not come, it
  goes on showing the members of the workspace it was open for before, and whoever owns both and
  removes a person from that list removes them, if they belong to it, from the workspace of the page and
  from no other. Every action on screen, at any time, names the workspace of the page.
\<close>

theorem stale_list_acts_elsewhere:
  assumes "signed_in e c ck (me_account_id m)" "page \<noteq> []" "i \<noteq> []"
    and "member_role d page (me_account_id m) = Some Owner" "member_role d page i = Some Member"
    and "pn_detail s = Some v" "is_owner m (Some v)" "x \<in> set (members_of v)" "jget_str ''accountId'' x = Some i"
    and "share_opened get s (d, w) = (s', (d, w))"
  shows "(\<forall>a \<in> set (share_actions (share_screen_of m page s')).
        (\<exists>y r. a = Give_role page y r) \<or> (\<exists>y b. a = Remove_from page y b) \<or> a = Mint_link page) \<and>
    (case fst (get (d, w)) of
       Inr u \<Rightarrow> share_rows m page s' = map (share_row m page u) (members_of u)
     | Inl failure \<Rightarrow> pn_error s' = Some (Printed failure) \<and>
         share_rows m page s' = map (share_row m page v) (members_of v) \<and>
         Remove_from page i False \<in> set (share_actions (share_screen_of m page s')) \<and>
         (\<exists>d'. client_acts (serve_gateway e c out) ck (Remove_from page i False) (d, w) = (Inr (), (d', w)) \<and>
           member_role d' page i = None \<and> (\<forall>j. j \<noteq> page \<longrightarrow> member_role d' j i = member_role d j i)))"
proof (intro conjI ballI)
  show "(\<exists>y r. a = Give_role page y r) \<or> (\<exists>y b. a = Remove_from page y b) \<or> a = Mint_link page"
    if "a \<in> set (share_actions (share_screen_of m page s'))" for a
    using that by (rule share_actions_here)
  show "case fst (get (d, w)) of
       Inr u \<Rightarrow> share_rows m page s' = map (share_row m page u) (members_of u)
     | Inl failure \<Rightarrow> pn_error s' = Some (Printed failure) \<and>
         share_rows m page s' = map (share_row m page v) (members_of v) \<and>
         Remove_from page i False \<in> set (share_actions (share_screen_of m page s')) \<and>
         (\<exists>d'. client_acts (serve_gateway e c out) ck (Remove_from page i False) (d, w) = (Inr (), (d', w)) \<and>
           member_role d' page i = None \<and> (\<forall>j. j \<noteq> page \<longrightarrow> member_role d' j i = member_role d j i))"
  proof (cases "fst (get (d, w))")
    case (Inr u)
    then show ?thesis using assms(10) by (auto simp: share_opened_def share_rows_def Let_def split: prod.splits)
  next
    case (Inl failure)
    then have s': "pn_detail s' = Some v" "pn_error s' = Some (Printed failure)"
      using assms(6,10) by (auto simp: share_opened_def Let_def split: prod.splits)
    have "i \<noteq> me_account_id m" using assms(4,5) by auto
    note offered = offered_removal [OF s'(1) assms(7-9) this, of page]
    let ?d = "snd (remove_member d page i)"
    have d': "?d = d\<lparr>memberships := delete_where (\<lambda>y. m_store_id y = page \<and> m_account_id y = i) (memberships d)\<rparr>"
      using assms(5) by (simp add: remove_member_def)
    have "member_role ?d page i = None" "j \<noteq> page \<Longrightarrow> member_role ?d j i = member_role d j i" for j
      unfolding d' member_role_delete by simp_all
    then show ?thesis
      using s' offered removed_by_owner [OF assms(1-5), of out w] by (simp add: Inl share_rows_def client_acts_def)
  qed
qed

text \<open>A list from another workspace, in which \<open>acc_b\<close> is an owner, over \<open>wsp_1\<close>, where it is a member.\<close>

definition ex_detail :: json where
  "ex_detail = JObj [(''members'', JArr
     [JObj [(''accountId'', JStr ''acc_a''), (''email'', JStr ''a@x''), (''role'', JStr ''owner'')],
      JObj [(''accountId'', JStr ''acc_b''), (''email'', JStr ''b@x''), (''role'', JStr ''owner'')]])]"

definition ex_shared :: db where
  "ex_shared = ex_db\<lparr>memberships := memberships ex_db @ [\<lparr>m_store_id = ''wsp_1'', m_account_id = ''acc_b'', m_role = Member, m_joined_at = ''2026''\<rparr>]\<rparr>"

lemma stale_list_acts_elsewhere_witness:
  "let s = \<lparr>pn_detail = Some ex_detail, pn_busy = False, pn_error = None, sh_open = False, sh_link = None, sh_copied = False\<rparr>;
       s' = fst (share_opened (\<lambda>w. (Inl Offline, w)) s (ex_shared, 0::nat))
   in Remove_from ''wsp_1'' ''acc_b'' False \<in>
        set (share_actions (share_screen_of \<lparr>me_account_id = ''acc_a'', me_email = ''a@x'', me_personal_store_id = ''psm''\<rparr> ''wsp_1'' s')) \<and>
      (\<exists>d'. client_acts (serve_gateway (ex_env 5) ex_config ex_outside) ex_cookie (Remove_from ''wsp_1'' ''acc_b'' False) (ex_shared, 0) =
         (Inr (), (d', 0)) \<and> member_role d' ''wsp_1'' ''acc_b'' = None)"
proof -
  let ?m = "\<lparr>me_account_id = ''acc_a'', me_email = ''a@x'', me_personal_store_id = ''psm''\<rparr>"
  let ?s = "\<lparr>pn_detail = Some ex_detail, pn_busy = False, pn_error = None, sh_open = False, sh_link = None, sh_copied = False\<rparr>"
  let ?x = "JObj [(''accountId'', JStr ''acc_b''), (''email'', JStr ''b@x''), (''role'', JStr ''owner'')]"
  have roles: "member_role ex_shared ''wsp_1'' ''acc_a'' = Some Owner" "member_role ex_shared ''wsp_1'' ''acc_b'' = Some Member"
    by (simp_all add: ex_shared_def ex_defs member_role_def)
  have list: "is_owner ?m (Some ex_detail)" "?x \<in> set (members_of ex_detail)" "jget_str ''accountId'' ?x = Some ''acc_b''"
    by (simp_all add: ex_detail_def is_owner_def members_of_def jget_str_def jget_def)
  have in5: "signed_in (ex_env 5) ex_config ex_cookie (me_account_id ?m)" using ex_signed_in [of 5] by simp
  obtain s' where s': "share_opened (\<lambda>w. (Inl Offline, w)) ?s (ex_shared, 0::nat) = (s', (ex_shared, 0))"
    by (simp add: share_opened_def Let_def)
  from stale_list_acts_elsewhere [OF in5 _ _ _ _ _ list s', of "''wsp_1''" ex_outside]
  show ?thesis using roles by (simp add: s' Let_def) blast
qed

end
