(* ===== verification/Web_Tasks_View.thy ===== *)
theory Web_Tasks_View
  imports Web_Board
begin

text \<open>
  \<open>packages/web/src/components/canvas/TasksTab.tsx\<close>, what is on screen: the bar of view buttons and
  filter chips, cards, rows, the detail panel, and what each of them does when clicked. Parts joined
  by a middle dot are lists; the text of a date is the browser's, so a date is shown as its
  timestamp. The tab outlives a change of workspace, because no component above it has a key.
\<close>

subsection \<open>Events\<close>

datatype tasks_event =
    View_chosen task_view
  | Member_chosen "string option"
  | Priority_clicked
  | Task_chosen string
  | Panel_closed

text \<open>The hook state when the tab is mounted: \<open>?task=\<close> of the address names the task to open.\<close>

definition tasks_start :: "string option \<Rightarrow> tasks_tab" where
  "tasks_start task_param = \<lparr>tt_view = Board_view, tt_member = None, tt_priority = None, tt_selected = task_param\<rparr>"

fun tasks_click :: "tasks_event \<Rightarrow> tasks_tab \<Rightarrow> tasks_tab" where
  "tasks_click (View_chosen v) s = s\<lparr>tt_view := v\<rparr>"
| "tasks_click (Member_chosen m) s = s\<lparr>tt_member := m\<rparr>"
| "tasks_click Priority_clicked s = toggle_priority s"
| "tasks_click (Task_chosen i) s = s\<lparr>tt_selected := Some i\<rparr>"
| "tasks_click Panel_closed s = s\<lparr>tt_selected := None\<rparr>"

subsection \<open>The bar\<close>

record filter_chip =
  fc_label :: string
  fc_active :: bool
  fc_click :: tasks_event

definition view_label :: "task_view \<Rightarrow> string" where
  "view_label v = (if v = Board_view then ''Board'' else if v = List_view then ''List'' else ''Timeline'')"

definition view_buttons :: "tasks_tab \<Rightarrow> filter_chip list" where
  "view_buttons s =
     map (\<lambda>v. \<lparr>fc_label = view_label v, fc_active = (tt_view s = v), fc_click = View_chosen v\<rparr>)
       [Board_view, List_view, Timeline_view]"

definition member_chips :: "tasks_tab \<Rightarrow> card list \<Rightarrow> filter_chip list" where
  "member_chips s tasks =
     \<lparr>fc_label = ''Everyone'', fc_active = (tt_member s = None), fc_click = Member_chosen None\<rparr> #
     map (\<lambda>m. \<lparr>fc_label = short_name m, fc_active = (tt_member s = Some m), fc_click = Member_chosen (Some m)\<rparr>)
       (members_of_tasks tasks)"

definition priority_chip :: "tasks_tab \<Rightarrow> filter_chip" where
  "priority_chip s =
     \<lparr>fc_label = ''Priority: '' @ (case tt_priority s of Some p \<Rightarrow> priority_label p | None \<Rightarrow> ''All''),
      fc_active = (tt_priority s \<noteq> None), fc_click = Priority_clicked\<rparr>"

subsection \<open>Cards and rows\<close>

definition priority_badge :: "priority \<Rightarrow> string option" where
  "priority_badge p = (if p = Low then None else Some (priority_label p))"

record card_face =
  cf_id :: string
  cf_title :: string
  cf_closed :: bool
  cf_hero :: bool
  cf_selected :: bool
  cf_badge :: "string option"
  cf_next_action :: "string option"
  cf_meta :: "string list"
  cf_at :: string

definition task_card :: "string option \<Rightarrow> bool \<Rightarrow> card \<Rightarrow> card_face" where
  "task_card selected hero t =
     \<lparr>cf_id = te_id t, cf_title = cd_title t, cf_closed = (te_status t = Done), cf_hero = hero,
      cf_selected = (Some (te_id t) = selected), cf_badge = priority_badge (cd_priority t),
      cf_next_action = map_option ho_next_action (cd_handoff t), cf_meta = card_meta t, cf_at = te_at t\<rparr>"

definition counted :: "string \<Rightarrow> nat \<Rightarrow> string" where
  "counted label n = label @ '' ('' @ nat_str n @ '')''"

record board_column =
  bc_heading :: string
  bc_hero :: bool
  bc_cards :: "card_face list"

definition board_body :: "(string \<Rightarrow> string \<Rightarrow> int) \<Rightarrow> string option \<Rightarrow> card list \<Rightarrow> board_column list \<times> string list" where
  "board_body collate selected tasks =
     (map (\<lambda>(status, column).
        \<lparr>bc_heading = counted (status_label status) (length column), bc_hero = (status = Handoff_ready),
         bc_cards = map (task_card selected (status = Handoff_ready)) column\<rparr>) (board collate tasks),
      map (\<lambda>(status, n). counted (status_label status) n) (hidden_groups tasks))"

record row_face =
  rf_id :: string
  rf_title :: string
  rf_struck :: bool
  rf_selected :: bool
  rf_status :: string
  rf_badge :: "string option"
  rf_name :: string
  rf_at :: string

definition task_row :: "string option \<Rightarrow> card \<Rightarrow> row_face" where
  "task_row selected t =
     \<lparr>rf_id = te_id t, rf_title = cd_title t, rf_struck = (te_status t = Done \<or> te_status t = Cancelled),
      rf_selected = (Some (te_id t) = selected), rf_status = status_label (te_status t),
      rf_badge = priority_badge (cd_priority t), rf_name = short_name (cd_member t), rf_at = te_at t\<rparr>"

definition list_body :: "(string \<Rightarrow> string \<Rightarrow> int) \<Rightarrow> string option \<Rightarrow> card list \<Rightarrow> (string \<times> row_face list) list" where
  "list_body collate selected tasks =
     map (\<lambda>(label, rows). (counted label (length rows), map (task_row selected) rows)) (list_view collate tasks)"

subsection \<open>The detail panel\<close>

fun owner_text :: "owner_type \<Rightarrow> string" where
  "owner_text Human = ''human''"
| "owner_text Agent = ''agent''"
| "owner_text Unassigned = ''unassigned''"

definition panel_properties :: "card \<Rightarrow> (string \<times> string list) list" where
  "panel_properties t =
     [(''Status'', [status_label (te_status t)]), (''Priority'', [priority_label (cd_priority t)]),
      (''Owner'', [short_name (cd_member t), owner_text (cd_owner_type t)])] @
     (if truthy (cd_writer t) then [(''Agent'', [the (cd_writer t)])] else []) @
     (if truthy (source_shown t) then [(''Source'', [the (source_shown t)])] else []) @
     [(''Updated'', [te_at t])]"

record handoff_box =
  hb_summary :: string
  hb_next_action :: string
  hb_done :: "string list"
  hb_remaining :: "string list"

definition handoff_of :: "card \<Rightarrow> handoff_box option" where
  "handoff_of t = map_option (\<lambda>h.
     \<lparr>hb_summary = ho_summary h, hb_next_action = ho_next_action h, hb_done = or_none (ho_done_items h),
      hb_remaining = or_none (ho_remaining_items h)\<rparr>) (cd_handoff t)"

record peek_panel =
  pp_title :: string
  pp_close :: tasks_event
  pp_properties :: "(string \<times> string list) list"
  pp_sections :: panel_sections
  pp_handoff :: "handoff_box option"

definition peek :: "card \<Rightarrow> peek_panel" where
  "peek t = \<lparr>pp_title = cd_title t, pp_close = Panel_closed, pp_properties = panel_properties t,
     pp_sections = detail_panel t, pp_handoff = handoff_of t\<rparr>"

subsection \<open>The screen\<close>

datatype tasks_body =
    Board_body "board_column list" "string list"
  | List_body "(string \<times> row_face list) list"
  | Chart_body "card list"

datatype tasks_screen =
    No_tasks
  | Tasks_shown "string option" "filter_chip list" "filter_chip list" filter_chip tasks_body "peek_panel option"

definition tasks_body_of :: "(string \<Rightarrow> string \<Rightarrow> int) \<Rightarrow> tasks_tab \<Rightarrow> card list \<Rightarrow> tasks_body" where
  "tasks_body_of collate s visible =
     (case tt_view s of
        Board_view \<Rightarrow> (case board_body collate (tt_selected s) visible of (columns, hidden) \<Rightarrow> Board_body columns hidden)
      | List_view \<Rightarrow> List_body (list_body collate (tt_selected s) visible)
      | Timeline_view \<Rightarrow> Chart_body visible)"

definition tasks_screen_of :: "(string \<Rightarrow> string \<Rightarrow> int) \<Rightarrow> string option \<Rightarrow> tasks_tab \<Rightarrow> card list \<Rightarrow> tasks_screen" where
  "tasks_screen_of collate badge s tasks =
     (if tasks = [] then No_tasks
      else Tasks_shown (if truthy badge then badge else None) (view_buttons s) (member_chips s tasks) (priority_chip s)
             (tasks_body_of collate s (visible_tasks s tasks)) (map_option peek (selected_task s tasks)))"

text \<open>What can be clicked on a screen.\<close>

fun body_clicks :: "tasks_body \<Rightarrow> tasks_event list" where
  "body_clicks (Board_body columns hidden) = concat (map (\<lambda>c. map (\<lambda>f. Task_chosen (cf_id f)) (bc_cards c)) columns)"
| "body_clicks (List_body sections) = concat (map (\<lambda>(label, rows). map (\<lambda>r. Task_chosen (rf_id r)) rows) sections)"
| "body_clicks (Chart_body tasks) = map (\<lambda>t. Task_chosen (te_id t)) tasks"

fun screen_clicks :: "tasks_screen \<Rightarrow> tasks_event list" where
  "screen_clicks No_tasks = []"
| "screen_clicks (Tasks_shown badge views members priority body panel) =
     map fc_click (views @ members @ [priority]) @ body_clicks body @ (case panel of None \<Rightarrow> [] | Some p \<Rightarrow> [pp_close p])"

text \<open>What browsing one list of tasks can lead to.\<close>

inductive tasks_browse :: "(string \<Rightarrow> string \<Rightarrow> int) \<Rightarrow> string option \<Rightarrow> card list \<Rightarrow> tasks_tab \<Rightarrow> bool" for collate badge tasks where
  mounted: "tasks_browse collate badge tasks (tasks_start task_param)"
| clicked: "tasks_browse collate badge tasks s \<Longrightarrow> ev \<in> set (screen_clicks (tasks_screen_of collate badge s tasks)) \<Longrightarrow>
    tasks_browse collate badge tasks (tasks_click ev s)"

subsection \<open>What is shown can be opened\<close>

lemma board_clicks:
  "set (body_clicks (case board_body collate sel tasks of (columns, hidden) \<Rightarrow> Board_body columns hidden)) =
   (\<lambda>t. Task_chosen (te_id t)) ` {t \<in> set tasks. te_status t \<noteq> Cancelled}"
proof -
  have "set (body_clicks (case board_body collate sel tasks of (columns, hidden) \<Rightarrow> Board_body columns hidden)) =
      (\<lambda>t. Task_chosen (te_id t)) ` set (concat (map snd (board collate tasks)))"
    by (force simp: board_body_def task_card_def)
  moreover have "set (concat (map snd (board collate tasks))) = {t \<in> set tasks. te_status t \<noteq> Cancelled}"
  proof -
    have "set (concat (map snd (board collate tasks))) = {t \<in> set tasks. te_status t \<in> set board_columns}"
      unfolding board_def nonempty_groups by auto
    moreover have "x \<in> set board_columns \<longleftrightarrow> x \<noteq> Cancelled" for x by (cases x) (simp_all add: board_columns_def)
    ultimately show ?thesis by simp
  qed
  ultimately show ?thesis by simp
qed

lemma list_clicks:
  "set (body_clicks (List_body (list_body collate sel tasks))) = (\<lambda>t. Task_chosen (te_id t)) ` set tasks"
proof -
  have "body_clicks (List_body (map (\<lambda>(label, rows). (counted label (length rows), map (task_row sel) rows)) gs)) =
      map (\<lambda>t. Task_chosen (te_id t)) (concat (map snd gs))" for gs
    by (induction gs) (auto simp: task_row_def)
  then have "set (body_clicks (List_body (list_body collate sel tasks))) =
      (\<lambda>t. Task_chosen (te_id t)) ` set (concat (map snd (list_view collate tasks)))"
    unfolding list_body_def by (simp only: set_map)
  moreover have "set (concat (map snd (list_view collate tasks))) = set tasks"
    using arg_cong [OF list_complete [of collate tasks], of set_mset] by (simp only: set_mset_mset)
  ultimately show ?thesis by simp
qed

lemma body_opens:
  "set (body_clicks (tasks_body_of collate s tasks)) =
   (\<lambda>t. Task_chosen (te_id t)) ` {t \<in> set tasks. tt_view s = Board_view \<longrightarrow> te_status t \<noteq> Cancelled}"
  by (cases "tt_view s") (auto simp: tasks_body_of_def board_clicks list_clicks simp del: body_clicks.simps(1,2))

subsection \<open>Filters\<close>

lemma browsed_member:
  assumes "tasks_browse collate badge tasks s"
  shows "\<forall>m. tt_member s = Some m \<longrightarrow> m \<in> cd_member ` set tasks"
  using assms
proof (induction rule: tasks_browse.induct)
  case (clicked s ev)
  have "m \<in> cd_member ` set tasks" if "ev = Member_chosen (Some m)" for m
  proof -
    have "ev \<notin> set (body_clicks (tasks_body_of collate s (visible_tasks s tasks)))" unfolding that body_opens by auto
    then show ?thesis using clicked.hyps(2) that
      by (auto simp: tasks_screen_of_def view_buttons_def member_chips_def priority_chip_def peek_def members_of_tasks_def
          split: if_splits option.splits)
  qed
  then show ?case using clicked.IH by (cases ev) (auto simp: toggle_priority_def)
qed (simp add: tasks_start_def)

lemma one_chip:
  assumes "\<forall>m. tt_member s = Some m \<longrightarrow> m \<in> cd_member ` set tasks"
  shows "length (filter fc_active (member_chips s tasks)) = 1"
proof (cases "tt_member s")
  case (Some m)
  have "length (filter (\<lambda>x. m = x) (members_of_tasks tasks)) = 1"
    using assms Some by (simp add: members_of_tasks_def distinct_length_filter Collect_conv_if image_iff flip: Collect_mem_eq)
  then show ?thesis by (simp add: member_chips_def Some filter_map comp_def)
qed (simp add: member_chips_def filter_map comp_def)

lemma stale_member:
  assumes "tt_member s = Some m" "m \<noteq> []" "m \<notin> cd_member ` set tasks"
  shows "visible_tasks s tasks = []" "filter fc_active (member_chips s tasks) = []"
  using assms by (auto simp: visible_tasks_def member_chips_def members_of_tasks_def truthy_def filter_empty_conv)

lemma kept_member:
  assumes "\<forall>m. tt_member s = Some m \<longrightarrow> m \<in> cd_member ` set tasks" "tt_priority s = None" "tasks \<noteq> []"
  shows "visible_tasks s tasks \<noteq> []"
  using assms by (cases "tt_member s") (auto simp: visible_tasks_def truthy_def filter_empty_conv neq_Nil_conv)

lemma opened_task:
  "t \<in> set tasks \<Longrightarrow> distinct (map te_id tasks) \<Longrightarrow> selected_task (tasks_click (Task_chosen (te_id t)) s) tasks = Some t"
  by (induction tasks) (auto simp: selected_task_def)

text \<open>
  C36. A filter outlives its workspace: while the list of tasks stays, whatever is clicked in
  whatever order, exactly one member chip is active, without a priority filter some task is shown,
  and exactly the visible tasks (on the board those not cancelled) can be opened, each with its own
  panel; but the tab stays mounted when another workspace's tasks arrive, and a member filter whose
  member has no task there shows no task at all under a bar on which no member chip is active.
\<close>

theorem filter_outlives_workspace:
  assumes "tasks_browse collate badge tasks s" "tasks \<noteq> []"
  shows "length (filter fc_active (member_chips s tasks)) = 1 \<and>
    (tt_priority s = None \<longrightarrow> visible_tasks s tasks \<noteq> []) \<and>
    set (body_clicks (tasks_body_of collate s (visible_tasks s tasks))) =
      (\<lambda>t. Task_chosen (te_id t)) ` {t \<in> set (visible_tasks s tasks). tt_view s = Board_view \<longrightarrow> te_status t \<noteq> Cancelled} \<and>
    (distinct (map te_id tasks) \<longrightarrow>
      (\<forall>t \<in> set tasks. selected_task (tasks_click (Task_chosen (te_id t)) s) tasks = Some t)) \<and>
    (tt_member s = Some m \<and> m \<noteq> [] \<and> others \<noteq> [] \<and> m \<notin> cd_member ` set others \<longrightarrow>
      (\<exists>views chips prio body panel. tasks_screen_of collate badge s others =
          Tasks_shown (if truthy badge then badge else None) views chips prio body panel \<and>
        filter fc_active chips = [] \<and> body_clicks body = []))"
proof (intro conjI impI ballI)
  note kept = browsed_member [OF assms(1)]
  show "length (filter fc_active (member_chips s tasks)) = 1" by (rule one_chip [OF kept])
  show "visible_tasks s tasks \<noteq> []" if "tt_priority s = None" by (rule kept_member [OF kept that assms(2)])
  show "selected_task (tasks_click (Task_chosen (te_id t)) s) tasks = Some t" if "distinct (map te_id tasks)" "t \<in> set tasks" for t
    by (rule opened_task [OF that(2,1)])
  assume other: "tt_member s = Some m \<and> m \<noteq> [] \<and> others \<noteq> [] \<and> m \<notin> cd_member ` set others"
  then have stale: "visible_tasks s others = []" "filter fc_active (member_chips s others) = []" using stale_member by blast+
  have "set (body_clicks (tasks_body_of collate s [])) = {}" unfolding body_opens by simp
  then show "\<exists>views chips prio body panel. tasks_screen_of collate badge s others =
        Tasks_shown (if truthy badge then badge else None) views chips prio body panel \<and>
      filter fc_active chips = [] \<and> body_clicks body = []"
    using other stale by (simp add: tasks_screen_of_def)
qed (rule body_opens)

definition ex_task :: "string \<Rightarrow> string \<Rightarrow> card" where
  "ex_task i m = \<lparr>te_id = i, te_at = ''2026'', te_created = ''2026'', te_started = None, te_depends = None, te_status = Todo,
     cd_member = m, cd_title = ''t'', cd_priority = High, cd_owner_type = Human, cd_writer = None, cd_source_id = None,
     cd_source_label = None, cd_description = None, cd_goal = None, cd_criteria = None, cd_questions = None,
     cd_risks = None, cd_handoff = None\<rparr>"

lemma filter_outlives_workspace_witness:
  "let s = tasks_click (Member_chosen (Some ''ann@x'')) (tasks_start None)
   in length (filter fc_active (member_chips s [ex_task ''a'' ''ann@x''])) = 1 \<and> visible_tasks s [ex_task ''a'' ''ann@x''] \<noteq> [] \<and>
      (\<exists>views chips prio body panel. tasks_screen_of compare_text None s [ex_task ''b'' ''bob@x''] =
          Tasks_shown None views chips prio body panel \<and> filter fc_active chips = [] \<and> body_clicks body = [])"
proof -
  let ?s = "tasks_click (Member_chosen (Some ''ann@x'')) (tasks_start None)"
  have "Member_chosen (Some ''ann@x'') \<in> set (screen_clicks (tasks_screen_of compare_text None (tasks_start None) [ex_task ''a'' ''ann@x'']))"
    by (simp add: tasks_screen_of_def member_chips_def members_of_tasks_def ex_task_def)
  then have "tasks_browse compare_text None [ex_task ''a'' ''ann@x''] ?s"
    by (rule tasks_browse.clicked [OF tasks_browse.mounted])
  from filter_outlives_workspace [OF this, of "''ann@x''" "[ex_task ''b'' ''bob@x'']"]
  show ?thesis by (simp add: Let_def tasks_start_def ex_task_def truthy_def)
qed

end
