(* ===== verification/Legacy_Store.thy ===== *)
theory Legacy_Store
  imports Gateway_Keys
begin

text \<open>
  \<open>packages/gateway-legacy/src/auth.ts\<close>, \<open>db.ts\<close> and \<open>store.ts\<close>: the control plane of the frozen
  predecessor of the gateway, in which an operator approves requests for access to projects. Every
  table is the list of its rows. An operation maps the database to a result and a database; a
  statement that fails changes nothing, but what was written before it stays, unless a
  transaction takes it back. The last part is the invariant \<open>lok\<close> and that every operation
  keeps it.
\<close>

subsection \<open>Keys and ids\<close>

datatype legacy_kind = Usr | Tok_key | Req | Psm_store

fun legacy_kind_text :: "legacy_kind \<Rightarrow> string" where
  "legacy_kind_text Usr = ''usr''"
| "legacy_kind_text Tok_key = ''tok''"
| "legacy_kind_text Req = ''req''"
| "legacy_kind_text Psm_store = ''psm''"

definition legacy_new_id :: "legacy_kind \<Rightarrow> nat list \<Rightarrow> string" where
  "legacy_new_id k bytes = legacy_kind_text k @ ''_'' @ base64url bytes"

definition hash_token :: "env \<Rightarrow> string \<Rightarrow> string" where
  "hash_token e plaintext = hash_secret e plaintext"

definition legacy_generate_api_key :: "env \<Rightarrow> nat list \<Rightarrow> generated_key" where
  "legacy_generate_api_key e bytes =
     (let plaintext = ''mzk_'' @ base64url bytes
      in \<lparr>key_plaintext = plaintext, key_hash = hash_token e plaintext,
          key_prefix = take (length ''mzk_'' + 6) plaintext\<rparr>)"

definition is_personal_id :: "string \<Rightarrow> bool" where
  "is_personal_id i \<longleftrightarrow> starts_with i ''psm_''"

subsection \<open>Tables\<close>

record user_row =
  lu_id :: string
  lu_email :: string
  lu_login :: "string option"
  lu_created_at :: string

record key_row =
  lk_id :: string
  lk_user_id :: string
  lk_hash :: string
  lk_prefix :: string
  lk_label :: "string option"
  lk_created_at :: string
  lk_revoked_at :: "string option"
  lk_last_used_at :: "string option"
  lk_read_only :: bool

record key_scope_row =
  lx_token_id :: string
  lx_project_id :: string

record acl_row =
  la_project_id :: string
  la_user_id :: string
  la_role :: string
  la_created_at :: string

datatype request_status = Req_pending | Req_approved | Req_denied

record request_row =
  lr_id :: string
  lr_email :: string
  lr_project_id :: string
  lr_note :: "string option"
  lr_status :: request_status
  lr_created_at :: string
  lr_decided_at :: "string option"

record psm_row =
  lp_user_id :: string
  lp_store_id :: string
  lp_created_at :: string

record ldb =
  l_users :: "user_row list"
  l_keys :: "key_row list"
  l_scopes :: "key_scope_row list"
  l_acl :: "acl_row list"
  l_requests :: "request_row list"
  l_personal :: "psm_row list"

definition empty_ldb :: ldb where
  "empty_ldb = \<lparr>l_users = [], l_keys = [], l_scopes = [], l_acl = [], l_requests = [], l_personal = []\<rparr>"

subsection \<open>Operations on the database\<close>

datatype legacy_error = Sql sql_error | Refused string

type_synonym 'a act = "ldb \<Rightarrow> (legacy_error + 'a) \<times> ldb"

definition done_with :: "'a \<Rightarrow> 'a act" where
  "done_with a d = (Inr a, d)"

definition failing :: "legacy_error \<Rightarrow> 'a act" where
  "failing x d = (Inl x, d)"

definition seq :: "'a act \<Rightarrow> ('a \<Rightarrow> 'b act) \<Rightarrow> 'b act" where
  "seq m f d = (case m d of (Inl x, d') \<Rightarrow> (Inl x, d') | (Inr a, d') \<Rightarrow> f a d')"

definition reading :: "(ldb \<Rightarrow> 'a act) \<Rightarrow> 'a act" where
  "reading f d = f d d"

text \<open>\<open>db.transaction\<close>: an exception inside takes every write back.\<close>

definition transaction :: "'a act \<Rightarrow> 'a act" where
  "transaction m d = (case m d of (Inl x, _) \<Rightarrow> (Inl x, d) | (Inr a, d') \<Rightarrow> (Inr a, d'))"

definition statement :: "(ldb \<Rightarrow> sql_error option) \<Rightarrow> (ldb \<Rightarrow> ldb) \<Rightarrow> unit act" where
  "statement violated f d = (case violated d of Some x \<Rightarrow> (Inl (Sql x), d) | None \<Rightarrow> (Inr (), f d))"

definition has_user :: "ldb \<Rightarrow> string \<Rightarrow> bool" where
  "has_user d u \<longleftrightarrow> u \<in> lu_id ` set (l_users d)"

definition has_key :: "ldb \<Rightarrow> string \<Rightarrow> bool" where
  "has_key d t \<longleftrightarrow> t \<in> lk_id ` set (l_keys d)"

definition insert_user :: "user_row \<Rightarrow> unit act" where
  "insert_user r = statement
     (\<lambda>d. if lu_id r \<in> lu_id ` set (l_users d) \<or> lu_email r \<in> lu_email ` set (l_users d) \<or>
             (lu_login r \<noteq> None \<and> lu_login r \<in> lu_login ` set (l_users d))
          then Some (Unique_violation ''users'') else None)
     (\<lambda>d. d\<lparr>l_users := l_users d @ [r]\<rparr>)"

definition set_github_login :: "string \<Rightarrow> string \<Rightarrow> unit act" where
  "set_github_login login u = statement
     (\<lambda>d. if list_ex (\<lambda>x. lu_id x \<noteq> u \<and> lu_login x = Some login) (l_users d)
          then Some (Unique_violation ''users'') else None)
     (\<lambda>d. d\<lparr>l_users := update_where (\<lambda>x. lu_id x = u) (\<lambda>x. x\<lparr>lu_login := Some login\<rparr>) (l_users d)\<rparr>)"

definition insert_key :: "key_row \<Rightarrow> unit act" where
  "insert_key r = statement
     (\<lambda>d. if lk_id r \<in> lk_id ` set (l_keys d) \<or> lk_hash r \<in> lk_hash ` set (l_keys d)
          then Some (Unique_violation ''api_tokens'')
          else if \<not> has_user d (lk_user_id r) then Some (Foreign_key_violation ''api_tokens'') else None)
     (\<lambda>d. d\<lparr>l_keys := l_keys d @ [r]\<rparr>)"

text \<open>\<open>INSERT OR IGNORE\<close>.\<close>

definition insert_key_scope :: "string \<Rightarrow> string \<Rightarrow> unit act" where
  "insert_key_scope t p =
     (let r = \<lparr>lx_token_id = t, lx_project_id = p\<rparr>
      in statement
           (\<lambda>d. if r \<notin> set (l_scopes d) \<and> \<not> has_key d t then Some (Foreign_key_violation ''token_scopes'') else None)
           (\<lambda>d. if r \<in> set (l_scopes d) then d else d\<lparr>l_scopes := l_scopes d @ [r]\<rparr>))"

text \<open>\<open>ON CONFLICT(project_id, user_id) DO NOTHING\<close>.\<close>

definition has_acl :: "ldb \<Rightarrow> string \<Rightarrow> string \<Rightarrow> bool" where
  "has_acl d p u \<longleftrightarrow> list_ex (\<lambda>x. la_project_id x = p \<and> la_user_id x = u) (l_acl d)"

definition insert_acl :: "acl_row \<Rightarrow> unit act" where
  "insert_acl r = statement
     (\<lambda>d. if \<not> has_acl d (la_project_id r) (la_user_id r) \<and> \<not> has_user d (la_user_id r)
          then Some (Foreign_key_violation ''project_acl'') else None)
     (\<lambda>d. if has_acl d (la_project_id r) (la_user_id r) then d else d\<lparr>l_acl := l_acl d @ [r]\<rparr>)"

definition insert_request :: "request_row \<Rightarrow> unit act" where
  "insert_request r = statement
     (\<lambda>d. if lr_id r \<in> lr_id ` set (l_requests d) then Some (Unique_violation ''access_requests'') else None)
     (\<lambda>d. d\<lparr>l_requests := l_requests d @ [r]\<rparr>)"

definition insert_psm :: "psm_row \<Rightarrow> unit act" where
  "insert_psm r = statement
     (\<lambda>d. if lp_user_id r \<in> lp_user_id ` set (l_personal d) \<or> lp_store_id r \<in> lp_store_id ` set (l_personal d)
          then Some (Unique_violation ''personal_stores'')
          else if \<not> has_user d (lp_user_id r) then Some (Foreign_key_violation ''personal_stores'') else None)
     (\<lambda>d. d\<lparr>l_personal := l_personal d @ [r]\<rparr>)"

subsection \<open>Keys\<close>

record legacy_identity =
  li_token_id :: string
  li_user_id :: string
  li_read_only :: bool

definition legacy_identify_token :: "env \<Rightarrow> ldb \<Rightarrow> string \<Rightarrow> legacy_identity option" where
  "legacy_identify_token e d plaintext =
     (case find (\<lambda>t. lk_hash t = hash_token e plaintext) (l_keys d) of
        None \<Rightarrow> None
      | Some row \<Rightarrow>
          if truthy (lk_revoked_at row) then None
          else Some \<lparr>li_token_id = lk_id row, li_user_id = lk_user_id row, li_read_only = lk_read_only row\<rparr>)"

definition legacy_touch_token :: "env \<Rightarrow> string \<Rightarrow> ldb \<Rightarrow> ldb" where
  "legacy_touch_token e t d =
     d\<lparr>l_keys := update_where (\<lambda>x. lk_id x = t) (\<lambda>x. x\<lparr>lk_last_used_at := Some (now_iso e)\<rparr>) (l_keys d)\<rparr>"

datatype project_role = Acl_member | Acl_viewer

fun project_role_text :: "project_role \<Rightarrow> string" where
  "project_role_text Acl_member = ''member''"
| "project_role_text Acl_viewer = ''viewer''"

definition get_project_role :: "ldb \<Rightarrow> string \<Rightarrow> string \<Rightarrow> project_role option" where
  "get_project_role d u p =
     (case find (\<lambda>x. la_project_id x = p \<and> la_user_id x = u) (l_acl d) of
        None \<Rightarrow> None | Some row \<Rightarrow> Some (if la_role row = ''viewer'' then Acl_viewer else Acl_member))"

definition token_covers_personal :: "ldb \<Rightarrow> string \<Rightarrow> bool" where
  "token_covers_personal d t \<longleftrightarrow> find (\<lambda>x. lx_token_id x = t) (l_scopes d) = None"

definition token_covers_project :: "ldb \<Rightarrow> string \<Rightarrow> string \<Rightarrow> bool" where
  "token_covers_project d t p \<longleftrightarrow>
     find (\<lambda>x. lx_token_id x = t) (l_scopes d) = None \<or>
     find (\<lambda>x. lx_token_id x = t \<and> lx_project_id x = p) (l_scopes d) \<noteq> None"

text \<open>\<open>k\<close> counts the draws of random bytes the request has made before.\<close>

fun insert_key_scopes :: "string \<Rightarrow> string list \<Rightarrow> unit act" where
  "insert_key_scopes t [] = done_with ()"
| "insert_key_scopes t (p # ps) = seq (insert_key_scope t p) (\<lambda>_. insert_key_scopes t ps)"

record legacy_issued =
  is_plaintext :: string
  is_token_id :: string
  is_prefix :: string

definition legacy_issue_api_key ::
  "env \<Rightarrow> nat \<Rightarrow> string \<Rightarrow> string option \<Rightarrow> bool \<Rightarrow> string list \<Rightarrow> legacy_issued act" where
  "legacy_issue_api_key e k u label read_only project_ids =
     (let key = legacy_generate_api_key e (random e k 32);
          t = legacy_new_id Tok_key (random e (k + 1) 9);
          row = \<lparr>lk_id = t, lk_user_id = u, lk_hash = key_hash key, lk_prefix = key_prefix key, lk_label = label,
                 lk_created_at = now_iso e, lk_revoked_at = None, lk_last_used_at = None, lk_read_only = read_only\<rparr>
      in seq (transaction (seq (insert_key row) (\<lambda>_. insert_key_scopes t (uniq project_ids))))
           (\<lambda>_. done_with \<lparr>is_plaintext = key_plaintext key, is_token_id = t, is_prefix = key_prefix key\<rparr>))"

definition legacy_token_scopes :: "ldb \<Rightarrow> string \<Rightarrow> string list" where
  "legacy_token_scopes d t =
     map lx_project_id (order_asc lx_project_id (filter (\<lambda>x. lx_token_id x = t) (l_scopes d)))"

definition legacy_revoke_token :: "env \<Rightarrow> string \<Rightarrow> bool act" where
  "legacy_revoke_token e t d =
     (let live = (\<lambda>x. lk_id x = t \<and> lk_revoked_at x = None)
      in (Inr (list_ex live (l_keys d)),
          d\<lparr>l_keys := update_where live (\<lambda>x. x\<lparr>lk_revoked_at := Some (now_iso e)\<rparr>) (l_keys d)\<rparr>))"

definition list_api_tokens :: "ldb \<Rightarrow> string \<Rightarrow> (key_row \<times> string list) list" where
  "list_api_tokens d u =
     map (\<lambda>t. (t, legacy_token_scopes d (lk_id t)))
       (order_desc lk_created_at (filter (\<lambda>t. lk_user_id t = u) (l_keys d)))"

definition token_belongs_to_user :: "ldb \<Rightarrow> string \<Rightarrow> string \<Rightarrow> bool" where
  "token_belongs_to_user d t u \<longleftrightarrow> find (\<lambda>x. lk_id x = t \<and> lk_user_id x = u) (l_keys d) \<noteq> None"

subsection \<open>Users and personal stores\<close>

definition legacy_personal_store :: "env \<Rightarrow> nat \<Rightarrow> string \<Rightarrow> psm_row act" where
  "legacy_personal_store e k u = reading (\<lambda>d.
     case find (\<lambda>p. lp_user_id p = u) (l_personal d) of
       Some row \<Rightarrow> done_with row
     | None \<Rightarrow>
         (let row = \<lparr>lp_user_id = u, lp_store_id = legacy_new_id Psm_store (random e k 9), lp_created_at = now_iso e\<rparr>
          in seq (insert_psm row) (\<lambda>_. done_with row)))"

definition legacy_personal_owner :: "ldb \<Rightarrow> string \<Rightarrow> string option" where
  "legacy_personal_owner d s = map_option lp_user_id (find (\<lambda>p. lp_store_id p = s) (l_personal d))"

definition upsert_user_by_github :: "env \<Rightarrow> string \<Rightarrow> string \<Rightarrow> string act" where
  "upsert_user_by_github e login email = reading (\<lambda>d.
     case find (\<lambda>x. lu_login x = Some login) (l_users d) of
       Some row \<Rightarrow> done_with (lu_id row)
     | None \<Rightarrow>
         (case find (\<lambda>x. lu_email x = email) (l_users d) of
            Some row \<Rightarrow>
              if truthy (lu_login row) then done_with (lu_id row)
              else seq (set_github_login login (lu_id row)) (\<lambda>_. done_with (lu_id row))
          | None \<Rightarrow>
              (let i = legacy_new_id Usr (random e 0 9)
               in seq (insert_user \<lparr>lu_id = i, lu_email = email, lu_login = Some login, lu_created_at = now_iso e\<rparr>)
                    (\<lambda>_. done_with i))))"

definition upsert_user :: "env \<Rightarrow> string \<Rightarrow> string act" where
  "upsert_user e email = reading (\<lambda>d.
     case find (\<lambda>x. lu_email x = email) (l_users d) of
       Some row \<Rightarrow> done_with (lu_id row)
     | None \<Rightarrow>
         (let i = legacy_new_id Usr (random e 0 9)
          in seq (insert_user \<lparr>lu_id = i, lu_email = email, lu_login = None, lu_created_at = now_iso e\<rparr>)
               (\<lambda>_. done_with i)))"

subsection \<open>Projects and requests\<close>

definition grant_project_access :: "env \<Rightarrow> string \<Rightarrow> string \<Rightarrow> string \<Rightarrow> unit act" where
  "grant_project_access e u p role =
     (if is_personal_id p then failing (Refused (''refusing to grant a reserved personal-store id: '' @ p))
      else insert_acl \<lparr>la_project_id = p, la_user_id = u, la_role = role, la_created_at = now_iso e\<rparr>)"

definition list_project_access :: "ldb \<Rightarrow> string \<Rightarrow> acl_row list" where
  "list_project_access d u = order_asc la_created_at (filter (\<lambda>x. la_user_id x = u) (l_acl d))"

definition create_access_request :: "env \<Rightarrow> string \<Rightarrow> string \<Rightarrow> string option \<Rightarrow> string act" where
  "create_access_request e email p note =
     (let i = legacy_new_id Req (random e 0 9)
      in seq (insert_request \<lparr>lr_id = i, lr_email = email, lr_project_id = p, lr_note = note,
                lr_status = Req_pending, lr_created_at = now_iso e, lr_decided_at = None\<rparr>) (\<lambda>_. done_with i))"

definition get_access_request :: "ldb \<Rightarrow> string \<Rightarrow> request_row option" where
  "get_access_request d i = find (\<lambda>r. lr_id r = i) (l_requests d)"

definition list_access_requests :: "ldb \<Rightarrow> request_status option \<Rightarrow> request_row list" where
  "list_access_requests d status =
     order_asc lr_created_at (filter (\<lambda>r. case status of None \<Rightarrow> True | Some s \<Rightarrow> lr_status r = s) (l_requests d))"

definition list_access_requests_by_email :: "ldb \<Rightarrow> string \<Rightarrow> request_row list" where
  "list_access_requests_by_email d email =
     order_desc lr_created_at (filter (\<lambda>r. lr_email r = email) (l_requests d))"

definition decide_access_request :: "env \<Rightarrow> string \<Rightarrow> request_status \<Rightarrow> unit act" where
  "decide_access_request e i status d =
     (Inr (), d\<lparr>l_requests := update_where (\<lambda>r. lr_id r = i)
        (\<lambda>r. r\<lparr>lr_status := status, lr_decided_at := Some (now_iso e)\<rparr>) (l_requests d)\<rparr>)"

text \<open>The three writes of an approval are not one transaction.\<close>

definition approve_access_request :: "env \<Rightarrow> string \<Rightarrow> project_role \<Rightarrow> (request_row \<times> project_role) option act" where
  "approve_access_request e i role = reading (\<lambda>d.
     case get_access_request d i of
       None \<Rightarrow> done_with None
     | Some request \<Rightarrow>
         seq (upsert_user e (lr_email request)) (\<lambda>u.
           seq (grant_project_access e u (lr_project_id request) (project_role_text role)) (\<lambda>_.
             seq (decide_access_request e i Req_approved) (\<lambda>_. done_with (Some (request, role))))))"

definition issue_key_for_email :: "env \<Rightarrow> string \<Rightarrow> string option \<Rightarrow> legacy_issued act" where
  "issue_key_for_email e email label =
     seq (upsert_user e email) (\<lambda>u.
       legacy_issue_api_key e 1 u (Some (case label of Some l \<Rightarrow> l | None \<Rightarrow> email)) False [])"

subsection \<open>The invariant\<close>

text \<open>
  Primary keys, unique columns and references, and the reserved name space: a personal store has
  a reserved id and no project of the access list has one.
\<close>

definition logins_ok :: "user_row list \<Rightarrow> bool" where
  "logins_ok us \<longleftrightarrow> (\<forall>x \<in> set us. \<forall>y \<in> set us. lu_login x = lu_login y \<longrightarrow> lu_login x = None \<or> lu_id x = lu_id y)"

definition lkeys_ok :: "ldb \<Rightarrow> bool" where
  "lkeys_ok d \<longleftrightarrow>
     distinct (map lu_id (l_users d)) \<and> distinct (map lu_email (l_users d)) \<and>
     logins_ok (l_users d) \<and>
     distinct (map lk_id (l_keys d)) \<and> distinct (map lk_hash (l_keys d)) \<and> distinct (l_scopes d) \<and>
     distinct (map (\<lambda>x. (la_project_id x, la_user_id x)) (l_acl d)) \<and> distinct (map lr_id (l_requests d)) \<and>
     distinct (map lp_user_id (l_personal d)) \<and> distinct (map lp_store_id (l_personal d))"

definition lrefs_ok :: "ldb \<Rightarrow> bool" where
  "lrefs_ok d \<longleftrightarrow>
     (\<forall>t \<in> set (l_keys d). has_user d (lk_user_id t)) \<and> (\<forall>x \<in> set (l_scopes d). has_key d (lx_token_id x)) \<and>
     (\<forall>x \<in> set (l_acl d). has_user d (la_user_id x)) \<and> (\<forall>p \<in> set (l_personal d). has_user d (lp_user_id p))"

definition reserved_ok :: "ldb \<Rightarrow> bool" where
  "reserved_ok d \<longleftrightarrow>
     (\<forall>x \<in> set (l_acl d). \<not> is_personal_id (la_project_id x)) \<and>
     (\<forall>p \<in> set (l_personal d). is_personal_id (lp_store_id p))"

definition lok :: "ldb \<Rightarrow> bool" where
  "lok d \<longleftrightarrow> lkeys_ok d \<and> lrefs_ok d \<and> reserved_ok d"

text \<open>An operation that keeps a predicate, whatever it answers.\<close>

definition keeps :: "(ldb \<Rightarrow> bool) \<Rightarrow> 'a act \<Rightarrow> bool" where
  "keeps I m \<longleftrightarrow> (\<forall>d. I d \<longrightarrow> I (snd (m d)))"

named_theorems keep_rules \<open>what keeps an invariant of the database\<close>

lemma keeps_done [keep_rules]: "keeps I (done_with a)" "keeps I (failing x)"
  by (simp_all add: keeps_def done_with_def failing_def)

lemma keeps_seq [keep_rules]: "keeps I m \<Longrightarrow> (\<And>a. keeps I (f a)) \<Longrightarrow> keeps I (seq m f)"
  by (auto simp: keeps_def seq_def split: prod.split sum.split)

lemma keeps_reading [keep_rules]: "(\<And>d. keeps I (f d)) \<Longrightarrow> keeps I (reading f)"
  by (auto simp: keeps_def reading_def)

lemma keeps_transaction [keep_rules]: "keeps I m \<Longrightarrow> keeps I (transaction m)"
  by (auto simp: keeps_def transaction_def split: prod.split sum.split)

lemma keeps_statement: "(\<And>d. I d \<Longrightarrow> violated d = None \<Longrightarrow> I (f d)) \<Longrightarrow> keeps I (statement violated f)"
  by (auto simp: keeps_def statement_def split: option.split)

lemma keeps_option [keep_rules]:
  "keeps I a \<Longrightarrow> (\<And>y. keeps I (f y)) \<Longrightarrow> keeps I (case x of None \<Rightarrow> a | Some y \<Rightarrow> f y)"
  by (cases x) simp_all

lemma keeps_if [keep_rules]: "(b \<Longrightarrow> keeps I x) \<Longrightarrow> (\<not> b \<Longrightarrow> keeps I y) \<Longrightarrow> keeps I (if b then x else y)"
  by simp

lemmas lok_defs = lok_def lkeys_ok_def lrefs_ok_def reserved_ok_def has_user_def has_key_def

lemma lok_empty: "lok empty_ldb"
  by (simp add: lok_defs logins_ok_def empty_ldb_def)

lemma logins_append: "logins_ok us \<Longrightarrow> lu_login r = None \<or> lu_login r \<notin> lu_login ` set us \<Longrightarrow> logins_ok (us @ [r])"
  by (auto simp: logins_ok_def) (metis imageI)+

lemma logins_set:
  assumes "logins_ok us" "\<forall>x \<in> set us. lu_id x \<noteq> u \<longrightarrow> lu_login x \<noteq> Some login"
  shows "logins_ok (update_where (\<lambda>x. lu_id x = u) (\<lambda>x. x\<lparr>lu_login := Some login\<rparr>) us)"
  unfolding logins_ok_def
proof (intro ballI impI)
  let ?f = "\<lambda>x. if lu_id x = u then x\<lparr>lu_login := Some login\<rparr> else x"
  fix x' y' assume "x' \<in> set (update_where (\<lambda>x. lu_id x = u) (\<lambda>x. x\<lparr>lu_login := Some login\<rparr>) us)"
    "y' \<in> set (update_where (\<lambda>x. lu_id x = u) (\<lambda>x. x\<lparr>lu_login := Some login\<rparr>) us)" and eq: "lu_login x' = lu_login y'"
  then obtain x y where x: "x \<in> set us" "x' = ?f x" and y: "y \<in> set us" "y' = ?f y" unfolding set_update_where by blast
  have "lu_id x = u \<longleftrightarrow> lu_id y = u"
    using assms(2) x y eq by (cases "lu_id x = u"; cases "lu_id y = u") auto
  then show "lu_login x' = None \<or> lu_id x' = lu_id y'"
    using assms(1) x y eq by (cases "lu_id x = u") (auto simp: logins_ok_def)
qed

lemma lok_insert_user [keep_rules]: "keeps lok (insert_user r)"
  unfolding insert_user_def by (rule keeps_statement) (auto simp: lok_defs logins_append split: if_splits)

lemma lok_set_login [keep_rules]: "keeps lok (set_github_login login u)"
  unfolding set_github_login_def
  by (rule keeps_statement)
    (auto simp: lok_defs map_update_where image_update_where list_ex_iff intro!: logins_set split: if_splits)

lemma lok_insert_key [keep_rules]: "keeps lok (insert_key r)"
  unfolding insert_key_def by (rule keeps_statement) (auto simp: lok_defs split: if_splits)

lemma lok_insert_scope [keep_rules]: "keeps lok (insert_key_scope t p)"
  unfolding insert_key_scope_def Let_def by (rule keeps_statement) (auto simp: lok_defs split: if_splits)

lemma lok_insert_acl: "\<not> is_personal_id (la_project_id r) \<Longrightarrow> keeps lok (insert_acl r)"
  unfolding insert_acl_def
  by (rule keeps_statement) (auto simp: lok_defs has_acl_def list_ex_iff split: if_splits)

lemma lok_insert_request [keep_rules]: "keeps lok (insert_request r)"
  unfolding insert_request_def by (rule keeps_statement) (auto simp: lok_defs split: if_splits)

lemma lok_insert_psm: "is_personal_id (lp_store_id r) \<Longrightarrow> keeps lok (insert_psm r)"
  unfolding insert_psm_def by (rule keeps_statement) (auto simp: lok_defs split: if_splits)

lemma lok_scopes [keep_rules]: "keeps lok (insert_key_scopes t ps)"
  by (induction ps) (auto intro: keep_rules)

lemma lok_update_keys:
  assumes "\<And>t. lk_id (f t) = lk_id t" "\<And>t. lk_hash (f t) = lk_hash t" "\<And>t. lk_user_id (f t) = lk_user_id t" "lok d"
  shows "lok (d\<lparr>l_keys := update_where P f (l_keys d)\<rparr>)"
  using assms by (auto simp: lok_defs map_update_where image_update_where set_update_where)

lemma lok_touch: "lok d \<Longrightarrow> lok (legacy_touch_token e t d)"
  unfolding legacy_touch_token_def by (rule lok_update_keys) auto

lemma lok_revoke [keep_rules]: "keeps lok (legacy_revoke_token e t)"
  by (auto simp: keeps_def legacy_revoke_token_def Let_def intro!: lok_update_keys)

lemma lok_decide [keep_rules]: "keeps lok (decide_access_request e i st)"
  by (auto simp: keeps_def decide_access_request_def lok_defs map_update_where)

lemma lok_issue [keep_rules]: "keeps lok (legacy_issue_api_key e k u l r ps)"
  unfolding legacy_issue_api_key_def Let_def by (intro keep_rules)

lemma lok_personal [keep_rules]: "keeps lok (legacy_personal_store e k u)"
  unfolding legacy_personal_store_def Let_def
  by (intro keep_rules lok_insert_psm) (simp add: is_personal_id_def legacy_new_id_def starts_with_def)

lemma lok_github [keep_rules]: "keeps lok (upsert_user_by_github e login email)"
  unfolding upsert_user_by_github_def Let_def by (intro keep_rules)

lemma lok_upsert [keep_rules]: "keeps lok (upsert_user e email)"
  unfolding upsert_user_def Let_def by (intro keep_rules)

lemma lok_grant [keep_rules]: "keeps lok (grant_project_access e u p role)"
  unfolding grant_project_access_def by (intro keep_rules lok_insert_acl) simp

lemma lok_request [keep_rules]: "keeps lok (create_access_request e email p note)"
  unfolding create_access_request_def Let_def by (intro keep_rules)

lemma lok_approve [keep_rules]: "keeps lok (approve_access_request e i role)"
  unfolding approve_access_request_def by (intro keep_rules)

lemma lok_issue_for_email [keep_rules]: "keeps lok (issue_key_for_email e email label)"
  unfolding issue_key_for_email_def by (intro keep_rules)

end
