(* ===== verification/Legacy_Access.thy ===== *)
theory Legacy_Access
  imports Legacy_Store Gateway_Proxy
begin

text \<open>
  \<open>packages/gateway-legacy/src/config.ts\<close>, \<open>session.ts\<close>, \<open>proxy.ts\<close> and the rate limiter of \<open>beta.ts\<close>:
  who may sync a project or a personal store, the two kinds of browser session, and how often an
  address may file a request. Signing and cookie parsing are those of the successor
  (\<open>Gateway_Session\<close>), which took them over unchanged.
\<close>

subsection \<open>Configuration\<close>

record legacy_config =
  lc_port :: nat
  lc_db_file :: string
  lc_relay_url :: string
  lc_relay_token :: "string option"
  lc_public_url :: "string option"
  lc_github_client_id :: "string option"
  lc_github_client_secret :: "string option"
  lc_admin_logins :: "string list"
  lc_session_secret :: "string option"

definition participant_login_enabled :: "legacy_config \<Rightarrow> bool" where
  "participant_login_enabled c \<longleftrightarrow> truthy (lc_github_client_id c) \<and> truthy (lc_github_client_secret c) \<and>
     truthy (lc_public_url c) \<and> truthy (lc_session_secret c)"

definition legacy_admin_enabled :: "legacy_config \<Rightarrow> bool" where
  "legacy_admin_enabled c \<longleftrightarrow> participant_login_enabled c \<and> lc_admin_logins c \<noteq> []"

definition load_legacy_config :: "(string \<Rightarrow> string option) \<Rightarrow> legacy_config option" where
  "load_legacy_config env =
     map_option (\<lambda>p.
       \<lparr>lc_port = p,
        lc_db_file = or_else (env ''GATEWAY_DB'') ''./gateway.db'',
        lc_relay_url = strip_slashes (or_else (env ''RELAY_URL'') ''http://127.0.0.1:8787''),
        lc_relay_token = or_undefined (env ''RELAY_INTERNAL_TOKEN''),
        lc_public_url = (if truthy (env ''GATEWAY_PUBLIC_URL'')
                         then Some (strip_slashes (the (env ''GATEWAY_PUBLIC_URL''))) else None),
        lc_github_client_id = or_undefined (env ''GITHUB_CLIENT_ID''),
        lc_github_client_secret = or_undefined (env ''GITHUB_CLIENT_SECRET''),
        lc_admin_logins = filter (\<lambda>s. s \<noteq> [])
          (map js_trim (js_split (CHR '','') (or_else (env ''GATEWAY_ADMIN_LOGINS'') []))),
        lc_session_secret = or_undefined (env ''GATEWAY_SESSION_SECRET'')\<rparr>)
       (gateway_positive_int (env ''GATEWAY_PORT'') 8080)"

subsection \<open>Sessions\<close>

definition operator_cookie_name :: string where "operator_cookie_name = ''hub_op''"

definition participant_cookie_name :: string where "participant_cookie_name = ''hub_user''"

record participant =
  pt_user_id :: string
  pt_login :: string
  pt_email :: string

definition operator_json :: "env \<Rightarrow> string \<Rightarrow> json" where
  "operator_json e login = JObj [(''login'', JStr login), (''exp'', JNum (int (now e + session_ttl_ms)))]"

definition participant_json :: "env \<Rightarrow> participant \<Rightarrow> json" where
  "participant_json e p =
     JObj [(''userId'', JStr (pt_user_id p)), (''login'', JStr (pt_login p)), (''email'', JStr (pt_email p)),
           (''exp'', JNum (int (now e + session_ttl_ms)))]"

definition session_attrs :: "string \<Rightarrow> nat \<Rightarrow> string" where
  "session_attrs p age = ''; Path='' @ p @ ''; HttpOnly; SameSite=Lax; Secure; Max-Age='' @ nat_str age"

definition operator_cookie :: "env \<Rightarrow> string \<Rightarrow> string \<Rightarrow> string" where
  "operator_cookie e login secret =
     operator_cookie_name @ ''='' @ sign_value e (operator_json e login) secret @
     session_attrs ''/admin'' (session_ttl_ms div 1000)"

definition clear_operator_cookie :: string where
  "clear_operator_cookie = operator_cookie_name @ ''='' @ session_attrs ''/admin'' 0"

definition participant_cookie :: "env \<Rightarrow> participant \<Rightarrow> string \<Rightarrow> string" where
  "participant_cookie e p secret =
     participant_cookie_name @ ''='' @ sign_value e (participant_json e p) secret @
     session_attrs ''/'' (session_ttl_ms div 1000)"

definition clear_participant_cookie :: string where
  "clear_participant_cookie = participant_cookie_name @ ''='' @ session_attrs ''/'' 0"

text \<open>A verified value is taken as the session it is read as; the outer \<open>None\<close> is a malformed header.\<close>

definition text_of :: "string \<Rightarrow> json \<Rightarrow> string" where
  "text_of k v = (case jget_str k v of Some s \<Rightarrow> s | None \<Rightarrow> [])"

definition read_operator :: "env \<Rightarrow> string option \<Rightarrow> string \<Rightarrow> string option option" where
  "read_operator e header secret =
     map_option (\<lambda>cs. map_option (text_of ''login'') (verify_value e (map_of cs operator_cookie_name) secret))
       (parse_cookies header)"

definition read_participant :: "env \<Rightarrow> string option \<Rightarrow> string \<Rightarrow> participant option option" where
  "read_participant e header secret =
     map_option (\<lambda>cs. map_option
         (\<lambda>v. \<lparr>pt_user_id = text_of ''userId'' v, pt_login = text_of ''login'' v, pt_email = text_of ''email'' v\<rparr>)
         (verify_value e (map_of cs participant_cookie_name) secret))
       (parse_cookies header)"

subsection \<open>The gate\<close>

definition valid_project_id :: "string \<Rightarrow> bool" where
  "valid_project_id s \<longleftrightarrow> 1 \<le> length s \<and> length s \<le> 128 \<and> list_all id_char s"

text \<open>\<open>None\<close>: the request may pass; otherwise the status and the message.\<close>

definition legacy_gate :: "ldb \<Rightarrow> legacy_identity \<Rightarrow> bool \<Rightarrow> string \<Rightarrow> (nat \<times> string) option" where
  "legacy_gate d i push p =
     (case legacy_personal_owner d p of
        Some owner \<Rightarrow>
          if owner \<noteq> li_user_id i then Some (403, ''not your personal store'')
          else if \<not> token_covers_personal d (li_token_id i) then Some (403, ''this key is not scoped for personal memory'')
          else if push \<and> li_read_only i then Some (403, ''this key is read-only'')
          else None
      | None \<Rightarrow>
          (case get_project_role d (li_user_id i) p of
             None \<Rightarrow> Some (403, ''API key is not scoped to this project'')
           | Some role \<Rightarrow>
               if \<not> token_covers_project d (li_token_id i) p then Some (403, ''this key is not scoped to this project'')
               else if push
               then (if role \<noteq> Acl_member then Some (403, ''read-only access for this project'')
                     else if li_read_only i then Some (403, ''this key is read-only'') else None)
               else None))"

definition legacy_forwarded :: "legacy_config \<Rightarrow> request \<Rightarrow> string \<Rightarrow> request" where
  "legacy_forwarded c req body =
     \<lparr>meth = meth req, path = path req, query = query req,
      auth_header = (if truthy (lc_relay_token c) then Some (''Bearer '' @ the (lc_relay_token c)) else None),
      cookie_header = None, host_header = None, chunks = (if body = [] then [] else [body])\<rparr>"

definition legacy_caller :: "env \<Rightarrow> ldb \<Rightarrow> request \<Rightarrow> string + legacy_identity" where
  "legacy_caller e d req =
     (case bearer_token req of
        None \<Rightarrow> Inl ''missing or malformed Authorization bearer token''
      | Some key \<Rightarrow>
          (case legacy_identify_token e d key of None \<Rightarrow> Inl ''invalid or revoked API key'' | Some i \<Rightarrow> Inr i))"

definition legacy_events_proxy ::
  "env \<Rightarrow> legacy_config \<Rightarrow> 'w fetch \<Rightarrow> request \<Rightarrow> string \<Rightarrow> ldb \<Rightarrow> 'w \<Rightarrow> (response \<times> ldb) \<times> 'w" where
  "legacy_events_proxy e c fetch req p d w =
     (case legacy_caller e d req of
        Inl msg \<Rightarrow> ((send_error 401 msg, d), w)
      | Inr i \<Rightarrow>
          if \<not> valid_project_id p then ((send_error 400 ''invalid project id'', d), w)
          else (case legacy_gate d i (meth req = ''POST'') p of
              Some (n, msg) \<Rightarrow> ((send_error n msg, d), w)
            | None \<Rightarrow>
                (case (if meth req = ''POST'' then read_body req max_proxy_body_bytes else Some []) of
                   None \<Rightarrow> ((send_error 413 ''payload too large'', d), w)
                 | Some body \<Rightarrow>
                     (case fetch (legacy_forwarded c req body) w of
                        (None, w') \<Rightarrow> ((send_error 502 ''relay unreachable'', d), w')
                      | (Some (status, text), w') \<Rightarrow>
                          ((Raw status text, legacy_touch_token e (li_token_id i) d), w')))))"

definition legacy_personal_discovery :: "env \<Rightarrow> request \<Rightarrow> response act" where
  "legacy_personal_discovery e req = reading (\<lambda>d.
     case legacy_caller e d req of
       Inl msg \<Rightarrow> done_with (send_error 401 msg)
     | Inr i \<Rightarrow>
         if \<not> token_covers_personal d (li_token_id i)
         then done_with (send_error 403 ''this key is not scoped for personal memory'')
         else seq (legacy_personal_store e 0 (li_user_id i)) (\<lambda>row.
                seq (\<lambda>d. (Inr (), legacy_touch_token e (li_token_id i) d)) (\<lambda>_.
                  done_with (Json 200 (JObj [(''storeId'', JStr (lp_store_id row)),
                    (''eventsUrl'', JStr (''/v1/projects/'' @ lp_store_id row @ ''/events''))])))))"

subsection \<open>Access as a minimum\<close>

datatype right = No_right | Pull_right | Sync_right

fun right_rank :: "right \<Rightarrow> nat" where
  "right_rank No_right = 0" | "right_rank Pull_right = 1" | "right_rank Sync_right = 2"

instantiation right :: linorder
begin

definition less_eq_right :: "right \<Rightarrow> right \<Rightarrow> bool" where "less_eq_right a b \<longleftrightarrow> right_rank a \<le> right_rank b"

definition less_right :: "right \<Rightarrow> right \<Rightarrow> bool" where "less_right a b \<longleftrightarrow> right_rank a < right_rank b"

instance
proof
  fix a b :: right
  show "a \<le> b \<Longrightarrow> b \<le> a \<Longrightarrow> a = b" by (cases a; cases b) (simp_all add: less_eq_right_def)
qed (auto simp: less_eq_right_def less_right_def)

end

text \<open>What the account may do with a store, what the key's scope leaves of it, and its mode.\<close>

definition account_right :: "ldb \<Rightarrow> string \<Rightarrow> string \<Rightarrow> right" where
  "account_right d u p =
     (case legacy_personal_owner d p of
        Some owner \<Rightarrow> if owner = u then Sync_right else No_right
      | None \<Rightarrow> (case get_project_role d u p of
            None \<Rightarrow> No_right | Some Acl_viewer \<Rightarrow> Pull_right | Some Acl_member \<Rightarrow> Sync_right))"

definition scope_right :: "ldb \<Rightarrow> string \<Rightarrow> string \<Rightarrow> right" where
  "scope_right d t p =
     (if legacy_token_scopes d t = [] \<or> (legacy_personal_owner d p = None \<and> p \<in> set (legacy_token_scopes d t))
      then Sync_right else No_right)"

definition mode_right :: "legacy_identity \<Rightarrow> right" where
  "mode_right i = (if li_read_only i then Pull_right else Sync_right)"

lemma scopes_empty: "legacy_token_scopes d t = [] \<longleftrightarrow> token_covers_personal d t"
proof -
  have "legacy_token_scopes d t = [] \<longleftrightarrow> set (legacy_token_scopes d t) = {}" by simp
  also have "\<dots> \<longleftrightarrow> token_covers_personal d t" by (auto simp: legacy_token_scopes_def token_covers_personal_def find_None_iff)
  finally show ?thesis .
qed

lemma scopes_member:
  "p \<in> set (legacy_token_scopes d t) \<longleftrightarrow> find (\<lambda>x. lx_token_id x = t \<and> lx_project_id x = p) (l_scopes d) \<noteq> None"
  by (auto simp: legacy_token_scopes_def find_None_iff)

lemma covers_iff: "token_covers_project d t p \<longleftrightarrow> legacy_token_scopes d t = [] \<or> p \<in> set (legacy_token_scopes d t)"
  unfolding token_covers_project_def scopes_member scopes_empty token_covers_personal_def by simp

lemma gate_min:
  "legacy_gate d i push p = None \<longleftrightarrow>
   (if push then Sync_right else Pull_right) \<le> min (account_right d (li_user_id i) p) (min (scope_right d (li_token_id i) p) (mode_right i))"
  by (auto simp: legacy_gate_def account_right_def scope_right_def mode_right_def covers_iff scopes_empty [symmetric]
      less_eq_right_def min_def split: option.split project_role.split)

lemma reserved_no_role: "lok d \<Longrightarrow> is_personal_id p \<Longrightarrow> get_project_role d u p = None"
  by (cases "find (\<lambda>x. la_project_id x = p \<and> la_user_id x = u) (l_acl d)")
    (auto simp: lok_def reserved_ok_def get_project_role_def dest!: find_SomeD)

lemma personal_is_reserved: "lok d \<Longrightarrow> legacy_personal_owner d p = Some u \<Longrightarrow> is_personal_id p"
  by (auto simp: lok_def reserved_ok_def legacy_personal_owner_def dest!: find_SomeD)

lemma proxy_calls:
  assumes "legacy_events_proxy e c fetch req p d w = ((r, d'), w')"
  shows "(\<exists>key i body. bearer_token req = Some key \<and> legacy_identify_token e d key = Some i \<and> valid_project_id p \<and>
       legacy_gate d i (meth req = ''POST'') p = None \<and>
       w' = snd (fetch (legacy_forwarded c req body) w) \<and> (d' = d \<or> d' = legacy_touch_token e (li_token_id i) d)) \<or>
     (w' = w \<and> d' = d \<and> 400 \<le> status_of r)"
proof -
  have gate: "legacy_gate d i b q = Some (n, msg) \<Longrightarrow> 400 \<le> n" for i b q n msg
    by (auto simp: legacy_gate_def split: option.splits if_splits)
  show ?thesis
  proof (cases "legacy_caller e d req")
    case (Inl msg)
    then show ?thesis using assms by (auto simp: legacy_events_proxy_def)
  next
    case (Inr i)
    then obtain key where key: "bearer_token req = Some key" "legacy_identify_token e d key = Some i"
      by (auto simp: legacy_caller_def split: option.splits)
    show ?thesis
    proof (cases "valid_project_id p \<and> legacy_gate d i (meth req = ''POST'') p = None")
      case True
      then show ?thesis using assms Inr key
        by (auto simp: legacy_events_proxy_def split: option.splits prod.splits) (metis snd_conv)+
    next
      case False
      then show ?thesis using assms Inr gate
        by (auto simp: legacy_events_proxy_def split: if_splits option.splits)
    qed
  qed
qed

text \<open>
  C16. Access is a minimum: the gate passes a request exactly when what it does is within the
  account's role for the store, the key's scope and the key's mode; a personal store is reached by
  its owner alone and through no role; and the relay is called, and a key stamped, only for a
  request of a live key that the gate passes: any other is answered with an error and changes
  nothing.
\<close>

theorem legacy_access_is_minimum:
  assumes "lok d"
  shows "(legacy_gate d i push p = None \<longleftrightarrow>
       (if push then Sync_right else Pull_right) \<le>
       min (account_right d (li_user_id i) p) (min (scope_right d (li_token_id i) p) (mode_right i))) \<and>
     (is_personal_id p \<longrightarrow> account_right d u p \<noteq> No_right \<longrightarrow> legacy_personal_owner d p = Some u) \<and>
     (legacy_events_proxy e c fetch req p d w = ((r, d'), w') \<longrightarrow>
       (\<exists>key i body. bearer_token req = Some key \<and> legacy_identify_token e d key = Some i \<and> valid_project_id p \<and>
         legacy_gate d i (meth req = ''POST'') p = None \<and>
         w' = snd (fetch (legacy_forwarded c req body) w) \<and> (d' = d \<or> d' = legacy_touch_token e (li_token_id i) d)) \<or>
       (w' = w \<and> d' = d \<and> 400 \<le> status_of r))"
proof -
  have "legacy_personal_owner d p = Some u" if "is_personal_id p" "account_right d u p \<noteq> No_right"
    using that reserved_no_role [OF assms that(1)] by (auto simp: account_right_def split: option.splits if_splits)
  then show ?thesis using gate_min proxy_calls [of e c fetch req p d w r d' w'] by blast
qed

subsection \<open>One secret for two kinds of session\<close>

lemma participant_token:
  assumes "\<forall>k p. byte_list (hmac e k p)" "hmac e2 = hmac e" "now e2 \<le> now e + session_ttl_ms"
  shows "read_participant e2 (Some (participant_cookie_name @ ''='' @ sign_value e (participant_json e p) secret)) secret = Some (Some p)"
    "read_operator e2 (Some (operator_cookie_name @ ''='' @ sign_value e (participant_json e p) secret)) secret = Some (Some (pt_login p))"
proof -
  let ?v = "participant_json e p"
  have names: "list_all cookie_char participant_cookie_name" "list_all cookie_char operator_cookie_name"
    by (simp_all add: participant_cookie_name_def operator_cookie_name_def cookie_char_def id_char_def char_code_def Let_def)
  have v: "wf_json ?v" "jget ''exp'' ?v = Some (JNum (int (now e + session_ttl_ms)))"
    by (simp_all add: participant_json_def jget_def)
  note r = signed_cookie_reads [OF assms(1,2) _ v, of _ secret]
  have "text_of ''userId'' ?v = pt_user_id p" "text_of ''login'' ?v = pt_login p" "text_of ''email'' ?v = pt_email p"
    by (simp_all add: text_of_def participant_json_def jget_str_def jget_def)
  then show "read_participant e2 (Some (participant_cookie_name @ ''='' @ sign_value e (participant_json e p) secret)) secret = Some (Some p)"
    "read_operator e2 (Some (operator_cookie_name @ ''='' @ sign_value e (participant_json e p) secret)) secret = Some (Some (pt_login p))"
    unfolding read_participant_def read_operator_def r(1) [OF names(1)] r(1) [OF names(2)]
    using assms(3) by (simp_all add: r(2) [OF names(1)] del: of_nat_add)
qed

text \<open>
  C17. Every participant is an operator: both kinds of session are signed with one secret and
  carry nothing that tells them apart, so the value of the cookie any signed-in participant
  holds, sent under the operator's cookie name, is read as an operator's session with the
  participant's login, whatever the list of operators says.
\<close>

theorem participant_is_operator:
  assumes "\<forall>k p. byte_list (hmac e k p)" "hmac e2 = hmac e" "now e2 \<le> now e + session_ttl_ms"
    and "participant_cookie e p secret = participant_cookie_name @ ''='' @ token @ session_attrs ''/'' (session_ttl_ms div 1000)"
  shows "read_participant e2 (Some (participant_cookie_name @ ''='' @ token)) secret = Some (Some p) \<and>
    read_operator e2 (Some (operator_cookie_name @ ''='' @ token)) secret = Some (Some (pt_login p))"
proof -
  have "token = sign_value e (participant_json e p) secret" using assms(4) by (simp add: participant_cookie_def)
  then show ?thesis using participant_token [OF assms(1-3)] by simp
qed

subsection \<open>The rate limiter\<close>

definition rate_limit :: nat where "rate_limit = 5"

definition rate_window_ms :: int where "rate_window_ms = 10 * 60 * 1000"

type_synonym hits = "string \<Rightarrow> int list"

definition rate_limited :: "string \<Rightarrow> int \<Rightarrow> hits \<Rightarrow> bool \<times> hits" where
  "rate_limited ip t h =
     (let recent = filter (\<lambda>x. t - x < rate_window_ms) (h ip) @ [t]
      in (rate_limit < length recent, h(ip := recent)))"

text \<open>A history of submissions, and which of them were let through.\<close>

fun submissions :: "(string \<times> int) list \<Rightarrow> hits \<Rightarrow> (string \<times> int \<times> bool) list \<times> hits" where
  "submissions [] h = ([], h)"
| "submissions ((ip, t) # cs) h =
     (let (limited, h1) = rate_limited ip t h; (rs, h2) = submissions cs h1 in ((ip, t, \<not> limited) # rs, h2))"

lemma submissions_append:
  "submissions (xs @ ys) h =
     (let (r1, h1) = submissions xs h; (r2, h2) = submissions ys h1 in (r1 @ r2, h2))"
  by (induction xs arbitrary: h) (auto simp: Let_def split: prod.split)

definition times_of :: "string \<Rightarrow> (string \<times> int) list \<Rightarrow> int list" where
  "times_of ip cs = map snd (filter (\<lambda>c. fst c = ip) cs)"

text \<open>With a clock that does not go back the stored times are the ones the window still holds.\<close>

lemma stored_hits:
  assumes "sorted (map snd cs)" "\<forall>x \<in> set cs. snd x \<le> t"
  shows "filter (\<lambda>x. t - x < rate_window_ms) (snd (submissions cs (\<lambda>_. [])) ip) =
    filter (\<lambda>x. t - x < rate_window_ms) (times_of ip cs)"
  using assms
proof (induction cs arbitrary: t ip rule: rev_induct)
  case Nil
  then show ?case by (simp add: times_of_def)
next
  case (snoc c cs)
  obtain i u where c: "c = (i, u)" by (cases c)
  have s: "sorted (map snd cs)" "\<forall>x \<in> set cs. snd x \<le> u" "u \<le> t" using snoc.prems by (auto simp: c sorted_append)
  define h where "h = snd (submissions cs (\<lambda>_. []))"
  have step: "snd (submissions (cs @ [c]) (\<lambda>_. [])) = h(i := filter (\<lambda>x. u - x < rate_window_ms) (h i) @ [u])"
    by (simp add: submissions_append c h_def rate_limited_def Let_def split: prod.split)
  have IH: "filter (\<lambda>x. r - x < rate_window_ms) (h j) = filter (\<lambda>x. r - x < rate_window_ms) (times_of j cs)" if "u \<le> r" for r j
    unfolding h_def by (rule snoc.IH [OF s(1)]) (use s(2) that in auto)
  have narrow: "filter (\<lambda>x. u - x < rate_window_ms \<and> t - x < rate_window_ms) xs =
      filter (\<lambda>x. t - x < rate_window_ms) xs" for xs
    using s(3) by (intro filter_cong) auto
  have "times_of ip (cs @ [c]) = times_of ip cs @ (if i = ip then [u] else [])" by (simp add: times_of_def c)
  then show ?case unfolding step using IH [OF s(3), of ip] by (cases "ip = i") (simp_all add: narrow)
qed

lemma submission_result:
  assumes "sorted (map snd cs)" "\<forall>x \<in> set cs. snd x \<le> t"
  shows "fst (submissions (cs @ [(ip, t)]) (\<lambda>_. [])) = fst (submissions cs (\<lambda>_. [])) @
    [(ip, t, length (filter (\<lambda>x. t - x < rate_window_ms) (times_of ip cs)) < rate_limit)]"
  by (auto simp: submissions_append rate_limited_def Let_def stored_hits [OF assms, symmetric] rate_limit_def split: prod.split)

lemma submission_calls: "map (\<lambda>(ip, t, ok). (ip, t)) (fst (submissions cs h)) = cs"
  by (induction cs arbitrary: h) (auto simp: Let_def split: prod.split, metis fst_conv)

lemma count_mapped: "(\<And>x. x \<in> set xs \<Longrightarrow> P x \<Longrightarrow> Q (f x)) \<Longrightarrow> length (filter P xs) \<le> length (filter Q (map f xs))"
  by (induction xs) (auto simp: le_SucI)

text \<open>
  C19. The rate limit: as long as the clock does not go back, a submission is let through exactly
  when fewer than five of its address, refused ones included, came in the ten minutes before it;
  so no ten minutes see more than five of an address let through, and an address that keeps
  trying five times in every ten minutes is never let through again.
\<close>

theorem rate_limit_holds:
  assumes "sorted (map snd cs)"
  shows "length (filter (\<lambda>(i, t, ok). i = ip \<and> ok \<and> t0 \<le> t \<and> t < t0 + rate_window_ms) (fst (submissions cs (\<lambda>_. [])))) \<le> rate_limit \<and>
    ((\<forall>x \<in> set cs. snd x \<le> t) \<longrightarrow>
      fst (submissions (cs @ [(ip, t)]) (\<lambda>_. [])) = fst (submissions cs (\<lambda>_. [])) @
        [(ip, t, length (filter (\<lambda>x. t - x < rate_window_ms) (times_of ip cs)) < rate_limit)])"
proof (intro conjI impI)
  show "length (filter (\<lambda>(i, t, ok). i = ip \<and> ok \<and> t0 \<le> t \<and> t < t0 + rate_window_ms) (fst (submissions cs (\<lambda>_. [])))) \<le> rate_limit"
    using assms
  proof (induction cs rule: rev_induct)
    case (snoc c cs)
    obtain i u where c: "c = (i, u)" by (cases c)
    have s: "sorted (map snd cs)" "\<forall>x \<in> set cs. snd x \<le> u" using snoc.prems by (auto simp: c sorted_append)
    let ?in = "\<lambda>(i, t, ok). i = ip \<and> ok \<and> t0 \<le> t \<and> t < t0 + rate_window_ms"
    let ?r = "fst (submissions cs (\<lambda>_. []))" and ?n = "length (filter (\<lambda>x. u - x < rate_window_ms) (times_of i cs))"
    have r: "fst (submissions (cs @ [c]) (\<lambda>_. [])) = ?r @ [(i, u, ?n < rate_limit)]"
      unfolding c by (rule submission_result [OF s])
    show ?case
    proof (cases "?in (i, u, ?n < rate_limit)")
      case True
      have "length (filter ?in ?r) \<le> length (filter (\<lambda>(j, t). j = i \<and> u - t < rate_window_ms) (map (\<lambda>(ip, t, ok). (ip, t)) ?r))"
        using True by (intro count_mapped) auto
      also have "\<dots> = ?n"
        unfolding submission_calls times_of_def by (induction cs) auto
      finally have "length (filter ?in ?r) \<le> ?n" .
      moreover have "?n < rate_limit" using True by auto
      moreover have "length (filter ?in (?r @ [(i, u, ?n < rate_limit)])) \<le> Suc (length (filter ?in ?r))" by simp
      ultimately show ?thesis unfolding r by linarith
    next
      case False
      then have "filter ?in [(i, u, ?n < rate_limit)] = []" by auto
      then show ?thesis using snoc.IH [OF s(1)] unfolding r filter_append by (simp only: append_Nil2)
    qed
  qed simp
qed (rule submission_result [OF assms])

end
