(* ===== verification/Legacy_Surface.thy ===== *)
theory Legacy_Surface
  imports Legacy_Access Gateway_Web
begin

text \<open>
  The browser surfaces of the frozen gateway, under \<open>packages/gateway-legacy/src\<close>: \<open>oauth.ts\<close>,
  \<open>oauth-callback.ts\<close>, \<open>beta.ts\<close>, \<open>account.ts\<close>, \<open>dashboard.ts\<close>, \<open>docs.ts\<close> and \<open>landing.ts\<close>. A handler is an
  operation on the database that answers a page, a redirect or a JSON value; an exception is left to
  the server. A page is what it shows, which \<open>Legacy_Pages\<close> writes as HTML; short messages are their
  HTML. GitHub's three endpoints are arguments.
\<close>

subsection \<open>Pages\<close>

record key_view =
  kv_prefix :: string
  kv_read_only :: bool
  kv_label :: string
  kv_scopes :: "string list"
  kv_used :: string
  kv_revoke :: "string option"

text \<open>
  \<open>av_issued\<close> is a key shown once with the commands that use it, \<open>av_commands\<close> the commands with
  a placeholder for a key, \<open>av_boxes\<close> the check boxes of the form that makes a key.
\<close>

record account_view =
  av_login :: string
  av_email :: string
  av_notice :: "string option"
  av_issued :: "(string \<times> string list) option"
  av_requests :: "(string \<times> request_status \<times> string) list"
  av_projects :: "(string \<times> string) list"
  av_personal :: string
  av_commands :: "string list"
  av_keys :: "key_view list"
  av_boxes :: "(string \<times> string) list"

record doc_link =
  dl_slug :: string
  dl_title :: string
  dl_section :: string

datatype shell = Account_shell | Beta_shell | Operator_shell | Login_shell

datatype legacy_page =
    Message shell string
  | Landing
  | Docs doc_link string
  | Docs_missing
  | Beta_form
  | Signed_out
  | Account_page account_view
  | Operator_login
  | Operator_page string "request_row list" nat
  | Approved_page request_row project_role

datatype legacy_answer = Wire response | Html nat legacy_page "string list"

definition html :: "nat \<Rightarrow> legacy_page \<Rightarrow> legacy_answer act" where
  "html n p = done_with (Html n p [])"

definition redirected :: "string \<Rightarrow> string list \<Rightarrow> legacy_answer act" where
  "redirected location cookies = done_with (Wire (Redirect location cookies))"

definition legacy_origin :: "legacy_config \<Rightarrow> request \<Rightarrow> string" where
  "legacy_origin c req =
     (if truthy (lc_public_url c) then the (lc_public_url c)
      else (let host = (case host_header req of Some h \<Rightarrow> h | None \<Rightarrow> ''localhost:8080'')
            in (if local_host host then ''http'' else ''https'') @ ''://'' @ host))"

subsection \<open>Forms\<close>

definition max_form_bytes :: nat where "max_form_bytes = 16 * 1024"

definition read_form :: "request \<Rightarrow> string option" where
  "read_form req = read_body req max_form_bytes"

definition form_get_all :: "string \<Rightarrow> string \<Rightarrow> string list" where
  "form_get_all body k =
     map snd (filter (\<lambda>(x, v). x = k)
       (map (\<lambda>part. (form_decode (takeWhile (\<lambda>c. c \<noteq> CHR ''='') part),
                     form_decode (tl (dropWhile (\<lambda>c. c \<noteq> CHR ''='') part))))
         (filter (\<lambda>part. part \<noteq> []) (js_split (CHR ''&'') body))))"

text \<open>\<open>(form?.get(k) ?? '').trim()\<close> of a form that may have been too large.\<close>

definition field :: "string option \<Rightarrow> string \<Rightarrow> string" where
  "field form k = js_trim (or_empty (Option.bind form (\<lambda>f. form_get f k)))"

subsection \<open>Signing in with GitHub\<close>

datatype oauth_flow = Admin_flow | Participant_flow

fun flow_text :: "oauth_flow \<Rightarrow> string" where
  "flow_text Admin_flow = ''admin''"
| "flow_text Participant_flow = ''participant''"

definition legacy_callback_url :: "legacy_config \<Rightarrow> string" where
  "legacy_callback_url c = (case lc_public_url c of Some u \<Rightarrow> u | None \<Rightarrow> ''undefined'') @ ''/oauth/callback''"

definition legacy_begin_login :: "env \<Rightarrow> legacy_config \<Rightarrow> oauth_flow \<Rightarrow> string \<Rightarrow> string \<times> string" where
  "legacy_begin_login e c flow scope =
     (let state = sign_value e (JObj [(''nonce'', JStr (base64url (random e 0 16))), (''flow'', JStr (flow_text flow)),
                    (''exp'', JNum (int (now e + state_ttl_ms)))]) (or_empty (lc_session_secret c))
      in (''https://github.com/login/oauth/authorize?'' @ form_pairs
            [(''client_id'', or_empty (lc_github_client_id c)), (''redirect_uri'', legacy_callback_url c),
             (''scope'', scope), (''state'', state)],
          state_cookie_name @ ''='' @ state @ cookie_attrs ''/oauth'' (state_ttl_ms div 1000)))"

definition legacy_verify_callback :: "env \<Rightarrow> string option \<Rightarrow> string option \<Rightarrow> string \<Rightarrow> oauth_flow option" where
  "legacy_verify_callback e returned cookie secret =
     (if \<not> truthy returned \<or> \<not> truthy cookie \<or> returned \<noteq> cookie then None
      else (case verify_value e returned secret of
          None \<Rightarrow> None
        | Some payload \<Rightarrow>
            if jget_str ''flow'' payload = Some ''admin'' then Some Admin_flow
            else if jget_str ''flow'' payload = Some ''participant'' then Some Participant_flow else None))"

record github =
  gh_token :: "string \<Rightarrow> (nat \<times> string) option"
  gh_user :: "string \<Rightarrow> (nat \<times> string) option"
  gh_emails :: "string \<Rightarrow> (nat \<times> string) option"

text \<open>\<open>emails.find\<close>: \<open>None\<close> when no entry fits or an entry before it is \<open>null\<close>, which throws.\<close>

fun primary_email :: "json list \<Rightarrow> string option" where
  "primary_email [] = None"
| "primary_email (v # vs) =
     (if v = JNull then None
      else if jget ''primary'' v = Some (JBool True) \<and> jget ''verified'' v = Some (JBool True) \<and> truthy (jget_str ''email'' v)
      then jget_str ''email'' v else primary_email vs)"

definition primary_verified_email :: "github \<Rightarrow> string \<Rightarrow> string \<Rightarrow> string" where
  "primary_verified_email g access login =
     (let fallback = login @ ''@users.noreply.github.com''
      in case gh_emails g access of
           None \<Rightarrow> fallback
         | Some (status, text) \<Rightarrow>
             if \<not> ok_status status then fallback
             else (case json_parse text of
                 Some (JArr vs) \<Rightarrow> (case primary_email vs of Some m \<Rightarrow> m | None \<Rightarrow> fallback)
               | _ \<Rightarrow> fallback))"

text \<open>The outer \<open>None\<close> is an exception: no answer, a body that is no JSON, or \<open>null\<close>.\<close>

definition github_json :: "(nat \<times> string) option \<Rightarrow> json option option" where
  "github_json r =
     (case r of
        None \<Rightarrow> None
      | Some (status, text) \<Rightarrow>
          if \<not> ok_status status then Some None
          else (case json_parse text of None \<Rightarrow> None | Some v \<Rightarrow> if v = JNull then None else Some (Some v)))"

definition legacy_resolve_login :: "github \<Rightarrow> string \<Rightarrow> bool \<Rightarrow> (string \<times> string option) option option" where
  "legacy_resolve_login g code fetch_email =
     (case github_json (gh_token g code) of
        None \<Rightarrow> None
      | Some None \<Rightarrow> Some None
      | Some (Some token) \<Rightarrow>
          if \<not> truthy (jget_str ''access_token'' token) then Some None
          else (let access = the (jget_str ''access_token'' token)
                in case github_json (gh_user g access) of
                     None \<Rightarrow> None
                   | Some None \<Rightarrow> Some None
                   | Some (Some user) \<Rightarrow>
                       if \<not> truthy (jget_str ''login'' user) then Some None
                       else (let login = the (jget_str ''login'' user)
                             in Some (Some (login, if fetch_email then Some (primary_verified_email g access login) else None)))))"

definition login_failure :: "nat \<Rightarrow> string \<Rightarrow> legacy_answer act" where
  "login_failure n body = done_with (Html n (Message Login_shell body) [clear_state_cookie])"

definition legacy_oauth_callback :: "env \<Rightarrow> legacy_config \<Rightarrow> github \<Rightarrow> request \<Rightarrow> legacy_answer act" where
  \<open>legacy_oauth_callback e c g req =
     (if \<not> truthy (lc_session_secret c) then login_failure 503 ''<h1>Login not configured</h1>''
      else (case parse_cookies (cookie_header req) of
          None \<Rightarrow> failing (Refused ''URI malformed'')
        | Some cookies \<Rightarrow>
            (let secret = the (lc_session_secret c); code = query_get ''code'' req
             in case legacy_verify_callback e (query_get ''state'' req) (map_of cookies state_cookie_name) secret of
                  None \<Rightarrow>
                    login_failure 403 ''<h1>Login failed</h1><p>Invalid state. <a href="/account">Try again</a>.</p>''
                | Some flow \<Rightarrow>
                    if \<not> truthy code
                    then login_failure 400 ''<h1>Login failed</h1><p class="muted">Missing authorization code.</p>''
                    else if flow = Admin_flow then
                      (if \<not> legacy_admin_enabled c then login_failure 503 ''<h1>Operator dashboard not configured</h1>''
                       else (case legacy_resolve_login g (the code) False of
                           None \<Rightarrow> failing (Refused ''fetch failed'')
                         | Some r \<Rightarrow>
                             if (case r of None \<Rightarrow> True | Some (login, _) \<Rightarrow> login \<notin> set (lc_admin_logins c))
                             then login_failure 403
                               ''<h1>Not authorized</h1><p class="muted">This GitHub account is not an operator.</p>''
                             else redirected ''/admin'' [operator_cookie e (fst (the r)) secret, clear_state_cookie]))
                    else if \<not> participant_login_enabled c then login_failure 503 ''<h1>Accounts not configured</h1>''
                    else (case legacy_resolve_login g (the code) True of
                        None \<Rightarrow> failing (Refused ''fetch failed'')
                      | Some r \<Rightarrow>
                          if (case r of None \<Rightarrow> True | Some (_, email) \<Rightarrow> \<not> truthy email)
                          then login_failure 403
                            ''<h1>Login failed</h1><p class="muted">Could not read a verified email from your GitHub account.</p>''
                          else (let login = fst (the r); email = the (snd (the r))
                                in seq (upsert_user_by_github e login email) (\<lambda>u.
                                     redirected ''/account''
                                       [participant_cookie e \<lparr>pt_user_id = u, pt_login = login, pt_email = email\<rparr> secret,
                                        clear_state_cookie]))))))\<close>

subsection \<open>Requests by email\<close>

definition email_ok :: "string \<Rightarrow> bool" where
  "email_ok s \<longleftrightarrow>
     (case js_split (CHR ''@'') s of
        [a, b] \<Rightarrow> a \<noteq> [] \<and> list_all (\<lambda>c. \<not> js_space c) s \<and> list_ex (\<lambda>i. b ! i = CHR ''.'') [1..<length b - 1]
      | _ \<Rightarrow> False)"

definition beta_submit :: "env \<Rightarrow> string \<Rightarrow> request \<Rightarrow> hits \<Rightarrow> legacy_answer act \<times> hits" where
  \<open>beta_submit e ip req h =
     (let (limited, h1) = rate_limited ip (int (now e)) h
      in ((if limited then html 429 (Message Beta_shell ''<h1>Slow down</h1><p>Too many requests. Try again later.</p>'')
           else (case read_form req of
               None \<Rightarrow> html 413 (Message Beta_shell ''<h1>Request too large</h1>'')
             | Some form \<Rightarrow>
                 (let email = field (Some form) ''email''; p = field (Some form) ''projectId''; note = field (Some form) ''note''
                  in if \<not> email_ok email \<or> \<not> valid_project_id p
                     then html 400 (Message Beta_shell (''<h1>Check your details</h1><p>A valid email and a project id like '' @
                       ''<code>proj_...</code> are required. <a href="/beta">Back</a></p>''))
                     else seq (create_access_request e email p (if note = [] then None else Some note)) (\<lambda>i.
                       html 201 (Message Beta_shell (''<h1>Request received</h1><p>Thanks - your request <code>'' @ escaped i @
                         ''</code> for '' @ ''<code>'' @ escaped p @ ''</code> is pending operator approval. You\'ll receive an '' @
                         ''API key by email.</p>'')))))), h1))\<close>

subsection \<open>The participant's account\<close>

definition clone_command :: "string \<Rightarrow> string \<Rightarrow> string" where
  "clone_command origin p = ''memorize project clone '' @ p @ '' --remote-url '' @ origin"

definition auth_login_command :: "string \<Rightarrow> string \<Rightarrow> string" where
  "auth_login_command origin token = ''memorize auth login --remote-url '' @ origin @ '' --token '' @ token"

definition connect_commands :: "acl_row list \<Rightarrow> string \<Rightarrow> string option \<Rightarrow> string list" where
  "connect_commands grants origin token =
     (if grants = [] then []
      else auth_login_command origin (case token of Some t \<Rightarrow> t | None \<Rightarrow> ''YOUR_KEY'') #
           map (\<lambda>g. clone_command origin (la_project_id g)) grants)"

definition keys_view :: "(key_row \<times> string list) list \<Rightarrow> key_view list" where
  "keys_view tokens =
     map (\<lambda>(t, scopes).
       \<lparr>kv_prefix = lk_prefix t, kv_read_only = lk_read_only t, kv_label = or_empty (lk_label t), kv_scopes = scopes,
        kv_used = (if truthy (lk_last_used_at t) then the (lk_last_used_at t) else ''never''),
        kv_revoke = (if truthy (lk_revoked_at t) then None else Some (lk_id t))\<rparr>) tokens"

record flash =
  fl_notice :: "string option"
  fl_key :: "string option"
  fl_scope :: "string list"

definition no_flash :: flash where "no_flash = \<lparr>fl_notice = None, fl_key = None, fl_scope = []\<rparr>"

text \<open>\<open>dashboardView\<close>, which also makes the personal store; \<open>k\<close> draws of random bytes came before.\<close>

definition account_dashboard :: "env \<Rightarrow> nat \<Rightarrow> participant \<Rightarrow> string \<Rightarrow> flash \<Rightarrow> account_view act" where
  "account_dashboard e k p origin f = reading (\<lambda>d.
     let grants = list_project_access d (pt_user_id p);
         covered = (if fl_scope f \<noteq> [] then filter (\<lambda>g. la_project_id g \<in> set (fl_scope f)) grants else grants);
         projects = map (\<lambda>g. (la_project_id g, la_role g)) grants
     in seq (legacy_personal_store e k (pt_user_id p)) (\<lambda>personal. done_with
          \<lparr>av_login = pt_login p, av_email = pt_email p, av_notice = fl_notice f,
           av_issued = map_option (\<lambda>key. (key, connect_commands covered origin (Some key))) (fl_key f),
           av_requests = map (\<lambda>r. (lr_project_id r, lr_status r, lr_created_at r)) (list_access_requests_by_email d (pt_email p)),
           av_projects = projects, av_personal = lp_store_id personal,
           av_commands = connect_commands grants origin None,
           av_keys = keys_view (list_api_tokens d (pt_user_id p)), av_boxes = projects\<rparr>))"

definition show_account :: "nat \<Rightarrow> env \<Rightarrow> nat \<Rightarrow> participant \<Rightarrow> string \<Rightarrow> flash \<Rightarrow> legacy_answer act" where
  "show_account n e k p origin f = seq (account_dashboard e k p origin f) (\<lambda>v. html n (Account_page v))"

text \<open>The scope of a new key: the chosen projects the user has, or none when these are all or none.\<close>

definition chosen_scope :: "acl_row list \<Rightarrow> string option \<Rightarrow> string list" where
  "chosen_scope grants form =
     (let granted = uniq (map la_project_id grants);
          selected = filter (\<lambda>p. p \<in> set granted) (case form of Some f \<Rightarrow> form_get_all f ''projects'' | None \<Rightarrow> [])
      in if selected = [] \<or> length selected = length granted then [] else selected)"

definition account_key_route :: "segment list" where
  "account_key_route = [Lit ''account'', Lit ''keys'', Capture, Lit ''revoke'']"

definition legacy_account :: "env \<Rightarrow> legacy_config \<Rightarrow> request \<Rightarrow> legacy_answer act" where
  \<open>legacy_account e c req =
     (if \<not> participant_login_enabled c
      then html 503 (Message Account_shell (''<h1>Accounts not configured</h1><p class="muted">Set GITHUB_CLIENT_ID/SECRET, '' @
             ''GATEWAY_PUBLIC_URL, and GATEWAY_SESSION_SECRET.</p>''))
      else let secret = the (lc_session_secret c); origin = legacy_origin c req;
               get = (meth req = ''GET''); post = (meth req = ''POST''); p = path req
           in if get \<and> p = ''/account/login''
              then (let (location, cookie) = legacy_begin_login e c Participant_flow ''read:user user:email''
                    in redirected location [cookie])
              else if get \<and> p = ''/account/logout'' then redirected ''/account'' [clear_participant_cookie]
              else (case read_participant e (cookie_header req) secret of
                  None \<Rightarrow> failing (Refused ''URI malformed'')
                | Some None \<Rightarrow>
                    if get \<and> (p = ''/account'' \<or> p = ''/account/'') then html 200 Signed_out
                    else redirected ''/account'' []
                | Some (Some s) \<Rightarrow>
                    if get \<and> (p = ''/account'' \<or> p = ''/account/'') then show_account 200 e 0 s origin no_flash
                    else if post \<and> p = ''/account/requests'' then
                      (let form = read_form req; project = field form ''projectId''; note = field form ''note''
                       in if \<not> valid_project_id project
                          then show_account 400 e 0 s origin
                            (no_flash\<lparr>fl_notice := Some ''A project id like <code>proj_...</code> is required.''\<rparr>)
                          else seq (create_access_request e (pt_email s) project (if note = [] then None else Some note)) (\<lambda>i.
                            show_account 201 e 1 s origin
                              (no_flash\<lparr>fl_notice := Some (''Request for <code>'' @ escaped project @
                                ''</code> is pending operator approval.'')\<rparr>)))
                    else if post \<and> p = ''/account/keys'' then reading (\<lambda>d.
                      let form = read_form req;
                          scope = chosen_scope (list_project_access d (pt_user_id s)) form;
                          read_only = (Option.bind form (\<lambda>f. form_get f ''readonly'') = Some ''1'')
                      in seq (legacy_issue_api_key e 0 (pt_user_id s) (Some (pt_login s)) read_only scope) (\<lambda>key.
                           show_account 201 e 2 s origin (no_flash\<lparr>fl_key := Some (is_plaintext key), fl_scope := scope\<rparr>)))
                    else (case (if post then match_route account_key_route p else None) of
                        Some ids \<Rightarrow>
                          (case decode_uri (ids ! 0) of
                             None \<Rightarrow> failing (Refused ''URI malformed'')
                           | Some t \<Rightarrow> reading (\<lambda>d.
                               if \<not> token_belongs_to_user d t (pt_user_id s)
                               then show_account 403 e 0 s origin (no_flash\<lparr>fl_notice := Some ''That key is not yours.''\<rparr>)
                               else seq (legacy_revoke_token e t) (\<lambda>_.
                                 show_account 200 e 0 s origin (no_flash\<lparr>fl_notice := Some ''Key revoked.''\<rparr>))))
                      | None \<Rightarrow> html 404 (Message Account_shell ''<h1>Not found</h1>''))))\<close>

subsection \<open>The operator's dashboard\<close>

definition legacy_admin :: "env \<Rightarrow> legacy_config \<Rightarrow> request \<Rightarrow> legacy_answer act" where
  \<open>legacy_admin e c req =
     (if \<not> legacy_admin_enabled c
      then html 503 (Message Operator_shell (''<h1>Operator dashboard not configured</h1><p class="muted">Set GITHUB_CLIENT_ID/SECRET, '' @
             ''GATEWAY_PUBLIC_URL, GATEWAY_SESSION_SECRET, and GATEWAY_ADMIN_LOGINS.</p>''))
      else let secret = the (lc_session_secret c); get = (meth req = ''GET''); p = path req
           in if get \<and> p = ''/admin/login''
              then (let (location, cookie) = legacy_begin_login e c Admin_flow ''read:user'' in redirected location [cookie])
              else if get \<and> p = ''/admin/logout'' then redirected ''/admin'' [clear_operator_cookie]
              else (case read_operator e (cookie_header req) secret of
                  None \<Rightarrow> failing (Refused ''URI malformed'')
                | Some operator \<Rightarrow>
                    if get \<and> (p = ''/admin'' \<or> p = ''/admin/'') then
                      (case operator of
                         None \<Rightarrow> html 200 Operator_login
                       | Some login \<Rightarrow> reading (\<lambda>d.
                           html 200 (Operator_page login (list_access_requests d (Some Req_pending))
                             (length (list_access_requests d (Some Req_approved)) +
                              length (list_access_requests d (Some Req_denied))))))
                    else if meth req = ''POST'' \<and> (p = ''/admin/approve'' \<or> p = ''/admin/deny'') then
                      (if operator = None then redirected ''/admin'' []
                       else (case read_form req of
                           None \<Rightarrow> failing (Refused ''too large'')
                         | Some form \<Rightarrow>
                             (let i = or_empty (form_get form ''requestId'')
                              in if p = ''/admin/approve'' then
                                   seq (approve_access_request e i
                                          (if form_get form ''role'' = Some ''viewer'' then Acl_viewer else Acl_member)) (\<lambda>r.
                                     case r of
                                       None \<Rightarrow> html 404 (Message Operator_shell ''<h1>Unknown request</h1><p><a href="/admin">Back</a></p>'')
                                     | Some (request, role) \<Rightarrow> html 200 (Approved_page request role))
                                 else seq (decide_access_request e i Req_denied) (\<lambda>_. redirected ''/admin'' []))))
                    else html 404 (Message Operator_shell ''<h1>Not found</h1>'')))\<close>

subsection \<open>Documentation\<close>

definition legacy_docs_pages :: "doc_link list" where
  "legacy_docs_pages =
     [\<lparr>dl_slug = ''overview'', dl_title = ''Overview'', dl_section = ''Guides''\<rparr>,
      \<lparr>dl_slug = ''getting-started'', dl_title = ''Getting started'', dl_section = ''Guides''\<rparr>,
      \<lparr>dl_slug = ''connect'', dl_title = ''Connect to the Hub'', dl_section = ''Guides''\<rparr>,
      \<lparr>dl_slug = ''consolidation'', dl_title = ''Consolidation & search'', dl_section = ''Guides''\<rparr>,
      \<lparr>dl_slug = ''troubleshooting'', dl_title = ''Troubleshooting'', dl_section = ''Guides''\<rparr>,
      \<lparr>dl_slug = ''event-sourcing'', dl_title = ''Event sourcing core'', dl_section = ''Internals''\<rparr>,
      \<lparr>dl_slug = ''sync-convergence'', dl_title = ''Sync and convergence'', dl_section = ''Internals''\<rparr>,
      \<lparr>dl_slug = ''projection-rebuild'', dl_title = ''Projection and rebuild'', dl_section = ''Internals''\<rparr>,
      \<lparr>dl_slug = ''memory-retrieval'', dl_title = ''Memory and retrieval'', dl_section = ''Internals''\<rparr>,
      \<lparr>dl_slug = ''performance'', dl_title = ''Performance'', dl_section = ''Evidence''\<rparr>,
      \<lparr>dl_slug = ''security'', dl_title = ''Security and trust model'', dl_section = ''Security''\<rparr>]"

definition legacy_docs :: "legacy_config \<Rightarrow> request \<Rightarrow> legacy_answer act" where
  "legacy_docs c req =
     (let rest = (if starts_with (path req) ''/docs/'' then drop 6 (path req) else drop 5 (path req));
          slug = (if rest = [] then ''overview'' else rest)
      in case find (\<lambda>p. dl_slug p = slug) legacy_docs_pages of
           None \<Rightarrow> html 404 Docs_missing
         | Some p \<Rightarrow> html 200 (Docs p (legacy_origin c req)))"

end
