(* ===== verification/Legacy_Server.thy ===== *)
theory Legacy_Server
  imports Legacy_Surface Gateway_Server
begin

text \<open>
  \<open>packages/gateway-legacy/src/server.ts\<close> and \<open>admin-cli.ts\<close>: the route table of the frozen gateway with
  its error boundary, the operator's command line on the same database, the runs of both, and what
  no run can change.
\<close>

subsection \<open>The operator's command line\<close>

datatype cli_output =
    No_requests
  | Requests "string list"
  | Granted string request_row project_role "string option"
  | Denied string
  | Key_printed string legacy_issued
  | Key_revoked string
  | No_live_token string
  | Cli_error string

fun flag :: "string list \<Rightarrow> string \<Rightarrow> string option" where
  "flag [] name = None"
| "flag (a # args) name =
     (if a = ''--'' @ name then (case args of [] \<Rightarrow> None | v # _ \<Rightarrow> Some v) else flag args name)"

fun request_status_text :: "request_status \<Rightarrow> string" where
  "request_status_text Req_pending = ''pending''"
| "request_status_text Req_approved = ''approved''"
| "request_status_text Req_denied = ''denied''"

definition pad_end :: "nat \<Rightarrow> string \<Rightarrow> string" where
  "pad_end n s = s @ replicate (n - length s) (CHR '' '')"

definition print_request :: "request_row \<Rightarrow> string" where
  "print_request r =
     join [CHR 0x09] [lr_id r, pad_end 8 (request_status_text (lr_status r)), lr_project_id r, lr_email r, or_empty (lr_note r)]"

definition cli_usage :: string where
  "cli_usage = ''usage:\<newline>  requests list [pending|approved|denied]\<newline>  requests approve <requestId> [--role member|viewer]\<newline>  requests deny <requestId>\<newline>  tokens issue <email> [--label <text>]\<newline>  tokens revoke <tokenId>''"

text \<open>\<open>listAccessRequests(db, rest[0])\<close>: any word may stand where a status should; it matches no row.\<close>

definition cli_rows :: "ldb \<Rightarrow> string option \<Rightarrow> request_row list" where
  "cli_rows d word =
     (if \<not> truthy word then list_access_requests d None
      else order_asc lr_created_at (filter (\<lambda>r. request_status_text (lr_status r) = the word) (l_requests d)))"

definition first_word :: "string list \<Rightarrow> string option" where
  "first_word args = (case args of [] \<Rightarrow> None | a # _ \<Rightarrow> Some a)"

definition cli_list :: "string list \<Rightarrow> cli_output act" where
  "cli_list args = reading (\<lambda>d. let rows = cli_rows d (first_word args)
     in done_with (if rows = [] then No_requests else Requests (map print_request rows)))"

definition cli_approve :: "env \<Rightarrow> string list \<Rightarrow> cli_output act" where
  "cli_approve e args =
     (if \<not> truthy (first_word args) then done_with (Cli_error ''usage: requests approve <requestId> [--role member|viewer]'')
      else (let i = the (first_word args) in reading (\<lambda>d.
          case get_access_request d i of
            None \<Rightarrow> done_with (Cli_error (''no such request: '' @ i))
          | Some existing \<Rightarrow>
              (let note = (if lr_status existing \<noteq> Req_pending
                           then Some (''note: request '' @ i @ '' was already '' @ request_status_text (lr_status existing) @ ''; re-approving'')
                           else None);
                   role = (if flag args ''role'' = Some ''viewer'' then Acl_viewer else Acl_member)
               in seq (approve_access_request e i role) (\<lambda>result. done_with
                    (case result of
                       None \<Rightarrow> Cli_error (''no such request: '' @ i)
                     | Some (request, shown) \<Rightarrow> Granted i request shown note))))))"

definition cli_deny :: "env \<Rightarrow> string list \<Rightarrow> cli_output act" where
  "cli_deny e args =
     (if \<not> truthy (first_word args) then done_with (Cli_error ''usage: requests deny <requestId>'')
      else (let i = the (first_word args) in reading (\<lambda>d.
          if get_access_request d i = None then done_with (Cli_error (''no such request: '' @ i))
          else seq (decide_access_request e i Req_denied) (\<lambda>_. done_with (Denied i)))))"

definition cli_issue :: "env \<Rightarrow> string list \<Rightarrow> cli_output act" where
  "cli_issue e args =
     (if \<not> truthy (first_word args) then done_with (Cli_error ''usage: tokens issue <email> [--label <text>]'')
      else (let email = the (first_word args)
            in seq (issue_key_for_email e email (flag args ''label'')) (\<lambda>key. done_with (Key_printed email key))))"

definition cli_revoke :: "env \<Rightarrow> string list \<Rightarrow> cli_output act" where
  "cli_revoke e args =
     (if \<not> truthy (first_word args) then done_with (Cli_error ''usage: tokens revoke <tokenId>'')
      else (let i = the (first_word args)
            in seq (legacy_revoke_token e i) (\<lambda>live. done_with (if live then Key_revoked i else No_live_token i))))"

text \<open>\<open>process.argv\<close> after the program and the script.\<close>

definition admin_cli :: "env \<Rightarrow> string list \<Rightarrow> cli_output act" where
  "admin_cli e argv =
     (let args = drop 2 argv
      in case take 2 argv of
           [area, action] \<Rightarrow>
             if area = ''requests'' \<and> action = ''list'' then cli_list args
             else if area = ''requests'' \<and> action = ''approve'' then cli_approve e args
             else if area = ''requests'' \<and> action = ''deny'' then cli_deny e args
             else if area = ''tokens'' \<and> action = ''issue'' then cli_issue e args
             else if area = ''tokens'' \<and> action = ''revoke'' then cli_revoke e args
             else done_with (Cli_error cli_usage)
         | _ \<Rightarrow> done_with (Cli_error cli_usage))"

subsection \<open>The server\<close>

text \<open>What the process keeps, with the world behind the relay; \<open>hits\<close> is lost with the process.\<close>

record 'w legacy_state =
  ls_db :: ldb
  ls_hits :: hits
  ls_world :: 'w

record 'w legacy_outside =
  lo_relay :: "'w fetch"
  lo_github :: github
  lo_address :: "string option"

type_synonym 'w legacy_result = "(legacy_error + legacy_answer) \<times> 'w legacy_state"

definition on_db :: "legacy_answer act \<Rightarrow> 'w legacy_state \<Rightarrow> 'w legacy_result" where
  "on_db m s = (case m (ls_db s) of (r, d) \<Rightarrow> (r, s\<lparr>ls_db := d\<rparr>))"

definition on_hits :: "env \<Rightarrow> string option \<Rightarrow> request \<Rightarrow> 'w legacy_state \<Rightarrow> 'w legacy_result" where
  "on_hits e address req s =
     (let (m, h) = beta_submit e (case address of Some ip \<Rightarrow> ip | None \<Rightarrow> ''unknown'') req (ls_hits s)
      in on_db m (s\<lparr>ls_hits := h\<rparr>))"

definition on_relay :: "env \<Rightarrow> legacy_config \<Rightarrow> 'w fetch \<Rightarrow> request \<Rightarrow> string \<Rightarrow> 'w legacy_state \<Rightarrow> 'w legacy_result" where
  "on_relay e c fetch req raw s =
     (case decode_uri raw of
        None \<Rightarrow> (Inl (Refused ''URI malformed''), s)
      | Some p \<Rightarrow>
          (case legacy_events_proxy e c fetch req p (ls_db s) (ls_world s) of
             ((r, d), w) \<Rightarrow> (Inr (Wire r), s\<lparr>ls_db := d, ls_world := w\<rparr>)))"

definition wired :: "response act \<Rightarrow> legacy_answer act" where
  "wired m = seq m (\<lambda>r. done_with (Wire r))"

definition legacy_route ::
  "env \<Rightarrow> legacy_config \<Rightarrow> 'w legacy_outside \<Rightarrow> request \<Rightarrow> 'w legacy_state \<Rightarrow> 'w legacy_result" where
  "legacy_route e c out req s =
     (let get = (meth req = ''GET''); post = (meth req = ''POST''); p = path req
      in first_of
        [on (get \<and> p = ''/healthz'') (on_db (done_with (Wire (Json 200 (JObj [(''ok'', JBool True)])))) s),
         on (get \<and> p = ''/'') (on_db (html 200 Landing) s),
         on (get \<and> under ''/docs'' p) (on_db (legacy_docs c req) s),
         on (get \<and> p = ''/beta'') (on_db (html 200 Beta_form) s),
         on (post \<and> p = ''/beta/requests'') (on_hits e (lo_address out) req s),
         on (get \<and> p = ''/oauth/callback'') (on_db (legacy_oauth_callback e c (lo_github out) req) s),
         on (under ''/account'' p) (on_db (legacy_account e c req) s),
         on (under ''/admin'' p) (on_db (legacy_admin e c req) s),
         on (get \<and> p = ''/v1/account/personal-store'') (on_db (wired (legacy_personal_discovery e req)) s),
         on_path (get \<or> post) events_path p (\<lambda>ids. on_relay e c (lo_relay out) req (ids ! 0) s)]
        (on_db (done_with (Wire (send_error 404 ''not found''))) s))"

definition legacy_handle ::
  "env \<Rightarrow> legacy_config \<Rightarrow> 'w legacy_outside \<Rightarrow> request \<Rightarrow> 'w legacy_state \<Rightarrow> legacy_answer \<times> 'w legacy_state" where
  "legacy_handle e c out req s =
     (case legacy_route e c out req s of
        (Inl _, s') \<Rightarrow> (Wire (send_error 500 ''internal error''), s')
      | (Inr a, s') \<Rightarrow> (a, s'))"

text \<open>
  A run: requests, runs of the command line, restarts, and changes of the world behind the relay, in
  any order, from the empty database.
\<close>

inductive legacy_step :: "legacy_config \<Rightarrow> 'w legacy_state \<Rightarrow> 'w legacy_state \<Rightarrow> bool" for c where
  request: "legacy_handle e c out req s = (a, s') \<Longrightarrow> legacy_step c s s'"
| command: "admin_cli e argv (ls_db s) = (r, d) \<Longrightarrow> legacy_step c s (s\<lparr>ls_db := d\<rparr>)"
| restart: "legacy_step c s (s\<lparr>ls_hits := (\<lambda>_. [])\<rparr>)"
| world: "legacy_step c s (s\<lparr>ls_world := w\<rparr>)"

definition legacy_run :: "legacy_config \<Rightarrow> 'w legacy_state \<Rightarrow> 'w legacy_state \<Rightarrow> bool" where
  "legacy_run c = (legacy_step c)\<^sup>*\<^sup>*"

definition legacy_start :: "'w \<Rightarrow> 'w legacy_state" where
  "legacy_start w = \<lparr>ls_db = empty_ldb, ls_hits = (\<lambda>_. []), ls_world = w\<rparr>"

subsection \<open>What never changes\<close>

text \<open>
  A database that comes later: a grant stays with its role, a personal store with its owner, a key
  with its user, its mode and its scope, and a revoked key stays revoked.
\<close>

definition key_kept :: "key_row \<Rightarrow> key_row \<Rightarrow> bool" where
  "key_kept t t' \<longleftrightarrow> lk_id t' = lk_id t \<and> lk_hash t' = lk_hash t \<and> lk_user_id t' = lk_user_id t \<and>
     lk_read_only t' = lk_read_only t \<and> (lk_revoked_at t \<noteq> None \<longrightarrow> lk_revoked_at t' = lk_revoked_at t)"

definition later :: "ldb \<Rightarrow> ldb \<Rightarrow> bool" where
  "later d0 d \<longleftrightarrow> lok d \<and> set (l_acl d0) \<subseteq> set (l_acl d) \<and> set (l_personal d0) \<subseteq> set (l_personal d) \<and>
     (\<forall>t \<in> set (l_keys d0). \<exists>t' \<in> set (l_keys d). key_kept t t') \<and>
     (\<forall>x. has_key d0 (lx_token_id x) \<longrightarrow> (x \<in> set (l_scopes d) \<longleftrightarrow> x \<in> set (l_scopes d0)))"

lemma key_kept_refl: "key_kept t t"
  by (simp add: key_kept_def)

lemma later_refl: "lok d \<Longrightarrow> later d d"
  using key_kept_refl by (auto simp: later_def)

lemma later_has_key: "later d0 d \<Longrightarrow> has_key d0 t \<Longrightarrow> has_key d t"
  unfolding later_def has_key_def key_kept_def by (metis (no_types, lifting) imageE image_eqI)

lemma later_lok: "later d0 d \<Longrightarrow> lok d"
  by (simp add: later_def)

lemma later_tables:
  assumes "later d0 d" "lok d'" "set (l_acl d) \<subseteq> set (l_acl d')" "set (l_personal d) \<subseteq> set (l_personal d')"
    and "l_keys d' = l_keys d" "l_scopes d' = l_scopes d"
  shows "later d0 d'"
  using assms unfolding later_def by auto

lemma keeps_lok: "keeps lok m \<Longrightarrow> lok d \<Longrightarrow> lok (snd (m d))"
  by (simp add: keeps_def)

text \<open>A statement that touches neither keys nor scopes and removes no grant and no personal store.\<close>

lemma keeps_later:
  assumes "keeps lok m" "\<And>d. l_keys (snd (m d)) = l_keys d" "\<And>d. l_scopes (snd (m d)) = l_scopes d"
    and "\<And>d. set (l_acl d) \<subseteq> set (l_acl (snd (m d)))" "\<And>d. set (l_personal d) \<subseteq> set (l_personal (snd (m d)))"
  shows "keeps (later d0) m"
  using assms unfolding keeps_def by (metis later_lok later_tables)

lemmas statement_defs = statement_def insert_user_def set_github_login_def insert_acl_def insert_request_def insert_psm_def
  decide_access_request_def

lemma later_insert_user [keep_rules]: "keeps (later d0) (insert_user r)"
  by (rule keeps_later, rule keep_rules) (auto simp: statement_defs split: option.split)

lemma later_set_login [keep_rules]: "keeps (later d0) (set_github_login login u)"
  by (rule keeps_later, rule keep_rules) (auto simp: statement_defs split: option.split)

lemma later_insert_acl: "\<not> is_personal_id (la_project_id r) \<Longrightarrow> keeps (later d0) (insert_acl r)"
  by (rule keeps_later, erule lok_insert_acl) (auto simp: statement_defs split: option.split)

lemma later_insert_request [keep_rules]: "keeps (later d0) (insert_request r)"
  by (rule keeps_later, rule keep_rules) (auto simp: statement_defs split: option.split)

lemma later_insert_psm: "is_personal_id (lp_store_id r) \<Longrightarrow> keeps (later d0) (insert_psm r)"
  by (rule keeps_later, erule lok_insert_psm) (auto simp: statement_defs split: option.split)

lemma later_decide [keep_rules]: "keeps (later d0) (decide_access_request e i st)"
  by (rule keeps_later, rule keep_rules) (auto simp: statement_defs)

lemma key_kept_trans: "key_kept t t' \<Longrightarrow> key_kept t' t'' \<Longrightarrow> key_kept t t''"
  by (auto simp: key_kept_def)

lemma later_update_keys:
  assumes "later d0 d" "\<And>t. P t \<Longrightarrow> key_kept t (f t)"
  shows "later d0 (d\<lparr>l_keys := update_where P f (l_keys d)\<rparr>)"
proof -
  let ?g = "\<lambda>t. if P t then f t else t"
  have kept: "key_kept t (?g t)" for t using assms(2) key_kept_refl by simp
  have upd: "update_where P f (l_keys d) = update_where (\<lambda>_. True) ?g (l_keys d)"
    by (simp add: update_where_def)
  have "lok (d\<lparr>l_keys := update_where P f (l_keys d)\<rparr>)"
  proof (subst upd, rule lok_update_keys)
    show "lk_id (?g t) = lk_id t" "lk_hash (?g t) = lk_hash t" "lk_user_id (?g t) = lk_user_id t" for t
      using kept [of t] unfolding key_kept_def by blast+
  qed (rule later_lok [OF assms(1)])
  moreover have "\<exists>t'' \<in> set (update_where P f (l_keys d)). key_kept t t''" if t: "t \<in> set (l_keys d0)" for t
  proof -
    obtain t' where t': "t' \<in> set (l_keys d)" "key_kept t t'" using assms(1) t unfolding later_def by blast
    have "?g t' \<in> set (update_where P f (l_keys d))" using t'(1) by (simp add: update_where_def)
    then show ?thesis using key_kept_trans [OF t'(2) kept] by (rule bexI [rotated])
  qed
  ultimately show ?thesis using assms(1) unfolding later_def by simp
qed

lemma later_touch: "later d0 d \<Longrightarrow> later d0 (legacy_touch_token e t d)"
  unfolding legacy_touch_token_def by (rule later_update_keys) (auto simp: key_kept_def)

lemma later_revoke [keep_rules]: "keeps (later d0) (legacy_revoke_token e t)"
  by (auto simp: keeps_def legacy_revoke_token_def Let_def key_kept_def intro!: later_update_keys)

text \<open>A key is issued with its scope in one transaction, and its id is new.\<close>

lemma insert_scopes_only:
  "set (l_scopes (snd (insert_key_scopes t ps d))) \<subseteq> set (l_scopes d) \<union> {x. lx_token_id x = t} \<and>
   set (l_scopes d) \<subseteq> set (l_scopes (snd (insert_key_scopes t ps d))) \<and>
   l_keys (snd (insert_key_scopes t ps d)) = l_keys d \<and> l_acl (snd (insert_key_scopes t ps d)) = l_acl d \<and>
   l_personal (snd (insert_key_scopes t ps d)) = l_personal d"
proof (induction ps arbitrary: d)
  case (Cons p ps)
  show ?case using Cons [of "snd (insert_key_scope t p d)"]
    by (auto simp: seq_def insert_key_scope_def statement_def Let_def split: prod.splits sum.splits option.splits if_splits)
qed (simp add: done_with_def)

lemma later_new_key: "keeps (later d0) (seq (insert_key r) (\<lambda>_. insert_key_scopes (lk_id r) ps))"
  unfolding keeps_def
proof (intro allI impI)
  fix d assume d: "later d0 d"
  let ?m = "seq (insert_key r) (\<lambda>_. insert_key_scopes (lk_id r) ps)" and ?d1 = "d\<lparr>l_keys := l_keys d @ [r]\<rparr>"
  have ok: "lok (snd (?m d))" using later_lok [OF d] by (intro keeps_lok keep_rules)
  show "later d0 (snd (?m d))"
  proof (cases "fst (insert_key r d)")
    case (Inl x)
    then have "snd (?m d) = d" by (auto simp: seq_def insert_key_def statement_def split: option.splits if_splits)
    then show ?thesis using d by simp
  next
    case (Inr u)
    then have new: "\<not> has_key d (lk_id r)" and step: "snd (?m d) = snd (insert_key_scopes (lk_id r) ps ?d1)"
      by (auto simp: seq_def insert_key_def statement_def has_key_def split: option.splits if_splits)
    have "\<not> has_key d0 (lk_id r)" using later_has_key [OF d] new by blast
    then show ?thesis
      using d ok insert_scopes_only [of "lk_id r" ps ?d1] unfolding later_def step by auto
  qed
qed

lemma later_issue [keep_rules]: "keeps (later d0) (legacy_issue_api_key e k u l r ps)"
proof -
  have key: "keeps (later d0) (seq (insert_key row) (\<lambda>_. insert_key_scopes t ps))" if "t = lk_id row" for row t ps
    unfolding that by (rule later_new_key)
  show ?thesis unfolding legacy_issue_api_key_def Let_def
    by (rule keeps_seq, rule keeps_transaction, rule key, simp, rule keeps_done)
qed

lemma later_personal [keep_rules]: "keeps (later d0) (legacy_personal_store e k u)"
  unfolding legacy_personal_store_def Let_def
  by (intro keep_rules later_insert_psm) (simp add: is_personal_id_def legacy_new_id_def starts_with_def)

lemma later_github [keep_rules]: "keeps (later d0) (upsert_user_by_github e login email)"
  unfolding upsert_user_by_github_def Let_def by (intro keep_rules)

lemma later_upsert [keep_rules]: "keeps (later d0) (upsert_user e email)"
  unfolding upsert_user_def Let_def by (intro keep_rules)

lemma later_grant [keep_rules]: "keeps (later d0) (grant_project_access e u p role)"
  unfolding grant_project_access_def by (intro keep_rules later_insert_acl) simp

lemma later_request [keep_rules]: "keeps (later d0) (create_access_request e email p note)"
  unfolding create_access_request_def Let_def by (intro keep_rules)

lemma later_approve [keep_rules]: "keeps (later d0) (approve_access_request e i role)"
  unfolding approve_access_request_def by (intro keep_rules)

lemma later_issue_for_email [keep_rules]: "keeps (later d0) (issue_key_for_email e email label)"
  unfolding issue_key_for_email_def by (intro keep_rules)

lemmas surface_defs = html_def redirected_def login_failure_def

lemma later_dashboard [keep_rules]: "keeps (later d0) (show_account n e k p origin f)"
  unfolding show_account_def account_dashboard_def Let_def surface_defs by (intro keep_rules)

lemma later_callback [keep_rules]: "keeps (later d0) (legacy_oauth_callback e c g req)"
  unfolding legacy_oauth_callback_def Let_def surface_defs by (intro keep_rules)

lemma later_submit: "keeps (later d0) (fst (beta_submit e ip req h))"
  unfolding beta_submit_def Let_def surface_defs
  by (cases "rate_limited ip (int (now e)) h") (simp, intro conjI impI keep_rules)

lemma later_account [keep_rules]: "keeps (later d0) (legacy_account e c req)"
  unfolding legacy_account_def Let_def surface_defs case_prod_beta by (intro keep_rules)

lemma later_admin [keep_rules]: "keeps (later d0) (legacy_admin e c req)"
  unfolding legacy_admin_def Let_def surface_defs case_prod_beta by (intro keep_rules)

lemma later_docs [keep_rules]: "keeps (later d0) (legacy_docs c req)"
  unfolding legacy_docs_def Let_def surface_defs by (intro keep_rules)

lemma later_discovery [keep_rules]: "keeps (later d0) (legacy_personal_discovery e req)"
proof -
  have touch: "keeps (later d0) (\<lambda>d. (Inr (), legacy_touch_token e t d))" for t
    by (simp add: keeps_def later_touch)
  have sum: "(\<And>x. keeps I (f x)) \<Longrightarrow> (\<And>y. keeps I (g y)) \<Longrightarrow> keeps I (case v of Inl x \<Rightarrow> f x | Inr y \<Rightarrow> g y)"
    for I and f g :: "_ \<Rightarrow> 'z act" and v by (cases v) auto
  show ?thesis unfolding legacy_personal_discovery_def by (intro sum touch keep_rules)
qed

lemma later_commands [keep_rules]:
  "keeps (later d0) (cli_list args)" "keeps (later d0) (cli_approve e args)" "keeps (later d0) (cli_deny e args)"
  "keeps (later d0) (cli_issue e args)" "keeps (later d0) (cli_revoke e args)"
  unfolding cli_list_def cli_approve_def cli_deny_def cli_issue_def cli_revoke_def Let_def by (intro keep_rules)+

lemma later_cli: "keeps (later d0) (admin_cli e argv)"
  unfolding admin_cli_def Let_def by (auto split: list.split intro!: keep_rules)

text \<open>What a request does to the state: a later database.\<close>

lemma later_on_db: "keeps (later d0) m \<Longrightarrow> later d0 (ls_db s) \<Longrightarrow> later d0 (ls_db (snd (on_db m s)))"
  by (auto simp: on_db_def keeps_def split: prod.split)

lemma later_on_hits: "later d0 (ls_db s) \<Longrightarrow> later d0 (ls_db (snd (on_hits e a req s)))"
  unfolding on_hits_def Let_def case_prod_beta by (intro later_on_db later_submit) simp

lemma later_on_relay: "later d0 (ls_db s) \<Longrightarrow> later d0 (ls_db (snd (on_relay e c fetch req raw s)))"
proof (cases "decode_uri raw")
  case (Some p)
  assume d: "later d0 (ls_db s)"
  obtain r d w where h: "legacy_events_proxy e c fetch req p (ls_db s) (ls_world s) = ((r, d), w)" by (metis prod.exhaust)
  have "later d0 d" using proxy_calls [OF h] d later_touch by auto
  then show ?thesis by (simp add: on_relay_def Some h)
qed (simp add: on_relay_def)

lemma later_route:
  assumes "later d0 (ls_db s)"
  shows "later d0 (ls_db (snd (legacy_route e c out req s)))"
proof -
  let ?P = "\<lambda>x. later d0 (ls_db (snd x))"
  have "?P (first_of xs y)" if "?P y" "each ?P xs" for xs and y :: "'a legacy_result"
    using first_of_prop [where P = ?P, OF that(1)] that(2) unfolding each_def by blast
  then show ?thesis
    unfolding legacy_route_def Let_def surface_defs wired_def
    by this (intro route_rules later_on_db later_on_hits later_on_relay keep_rules assms)+
qed

lemma later_handle: "legacy_handle e c out req s = (a, s') \<Longrightarrow> later d0 (ls_db s) \<Longrightarrow> later d0 (ls_db s')"
  using later_route [of d0 s e c out req] by (auto simp: legacy_handle_def split: prod.splits sum.splits)

lemma later_step: "legacy_step c s s' \<Longrightarrow> later d0 (ls_db s) \<Longrightarrow> later d0 (ls_db s')"
proof (induction rule: legacy_step.induct)
  case (command e argv s r d)
  then show ?case using later_cli [of d0 e argv] by (auto simp: keeps_def)
qed (auto intro: later_handle)

lemma later_run: "legacy_run c s s' \<Longrightarrow> lok (ls_db s) \<Longrightarrow> later (ls_db s) (ls_db s')"
  unfolding legacy_run_def by (induction rule: rtranclp_induct) (auto intro: later_refl later_step)

subsection \<open>What a run cannot take back\<close>

lemma find_keyed:
  assumes "distinct (map k xs)" "x \<in> set xs" "\<And>y. P y \<longleftrightarrow> k y = k x"
  shows "find P xs = Some x"
proof -
  have "find (\<lambda>y. k y = k x) xs = Some x"
    using assms(1,2) by (induction xs) (use image_eqI in \<open>fastforce split: if_splits\<close>)+
  then show ?thesis using assms(3) by presburger
qed

lemma later_role:
  assumes "later d d'" "get_project_role d u p = Some r"
  shows "get_project_role d' u p = Some r"
proof -
  let ?P = "\<lambda>x. la_project_id x = p \<and> la_user_id x = u"
  obtain x where x: "find ?P (l_acl d) = Some x" "r = (if la_role x = ''viewer'' then Acl_viewer else Acl_member)"
    using assms(2) by (auto simp: get_project_role_def split: option.splits)
  then have "x \<in> set (l_acl d')" "?P x" using find_SomeD [OF x(1)] assms(1) by (auto simp: later_def)
  then have "find ?P (l_acl d') = Some x"
    using assms(1) by (intro find_keyed [where k = "\<lambda>x. (la_project_id x, la_user_id x)"]) (auto simp: later_def lok_def lkeys_ok_def)
  then show ?thesis using x(2) by (simp add: get_project_role_def)
qed

lemma later_owner:
  assumes "later d d'" "legacy_personal_owner d p = Some u"
  shows "legacy_personal_owner d' p = Some u"
proof -
  obtain x where x: "find (\<lambda>x. lp_store_id x = p) (l_personal d) = Some x" "u = lp_user_id x"
    using assms(2) by (auto simp: legacy_personal_owner_def)
  then have "x \<in> set (l_personal d')" "lp_store_id x = p" using find_SomeD [OF x(1)] assms(1) by (auto simp: later_def)
  then have "find (\<lambda>x. lp_store_id x = p) (l_personal d') = Some x"
    using assms(1) by (intro find_keyed [where k = lp_store_id]) (auto simp: later_def lok_def lkeys_ok_def)
  then show ?thesis using x(2) by (simp add: legacy_personal_owner_def)
qed

lemma later_key:
  assumes "later d d'" "t \<in> set (l_keys d)" "lk_hash t = hash_token e key"
  obtains t' where "key_kept t t'" "find (\<lambda>t. lk_hash t = hash_token e key) (l_keys d') = Some t'"
proof -
  obtain t' where t': "t' \<in> set (l_keys d')" "key_kept t t'" using assms(1,2) unfolding later_def by blast
  have "find (\<lambda>t. lk_hash t = hash_token e key) (l_keys d') = Some t'"
    using t' assms(1,3) by (intro find_keyed [where k = lk_hash]) (auto simp: later_def lok_def lkeys_ok_def key_kept_def)
  then show ?thesis using that t'(2) by blast
qed

lemma identified_key:
  "legacy_identify_token e d key = Some i \<Longrightarrow>
   \<exists>t \<in> set (l_keys d). lk_hash t = hash_token e key \<and> \<not> truthy (lk_revoked_at t) \<and>
     i = \<lparr>li_token_id = lk_id t, li_user_id = lk_user_id t, li_read_only = lk_read_only t\<rparr>"
  by (auto simp: legacy_identify_token_def dest!: find_SomeD split: option.splits if_splits)

lemma later_identity:
  assumes "later d d'" "legacy_identify_token e d key = Some i"
  shows "legacy_identify_token e d' key \<in> {Some i, None}"
proof -
  obtain t where t: "t \<in> set (l_keys d)" "lk_hash t = hash_token e key"
    "i = \<lparr>li_token_id = lk_id t, li_user_id = lk_user_id t, li_read_only = lk_read_only t\<rparr>"
    using identified_key [OF assms(2)] by blast
  obtain t' where "key_kept t t'" "find (\<lambda>t. lk_hash t = hash_token e key) (l_keys d') = Some t'"
    by (rule later_key [OF assms(1) t(1,2)])
  then show ?thesis using t(3) by (simp add: legacy_identify_token_def key_kept_def)
qed

lemma later_revoked:
  assumes "later d d'" "t \<in> set (l_keys d)" "lk_hash t = hash_token e key" "truthy (lk_revoked_at t)"
  shows "legacy_identify_token e d' key = None"
proof -
  obtain t' where "key_kept t t'" "find (\<lambda>t. lk_hash t = hash_token e key) (l_keys d') = Some t'"
    by (rule later_key [OF assms(1-3)])
  then show ?thesis using assms(4) by (cases "lk_revoked_at t") (simp_all add: legacy_identify_token_def key_kept_def truthy_def)
qed

lemma later_scopes: "later d d' \<Longrightarrow> has_key d t \<Longrightarrow> set (legacy_token_scopes d' t) = set (legacy_token_scopes d t)"
  unfolding legacy_token_scopes_def by (auto simp: later_def)

lemma later_gate:
  assumes "later d d'" "legacy_identify_token e d key = Some i" "legacy_gate d i push p = None"
  shows "legacy_gate d' i push p = None"
proof -
  have "has_key d (li_token_id i)" using identified_key [OF assms(2)] by (auto simp: has_key_def)
  note scopes = later_scopes [OF assms(1) this]
  have covers: "token_covers_personal d' (li_token_id i) \<longleftrightarrow> token_covers_personal d (li_token_id i)"
    "token_covers_project d' (li_token_id i) p \<longleftrightarrow> token_covers_project d (li_token_id i) p"
    using scopes unfolding covers_iff scopes_empty [symmetric] by (auto simp flip: set_empty)
  show ?thesis
  proof (cases "legacy_personal_owner d p")
    case (Some owner)
    then show ?thesis using assms(3) later_owner [OF assms(1) Some] covers(1)
      by (auto simp: legacy_gate_def split: if_splits)
  next
    case None
    then obtain r where r: "get_project_role d (li_user_id i) p = Some r"
      using assms(3) by (auto simp: legacy_gate_def split: option.splits)
    have "legacy_personal_owner d' p = None"
      using later_role [OF assms(1) r] later_lok [OF assms(1)] reserved_no_role personal_is_reserved
      by (metis not_None_eq option.distinct(1))
    then show ?thesis using assms(3) None r later_role [OF assms(1) r] covers(2)
      by (auto simp: legacy_gate_def split: if_splits)
  qed
qed

text \<open>
  C15. Nothing is taken back but by revoking a key. From any state the frozen gateway can reach
  (by requests, the operator's commands and restarts, in any order), whatever happens then: a user
  keeps each project with the very role of the first approval, a denial or a second approval
  with another role included; a personal store keeps its owner, and no project role reaches one;
  a key stands for the same account, mode and scope or, once revoked, for nobody ever again; and
  what the gate let a key do it lets it do as long as the key lives.
\<close>

theorem legacy_takes_nothing_back:
  assumes "legacy_run c (legacy_start w) s" "legacy_run c s s'"
  shows "lok (ls_db s') \<and>
    (get_project_role (ls_db s) u p = Some r \<longrightarrow> get_project_role (ls_db s') u p = Some r) \<and>
    (legacy_personal_owner (ls_db s) p = Some u \<longrightarrow>
       legacy_personal_owner (ls_db s') p = Some u \<and> get_project_role (ls_db s') v p = None) \<and>
    (\<forall>t \<in> set (l_keys (ls_db s)). lk_hash t = hash_token e key \<and> truthy (lk_revoked_at t) \<longrightarrow>
       legacy_identify_token e (ls_db s') key = None) \<and>
    (legacy_identify_token e (ls_db s) key = Some i \<longrightarrow>
       legacy_identify_token e (ls_db s') key \<in> {Some i, None} \<and>
       (legacy_gate (ls_db s) i push p = None \<longrightarrow> legacy_gate (ls_db s') i push p = None))"
proof -
  have "lok (ls_db s)" using later_run [OF assms(1)] later_lok by (simp add: legacy_start_def lok_empty)
  then have l: "later (ls_db s) (ls_db s')" using later_run [OF assms(2)] by blast
  have "get_project_role (ls_db s') v p = None" if "legacy_personal_owner (ls_db s) p = Some u"
    using later_owner [OF l that] later_lok [OF l] personal_is_reserved reserved_no_role by blast
  then show ?thesis
    using later_lok [OF l] later_role [OF l] later_owner [OF l] later_revoked [OF l] later_identity [OF l] later_gate [OF l]
    by metis
qed

end
