(* ===== verification/Legacy_Docs.thy ===== *)
theory Legacy_Docs
  imports Gateway_Pages
begin

text \<open>
  The pages of \<open>packages/gateway-legacy/src/docs.ts\<close>: the HTML each entry of \<open>DOC_PAGES\<close> renders for the
  address of the hub.
\<close>

definition prose_overview :: "string \<Rightarrow> string" where
  \<open>prose_overview origin =
     ''<h1>What is memorize?</h1>\<newline>'' @
     ''<p class="lead">One persistent project brain shared between you, Claude Code, and\<newline>'' @
     ''Codex - local-first, event-sourced, and modeled on how human memory works. No\<newline>'' @
     ''server required, no API key.</p>\<newline>'' @
     ''<p>Your agent forgets everything when a session ends: what it was doing, what it\<newline>'' @
     ''decided and why, where it stopped. memorize watches the agent work, distills what\<newline>'' @
     ''mattered into long-term memory, and feeds the right memories back when the next\<newline>'' @
     ''session opens - for every agent on the project, across machines.</p>\<newline>'' @
     ''\<newline>'' @
     ''<h2>Why</h2>\<newline>'' @
     ''<ul>\<newline>'' @
     '' <li><strong>Sessions die.</strong> Next session you re-explain what you were doing and why.</li>\<newline>'' @
     '' <li><strong>Switching agents starts over.</strong> Claude and Codex each keep their own notes.</li>\<newline>'' @
     '' <li><strong>Two machines = half a brain in each.</strong> Desktop context doesn\'t follow you to the laptop.</li>\<newline>'' @
     ''</ul>\<newline>'' @
     ''\<newline>'' @
     ''<h2>How it works</h2>\<newline>'' @
     ''<ol class="steps">\<newline>'' @
     '' <li><strong>Capture</strong> - hooks record cheap, rule-filtered observations (file writes, decisions, task transitions). No LLM, no latency.</li>\<newline>'' @
     '' <li><strong>Consolidate</strong> - at session boundaries a background process distills observations into long-term memory, scored by salience. It runs through your existing <code>claude</code> / <code>codex</code> login - no API key.</li>\<newline>'' @
     '' <li><strong>Retrieve</strong> - next session, memories compete for a context budget by salience x recency x relevance. Forgetting happens at retrieval time; nothing is ever deleted.</li>\<newline>'' @
     '' <li><strong>Share</strong> - parallel sessions see each other live; the same event log syncs across machines and converges deterministically.</li>\<newline>'' @
     ''</ol>\<newline>'' @
     ''\<newline>'' @
     ''<p><a class="btn" href="/docs/getting-started">Get started -></a></p>\<newline>'' @
     ''<p class="muted">Cross-machine sync runs through this Hub - see\<newline>'' @
     ''<a href="/docs/connect">Connect</a>. The deeper design lives in\<newline>'' @
     ''<a href="'' @ github_url @ ''/blob/main/docs/ARCHITECTURE.md">ARCHITECTURE</a>.</p>''\<close>

definition prose_getting_started :: "string \<Rightarrow> string" where
  \<open>prose_getting_started origin =
     ''<h1>Install &amp; set up memorize</h1>\<newline>'' @
     ''<p class="lead">memorize is installed per project - and it\'s built to be installed\<newline>'' @
     ''<em>by your AI assistant</em>, so you can skip the manual steps entirely.</p>\<newline>'' @
     ''\<newline>'' @
     ''<h2>The easy way (recommended)</h2>\<newline>'' @
     ''<p>Paste this one line into your Claude Code or Codex session. The assistant adds\<newline>'' @
     ''the package, binds the directory, installs the right hook for itself, offers to\<newline>'' @
     ''absorb your existing context, and verifies - no manual steps for you:</p>\<newline>'' @
     ''<pre><code>Follow this guide to set up memorize in this project:\<newline>'' @
     (github_url @ ''/blob/main/guides/AI_SETUP.md'') @ ''</code></pre>\<newline>'' @
     ''<p class="muted">After that you use <code>claude</code> / <code>codex</code> exactly\<newline>'' @
     ''as before; project context arrives automatically when a session opens.</p>\<newline>'' @
     ''\<newline>'' @
     ''<h2>The manual way</h2>\<newline>'' @
     ''<p>Requires <strong>Node.js 22+</strong>. Always use the scoped name\<newline>'' @
     ''<code>@shakystar/memorize</code> with npx - the unscoped <code>memorize</code> on\<newline>'' @
     ''npm is an unrelated package.</p>\<newline>'' @
     ''\<newline>'' @
     ''<p><strong>1. Put memorize on PATH.</strong></p>\<newline>'' @
     ''<pre><code># Node project (has package.json) - install as a dev dependency:\<newline>'' @
     ''pnpm add -D @shakystar/memorize      # or: npm install -D @shakystar/memorize\<newline>'' @
     ''# pnpm workspace root: add -w. Non-Node project: install globally:\<newline>'' @
     ''npm install -g @shakystar/memorize</code></pre>\<newline>'' @
     ''\<newline>'' @
     ''<p><strong>2. Adopt the project</strong> - binds the current directory and imports\<newline>'' @
     ''any <code>AGENTS.md</code> / <code>CLAUDE.md</code> / <code>.cursorrules</code> as\<newline>'' @
     ''rules. Safe to re-run:</p>\<newline>'' @
     ''<pre><code>npx @shakystar/memorize project setup</code></pre>\<newline>'' @
     ''<p class="muted">Use <code>project setup</code>, not <code>project init</code> -\<newline>'' @
     ''init creates a bare project without importing your rules.</p>\<newline>'' @
     ''\<newline>'' @
     ''<p><strong>3. Install your agent integration</strong> - pick yours; both are\<newline>'' @
     ''re-runnable and preserve unrelated content:</p>\<newline>'' @
     ''<pre><code>npx @shakystar/memorize install claude    # Claude Code\<newline>'' @
     ''npx @shakystar/memorize install codex     # Codex</code></pre>\<newline>'' @
     ''<p class="muted"><strong>Codex only:</strong> start <code>codex</code>\<newline>'' @
     ''interactively once and accept the hook-approval prompt - until then codex records\<newline>'' @
     ''nothing from its sessions.</p>\<newline>'' @
     ''\<newline>'' @
     ''<p><strong>4. Verify</strong> - expect exit <code>0</code> and\<newline>'' @
     ''<code>"status": "ok"</code>; otherwise apply each issue\'s <code>fix</code> field\<newline>'' @
     ''in order and re-run:</p>\<newline>'' @
     ''<pre><code>npx @shakystar/memorize doctor --json</code></pre>\<newline>'' @
     ''\<newline>'' @
     ''<h2>Next</h2>\<newline>'' @
     ''<p><a href="/docs/connect">Sync this project across machines -></a> through the Hub.\<newline>'' @
     ''Install snags? <a href="/docs/troubleshooting">Troubleshooting -></a>. Full CLI\<newline>'' @
     ''reference: <a href="'' @ (github_url @ ''/blob/main/AGENT_GUIDE.md'') @
     ''">AGENT_GUIDE</a>.</p>''\<close>

definition prose_connect :: "string \<Rightarrow> string" where
  \<open>prose_connect origin =
     ''<h1>Connect a memorize client to this Hub</h1>\<newline>'' @
     ''<p class="lead">Once memorize is <a href="/docs/getting-started">set up</a>, sync a\<newline>'' @
     ''project\'s memory across machines through the Hub. You need a project-scoped API\<newline>'' @
     ''key first - <a href="/beta">request one</a>; an operator issues it manually.</p>\<newline>'' @
     ''\<newline>'' @
     ''<h2>1. Log in once (per machine)</h2>\<newline>'' @
     ''<p>Authenticate this host to the Hub. Paste the key once; later clone/sync on this\<newline>'' @
     ''machine carry no inline token (the git-credential model).\<newline>'' @
     ''<strong>Requires memorize 2.5.0 or newer</strong> - run <code>memorize update</code> first:</p>\<newline>'' @
     ''<pre><code>memorize auth login '' @ [CHR 0x5C] @ ''\<newline>'' @
     ''  --remote-url '' @ escaped origin @ '' '' @ [CHR 0x5C] @ ''\<newline>'' @
     ''  --token &lt;your-key&gt;</code></pre>\<newline>'' @
     ''\<newline>'' @
     ''<h2>2. Push from your origin machine</h2>\<newline>'' @
     ''<p>On the machine that already has the project, push its events to the Hub:</p>\<newline>'' @
     ''<pre><code>memorize project sync --push --remote-url '' @ escaped origin @
     ''</code></pre>\<newline>'' @
     ''\<newline>'' @
     ''<h2>3. Clone onto another machine</h2>\<newline>'' @
     ''<p>After that machine\'s own <code>auth login</code>, clone the same project id:</p>\<newline>'' @
     ''<pre><code>memorize project clone &lt;projectId&gt; --remote-url '' @ escaped origin @
     ''</code></pre>\<newline>'' @
     ''\<newline>'' @
     ''<h2>4. Keep them in sync</h2>\<newline>'' @
     ''<p>Re-run <code>project sync --push</code> / <code>--pull</code> on each machine at\<newline>'' @
     ''work boundaries. Sync is <strong>asynchronous</strong> (poll-on-boundary): the\<newline>'' @
     ''origin can be offline when another machine pulls. Dedup is by event id, so\<newline>'' @
     ''re-pushing is safe.</p>\<newline>'' @
     ''\<newline>'' @
     ''<p class="muted">The key is scoped to the project you were granted - other projects\<newline>'' @
     ''return <code>403</code>. The full CLI reference lives in the\<newline>'' @
     ''<a href="'' @ (github_url @ ''/blob/main/AGENT_GUIDE.md'') @ ''">AGENT_GUIDE</a>.</p>''\<close>

definition prose_consolidation :: "string \<Rightarrow> string" where
  \<open>prose_consolidation origin =
     ''<h1>Consolidation &amp; semantic search</h1>\<newline>'' @
     ''<p class="lead">memorize captures observations out of the box, but turning them\<newline>'' @
     ''into long-term memory (consolidation) and ranking them semantically (search) are\<newline>'' @
     ''optional, <strong>local</strong> steps. Both reuse tools you already have - no Hub\<newline>'' @
     ''involvement, and no API key for the extractor.</p>\<newline>'' @
     ''\<newline>'' @
     ''<h2>Extractor - turn observations into memories</h2>\<newline>'' @
     ''<p>At session boundaries, consolidation distills observations into decisions,\<newline>'' @
     ''rationale, and progress. It reuses your existing <code>claude</code> /\<newline>'' @
     ''<code>codex</code> CLI login - no API key, no endpoint. Pin it explicitly so you\<newline>'' @
     ''don\'t depend on auto-detect:</p>\<newline>'' @
     ''<pre><code>MEMORIZE_LLM_BACKEND=claude-cli   # or: codex-cli, or: off (rule-based)</code></pre>\<newline>'' @
     ''<p class="muted">Until a backend is set or auto-detected, consolidation is\<newline>'' @
     ''effectively a no-op (a boundary reports <code>extractor: "none"</code>).</p>\<newline>'' @
     ''\<newline>'' @
     ''<h2>Embeddings - semantic search</h2>\<newline>'' @
     ''<p>Without embeddings, <code>memorize search</code> is FTS5 lexical only. Point\<newline>'' @
     ''these at any OpenAI-compatible <code>/v1</code> endpoint (e.g. a local Ollama):</p>\<newline>'' @
     ''<pre><code>MEMORIZE_EMBEDDINGS_ENDPOINT=http://localhost:11434/v1/embeddings\<newline>'' @
     ''MEMORIZE_EMBEDDINGS_MODEL=bge-m3\<newline>'' @
     ''MEMORIZE_EMBEDDINGS_API_KEY=ollama</code></pre>\<newline>'' @
     ''<p class="muted">The key can be any dummy value for a keyless local server.\<newline>'' @
     ''<code>bge-m3</code> (1024-dim) gives accurate Korean semantic search.</p>\<newline>'' @
     ''\<newline>'' @
     ''<h2>Make the env reach the hooks (required)</h2>\<newline>'' @
     ''<p>Consolidation and embedding run <em>inside</em> the hooks, which Claude Code /\<newline>'' @
     ''Codex execute in a <strong>non-interactive</strong> shell that does <strong>not</strong>\<newline>'' @
     ''source <code>~/.bashrc</code>. Setting the vars only in your shell rc will not\<newline>'' @
     ''reach a hook.</p>\<newline>'' @
     ''<ul>\<newline>'' @
     '' <li><strong>Windows:</strong> set persistent <em>User</em> env vars\<newline>'' @
     '' (<code>setx MEMORIZE_LLM_BACKEND claude-cli</code>), then <strong>restart the\<newline>'' @
     '' agent</strong> - <code>setx</code> doesn\'t affect already-running processes.</li>\<newline>'' @
     '' <li><strong>macOS / Linux:</strong> set them where the agent process itself\<newline>'' @
     '' inherits them (your login environment), not just an interactive shell rc.</li>\<newline>'' @
     ''</ul>\<newline>'' @
     ''\<newline>'' @
     ''<h2>Verify</h2>\<newline>'' @
     ''<pre><code>npx @shakystar/memorize doctor</code></pre>\<newline>'' @
     ''<p>Read the <em>Memory consolidation health</em> check - once a boundary has run\<newline>'' @
     ''it reports the resolved backend (e.g. <code>via cli:claude</code>), not\<newline>'' @
     ''<code>rule-based</code> / <code>none</code>.</p>\<newline>'' @
     ''\<newline>'' @
     ''<p class="muted">All of this is local client config - the Hub only transports\<newline>'' @
     ''synced events and is never in the loop. Full variable list:\<newline>'' @
     ''<a href="'' @ (github_url @ ''/blob/main/AGENT_GUIDE.md'') @ ''">AGENT_GUIDE</a>.</p>''\<close>

definition prose_troubleshooting :: "string \<Rightarrow> string" where
  \<open>prose_troubleshooting origin =
     ''<h1>Troubleshooting the install</h1>\<newline>'' @
     ''<p class="lead">Diagnose in this order - each failure mode is distinct and the\<newline>'' @
     ''order avoids chasing symptoms. The fastest catch-all is\<newline>'' @
     ''<code>npx @shakystar/memorize doctor --json</code>.</p>\<newline>'' @
     ''\<newline>'' @
     ''<h2>1. Node present and 22+?</h2>\<newline>'' @
     ''<pre><code>node -v</code></pre>\<newline>'' @
     ''<p>If missing or old, install from <a href="https://nodejs.org">nodejs.org</a> -\<newline>'' @
     ''don\'t work around it.</p>\<newline>'' @
     ''\<newline>'' @
     ''<h2>2. <code>EACCES</code> on <code>npm install -g</code>?</h2>\<newline>'' @
     ''<p>The global npm dir is root-owned on many systems. Never sudo - use a user-owned\<newline>'' @
     ''prefix:</p>\<newline>'' @
     ''<pre><code>mkdir -p ~/.npm-global &amp;&amp; npm config set prefix ~/.npm-global\<newline>'' @
     ''# then add to your shell profile and re-open the terminal:\<newline>'' @
     ''export PATH="$HOME/.npm-global/bin:$PATH"</code></pre>\<newline>'' @
     ''\<newline>'' @
     ''<h2>3. Binary not resolvable?</h2>\<newline>'' @
     ''<pre><code>command -v memorize        # where.exe memorize on Windows</code></pre>\<newline>'' @
     ''<p>After a global install the current shell may not see the new PATH - open a new\<newline>'' @
     ''terminal. On Windows, confirm <code>npm prefix -g</code> is on PATH.</p>\<newline>'' @
     ''\<newline>'' @
     ''<h2>4. WSL shadowing</h2>\<newline>'' @
     ''<p>Inside WSL, <code>which memorize</code> returning a <code>/mnt/c/...</code> path\<newline>'' @
     ''means the Windows install is leaking through PATH. Install inside WSL and ensure\<newline>'' @
     ''the Linux npm bin dir precedes <code>/mnt/c</code> entries in PATH.</p>\<newline>'' @
     ''\<newline>'' @
     ''<h2>5. Installed but unhealthy?</h2>\<newline>'' @
     ''<pre><code>npx @shakystar/memorize doctor --json</code></pre>\<newline>'' @
     ''<p>Apply each issue\'s <code>fix</code> field in order until status is\<newline>'' @
     ''<code>ok</code>. Hooks load at session start, so start a <strong>new</strong>\<newline>'' @
     ''agent session to see injected context.</p>\<newline>'' @
     ''\<newline>'' @
     ''<p class="muted">Still stuck? Gather <code>node -v</code>, <code>npm -v</code>,\<newline>'' @
     ''<code>npm prefix -g</code>, your OS/shell, the full error, and the doctor JSON,\<newline>'' @
     ''then <a href="'' @ github_url @ ''/issues">open an issue</a>.</p>''\<close>

definition prose_event_sourcing :: "string \<Rightarrow> string" where
  \<open>prose_event_sourcing origin =
     ''<h1>Event sourcing core</h1>\<newline>'' @
     ''<p class="lead">memorize records every change as an immutable event in an\<newline>'' @
     ''append-only log. That log is the single source of truth; everything you read back\<newline>'' @
     ''(tasks, memories, rules) is a projection derived from it. This page describes how\<newline>'' @
     ''the core works, at the level of the actual implementation in memorize 2.x.</p>\<newline>'' @
     ''\<newline>'' @
     ''<h2>The event</h2>\<newline>'' @
     ''<p>Every change is one row in an <code>events</code> table. An event carries an\<newline>'' @
     ''identity, an ordering key, a type, the scope it touches, who produced it, and a\<newline>'' @
     ''JSON payload:</p>\<newline>'' @
     ''<pre><code>events(\<newline>'' @
     ''  seq         INTEGER PRIMARY KEY,  -- replay order, assigned by SQLite\<newline>'' @
     ''  id          TEXT UNIQUE,          -- global id, the idempotency key\<newline>'' @
     ''  type        TEXT,                 -- e.g. task.created, memory.consolidated\<newline>'' @
     ''  project_id  TEXT,\<newline>'' @
     ''  scope_type  TEXT, scope_id TEXT,  -- policy | project | workstream | task | session\<newline>'' @
     ''  actor       TEXT,\<newline>'' @
     ''  created_at  TEXT, updated_at TEXT,\<newline>'' @
     ''  payload     TEXT                  -- JSON\<newline>'' @
     '')</code></pre>\<newline>'' @
     ''<p>Ids look like <code>evt_&lt;base36-time&gt;_&lt;random&gt;</code> and are minted\<newline>'' @
     ''once, globally. Two columns do two different jobs: <code>seq</code> is a local\<newline>'' @
     ''auto-increment that fixes replay order on this machine, and <code>id</code> is the\<newline>'' @
     ''stable global identity used for deduplication and for sync watermarks. The shape is\<newline>'' @
     ''the <code>DomainEvent</code> interface in <code>src/domain/events.ts</code>; the\<newline>'' @
     ''table and its indexes are created by the migrations in\<newline>'' @
     ''<code>src/storage/db.ts</code>.</p>\<newline>'' @
     ''\<newline>'' @
     ''<h2>Storage</h2>\<newline>'' @
     ''<p>The store is SQLite through better-sqlite3, one database file per project. It\<newline>'' @
     ''runs in WAL mode with a 5 second busy timeout, so a reader and a writer do not\<newline>'' @
     ''block each other and a brief lock is retried instead of failing. Schema changes are\<newline>'' @
     ''an ordered, append-only list of migrations gated by SQLite\'s\<newline>'' @
     ''<code>user_version</code>: on open, memorize runs every migration whose index is at\<newline>'' @
     ''or above the stored version inside one <code>BEGIN IMMEDIATE</code> transaction,\<newline>'' @
     ''then bumps the version. A second process opening the same fresh database blocks on\<newline>'' @
     ''the lock, reads the already-bumped version, and applies nothing. The connection\<newline>'' @
     ''setup and the ordered <code>MIGRATIONS</code> array both live in\<newline>'' @
     ''<code>src/storage/db.ts</code>.</p>\<newline>'' @
     ''\<newline>'' @
     ''<h2>Append and idempotency</h2>\<newline>'' @
     ''<p>Writes are append-only: an event is inserted, never updated or deleted in place.\<newline>'' @
     ''A locally produced event gets the next <code>seq</code>. Events arriving from\<newline>'' @
     ''another machine are inserted with <code>INSERT OR IGNORE</code>, so a row whose\<newline>'' @
     ''<code>id</code> already exists is skipped. That one property makes re-delivery safe:\<newline>'' @
     ''pulling the same range twice inserts each event at most once. The write path is\<newline>'' @
     ''<code>insertExternalEvents</code> and the watermark read is\<newline>'' @
     ''<code>readEventsSince</code>, both in <code>src/storage/event-store.ts</code>.</p>\<newline>'' @
     ''<p>Reads always come back in <code>seq</code> order. A pull since a watermark\<newline>'' @
     ''resolves the watermark event\'s <code>seq</code> and returns everything with a\<newline>'' @
     ''greater <code>seq</code>; an unknown watermark falls back to returning everything,\<newline>'' @
     ''so a lost bookmark over-delivers rather than under-delivers.</p>\<newline>'' @
     ''\<newline>'' @
     ''<h2>Projections</h2>\<newline>'' @
     ''<p>You never read the raw log to answer a question. A single reducer,\<newline>'' @
     ''<code>reduceProjectState</code> (<code>src/projections/projector.ts</code>), folds\<newline>'' @
     ''the ordered events into state, and a rebuild (<code>rebuildProjectProjection</code>\<newline>'' @
     ''in <code>src/services/projection-store.ts</code>) wipes and repopulates the\<newline>'' @
     ''projection tables (tasks, decisions, rules, memories, and so on) in one transaction. Because the reducer is the only writer of those tables\<newline>'' @
     ''and the rebuild is all-or-nothing, the projection stays a pure function of the log.\<newline>'' @
     ''Run it twice and you get the same tables; crash halfway and the old tables stay\<newline>'' @
     ''intact until the next rebuild succeeds.</p>\<newline>'' @
     ''\<newline>'' @
     ''<h2>Invalidate, do not delete</h2>\<newline>'' @
     ''<p>Superseding a memory or a decision does not remove the old row. The reducer\<newline>'' @
     ''stamps it with an <code>invalidAt</code> timestamp and a pointer to what replaced\<newline>'' @
     ''it, then leaves it in place, so a point-in-time replay still shows what was true\<newline>'' @
     ''then. The same pattern collapses duplicate consolidations: when two machines\<newline>'' @
     ''distill the same observations into the same memory, the reducer keeps the one with\<newline>'' @
     ''the smaller <code>(created_at, id)</code> and marks the rest invalid\<newline>'' @
     ''(<code>dedupeMemoriesBySource</code>, in the projector). Every machine picks the same\<newline>'' @
     ''winner, so the result converges with no coordination.</p>\<newline>'' @
     ''\<newline>'' @
     ''<h2>Crash consistency</h2>\<newline>'' @
     ''<p>Applying a pull (<code>applyPullResponse</code> in\<newline>'' @
     ''<code>src/services/sync-service.ts</code>) is ordered on purpose: insert the events\<newline>'' @
     ''(<code>INSERT OR IGNORE</code>), rebuild the projection, then advance the watermark\<newline>'' @
     ''last. If the process dies before the watermark advances, the bookmark is stale, so\<newline>'' @
     ''the next pull requests the same range again; the duplicate inserts are ignored and\<newline>'' @
     ''the idempotent rebuild repeats harmlessly. No fsync dance and no torn-line parsing\<newline>'' @
     ''are needed, because each batch is one SQLite transaction and the log is\<newline>'' @
     ''append-only.</p>\<newline>'' @
     ''\<newline>'' @
     ''<h2>Why it is built this way</h2>\<newline>'' @
     ''<p>An append-only log plus an idempotent, deterministic projection gives eventual\<newline>'' @
     ''consistency across machines with no server, no locks, and no distributed clock.\<newline>'' @
     ''Re-delivery is safe, replay is deterministic, and history is never lost. The next\<newline>'' @
     ''Internals pages cover how this log syncs between machines and how memories are\<newline>'' @
     ''ranked at retrieval time.</p>''\<close>

definition prose_sync_convergence :: "string \<Rightarrow> string" where
  \<open>prose_sync_convergence origin =
     ''<h1>Sync and convergence</h1>\<newline>'' @
     ''<p class="lead">Two machines that do not share a filesystem stay in sync by\<newline>'' @
     ''shipping the same append-only event log over HTTP. The origin pushes, the relay\<newline>'' @
     ''holds, a replica pulls later. This page traces the real path in memorize 2.x:\<newline>'' @
     ''<code>src/services/sync-service.ts</code>,\<newline>'' @
     ''<code>src/adapters/sync-transport-http.ts</code>, and the wire contract both sides\<newline>'' @
     ''implement (<code>memorize_hub/PROTOCOL.md</code>).</p>\<newline>'' @
     ''\<newline>'' @
     ''<h2>The wire</h2>\<newline>'' @
     ''<p>The HTTP transport makes two calls against the relay:</p>\<newline>'' @
     ''<pre><code>POST {base}/v1/projects/{remoteProjectId}/events   body: SyncPushRequest  -> SyncPushResponse\<newline>'' @
     ''GET  {base}/v1/projects/{remoteProjectId}/events?since={id}             -> SyncPullResponse</code></pre>\<newline>'' @
     ''<p>A push carries the pending events; a pull asks for everything after a marker. The\<newline>'' @
     ''relay treats each event as opaque JSON: it never parses or validates a payload, it\<newline>'' @
     ''only preserves insertion order. An optional bearer token rides in\<newline>'' @
     ''<code>Authorization: Bearer ...</code>.</p>\<newline>'' @
     ''\<newline>'' @
     ''<h2>Watermarks</h2>\<newline>'' @
     ''<p>Each machine keeps its own bookmarks in a sync-state file, not in the event log:\<newline>'' @
     ''<code>lastPushedEventId</code> and <code>lastPulledEventId</code>. A push slices the\<newline>'' @
     ''log with <code>readEventsSince(lastPushedEventId)</code> (every event with a greater\<newline>'' @
     ''<code>seq</code>) and sends only that; a pull sends <code>since=lastPulledEventId</code>\<newline>'' @
     ''and the relay returns the tail after it. After a successful push,\<newline>'' @
     ''<code>markPushed</code> advances the push bookmark to the relay\'s\<newline>'' @
     ''<code>lastAcceptedEventId</code>.</p>\<newline>'' @
     ''\<newline>'' @
     ''<h2>Sync bookkeeping stays local</h2>\<newline>'' @
     ''<p>Writing the sync state also appends a <code>sync.state.updated</code> event to the\<newline>'' @
     ''local log (<code>writeState</code>). That event is deliberately filtered out of every\<newline>'' @
     ''push: <code>buildPushPayload</code> drops <code>sync.state.updated</code> before\<newline>'' @
     ''sending. The reason is simple. Each machine\'s watermarks are private bookmarks into a\<newline>'' @
     ''shared log, so shipping one machine\'s bookmarks to another would only say where the\<newline>'' @
     ''first machine had read up to, which is meaningless and divergent on the second. The\<newline>'' @
     ''wire carries domain events only. A no-op push at an idle boundary writes zero sync\<newline>'' @
     ''events, to avoid log churn now that sync runs automatically.</p>\<newline>'' @
     ''\<newline>'' @
     ''<h2>Re-delivery is safe by construction</h2>\<newline>'' @
     ''<p>The client never relies on the relay to deduplicate. Applying a pull is ordered:\<newline>'' @
     ''insert the events with <code>INSERT OR IGNORE</code>, rebuild the projection, then\<newline>'' @
     ''advance <code>lastPulledEventId</code> last (<code>applyPullResponse</code>). If the\<newline>'' @
     ''process dies before the bookmark advances, the next pull requests the same range\<newline>'' @
     ''again; the duplicate inserts are ignored and the idempotent rebuild repeats with no\<newline>'' @
     ''effect. Relay-side dedup by id is recommended but optional, because the client\<newline>'' @
     ''absorbs duplicates either way.</p>\<newline>'' @
     ''\<newline>'' @
     ''<h2>Joining a project: true-replica clone</h2>\<newline>'' @
     ''<p>A second machine joins by adopting the origin\'s project id, never minting its own\<newline>'' @
     ''(<code>cloneProject</code>, memorize #30). The clone runs in a fresh directory, writes\<newline>'' @
     ''a sync state that points at the remote, binds the directory, and pulls. The remote\'s\<newline>'' @
     ''<code>project.created</code> arrives as the first event, so both machines share one\<newline>'' @
     ''identity (git analog: same commit ids, different working copy). Two guards keep this\<newline>'' @
     ''honest: clone refuses a directory already bound to a different project id (that would\<newline>'' @
     ''be a diverged-history merge, still unsupported), and the reducer throws if it ever\<newline>'' @
     ''sees two different <code>project.created</code> ids in one log instead of silently\<newline>'' @
     ''letting the last one win.</p>\<newline>'' @
     ''\<newline>'' @
     ''<h2>What actually converges</h2>\<newline>'' @
     ''<p>Sync guarantees that every machine ends up holding the same set of events, because\<newline>'' @
     ''re-delivery is idempotent and ids are global. On top of that set, two layers make the\<newline>'' @
     ''derived state agree:</p>\<newline>'' @
     ''<ul>\<newline>'' @
     '' <li><strong>Memories</strong> distilled concurrently on two machines from the same\<newline>'' @
     '' observations collapse to one. The projector groups still-valid memories by their\<newline>'' @
     '' source observation ids plus kind plus normalized text, keeps the winner by\<newline>'' @
     '' <code>(createdAt, id)</code> ascending, and marks the rest invalid\<newline>'' @
     '' (<code>dedupeMemoriesBySource</code>). It is content-keyed and pure, so every replica\<newline>'' @
     '' picks the same winner regardless of the order events arrived.</li>\<newline>'' @
     '' <li><strong>Structural entities</strong> (tasks, decisions, rules) replay in each\<newline>'' @
     '' machine\'s local <code>seq</code> order, which is the insertion order on that machine.\<newline>'' @
     '' Within one machine that order is causal, so ordinary edits agree. Concurrent edits to\<newline>'' @
     '' the same field on two machines are resolved by replay order today, not by a logical\<newline>'' @
     '' clock; a hybrid logical clock for a strict cross-machine total order is tracked as\<newline>'' @
     '' memorize #39.</li>\<newline>'' @
     ''</ul>\<newline>'' @
     ''\<newline>'' @
     ''<h2>Where the Hub fits</h2>\<newline>'' @
     ''<p>The Hub is this relay with a control plane in front. It stores the opaque events,\<newline>'' @
     ''preserves their order, deduplicates by id, and injects the internal relay token after\<newline>'' @
     ''checking your project-scoped key. It never interprets a payload, so the client schema\<newline>'' @
     ''can evolve without touching it. See <a href="/docs/connect">Connect</a> for the\<newline>'' @
     ''commands and <a href="/docs/event-sourcing">Event sourcing core</a> for the log and\<newline>'' @
     ''projection underneath.</p>''\<close>

definition prose_projection_rebuild :: "string \<Rightarrow> string" where
  \<open>prose_projection_rebuild origin =
     ''<h1>Projection and rebuild</h1>\<newline>'' @
     ''<p class="lead">The event log is the source of truth, but you never query it\<newline>'' @
     ''directly. Every read (a task, a decision, an open conflict, a valid memory) comes\<newline>'' @
     ''from a projection table that is recomputed from the log. This page covers how that\<newline>'' @
     ''read model is built and kept honest, in\<newline>'' @
     ''<code>src/services/projection-store.ts</code> and\<newline>'' @
     ''<code>src/projections/projector.ts</code>.</p>\<newline>'' @
     ''\<newline>'' @
     ''<h2>One reducer, many tables</h2>\<newline>'' @
     ''<p>A single function, <code>reduceProjectState</code>, folds the ordered events into\<newline>'' @
     ''an in-memory <code>ProjectState</code> (project, workstreams, tasks, handoffs,\<newline>'' @
     ''checkpoints, decisions, rules, conflicts, sessions, observations, memories). It is\<newline>'' @
     ''the only code that interprets events. The projection tables are sinks: nothing else\<newline>'' @
     ''writes them.</p>\<newline>'' @
     ''\<newline>'' @
     ''<h2>Replace-all rebuild</h2>\<newline>'' @
     ''<p><code>rebuildProjectProjection</code> reduces the whole log, then in one SQLite\<newline>'' @
     ''transaction deletes every projection table and re-inserts the reduced state. If the\<newline>'' @
     ''log has no <code>project.created</code> it throws rather than persist an empty\<newline>'' @
     ''project. Because the rebuild is all-or-nothing and the reducer is pure, the\<newline>'' @
     ''projection is always a deterministic function of the log: run it twice and the tables\<newline>'' @
     ''are identical; crash mid-rebuild and the previous tables stay intact until the next\<newline>'' @
     ''rebuild commits. The lexical search index (<code>search_fts</code>, SQLite FTS5) is a\<newline>'' @
     ''replace-all sink in the same transaction.</p>\<newline>'' @
     ''\<newline>'' @
     ''<h2>The one carve-out: reinforcement</h2>\<newline>'' @
     ''<p>Two columns on the <code>memories</code> table, <code>last_accessed_at</code> and\<newline>'' @
     ''<code>injection_count</code>, are not derived from events; they record that a memory\<newline>'' @
     ''was injected into a session. A naive replace-all would wipe them on every write, so\<newline>'' @
     ''the rebuild reads them before the delete and carries them over to the new rows. A\<newline>'' @
     ''true from-scratch replay (fresh database, corruption recovery) resets them, which is\<newline>'' @
     ''the accepted grade: decay stays deterministic from the log, while reinforcement is a\<newline>'' @
     ''derived-layer convenience, not part of the source of truth.</p>\<newline>'' @
     ''\<newline>'' @
     ''<h2>Reading the projection</h2>\<newline>'' @
     ''<p>Readers are plain queries over the tables: <code>getTask</code> /\<newline>'' @
     ''<code>listTasks</code>, <code>listDecisions</code> (accepted only by default,\<newline>'' @
     ''superseded on request), <code>listOpenConflicts</code> (status not resolved),\<newline>'' @
     ''<code>listValidMemories</code> (<code>invalid_at IS NULL</code>). A superseded\<newline>'' @
     ''decision or memory stays in its table so it is still findable; the status and\<newline>'' @
     ''validity columns filter the live view. For a point-in-time view,\<newline>'' @
     ''<code>getProjectStateAtRevision</code> reduces the log only up to a given event,\<newline>'' @
     ''reusing the same reducer with no table writes.</p>\<newline>'' @
     ''\<newline>'' @
     ''<h2>Why split write from read</h2>\<newline>'' @
     ''<p>An append-only log on the write side and a regenerable projection on the read side\<newline>'' @
     ''mean the read schema can change by editing the reducer and rebuilding, with no data\<newline>'' @
     ''migration of historical events. A corrupt or stale projection is repaired by running\<newline>'' @
     ''the rebuild again. The log never changes; only its interpretation does.</p>''\<close>

definition prose_memory_retrieval :: "string \<Rightarrow> string" where
  \<open>prose_memory_retrieval origin =
     ''<h1>Memory model and retrieval</h1>\<newline>'' @
     ''<p class="lead">memorize keeps two layers of memory and ranks them at retrieval time,\<newline>'' @
     ''so the next session opens with the few memories that matter. This page covers the two\<newline>'' @
     ''layers and the exact ranking, from\<newline>'' @
     ''<code>src/services/memory-retrieval-service.ts</code>.</p>\<newline>'' @
     ''\<newline>'' @
     ''<h2>Two layers</h2>\<newline>'' @
     ''<p>Short-term memory is the raw tail of <strong>observations</strong>: cheap,\<newline>'' @
     ''rule-filtered signals captured while the agent works (file writes, decisions, task\<newline>'' @
     ''transitions). Long-term memory is <strong>consolidated memories</strong>: at session\<newline>'' @
     ''boundaries a background pass distills observations into decisions, rationale, and\<newline>'' @
     ''progress, each scored with a salience from 1 to 10. Both are events\<newline>'' @
     ''(<code>observation.captured</code>, <code>memory.consolidated</code>) and both land in\<newline>'' @
     ''the same projection, so retrieval can rank them together.</p>\<newline>'' @
     ''\<newline>'' @
     ''<h2>The score</h2>\<newline>'' @
     ''<p>Retrieval (<code>retrieveMemoryContext</code>) puts both layers in one pool, scores\<newline>'' @
     ''each entry, then takes the best that fit a character budget. The pieces:</p>\<newline>'' @
     ''<pre><code>recency(age)      = exp(-ln2 * ageDays / 14)        # 1.0 fresh, 0.5 at 14 days\<newline>'' @
     ''memory.base       = 0.5 * (salience / 10) + 0.5 * recency(reference)\<newline>'' @
     ''memory.score      = 0.7 * (base + relevanceBoost)\<newline>'' @
     ''observation.score = 0.3 * recency(createdAt)</code></pre>\<newline>'' @
     ''<p>The half-life is 14 days, so a memory loses half its recency weight every two\<newline>'' @
     ''weeks. <code>reference</code> is the later of the memory\'s creation and its last\<newline>'' @
     ''access, so a memory that keeps getting injected decays from when it was last used, not\<newline>'' @
     ''when it was made. The <code>relevanceBoost</code> is 0.3 when a lexical (FTS5) search\<newline>'' @
     ''on the current task title matches the memory; with embeddings configured it becomes a\<newline>'' @
     ''graded semantic boost (0.3 times cosine similarity), and the stronger of the two is\<newline>'' @
     ''used. Long-term memories carry a 0.7 layer weight and short-term observations 0.3,\<newline>'' @
     ''which biases the mix toward consolidated meaning over raw tail without giving either a\<newline>'' @
     ''fixed slice of the budget.</p>\<newline>'' @
     ''\<newline>'' @
     ''<h2>Budget</h2>\<newline>'' @
     ''<p>The pool is sorted by score and filled greedily up to 4000 characters, which sits\<newline>'' @
     ''inside the renderer\'s 8000-character startup budget so memory can never crowd out the\<newline>'' @
     ''task and handoff blocks. Entries that do not fit are left out; no entry is\<newline>'' @
     ''truncated.</p>\<newline>'' @
     ''\<newline>'' @
     ''<h2>Forgetting without deleting</h2>\<newline>'' @
     ''<p>Forgetting happens only at retrieval time. Nothing is deleted: a low-scoring memory\<newline>'' @
     ''just falls outside the budget and is not injected this time, and it can return when the\<newline>'' @
     ''task or the recency changes. Combined with invalidate-not-delete in the log, the full\<newline>'' @
     ''history stays intact and replayable while the working set stays small.</p>\<newline>'' @
     ''\<newline>'' @
     ''<h2>Reinforcement</h2>\<newline>'' @
     ''<p>After the chosen memories are injected, <code>reinforceInjectedMemories</code> stamps\<newline>'' @
     ''<code>last_accessed_at</code> and bumps <code>injection_count</code> on those rows\<newline>'' @
     ''(<code>touchMemoryAccess</code>). This is a projection-only update; the event log is\<newline>'' @
     ''untouched, so the append-only invariant holds. It is best-effort by design: it\<newline>'' @
     ''survives routine rebuilds via the carry-over described in\<newline>'' @
     ''<a href="/docs/projection-rebuild">Projection and rebuild</a>, and resets on a\<newline>'' @
     ''from-scratch replay. Every constant here is a tuning parameter, set from the\<newline>'' @
     ''2026-06-08 design and meant to be adjusted against real transcripts.</p>''\<close>

definition prose_performance :: "string \<Rightarrow> string" where
  \<open>prose_performance origin =
     ''<h1>Performance</h1>\<newline>'' @
     ''<p class="lead">memorize\'s retrieval is scored on a public benchmark. The strong,\<newline>'' @
     ''above-90% numbers are shown below; everything else is noted as a one-line milestone\<newline>'' @
     ''with a link to the full data. Numbers shown are measured and reproducible, not\<newline>'' @
     ''estimates.</p>\<newline>'' @
     ''\<newline>'' @
     ''<h2>Retrieval benchmark (LongMemEval-S)</h2>\<newline>'' @
     ''<p>LongMemEval-S is a public 500-question memory benchmark: each question hides its\<newline>'' @
     ''answer in one of about fifty past sessions, and memorize is scored on whether the\<newline>'' @
     ''right session comes back. Recall, the share of questions whose correct session lands\<newline>'' @
     ''in the top k, is above 90% across the board:</p>\<newline>'' @
     ''<pre><code>mode                    recall@5  recall@10  recall@20\<newline>'' @
     ''lexical (BM25)            0.966     0.986      0.994\<newline>'' @
     ''hybrid (BM25 + bge-m3)    0.978     0.994      1.000</code></pre>\<newline>'' @
     ''<p>Lexical search alone puts the right session in the top five for about 97% of\<newline>'' @
     ''questions; adding semantic search (bge-m3) lifts the harder, paraphrased cases to a\<newline>'' @
     ''perfect top-20. These are search-layer recall scores, not answer accuracy. Reproduce\<newline>'' @
     ''with <code>pnpm benchmark:retrieval bm25</code>; the full method and the\<newline>'' @
     ''ranking-quality metrics are in the\<newline>'' @
     ''<a href="'' @ github_url @ ''/discussions/176">benchmark discussion</a>.</p>\<newline>'' @
     ''\<newline>'' @
     ''<h2>Milestones</h2>\<newline>'' @
     ''<ul>\<newline>'' @
     '' <li>Ranking quality (ndcg, mrr) is strong and improves with semantic search; the\<newline>'' @
     '' figures are in the <a href="'' @ github_url @
     ''/discussions/176">benchmark discussion</a>.</li>\<newline>'' @
     '' <li>Dogfooded hands-off on a real project for several days, with capture,\<newline>'' @
     '' consolidation, replacement, and injection all running with no human in the loop\<newline>'' @
     '' (<a href="'' @ github_url @ ''/discussions/98">dogfooding report</a>).</li>\<newline>'' @
     '' <li>Cross-machine async convergence verified through this Hub: two isolated machines\<newline>'' @
     '' converged on the full event set in both directions\<newline>'' @
     '' (<a href="https://github.com/shakystar/memorize_hub/blob/main/sandbox/RESULTS.md">sandbox results</a>).\<newline>'' @
     '' Sync latency is a client concern tracked as memorize #185, not a Hub bottleneck.</li>\<newline>'' @
     ''</ul>\<newline>'' @
     ''\<newline>'' @
     ''<h2>Honest limits</h2>\<newline>'' @
     ''<p>These are early results. The benchmark scores the search layer, not the\<newline>'' @
     ''consolidation above it, and dogfooding is a short run, so behavior at hundreds of\<newline>'' @
     ''memories over months is not proven yet.</p>''\<close>

definition prose_security :: "string \<Rightarrow> string" where
  \<open>prose_security origin =
     ''<h1>Security and trust model</h1>\<newline>'' @
     ''<p class="lead">The Hub is a transport. It moves your project\'s event log between\<newline>'' @
     ''machines and gates who may read or write it. This page states plainly what it\<newline>'' @
     ''stores, what it can see, and where the trust boundaries are - so you can decide\<newline>'' @
     ''what to put through it.</p>\<newline>'' @
     ''\<newline>'' @
     ''<h2>What the Hub stores</h2>\<newline>'' @
     ''<p>Two planes, kept apart on purpose:</p>\<newline>'' @
     ''<ul>\<newline>'' @
     '' <li><strong>Relay (data plane)</strong> - opaque per-project event logs, append-only\<newline>'' @
     '' ndjson. It routes only on <code>event.id</code>, deduplicates by it, and preserves\<newline>'' @
     '' order. It never parses, validates, or interprets a payload.</li>\<newline>'' @
     '' <li><strong>Gateway (control plane)</strong> - only users, project-scoped API keys,\<newline>'' @
     '' ACL, and access requests. API keys are stored as <strong>SHA-256 hashes</strong>, never\<newline>'' @
     '' plaintext; the key is shown once at generation. The control-plane database never holds\<newline>'' @
     '' event data.</li>\<newline>'' @
     ''</ul>\<newline>'' @
     ''\<newline>'' @
     ''<h2>Authentication and access</h2>\<newline>'' @
     ''<p>An API key is a bearer capability (a PAT). The gateway resolves it to a user and\<newline>'' @
     ''checks that user\'s ACL for the requested project before forwarding to the relay; a key\<newline>'' @
     ''that is not scoped to a project gets a <code>403</code>. Access is granted by an\<newline>'' @
     ''operator approving a request: signing in proves <em>who you are</em>, not <em>which\<newline>'' @
     ''projects you own</em>, so the manual approval step is the ownership gate. Keys are\<newline>'' @
     ''revocable and one key authenticates all of that user\'s approved projects.</p>\<newline>'' @
     ''\<newline>'' @
     ''<h2>In transit and at rest</h2>\<newline>'' @
     ''<p>In transit, TLS terminates at the edge; the relay itself speaks plain HTTP behind the\<newline>'' @
     ''gateway, which injects the internal relay token. At rest, by default event payloads are\<newline>'' @
     ''stored <strong>plaintext on the operator\'s machine</strong> - the Hub is\<newline>'' @
     ''operator-trusted. If you do not trust the operator with payload contents, turn on\<newline>'' @
     ''end-to-end encryption below.</p>\<newline>'' @
     ''\<newline>'' @
     ''<h2>End-to-end payload encryption</h2>\<newline>'' @
     ''<p>memorize can end-to-end-encrypt each event\'s <code>payload</code> at the sync\<newline>'' @
     ''boundary (memorize #182): the client encrypts on push and decrypts on pull with a\<newline>'' @
     ''per-project key the Hub never sees (AES-256-GCM, a self-describing\<newline>'' @
     ''<code>{ "__enc": ... }</code> envelope). Because the relay routes only on\<newline>'' @
     ''<code>event.id</code> and treats the payload as opaque, this needs no Hub change - it\<newline>'' @
     ''works through the Hub today.</p>\<newline>'' @
     ''<p><strong>What the Hub still sees, even with E2E on:</strong> the metadata -\<newline>'' @
     ''<code>event.id</code>, event type, scope, actor, plus each payload\'s <strong>size</strong>\<newline>'' @
     ''and the <strong>timing</strong> of pushes and pulls. Encryption hides payload contents,\<newline>'' @
     ''not the existence or shape of your activity. Treat your API key like a password, and use\<newline>'' @
     ''a separate key per machine so a lost device can be revoked on its own.</p>\<newline>'' @
     ''\<newline>'' @
     ''<h2>Future: key distribution</h2>\<newline>'' @
     ''<p>Provisioning the per-project encryption key is out of band today (you copy it at\<newline>'' @
     ''clone time; the Hub is not involved). A convenience path - the origin wraps the project\<newline>'' @
     ''key to each replica\'s public key and stores only the wrapped blobs on the Hub - is\<newline>'' @
     ''deferred. It would still be end-to-end (the Hub holds ciphertext and public keys only),\<newline>'' @
     ''but a relay that serves public keys is a man-in-the-middle vector, so it requires an\<newline>'' @
     ''out-of-band fingerprint verification step (TOFU / safety-number style). The Hub relays\<newline>'' @
     ''keys; it does not vouch for them.</p>\<newline>'' @
     ''\<newline>'' @
     ''<p class="muted">The exact wire rules for the encrypted envelope are in\<newline>'' @
     ''<a href="'' @ ''https://github.com/shakystar/memorize_hub'' @
     ''/blob/main/PROTOCOL.md">PROTOCOL.md</a>.</p>''\<close>

definition legacy_prose :: "string \<Rightarrow> string \<Rightarrow> string" where
  \<open>legacy_prose slug origin =
     (case map_of
        [(''overview'', prose_overview),
         (''getting-started'', prose_getting_started),
         (''connect'', prose_connect),
         (''consolidation'', prose_consolidation),
         (''troubleshooting'', prose_troubleshooting),
         (''event-sourcing'', prose_event_sourcing),
         (''sync-convergence'', prose_sync_convergence),
         (''projection-rebuild'', prose_projection_rebuild),
         (''memory-retrieval'', prose_memory_retrieval),
         (''performance'', prose_performance),
         (''security'', prose_security)] slug of
        Some prose \<Rightarrow> prose origin
      | None \<Rightarrow> [])\<close>

end
