(* ===== verification/Legacy_Pages.thy ===== *)
theory Legacy_Pages
  imports Legacy_Server Legacy_Docs
begin

text \<open>
  The HTML of the frozen gateway's pages: \<open>views.ts\<close>, the views of \<open>account.ts\<close>, \<open>dashboard.ts\<close> and
  \<open>beta.ts\<close>, \<open>landing.ts\<close> and \<open>docs.ts\<close>. As in \<open>Gateway_Pages\<close>, a page is the sequence of its bytes and
  text that is not fixed is encoded and, where the code escapes, escaped. The last part shows that no
  text filed by a visitor changes the markup of a page an operator or a participant sees.
\<close>

definition ellipsis :: string where "ellipsis = [CHR 0xE2, CHR 0x80, CHR 0xA6]"

subsection \<open>The shell\<close>

definition legacy_style :: "string" where
  \<open>legacy_style =
     '':root{color-scheme:light dark}\<newline>'' @
     ''*{box-sizing:border-box}\<newline>'' @
     ''body{font:16px/1.6 system-ui,-apple-system,"Segoe UI",sans-serif;margin:0;color:#1a1a1a;background:#fff}\<newline>'' @
     ''@media(prefers-color-scheme:dark){body{color:#e8e8e8;background:#161616}}\<newline>'' @
     ''a{color:#2563eb;text-decoration:none}\<newline>'' @
     ''@media(prefers-color-scheme:dark){a{color:#6ea8fe}}\<newline>'' @
     ''a:hover{text-decoration:underline}\<newline>'' @
     ''header.site,main,footer.site{max-width:48rem;margin:0 auto;padding-left:1.25rem;padding-right:1.25rem}\<newline>'' @
     ''body.wide header.site,body.wide main,body.wide footer.site{max-width:60rem}\<newline>'' @
     ''header.site{display:flex;justify-content:space-between;align-items:center;gap:1rem;padding-top:1.1rem;padding-bottom:1.1rem;border-bottom:1px solid #e5e5e5}\<newline>'' @
     ''@media(prefers-color-scheme:dark){header.site{border-color:#2a2a2a}}\<newline>'' @
     ''header.site .brand{font-weight:700;color:inherit;font-size:1.05rem}\<newline>'' @
     ''header.site nav a{margin-left:1rem;font-size:.92rem}\<newline>'' @
     ''main{padding-top:2rem;padding-bottom:3rem}\<newline>'' @
     ''h1{font-size:1.7rem;line-height:1.2;margin:.2rem 0 .6rem}\<newline>'' @
     ''h2{font-size:1.15rem;margin:2rem 0 .5rem}\<newline>'' @
     ''p.lead{font-size:1.1rem;color:#444}\<newline>'' @
     ''@media(prefers-color-scheme:dark){p.lead{color:#bbb}}\<newline>'' @
     ''.muted{color:#666;font-size:.9rem}\<newline>'' @
     ''@media(prefers-color-scheme:dark){.muted{color:#999}}\<newline>'' @
     ''.btn{display:inline-block;margin:1.1rem 0;padding:.65rem 1.3rem;border-radius:8px;background:#1a1a1a;color:#fff;font-weight:600}\<newline>'' @
     ''@media(prefers-color-scheme:dark){.btn{background:#e8e8e8;color:#161616}}\<newline>'' @
     ''.btn:hover{text-decoration:none;opacity:.9}\<newline>'' @
     ''code{background:#f3f3f3;padding:.12rem .35rem;border-radius:4px;font-size:.9em}\<newline>'' @
     ''@media(prefers-color-scheme:dark){code{background:#262626}}\<newline>'' @
     ''pre{background:#f6f6f6;padding:.9rem 1rem;border-radius:8px;overflow-x:auto;font-size:.86rem;line-height:1.5}\<newline>'' @
     ''@media(prefers-color-scheme:dark){pre{background:#1e1e1e}}\<newline>'' @
     ''pre code{background:none;padding:0}\<newline>'' @
     ''ol.steps{padding-left:1.2rem}ol.steps li{margin:.4rem 0}\<newline>'' @
     ''.docs-wrap{display:grid;grid-template-columns:13rem 1fr;gap:2.5rem;align-items:start}\<newline>'' @
     ''.docs-side{position:sticky;top:1.5rem}\<newline>'' @
     ''.docs-side .label{font-size:.78rem;text-transform:uppercase;letter-spacing:.04em;color:#888;margin:1.1rem 0 .4rem .5rem}\<newline>'' @
     ''.docs-side .label:first-child{margin-top:0}\<newline>'' @
     ''.docs-side ul{list-style:none;margin:0;padding:0;display:flex;flex-direction:column;gap:.1rem}\<newline>'' @
     ''.docs-side a{display:block;padding:.3rem .55rem;border-radius:6px;font-size:.95rem;color:inherit}\<newline>'' @
     ''.docs-side a:hover{background:rgba(127,127,127,.12);text-decoration:none}\<newline>'' @
     ''.docs-side a[aria-current="page"]{font-weight:700;background:rgba(127,127,127,.16)}\<newline>'' @
     ''.docs-main{min-width:0}\<newline>'' @
     ''.docs-main h1:first-child{margin-top:0}\<newline>'' @
     ''@media(max-width:640px){\<newline>'' @
     '' .docs-wrap{grid-template-columns:1fr;gap:1rem}\<newline>'' @
     '' .docs-side{position:static;border-bottom:1px solid #e5e5e5;padding-bottom:.7rem}\<newline>'' @
     '' .docs-side ul{flex-direction:row;flex-wrap:wrap;gap:.2rem .6rem}\<newline>'' @
     ''}\<newline>'' @
     ''@media(prefers-color-scheme:dark){.docs-side{border-color:#2a2a2a}}\<newline>'' @
     ''footer.site{padding-top:1.5rem;padding-bottom:2rem;margin-top:2rem;border-top:1px solid #e5e5e5;font-size:.85rem;color:#666}\<newline>'' @
     ''@media(prefers-color-scheme:dark){footer.site{border-color:#2a2a2a;color:#999}}\<newline>'' @
     ''label{display:block;margin:1rem 0 .25rem;font-weight:600}\<newline>'' @
     ''input,textarea{width:100%;padding:.5rem;border:1px solid #bbb;border-radius:6px;font:inherit;background:inherit;color:inherit}\<newline>'' @
     ''@media(prefers-color-scheme:dark){input,textarea{border-color:#3a3a3a}}\<newline>'' @
     ''button.submit{margin-top:1.25rem;padding:.6rem 1.2rem;border:0;border-radius:6px;background:#1a1a1a;color:#fff;font:inherit;cursor:pointer}\<newline>'' @
     ''@media(prefers-color-scheme:dark){button.submit{background:#e8e8e8;color:#161616}}''\<close>

definition legacy_layout :: "string \<Rightarrow> string \<Rightarrow> bool \<Rightarrow> string" where
  \<open>legacy_layout title body wide =
     ''<!doctype html><html lang="en"><head><meta charset="utf-8">\<newline>'' @
     ''<meta name="viewport" content="width=device-width, initial-scale=1">\<newline>'' @
     ''<title>'' @ escaped title @ ''</title>\<newline>'' @
     ''<style>'' @ legacy_style @ ''</style></head><body'' @
     (if wide then '' class="wide"'' else []) @ ''>\<newline>'' @
     ''<header class="site">\<newline>'' @
     '' <a class="brand" href="/">memorize Hub</a>\<newline>'' @
     '' <nav><a href="/docs">Docs</a><a href="/account">Account</a><a href="/beta">Beta</a><a href="'' @
     github_url @ ''">GitHub</a></nav>\<newline>'' @
     ''</header>\<newline>'' @
     ''<main>'' @ body @ ''</main>\<newline>'' @
     ''<footer class="site">\<newline>'' @
     '' <p>memorize Hub - the optional relay for <a href="'' @ github_url @
     ''">memorize</a>\'s cross-machine sync.\<newline>'' @
     '' AGPL-3.0. Events are stored as plaintext on the operator\'s machine (operator-trusted; not end-to-end encrypted).</p>\<newline>'' @
     ''</footer>\<newline>'' @
     ''</body></html>''\<close>

subsection \<open>The participant's page\<close>

definition signed_out_html :: "string" where
  \<open>signed_out_html =
     ''<h1>Your account</h1>\<newline>'' @
     ''<p class="lead">Sign in with GitHub to request project access and manage your sync keys.</p>\<newline>'' @
     ''<p><a class="btn" href="/account/login">Sign in with GitHub</a></p>\<newline>'' @
     ''<p class="muted">No GitHub account? You can still <a href="/beta">request access by email</a>.</p>''\<close>

definition request_html :: "string \<times> request_status \<times> string \<Rightarrow> string" where
  \<open>request_html r =
     (case r of (project, status, created) \<Rightarrow>
        ''<tr><td><code>'' @ escaped project @ ''</code></td>\<newline>'' @
        '' <td>'' @ request_status_text status @ ''</td><td class="muted">'' @ escaped created @
        ''</td></tr>'')\<close>

definition requests_html :: "(string \<times> request_status \<times> string) list \<Rightarrow> string" where
  \<open>requests_html rs =
     (if rs = [] then ''<p class="muted">No access requests yet.</p>''
      else ''<table><thead><tr><th>project</th><th>status</th><th>requested</th></tr></thead>\<newline>'' @
           ''<tbody>'' @ concat (map request_html rs) @ ''</tbody></table>'')\<close>

definition project_html :: "string \<times> string \<Rightarrow> string" where
  \<open>project_html g =
     (case g of (project, role) \<Rightarrow>
        ''<tr><td><code>'' @ escaped project @ ''</code></td>\<newline>'' @
        '' <td>'' @ escaped role @ ''</td></tr>'')\<close>

definition projects_html :: "(string \<times> string) list \<Rightarrow> string" where
  \<open>projects_html gs =
     (if gs = [] then ''<p class="muted">No approved projects yet. Request access above; an operator will approve it.</p>''
      else ''<table><thead><tr><th>project</th><th>role</th></tr></thead><tbody>'' @
           concat (map project_html gs) @ ''</tbody></table>'')\<close>

definition command_html :: "string \<Rightarrow> string" where
  \<open>command_html cmd =
     ''<div style="display:flex;gap:.5rem;align-items:center;margin:.4rem 0">\<newline>'' @
     '' <code style="flex:1;overflow-x:auto;white-space:nowrap;padding:.5rem .6rem">'' @
     escaped cmd @ ''</code>\<newline>'' @
     '' <button type="button" class="copy" style="padding:.35rem .8rem;border:0;border-radius:6px;cursor:pointer;font:inherit">copy</button></div>''\<close>

definition connect_html :: "bool \<Rightarrow> string list \<Rightarrow> string" where
  \<open>connect_html with_key commands =
     (case commands of
        [] \<Rightarrow> []
      | login # clones \<Rightarrow>
          (let note = (if with_key
             then ''<p class="muted">On another machine: log in once with the key above, then clone each\<newline>'' @
                  '' project (no token needed). Use <code>clone</code>, never <code>init</code> -\<newline>'' @
                  '' <code>init</code> forks a new empty project that will not sync.</p>''
             else ''<p class="muted">Log in once per host (replace <code>'' @ ''YOUR_KEY'' @
                  ''</code> with a key -\<newline>'' @
                  '' Generate one below), then clone each project (no token needed). Use <code>clone</code>,\<newline>'' @
                  '' never <code>init</code> - <code>init</code> forks a new empty project that will not sync.</p>'');
               reqnote = ''<p class="muted"><em>Requires memorize 2.5.0+ - run <code>memorize update</code> first.</em></p>''
           in ''<h2>Connect a machine</h2>'' @ note @ reqnote @ ''\<newline>'' @
              ''<p class="muted"><strong>1. Log in once (per host):</strong></p>'' @
              command_html login @ ''\<newline>'' @
              ''<p class="muted"><strong>2. Clone each project:</strong></p>'' @
              concat (map command_html clones)))\<close>

definition legacy_copy_script :: "string" where
  \<open>legacy_copy_script =
     ''<script>\<newline>'' @
     ''document.addEventListener(\'click\',function(e){\<newline>'' @
     '' var b=e.target;\<newline>'' @
     '' if(b&&b.classList&&b.classList.contains(\'copy\')){\<newline>'' @
     ''  var c=b.previousElementSibling;\<newline>'' @
     ''  if(c&&navigator.clipboard){navigator.clipboard.writeText(c.textContent).then(function(){\<newline>'' @
     ''   var t=b.textContent;b.textContent=\'copied\';setTimeout(function(){b.textContent=t},1200);});}\<newline>'' @
     '' }\<newline>'' @
     ''});\<newline>'' @
     ''</script>''\<close>

definition key_html :: "key_view \<Rightarrow> string" where
  \<open>key_html k =
     (let status = (case kv_revoke k of
            None \<Rightarrow> ''<span class="muted">revoked</span>''
          | Some i \<Rightarrow> ''<form method="POST" action="/account/keys/'' @ escaped i @
            ''/revoke" style="margin:0">\<newline>'' @
            '' <button class="submit" style="margin:0;padding:.3rem .7rem">Revoke</button></form>'');
          read_only = (if kv_read_only k then '' <span class="muted">(read-only)</span>'' else []);
          scope = (if kv_scopes k = [] then ''all projects'' else join '', '' (map escaped (kv_scopes k)))
      in ''<tr><td><code>'' @ escaped (kv_prefix k) @ ellipsis @ ''</code>'' @ read_only @
         ''</td>\<newline>'' @
         '' <td>'' @ escaped (kv_label k) @ ''</td><td class="muted">'' @ scope @
         ''</td>\<newline>'' @
         '' <td class="muted">'' @ escaped (kv_used k) @ ''</td><td>'' @ status @ ''</td></tr>'')\<close>

definition keys_html :: "key_view list \<Rightarrow> string" where
  \<open>keys_html ks =
     (if ks = [] then ''<p class="muted">No keys yet.</p>''
      else ''<table><thead><tr><th>key</th><th>label</th><th>scope</th><th>last used</th><th></th></tr></thead>\<newline>'' @
           ''<tbody>'' @ concat (map key_html ks) @ ''</tbody></table>'')\<close>

definition personal_html :: "string \<Rightarrow> string" where
  \<open>personal_html store =
     ''<h2>Personal memory</h2>\<newline>'' @
     ''<p class="muted">Your global, cross-project memory syncs to this account-scoped store.\<newline>'' @
     '' It is <strong>private</strong> - no other account, project, or team can reach it, and it\<newline>'' @
     '' is never grantable or shared. Any unscoped key below syncs it automatically.</p>\<newline>'' @
     ''<table><thead><tr><th>personal store id</th></tr></thead>\<newline>'' @
     ''<tbody><tr><td><code>'' @ escaped store @ ''</code></td></tr></tbody></table>''\<close>

definition box_html :: "string \<times> string \<Rightarrow> string" where
  \<open>box_html g =
     (case g of (project, role) \<Rightarrow>
        ''<label style="font-weight:400;margin:.2rem 0">\<newline>'' @
        '' <input type="checkbox" name="projects" value="'' @ escaped project @
        ''" checked style="width:auto">\<newline>'' @
        '' <code>'' @ escaped project @ ''</code> <span class="muted">('' @ escaped role @
        '')</span></label>'')\<close>

definition key_form_html :: "(string \<times> string) list \<Rightarrow> string" where
  \<open>key_form_html gs =
     ''<form method="POST" action="/account/keys">\<newline>'' @
     '' <p class="muted">Scope the key to specific projects (all selected = full access) and\<newline>'' @
     '' optionally make it read-only. A key never exceeds your role on a project.\<newline>'' @
     '' An unscoped key (no projects narrowed) also syncs your personal memory; a\<newline>'' @
     '' project-scoped key never does.</p>\<newline>'' @
     '' '' @ concat (map box_html gs) @ ''\<newline>'' @
     '' <label style="font-weight:400;margin:.4rem 0">\<newline>'' @
     ''  <input type="checkbox" name="readonly" value="1" style="width:auto"> read-only key (pull only)</label>\<newline>'' @
     '' <button class="submit" type="submit">Generate a new key</button>\<newline>'' @
     ''</form>''\<close>

definition issued_html :: "string \<times> string list \<Rightarrow> string" where
  \<open>issued_html issued =
     (case issued of (key, commands) \<Rightarrow>
        ''<div style="background:#fffbdd;border:1px solid #d4a72c;padding:1rem;border-radius:8px;margin:1rem 0">\<newline>'' @
        '' <strong>New API key '' @ em_dash @
        '' copy it now, it is shown only once:</strong><br>\<newline>'' @
        '' <code>'' @ escaped key @ ''</code>\<newline>'' @
        '' '' @
        (if commands = [] then [] else ''<div style="margin-top:.8rem">'' @ connect_html True commands @ ''</div>'') @
        ''</div>'')\<close>

definition account_html :: "account_view \<Rightarrow> string" where
  \<open>account_html v =
     (let notice = (case av_notice v of None \<Rightarrow> [] | Some n \<Rightarrow> if n = [] then [] else ''<p class="lead">'' @ n @ ''</p>'');
          issued = (case av_issued v of None \<Rightarrow> [] | Some i \<Rightarrow> issued_html i)
      in ''<h1>Your account</h1>\<newline>'' @
         ''<p class="muted">Signed in as <code>'' @ escaped (av_login v) @ ''</code>\<newline>'' @
         '' (<code>'' @ escaped (av_email v) @
         ''</code>) / <a href="/account/logout">sign out</a></p>\<newline>'' @
         notice @ issued @ ''\<newline>'' @
         ''\<newline>'' @
         ''<h2>Request project access</h2>\<newline>'' @
         ''<p class="muted">Enter the project id you want to sync. An operator approves access before any key works.</p>\<newline>'' @
         ''<form method="POST" action="/account/requests">\<newline>'' @
         '' <label for="project">Project id</label>\<newline>'' @
         '' <input id="project" name="projectId" required placeholder="proj_..."\<newline>'' @
         ''  pattern="[A-Za-z0-9_-]{1,128}">\<newline>'' @
         '' <label for="note">Note <span class="muted">(optional)</span></label>\<newline>'' @
         '' <textarea id="note" name="note" rows="2" placeholder="Which machines? What for?"></textarea>\<newline>'' @
         '' <button class="submit" type="submit">Request access</button>\<newline>'' @
         ''</form>\<newline>'' @
         ''<h2>Your requests</h2>\<newline>'' @
         requests_html (av_requests v) @ ''\<newline>'' @
         ''\<newline>'' @
         ''<h2>Your projects</h2>\<newline>'' @
         projects_html (av_projects v) @ ''\<newline>'' @
         ''\<newline>'' @
         personal_html (av_personal v) @ ''\<newline>'' @
         ''\<newline>'' @
         connect_html False (av_commands v) @ ''\<newline>'' @
         ''\<newline>'' @
         ''<h2>Your API keys</h2>\<newline>'' @
         keys_html (av_keys v) @ ''\<newline>'' @
         key_form_html (av_boxes v) @ legacy_copy_script)\<close>

subsection \<open>The operator's page\<close>

text \<open>\<open>esc\<close> leaves the apostrophe as it is.\<close>

definition operator_char :: "char \<Rightarrow> string" where
  "operator_char c = (if c = CHR 0x27 then [c] else html_char c)"

definition operator_esc :: "string \<Rightarrow> string" where
  "operator_esc s = concat (map operator_char (utf8_text s))"

definition operator_shell :: "string \<Rightarrow> string" where
  \<open>operator_shell body =
     ''<!doctype html><html lang="en"><head><meta charset="utf-8">\<newline>'' @
     ''<meta name="viewport" content="width=device-width, initial-scale=1">\<newline>'' @
     ''<title>memorize Hub - operator</title>\<newline>'' @
     ''<style>\<newline>'' @
     '' body{font:15px/1.5 system-ui,sans-serif;max-width:48rem;margin:3rem auto;padding:0 1rem;color:#1a1a1a}\<newline>'' @
     '' h1{font-size:1.3rem} table{border-collapse:collapse;width:100%;margin-top:1rem}\<newline>'' @
     '' th,td{border:1px solid #ddd;padding:.5rem;text-align:left;font-size:.9rem;vertical-align:top}\<newline>'' @
     '' th{background:#f6f6f6} button{padding:.35rem .75rem;border:0;border-radius:5px;cursor:pointer;font:inherit}\<newline>'' @
     '' .approve{background:#1a7f37;color:#fff} .deny{background:#cf222e;color:#fff}\<newline>'' @
     '' form.inline{display:inline} code{background:#f3f3f3;padding:.1rem .3rem;border-radius:4px;word-break:break-all}\<newline>'' @
     '' .key{background:#fffbdd;border:1px solid #d4a72c;padding:1rem;border-radius:6px;margin:1rem 0}\<newline>'' @
     '' a.btn{display:inline-block;background:#1a1a1a;color:#fff;padding:.5rem 1rem;border-radius:6px;text-decoration:none}\<newline>'' @
     '' .muted{color:#666}\<newline>'' @
     ''</style></head><body>'' @ body @ ''</body></html>''\<close>

definition operator_login_html :: "string" where
  \<open>operator_login_html =
     ''<h1>memorize Hub - operator</h1>\<newline>'' @
     ''<p class="muted">Sign in with an authorized GitHub account to review beta access requests.</p>\<newline>'' @
     ''<p><a class="btn" href="/admin/login">Sign in with GitHub</a></p>''\<close>

definition pending_html :: "request_row \<Rightarrow> string" where
  \<open>pending_html r =
     ''<tr>\<newline>'' @
     '' <td><code>'' @ operator_esc (lr_id r) @ ''</code></td>\<newline>'' @
     '' <td>'' @ operator_esc (lr_email r) @ ''</td>\<newline>'' @
     '' <td><code>'' @ operator_esc (lr_project_id r) @ ''</code></td>\<newline>'' @
     '' <td>'' @ operator_esc (or_empty (lr_note r)) @ ''</td>\<newline>'' @
     '' <td>\<newline>'' @
     ''   <form class="inline" method="POST" action="/admin/approve"><input type="hidden" name="requestId" value="'' @
     operator_esc (lr_id r) @
     ''"><select name="role" title="access role"><option value="member">member (read+write)</option><option value="viewer">viewer (read-only)</option></select> <button class="approve">Approve</button></form>\<newline>'' @
     ''   <form class="inline" method="POST" action="/admin/deny"><input type="hidden" name="requestId" value="'' @
     operator_esc (lr_id r) @ ''"><button class="deny">Deny</button></form>\<newline>'' @
     '' </td>\<newline>'' @
     ''</tr>''\<close>

definition pending_table :: "request_row list \<Rightarrow> string" where
  \<open>pending_table pending =
     (if pending = [] then ''<p>No pending requests.</p>''
      else ''<table><thead><tr><th>id</th><th>email</th><th>project</th><th>note</th><th>action</th></tr></thead><tbody>'' @
           concat (map pending_html pending) @ ''</tbody></table>'')\<close>

definition operator_html :: "string \<Rightarrow> request_row list \<Rightarrow> nat \<Rightarrow> string" where
  \<open>operator_html login pending decided =
     ''<h1>Beta access requests</h1>\<newline>'' @
     ''<p class="muted">Signed in as <code>'' @ operator_esc login @
     ''</code> / <a href="/admin/logout">sign out</a> / '' @ nat_str decided @
     '' already decided</p>\<newline>'' @
     pending_table pending\<close>

definition approved_html :: "request_row \<Rightarrow> project_role \<Rightarrow> string" where
  \<open>approved_html r role =
     ''<h1>Approved</h1>\<newline>'' @
     ''<p><code>'' @ operator_esc (lr_email r) @ ''</code> -> <code>'' @
     operator_esc (lr_project_id r) @ ''</code>\<newline>'' @
     '' as <code>'' @ operator_esc (project_role_text role) @ ''</code></p>\<newline>'' @
     ''<p class="muted">Access granted. The participant signs in at <code>/account</code> and\<newline>'' @
     ''generates their own API key '' @ em_dash @
     '' no key to courier. For a participant who cannot use\<newline>'' @
     ''GitHub login, run <code>hub-gateway-admin tokens issue '' @ operator_esc (lr_email r) @
     ''</code>.</p>\<newline>'' @
     ''<p><a class="btn" href="/admin">Back to requests</a></p>''\<close>

subsection \<open>Requests by email, landing and documentation\<close>

definition beta_form_html :: "string" where
  \<open>beta_form_html =
     ''\<newline>'' @
     ''<h1>Request beta access</h1>\<newline>'' @
     ''<p class="lead">Have a GitHub account? <a href="/account">Sign in</a> to request access\<newline>'' @
     ''and manage your keys yourself.</p>\<newline>'' @
     ''<p class="muted">Or request by email below (no login). The Hub relays memorize\'s\<newline>'' @
     ''cross-machine sync; an operator approves your request, then you receive a\<newline>'' @
     ''project-scoped API key.</p>\<newline>'' @
     ''<form method="POST" action="/beta/requests">\<newline>'' @
     '' <label for="email">Email</label>\<newline>'' @
     '' <input id="email" name="email" type="email" required placeholder="you@example.com">\<newline>'' @
     '' <label for="project">Project id</label>\<newline>'' @
     '' <input id="project" name="projectId" required placeholder="proj_...">\<newline>'' @
     '' <label for="note">Note <span class="muted">(optional)</span></label>\<newline>'' @
     '' <textarea id="note" name="note" rows="3" placeholder="Which machines? What for?"></textarea>\<newline>'' @
     '' <button class="submit" type="submit">Request access</button>\<newline>'' @
     ''</form>''\<close>

definition landing_html :: "string" where
  \<open>landing_html =
     ''<h1>Cross-machine sync for your memorize projects</h1>\<newline>'' @
     ''<p class="lead">memorize is shared memory for AI coding agents. The Hub relays that\<newline>'' @
     ''memory between machines that don\'t share a filesystem - your origin pushes, the\<newline>'' @
     ''Hub holds, your other machines pull on the next boundary.</p>\<newline>'' @
     ''\<newline>'' @
     ''<a class="btn" href="/account">Sign in to get started</a>\<newline>'' @
     ''\<newline>'' @
     ''<p class="muted"><strong>New to memorize?</strong>\<newline>'' @
     ''<a href="/docs/getting-started">Install it first -></a> (your AI assistant can do\<newline>'' @
     ''it in one step), then sign in to request a key and sync across machines. Sync is in\<newline>'' @
     ''private beta; access is project-scoped. No GitHub account?\<newline>'' @
     ''<a href="/beta">Request by email -></a>. <a href="/docs">Docs</a> /\<newline>'' @
     ''<a href="https://github.com/shakystar/memorize">memorize on GitHub</a>.</p>\<newline>'' @
     ''\<newline>'' @
     ''<h2>How it works</h2>\<newline>'' @
     ''<ol class="steps">\<newline>'' @
     '' <li><strong>Sign in</strong> with GitHub and <strong>request access</strong> for a\<newline>'' @
     '' project at <a href="/account">/account</a>.</li>\<newline>'' @
     '' <li>An operator <strong>approves</strong> your project (sign-in proves who you are,\<newline>'' @
     '' not which projects you own).</li>\<newline>'' @
     '' <li><strong>Generate your key</strong> in /account, then run <code>memorize auth login</code>\<newline>'' @
     '' once per machine (memorize 2.5.0+) - after that, <code>clone</code> and <code>sync</code> carry\<newline>'' @
     '' no token and events converge. <a href="/docs">Connect guide -></a></li>\<newline>'' @
     ''</ol>''\<close>

definition docs_item :: "string \<Rightarrow> doc_link \<Rightarrow> string" where
  \<open>docs_item slug p =
     ''<li><a href="/docs/'' @ dl_slug p @ ''"'' @
     (if dl_slug p = slug then '' aria-current="page"'' else []) @ ''>'' @ escaped (dl_title p) @
     ''</a></li>''\<close>

definition docs_side :: "string \<Rightarrow> string" where
  \<open>docs_side slug =
     ''<nav class="docs-side">'' @
     concat (map (\<lambda>s. ''<p class="label">'' @ escaped s @ ''</p><ul>'' @
         concat (map (docs_item slug) (filter (\<lambda>p. dl_section p = s) legacy_docs_pages)) @
         ''</ul>'')
       (uniq (map dl_section legacy_docs_pages))) @
     ''</nav>''\<close>

definition legacy_docs_page :: "string \<Rightarrow> string \<Rightarrow> string \<Rightarrow> string" where
  \<open>legacy_docs_page title slug content =
     legacy_layout title (''<div class="docs-wrap">'' @ docs_side slug @ ''<div class="docs-main">'' @ content @
     ''</div></div>'') True\<close>

subsection \<open>Every page\<close>

definition missing_html :: string where
  \<open>missing_html = ''<h1>Page not found</h1><p>No such docs page. <a href="/docs">Back to docs</a>.</p>''\<close>

fun in_shell :: "shell \<Rightarrow> string \<Rightarrow> string" where
  "in_shell Account_shell body = legacy_layout ''memorize Hub - account'' body False"
| "in_shell Beta_shell body = legacy_layout ''memorize Hub - beta access'' body False"
| "in_shell Operator_shell body = operator_shell body"
| "in_shell Login_shell body = legacy_layout ''memorize Hub'' body False"

fun page_html :: "legacy_page \<Rightarrow> string" where
  "page_html (Message s body) = in_shell s body"
| "page_html Landing = legacy_layout ''memorize Hub - cross-machine sync for memorize'' landing_html False"
| "page_html (Docs p origin) = legacy_docs_page (''memorize Hub - '' @ dl_title p) (dl_slug p) (legacy_prose (dl_slug p) origin)"
| "page_html Docs_missing = legacy_docs_page ''memorize Hub - docs'' []
     missing_html"
| "page_html Beta_form = in_shell Beta_shell beta_form_html"
| "page_html Signed_out = in_shell Account_shell signed_out_html"
| "page_html (Account_page v) = in_shell Account_shell (account_html v)"
| "page_html Operator_login = operator_shell operator_login_html"
| "page_html (Operator_page login pending decided) = operator_shell (operator_html login pending decided)"
| "page_html (Approved_page r role) = operator_shell (approved_html r role)"

fun sent :: "legacy_answer \<Rightarrow> response" where
  "sent (Wire r) = r"
| "sent (Html n p cookies) = Page n (page_html p) cookies"

subsection \<open>What a visitor's text can do\<close>

text \<open>The characters that open or close an element or an attribute in double quotes.\<close>

definition tag_marks :: "string \<Rightarrow> string" where
  "tag_marks s = filter (\<lambda>c. c \<noteq> CHR 0x27) (markup s)"

lemma marks_append: "tag_marks (a @ b) = tag_marks a @ tag_marks b"
  by (simp add: tag_marks_def markup_append)

lemma marks_Nil: "tag_marks [] = []"
  by (simp add: tag_marks_def markup_Nil)

lemma marks_plain: "markup s = [] \<Longrightarrow> tag_marks s = []"
  by (simp add: tag_marks_def)

lemma marks_esc: "tag_marks (operator_esc s) = []"
proof -
  have "tag_marks (operator_char c) = []" for c
    by (auto simp: operator_char_def html_char_def tag_marks_def markup_def is_markup_def dquote_def)
  then show ?thesis unfolding operator_esc_def by (simp add: tag_marks_def markup_def filter_concat comp_def)
qed

lemma marks_rows:
  "(\<And>x y. tag_marks (f x) = tag_marks (f y)) \<Longrightarrow> length xs = length ys \<Longrightarrow>
   tag_marks (concat (map f xs)) = tag_marks (concat (map f ys))"
  by (rotate_tac, induction xs ys rule: list_induct2) (simp_all add: marks_append)

lemma marks_texts: "tag_marks (escaped s) = []" "tag_marks (nat_str n) = []" "tag_marks (request_status_text st) = []"
  "tag_marks (join '', '' (map escaped ts)) = []"
proof -
  have words: "tag_marks '', '' = []" "tag_marks ''pending'' = []" "tag_marks ''approved'' = []" "tag_marks ''denied'' = []"
    by code_simp+
  then show "tag_marks (request_status_text st) = []" by (cases st) simp_all
  have plain: "tag_marks (escaped s) = []" for s by (simp add: marks_plain markup_escaped)
  have two: "join '', '' (x # y # zs) = x @ '', '' @ join '', '' (y # zs)" for x y and zs :: "string list" by simp
  show "tag_marks (join '', '' (map escaped ts)) = []"
  proof (induction ts rule: induct_list012)
    case (3 x y zs)
    then show ?case unfolding list.map two by (simp only: marks_append plain words append_Nil)
  qed (simp_all add: marks_Nil plain)
qed (simp_all add: marks_plain markup_escaped markup_nat_str)

lemmas marks_rules = marks_append marks_Nil marks_esc marks_texts append_Nil append_Nil2

text \<open>What of an account's page is not text: which parts it has and how many rows.\<close>

definition account_shape :: "account_view \<Rightarrow>
    bool \<times> nat option \<times> nat \<times> nat \<times> nat \<times> (bool \<times> bool) list \<times> nat" where
  "account_shape v =
     (truthy (av_notice v), map_option (\<lambda>i. length (snd i)) (av_issued v),
      length (av_requests v), length (av_projects v), length (av_commands v),
      map (\<lambda>k. (kv_read_only k, kv_revoke k = None)) (av_keys v), length (av_boxes v))"

lemma marks_layout: "tag_marks b = tag_marks b' \<Longrightarrow> tag_marks (legacy_layout t b w) = tag_marks (legacy_layout t' b' w)"
  unfolding legacy_layout_def by (simp only: marks_rules)

lemma marks_operator_shell: "tag_marks b = tag_marks b' \<Longrightarrow> tag_marks (operator_shell b) = tag_marks (operator_shell b')"
  unfolding operator_shell_def by (simp only: marks_rules)

lemma marks_choice:
  "(xs = [] \<longleftrightarrow> ys = []) \<Longrightarrow> tag_marks u = tag_marks v \<Longrightarrow> tag_marks (if xs = [] then a else u) = tag_marks (if ys = [] then a else v)"
  by simp

lemma marks_operator:
  assumes "length rows = length rows'"
  shows "tag_marks (operator_html l rows n) = tag_marks (operator_html l' rows' n')"
proof -
  have row: "tag_marks (pending_html r) = tag_marks (pending_html r')" for r r'
    unfolding pending_html_def by (simp only: marks_rules)
  have rows: "tag_marks (concat (map pending_html rows)) = tag_marks (concat (map pending_html rows'))"
    by (rule marks_rows) (fact row assms)+
  have "rows = [] \<longleftrightarrow> rows' = []" using assms by auto
  then have "tag_marks (pending_table rows) = tag_marks (pending_table rows')"
    unfolding pending_table_def by (rule marks_choice) (simp only: marks_append rows)
  then show ?thesis unfolding operator_html_def by (simp only: marks_rules)
qed

lemma marks_tables:
  "length rs = length rs' \<Longrightarrow> tag_marks (requests_html rs) = tag_marks (requests_html rs')"
  "length gs = length gs' \<Longrightarrow> tag_marks (projects_html gs) = tag_marks (projects_html gs')"
  "length gs = length gs' \<Longrightarrow> tag_marks (key_form_html gs) = tag_marks (key_form_html gs')"
proof -
  have request: "tag_marks (request_html r) = tag_marks (request_html r')" for r r'
    unfolding request_html_def by (cases r; cases r') (simp only: prod.case marks_rules)
  have project: "tag_marks (project_html g) = tag_marks (project_html g')" for g g'
    unfolding project_html_def by (cases g; cases g') (simp only: prod.case marks_rules)
  have box: "tag_marks (box_html g) = tag_marks (box_html g')" for g g'
    unfolding box_html_def by (cases g; cases g') (simp only: prod.case marks_rules)
  show "tag_marks (requests_html rs) = tag_marks (requests_html rs')" if l: "length rs = length rs'"
  proof -
    have "rs = [] \<longleftrightarrow> rs' = []" using l by auto
    then show ?thesis unfolding requests_html_def
      by (rule marks_choice) (simp only: marks_append marks_rows [OF request l])
  qed
  show "tag_marks (projects_html gs) = tag_marks (projects_html gs')" if l: "length gs = length gs'"
  proof -
    have "gs = [] \<longleftrightarrow> gs' = []" using l by auto
    then show ?thesis unfolding projects_html_def
      by (rule marks_choice) (simp only: marks_append marks_rows [OF project l])
  qed
  show "tag_marks (key_form_html gs) = tag_marks (key_form_html gs')" if "length gs = length gs'"
    unfolding key_form_html_def by (simp only: marks_append marks_rows [OF box that])
qed

lemma marks_connect:
  assumes "length cs = length cs'"
  shows "tag_marks (connect_html b cs) = tag_marks (connect_html b cs')"
proof -
  have cmd: "tag_marks (command_html c) = tag_marks (command_html c')" for c c'
    unfolding command_html_def by (simp only: marks_rules)
  show ?thesis
  proof (cases cs)
    case (Cons c ds)
    then obtain c' ds' where cs': "cs' = c' # ds'" "length ds = length ds'" using assms by (cases cs') auto
    show ?thesis unfolding connect_html_def Cons cs'(1) list.case Let_def
      by (simp only: marks_append cmd [of c c'] marks_rows [OF cmd cs'(2)])
  qed (use assms in \<open>simp add: connect_html_def\<close>)
qed

lemma marks_issued:
  assumes "length (snd i) = length (snd i')"
  shows "tag_marks (issued_html i) = tag_marks (issued_html i')"
proof -
  have "snd i = [] \<longleftrightarrow> snd i' = []" using assms by auto
  then have "tag_marks (if snd i = [] then [] else a @ connect_html True (snd i) @ z) =
      tag_marks (if snd i' = [] then [] else a @ connect_html True (snd i') @ z)" for a z
    by (rule marks_choice) (simp only: marks_append marks_connect [OF assms])
  note part = this [of \<open>''<div style="margin-top:.8rem">''\<close> "''</div>''"]
  show ?thesis unfolding issued_html_def case_prod_beta by (simp only: marks_rules part)
qed

lemma marks_key:
  assumes "kv_read_only k = kv_read_only k'" "kv_revoke k = None \<longleftrightarrow> kv_revoke k' = None"
  shows "tag_marks (key_html k) = tag_marks (key_html k')"
proof -
  have "tag_marks ''all projects'' = []" by code_simp
  then have scope: "tag_marks (if kv_scopes x = [] then ''all projects'' else join '', '' (map escaped (kv_scopes x))) = []" for x
    by (simp add: marks_texts)
  show ?thesis
  proof (cases "kv_revoke k")
    case None
    then show ?thesis unfolding key_html_def Let_def using assms by (simp only: marks_rules scope option.case simp_thms)
  next
    case (Some i)
    then obtain i' where "kv_revoke k' = Some i'" using assms(2) by (cases "kv_revoke k'") auto
    with Some show ?thesis unfolding key_html_def Let_def using assms(1) by (simp only: marks_rules scope option.case simp_thms)
  qed
qed

lemma marks_keys:
  assumes "map (\<lambda>k. (kv_read_only k, kv_revoke k = None)) ks = map (\<lambda>k. (kv_read_only k, kv_revoke k = None)) ks'"
  shows "tag_marks (keys_html ks) = tag_marks (keys_html ks')"
proof -
  have l: "length ks = length ks'" using arg_cong [OF assms, of length] by simp
  then have "tag_marks (concat (map key_html ks)) = tag_marks (concat (map key_html ks'))"
    using assms
  proof (induction ks ks' rule: list_induct2)
    case (Cons k ks k' ks')
    then show ?case using marks_key [of k k'] by (simp add: marks_append)
  qed simp
  moreover have "ks = [] \<longleftrightarrow> ks' = []" using l by auto
  ultimately show ?thesis unfolding keys_html_def by (intro marks_choice) (simp_all only: marks_append)
qed

lemma marks_account:
  assumes "account_shape v = account_shape v'" "tag_marks (or_empty (av_notice v)) = tag_marks (or_empty (av_notice v'))"
  shows "tag_marks (account_html v) = tag_marks (account_html v')"
proof -
  have shape: "tag_marks (or_empty (av_notice v)) = tag_marks (or_empty (av_notice v'))" "truthy (av_notice v) = truthy (av_notice v')"
    "map_option (\<lambda>i. length (snd i)) (av_issued v) = map_option (\<lambda>i. length (snd i)) (av_issued v')"
    "length (av_requests v) = length (av_requests v')" "length (av_projects v) = length (av_projects v')"
    "length (av_commands v) = length (av_commands v')" "length (av_boxes v) = length (av_boxes v')"
    "map (\<lambda>k. (kv_read_only k, kv_revoke k = None)) (av_keys v) = map (\<lambda>k. (kv_read_only k, kv_revoke k = None)) (av_keys v')"
    using assms(2) assms(1) [unfolded account_shape_def] by simp_all
  have notice: "tag_marks (case av_notice v of None \<Rightarrow> [] | Some n \<Rightarrow> if n = [] then [] else a @ n @ z) =
      tag_marks (case av_notice v' of None \<Rightarrow> [] | Some n \<Rightarrow> if n = [] then [] else a @ n @ z)" for a z
    using shape(1,2) by (cases "av_notice v"; cases "av_notice v'") (simp_all add: truthy_def or_empty_def marks_append marks_Nil)
  have issued: "tag_marks (case av_issued v of None \<Rightarrow> [] | Some i \<Rightarrow> issued_html i) =
      tag_marks (case av_issued v' of None \<Rightarrow> [] | Some i \<Rightarrow> issued_html i)"
  proof (cases "av_issued v")
    case (Some i)
    then obtain i' where i': "av_issued v' = Some i'" "length (snd i) = length (snd i')" using shape(3) by (cases "av_issued v'") auto
    then show ?thesis using Some marks_issued [OF i'(2)] by simp
  qed (use shape(3) in simp)
  have personal: "tag_marks (personal_html s) = tag_marks (personal_html s')" for s s'
    unfolding personal_html_def by (simp only: marks_rules)
  note parts = notice [of \<open>''<p class="lead">''\<close> "''</p>''"] issued marks_tables(1) [OF shape(4)] marks_tables(2) [OF shape(5)]
    marks_tables(3) [OF shape(7)] marks_connect [OF shape(6), of False] marks_keys [OF shape(8)]
    personal [of "av_personal v" "av_personal v'"]
  show ?thesis unfolding account_html_def Let_def by (simp only: marks_rules parts)
qed

lemma marks_docs: "tag_marks (page_html (Docs p a)) = tag_marks (page_html (Docs p b))"
proof -
  have plain: "tag_marks (prose_connect a) = tag_marks (prose_connect b)"
    unfolding prose_connect_def by (simp only: marks_rules)
  have rest: "prose_overview a = prose_overview b" "prose_getting_started a = prose_getting_started b"
    "prose_consolidation a = prose_consolidation b" "prose_troubleshooting a = prose_troubleshooting b"
    "prose_event_sourcing a = prose_event_sourcing b" "prose_sync_convergence a = prose_sync_convergence b"
    "prose_projection_rebuild a = prose_projection_rebuild b" "prose_memory_retrieval a = prose_memory_retrieval b"
    "prose_performance a = prose_performance b" "prose_security a = prose_security b"
    unfolding prose_overview_def prose_getting_started_def prose_consolidation_def prose_troubleshooting_def prose_event_sourcing_def
      prose_sync_convergence_def prose_projection_rebuild_def prose_memory_retrieval_def prose_performance_def prose_security_def
    by (rule refl)+
  have "tag_marks (legacy_prose s a) = tag_marks (legacy_prose s b)" for s
    unfolding legacy_prose_def map_of.simps fst_conv snd_conv fun_upd_apply using plain rest by (simp split: option.split)
  then show ?thesis
    unfolding page_html.simps legacy_docs_page_def by (intro marks_layout) (simp only: marks_append)
qed

subsection \<open>Texts put together by a handler\<close>

text \<open>
  The notice of an account's page and the answer to a submission are HTML that the handler itself
  puts together. \<open>answers\<close> says what every answer of an operation is like.
\<close>

definition answers :: "('a \<Rightarrow> bool) \<Rightarrow> 'a act \<Rightarrow> bool" where
  "answers P m \<longleftrightarrow> (\<forall>d r d'. m d = (Inr r, d') \<longrightarrow> P r)"

named_theorems answer_rules \<open>walking through the answers of an operation\<close>

lemma answers_done [answer_rules]: "P a \<Longrightarrow> answers P (done_with a)" "answers P (failing x)"
  by (simp_all add: answers_def done_with_def failing_def)

lemma answers_seq [answer_rules]: "(\<And>a. answers P (f a)) \<Longrightarrow> answers P (seq m f)"
  by (auto simp: answers_def seq_def split: prod.splits sum.splits)

lemma answers_reading [answer_rules]: "(\<And>d. answers P (f d)) \<Longrightarrow> answers P (reading f)"
  by (auto simp: answers_def reading_def)

lemma answers_if [answer_rules]: "(b \<Longrightarrow> answers P x) \<Longrightarrow> (\<not> b \<Longrightarrow> answers P y) \<Longrightarrow> answers P (if b then x else y)"
  by simp

lemma answers_option [answer_rules]:
  "(x = None \<Longrightarrow> answers P a) \<Longrightarrow> (\<And>y. x = Some y \<Longrightarrow> answers P (f y)) \<Longrightarrow> answers P (case x of None \<Rightarrow> a | Some y \<Rightarrow> f y)"
  by (cases x) simp_all

lemma answers_html [answer_rules]: "P (Html n p []) \<Longrightarrow> answers P (html n p)" "P (Wire (Redirect l cs)) \<Longrightarrow> answers P (redirected l cs)"
  by (simp_all add: html_def redirected_def answers_done)

text \<open>What the notice of a page with status \<open>n\<close> may consist of beside text.\<close>

definition notice_marks :: "nat \<Rightarrow> string" where
  "notice_marks n = (if n = 400 \<or> n = 201 then tag_marks ''<code></code>'' else [])"

definition fair_notice :: "legacy_answer \<Rightarrow> bool" where
  "fair_notice a \<longleftrightarrow>
     (\<forall>n v cs. a = Html n (Account_page v) cs \<longrightarrow> truthy (av_notice v) \<longrightarrow> tag_marks (or_empty (av_notice v)) = notice_marks n)"

lemma fair_other [answer_rules]: "fair_notice (Wire r)" "fair_notice (Html n (Message s m) cs)" "fair_notice (Html n Signed_out cs)"
  by (simp_all add: fair_notice_def)

lemma fair_account [answer_rules]:
  "(truthy (fl_notice f) \<Longrightarrow> tag_marks (or_empty (fl_notice f)) = notice_marks n) \<Longrightarrow> answers fair_notice (show_account n e k p origin f)"
  unfolding show_account_def account_dashboard_def Let_def
  by (auto simp: answers_def reading_def seq_def done_with_def html_def fair_notice_def split: prod.splits sum.splits)

lemma fair_notices:
  "tag_marks ''A project id like <code>proj_...</code> is required.'' = notice_marks 400"
  "tag_marks (''Request for <code>'' @ escaped p @ ''</code> is pending operator approval.'') = notice_marks 201"
  "tag_marks ''That key is not yours.'' = notice_marks 403" "tag_marks ''Key revoked.'' = notice_marks 200"
proof -
  show "tag_marks (''Request for <code>'' @ escaped p @ ''</code> is pending operator approval.'') = notice_marks 201"
    unfolding marks_append marks_texts notice_marks_def by code_simp
qed (code_simp+)

lemma no_notice: "fl_notice no_flash = None" "truthy None = False" "or_empty (Some x) = x"
  by (simp_all add: no_flash_def truthy_def or_empty_def)

lemma account_notices: "answers fair_notice (legacy_account e c req)"
  unfolding legacy_account_def Let_def case_prod_beta
  by (intro answer_rules) (simp_all add: no_notice fair_notices fair_notices(2) [unfolded append_Cons append_Nil])

lemma account_page_marks:
  assumes "legacy_account e c req d = (Inr (Html n (Account_page v) cs), d1)"
    and "legacy_account e' c' req' d' = (Inr (Html n (Account_page v') cs'), d1')" "account_shape v = account_shape v'"
  shows "tag_marks (page_html (Account_page v)) = tag_marks (page_html (Account_page v'))"
proof -
  have "fair_notice (Html n (Account_page v) cs)" "fair_notice (Html n (Account_page v') cs')"
    using account_notices assms(1,2) unfolding answers_def by blast+
  moreover have t: "truthy (av_notice v) = truthy (av_notice v')" using assms(3) by (simp add: account_shape_def)
  moreover have "\<not> truthy x \<Longrightarrow> or_empty x = []" for x by (cases x) (auto simp: truthy_def or_empty_def)
  ultimately have "tag_marks (or_empty (av_notice v)) = tag_marks (or_empty (av_notice v'))"
    unfolding fair_notice_def by (cases "truthy (av_notice v)") auto
  then show ?thesis unfolding page_html.simps in_shell.simps by (rule marks_layout [OF marks_account [OF assms(3)]])
qed

text \<open>The answer to a submission that was accepted, but for the two ids in it.\<close>

definition received_html :: "string \<Rightarrow> string \<Rightarrow> string" where
  \<open>received_html i p = ''<h1>Request received</h1><p>Thanks - your request <code>'' @ escaped i @
     ''</code> for '' @ ''<code>'' @ escaped p @ ''</code> is pending operator approval. You\'ll receive an '' @ ''API key by email.</p>''\<close>

lemma submission_received:
  "answers (\<lambda>a. \<forall>pg cs. a = Html 201 pg cs \<longrightarrow> (\<exists>i p. pg = Message Beta_shell (received_html i p))) (fst (beta_submit e ip req h))"
  unfolding beta_submit_def Let_def case_prod_beta fst_conv
  by (intro answer_rules) (auto simp: received_html_def)

lemma submission_marks:
  assumes "fst (beta_submit e ip req h) d = (Inr (Html 201 pg cs), d1)" "fst (beta_submit e' ip' req' h') d' = (Inr (Html 201 pg' cs'), d1')"
  shows "tag_marks (page_html pg) = tag_marks (page_html pg')"
proof -
  obtain i p i' p' where "pg = Message Beta_shell (received_html i p)" "pg' = Message Beta_shell (received_html i' p')"
    using submission_received assms unfolding answers_def by metis
  moreover have "tag_marks (received_html i p) = tag_marks (received_html i' p')"
    unfolding received_html_def by (simp only: marks_rules)
  ultimately show ?thesis by (simp add: marks_layout)
qed

text \<open>
  C18. No text can change a page of the frozen gateway: the brackets and double quotes of the
  operator's list of requests, in their order, depend on the number of pending requests alone and
  not on the emails, project ids and notes that anyone may file without signing in; those of an
  approval and of the answer to an accepted submission on nothing; those of an account's page, as
  the account handler answers any two requests with the same status, on which parts it has and how
  many rows, never on logins, emails, labels, scopes, ids, the key shown once or the project id that
  its notice repeats; and those of a documentation page not on the Host header that its commands
  repeat.
\<close>

theorem legacy_pages_keep_their_markup:
  "(length rows = length rows' \<longrightarrow>
      tag_marks (page_html (Operator_page l rows n)) = tag_marks (page_html (Operator_page l' rows' n'))) \<and>
   tag_marks (page_html (Approved_page r role)) = tag_marks (page_html (Approved_page r' role')) \<and>
   (fst (beta_submit e1 ip1 req1 h1) d1 = (Inr (Html 201 pg1 cs1), d2) \<longrightarrow>
    fst (beta_submit e3 ip3 req3 h3) d3 = (Inr (Html 201 pg3 cs3), d4) \<longrightarrow>
      tag_marks (page_html pg1) = tag_marks (page_html pg3)) \<and>
   (legacy_account e c req d = (Inr (Html status (Account_page v) cs), d5) \<longrightarrow>
    legacy_account e' c' req' d' = (Inr (Html status (Account_page v') cs'), d6) \<longrightarrow> account_shape v = account_shape v' \<longrightarrow>
      tag_marks (page_html (Account_page v)) = tag_marks (page_html (Account_page v'))) \<and>
   tag_marks (page_html (Docs p host)) = tag_marks (page_html (Docs p host'))"
proof (intro conjI impI)
  show "tag_marks (page_html (Operator_page l rows n)) = tag_marks (page_html (Operator_page l' rows' n'))"
    if "length rows = length rows'"
    unfolding page_html.simps by (rule marks_operator_shell [OF marks_operator [OF that]])
  show "tag_marks (page_html (Approved_page r role)) = tag_marks (page_html (Approved_page r' role'))"
    unfolding page_html.simps approved_html_def by (rule marks_operator_shell) (simp only: marks_rules)
qed (fact marks_docs | erule (1) submission_marks | erule (2) account_page_marks)+

end
