(* ===== verification/Legacy_Examples.thy ===== *)
theory Legacy_Examples
  imports Legacy_Pages Gateway_Examples
begin

text \<open>
  A small frozen gateway (one account with a key, a request filed at \<open>/beta\<close> and approved on the
  command line, a participant's cookie, an address that submits too often) on which the properties of
  the frozen gateway are applied.
\<close>

subsection \<open>The sample\<close>

definition lx_env :: env where "lx_env = ex_env 5"

definition lx_user :: string where "lx_user = legacy_new_id Usr (random lx_env 0 9)"

definition lx_plain :: string where "lx_plain = key_plaintext (legacy_generate_api_key lx_env (random lx_env 1 32))"

definition lx_key :: string where "lx_key = legacy_new_id Tok_key (random lx_env 2 9)"

definition lx_request :: string where "lx_request = legacy_new_id Req (random lx_env 0 9)"

definition lx_key_row :: key_row where
  "lx_key_row = \<lparr>lk_id = lx_key, lk_user_id = lx_user, lk_hash = hash_token lx_env lx_plain,
     lk_prefix = key_prefix (legacy_generate_api_key lx_env (random lx_env 1 32)), lk_label = Some ''b@x.y'',
     lk_created_at = now_iso lx_env, lk_revoked_at = None, lk_last_used_at = None, lk_read_only = False\<rparr>"

definition lx_row :: request_row where
  "lx_row = \<lparr>lr_id = lx_request, lr_email = ''b@x.y'', lr_project_id = ''p1'', lr_note = None, lr_status = Req_pending,
     lr_created_at = now_iso lx_env, lr_decided_at = None\<rparr>"

definition lx_db1 :: ldb where
  "lx_db1 = empty_ldb\<lparr>
     l_users := [\<lparr>lu_id = lx_user, lu_email = ''b@x.y'', lu_login = None, lu_created_at = now_iso lx_env\<rparr>],
     l_keys := [lx_key_row]\<rparr>"

definition lx_db2 :: ldb where
  "lx_db2 = lx_db1\<lparr>l_requests := [lx_row]\<rparr>"

definition lx_db3 :: ldb where
  "lx_db3 = lx_db1\<lparr>
     l_acl := [\<lparr>la_project_id = ''p1'', la_user_id = lx_user, la_role = ''viewer'', la_created_at = now_iso lx_env\<rparr>],
     l_requests := [lx_row\<lparr>lr_status := Req_approved, lr_decided_at := Some (now_iso lx_env)\<rparr>]\<rparr>"

lemmas act_defs = seq_def reading_def transaction_def statement_def done_with_def failing_def

lemma lx_issued: "snd (admin_cli lx_env [''tokens'', ''issue'', ''b@x.y''] empty_ldb) = lx_db1"
  by (simp add: admin_cli_def cli_issue_def first_word_def truthy_def issue_key_for_email_def upsert_user_def act_defs
      insert_user_def legacy_issue_api_key_def insert_key_def lx_db1_def lx_user_def lx_key_row_def lx_key_def lx_plain_def
      has_user_def empty_ldb_def uniq_def legacy_generate_api_key_def Let_def numeral_2_eq_2)

lemma lx_truthy: "truthy (Some lx_request)"
  by (simp add: truthy_def lx_request_def legacy_new_id_def)

lemma lx_approved: "snd (admin_cli lx_env [''requests'', ''approve'', lx_request, ''--role'', ''viewer''] lx_db2) = lx_db3"
  using lx_truthy by (simp add: admin_cli_def cli_approve_def first_word_def approve_access_request_def upsert_user_def act_defs
      insert_acl_def lx_db3_def lx_db2_def lx_db1_def lx_row_def get_access_request_def decide_access_request_def
      grant_project_access_def is_personal_id_def starts_with_def has_acl_def
      has_user_def empty_ldb_def update_where_def lx_request_def legacy_new_id_def Let_def)

definition lx_submit :: request where
  "lx_submit = ex_request ''POST'' ''/beta/requests'' None [''email=b@x.y&projectId=p1'']"

lemma lx_form: "read_form lx_submit = Some ''email=b@x.y&projectId=p1''"
  by (simp add: lx_submit_def read_form_def read_body_def ex_request_def read_chunks_iff max_form_bytes_def)

lemma lx_fields: "field (Some ''email=b@x.y&projectId=p1'') ''email'' = ''b@x.y''"
  "field (Some ''email=b@x.y&projectId=p1'') ''projectId'' = ''p1''"
  "field (Some ''email=b@x.y&projectId=p1'') ''note'' = []"
  "email_ok ''b@x.y''" "valid_project_id ''p1''"
  by code_simp+
lemma lx_submitted:
  assumes "ls_db s = lx_db1" "ls_hits s = (\<lambda>_. [])"
  shows "ls_db (snd (legacy_handle lx_env c out lx_submit s)) = lx_db2"
proof -
  have path: "meth lx_submit = ''POST''" "path lx_submit = ''/beta/requests''" by (simp_all add: lx_submit_def ex_request_def)
  have "snd (fst (beta_submit lx_env ip lx_submit (\<lambda>_. [])) lx_db1) = lx_db2" for ip
    by (simp add: beta_submit_def Let_def rate_limited_def rate_limit_def lx_form lx_fields create_access_request_def insert_request_def
        act_defs html_def lx_db2_def lx_db1_def lx_row_def lx_request_def empty_ldb_def)
  then show ?thesis
    using assms by (auto simp: legacy_handle_def legacy_route_def path on_def under_def starts_with_def on_hits_def on_db_def
        split: prod.splits sum.splits) (metis fst_conv snd_conv)+
qed

definition lx_config :: legacy_config where
  "lx_config = \<lparr>lc_port = 8080, lc_db_file = ''db'', lc_relay_url = ''http://relay'', lc_relay_token = Some ''t'',
     lc_public_url = Some ''https://hub'', lc_github_client_id = Some ''i'', lc_github_client_secret = Some ''g'',
     lc_admin_logins = [''op''], lc_session_secret = Some ''s''\<rparr>"

definition lx_outside :: "nat legacy_outside" where
  "lx_outside = \<lparr>lo_relay = (\<lambda>req n. (Some (200, ''[]''), Suc n)),
     lo_github = \<lparr>gh_token = (\<lambda>_. None), gh_user = (\<lambda>_. None), gh_emails = (\<lambda>_. None)\<rparr>, lo_address = None\<rparr>"

definition lx_identity :: legacy_identity where
  "lx_identity = \<lparr>li_token_id = lx_key, li_user_id = lx_user, li_read_only = False\<rparr>"

lemma lx_facts: "legacy_identify_token lx_env lx_db3 lx_plain = Some lx_identity"
  "get_project_role lx_db3 lx_user ''p1'' = Some Acl_viewer" "legacy_gate lx_db3 lx_identity False ''p1'' = None"
  by (simp_all add: legacy_identify_token_def lx_identity_def lx_db3_def lx_db1_def lx_key_row_def truthy_def empty_ldb_def
      get_project_role_def legacy_gate_def legacy_personal_owner_def token_covers_project_def)

subsection \<open>A run\<close>

lemma command_step: "legacy_step c s (s\<lparr>ls_db := snd (admin_cli e argv (ls_db s))\<rparr>)"
  by (rule legacy_step.command) (rule prod.collapse [symmetric])

lemma lx_run: "\<exists>s. legacy_run lx_config (legacy_start (0::nat)) s \<and> ls_db s = lx_db3"
proof -
  define s0 s1 where "s0 = legacy_start (0::nat)" and "s1 = s0\<lparr>ls_db := lx_db1\<rparr>"
  define s2 where "s2 = snd (legacy_handle lx_env lx_config lx_outside lx_submit s1)"
  have start: "ls_db s0 = empty_ldb" "ls_db s1 = lx_db1" "ls_hits s1 = (\<lambda>_. [])" by (simp_all add: s0_def s1_def legacy_start_def)
  have 1: "legacy_step lx_config s0 s1"
    using command_step [of lx_config s0 lx_env "[''tokens'', ''issue'', ''b@x.y'']"] by (simp only: start lx_issued s1_def)
  have 2: "legacy_step lx_config s1 s2"
    unfolding s2_def by (rule legacy_step.request [OF prod.collapse [symmetric]])
  have db: "ls_db s2 = lx_db2" unfolding s2_def by (rule lx_submitted) (fact start)+
  have 3: "legacy_step lx_config s2 (s2\<lparr>ls_db := lx_db3\<rparr>)"
    using command_step [of lx_config s2 lx_env "[''requests'', ''approve'', lx_request, ''--role'', ''viewer'']"]
    by (simp only: db lx_approved)
  have "(legacy_step lx_config)\<^sup>*\<^sup>* s0 (s2\<lparr>ls_db := lx_db3\<rparr>)"
    by (rule rtranclp.rtrancl_into_rtrancl [OF converse_rtranclp_into_rtranclp [OF 1 r_into_rtranclp [of "legacy_step lx_config", OF 2]] 3])
  moreover have "ls_db (s2\<lparr>ls_db := lx_db3\<rparr>) = lx_db3" by simp
  ultimately show ?thesis unfolding legacy_run_def s0_def by blast
qed

lemma legacy_takes_nothing_back_witness:
  "let d = snd (admin_cli (ex_env 9) [''requests'', ''deny'', lx_request] lx_db3)
   in get_project_role d lx_user ''p1'' = Some Acl_viewer \<and>
      (legacy_identify_token lx_env d lx_plain = Some lx_identity \<or> legacy_identify_token lx_env d lx_plain = None) \<and>
      legacy_gate d lx_identity False ''p1'' = None"
proof -
  obtain s where s: "legacy_run lx_config (legacy_start (0::nat)) s" "ls_db s = lx_db3" using lx_run by blast
  let ?d = "snd (admin_cli (ex_env 9) [''requests'', ''deny'', lx_request] lx_db3)"
  have "legacy_step lx_config s (s\<lparr>ls_db := ?d\<rparr>)"
    using command_step [of lx_config s "ex_env 9" "[''requests'', ''deny'', lx_request]"] by (simp add: s)
  then have "legacy_run lx_config s (s\<lparr>ls_db := ?d\<rparr>)" unfolding legacy_run_def by (rule r_into_rtranclp)
  from legacy_takes_nothing_back [OF s(1) this, of lx_user "''p1''" Acl_viewer lx_user lx_env lx_plain lx_identity False]
  show ?thesis using lx_facts by (simp add: s Let_def)
qed

subsection \<open>Access, sessions and the rate limit\<close>

lemma lx_ok: "lok lx_db3"
  by (simp add: lok_defs logins_ok_def lx_db3_def lx_db1_def lx_key_row_def empty_ldb_def is_personal_id_def starts_with_def)

lemma legacy_access_is_minimum_witness:
  "legacy_gate lx_db3 lx_identity False ''p1'' = None \<and> legacy_gate lx_db3 lx_identity True ''p1'' \<noteq> None \<and>
   (account_right lx_db3 lx_user ''psm_x'' = No_right) \<and>
   (case legacy_events_proxy lx_env lx_config (lo_relay lx_outside) (ex_request ''POST'' ''/v1/projects/p1/events'' None []) ''p1'' lx_db3 0 of
      ((r, d), w) \<Rightarrow> w = 0 \<and> d = lx_db3 \<and> 400 \<le> status_of r)"
proof -
  have right: "account_right lx_db3 lx_user ''p1'' = Pull_right" "scope_right lx_db3 lx_key ''p1'' = Sync_right"
    by (simp_all add: account_right_def scope_right_def legacy_token_scopes_def order_asc_def lx_db3_def lx_db1_def empty_ldb_def
        legacy_personal_owner_def get_project_role_def)
  have owner: "legacy_personal_owner lx_db3 ''psm_x'' = None"
    by (simp add: legacy_personal_owner_def lx_db3_def lx_db1_def empty_ldb_def)
  have reserved: "is_personal_id ''psm_x''" by (simp add: is_personal_id_def starts_with_def)
  let ?req = "ex_request ''POST'' ''/v1/projects/p1/events'' None []"
  obtain r d w where h: "legacy_events_proxy lx_env lx_config (lo_relay lx_outside) ?req ''p1'' lx_db3 0 = ((r, d), w)"
    by (metis prod.exhaust)
  have none: "bearer_token ?req = None" by (simp add: bearer_token_def ex_request_def)
  note use = legacy_access_is_minimum [OF lx_ok, of lx_identity _ _ lx_user lx_env lx_config "lo_relay lx_outside" ?req 0 r d w]
  show ?thesis
    using use [of False "''p1''"] use [of True "''p1''"] use [of False "''psm_x''"] h none right owner reserved
    by (auto simp: lx_identity_def mode_right_def less_eq_right_def min_def)
qed

definition lx_participant :: participant where
  "lx_participant = \<lparr>pt_user_id = ''usr_1'', pt_login = ''bob'', pt_email = ''b@x.y''\<rparr>"

lemma participant_is_operator_witness:
  "let token = sign_value (ex_env 5) (participant_json (ex_env 5) lx_participant) ''s''
   in read_participant (ex_env 6) (Some (''hub_user='' @ token)) ''s'' = Some (Some lx_participant) \<and>
      read_operator (ex_env 6) (Some (''hub_op='' @ token)) ''s'' = Some (Some ''bob'')"
proof -
  let ?t = "sign_value (ex_env 5) (participant_json (ex_env 5) lx_participant) ''s''"
  have "participant_cookie (ex_env 5) lx_participant ''s'' =
      participant_cookie_name @ ''='' @ ?t @ session_attrs ''/'' (session_ttl_ms div 1000)"
    by (simp add: participant_cookie_def)
  from participant_is_operator [OF _ _ _ this, of "ex_env 6"]
  show ?thesis
    by (simp add: Let_def ex_env_def byte_list_def session_ttl_ms_def participant_cookie_name_def operator_cookie_name_def lx_participant_def)
qed

lemma rate_limit_holds_witness:
  "let h = (\<lambda>_. []); five = replicate 5 (''ip'', 0)
   in fst (submissions (five @ [(''ip'', 1)]) h) = fst (submissions five h) @ [(''ip'', 1, False)]"
  using rate_limit_holds [of "replicate 5 (''ip'', 0)" "''ip''" 0 1]
  by (simp add: Let_def times_of_def rate_limit_def rate_window_ms_def numeral_nat)

subsection \<open>Pages\<close>

definition lx_member :: participant where
  "lx_member = \<lparr>pt_user_id = lx_user, pt_login = ''bob'', pt_email = ''b@x.y''\<rparr>"

definition lx_ask :: "string \<Rightarrow> request" where
  "lx_ask p = (ex_request ''POST'' ''/account/requests'' None [''projectId='' @ p])
     \<lparr>cookie_header := Some (participant_cookie_name @ ''='' @ sign_value lx_env (participant_json lx_env lx_member) ''s'')\<rparr>"

text \<open>Two requests for access that differ in the project: the pages differ in text alone.\<close>

lemma lx_asked:
  assumes "p \<in> {''p1'', ''p2''}"
  shows "\<exists>v d'. legacy_account (ex_env 6) lx_config (lx_ask p) lx_db1 = (Inr (Html 201 (Account_page v) []), d') \<and>
    account_shape v = (True, None, 1, 0, 0, [(False, False)], 0) \<and> fst (hd (av_requests v)) = p"
proof -
  have on: "participant_login_enabled lx_config" by (simp add: participant_login_enabled_def lx_config_def truthy_def)
  have who: "read_participant (ex_env 6) (cookie_header (lx_ask p)) ''s'' = Some (Some lx_member)"
    using participant_token [of lx_env "ex_env 6" lx_member "''s''"]
    by (simp add: lx_ask_def lx_env_def ex_env_def byte_list_def session_ttl_ms_def)
  have form: "read_form (lx_ask p) = Some (''projectId='' @ p)"
    using assms by (auto simp: lx_ask_def read_form_def read_body_def ex_request_def read_chunks_iff max_form_bytes_def)
  have fields: "Legacy_Surface.field (Some (''projectId='' @ p)) ''projectId'' = p"
    "Legacy_Surface.field (Some (''projectId='' @ p)) ''note'' = []" "valid_project_id p"
    using assms by (elim insertE emptyE; simp only:; code_simp)+
  have path: "meth (lx_ask p) = ''POST''" "path (lx_ask p) = ''/account/requests''" by (simp_all add: lx_ask_def ex_request_def)
  have secret: "the (lc_session_secret lx_config) = ''s''" by (simp add: lx_config_def)
  show ?thesis
    unfolding legacy_account_def Let_def secret form
    using on who fields path
    by (simp add: create_access_request_def insert_request_def show_account_def account_dashboard_def legacy_personal_store_def
        insert_psm_def has_user_def act_defs html_def lx_db1_def empty_ldb_def lx_member_def account_shape_def no_flash_def
        truthy_def list_project_access_def order_asc_def connect_commands_def list_api_tokens_def keys_view_def
        list_access_requests_by_email_def lx_key_row_def legacy_token_scopes_def order_desc_def Let_def)
qed

lemma legacy_pages_keep_their_markup_witness:
  "(\<exists>v v' d d'. legacy_account (ex_env 6) lx_config (lx_ask ''p1'') lx_db1 = (Inr (Html 201 (Account_page v) []), d) \<and>
     legacy_account (ex_env 6) lx_config (lx_ask ''p2'') lx_db1 = (Inr (Html 201 (Account_page v') []), d') \<and> v \<noteq> v' \<and>
     tag_marks (page_html (Account_page v)) = tag_marks (page_html (Account_page v'))) \<and>
   (let ask = (\<lambda>note. lx_row\<lparr>lr_note := Some note\<rparr>)
    in tag_marks (page_html (Operator_page ''op'' [ask ''<script>''] 0)) = tag_marks (page_html (Operator_page ''op'' [ask ''hello''] 3)) \<and>
       tag_marks ''<script>'' = ''<>'')"
proof -
  have tags: "tag_marks ''<script>'' = ''<>''" by code_simp
  obtain v d v' d' where r: "legacy_account (ex_env 6) lx_config (lx_ask ''p1'') lx_db1 = (Inr (Html 201 (Account_page v) []), d)"
    "legacy_account (ex_env 6) lx_config (lx_ask ''p2'') lx_db1 = (Inr (Html 201 (Account_page v') []), d')"
    and same: "account_shape v = account_shape v'" and "fst (hd (av_requests v)) = ''p1''" "fst (hd (av_requests v')) = ''p2''"
    using lx_asked [of "''p1''"] lx_asked [of "''p2''"] by auto
  then have "v \<noteq> v'" by auto
  moreover have "tag_marks (page_html (Account_page v)) = tag_marks (page_html (Account_page v'))"
    by (rule legacy_pages_keep_their_markup [THEN conjunct2, THEN conjunct2, THEN conjunct2, THEN conjunct1, rule_format, OF r same])
  moreover have "tag_marks (page_html (Operator_page ''op'' [lx_row\<lparr>lr_note := Some ''<script>''\<rparr>] 0)) =
      tag_marks (page_html (Operator_page ''op'' [lx_row\<lparr>lr_note := Some ''hello''\<rparr>] 3))"
    by (rule legacy_pages_keep_their_markup [THEN conjunct1, rule_format]) simp
  ultimately show ?thesis using r tags unfolding Let_def by blast
qed

end
