(* ===== verification/Spec2Isabelle.thy ===== *)
theory Spec2Isabelle
  imports Hub Replica_Server Web_Gantt Web_Canvas Web_Dialog_Views Web_Tasks_View Legacy_Examples Legacy_Pages
begin

text \<open>
  The Memorize Hub, a synchronisation server for the local memory stores of \<open>memorize\<close> clients.

  \<^bold>\<open>Parts.\<close> The relay (\<open>packages/relay\<close>) keeps one append-only log of opaque events per project and
  serves push and pull. The gateway (\<open>packages/gateway\<close>) stands in front of it: accounts, API keys,
  workspaces, members, invites, device logins, the gate that decides every access, the proxy to the
  relay with its metering, and the browser surfaces. The replica (\<open>packages/replica\<close>) hosts the
  memorize engine on the server and serves a workspace's timeline and task board. The web app
  (\<open>packages/web\<close>) shows them. \<open>packages/gateway-legacy\<close> is the gateway's frozen predecessor, kept for
  its data.

  \<^bold>\<open>Shared theories.\<close> \<open>Prelude\<close>: JavaScript's strings, insertion-ordered maps and stable sort, with
  the locales \<open>keyed_comparator\<close> and \<open>preorder_comparator\<close> (the contract of a comparator that orders by a
  key, and of one that orders up to ties) and \<open>codec\<close> and \<open>codec_chain\<close> (a format that reads back
  what it writes, and one laid over another), each interpreted where the code's comparator or format
  is defined. \<open>Json\<close>: \<open>JSON.parse\<close> and \<open>JSON.stringify\<close> with their round trip; \<open>Utf8\<close>: text as
  bytes and back, strictly and as a file is read; base64url is in \<open>Gateway_Ids\<close>.
  \<open>Clock\<close>: \<open>Date\<close>, and the record \<open>env\<close> of a request's time, randomness and hash functions. \<open>Http\<close>:
  requests, responses, route patterns, body reading, percent coding.

  \<^bold>\<open>Relay.\<close> \<open>Relay_Store\<close> is \<open>store.ts\<close>: the files as bytes, the index in memory, hydration, append,
  read, statistics. \<open>Relay_Log\<close> proves that it implements an append-only log without duplicate ids,
  also across restarts and writes cut short at any byte. \<open>Relay_Server\<close> is \<open>server.ts\<close> and \<open>config.ts\<close>.

  \<^bold>\<open>Gateway.\<close> \<open>Gateway_Db\<close> is the schema of \<open>db.ts\<close>: one record field per table, one row record per
  table, inserts that check primary keys, unique columns and references. One theory per module on
  it: \<open>Gateway_Ids\<close>, \<open>Gateway_Keys\<close>, \<open>Gateway_Accounts\<close> (with personal stores), \<open>Gateway_Stores\<close> (with
  derived and source stores), \<open>Gateway_Invites\<close>, \<open>Gateway_Session\<close> (with \<open>config.ts\<close> and \<open>http.ts\<close>),
  \<open>Gateway_Policy\<close> (with \<open>principal.ts\<close>), \<open>Gateway_Workspace\<close>, \<open>Gateway_Device\<close>, \<open>Gateway_Account\<close>,
  \<open>Gateway_Proxy\<close> (with \<open>usage.ts\<close>), \<open>Gateway_Timeline\<close>, \<open>Gateway_Overview\<close>, \<open>Gateway_Pages\<close>
  (the HTML of \<open>views.ts\<close> and \<open>web.ts\<close>, byte for byte), \<open>Gateway_Web\<close> (\<open>oauth.ts\<close>, the handlers of \<open>web.ts\<close>,
  \<open>assets.ts\<close>, \<open>spa.ts\<close>). A handler maps the database to an answer, or to the
  exception that the server turns into a 500, and the new database. \<open>Gateway_Evolution\<close> has the
  invariant of a database (\<open>gw_ok\<close>) and the relation that every operation respects (\<open>evolves\<close>),
  \<open>Gateway_Handlers\<close> lifts them to every handler, \<open>Gateway_Server\<close> composes the handlers by the route
  table into a step relation and proves what holds in every reachable state. \<open>Gateway_Examples\<close> holds
  a sample database and the concrete instances. \<open>Hub\<close> puts a relay behind the gateway's proxy.

  \<^bold>\<open>Replica.\<close> \<open>Replica_Lane\<close>: lane ids, binding, local genesis, cursors, timeline pages, the task board
  (\<open>workspace.ts\<close>, \<open>read-lane.ts\<close>, \<open>timeline.ts\<close>, \<open>tasks.ts\<close>). \<open>Replica_Author\<close>: \<open>author.ts\<close>.
  \<open>Replica_Server\<close>: \<open>index.ts\<close>, \<open>server.ts\<close>, \<open>cli.ts\<close>. The memorize engine is a third-party package and a
  record of functions over an arbitrary state; the one hypothesis on it (\<open>keeps_journal\<close>) says that
  appending an event adds that event, that a push adds nothing but events about the state of the
  sync, and that the other calls add none.

  \<^bold>\<open>Web.\<close> Under \<open>src/lib\<close>: \<open>Web_Timeline\<close> (merging and paging; browsing is proved against the replica's
  pages), \<open>Web_Feed\<close> (the live feed as a step relation in which requests end in any order),
  \<open>Web_Tasks\<close> (bars, axis and row order of the task view), \<open>Web_Router\<close> (paths and the location hook),
  \<open>Web_Api\<close> (the client of the gateway; its calls are proved against the gateway's handlers). The
  components are states with one function per event, and their view is a datatype of what is on
  screen: \<open>Web_App\<close> is \<open>App.tsx\<close>, a step relation over answers, failures and clicks in any order;
  \<open>Web_Dialogs\<close> the dialogs for creating, sharing, settings and keys, and \<open>Web_Dialog_Views\<close> what they show and
  what a click in them calls; \<open>Web_Canvas\<close> the workspace's tabs and the connect commands;
  \<open>Web_Chat\<close> the timeline's bubbles, groups, days and scroll anchoring; \<open>Web_Board\<close> the board and
  the list of tasks, \<open>Web_Tasks_View\<close> the tab around them on screen; \<open>Web_Gantt\<close> the task timeline's
  rows, arrows, window and day ticks.

  \<^bold>\<open>Legacy gateway.\<close> \<open>Legacy_Store\<close> is \<open>auth.ts\<close>, \<open>db.ts\<close> and \<open>store.ts\<close>: operations in a state monad with
  exceptions, in which a failed statement leaves what was written before it. An invariant of the
  database (\<open>lok\<close>) is carried through an operation by the rules \<open>keep_rules\<close> of the predicate \<open>keeps\<close>.
  \<open>Legacy_Access\<close> is \<open>config.ts\<close>, \<open>session.ts\<close>, \<open>proxy.ts\<close> and the limiter of \<open>beta.ts\<close>, and orders rights
  (\<open>right :: linorder\<close>) to state the gate as a minimum. \<open>Legacy_Surface\<close> has the browser surfaces, whose
  pages \<open>Legacy_Pages\<close> and \<open>Legacy_Docs\<close> write as HTML,
  \<open>Legacy_Server\<close> the route table, the operator's command line and the runs of both, with what no run
  changes (\<open>later\<close>), \<open>Legacy_Examples\<close> the concrete instances. Signing, cookies, bearer headers, body
  reading and escaping are the same code as in the successor, whose definitions are used.

  \<^bold>\<open>Recursion and fuel.\<close> The gate (\<open>authorize\<close>) recurs through derived stores to their parents as a
  partial function; that it always decides is proved in \<open>Gateway_Policy\<close>. The row order searches with
  one more than the number of tasks as fuel, which \<open>Web_Tasks\<close> proves to be enough; the JSON
  parser's fuel is bounded by the length of its input.

  \<^bold>\<open>Arguments of the model.\<close> The disk's failures, \<open>fetch\<close>, the random bytes, SHA-256 and HMAC, what
  \<open>Date.parse\<close>, \<open>Number\<close> and \<open>Buffer\<close> answer on malformed text, and the memorize engine; for the web
  components also the browser's collation, its local midnights and its date texts. Strings are
  sequences of code units up to 255; a page of the gateway is a sequence of bytes.

  \<^bold>\<open>Not modelled.\<close> The interleaving of one server's asynchronous handlers: a request is one step.
  Numbers beyond integers: a fraction is the text of its token. The JSX of the web components: element names, styling, pixel positions, and
  \<open>linearScale\<close> (floating point); the wrappers of third-party widgets in \<open>components/ui\<close>; the sample
  timelines and tasks of \<open>mock.ts\<close>; listening on ports, opening and tuning the SQLite file, and the
  end-to-end scripts.
\<close>

end
